(* ===== verification/Mongo_Values.thy ===== *)
theory Mongo_Values
  imports Mongo_Prelude
begin

text \<open>
  The two dynamically typed values the program passes around: JSON
  (\<open>serde_json::Value\<close>, used by the MCP tools, the pipelines and the query
  translator) and BSON (\<open>bson::Bson\<close>/\<open>bson::Document\<close>, used by the binary transport,
  the validators and the ingestion engine), with the typed accessors the sources call on
  them. Both object types keep insertion order and hold each key once. A 64-bit float
  is its bit pattern: no operation modelled on values does arithmetic on one.
  The constructors of \<open>bson\<close> are those of the exhaustive match in
  \<open>src/analytics/types.rs\<close> (\<open>fingerprint_value\<close>).
\<close>

type_synonym f64 = u64

subsection \<open>JSON\<close>

datatype jnum = PosInt u64 | NegInt i64 | Float f64

datatype json =
    JNull
  | JBool bool
  | JNumber jnum
  | JString string
  | JArray "json list"
  | JObject "(string \<times> json) list"

text \<open>\<open>Value::get\<close> with a string index: a field of an object, nothing on other values.\<close>

fun json_get :: "json \<Rightarrow> string \<Rightarrow> json option" where
  "json_get (JObject m) k = doc_get m k"
| "json_get _ k = None"

fun as_str :: "json \<Rightarrow> string option" where
  "as_str (JString s) = Some s"
| "as_str _ = None"

fun as_bool :: "json \<Rightarrow> bool option" where
  "as_bool (JBool b) = Some b"
| "as_bool _ = None"

fun as_array :: "json \<Rightarrow> json list option" where
  "as_array (JArray xs) = Some xs"
| "as_array _ = None"

fun as_object :: "json \<Rightarrow> (string \<times> json) list option" where
  "as_object (JObject m) = Some m"
| "as_object _ = None"

text \<open>
  \<open>as_i64\<close>: a non-negative number when it fits in 63 bits, a negative one always;
  \<open>as_u64\<close>: a non-negative integer. Floats are neither.
\<close>

fun as_i64 :: "json \<Rightarrow> int option" where
  "as_i64 (JNumber (PosInt n)) = (if uint n < 2 ^ 63 then Some (uint n) else None)"
| "as_i64 (JNumber (NegInt i)) = Some (sint i)"
| "as_i64 _ = None"

fun as_u64 :: "json \<Rightarrow> u64 option" where
  "as_u64 (JNumber (PosInt n)) = Some n"
| "as_u64 _ = None"

definition json_str_field :: "json \<Rightarrow> string \<Rightarrow> string option" where
  "json_str_field v k = Option.bind (json_get v k) as_str"

definition json_of_nat :: "nat \<Rightarrow> json" where
  "json_of_nat n = JNumber (PosInt (word_of_nat n))"

fun json_ok :: "json \<Rightarrow> bool" where
  "json_ok (JArray xs) = list_all json_ok xs"
| "json_ok (JObject m) = (doc_ok m \<and> list_all (\<lambda>kv. json_ok (snd kv)) m)"
| "json_ok _ = True"

text \<open>Induction over JSON values, with the fields of an object as pairs.\<close>

lemma json_induct [case_names JNull JBool JNumber JString JArray JObject]:
  assumes "P JNull" and "\<And>b. P (JBool b)" and "\<And>n. P (JNumber n)" and "\<And>s. P (JString s)"
    and "\<And>arr. (\<And>v. v \<in> set arr \<Longrightarrow> P v) \<Longrightarrow> P (JArray arr)"
    and "\<And>m. (\<And>k v. (k, v) \<in> set m \<Longrightarrow> P v) \<Longrightarrow> P (JObject m)"
  shows "P v"
proof (induction v)
  case (JObject m)
  have "P w" if "(k, w) \<in> set m" for k w
    using that by (rule JObject) simp
  then show ?case by (rule assms(6))
qed (use assms in auto)

subsection \<open>BSON\<close>

datatype bson =
    BDouble f64
  | BString string
  | BArray "bson list"
  | BDocument "(string \<times> bson) list"
  | BBoolean bool
  | BNull
  | BRegularExpression string string
  | BJavaScriptCode string
  | BJavaScriptCodeWithScope string "(string \<times> bson) list"
  | BInt32 i32
  | BInt64 i64
  | BTimestamp u32 u32
  | BBinary u8 bytes
  | BObjectId bytes
  | BDateTime i64
  | BSymbol string
  | BDecimal128 bytes
  | BUndefined
  | BMaxKey
  | BMinKey
  | BDbPointer string bytes

type_synonym document = "(string \<times> bson) list"

definition get_str :: "document \<Rightarrow> string \<Rightarrow> string option" where
  "get_str d k = (case doc_get d k of Some (BString s) \<Rightarrow> Some s | _ \<Rightarrow> None)"

definition get_document :: "document \<Rightarrow> string \<Rightarrow> document option" where
  "get_document d k = (case doc_get d k of Some (BDocument x) \<Rightarrow> Some x | _ \<Rightarrow> None)"

definition get_array :: "document \<Rightarrow> string \<Rightarrow> bson list option" where
  "get_array d k = (case doc_get d k of Some (BArray x) \<Rightarrow> Some x | _ \<Rightarrow> None)"

definition get_bool :: "document \<Rightarrow> string \<Rightarrow> bool option" where
  "get_bool d k = (case doc_get d k of Some (BBoolean x) \<Rightarrow> Some x | _ \<Rightarrow> None)"

definition get_i32 :: "document \<Rightarrow> string \<Rightarrow> i32 option" where
  "get_i32 d k = (case doc_get d k of Some (BInt32 x) \<Rightarrow> Some x | _ \<Rightarrow> None)"

definition get_i64 :: "document \<Rightarrow> string \<Rightarrow> i64 option" where
  "get_i64 d k = (case doc_get d k of Some (BInt64 x) \<Rightarrow> Some x | _ \<Rightarrow> None)"

fun as_document :: "bson \<Rightarrow> document option" where
  "as_document (BDocument d) = Some d"
| "as_document _ = None"

fun as_bson_array :: "bson \<Rightarrow> bson list option" where
  "as_bson_array (BArray xs) = Some xs"
| "as_bson_array _ = None"

text \<open>Induction over BSON values that tells documents and arrays from the rest.\<close>

lemma bson_induct [case_names Other BArray BDocument]:
  assumes "\<And>v. as_document v = None \<Longrightarrow> as_bson_array v = None \<Longrightarrow> P v"
    and "\<And>arr. (\<And>v. v \<in> set arr \<Longrightarrow> P v) \<Longrightarrow> P (BArray arr)"
    and "\<And>d. (\<And>k v. (k, v) \<in> set d \<Longrightarrow> P v) \<Longrightarrow> P (BDocument d)"
  shows "P v"
proof (induction v)
  case (BDocument d)
  have "P w" if "(k, w) \<in> set d" for k w
    using that by (rule BDocument) simp
  then show ?case by (rule assms(3))
next
  case (BArray arr)
  then show ?case by (rule assms(2))
qed (rule assms(1); simp)+

lemmas bson_getters = get_str_def get_document_def get_array_def get_bool_def get_i32_def get_i64_def

subsection \<open>Errors of the core\<close>

text \<open>\<open>MongoCoreError\<close> of \<open>src/error.rs\<close>; \<open>err_text\<close> is its \<open>Display\<close>.\<close>

datatype mongo_error =
    ConfigError string
  | ConnectionError string
  | OperationError string
  | ValidationError string
  | TimeoutError string
  | IngestionError string
  | TransactionPipelineError string

fun err_text :: "mongo_error \<Rightarrow> string" where
  "err_text (ConfigError m) = ''Configuration error: '' @ m"
| "err_text (ConnectionError m) = ''Connection error: '' @ m"
| "err_text (OperationError m) = ''Operation error: '' @ m"
| "err_text (ValidationError m) = ''Validation error: '' @ m"
| "err_text (TimeoutError m) = ''Timeout error: '' @ m"
| "err_text (IngestionError m) = ''Ingestion error: '' @ m"
| "err_text (TransactionPipelineError m) = ''Transaction pipeline error: '' @ m"

end
