(* ===== verification/Buffer_Pool.thy ===== *)
theory Buffer_Pool
  imports Mongo_Prelude
begin

text \<open>
  The pool of reusable byte buffers of the binary transport,
  \<open>src/transport/buffer_pool.rs\<close>: three bounded lock-free queues, one per size class.
  A buffer (\<open>BytesMut\<close>) is its contents and its capacity. A bounded queue
  (\<open>ArrayQueue\<close>) is its limit and the buffers in it, oldest first; a push on a full
  queue gives the buffer back, which the sources drop.
\<close>

record buffer =
  content :: bytes
  buf_capacity :: nat

definition with_capacity :: "nat \<Rightarrow> buffer" where
  "with_capacity n = \<lparr>content = [], buf_capacity = n\<rparr>"

definition clear_buf :: "buffer \<Rightarrow> buffer" where
  "clear_buf b = b\<lparr>content := []\<rparr>"

text \<open>\<open>BytesMut::resize(n, 0)\<close> keeps a prefix or pads with zeros, growing when it must.\<close>

definition resize_buf :: "nat \<Rightarrow> buffer \<Rightarrow> buffer" where
  "resize_buf n b =
     \<lparr>content = take n (content b) @ replicate (n - length (content b)) 0,
      buf_capacity = max n (buf_capacity b)\<rparr>"

record 'b array_queue =
  limit :: nat
  items :: "'b list"

definition aq_new :: "nat \<Rightarrow> 'b array_queue" where
  "aq_new n = \<lparr>limit = n, items = []\<rparr>"

definition aq_push :: "'b \<Rightarrow> 'b array_queue \<Rightarrow> 'b array_queue" where
  "aq_push b q = (if length (items q) < limit q then q\<lparr>items := items q @ [b]\<rparr> else q)"

definition aq_pop :: "'b array_queue \<Rightarrow> ('b \<times> 'b array_queue) option" where
  "aq_pop q = (case items q of [] \<Rightarrow> None | b # bs \<Rightarrow> Some (b, q\<lparr>items := bs\<rparr>))"

definition SMALL_SIZE :: nat where "SMALL_SIZE = 4 * 1024"
definition MEDIUM_SIZE :: nat where "MEDIUM_SIZE = 64 * 1024"
definition LARGE_SIZE :: nat where "LARGE_SIZE = 1024 * 1024"

lemmas class_sizes = SMALL_SIZE_def MEDIUM_SIZE_def LARGE_SIZE_def

record pool_config =
  small_count :: nat
  medium_count :: nat
  large_count :: nat

definition default_pool_config :: pool_config where
  "default_pool_config = \<lparr>small_count = 256, medium_count = 64, large_count = 16\<rparr>"

record buffer_pool =
  small :: "buffer array_queue"
  medium :: "buffer array_queue"
  large :: "buffer array_queue"

definition fill_queue :: "nat \<Rightarrow> nat \<Rightarrow> buffer array_queue" where
  "fill_queue n cap = ((aq_push (with_capacity cap)) ^^ n) (aq_new (max n 1))"

definition pool_new :: "pool_config \<Rightarrow> buffer_pool" where
  "pool_new c =
     \<lparr>small = fill_queue (small_count c) SMALL_SIZE,
      medium = fill_queue (medium_count c) MEDIUM_SIZE,
      large = fill_queue (large_count c) LARGE_SIZE\<rparr>"

definition checkout :: "buffer_pool \<Rightarrow> nat \<Rightarrow> buffer \<times> buffer_pool" where
  "checkout p needed =
     (if needed \<le> SMALL_SIZE then
        (case aq_pop (small p) of
           Some (b, q) \<Rightarrow> (clear_buf b, p\<lparr>small := q\<rparr>)
         | None \<Rightarrow> (with_capacity SMALL_SIZE, p))
      else if needed \<le> MEDIUM_SIZE then
        (case aq_pop (medium p) of
           Some (b, q) \<Rightarrow> (clear_buf b, p\<lparr>medium := q\<rparr>)
         | None \<Rightarrow> (with_capacity MEDIUM_SIZE, p))
      else if needed \<le> LARGE_SIZE then
        (case aq_pop (large p) of
           Some (b, q) \<Rightarrow> (clear_buf b, p\<lparr>large := q\<rparr>)
         | None \<Rightarrow> (with_capacity LARGE_SIZE, p))
      else (with_capacity needed, p))"

definition checkin :: "buffer_pool \<Rightarrow> buffer \<Rightarrow> buffer_pool" where
  "checkin p b0 =
     (let b = clear_buf b0; capacity = buf_capacity b in
      if capacity \<le> SMALL_SIZE then p\<lparr>small := aq_push b (small p)\<rparr>
      else if capacity \<le> MEDIUM_SIZE then p\<lparr>medium := aq_push b (medium p)\<rparr>
      else if capacity \<le> LARGE_SIZE then p\<lparr>large := aq_push b (large p)\<rparr>
      else p)"

subsection \<open>Invariant\<close>

text \<open>
  Each queue stays within its limit, every pooled buffer is empty, and the buffers of a
  class have the capacities of that class. The lower bounds of the medium and large
  classes come from the branch order of \<open>checkin\<close>; the small class has none, since
  \<open>checkin\<close> takes buffers of any small capacity.
\<close>

definition queue_ok :: "nat \<Rightarrow> nat \<Rightarrow> buffer array_queue \<Rightarrow> bool" where
  "queue_ok lo hi q \<longleftrightarrow>
     length (items q) \<le> limit q \<and>
     (\<forall>b \<in> set (items q). content b = [] \<and> lo \<le> buf_capacity b \<and> buf_capacity b \<le> hi)"

definition pool_ok :: "buffer_pool \<Rightarrow> bool" where
  "pool_ok p \<longleftrightarrow>
     queue_ok 0 SMALL_SIZE (small p) \<and>
     queue_ok (Suc SMALL_SIZE) MEDIUM_SIZE (medium p) \<and>
     queue_ok (Suc MEDIUM_SIZE) LARGE_SIZE (large p)"

definition pooled :: "buffer_pool \<Rightarrow> nat" where
  "pooled p = length (items (small p)) + length (items (medium p)) + length (items (large p))"

lemma queue_ok_new: "queue_ok lo hi (aq_new n)"
  by (simp add: queue_ok_def aq_new_def)

lemma queue_ok_push:
  "queue_ok lo hi q \<Longrightarrow> content b = [] \<Longrightarrow> lo \<le> buf_capacity b \<Longrightarrow> buf_capacity b \<le> hi \<Longrightarrow>
   queue_ok lo hi (aq_push b q)"
  by (auto simp: queue_ok_def aq_push_def)

lemma queue_ok_pop:
  "queue_ok lo hi q \<Longrightarrow> aq_pop q = Some (b, q') \<Longrightarrow>
   queue_ok lo hi q' \<and> content b = [] \<and> lo \<le> buf_capacity b \<and> buf_capacity b \<le> hi"
  by (auto simp: queue_ok_def aq_pop_def split: list.splits)

lemma queue_ok_fill: "lo \<le> cap \<Longrightarrow> cap \<le> hi \<Longrightarrow> queue_ok lo hi (fill_queue n cap)"
proof -
  assume h: "lo \<le> cap" "cap \<le> hi"
  have "queue_ok lo hi (((aq_push (with_capacity cap)) ^^ k) (aq_new (max n 1)))" for k
    by (induction k) (auto simp: queue_ok_new with_capacity_def h intro!: queue_ok_push)
  then show ?thesis by (simp add: fill_queue_def)
qed

lemma pool_ok_new: "pool_ok (pool_new c)"
  by (simp add: pool_ok_def pool_new_def queue_ok_fill class_sizes)

lemma pool_ok_checkout: "pool_ok p \<Longrightarrow> pool_ok (snd (checkout p n))"
  by (auto simp: pool_ok_def checkout_def split: option.splits dest: queue_ok_pop)

lemma pool_ok_checkin: "pool_ok p \<Longrightarrow> pool_ok (checkin p b)"
  by (auto simp: pool_ok_def checkin_def Let_def clear_buf_def class_sizes intro!: queue_ok_push)

lemma checkout_content: "content (fst (checkout p n)) = []"
  by (auto simp: checkout_def clear_buf_def with_capacity_def split: option.splits)

text \<open>
  The capacity a request can count on: none in the small class, where \<open>checkin\<close> may
  have pooled buffers smaller than \<open>SMALL_SIZE\<close>; more than the class below for the
  medium and large classes; the request itself above them.
\<close>

definition assured_capacity :: "nat \<Rightarrow> nat" where
  "assured_capacity n =
     (if n \<le> SMALL_SIZE then 0 else if n \<le> MEDIUM_SIZE then Suc SMALL_SIZE
      else if n \<le> LARGE_SIZE then Suc MEDIUM_SIZE else n)"

lemma checkout_capacity: "pool_ok p \<Longrightarrow> assured_capacity n \<le> buf_capacity (fst (checkout p n))"
  by (auto simp: pool_ok_def checkout_def clear_buf_def with_capacity_def assured_capacity_def
      class_sizes split: option.splits dest: queue_ok_pop)

subsection \<open>The pool as a source of empty buffers\<close>

text \<open>
  All that the frame reader needs of the pool: whatever buffer it is given has no bytes
  left over from an earlier use, so that after \<open>resize\<close> it holds exactly as many zero
  bytes as were asked for.
\<close>

locale buffer_source =
  fixes get_buffer :: "'p \<Rightarrow> nat \<Rightarrow> buffer \<times> 'p"
  assumes get_buffer_empty: "content (fst (get_buffer p n)) = []"
begin

lemma resized: "content (resize_buf n (fst (get_buffer p k))) = replicate n 0"
  by (simp add: resize_buf_def get_buffer_empty)

lemma resized_length: "length (content (resize_buf n (fst (get_buffer p k)))) = n"
  by (simp add: resized)

end

interpretation pool_source: buffer_source checkout
  by unfold_locales (rule checkout_content)

text \<open>Runs of the pool, for statements about every use of it.\<close>

datatype pool_op = Checkout nat | Checkin buffer

fun pool_step :: "buffer_pool \<Rightarrow> pool_op \<Rightarrow> buffer_pool" where
  "pool_step p (Checkout n) = snd (checkout p n)"
| "pool_step p (Checkin b) = checkin p b"

lemma pool_ok_step: "pool_ok p \<Longrightarrow> pool_ok (pool_step p x)"
  by (cases x) (simp_all add: pool_ok_checkout pool_ok_checkin)

lemma pool_ok_run: "pool_ok p \<Longrightarrow> pool_ok (foldl pool_step p xs)"
  by (induction xs arbitrary: p) (auto simp: pool_ok_step)

text \<open>
  Buffer pool invariant. After any sequence of checkouts and checkins on a freshly
  created pool, every queue is within its limit, every pooled buffer is empty and lies
  in its size class; and a checkout hands out an empty buffer with at least the capacity
  its class assures.
\<close>

theorem pool_invariant:
  "pool_ok (foldl pool_step (pool_new c) xs) \<and>
   content (fst (checkout (foldl pool_step (pool_new c) xs) n)) = [] \<and>
   assured_capacity n \<le> buf_capacity (fst (checkout (foldl pool_step (pool_new c) xs) n))"
  by (simp add: pool_ok_run pool_ok_new checkout_content checkout_capacity)

end
