(* ===== verification/Frame.thy ===== *)
theory Frame
  imports Mongo_Values Buffer_Pool
begin

text \<open>
  The wire format of the binary transport, \<open>src/transport/frame.rs\<close>: opcodes,
  priorities, the 16-bit flags field, the 10-byte header, and reading and writing of
  whole frames. A socket is modelled by the bytes it still delivers before the peer
  closes; \<open>read_exact\<close> on fewer bytes than asked for is the \<open>Io\<close> error. Writing a
  frame is the byte string that reaches the socket when the write succeeds: the vectored
  write and its completion by \<open>write_all\<close> send the same bytes.
\<close>

named_theorems frame_simps \<open>unfolding rules of the wire format\<close>

definition HEADER_SIZE :: nat where
  "HEADER_SIZE = 10"

datatype frame_error =
    InvalidOpcode u8
  | FrameTooLarge
  | DocBytesLenMismatch
  | MalformedEnvelope string
  | Io string

datatype opcode =
    Find | FindOne | InsertOne | InsertMany | UpdateOne | UpdateMany | DeleteOne | DeleteMany
  | Aggregate | CountDocuments | CreateIndex | ListCollections | RunCommand
  | FindOneAndUpdate | FindOneAndDelete | BulkWrite | Distinct | CreateCollection
  | DropCollection | OpError | Handshake

text \<open>The discriminants of \<open>#[repr(u8)] enum Opcode\<close>, i.e. the cast \<open>opcode as u8\<close>.\<close>

fun opcode_to_u8 :: "opcode \<Rightarrow> u8" where
  "opcode_to_u8 Find = 0x01"
| "opcode_to_u8 FindOne = 0x02"
| "opcode_to_u8 InsertOne = 0x03"
| "opcode_to_u8 InsertMany = 0x04"
| "opcode_to_u8 UpdateOne = 0x05"
| "opcode_to_u8 UpdateMany = 0x06"
| "opcode_to_u8 DeleteOne = 0x07"
| "opcode_to_u8 DeleteMany = 0x08"
| "opcode_to_u8 Aggregate = 0x09"
| "opcode_to_u8 CountDocuments = 0x0A"
| "opcode_to_u8 CreateIndex = 0x0B"
| "opcode_to_u8 ListCollections = 0x0C"
| "opcode_to_u8 RunCommand = 0x0D"
| "opcode_to_u8 FindOneAndUpdate = 0x0E"
| "opcode_to_u8 FindOneAndDelete = 0x0F"
| "opcode_to_u8 BulkWrite = 0x10"
| "opcode_to_u8 Distinct = 0x11"
| "opcode_to_u8 CreateCollection = 0x12"
| "opcode_to_u8 DropCollection = 0x13"
| "opcode_to_u8 OpError = 0x3E"
| "opcode_to_u8 Handshake = 0x3F"

definition opcode_from_u8 :: "u8 \<Rightarrow> frame_error + opcode" where
  "opcode_from_u8 value =
     (if value = 0x00 then Inl (InvalidOpcode 0x00)
      else if value = 0x01 then Inr Find
      else if value = 0x02 then Inr FindOne
      else if value = 0x03 then Inr InsertOne
      else if value = 0x04 then Inr InsertMany
      else if value = 0x05 then Inr UpdateOne
      else if value = 0x06 then Inr UpdateMany
      else if value = 0x07 then Inr DeleteOne
      else if value = 0x08 then Inr DeleteMany
      else if value = 0x09 then Inr Aggregate
      else if value = 0x0A then Inr CountDocuments
      else if value = 0x0B then Inr CreateIndex
      else if value = 0x0C then Inr ListCollections
      else if value = 0x0D then Inr RunCommand
      else if value = 0x0E then Inr FindOneAndUpdate
      else if value = 0x0F then Inr FindOneAndDelete
      else if value = 0x10 then Inr BulkWrite
      else if value = 0x11 then Inr Distinct
      else if value = 0x12 then Inr CreateCollection
      else if value = 0x13 then Inr DropCollection
      else if value = 0x3E then Inr OpError
      else if value = 0x3F then Inr Handshake
      else Inl (InvalidOpcode value))"

datatype priority = Normal | Low | High | Critical

fun priority_to_u8 :: "priority \<Rightarrow> u8" where
  "priority_to_u8 Normal = 0"
| "priority_to_u8 Low = 1"
| "priority_to_u8 High = 2"
| "priority_to_u8 Critical = 3"

definition priority_from_u8 :: "u8 \<Rightarrow> frame_error + priority" where
  "priority_from_u8 value =
     (if value = 0 then Inr Normal
      else if value = 1 then Inr Low
      else if value = 2 then Inr High
      else if value = 3 then Inr Critical
      else Inl (InvalidOpcode value))"

record flags =
  opcode :: opcode
  end_of_stream :: bool
  no_reply :: bool
  batch_follows :: bool
  priority :: priority

definition flags_encode :: "flags \<Rightarrow> u16" where
  "flags_encode f =
     (let bits = 0;
          bits = bits OR (ucast (opcode_to_u8 (opcode f)) AND 0x3F);
          bits = (if end_of_stream f then bits OR push_bit 6 1 else bits);
          bits = (if no_reply f then bits OR push_bit 7 1 else bits);
          bits = (if batch_follows f then bits OR push_bit 8 1 else bits)
      in bits OR push_bit 9 (ucast (priority_to_u8 (priority f)) AND 0x03))"

definition flags_decode :: "u16 \<Rightarrow> frame_error + flags" where
  "flags_decode bits =
     rbind (opcode_from_u8 (ucast (bits AND 0x3F))) (\<lambda>op.
     rbind (priority_from_u8 (ucast (drop_bit 9 bits AND 0x03))) (\<lambda>prio.
       Inr \<lparr>opcode = op,
            end_of_stream = (drop_bit 6 bits AND 1 = 1),
            no_reply = (drop_bit 7 bits AND 1 = 1),
            batch_follows = (drop_bit 8 bits AND 1 = 1),
            priority = prio\<rparr>))"

record frame_header =
  msg_len :: u32
  hflags :: flags
  req_id :: u32

definition header_encode :: "frame_header \<Rightarrow> bytes" where
  "header_encode h =
     u32_to_be (msg_len h) @ u16_to_be (flags_encode (hflags h)) @ u32_to_be (req_id h)"

text \<open>\<open>decode\<close> takes an array of exactly ten bytes; the model reads ten bytes of a list.\<close>

definition header_decode :: "bytes \<Rightarrow> frame_error + frame_header" where
  "header_decode buf =
     (let mlen = u32_from_be (buf ! 0) (buf ! 1) (buf ! 2) (buf ! 3);
          flags_raw = u16_from_be (buf ! 4) (buf ! 5)
      in rbind (flags_decode flags_raw) (\<lambda>fl.
         Inr \<lparr>msg_len = mlen, hflags = fl,
              req_id = u32_from_be (buf ! 6) (buf ! 7) (buf ! 8) (buf ! 9)\<rparr>))"

record frame =
  header :: frame_header
  envelope :: bytes
  raw_docs :: bytes

subsection \<open>Writing and reading frames\<close>

text \<open>
  \<open>write_frame\<close> computes the length field itself: flags, request id and payload, but
  not the four bytes of the length field. The cast to \<open>u32\<close> wraps.
\<close>

definition frame_msg_len :: "frame \<Rightarrow> u32" where
  "frame_msg_len f = u32_of_len (6 + (length (envelope f) + length (raw_docs f)))"

definition sent_header :: "frame \<Rightarrow> frame_header" where
  "sent_header f = \<lparr>msg_len = frame_msg_len f, hflags = hflags (header f), req_id = req_id (header f)\<rparr>"

definition write_frame :: "frame \<Rightarrow> bytes" where
  "write_frame f = header_encode (sent_header f) @ envelope f @ raw_docs f"

definition io_eof :: frame_error where
  "io_eof = Io ''early eof''"

definition read_exact :: "nat \<Rightarrow> bytes \<Rightarrow> (frame_error + bytes) \<times> bytes" where
  "read_exact n s = (if n \<le> length s then (Inr (take n s), drop n s) else (Inl io_eof, []))"

text \<open>\<open>i32 as usize\<close> sign-extends to 64 bits: a negative size becomes a huge one.\<close>

definition i32_as_usize :: "i32 \<Rightarrow> nat" where
  "i32_as_usize w = unat (scast w :: u64)"

definition bson_size :: "bytes \<Rightarrow> nat" where
  "bson_size p = i32_as_usize (u32_from_le (p ! 0) (p ! 1) (p ! 2) (p ! 3))"

definition split_payload :: "frame_header \<Rightarrow> bytes \<Rightarrow> frame_error + frame" where
  "split_payload h payload =
     (if length payload < 4 then
        Inl (MalformedEnvelope ''payload too short to contain BSON size'')
      else if bson_size payload > length payload then
        Inl (MalformedEnvelope ''BSON size exceeds payload length'')
      else Inr \<lparr>header = h, envelope = take (bson_size payload) payload,
                raw_docs = drop (bson_size payload) payload\<rparr>)"

definition payload_length :: "frame_header \<Rightarrow> nat" where
  "payload_length h = unat (msg_len h) - 6"

definition read_frame :: "u32 \<Rightarrow> bytes \<Rightarrow> (frame_error + frame) \<times> bytes" where
  "read_frame max_frame_size s =
     (case read_exact HEADER_SIZE s of
        (Inl e, s1) \<Rightarrow> (Inl e, s1)
      | (Inr hb, s1) \<Rightarrow>
        (case header_decode hb of
           Inl e \<Rightarrow> (Inl e, s1)
         | Inr h \<Rightarrow>
           if msg_len h > max_frame_size then (Inl FrameTooLarge, s1)
           else if payload_length h = 0 then
             (Inr \<lparr>header = h, envelope = [], raw_docs = []\<rparr>, s1)
           else
             (case read_exact (payload_length h) s1 of
                (Inl e, s2) \<Rightarrow> (Inl e, s2)
              | (Inr payload, s2) \<Rightarrow> (split_payload h payload, s2))))"

text \<open>
  \<open>read_frame_pooled\<close> fills a buffer taken from the pool; \<open>read_exact\<close> overwrites
  the whole of a buffer of the right length. The pool is an argument of the reader.
\<close>

definition read_into :: "buffer \<Rightarrow> bytes \<Rightarrow> (frame_error + bytes) \<times> bytes" where
  "read_into b s = read_exact (length (content b)) s"

definition read_frame_with ::
    "('p \<Rightarrow> nat \<Rightarrow> buffer \<times> 'p) \<Rightarrow> 'p \<Rightarrow> u32 \<Rightarrow> bytes \<Rightarrow> (frame_error + frame) \<times> bytes \<times> 'p" where
  "read_frame_with get_buffer p max_frame_size s =
     (case read_exact HEADER_SIZE s of
        (Inl e, s1) \<Rightarrow> (Inl e, s1, p)
      | (Inr hb, s1) \<Rightarrow>
        (case header_decode hb of
           Inl e \<Rightarrow> (Inl e, s1, p)
         | Inr h \<Rightarrow>
           if msg_len h > max_frame_size then (Inl FrameTooLarge, s1, p)
           else if payload_length h = 0 then
             (Inr \<lparr>header = h, envelope = [], raw_docs = []\<rparr>, s1, p)
           else
             (case get_buffer p (payload_length h) of (b, p') \<Rightarrow>
               (case read_into (resize_buf (payload_length h) b) s1 of
                  (Inl e, s2) \<Rightarrow> (Inl e, s2, p')
                | (Inr payload, s2) \<Rightarrow> (split_payload h payload, s2, p')))))"

definition read_frame_pooled ::
    "buffer_pool \<Rightarrow> u32 \<Rightarrow> bytes \<Rightarrow> (frame_error + frame) \<times> bytes \<times> buffer_pool" where
  "read_frame_pooled = read_frame_with checkout"

subsection \<open>Flags and header\<close>

lemma opcode_round_trip [simp]: "opcode_from_u8 (opcode_to_u8 op) = Inr op"
  by (cases op) (simp_all add: opcode_from_u8_def)

lemma opcode_from_u8_Inr: "opcode_from_u8 v = Inr op \<longleftrightarrow> v = opcode_to_u8 op"
proof
  assume "opcode_from_u8 v = Inr op"
  then show "v = opcode_to_u8 op"
    unfolding opcode_from_u8_def by (simp split: if_split_asm)
qed simp

lemma opcode_to_u8_inj: "opcode_to_u8 a = opcode_to_u8 b \<longleftrightarrow> a = b"
  by (metis opcode_round_trip sum.inject(2))

lemma opcode_from_u8_Inl: "opcode_from_u8 v = Inl e \<Longrightarrow> e = InvalidOpcode v"
  unfolding opcode_from_u8_def by (auto split: if_split_asm)

lemma priority_round_trip [simp]: "priority_from_u8 (priority_to_u8 p) = Inr p"
  by (cases p) (simp_all add: priority_from_u8_def)

lemma priority_from_u8_Inr: "priority_from_u8 v = Inr p \<longleftrightarrow> v = priority_to_u8 p"
  by (cases p) (auto simp: priority_from_u8_def split: if_split_asm)

lemma opcode_to_u8_masked: "opcode_to_u8 op AND mask 6 = opcode_to_u8 op"
  by (cases op) (simp_all add: mask_eq_exp_minus_1)

lemma priority_to_u8_masked: "priority_to_u8 p AND mask 2 = priority_to_u8 p"
  by (cases p) (simp_all add: mask_eq_exp_minus_1)

lemma opcode_bit: "bit (opcode_to_u8 op) n \<Longrightarrow> n < 6"
  by (metis bit_and_iff bit_mask_iff opcode_to_u8_masked)

lemma opcode_high_bit: "6 \<le> n \<Longrightarrow> \<not> bit (opcode_to_u8 op) n"
  using opcode_bit not_less by blast

lemma priority_bit: "bit (priority_to_u8 p) n \<Longrightarrow> n < 2"
  by (metis bit_and_iff bit_mask_iff priority_to_u8_masked)

lemma flag_masks: "(0x3F :: 'a::len word) = mask 6" "(0x03 :: 'a::len word) = mask 2"
  by (simp_all add: mask_eq_exp_minus_1)

lemma bit_set_flag:
  "bit (if c then b OR push_bit k 1 else (b :: u16)) n \<longleftrightarrow> bit b n \<or> c \<and> n = k \<and> k < 16"
  by (cases c) (auto simp: bit_or_iff bit_exp_iff)

lemma bit_opcode_field:
  "bit (ucast (opcode_to_u8 op) AND mask 6 :: u16) n \<longleftrightarrow> bit (opcode_to_u8 op) n"
  using opcode_bit by (auto simp: bit_and_iff bit_mask_iff bit_ucast_iff dest: opcode_bit)

lemma bit_priority_field:
  "bit (push_bit 9 (ucast (priority_to_u8 p) AND mask 2) :: u16) n \<longleftrightarrow>
     9 \<le> n \<and> bit (priority_to_u8 p) (n - 9)"
  by (auto simp: bit_push_bit_iff bit_and_iff bit_mask_iff bit_ucast_iff dest: priority_bit)

lemma bit_flags_encode:
  "bit (flags_encode f) n \<longleftrightarrow>
     bit (opcode_to_u8 (opcode f)) n \<or>
     end_of_stream f \<and> n = 6 \<or> no_reply f \<and> n = 7 \<or> batch_follows f \<and> n = 8 \<or>
     9 \<le> n \<and> bit (priority_to_u8 (priority f)) (n - 9)"
  unfolding flags_encode_def Let_def flag_masks bit_or_iff bit_set_flag bit_opcode_field
    bit_priority_field
  by simp

lemma single_bit: "drop_bit k (w :: u16) AND 1 = 1 \<longleftrightarrow> bit w k"
  by (simp add: and_one_eq bit_iff_odd_drop_bit odd_iff_mod_2_eq_one)

lemma encode_opcode_field: "ucast (flags_encode f AND 0x3F) = opcode_to_u8 (opcode f)"
  unfolding flag_masks
  by (rule bit_word_eqI) (auto simp: bit_simps bit_flags_encode dest: opcode_bit)

lemma encode_priority_field:
  "ucast (drop_bit 9 (flags_encode f) AND 0x03) = priority_to_u8 (priority f)"
  unfolding flag_masks
  by (rule bit_word_eqI) (auto simp: bit_simps bit_flags_encode dest: opcode_bit priority_bit)

lemma flags_decode_encode [simp]: "flags_decode (flags_encode f) = Inr f"
  unfolding flags_decode_def encode_opcode_field encode_priority_field single_bit
  by (simp add: bit_flags_encode opcode_high_bit)

text \<open>
  Decoding forgets the five reserved bits and nothing else.
\<close>

lemma flags_encode_decode:
  assumes "flags_decode w = Inr f"
  shows "flags_encode f = w AND 0x07FF"
proof (rule bit_word_eqI)
  fix n
  assume n: "n < LENGTH(16)"
  have op: "ucast (w AND 0x3F) = opcode_to_u8 (opcode f)"
    and pr: "ucast (drop_bit 9 w AND 0x03) = priority_to_u8 (priority f)"
    and bits: "end_of_stream f = bit w 6" "no_reply f = bit w 7" "batch_follows f = bit w 8"
    using assms
    by (auto simp: flags_decode_def result_simps opcode_from_u8_Inr priority_from_u8_Inr single_bit)
  have m: "(0x07FF :: u16) = mask 11"
    by (simp add: mask_eq_exp_minus_1)
  show "bit (flags_encode f) n = bit (w AND 0x07FF) n"
  proof (cases "n \<in> {6, 7, 8}")
    case True
    then show ?thesis
      by (auto simp: bit_flags_encode bits opcode_high_bit m bit_simps)
  next
    case False
    then have "n < 6 \<or> 9 \<le> n" by auto
    then show ?thesis
      using n False
      by (auto simp: bit_flags_encode m bit_simps flag_masks simp flip: op pr)
  qed
qed

lemma header_encode_length [simp]: "length (header_encode h) = 10"
  by (simp add: header_encode_def)

lemma header_decode_encode [simp]: "header_decode (header_encode h) = Inr h"
  by (simp add: header_decode_def header_encode_def u32_to_be_def u16_to_be_def Let_def
      u32_from_to_be u16_from_to_be)

lemma header_decode_Inl:
  "header_decode buf = Inl e \<Longrightarrow> \<exists>v. e = InvalidOpcode v"
  by (auto simp: header_decode_def Let_def result_simps flags_decode_def priority_from_u8_def
      dest: opcode_from_u8_Inl split: if_split_asm)

subsection \<open>Whole frames\<close>

text \<open>
  The frames the format can carry: the envelope is self-delimiting (it starts with its
  own length, as every BSON document does) or the payload is empty, and the length field
  does not overflow.
\<close>

definition self_delimiting :: "bytes \<Rightarrow> bool" where
  "self_delimiting e \<longleftrightarrow> 4 \<le> length e \<and> bson_size e = length e"

definition sendable :: "frame \<Rightarrow> bool" where
  "sendable f \<longleftrightarrow>
     (self_delimiting (envelope f) \<or> envelope f = [] \<and> raw_docs f = []) \<and>
     6 + (length (envelope f) + length (raw_docs f)) < 2 ^ 32"

definition sent :: "frame \<Rightarrow> frame" where
  "sent f = f\<lparr>header := sent_header f\<rparr>"

lemma bson_size_append: "4 \<le> length e \<Longrightarrow> bson_size (e @ d) = bson_size e"
  by (cases e) (auto simp: bson_size_def nth_append)

lemma write_frame_length:
  "length (write_frame f) = HEADER_SIZE + length (envelope f) + length (raw_docs f)"
  by (simp add: write_frame_def HEADER_SIZE_def)

lemma read_exact_append [simp]: "length a = n \<Longrightarrow> read_exact n (a @ s) = (Inr a, s)"
  by (simp add: read_exact_def)

lemma payload_length_sent:
  "sendable f \<Longrightarrow> payload_length (sent_header f) = length (envelope f) + length (raw_docs f)"
  by (simp add: payload_length_def sent_header_def frame_msg_len_def sendable_def unat_u32_of_len)

lemma split_sent:
  "sendable f \<Longrightarrow> envelope f @ raw_docs f \<noteq> [] \<Longrightarrow>
   split_payload (sent_header f) (envelope f @ raw_docs f) = Inr (sent f)"
  by (auto simp: split_payload_def sendable_def self_delimiting_def bson_size_append sent_def)

lemma read_write_frame:
  assumes "sendable f" and "frame_msg_len f \<le> max_frame_size"
  shows "read_frame max_frame_size (write_frame f @ rest) = (Inr (sent f), rest)"
proof -
  have hdr: "read_exact HEADER_SIZE (write_frame f @ rest) =
      (Inr (header_encode (sent_header f)), (envelope f @ raw_docs f) @ rest)"
    using read_exact_append [of "header_encode (sent_header f)" HEADER_SIZE
        "(envelope f @ raw_docs f) @ rest"]
    by (simp add: write_frame_def HEADER_SIZE_def)
  have len: "\<not> max_frame_size < msg_len (sent_header f)"
    using assms(2) by (simp add: sent_header_def not_less)
  show ?thesis
  proof (cases "envelope f @ raw_docs f = []")
    case True
    then show ?thesis
      using hdr len payload_length_sent [OF assms(1)]
      by (simp add: read_frame_def sent_def)
  next
    case False
    have "read_exact (payload_length (sent_header f)) ((envelope f @ raw_docs f) @ rest) =
        (Inr (envelope f @ raw_docs f), rest)"
      by (rule read_exact_append) (simp add: payload_length_sent assms(1))
    moreover have "payload_length (sent_header f) \<noteq> 0"
      using False payload_length_sent [OF assms(1)] by simp
    ultimately show ?thesis
      using hdr len split_sent [OF assms(1) False]
      by (simp add: read_frame_def)
  qed
qed

lemma split_payload_Inr:
  "split_payload h p = Inr f \<longleftrightarrow>
     4 \<le> length p \<and> bson_size p \<le> length p \<and>
     f = \<lparr>header = h, envelope = take (bson_size p) p, raw_docs = drop (bson_size p) p\<rparr>"
  by (auto simp: split_payload_def)

lemma read_exact_Inr: "read_exact n s = (Inr a, s') \<longleftrightarrow> length a = n \<and> s = a @ s'"
  by (auto simp: read_exact_def)

lemma read_exact_Inl: "read_exact n s = (Inl e, s') \<longleftrightarrow> length s < n \<and> e = io_eof \<and> s' = []"
  by (auto simp: read_exact_def)

lemma read_frame_Inr:
  assumes "read_frame max_frame_size s = (Inr f, s')"
  shows "\<exists>hb payload. s = hb @ payload @ s' \<and> length hb = HEADER_SIZE \<and>
      header_decode hb = Inr (header f) \<and> msg_len (header f) \<le> max_frame_size \<and>
      length payload = payload_length (header f) \<and> envelope f @ raw_docs f = payload"
proof -
  obtain hb s1 where hb: "read_exact HEADER_SIZE s = (Inr hb, s1)"
    using assms by (auto simp: read_frame_def split: prod.splits sum.splits)
  then obtain h where h: "header_decode hb = Inr h" and le: "\<not> msg_len h > max_frame_size"
    using assms by (auto simp: read_frame_def split: sum.splits if_splits)
  show ?thesis
  proof (cases "payload_length h = 0")
    case True
    then show ?thesis
      using assms hb h le by (auto simp: read_frame_def read_exact_Inr)
  next
    case False
    then obtain payload where pl: "read_exact (payload_length h) s1 = (Inr payload, s')"
      and sp: "split_payload h payload = Inr f"
      using assms hb h le by (auto simp: read_frame_def split: prod.splits sum.splits)
    then show ?thesis
      using hb h le by (auto simp: read_exact_Inr split_payload_Inr intro!: exI [of _ hb])
  qed
qed

text \<open>The reader with a pool is the plain reader: what the pool holds never shows.\<close>

context buffer_source
begin

lemma read_into_resized: "read_into (resize_buf n (fst (get_buffer p k))) s = read_exact n s"
  by (simp add: read_into_def resized_length)

lemma read_frame_with_result: "fst (read_frame_with get_buffer p m s) = fst (read_frame m s)"
  by (simp add: read_frame_with_def read_frame_def case_prod_beta read_into_resized
      split: sum.split)

lemma read_frame_with_rest: "fst (snd (read_frame_with get_buffer p m s)) = snd (read_frame m s)"
  by (simp add: read_frame_with_def read_frame_def case_prod_beta read_into_resized
      split: sum.split)

end

lemma u8_le_3: "(x :: u8) \<le> 3 \<Longrightarrow> x = 0 \<or> x = 1 \<or> x = 2 \<or> x = 3"
proof -
  assume "x \<le> 3"
  then have "unat x \<le> 3" by (simp add: word_le_nat_alt)
  then have "unat x = 0 \<or> unat x = 1 \<or> unat x = 2 \<or> unat x = 3" by linarith
  then show ?thesis by (simp add: word_unat_eq_iff)
qed

lemma priority_field_total: "\<exists>p. priority_from_u8 (ucast (w AND 0x03 :: u16)) = Inr p"
proof -
  have "(ucast (w AND 0x03) :: u8) = ucast w AND 3"
    unfolding flag_masks by (rule bit_word_eqI) (auto simp: bit_simps)
  also have "\<dots> \<le> 3" by (rule word_and_le1)
  finally have "(ucast (w AND 0x03) :: u8) \<le> 3" .
  from u8_le_3 [OF this] show ?thesis
    by (elim disjE) (simp_all add: priority_from_u8_def)
qed

lemma flags_decode_Inl: "flags_decode w = Inl e \<Longrightarrow> e = InvalidOpcode (ucast (w AND 0x3F))"
  using priority_field_total [of "drop_bit 9 w"]
  by (auto simp: flags_decode_def result_simps dest: opcode_from_u8_Inl)

subsection \<open>Properties\<close>

text \<open>
  Flags round trip. Encoding a set of flags and decoding it gives the flags back, so
  no two different flag sets share a wire value; a wire value that decodes is, up to its
  reserved bits 11 to 15, the encoding of what it decodes to; and the only values that
  do not decode are those with an unassigned opcode.
\<close>

theorem flags_round_trip:
  "flags_decode (flags_encode f) = Inr f \<and>
   (case flags_decode w of
      Inl e \<Rightarrow> e = InvalidOpcode (ucast (w AND 0x3F))
    | Inr g \<Rightarrow> flags_encode g = w AND 0x07FF)"
  by (auto split: sum.split dest: flags_encode_decode flags_decode_Inl)


definition ping_frame :: frame where
  "ping_frame =
     \<lparr>header = \<lparr>msg_len = 0,
        hflags = \<lparr>opcode = InsertOne, end_of_stream = False, no_reply = True,
                  batch_follows = True, priority = High\<rparr>,
        req_id = 7\<rparr>,
      envelope = [5, 0, 0, 0, 0], raw_docs = [1, 2, 3]\<rparr>"

lemma ping_sendable: "sendable ping_frame" "frame_msg_len ping_frame \<le> 1024"
  by (simp_all add: ping_frame_def sendable_def self_delimiting_def bson_size_def u32_from_le_def
      u32_from_be_def i32_as_usize_def frame_msg_len_def u32_of_len_def)


text \<open>
  C3. Reading is sound. A frame read from a socket is made of the bytes consumed and of
  nothing else: ten header bytes that decode to its header, then the envelope and the
  raw documents, whose joint length is what the length field announces and never
  exceeds the configured maximum.
\<close>

theorem read_frame_sound:
  assumes "read_frame max_frame_size s = (Inr f, s')"
  shows "header_decode (take HEADER_SIZE s) = Inr (header f) \<and>
    s = take HEADER_SIZE s @ envelope f @ raw_docs f @ s' \<and>
    length (envelope f) + length (raw_docs f) = payload_length (header f) \<and>
    payload_length (header f) \<le> unat max_frame_size"
proof -
  from read_frame_Inr [OF assms] obtain hb payload where
    s: "s = hb @ payload @ s'" "length hb = HEADER_SIZE" and
    h: "header_decode hb = Inr (header f)" "msg_len (header f) \<le> max_frame_size" and
    p: "length payload = payload_length (header f)" "envelope f @ raw_docs f = payload"
    by blast
  have "payload_length (header f) \<le> unat max_frame_size"
    using h(2) by (simp add: payload_length_def word_le_nat_alt)
  moreover have "length (envelope f) + length (raw_docs f) = payload_length (header f)"
    using p by (metis length_append)
  ultimately show ?thesis
    using s h(1) p(2) by auto
qed

theorem read_frame_sound_witness:
  "header_decode (take HEADER_SIZE (write_frame ping_frame)) = Inr (header (sent ping_frame)) \<and>
   payload_length (header (sent ping_frame)) \<le> 1024"
  using read_frame_sound [OF read_write_frame [OF ping_sendable, of "[]"]] by simp

text \<open>
  The pooled reader is the plain reader, whatever the pool holds: same result, same
  bytes left on the socket.
\<close>

theorem read_frame_pooled_eq:
  "fst (read_frame_pooled p m s) = fst (read_frame m s) \<and>
   fst (snd (read_frame_pooled p m s)) = snd (read_frame m s)"
  unfolding read_frame_pooled_def
  by (simp add: pool_source.read_frame_with_result pool_source.read_frame_with_rest)

text \<open>
  What the length field counts. It is the length of everything on the wire less the
  four bytes of the field itself, which is not the total length that the comment on
  \<open>FrameHeader::msg_len\<close> announces.
\<close>

theorem msg_len_excludes_itself:
  assumes "sendable f"
  shows "unat (msg_len (sent_header f)) + 4 = length (write_frame f)"
  using assms
  by (simp add: sent_header_def frame_msg_len_def sendable_def unat_u32_of_len
      write_frame_length HEADER_SIZE_def)

theorem msg_len_excludes_itself_witness:
  "unat (msg_len (sent_header ping_frame)) + 4 = length (write_frame ping_frame)"
  by (rule msg_len_excludes_itself [OF ping_sendable(1)])

end
