(* ===== verification/Operations.thy ===== *)
theory Operations
  imports Mongo_Values
begin

text \<open>
  The operations layer between the transports and the MongoDB driver:
  \<open>src/operations/crud.rs\<close>, \<open>aggregation.rs\<close>, \<open>admin.rs\<close>, \<open>find_and_modify.rs\<close>,
  \<open>raw.rs\<close>, \<open>raw_validator.rs\<close> and the error conversion of \<open>src/error.rs\<close>.

  The driver and the BSON library are parameters. A driver call takes the state of the
  database and gives its result and the next state; a call made under
  \<open>tokio::time::timeout\<close> also takes the deadline in seconds and may come back as
  \<open>TimedOut\<close>. A cursor is the list of what its successive \<open>advance\<close> calls give: the raw
  bytes of a document or an error.
\<close>

named_theorems op_simps \<open>unfolding rules of the operations layer\<close>

subsection \<open>Driver errors\<close>

datatype error_kind =
    EAuthentication | EServerSelection | EDnsResolve | EWrite | ECommand | EBulkWrite | EIo | EOther

record driver_error =
  err_kind :: error_kind
  err_message :: string

definition from_driver_error :: "driver_error \<Rightarrow> mongo_error" where
  "from_driver_error err =
     (let msg = err_message err in
      case err_kind err of
        EAuthentication \<Rightarrow> ConnectionError msg
      | EServerSelection \<Rightarrow> ConnectionError msg
      | EDnsResolve \<Rightarrow> ConnectionError msg
      | EWrite \<Rightarrow> OperationError msg
      | ECommand \<Rightarrow> OperationError msg
      | EBulkWrite \<Rightarrow> OperationError msg
      | EIo \<Rightarrow> TimeoutError msg
      | EOther \<Rightarrow> OperationError msg)"

subsection \<open>Parameters: the BSON library and the driver\<close>

record bson_lib =
  to_vec :: "document \<Rightarrow> string + bytes"
  from_slice :: "bytes \<Rightarrow> string + document"

record find_options =
  fo_limit :: "i64 option"
  fo_skip :: "u64 option"
  fo_sort :: "document option"
  fo_projection :: "document option"

record index_options =
  ix_name :: "string option"
  ix_unique :: "bool option"
  ix_sparse :: "bool option"

datatype return_document = Before | After

record fam_options =
  fam_return :: return_document
  fam_upsert :: bool
  fam_sort :: "document option"

record update_counts =
  matched_count :: u64
  modified_count :: u64
  upsert_id :: "bson option"

datatype 'a outcome = TimedOut | Done "driver_error + 'a"

type_synonym ('db, 'a) timed = "nat \<Rightarrow> 'db \<Rightarrow> 'a outcome \<times> 'db"
type_synonym ('db, 'a) untimed = "'db \<Rightarrow> (driver_error + 'a) \<times> 'db"
type_synonym cursor = "(driver_error + bytes) list"

record 'db driver =
  drv_find :: "string \<Rightarrow> string \<Rightarrow> document \<Rightarrow> find_options option \<Rightarrow> ('db, cursor) timed"
  drv_find_one :: "string \<Rightarrow> string \<Rightarrow> document \<Rightarrow> ('db, document option) timed"
  drv_insert_one :: "string \<Rightarrow> string \<Rightarrow> document \<Rightarrow> ('db, bson) timed"
  drv_insert_many :: "string \<Rightarrow> string \<Rightarrow> document list \<Rightarrow> ('db, (nat \<times> bson) list) timed"
  drv_update_one :: "string \<Rightarrow> string \<Rightarrow> document \<Rightarrow> document \<Rightarrow> ('db, update_counts) timed"
  drv_update_many :: "string \<Rightarrow> string \<Rightarrow> document \<Rightarrow> document \<Rightarrow> ('db, update_counts) timed"
  drv_delete_one :: "string \<Rightarrow> string \<Rightarrow> document \<Rightarrow> ('db, u64) timed"
  drv_delete_many :: "string \<Rightarrow> string \<Rightarrow> document \<Rightarrow> ('db, u64) timed"
  drv_count :: "string \<Rightarrow> string \<Rightarrow> document \<Rightarrow> ('db, u64) timed"
  drv_aggregate :: "bool \<Rightarrow> string \<Rightarrow> string \<Rightarrow> document list \<Rightarrow> ('db, cursor) timed"
  drv_create_collection :: "string \<Rightarrow> string \<Rightarrow> ('db, unit) timed"
  drv_drop_collection :: "string \<Rightarrow> string \<Rightarrow> ('db, unit) timed"
  drv_run_command_timed :: "string \<Rightarrow> document \<Rightarrow> ('db, document) timed"
  drv_create_index :: "string \<Rightarrow> string \<Rightarrow> document \<Rightarrow> index_options \<Rightarrow> ('db, string) timed"
  drv_find_one_and_update ::
    "string \<Rightarrow> string \<Rightarrow> document \<Rightarrow> document \<Rightarrow> fam_options \<Rightarrow> ('db, document option) timed"
  drv_run_command :: "string \<Rightarrow> document \<Rightarrow> ('db, document) untimed"
  drv_list_collections :: "string \<Rightarrow> ('db, string list) untimed"
  drv_distinct :: "string \<Rightarrow> string \<Rightarrow> string \<Rightarrow> document \<Rightarrow> ('db, bson list) untimed"
  drv_decode_error :: "string \<Rightarrow> driver_error"
  drv_custom_error :: "string \<Rightarrow> driver_error"

definition DEFAULT_QUERY_TIMEOUT :: nat where "DEFAULT_QUERY_TIMEOUT = 30"
definition DEFAULT_AGGREGATION_TIMEOUT :: nat where "DEFAULT_AGGREGATION_TIMEOUT = 60"

text \<open>
  \<open>timeout(..).await.map_err(|_| TimeoutError(msg))??\<close>: a deadline that passes is a
  \<open>TimeoutError\<close> with the operation's text, an error of the driver is converted.
\<close>

fun timed_call :: "string \<Rightarrow> 'a outcome \<times> 'db \<Rightarrow> (mongo_error + 'a) \<times> 'db" where
  "timed_call msg (TimedOut, s) = (Inl (TimeoutError msg), s)"
| "timed_call msg (Done r, s) = (map_err from_driver_error r, s)"

text \<open>What the asynchronous block does with a result before the timeout is looked at.\<close>

fun inside :: "('a \<Rightarrow> driver_error + 'b) \<Rightarrow> 'a outcome \<times> 'db \<Rightarrow> 'b outcome \<times> 'db" where
  "inside f (TimedOut, s) = (TimedOut, s)"
| "inside f (Done r, s) = (Done (rbind r f), s)"

subsection \<open>Cursors\<close>

fun drain_docs :: "bson_lib \<Rightarrow> 'db driver \<Rightarrow> document list \<Rightarrow> cursor \<Rightarrow> driver_error + document list" where
  "drain_docs B D results [] = Inr results"
| "drain_docs B D results (Inl e # c) = Inl e"
| "drain_docs B D results (Inr raw # c) =
     (case from_slice B raw of
        Inl e \<Rightarrow> Inl (drv_decode_error D e)
      | Inr d \<Rightarrow> drain_docs B D (results @ [d]) c)"

fun drain_raw :: "u32 \<Rightarrow> bytes \<Rightarrow> cursor \<Rightarrow> driver_error + u32 \<times> bytes" where
  "drain_raw count raw_bytes [] = Inr (count, raw_bytes)"
| "drain_raw count raw_bytes (Inl e # c) = Inl e"
| "drain_raw count raw_bytes (Inr raw # c) = drain_raw (count + 1) (raw_bytes @ raw) c"

fun drain_reserialised ::
  "bson_lib \<Rightarrow> 'db driver \<Rightarrow> u32 \<Rightarrow> bytes \<Rightarrow> cursor \<Rightarrow> driver_error + u32 \<times> bytes" where
  "drain_reserialised B D count raw_bytes [] = Inr (count, raw_bytes)"
| "drain_reserialised B D count raw_bytes (Inl e # c) = Inl e"
| "drain_reserialised B D count raw_bytes (Inr raw # c) =
     (case from_slice B raw of
        Inl e \<Rightarrow> Inl (drv_decode_error D e)
      | Inr d \<Rightarrow>
          (case to_vec B d of
             Inl e \<Rightarrow> Inl (drv_custom_error D (''failed to serialize document: '' @ e))
           | Inr bs \<Rightarrow> drain_reserialised B D (count + 1) (raw_bytes @ bs) c))"

subsection \<open>CRUD\<close>

definition op_find where
  "op_find B D db coll flt opts (s :: 'db) =
     timed_call ''find operation timed out''
       (inside (drain_docs B D []) (drv_find D db coll flt opts DEFAULT_QUERY_TIMEOUT s))"

definition op_find_raw where
  "op_find_raw D db coll flt opts (s :: 'db) =
     timed_call ''find operation timed out''
       (inside (drain_raw 0 []) (drv_find D db coll flt opts DEFAULT_QUERY_TIMEOUT s))"

definition op_find_one where
  "op_find_one D db coll flt (s :: 'db) =
     timed_call ''find_one operation timed out''
       (drv_find_one D db coll flt DEFAULT_QUERY_TIMEOUT s)"

definition op_insert where
  "op_insert D db coll document (s :: 'db) =
     timed_call ''insert operation timed out''
       (drv_insert_one D db coll document DEFAULT_QUERY_TIMEOUT s)"

definition op_insert_many where
  "op_insert_many D db coll documents (s :: 'db) =
     timed_call ''insert_many operation timed out''
       (drv_insert_many D db coll documents DEFAULT_QUERY_TIMEOUT s)"

definition op_update where
  "op_update D db coll flt upd (s :: 'db) =
     timed_call ''update operation timed out''
       (drv_update_one D db coll flt upd DEFAULT_QUERY_TIMEOUT s)"

definition op_update_many where
  "op_update_many D db coll flt upd (s :: 'db) =
     timed_call ''update_many operation timed out''
       (drv_update_many D db coll flt upd DEFAULT_QUERY_TIMEOUT s)"

definition op_delete where
  "op_delete D db coll flt (s :: 'db) =
     timed_call ''delete operation timed out''
       (drv_delete_one D db coll flt DEFAULT_QUERY_TIMEOUT s)"

definition op_count_documents where
  "op_count_documents D db coll flt (s :: 'db) =
     timed_call ''count_documents operation timed out''
       (drv_count D db coll flt DEFAULT_QUERY_TIMEOUT s)"

definition op_delete_many where
  "op_delete_many D db coll flt (s :: 'db) =
     timed_call ''delete_many operation timed out''
       (drv_delete_many D db coll flt DEFAULT_QUERY_TIMEOUT s)"

subsection \<open>Aggregation\<close>

text \<open>Pipelines that start with a search stage are run with read concern \<open>local\<close>.\<close>

definition requires_local_read_concern :: "document list \<Rightarrow> bool" where
  "requires_local_read_concern pipeline =
     (case pipeline of
        [] \<Rightarrow> False
      | stage # _ \<Rightarrow> ''$search'' \<in> set (doc_keys stage) \<or> ''$vectorSearch'' \<in> set (doc_keys stage))"

definition op_aggregate where
  "op_aggregate B D db coll pipeline (s :: 'db) =
     timed_call ''aggregation operation timed out''
       (inside (drain_docs B D [])
          (drv_aggregate D (requires_local_read_concern pipeline) db coll pipeline
             DEFAULT_AGGREGATION_TIMEOUT s))"

definition op_aggregate_raw where
  "op_aggregate_raw B D db coll pipeline (s :: 'db) =
     timed_call ''aggregation operation timed out''
       (inside (drain_reserialised B D 0 [])
          (drv_aggregate D (requires_local_read_concern pipeline) db coll pipeline
             DEFAULT_AGGREGATION_TIMEOUT s))"

subsection \<open>Administration\<close>

definition op_create_collection where
  "op_create_collection D db name (s :: 'db) =
     timed_call ''create_collection operation timed out''
       (drv_create_collection D db name DEFAULT_QUERY_TIMEOUT s)"

definition op_drop_collection where
  "op_drop_collection D db name (s :: 'db) =
     timed_call ''drop_collection operation timed out''
       (drv_drop_collection D db name DEFAULT_QUERY_TIMEOUT s)"

definition op_create_database where
  "op_create_database D db (s :: 'db) =
     timed_call ''create_database operation timed out''
       (inside (\<lambda>_. Inr ())
          (drv_run_command_timed D db [(''ping'', BInt32 1)] DEFAULT_QUERY_TIMEOUT s))"

definition op_create_user where
  "op_create_user D db username password roles (s :: 'db) =
     timed_call ''create_user operation timed out''
       (inside (\<lambda>_. Inr ())
          (drv_run_command_timed D db
             [(''createUser'', BString username), (''pwd'', BString password),
              (''roles'', BArray (map BDocument roles))] DEFAULT_QUERY_TIMEOUT s))"

definition op_create_index where
  "op_create_index D db coll keys options (s :: 'db) =
     (let driver_index_opts =
        (case options of
           None \<Rightarrow> \<lparr>ix_name = None, ix_unique = None, ix_sparse = None\<rparr>
         | Some opts \<Rightarrow> \<lparr>ix_name = ix_name opts, ix_unique = ix_unique opts, ix_sparse = ix_sparse opts\<rparr>)
      in timed_call ''create_index operation timed out''
           (drv_create_index D db coll keys driver_index_opts DEFAULT_QUERY_TIMEOUT s))"

definition default_fam_options :: fam_options where
  "default_fam_options = \<lparr>fam_return = After, fam_upsert = False, fam_sort = None\<rparr>"

definition op_find_and_modify where
  "op_find_and_modify D db coll flt upd options (s :: 'db) =
     (let opts = (case options of None \<Rightarrow> default_fam_options | Some opts \<Rightarrow> opts)
      in timed_call ''find_and_modify operation timed out''
           (drv_find_one_and_update D db coll flt upd opts DEFAULT_QUERY_TIMEOUT s))"

subsection \<open>Raw commands\<close>

datatype validation_mode = BlockDangerous | AllowAll

definition DANGEROUS_COMMANDS :: "string list" where
  "DANGEROUS_COMMANDS =
     [''dropDatabase'', ''dropAllUsersFromDatabase'', ''dropAllRolesFromDatabase'', ''shutdown'',
      ''replSetReconfig'', ''replSetStepDown'', ''setFeatureCompatibilityVersion'', ''fsync'',
      ''cleanupOrphaned'', ''compact'']"

fun first_dangerous :: "string list \<Rightarrow> mongo_error + unit" where
  "first_dangerous [] = Inr ()"
| "first_dangerous (key # keys) =
     (if key \<in> set DANGEROUS_COMMANDS
      then Inl (ValidationError (''Command '' @ [CHR 0x27] @ key @ [CHR 0x27] @ '' is blocked by validation policy''))
      else first_dangerous keys)"

definition validate_command :: "document \<Rightarrow> validation_mode \<Rightarrow> mongo_error + unit" where
  "validate_command command mode =
     (case mode of
        AllowAll \<Rightarrow> Inr ()
      | BlockDangerous \<Rightarrow> first_dangerous (doc_keys command))"

definition default_raw_mode :: validation_mode where
  "default_raw_mode = BlockDangerous"

definition run_command where
  "run_command D database command mode (s :: 'db) =
     (case validate_command command mode of
        Inl e \<Rightarrow> (Inl e, s)
      | Inr _ \<Rightarrow>
          (case drv_run_command D database command s of
             (r, s') \<Rightarrow> (map_err (\<lambda>e. OperationError (err_message e)) r, s')))"

lemmas [op_simps] =
  op_find_def op_find_raw_def op_find_one_def op_insert_def op_insert_many_def op_update_def
  op_update_many_def op_delete_def op_delete_many_def op_count_documents_def op_aggregate_def
  op_aggregate_raw_def op_create_collection_def op_drop_collection_def op_create_database_def
  op_create_user_def op_create_index_def op_find_and_modify_def run_command_def

subsection \<open>What the operations guarantee\<close>

text \<open>Cursors that drain without an error hold documents only.\<close>

lemma drain_docs_Inr:
  "drain_docs B D acc c = Inr ds \<Longrightarrow>
   \<exists>raws news. c = map Inr raws \<and> ds = acc @ news \<and> list_all2 (\<lambda>r d. from_slice B r = Inr d) raws news"
proof (induction B D acc c rule: drain_docs.induct)
  case (3 B D results raw c)
  then obtain d raws news where "from_slice B raw = Inr d" "c = map Inr raws" "ds = results @ d # news"
    "list_all2 (\<lambda>r d. from_slice B r = Inr d) raws news"
    by (auto split: sum.splits)
  then show ?case
    by (intro exI [of _ "raw # raws"] exI [of _ "d # news"]) simp
qed auto

lemma drain_raw_map: "drain_raw n acc (map Inr raws) = Inr (n + of_nat (length raws), acc @ concat raws)"
  by (induction raws arbitrary: n acc) (simp_all add: add.commute add.left_commute)

lemma drain_reserialised_Inr:
  "drain_reserialised B D n acc c = Inr (m, bs) \<Longrightarrow>
   \<exists>raws ds encs. c = map Inr raws \<and> list_all2 (\<lambda>r d. from_slice B r = Inr d) raws ds \<and>
     list_all2 (\<lambda>d e. to_vec B d = Inr e) ds encs \<and> m = n + of_nat (length encs) \<and> bs = acc @ concat encs"
proof (induction B D n acc c rule: drain_reserialised.induct)
  case (3 B D n acc raw c)
  then obtain d e where de: "from_slice B raw = Inr d" "to_vec B d = Inr e"
    "drain_reserialised B D (n + 1) (acc @ e) c = Inr (m, bs)"
    by (auto split: sum.splits)
  from "3.IH" [OF de] obtain raws ds encs where "c = map Inr raws"
    "list_all2 (\<lambda>r d. from_slice B r = Inr d) raws ds" "list_all2 (\<lambda>d e. to_vec B d = Inr e) ds encs"
    "m = n + 1 + of_nat (length encs)" "bs = (acc @ e) @ concat encs"
    by blast
  with de show ?case
    by (intro exI [of _ "raw # raws"] exI [of _ "d # ds"] exI [of _ "e # encs"]) simp
qed auto

lemma timed_call_Inr: "timed_call msg r = (Inr a, s) \<longleftrightarrow> r = (Done (Inr a), s)"
  by (cases "(msg, r)" rule: timed_call.cases) (auto simp: result_simps)

lemma inside_Inr: "inside f r = (Done (Inr b), s) \<longleftrightarrow> (\<exists>a. r = (Done (Inr a), s) \<and> f a = Inr b)"
  by (cases "(f, r)" rule: inside.cases) (auto simp: result_simps)

text \<open>
  The raw find skips the decoding and nothing else: when the decoding find gives a list
  of documents, the raw one gives their number and the bytes they decode from.
\<close>

lemma op_find_raw_of_find:
  assumes "op_find B D db coll flt opts s = (Inr ds, s')"
  shows "\<exists>raws. list_all2 (\<lambda>r d. from_slice B r = Inr d) raws ds \<and>
    op_find_raw D db coll flt opts s = (Inr (of_nat (length ds), concat raws), s')"
proof -
  from assms obtain c where c: "drv_find D db coll flt opts DEFAULT_QUERY_TIMEOUT s = (Done (Inr c), s')"
    and d: "drain_docs B D [] c = Inr ds"
    by (auto simp: op_find_def timed_call_Inr inside_Inr)
  from drain_docs_Inr [OF d] obtain raws
    where raws: "c = map Inr raws" "list_all2 (\<lambda>r d. from_slice B r = Inr d) raws ds"
    by auto
  then have "op_find_raw D db coll flt opts s = (Inr (of_nat (length raws), concat raws), s')"
    using c by (simp add: op_find_raw_def drain_raw_map)
  moreover have "length raws = length ds"
    using raws(2) by (rule list_all2_lengthD)
  ultimately show ?thesis
    using raws(2) by auto
qed

text \<open>The kinds of error an operation of the driver can end in.\<close>

fun op_error :: "mongo_error \<Rightarrow> bool" where
  "op_error (ConnectionError m) = True"
| "op_error (OperationError m) = True"
| "op_error (TimeoutError m) = True"
| "op_error _ = False"

lemma op_error_from_driver: "op_error (from_driver_error e)"
  by (auto simp: from_driver_error_def Let_def split: error_kind.split)

lemma timed_call_error: "fst (timed_call msg r) = Inl e \<Longrightarrow> op_error e"
  by (cases "(msg, r)" rule: timed_call.cases) (auto simp: result_simps op_error_from_driver)

subsection \<open>The raw command policy\<close>

definition blocked :: "document \<Rightarrow> bool" where
  "blocked command \<longleftrightarrow> set (doc_keys command) \<inter> set DANGEROUS_COMMANDS \<noteq> {}"

lemma first_dangerous_Inr: "first_dangerous keys = Inr () \<longleftrightarrow> set keys \<inter> set DANGEROUS_COMMANDS = {}"
  by (induction keys) auto

lemma first_dangerous_Inl:
  "first_dangerous keys = Inl e \<Longrightarrow>
   \<exists>key \<in> set keys \<inter> set DANGEROUS_COMMANDS.
     e = ValidationError (''Command '' @ [CHR 0x27] @ key @ [CHR 0x27] @ '' is blocked by validation policy'')"
  by (induction keys) (auto split: if_splits)

lemma validate_command_Inr: "validate_command c m = Inr u \<longleftrightarrow> m = AllowAll \<or> \<not> blocked c"
  by (cases m) (auto simp: validate_command_def blocked_def first_dangerous_Inr)

lemma validate_command_Inl: "validate_command c m = Inl e \<Longrightarrow> m = BlockDangerous \<and> blocked c \<and> (\<exists>t. e = ValidationError t)"
  by (cases m) (auto simp: validate_command_def blocked_def dest!: first_dangerous_Inl)

lemma run_command_allowed:
  "m = AllowAll \<or> \<not> blocked c \<Longrightarrow>
   run_command D db c m s =
     (map_err (\<lambda>e. OperationError (err_message e)) (fst (drv_run_command D db c s)), snd (drv_run_command D db c s))"
  using validate_command_Inr [of c m "()"] by (auto simp: run_command_def split: prod.split)

lemma run_command_blocked:
  "blocked c \<Longrightarrow> \<exists>t. run_command D db c BlockDangerous s = (Inl (ValidationError t), s)"
  using validate_command_Inr [of c BlockDangerous "()"]
  by (cases "validate_command c BlockDangerous") (auto simp: run_command_def dest: validate_command_Inl)

text \<open>
  Raw command policy. Under the blocking mode a command that has a dangerous key,
  wherever the key stands, comes back as a validation error and never reaches the
  database, whose state is unchanged; every other command is exactly the driver's, its
  errors reported as operation errors.
\<close>

theorem raw_command_policy:
  "if mode = BlockDangerous \<and> blocked command
   then snd (run_command D db command mode s) = s \<and>
     (\<exists>key \<in> set (doc_keys command) \<inter> set DANGEROUS_COMMANDS.
        fst (run_command D db command mode s) =
          Inl (ValidationError (''Command '' @ [CHR 0x27] @ key @ [CHR 0x27] @ '' is blocked by validation policy'')))
   else run_command D db command mode s =
     (map_err (\<lambda>e. OperationError (err_message e)) (fst (drv_run_command D db command s)),
      snd (drv_run_command D db command s))"
proof (cases "mode = BlockDangerous \<and> blocked command")
  case True
  then obtain e where "first_dangerous (doc_keys command) = Inl e"
    using first_dangerous_Inr [of "doc_keys command"]
    by (cases "first_dangerous (doc_keys command)") (auto simp: blocked_def)
  then show ?thesis
    using True first_dangerous_Inl [of "doc_keys command" e]
    by (auto simp: run_command_def validate_command_def)
next
  case False
  then have "mode = AllowAll \<or> \<not> blocked command" by (cases mode) auto
  then show ?thesis using False by (simp only: run_command_allowed if_False)
qed

end
