(* ===== verification/Codec.thy ===== *)
theory Codec
  imports Frame Operations
begin

text \<open>
  The envelope codec of the binary transport, \<open>src/transport/codec.rs\<close>: typed requests
  and responses, the parser that turns the BSON envelope of a frame into a request by its
  opcode (one definition per arm of the match), and the encoder of responses into an
  envelope and raw document bytes. The BSON library is the parameter \<open>bson_lib\<close>; what
  the codec relies on is \<open>bson_law\<close>: what it serialises it reads back, and a serialised
  document starts with its own length and is at least five bytes long.
\<close>

datatype codec_error = MissingField string | InvalidBson string

fun codec_error_text :: "codec_error \<Rightarrow> string" where
  "codec_error_text (MissingField field) = ''missing required field: '' @ field"
| "codec_error_text (InvalidBson msg) = ''invalid BSON: '' @ msg"

datatype operation_request =
    ReqHandshake (client_language: string)
  | ReqFindOne string string document "document option"
  | ReqFind string string document "find_options option" "u32 option" u32
  | ReqInsertOne string string u32
  | ReqInsertMany string string bool u32
  | ReqUpdateOne string string document document
  | ReqUpdateMany string string document document
  | ReqDeleteOne string string document
  | ReqDeleteMany string string document
  | ReqAggregate string string "document list" "u32 option"
  | ReqCountDocuments string string document
  | ReqRunCommand string document
  | ReqCreateIndex string string document "string option" "bool option"
  | ReqListCollections string
  | ReqCreateCollection string string
  | ReqDropCollection string string
  | ReqDistinct string string string "document option"
  | ReqFindOneAndUpdate string string document document
  | ReqFindOneAndDelete string string document
  | ReqBulkWrite string string u32 bool

datatype operation_response =
    RespHandshake u32 u32
  | RespSingleDoc bool "bytes option"
  | RespBatch u32 bytes
  | RespInsertOne string
  | RespInsertMany u32
  | RespUpdate u64 u64
  | RespDelete u64
  | RespCount u64
  | RespIndex string
  | RespCollections "string list"
  | RespCommand bytes
  | RespError i32 string
  | RespShutdown u32

subsection \<open>Parsing requests\<close>

definition get_required_str :: "document \<Rightarrow> string \<Rightarrow> codec_error + string" where
  "get_required_str doc field = ok_or (MissingField field) (get_str doc field)"

definition get_required_doc :: "document \<Rightarrow> string \<Rightarrow> codec_error + document" where
  "get_required_doc doc field = ok_or (MissingField field) (get_document doc field)"

definition or_default :: "'a \<Rightarrow> 'a option \<Rightarrow> 'a" where
  "or_default d x = (case x of None \<Rightarrow> d | Some a \<Rightarrow> a)"

definition parse_handshake :: "document \<Rightarrow> codec_error + operation_request" where
  "parse_handshake doc =
     rbind (get_required_str doc ''client_language'') (\<lambda>lang. Inr (ReqHandshake lang))"

definition parse_find_one :: "document \<Rightarrow> codec_error + operation_request" where
  "parse_find_one doc =
     rbind (get_required_str doc ''db'') (\<lambda>db.
     rbind (get_required_str doc ''coll'') (\<lambda>coll.
     rbind (get_required_doc doc ''filter'') (\<lambda>flt.
       Inr (ReqFindOne db coll flt (get_document doc ''projection'')))))"

definition parse_find :: "document \<Rightarrow> codec_error + operation_request" where
  "parse_find doc =
     rbind (get_required_str doc ''db'') (\<lambda>db.
     rbind (get_required_str doc ''coll'') (\<lambda>coll.
     rbind (get_required_doc doc ''filter'') (\<lambda>flt.
       (let doc_bytes_len = or_default 0 (get_i32 doc ''doc_bytes_len'');
            batch_size = get_i32 doc ''batch_size'';
            limit = get_i64 doc ''limit'';
            skip = get_i64 doc ''skip'';
            sort = get_document doc ''sort'';
            projection = get_document doc ''projection'';
            options =
              (if limit \<noteq> None \<or> skip \<noteq> None \<or> sort \<noteq> None \<or> projection \<noteq> None
               then Some \<lparr>fo_limit = limit, fo_skip = skip, fo_sort = sort, fo_projection = projection\<rparr>
               else None)
        in Inr (ReqFind db coll flt options batch_size doc_bytes_len)))))"

definition parse_insert_one :: "document \<Rightarrow> codec_error + operation_request" where
  "parse_insert_one doc =
     rbind (get_required_str doc ''db'') (\<lambda>db.
     rbind (get_required_str doc ''coll'') (\<lambda>coll.
       Inr (ReqInsertOne db coll (or_default 0 (get_i32 doc ''doc_bytes_len'')))))"

definition parse_insert_many :: "document \<Rightarrow> codec_error + operation_request" where
  "parse_insert_many doc =
     rbind (get_required_str doc ''db'') (\<lambda>db.
     rbind (get_required_str doc ''coll'') (\<lambda>coll.
       (let ordered = or_default True (get_bool doc ''ordered'');
            doc_bytes_len = or_default 0 (get_i32 doc ''doc_bytes_len'')
        in Inr (ReqInsertMany db coll ordered doc_bytes_len))))"

definition parse_update_one :: "document \<Rightarrow> codec_error + operation_request" where
  "parse_update_one doc =
     rbind (get_required_str doc ''db'') (\<lambda>db.
     rbind (get_required_str doc ''coll'') (\<lambda>coll.
     rbind (get_required_doc doc ''filter'') (\<lambda>flt.
     rbind (get_required_doc doc ''update'') (\<lambda>upd.
       Inr (ReqUpdateOne db coll flt upd)))))"

definition parse_update_many :: "document \<Rightarrow> codec_error + operation_request" where
  "parse_update_many doc =
     rbind (get_required_str doc ''db'') (\<lambda>db.
     rbind (get_required_str doc ''coll'') (\<lambda>coll.
     rbind (get_required_doc doc ''filter'') (\<lambda>flt.
     rbind (get_required_doc doc ''update'') (\<lambda>upd.
       Inr (ReqUpdateMany db coll flt upd)))))"

definition parse_delete_one :: "document \<Rightarrow> codec_error + operation_request" where
  "parse_delete_one doc =
     rbind (get_required_str doc ''db'') (\<lambda>db.
     rbind (get_required_str doc ''coll'') (\<lambda>coll.
     rbind (get_required_doc doc ''filter'') (\<lambda>flt.
       Inr (ReqDeleteOne db coll flt))))"

definition parse_delete_many :: "document \<Rightarrow> codec_error + operation_request" where
  "parse_delete_many doc =
     rbind (get_required_str doc ''db'') (\<lambda>db.
     rbind (get_required_str doc ''coll'') (\<lambda>coll.
     rbind (get_required_doc doc ''filter'') (\<lambda>flt.
       Inr (ReqDeleteMany db coll flt))))"

text \<open>Entries of the pipeline array that are not documents are dropped without an error.\<close>

definition parse_aggregate :: "document \<Rightarrow> codec_error + operation_request" where
  "parse_aggregate doc =
     rbind (get_required_str doc ''db'') (\<lambda>db.
     rbind (get_required_str doc ''coll'') (\<lambda>coll.
     rbind (ok_or (MissingField ''pipeline'') (get_array doc ''pipeline'')) (\<lambda>pipeline_arr.
       (let pipeline = List.map_filter as_document pipeline_arr;
            batch_size = get_i32 doc ''batch_size''
        in Inr (ReqAggregate db coll pipeline batch_size)))))"

definition parse_count_documents :: "document \<Rightarrow> codec_error + operation_request" where
  "parse_count_documents doc =
     rbind (get_required_str doc ''db'') (\<lambda>db.
     rbind (get_required_str doc ''coll'') (\<lambda>coll.
       Inr (ReqCountDocuments db coll (or_default [] (get_document doc ''filter'')))))"

definition parse_distinct :: "document \<Rightarrow> codec_error + operation_request" where
  "parse_distinct doc =
     rbind (get_required_str doc ''db'') (\<lambda>db.
     rbind (get_required_str doc ''coll'') (\<lambda>coll.
     rbind (get_required_str doc ''field'') (\<lambda>field.
       Inr (ReqDistinct db coll field (get_document doc ''filter'')))))"

definition parse_create_index :: "document \<Rightarrow> codec_error + operation_request" where
  "parse_create_index doc =
     rbind (get_required_str doc ''db'') (\<lambda>db.
     rbind (get_required_str doc ''coll'') (\<lambda>coll.
     rbind (get_required_doc doc ''keys'') (\<lambda>keys.
       Inr (ReqCreateIndex db coll keys (get_str doc ''name'') (get_bool doc ''unique'')))))"

definition parse_list_collections :: "document \<Rightarrow> codec_error + operation_request" where
  "parse_list_collections doc =
     rbind (get_required_str doc ''db'') (\<lambda>db. Inr (ReqListCollections db))"

definition parse_run_command :: "document \<Rightarrow> codec_error + operation_request" where
  "parse_run_command doc =
     rbind (get_required_str doc ''db'') (\<lambda>db.
     rbind (get_required_doc doc ''command'') (\<lambda>command.
       Inr (ReqRunCommand db command)))"

definition parse_bulk_write :: "document \<Rightarrow> codec_error + operation_request" where
  "parse_bulk_write doc =
     rbind (get_required_str doc ''db'') (\<lambda>db.
     rbind (get_required_str doc ''coll'') (\<lambda>coll.
       (let doc_bytes_len = or_default 0 (get_i32 doc ''doc_bytes_len'');
            ordered = or_default True (get_bool doc ''ordered'')
        in Inr (ReqBulkWrite db coll doc_bytes_len ordered))))"

definition parse_find_one_and_update :: "document \<Rightarrow> codec_error + operation_request" where
  "parse_find_one_and_update doc =
     rbind (get_required_str doc ''db'') (\<lambda>db.
     rbind (get_required_str doc ''coll'') (\<lambda>coll.
     rbind (get_required_doc doc ''filter'') (\<lambda>flt.
     rbind (get_required_doc doc ''update'') (\<lambda>upd.
       Inr (ReqFindOneAndUpdate db coll flt upd)))))"

definition parse_find_one_and_delete :: "document \<Rightarrow> codec_error + operation_request" where
  "parse_find_one_and_delete doc =
     rbind (get_required_str doc ''db'') (\<lambda>db.
     rbind (get_required_str doc ''coll'') (\<lambda>coll.
     rbind (get_required_doc doc ''filter'') (\<lambda>flt.
       Inr (ReqFindOneAndDelete db coll flt))))"

definition parse_create_collection :: "document \<Rightarrow> codec_error + operation_request" where
  "parse_create_collection doc =
     rbind (get_required_str doc ''db'') (\<lambda>db.
     rbind (get_required_str doc ''name'') (\<lambda>name.
       Inr (ReqCreateCollection db name)))"

definition parse_drop_collection :: "document \<Rightarrow> codec_error + operation_request" where
  "parse_drop_collection doc =
     rbind (get_required_str doc ''db'') (\<lambda>db.
     rbind (get_required_str doc ''name'') (\<lambda>name.
       Inr (ReqDropCollection db name)))"

fun parse_doc :: "opcode \<Rightarrow> document \<Rightarrow> codec_error + operation_request" where
  "parse_doc Handshake doc = parse_handshake doc"
| "parse_doc FindOne doc = parse_find_one doc"
| "parse_doc Find doc = parse_find doc"
| "parse_doc InsertOne doc = parse_insert_one doc"
| "parse_doc InsertMany doc = parse_insert_many doc"
| "parse_doc UpdateOne doc = parse_update_one doc"
| "parse_doc UpdateMany doc = parse_update_many doc"
| "parse_doc DeleteOne doc = parse_delete_one doc"
| "parse_doc DeleteMany doc = parse_delete_many doc"
| "parse_doc Aggregate doc = parse_aggregate doc"
| "parse_doc CountDocuments doc = parse_count_documents doc"
| "parse_doc Distinct doc = parse_distinct doc"
| "parse_doc CreateIndex doc = parse_create_index doc"
| "parse_doc ListCollections doc = parse_list_collections doc"
| "parse_doc RunCommand doc = parse_run_command doc"
| "parse_doc BulkWrite doc = parse_bulk_write doc"
| "parse_doc FindOneAndUpdate doc = parse_find_one_and_update doc"
| "parse_doc FindOneAndDelete doc = parse_find_one_and_delete doc"
| "parse_doc CreateCollection doc = parse_create_collection doc"
| "parse_doc DropCollection doc = parse_drop_collection doc"
| "parse_doc OpError doc = Inl (InvalidBson ''Error opcode is not a valid request'')"

definition parse_envelope :: "bson_lib \<Rightarrow> bytes \<Rightarrow> opcode \<Rightarrow> codec_error + operation_request" where
  "parse_envelope B bs op = rbind (map_err InvalidBson (from_slice B bs)) (parse_doc op)"

lemmas parse_defs =
  parse_handshake_def parse_find_one_def parse_find_def parse_insert_one_def
  parse_insert_many_def parse_update_one_def parse_update_many_def parse_delete_one_def
  parse_delete_many_def parse_aggregate_def parse_count_documents_def parse_distinct_def
  parse_create_index_def parse_list_collections_def parse_run_command_def
  parse_bulk_write_def parse_find_one_and_update_def parse_find_one_and_delete_def
  parse_create_collection_def parse_drop_collection_def

subsection \<open>Encoding responses\<close>

definition i32_of_len :: "bytes \<Rightarrow> i32" where
  "i32_of_len bs = word_of_nat (length bs)"

fun response_body :: "operation_response \<Rightarrow> document \<times> bytes" where
  "response_body (RespHandshake max_frame_size max_concurrent) =
     ([(''max_frame_size'', BInt32 max_frame_size), (''max_concurrent'', BInt32 max_concurrent),
       (''doc_bytes_len'', BInt32 0)], [])"
| "response_body (RespSingleDoc ok raw_doc) =
     (let raw = or_default [] raw_doc
      in ([(''ok'', BBoolean ok), (''doc_bytes_len'', BInt32 (i32_of_len raw))], raw))"
| "response_body (RespBatch count doc_bytes) =
     ([(''count'', BInt32 count), (''doc_bytes_len'', BInt32 (i32_of_len doc_bytes))], doc_bytes)"
| "response_body (RespInsertOne inserted_id) =
     ([(''inserted_id'', BString inserted_id), (''doc_bytes_len'', BInt32 0)], [])"
| "response_body (RespInsertMany inserted_count) =
     ([(''inserted_count'', BInt32 inserted_count), (''doc_bytes_len'', BInt32 0)], [])"
| "response_body (RespUpdate matched modified) =
     ([(''matched_count'', BInt64 matched), (''modified_count'', BInt64 modified),
       (''doc_bytes_len'', BInt32 0)], [])"
| "response_body (RespDelete deleted_count) =
     ([(''deleted_count'', BInt64 deleted_count), (''doc_bytes_len'', BInt32 0)], [])"
| "response_body (RespCount count) =
     ([(''count'', BInt64 count), (''doc_bytes_len'', BInt32 0)], [])"
| "response_body (RespIndex name) =
     ([(''name'', BString name), (''doc_bytes_len'', BInt32 0)], [])"
| "response_body (RespCollections names) =
     ([(''names'', BArray (map BString names)), (''doc_bytes_len'', BInt32 0)], [])"
| "response_body (RespCommand raw_doc) =
     ([(''doc_bytes_len'', BInt32 (i32_of_len raw_doc))], raw_doc)"
| "response_body (RespError code message) =
     ([(''code'', BInt32 code), (''message'', BString message), (''doc_bytes_len'', BInt32 0)], [])"
| "response_body (RespShutdown drain_ms) =
     ([(''drain_ms'', BInt32 drain_ms), (''doc_bytes_len'', BInt32 0)], [])"

definition encode_response :: "bson_lib \<Rightarrow> operation_response \<Rightarrow> codec_error + bytes \<times> bytes" where
  "encode_response B response =
     (case response_body response of
        (envelope_doc, raw_bytes) \<Rightarrow>
          rbind (map_err InvalidBson (to_vec B envelope_doc)) (\<lambda>envelope_bytes.
            Inr (envelope_bytes, raw_bytes)))"

text \<open>What the codec relies on of the BSON library.\<close>

definition bson_law :: "bson_lib \<Rightarrow> bool" where
  "bson_law B \<longleftrightarrow>
     (\<forall>d bs. to_vec B d = Inr bs \<longrightarrow> from_slice B bs = Inr d \<and> self_delimiting bs \<and> 5 \<le> length bs)"


lemma bson_lawD:
  "bson_law B \<Longrightarrow> to_vec B d = Inr bs \<Longrightarrow> from_slice B bs = Inr d"
  "bson_law B \<Longrightarrow> to_vec B d = Inr bs \<Longrightarrow> self_delimiting bs"
  "bson_law B \<Longrightarrow> to_vec B d = Inr bs \<Longrightarrow> 5 \<le> length bs"
  by (simp_all add: bson_law_def)

subsection \<open>The protocol as a table\<close>

text \<open>
  The fields an envelope must have, by opcode, in the order in which they are looked at.
\<close>

datatype field_type = FStr | FDoc | FArr

fun required :: "opcode \<Rightarrow> (string \<times> field_type) list" where
  "required Handshake = [(''client_language'', FStr)]"
| "required ListCollections = [(''db'', FStr)]"
| "required RunCommand = [(''db'', FStr), (''command'', FDoc)]"
| "required CreateCollection = [(''db'', FStr), (''name'', FStr)]"
| "required DropCollection = [(''db'', FStr), (''name'', FStr)]"
| "required OpError = []"
| "required op = [(''db'', FStr), (''coll'', FStr)] @
     (case op of
        Aggregate \<Rightarrow> [(''pipeline'', FArr)]
      | Distinct \<Rightarrow> [(''field'', FStr)]
      | CreateIndex \<Rightarrow> [(''keys'', FDoc)]
      | InsertOne \<Rightarrow> [] | InsertMany \<Rightarrow> [] | BulkWrite \<Rightarrow> [] | CountDocuments \<Rightarrow> []
      | UpdateOne \<Rightarrow> [(''filter'', FDoc), (''update'', FDoc)]
      | UpdateMany \<Rightarrow> [(''filter'', FDoc), (''update'', FDoc)]
      | FindOneAndUpdate \<Rightarrow> [(''filter'', FDoc), (''update'', FDoc)]
      | _ \<Rightarrow> [(''filter'', FDoc)])"

fun has_field :: "document \<Rightarrow> string \<times> field_type \<Rightarrow> bool" where
  "has_field d (k, FStr) = (get_str d k \<noteq> None)"
| "has_field d (k, FDoc) = (get_document d k \<noteq> None)"
| "has_field d (k, FArr) = (get_array d k \<noteq> None)"

definition first_missing :: "opcode \<Rightarrow> document \<Rightarrow> (string \<times> field_type) option" where
  "first_missing op d = List.find (\<lambda>f. \<not> has_field d f) (required op)"

fun request_opcode :: "operation_request \<Rightarrow> opcode" where
  "request_opcode (ReqHandshake _) = Handshake"
| "request_opcode (ReqFindOne _ _ _ _) = FindOne"
| "request_opcode (ReqFind _ _ _ _ _ _) = Find"
| "request_opcode (ReqInsertOne _ _ _) = InsertOne"
| "request_opcode (ReqInsertMany _ _ _ _) = InsertMany"
| "request_opcode (ReqUpdateOne _ _ _ _) = UpdateOne"
| "request_opcode (ReqUpdateMany _ _ _ _) = UpdateMany"
| "request_opcode (ReqDeleteOne _ _ _) = DeleteOne"
| "request_opcode (ReqDeleteMany _ _ _) = DeleteMany"
| "request_opcode (ReqAggregate _ _ _ _) = Aggregate"
| "request_opcode (ReqCountDocuments _ _ _) = CountDocuments"
| "request_opcode (ReqRunCommand _ _) = RunCommand"
| "request_opcode (ReqCreateIndex _ _ _ _ _) = CreateIndex"
| "request_opcode (ReqListCollections _) = ListCollections"
| "request_opcode (ReqCreateCollection _ _) = CreateCollection"
| "request_opcode (ReqDropCollection _ _) = DropCollection"
| "request_opcode (ReqDistinct _ _ _ _) = Distinct"
| "request_opcode (ReqFindOneAndUpdate _ _ _ _) = FindOneAndUpdate"
| "request_opcode (ReqFindOneAndDelete _ _ _) = FindOneAndDelete"
| "request_opcode (ReqBulkWrite _ _ _ _) = BulkWrite"

lemma get_required_cases:
  "get_required_str d k = (if has_field d (k, FStr) then Inr (the (get_str d k)) else Inl (MissingField k))"
  "get_required_doc d k = (if has_field d (k, FDoc) then Inr (the (get_document d k)) else Inl (MissingField k))"
  "ok_or (MissingField k) (get_array d k) =
     (if has_field d (k, FArr) then Inr (the (get_array d k)) else Inl (MissingField k))"
  by (auto simp: get_required_str_def get_required_doc_def)

text \<open>What parsing a document gives: the first missing field, or a request of that opcode.\<close>

definition parse_outcome :: "opcode \<Rightarrow> document \<Rightarrow> codec_error + operation_request \<Rightarrow> bool" where
  "parse_outcome op d r \<longleftrightarrow>
     (case first_missing op d of
        Some f \<Rightarrow> r = Inl (MissingField (fst f))
      | None \<Rightarrow> (\<exists>req. r = Inr req \<and> request_opcode req = op))"

lemma parse_doc_outcome: "op \<noteq> OpError \<Longrightarrow> parse_outcome op d (parse_doc op d)"
  by (cases op) (simp_all del: has_field.simps add: parse_outcome_def first_missing_def parse_defs
      get_required_cases Let_def split: option.split)

subsection \<open>The envelope of a request\<close>

text \<open>
  The canonical envelope of a request, as the protocol documents it: the required fields
  and those of the optional ones that are set.
\<close>

fun opt_field :: "string \<Rightarrow> ('a \<Rightarrow> bson) \<Rightarrow> 'a option \<Rightarrow> document" where
  "opt_field k f None = []"
| "opt_field k f (Some v) = [(k, f v)]"

definition target :: "string \<Rightarrow> string \<Rightarrow> document" where
  "target db coll = [(''db'', BString db), (''coll'', BString coll)]"

fun options_doc :: "find_options option \<Rightarrow> document" where
  "options_doc None = []"
| "options_doc (Some o') =
     opt_field ''limit'' BInt64 (fo_limit o') @ opt_field ''skip'' BInt64 (fo_skip o') @
     opt_field ''sort'' BDocument (fo_sort o') @ opt_field ''projection'' BDocument (fo_projection o')"

fun request_doc :: "operation_request \<Rightarrow> document" where
  "request_doc (ReqHandshake lang) = [(''client_language'', BString lang)]"
| "request_doc (ReqFindOne db coll flt proj) =
     target db coll @ [(''filter'', BDocument flt)] @ opt_field ''projection'' BDocument proj"
| "request_doc (ReqFind db coll flt opts bsz len) =
     target db coll @ [(''filter'', BDocument flt)] @ options_doc opts @
     opt_field ''batch_size'' BInt32 bsz @ [(''doc_bytes_len'', BInt32 len)]"
| "request_doc (ReqInsertOne db coll len) = target db coll @ [(''doc_bytes_len'', BInt32 len)]"
| "request_doc (ReqInsertMany db coll ordered len) =
     target db coll @ [(''ordered'', BBoolean ordered), (''doc_bytes_len'', BInt32 len)]"
| "request_doc (ReqUpdateOne db coll flt upd) =
     target db coll @ [(''filter'', BDocument flt), (''update'', BDocument upd)]"
| "request_doc (ReqUpdateMany db coll flt upd) =
     target db coll @ [(''filter'', BDocument flt), (''update'', BDocument upd)]"
| "request_doc (ReqDeleteOne db coll flt) = target db coll @ [(''filter'', BDocument flt)]"
| "request_doc (ReqDeleteMany db coll flt) = target db coll @ [(''filter'', BDocument flt)]"
| "request_doc (ReqAggregate db coll pipeline bsz) =
     target db coll @ [(''pipeline'', BArray (map BDocument pipeline))] @
     opt_field ''batch_size'' BInt32 bsz"
| "request_doc (ReqCountDocuments db coll flt) = target db coll @ [(''filter'', BDocument flt)]"
| "request_doc (ReqRunCommand db cmd) = [(''db'', BString db), (''command'', BDocument cmd)]"
| "request_doc (ReqCreateIndex db coll keys name unique) =
     target db coll @ [(''keys'', BDocument keys)] @ opt_field ''name'' BString name @
     opt_field ''unique'' BBoolean unique"
| "request_doc (ReqListCollections db) = [(''db'', BString db)]"
| "request_doc (ReqCreateCollection db name) = [(''db'', BString db), (''name'', BString name)]"
| "request_doc (ReqDropCollection db name) = [(''db'', BString db), (''name'', BString name)]"
| "request_doc (ReqDistinct db coll field flt) =
     target db coll @ [(''field'', BString field)] @ opt_field ''filter'' BDocument flt"
| "request_doc (ReqFindOneAndUpdate db coll flt upd) =
     target db coll @ [(''filter'', BDocument flt), (''update'', BDocument upd)]"
| "request_doc (ReqFindOneAndDelete db coll flt) = target db coll @ [(''filter'', BDocument flt)]"
| "request_doc (ReqBulkWrite db coll len ordered) =
     target db coll @ [(''doc_bytes_len'', BInt32 len), (''ordered'', BBoolean ordered)]"

text \<open>
  Options that are present but all empty are read back as no options at all; the driver
  is asked for the same thing either way.
\<close>

fun normal_options :: "find_options option \<Rightarrow> find_options option" where
  "normal_options None = None"
| "normal_options (Some o') =
     (if fo_limit o' = None \<and> fo_skip o' = None \<and> fo_sort o' = None \<and> fo_projection o' = None
      then None else Some o')"

fun normal_request :: "operation_request \<Rightarrow> operation_request" where
  "normal_request (ReqFind db coll flt opts bsz len) =
     ReqFind db coll flt (normal_options opts) bsz len"
| "normal_request r = r"

lemma opt_field_lookup [simp]:
  "map_of (opt_field k f x) k' = (if k' = k then map_option f x else None)"
  by (cases x) auto

lemma options_doc_lookup [simp]:
  "map_of (options_doc opts) k =
     (case opts of None \<Rightarrow> None | Some o' \<Rightarrow>
        if k = ''limit'' then map_option BInt64 (fo_limit o')
        else if k = ''skip'' then map_option BInt64 (fo_skip o')
        else if k = ''sort'' then map_option BDocument (fo_sort o')
        else if k = ''projection'' then map_option BDocument (fo_projection o') else None)"
  by (cases opts) (auto simp: map_add_def split: option.split)

lemma map_filter_as_document: "List.map_filter as_document (map BDocument ds) = ds"
  by (induction ds) (simp_all add: List.map_filter_simps)

lemmas request_lookup =
  parse_defs get_required_str_def get_required_doc_def bson_getters target_def or_default_def
  map_add_def map_filter_as_document

lemma parse_request_find:
  "parse_doc Find (request_doc (ReqFind db coll flt opts bsz len)) =
     Inr (ReqFind db coll flt (normal_options opts) bsz len)"
proof (cases opts)
  case None
  then show ?thesis by (cases bsz) (simp_all add: request_lookup)
next
  case (Some o')
  obtain l k t p where o': "o' = \<lparr>fo_limit = l, fo_skip = k, fo_sort = t, fo_projection = p\<rparr>"
    by (cases o')
  show ?thesis
    unfolding Some o'
    by (cases bsz; cases l; cases k; cases t; cases p) (simp_all add: request_lookup)
qed

lemma parse_request_doc: "parse_doc (request_opcode r) (request_doc r) = Inr (normal_request r)"
proof (cases r)
  case (ReqFind db coll flt opts bsz len)
  then show ?thesis using parse_request_find by simp
qed (auto simp: request_lookup split: option.split)

subsection \<open>Responses\<close>

text \<open>An absent document and an empty one have the same wire form.\<close>

fun normal_response :: "operation_response \<Rightarrow> operation_response" where
  "normal_response (RespSingleDoc ok d) = RespSingleDoc ok (Some (or_default [] d))"
| "normal_response r = r"

lemma map_BString_inj: "map BString xs = map BString ys \<longleftrightarrow> xs = ys"
  by (simp add: inj_map_eq_map inj_on_def)

lemma response_body_inj: "response_body r = response_body r' \<Longrightarrow> normal_response r = normal_response r'"
  by (cases r; cases r') (auto simp: Let_def map_BString_inj)

lemma response_body_len:
  "get_i32 (fst (response_body r)) ''doc_bytes_len'' = Some (i32_of_len (snd (response_body r)))"
  by (cases r) (simp_all add: get_i32_def i32_of_len_def Let_def)

lemma encode_response_Inr:
  "encode_response B r = Inr (env, raw) \<longleftrightarrow>
     to_vec B (fst (response_body r)) = Inr env \<and> raw = snd (response_body r)"
  by (auto simp: encode_response_def result_simps split: prod.split)

lemma encode_response_read:
  "bson_law B \<Longrightarrow> encode_response B r = Inr (env, raw) \<Longrightarrow>
   from_slice B env = Inr (fst (response_body r)) \<and> self_delimiting env"
  by (auto simp: encode_response_Inr dest: bson_lawD)

subsection \<open>A concrete BSON library\<close>

text \<open>
  For the examples: a library that knows a finite list of documents and their bytes.
\<close>

definition table_bson :: "(document \<times> bytes) list \<Rightarrow> bson_lib" where
  "table_bson t =
     \<lparr>to_vec = (\<lambda>d. ok_or ''unsupported'' (map_of t d)),
      from_slice = (\<lambda>bs. ok_or ''malformed'' (map_of (map (\<lambda>(d, b). (b, d)) t) bs))\<rparr>"

definition table_ok :: "(document \<times> bytes) list \<Rightarrow> bool" where
  "table_ok t \<longleftrightarrow> distinct (map snd t) \<and> list_all (\<lambda>(d, b). self_delimiting b \<and> 5 \<le> length b) t"

lemma table_bson_law: "table_ok t \<Longrightarrow> bson_law (table_bson t)"
  unfolding bson_law_def table_bson_def table_ok_def
proof (safe, goal_cases)
  case (1 d bs)
  then have "(d, bs) \<in> set t"
    by (auto simp: result_simps dest: map_of_SomeD)
  with 1(1) have "map_of (map (\<lambda>(d, b). (b, d)) t) bs = Some d"
    by (intro map_of_is_SomeI) (force simp: comp_def case_prod_beta)+
  then show ?case by simp
qed (auto simp: result_simps list_all_iff dest!: map_of_SomeD)

text \<open>
  The bytes of five documents: the empty one, the answer and the request of a listing, a
  user, and an answer of five raw bytes.
\<close>

definition sample_table :: "(document \<times> bytes) list" where
  "sample_table =
     [([], [5, 0, 0, 0, 0]),
      ([(''db'', BString ''t'')],
       [15, 0, 0, 0, 2, 100, 98, 0, 2, 0, 0, 0, 116, 0, 0]),
      ([(''a'', BInt32 1)],
       [12, 0, 0, 0, 16, 97, 0, 1, 0, 0, 0, 0]),
      ([(''doc_bytes_len'', BInt32 5)],
       [24, 0, 0, 0, 16, 100, 111, 99, 95, 98, 121, 116, 101, 115, 95, 108, 101, 110, 0, 5, 0, 0, 0, 0]),
      ([(''ok'', BBoolean True), (''doc_bytes_len'', BInt32 12)],
       [29, 0, 0, 0, 8, 111, 107, 0, 1, 16, 100, 111, 99, 95, 98, 121, 116, 101, 115, 95, 108, 101,
        110, 0, 12, 0, 0, 0, 0])]"

lemma sample_table_ok: "table_ok sample_table"
  by (simp add: table_ok_def sample_table_def self_delimiting_def bson_size_def u32_from_le_def
      u32_from_be_def i32_as_usize_def)

abbreviation sample_bson :: bson_lib where
  "sample_bson \<equiv> table_bson sample_table"

lemma sample_law: "bson_law sample_bson"
  by (rule table_bson_law) (rule sample_table_ok)

subsection \<open>Properties\<close>

text \<open>
  Envelope parsing. Bytes that are not BSON are an invalid envelope; the error opcode
  is never a request; otherwise the first missing required field is reported, and an
  envelope with all of them always gives a request of the frame's opcode.
\<close>

theorem parse_envelope_outcome:
  "case from_slice B bs of
     Inl e \<Rightarrow> parse_envelope B bs op = Inl (InvalidBson e)
   | Inr d \<Rightarrow>
       if op = OpError
       then parse_envelope B bs op = Inl (InvalidBson ''Error opcode is not a valid request'')
       else case first_missing op d of
              Some f \<Rightarrow> parse_envelope B bs op = Inl (MissingField (fst f))
            | None \<Rightarrow> \<exists>req. parse_envelope B bs op = Inr req \<and> request_opcode req = op"
proof (cases "from_slice B bs")
  case (Inr d)
  then show ?thesis
    using parse_doc_outcome [of op d]
    by (auto simp: parse_envelope_def parse_outcome_def split: option.splits)
qed (simp add: parse_envelope_def)

text \<open>
  C18. Request round trip. The canonical envelope of any request is parsed back into that
  request, up to find options that are present but empty.
\<close>

theorem request_round_trip:
  assumes "bson_law B" and "to_vec B (request_doc r) = Inr bs"
  shows "parse_envelope B bs (request_opcode r) = Inr (normal_request r)"
  using bson_lawD(1) [OF assms] by (simp add: parse_envelope_def parse_request_doc)

theorem request_round_trip_witness:
  "parse_envelope sample_bson
     [15, 0, 0, 0, 2, 100, 98, 0, 2, 0, 0, 0, 116, 0, 0] ListCollections = Inr (ReqListCollections ''t'')"
  using request_round_trip [OF sample_law, of "ReqListCollections ''t''"]
  by (simp add: table_bson_def sample_table_def)

text \<open>
  Response encoding. The envelope of a response reads back as its document, starts
  with its own length as the frame reader expects, and its \<open>doc_bytes_len\<close> is the number
  of raw bytes that follow it (modulo the 32 bits of the field). Two responses with the
  same envelope and raw bytes are the same response, up to an absent document being sent
  as an empty one.
\<close>

theorem response_encoding:
  assumes "bson_law B" and "encode_response B r = Inr (env, raw)"
  shows "self_delimiting env \<and>
    (\<exists>d. from_slice B env = Inr d \<and> get_i32 d ''doc_bytes_len'' = Some (word_of_nat (length raw))) \<and>
    (\<forall>r'. encode_response B r' = Inr (env, raw) \<longrightarrow> normal_response r' = normal_response r)"
proof (intro conjI allI impI)
  have rd: "from_slice B env = Inr (fst (response_body r)) \<and> self_delimiting env"
    using assms by (rule encode_response_read)
  then show "self_delimiting env" ..
  show "\<exists>d. from_slice B env = Inr d \<and> get_i32 d ''doc_bytes_len'' = Some (word_of_nat (length raw))"
    using rd assms(2) response_body_len [of r] by (auto simp: encode_response_Inr i32_of_len_def)
  fix r'
  assume r': "encode_response B r' = Inr (env, raw)"
  have "from_slice B env = Inr (fst (response_body r'))"
    using encode_response_read [OF assms(1) r'] ..
  then have "response_body r' = response_body r"
    using rd r' assms(2) by (simp add: encode_response_Inr prod_eq_iff)
  then show "normal_response r' = normal_response r"
    by (rule response_body_inj)
qed

theorem response_encoding_witness:
  "self_delimiting [24, 0, 0, 0, 16, 100, 111, 99, 95, 98, 121, 116, 101, 115, 95, 108, 101, 110, 0, 5, 0, 0, 0, 0]"
proof -
  have "encode_response sample_bson (RespCommand [5, 0, 0, 0, 0]) =
    Inr ([24, 0, 0, 0, 16, 100, 111, 99, 95, 98, 121, 116, 101, 115, 95, 108, 101, 110, 0, 5, 0, 0, 0, 0],
         [5, 0, 0, 0, 0])"
    by (simp add: encode_response_def table_bson_def sample_table_def i32_of_len_def)
  from response_encoding [OF sample_law this] show ?thesis by simp
qed

end
