(* ===== verification/Dispatch.thy ===== *)
theory Dispatch
  imports Codec
begin

text \<open>
  Dispatch of parsed requests to the operations layer, \<open>src/transport/dispatch.rs\<close>: the
  parsers of raw documents that follow an envelope, one definition per arm of
  \<open>dispatch\<close>, and the handshake. \<open>show_bson\<close> is the \<open>Display\<close> of \<open>bson::Bson\<close>, used for
  the id of an inserted document. A response comes with the database state the operation
  leaves behind.
\<close>

definition to_error_response :: "mongo_error \<Rightarrow> operation_response" where
  "to_error_response err = RespError 1 (err_text err)"

definition handle_handshake :: "operation_request \<Rightarrow> u32 \<Rightarrow> u32 \<Rightarrow> operation_response" where
  "handle_handshake req max_frame_size max_concurrent =
     (case req of
        ReqHandshake _ \<Rightarrow> RespHandshake max_frame_size max_concurrent
      | _ \<Rightarrow> RespError 1 ''expected Handshake request'')"

subsection \<open>Raw documents\<close>

definition parse_single_bson_doc :: "bson_lib \<Rightarrow> bytes \<Rightarrow> string + document" where
  "parse_single_bson_doc B raw =
     (if length raw < 5 then Inl ''raw document bytes too short''
      else map_err (\<lambda>e. ''failed to parse BSON document: '' @ e) (from_slice B raw))"

definition len_prefix :: "bytes \<Rightarrow> nat" where
  "len_prefix p = unat (u32_from_le (p ! 0) (p ! 1) (p ! 2) (p ! 3))"

text \<open>
  The loop over concatenated documents. Every round advances by a length of at least
  five, which is why it ends.
\<close>

function parse_docs_from :: "bson_lib \<Rightarrow> bytes \<Rightarrow> nat \<Rightarrow> document list \<Rightarrow> string + document list" where
  "parse_docs_from B raw offset docs =
     (if offset < length raw then
        if length raw - offset < 4 then Inl ''incomplete BSON length prefix''
        else
          (let len = len_prefix (drop offset raw) in
           if len < 5 then Inl ''invalid BSON document length''
           else if offset + len > length raw then Inl ''BSON document extends beyond buffer''
           else
             (case from_slice B (take len (drop offset raw)) of
                Inl e \<Rightarrow> Inl (''failed to parse BSON document at offset '' @ show_nat offset @ '': '' @ e)
              | Inr doc \<Rightarrow> parse_docs_from B raw (offset + len) (docs @ [doc])))
      else Inr docs)"
  by pat_completeness auto
termination
  by (relation "measure (\<lambda>(B, raw, offset, docs). length raw - offset)") auto

declare parse_docs_from.simps [simp del]

definition parse_bson_docs :: "bson_lib \<Rightarrow> bytes \<Rightarrow> string + document list" where
  "parse_bson_docs B raw = parse_docs_from B raw 0 []"

subsection \<open>The arms of dispatch\<close>

type_synonym 'db served = "operation_response \<times> 'db"

text \<open>\<open>doc.map(|d| bson::to_vec(&d)).transpose()\<close>, then the single-document response.\<close>

definition single_doc_response :: "bson_lib \<Rightarrow> document option \<Rightarrow> operation_response" where
  "single_doc_response B doc =
     (case doc of
        None \<Rightarrow> RespSingleDoc True None
      | Some d \<Rightarrow>
          (case to_vec B d of
             Inr raw \<Rightarrow> RespSingleDoc True (Some raw)
           | Inl e \<Rightarrow> RespError 1 (''failed to serialize document: '' @ e)))"

definition respond :: "('a \<Rightarrow> operation_response) \<Rightarrow> (mongo_error + 'a) \<times> 'db \<Rightarrow> 'db served" where
  "respond ok r =
     (case r of
        (Inr a, s) \<Rightarrow> (ok a, s)
      | (Inl e, s) \<Rightarrow> (to_error_response e, s))"

definition dispatch_find_one :: "bson_lib \<Rightarrow> 'db driver \<Rightarrow> string \<Rightarrow> string \<Rightarrow> document \<Rightarrow> 'db \<Rightarrow> 'db served" where
  "dispatch_find_one B D db coll flt s =
     respond (single_doc_response B) (op_find_one D db coll flt s)"

definition dispatch_find ::
  "'db driver \<Rightarrow> string \<Rightarrow> string \<Rightarrow> document \<Rightarrow> find_options option \<Rightarrow> 'db \<Rightarrow> 'db served" where
  "dispatch_find D db coll flt opts s =
     respond (\<lambda>(count, doc_bytes). RespBatch count doc_bytes) (op_find_raw D db coll flt opts s)"

definition dispatch_insert_one ::
  "bson_lib \<Rightarrow> (bson \<Rightarrow> string) \<Rightarrow> 'db driver \<Rightarrow> string \<Rightarrow> string \<Rightarrow> bytes \<Rightarrow> 'db \<Rightarrow> 'db served" where
  "dispatch_insert_one B show_bson D db coll raw s =
     (case parse_single_bson_doc B raw of
        Inl msg \<Rightarrow> (RespError 1 msg, s)
      | Inr doc \<Rightarrow> respond (\<lambda>inserted_id. RespInsertOne (show_bson inserted_id)) (op_insert D db coll doc s))"

definition dispatch_insert_many ::
  "bson_lib \<Rightarrow> 'db driver \<Rightarrow> string \<Rightarrow> string \<Rightarrow> bytes \<Rightarrow> 'db \<Rightarrow> 'db served" where
  "dispatch_insert_many B D db coll raw s =
     (case parse_bson_docs B raw of
        Inl msg \<Rightarrow> (RespError 1 msg, s)
      | Inr docs \<Rightarrow>
          respond (\<lambda>ids. RespInsertMany (u32_of_len (length ids))) (op_insert_many D db coll docs s))"

definition update_response :: "update_counts \<Rightarrow> operation_response" where
  "update_response u = RespUpdate (matched_count u) (modified_count u)"

definition dispatch_update_one where
  "dispatch_update_one D db coll flt upd (s :: 'db) = respond update_response (op_update D db coll flt upd s)"

definition dispatch_update_many where
  "dispatch_update_many D db coll flt upd (s :: 'db) =
     respond update_response (op_update_many D db coll flt upd s)"

definition dispatch_delete_one where
  "dispatch_delete_one D db coll flt (s :: 'db) = respond RespDelete (op_delete D db coll flt s)"

definition dispatch_delete_many where
  "dispatch_delete_many D db coll flt (s :: 'db) = respond RespDelete (op_delete_many D db coll flt s)"

definition dispatch_aggregate where
  "dispatch_aggregate B D db coll pipeline (s :: 'db) =
     respond (\<lambda>(count, doc_bytes). RespBatch count doc_bytes) (op_aggregate_raw B D db coll pipeline s)"

definition dispatch_count where
  "dispatch_count D db coll flt (s :: 'db) = respond RespCount (op_count_documents D db coll flt s)"

definition dispatch_run_command where
  "dispatch_run_command B D db command (s :: 'db) =
     respond
       (\<lambda>doc. case to_vec B doc of
          Inr raw \<Rightarrow> RespCommand raw
        | Inl e \<Rightarrow> RespError 1 (''failed to serialize command result: '' @ e))
       (run_command D db command default_raw_mode s)"

definition dispatch_create_index where
  "dispatch_create_index D db coll keys name unique (s :: 'db) =
     (let opts =
        (if name \<noteq> None \<or> unique \<noteq> None
         then Some \<lparr>ix_name = name, ix_unique = unique, ix_sparse = None\<rparr> else None)
      in respond RespIndex (op_create_index D db coll keys opts s))"

definition dispatch_list_collections where
  "dispatch_list_collections D db (s :: 'db) =
     (case drv_list_collections D db s of
        (Inr names, s') \<Rightarrow> (RespCollections names, s')
      | (Inl e, s') \<Rightarrow> (to_error_response (OperationError (err_message e)), s'))"

definition dispatch_create_collection where
  "dispatch_create_collection D db name (s :: 'db) =
     respond (\<lambda>_. RespSingleDoc True None) (op_create_collection D db name s)"

definition dispatch_drop_collection where
  "dispatch_drop_collection D db name (s :: 'db) =
     respond (\<lambda>_. RespSingleDoc True None) (op_drop_collection D db name s)"

definition dispatch_distinct where
  "dispatch_distinct B D db coll field flt (s :: 'db) =
     (case drv_distinct D db coll field (or_default [] flt) s of
        (Inr values, s') \<Rightarrow>
          (case to_vec B [(''values'', BArray values)] of
             Inr raw \<Rightarrow> (RespCommand raw, s')
           | Inl e \<Rightarrow> (RespError 1 (''failed to serialize distinct result: '' @ e), s'))
      | (Inl e, s') \<Rightarrow> (to_error_response (OperationError (err_message e)), s'))"

definition dispatch_find_one_and_update where
  "dispatch_find_one_and_update B D db coll flt upd (s :: 'db) =
     respond (single_doc_response B) (op_find_and_modify D db coll flt upd None s)"

definition find_and_remove_command :: "string \<Rightarrow> document \<Rightarrow> document" where
  "find_and_remove_command coll flt =
     [(''findAndModify'', BString coll), (''query'', BDocument flt), (''remove'', BBoolean True)]"

definition dispatch_find_one_and_delete where
  "dispatch_find_one_and_delete B D db coll flt (s :: 'db) =
     respond (\<lambda>result. single_doc_response B (get_document result ''value''))
       (run_command D db (find_and_remove_command coll flt) default_raw_mode s)"

definition dispatch_bulk_write where
  "dispatch_bulk_write B D db coll raw (s :: 'db) =
     (case parse_bson_docs B raw of
        Inl msg \<Rightarrow> (RespError 1 msg, s)
      | Inr docs \<Rightarrow>
          respond (\<lambda>ids. RespInsertMany (u32_of_len (length ids))) (op_insert_many D db coll docs s))"

fun dispatch ::
  "bson_lib \<Rightarrow> (bson \<Rightarrow> string) \<Rightarrow> 'db driver \<Rightarrow> operation_request \<Rightarrow> bytes \<Rightarrow> 'db \<Rightarrow> 'db served" where
  "dispatch B sh D (ReqHandshake _) raw s =
     (RespError 1 ''Handshake must be handled via handle_handshake'', s)"
| "dispatch B sh D (ReqFindOne db coll flt _) raw s = dispatch_find_one B D db coll flt s"
| "dispatch B sh D (ReqFind db coll flt opts _ _) raw s = dispatch_find D db coll flt opts s"
| "dispatch B sh D (ReqInsertOne db coll _) raw s = dispatch_insert_one B sh D db coll raw s"
| "dispatch B sh D (ReqInsertMany db coll _ _) raw s = dispatch_insert_many B D db coll raw s"
| "dispatch B sh D (ReqUpdateOne db coll flt upd) raw s = dispatch_update_one D db coll flt upd s"
| "dispatch B sh D (ReqUpdateMany db coll flt upd) raw s = dispatch_update_many D db coll flt upd s"
| "dispatch B sh D (ReqDeleteOne db coll flt) raw s = dispatch_delete_one D db coll flt s"
| "dispatch B sh D (ReqDeleteMany db coll flt) raw s = dispatch_delete_many D db coll flt s"
| "dispatch B sh D (ReqAggregate db coll pipeline _) raw s = dispatch_aggregate B D db coll pipeline s"
| "dispatch B sh D (ReqCountDocuments db coll flt) raw s = dispatch_count D db coll flt s"
| "dispatch B sh D (ReqRunCommand db command) raw s = dispatch_run_command B D db command s"
| "dispatch B sh D (ReqCreateIndex db coll keys name unique) raw s =
     dispatch_create_index D db coll keys name unique s"
| "dispatch B sh D (ReqListCollections db) raw s = dispatch_list_collections D db s"
| "dispatch B sh D (ReqCreateCollection db name) raw s = dispatch_create_collection D db name s"
| "dispatch B sh D (ReqDropCollection db name) raw s = dispatch_drop_collection D db name s"
| "dispatch B sh D (ReqDistinct db coll field flt) raw s = dispatch_distinct B D db coll field flt s"
| "dispatch B sh D (ReqFindOneAndUpdate db coll flt upd) raw s =
     dispatch_find_one_and_update B D db coll flt upd s"
| "dispatch B sh D (ReqFindOneAndDelete db coll flt) raw s =
     dispatch_find_one_and_delete B D db coll flt s"
| "dispatch B sh D (ReqBulkWrite db coll _ _) raw s = dispatch_bulk_write B D db coll raw s"

lemmas dispatch_defs =
  dispatch_find_one_def dispatch_find_def dispatch_insert_one_def dispatch_insert_many_def
  dispatch_update_one_def dispatch_update_many_def dispatch_delete_one_def
  dispatch_delete_many_def dispatch_aggregate_def dispatch_count_def dispatch_run_command_def
  dispatch_create_index_def dispatch_list_collections_def dispatch_create_collection_def
  dispatch_drop_collection_def dispatch_distinct_def dispatch_find_one_and_update_def
  dispatch_find_one_and_delete_def dispatch_bulk_write_def


subsection \<open>Concatenated documents\<close>

text \<open>A chunk of raw bytes that is one document: it has the length it starts with.\<close>

definition chunk_ok :: "bytes \<Rightarrow> bool" where
  "chunk_ok c \<longleftrightarrow> 5 \<le> length c \<and> len_prefix c = length c"

definition doc_chunk :: "bson_lib \<Rightarrow> bytes \<Rightarrow> document \<Rightarrow> bool" where
  "doc_chunk B c d \<longleftrightarrow> chunk_ok c \<and> from_slice B c = Inr d"

lemma len_prefix_append: "4 \<le> length c \<Longrightarrow> len_prefix (c @ r) = len_prefix c"
  by (cases c) (auto simp: len_prefix_def nth_append)

lemma len_prefix_take: "4 \<le> n \<Longrightarrow> n \<le> length p \<Longrightarrow> len_prefix (take n p) = len_prefix p"
  using len_prefix_append [of "take n p" "drop n p"] by simp

lemma parse_docs_complete:
  "list_all2 (doc_chunk B) cs ds \<Longrightarrow>
   parse_docs_from B (pre @ concat cs) (length pre) acc = Inr (acc @ ds)"
proof (induction cs ds arbitrary: pre acc rule: list_all2_induct)
  case Nil
  then show ?case by (subst parse_docs_from.simps) simp
next
  case (Cons c cs d ds)
  then have c: "5 \<le> length c" "len_prefix c = length c" "from_slice B c = Inr d"
    by (auto simp: doc_chunk_def chunk_ok_def)
  then have "len_prefix (c @ concat cs) = length c"
    by (simp add: len_prefix_append)
  moreover have "parse_docs_from B ((pre @ c) @ concat cs) (length (pre @ c)) (acc @ [d]) = Inr ((acc @ [d]) @ ds)"
    by (rule Cons.IH)
  moreover have "c \<noteq> []" using c(1) by auto
  ultimately show ?case
    using c by (subst parse_docs_from.simps) simp
qed

lemma parse_docs_sound:
  "parse_docs_from B raw off acc = Inr ds \<Longrightarrow>
   \<exists>cs news. drop off raw = concat cs \<and> ds = acc @ news \<and> list_all2 (doc_chunk B) cs news"
proof (induction B raw off acc rule: parse_docs_from.induct)
  case (1 B raw off acc)
  show ?case
  proof (cases "off < length raw")
    case False
    then show ?thesis
      using "1.prems" by (subst (asm) parse_docs_from.simps) (auto intro!: exI [of _ "[]"])
  next
    case True
    define len where "len = len_prefix (drop off raw)"
    note eq = "1.prems" [unfolded parse_docs_from.simps [of B raw off acc] Let_def, folded len_def]
    have ok: "\<not> length raw - off < 4" "\<not> len < 5" "\<not> off + len > length raw"
      using eq True by (auto split: if_splits)
    with eq True have "\<exists>doc. from_slice B (take len (drop off raw)) = Inr doc \<and>
        parse_docs_from B raw (off + len) (acc @ [doc]) = Inr ds"
      by (auto split: sum.splits)
    then obtain doc where doc: "from_slice B (take len (drop off raw)) = Inr doc"
      and rest: "parse_docs_from B raw (off + len) (acc @ [doc]) = Inr ds"
      by blast
    from "1.IH" [OF True ok(1) len_def ok(2,3) doc rest] obtain cs news
      where r: "drop (off + len) raw = concat cs" "ds = (acc @ [doc]) @ news"
        "list_all2 (doc_chunk B) cs news"
      by blast
    have "doc_chunk B (take len (drop off raw)) doc"
      using ok doc len_prefix_take [of len "drop off raw"]
      by (simp add: doc_chunk_def chunk_ok_def flip: len_def)
    moreover have "drop off raw = take len (drop off raw) @ concat cs"
      using r(1) by (metis append_take_drop_id drop_drop add.commute)
    ultimately show ?thesis
      using r by (intro exI [of _ "take len (drop off raw) # cs"] exI [of _ "doc # news"]) simp
  qed
qed

lemma parse_bson_docs_iff:
  "parse_bson_docs B raw = Inr ds \<longleftrightarrow> (\<exists>cs. raw = concat cs \<and> list_all2 (doc_chunk B) cs ds)"
  using parse_docs_sound [of B raw 0 "[]" ds] parse_docs_complete [of B _ ds "[]" "[]"]
  by (auto simp: parse_bson_docs_def)

lemma parse_concat: "list_all2 (doc_chunk B) cs ds \<Longrightarrow> parse_bson_docs B (concat cs) = Inr ds"
  by (auto simp: parse_bson_docs_iff)

text \<open>Below two gigabytes the signed and the unsigned reading of the length agree.\<close>

lemma i32_as_usize_small: "i32_as_usize w < 2 ^ 31 \<Longrightarrow> unat w = i32_as_usize w"
proof -
  assume h: "i32_as_usize w < 2 ^ 31"
  have "\<not> bit w 31"
  proof
    assume b: "bit w 31"
    have "bit (unat (scast w :: u64)) 63"
      using b by (simp add: bit_simps)
    moreover have "\<not> bit (unat (scast w :: u64)) 63" if "unat (scast w :: u64) < 2 ^ 63"
      using that by (metis bit_take_bit_iff nat_less_le take_bit_nat_eq_self)
    ultimately have "2 ^ 63 \<le> unat (scast w :: u64)"
      by (meson not_less)
    with h show False by (simp add: i32_as_usize_def)
  qed
  then have high: "bit w n \<Longrightarrow> n < 31" for n
    using bit_imp_le_length [of w n] by (cases "n = 31") auto
  then have "(scast w :: u64) = ucast w"
    by (intro bit_word_eqI) (auto simp: bit_simps min_def \<open>\<not> bit w 31\<close> dest: high)
  moreover have "unat w < 2 ^ 32"
    using unsigned_less [of w] by simp
  ultimately show ?thesis by (simp add: i32_as_usize_def unsigned_ucast_eq take_bit_nat_eq_self)
qed

lemma doc_chunk_encoded:
  assumes "bson_law B" and "to_vec B d = Inr c" and "length c < 2 ^ 31"
  shows "doc_chunk B c d"
proof -
  have sd: "self_delimiting c" and l: "5 \<le> length c" and f: "from_slice B c = Inr d"
    using assms(1,2) by (auto dest: bson_lawD)
  then have "len_prefix c = length c"
    using i32_as_usize_small [of "u32_from_le (c ! 0) (c ! 1) (c ! 2) (c ! 3)"] assms(3)
    by (simp add: self_delimiting_def bson_size_def len_prefix_def)
  with l f show ?thesis by (simp add: doc_chunk_def chunk_ok_def)
qed

text \<open>The encodings of a list of documents, one after the other.\<close>

definition encodings :: "bson_lib \<Rightarrow> document list \<Rightarrow> bytes list \<Rightarrow> bool" where
  "encodings B ds cs \<longleftrightarrow> list_all2 (\<lambda>d c. to_vec B d = Inr c \<and> length c < 2 ^ 31) ds cs"

lemma parse_encodings: "bson_law B \<Longrightarrow> encodings B ds cs \<Longrightarrow> parse_bson_docs B (concat cs) = Inr ds"
  unfolding encodings_def
  by (rule parse_concat) (auto simp: list_all2_conv_all_nth intro: doc_chunk_encoded)

subsection \<open>What a response can be\<close>

text \<open>The response variants that answer a request when it succeeds.\<close>

fun answers :: "opcode \<Rightarrow> operation_response \<Rightarrow> bool" where
  "answers op (RespSingleDoc ok d) =
     (ok \<and> op \<in> {FindOne, FindOneAndUpdate, FindOneAndDelete, CreateCollection, DropCollection})"
| "answers op (RespBatch _ _) = (op \<in> {Find, Aggregate})"
| "answers op (RespInsertOne _) = (op = InsertOne)"
| "answers op (RespInsertMany _) = (op \<in> {InsertMany, BulkWrite})"
| "answers op (RespUpdate _ _) = (op \<in> {UpdateOne, UpdateMany})"
| "answers op (RespDelete _) = (op \<in> {DeleteOne, DeleteMany})"
| "answers op (RespCount _) = (op = CountDocuments)"
| "answers op (RespIndex _) = (op = CreateIndex)"
| "answers op (RespCollections _) = (op = ListCollections)"
| "answers op (RespCommand _) = (op \<in> {RunCommand, Distinct})"
| "answers op (RespError code _) = (code = 1)"
| "answers op (RespHandshake _ _) = False"
| "answers op (RespShutdown _) = False"

lemma answers_respond: "(\<And>a. answers op (ok a)) \<Longrightarrow> answers op (fst (respond ok r))"
  by (auto simp: respond_def to_error_response_def split: prod.split sum.split)

lemma answers_single: "op \<in> {FindOne, FindOneAndUpdate, FindOneAndDelete} \<Longrightarrow> answers op (single_doc_response B d)"
  by (auto simp: single_doc_response_def split: option.split sum.split)

lemma dispatch_answers: "answers (request_opcode req) (fst (dispatch B sh D req raw s))"
  by (cases req)
    (auto simp: dispatch_defs update_response_def Let_def to_error_response_def
      intro!: answers_respond answers_single split: sum.split prod.split)

text \<open>Requests that are turned away before the database is asked anything.\<close>

fun turned_away :: "bson_lib \<Rightarrow> operation_request \<Rightarrow> bytes \<Rightarrow> bool" where
  "turned_away B (ReqHandshake _) raw = True"
| "turned_away B (ReqInsertOne _ _ _) raw = (length raw < 5 \<or> (\<exists>e. from_slice B raw = Inl e))"
| "turned_away B (ReqInsertMany _ _ _ _) raw = (\<nexists>ds. parse_bson_docs B raw = Inr ds)"
| "turned_away B (ReqBulkWrite _ _ _ _) raw = (\<nexists>ds. parse_bson_docs B raw = Inr ds)"
| "turned_away B (ReqRunCommand _ command) raw = blocked command"
| "turned_away B _ raw = False"

lemma turned_away_response:
  "turned_away B req raw \<Longrightarrow> \<exists>msg. dispatch B sh D req raw s = (RespError 1 msg, s)"
proof (cases req)
  case (ReqRunCommand db command)
  moreover assume "turned_away B req raw"
  ultimately show ?thesis
    using run_command_blocked [of command D db s]
    by (auto simp: dispatch_run_command_def default_raw_mode_def respond_def to_error_response_def)
qed (auto simp: dispatch_defs parse_single_bson_doc_def split: sum.split)

lemma find_and_remove_not_blocked: "\<not> blocked (find_and_remove_command coll flt)"
  by (simp add: blocked_def find_and_remove_command_def DANGEROUS_COMMANDS_def)

text \<open>The documents a driver's raw cursor hands out have the length they start with.\<close>

fun cursor_ok :: "cursor outcome \<times> 'db \<Rightarrow> bool" where
  "cursor_ok (Done (Inr c), s) = (\<forall>raw. Inr raw \<in> set c \<longrightarrow> chunk_ok raw)"
| "cursor_ok _ = True"

lemma find_batch:
  assumes "op_find B D db coll flt opts s = (Inr ds, s')"
    and "cursor_ok (drv_find D db coll flt opts DEFAULT_QUERY_TIMEOUT s)"
  shows "\<exists>bs. dispatch_find D db coll flt opts s = (RespBatch (of_nat (length ds)) bs, s') \<and>
    parse_bson_docs B bs = Inr ds"
proof -
  from assms(1) obtain c where c: "drv_find D db coll flt opts DEFAULT_QUERY_TIMEOUT s = (Done (Inr c), s')"
    and d: "drain_docs B D [] c = Inr ds"
    by (auto simp: op_find_def timed_call_Inr inside_Inr)
  from drain_docs_Inr [OF d] obtain raws
    where raws: "c = map Inr raws" "list_all2 (\<lambda>r d. from_slice B r = Inr d) raws ds"
    by auto
  then have "op_find_raw D db coll flt opts s = (Inr (of_nat (length ds), concat raws), s')"
    using c by (simp add: op_find_raw_def drain_raw_map list_all2_lengthD)
  moreover have "list_all2 (doc_chunk B) raws ds"
    using assms(2) raws(2) unfolding c raws(1)
    by (auto simp: doc_chunk_def list_all2_conv_all_nth)
  ultimately show ?thesis
    by (auto simp: dispatch_find_def respond_def dest: parse_concat)
qed

subsection \<open>A concrete driver\<close>

text \<open>
  For the examples: a database that is one list of documents, on which inserting appends
  and finding returns everything, with the sample BSON library.
\<close>

definition sample_error :: "string \<Rightarrow> driver_error" where
  "sample_error m = \<lparr>err_kind = EOther, err_message = m\<rparr>"

definition sample_cursor :: "document list \<Rightarrow> cursor" where
  "sample_cursor = map (\<lambda>d. map_err sample_error (to_vec sample_bson d))"

definition sample_driver :: "document list driver" where
  "sample_driver =
     \<lparr>drv_find = (\<lambda>db coll flt opts t s. (Done (Inr (sample_cursor s)), s)),
      drv_find_one = (\<lambda>db coll flt t s. (Done (Inr (case s of [] \<Rightarrow> None | d # _ \<Rightarrow> Some d)), s)),
      drv_insert_one = (\<lambda>db coll d t s. (Done (Inr (BInt32 0)), s @ [d])),
      drv_insert_many = (\<lambda>db coll ds t s. (Done (Inr (map (\<lambda>i. (i, BInt32 0)) [0..<length ds])), s @ ds)),
      drv_update_one = (\<lambda>db coll flt upd t s. (Done (Inr \<lparr>matched_count = 0, modified_count = 0, upsert_id = None\<rparr>), s)),
      drv_update_many = (\<lambda>db coll flt upd t s. (TimedOut, s)),
      drv_delete_one = (\<lambda>db coll flt t s. (Done (Inr 1), tl s)),
      drv_delete_many = (\<lambda>db coll flt t s. (Done (Inr (of_nat (length s))), [])),
      drv_count = (\<lambda>db coll flt t s. (Done (Inr (of_nat (length s))), s)),
      drv_aggregate = (\<lambda>loc db coll p t s. (Done (Inr (sample_cursor s)), s)),
      drv_create_collection = (\<lambda>db name t s. (Done (Inr ()), s)),
      drv_drop_collection = (\<lambda>db name t s. (Done (Inr ()), [])),
      drv_run_command_timed = (\<lambda>db c t s. (Done (Inr []), s)),
      drv_create_index = (\<lambda>db coll keys opts t s. (Done (Inr ''ix''), s)),
      drv_find_one_and_update = (\<lambda>db coll flt upd opts t s. (Done (Inr None), s)),
      drv_run_command = (\<lambda>db c s. (Inr [], s)),
      drv_list_collections = (\<lambda>db s. (Inr [''c''], s)),
      drv_distinct = (\<lambda>db coll field flt s. (Inr [], s)),
      drv_decode_error = sample_error,
      drv_custom_error = sample_error\<rparr>"

abbreviation sample_docs :: "document list" where
  "sample_docs \<equiv> [[], [(''a'', BInt32 1)]]"

abbreviation sample_encodings :: "bytes list" where
  "sample_encodings \<equiv> [[5, 0, 0, 0, 0], [12, 0, 0, 0, 16, 97, 0, 1, 0, 0, 0, 0]]"

lemma sample_encoded: "encodings sample_bson sample_docs sample_encodings"
  by (simp add: encodings_def table_bson_def sample_table_def)

lemma sample_cursor_eq: "sample_cursor sample_docs = map Inr sample_encodings"
  by (simp add: sample_cursor_def table_bson_def sample_table_def)

lemma sample_chunks: "\<forall>c \<in> set sample_encodings. chunk_ok c"
  by (simp add: chunk_ok_def len_prefix_def u32_from_le_def u32_from_be_def)

lemma sample_find: "op_find sample_bson sample_driver ''t'' ''c'' [] None sample_docs = (Inr sample_docs, sample_docs)"
  by (simp add: op_find_def sample_driver_def sample_cursor_eq table_bson_def sample_table_def)

subsection \<open>Properties\<close>

text \<open>
  C4. Raw documents. The parser of concatenated documents accepts exactly the byte
  strings that are a sequence of documents, each as long as its own length prefix says
  and readable by the BSON library, and gives those documents in order.
\<close>

theorem raw_documents_exact:
  "parse_bson_docs B raw = Inr ds \<longleftrightarrow> (\<exists>cs. raw = concat cs \<and> list_all2 (doc_chunk B) cs ds)"
  by (rule parse_bson_docs_iff)

text \<open>
  Batch inserts deliver the documents. The encodings of a list of documents, sent one
  after the other as the raw bytes of an insert-many or a bulk write, reach the operations
  layer as exactly that list, in that order, and both requests do the same.
\<close>

theorem insert_many_delivers:
  assumes "bson_law B" and "encodings B ds cs"
  shows "dispatch B sh D (ReqInsertMany db coll ordered len) (concat cs) s =
      respond (\<lambda>ids. RespInsertMany (u32_of_len (length ids))) (op_insert_many D db coll ds s) \<and>
    dispatch B sh D (ReqBulkWrite db coll len ordered) (concat cs) s =
      dispatch B sh D (ReqInsertMany db coll ordered len) (concat cs) s"
  using parse_encodings [OF assms] by (simp add: dispatch_defs)

theorem insert_many_delivers_witness:
  "dispatch sample_bson (\<lambda>_. []) sample_driver (ReqInsertMany ''t'' ''c'' True 17) (concat sample_encodings) [] =
     (RespInsertMany 2, sample_docs)"
  using insert_many_delivers [OF sample_law sample_encoded,
      of "\<lambda>_. []" sample_driver "''t''" "''c''" True 17 "[]"]
  by (simp add: sample_driver_def op_insert_many_def respond_def u32_of_len_def)

text \<open>
  C5. The raw find path is faithful. When decoding every result of a find gives a list
  of documents, the batch that dispatch answers without decoding anything holds their
  number and bytes that parse into exactly that list.
\<close>

theorem find_batch_faithful:
  assumes "op_find B D db coll flt opts s = (Inr ds, s')"
    and "cursor_ok (drv_find D db coll flt opts DEFAULT_QUERY_TIMEOUT s)"
  shows "\<exists>bs. dispatch B sh D (ReqFind db coll flt opts bsz len) raw s =
      (RespBatch (of_nat (length ds)) bs, s') \<and> parse_bson_docs B bs = Inr ds"
  using find_batch [OF assms] by simp

theorem find_batch_faithful_witness:
  "\<exists>bs. dispatch sample_bson (\<lambda>_. []) sample_driver (ReqFind ''t'' ''c'' [] None None 0) [] sample_docs =
      (RespBatch 2 bs, sample_docs) \<and> parse_bson_docs sample_bson bs = Inr sample_docs"
proof -
  have "cursor_ok (drv_find sample_driver ''t'' ''c'' [] None DEFAULT_QUERY_TIMEOUT sample_docs)"
    using sample_chunks by (simp add: sample_driver_def sample_cursor_eq)
  from find_batch_faithful [OF sample_find this, of "\<lambda>_. []" None 0 "[]"] show ?thesis by simp
qed

text \<open>
  Responses fit their requests. Whatever the database does, dispatch answers with the
  response variant of the request's opcode or with an error of code 1; it never answers
  with a handshake or a shutdown.
\<close>

theorem dispatch_response_fits: "answers (request_opcode req) (fst (dispatch B sh D req raw s))"
  by (rule dispatch_answers)

text \<open>
  C6. Rejected requests leave the database alone. A handshake out of place, raw bytes
  that do not parse and a blocked raw command are answered with an error of code 1 and
  an unchanged database.
\<close>

theorem rejected_requests_have_no_effect:
  assumes "turned_away B req raw"
  shows "\<exists>msg. dispatch B sh D req raw s = (RespError 1 msg, s)"
  using assms by (rule turned_away_response)

theorem rejected_requests_have_no_effect_witness:
  "\<exists>msg. dispatch sample_bson (\<lambda>_. []) sample_driver
     (ReqRunCommand ''t'' [(''ping'', BInt32 1), (''dropDatabase'', BInt32 1)]) [] sample_docs =
     (RespError 1 msg, sample_docs)"
  by (rule rejected_requests_have_no_effect) (simp add: blocked_def DANGEROUS_COMMANDS_def)

text \<open>
  Fields that a request carries and dispatch drops: the projection of a find-one, and
  the \<open>ordered\<close> flag of batch inserts.
\<close>

lemma dispatch_ignores:
  "dispatch B sh D (ReqFindOne db coll flt p) raw s = dispatch B sh D (ReqFindOne db coll flt p') raw s"
  "dispatch B sh D (ReqInsertMany db coll o1 len) raw s = dispatch B sh D (ReqInsertMany db coll o2 len) raw s"
  by simp_all

end
