(* ===== verification/Priority_Queue.thy ===== *)
theory Priority_Queue
  imports Frame "HOL-Library.Multiset"
begin

text \<open>
  The priority queue of a connection, \<open>src/transport/connection.rs\<close> (\<open>PendingRequest\<close>,
  \<open>PriorityQueue\<close>, \<open>resolve_priority\<close>): three double-ended queues, one per level. The
  interface \<open>priority_queue\<close> says what the connection handler relies on, that a request
  goes behind those of its level and ahead of the lower ones and that requests leave from
  the front; under it, draining a queue that was filled by a series of pushes is a stable
  sort by level.
\<close>

record pending_request =
  pframe :: frame
  pprio :: priority

record prio_queue =
  high :: "pending_request list"
  normal :: "pending_request list"
  low :: "pending_request list"

definition pq_new :: prio_queue where
  "pq_new = \<lparr>high = [], normal = [], low = []\<rparr>"

definition pq_push :: "pending_request \<Rightarrow> prio_queue \<Rightarrow> prio_queue" where
  "pq_push request q =
     (case pprio request of
        High \<Rightarrow> q\<lparr>high := high q @ [request]\<rparr>
      | Critical \<Rightarrow> q\<lparr>high := high q @ [request]\<rparr>
      | Normal \<Rightarrow> q\<lparr>normal := normal q @ [request]\<rparr>
      | Low \<Rightarrow> q\<lparr>low := low q @ [request]\<rparr>)"

definition pq_pop :: "prio_queue \<Rightarrow> (pending_request \<times> prio_queue) option" where
  "pq_pop q =
     (case high q of
        r # rs \<Rightarrow> Some (r, q\<lparr>high := rs\<rparr>)
      | [] \<Rightarrow>
          (case normal q of
             r # rs \<Rightarrow> Some (r, q\<lparr>normal := rs\<rparr>)
           | [] \<Rightarrow>
               (case low q of
                  r # rs \<Rightarrow> Some (r, q\<lparr>low := rs\<rparr>)
                | [] \<Rightarrow> None)))"

text \<open>
  Critical priority is kept for the handshake opcode only.
\<close>

definition resolve_priority :: "frame \<Rightarrow> priority" where
  "resolve_priority f =
     (if priority (hflags (header f)) = Critical \<and> opcode (hflags (header f)) \<noteq> Handshake then High
      else priority (hflags (header f)))"

subsection \<open>The interface\<close>

locale priority_queue =
  fixes empty :: 'q
    and push :: "'r \<Rightarrow> 'q \<Rightarrow> 'q"
    and pop :: "'q \<Rightarrow> ('r \<times> 'q) option"
    and rank :: "'r \<Rightarrow> nat"
    and elems :: "'q \<Rightarrow> 'r list"
    and inv :: "'q \<Rightarrow> bool"
  assumes inv_empty: "inv empty"
    and inv_push: "inv q \<Longrightarrow> inv (push r q)"
    and inv_pop: "inv q \<Longrightarrow> pop q = Some (r, q') \<Longrightarrow> inv q'"
    and elems_empty: "elems empty = []"
    and elems_push: "inv q \<Longrightarrow>
      elems (push r q) = filter (\<lambda>x. rank x \<le> rank r) (elems q) @ [r] @ filter (\<lambda>x. rank r < rank x) (elems q)"
    and elems_pop: "inv q \<Longrightarrow>
      elems q = (case pop q of None \<Rightarrow> [] | Some (r, q') \<Rightarrow> r # elems q')"
begin

definition fill :: "'r list \<Rightarrow> 'q \<Rightarrow> 'q" where
  "fill rs q = foldl (\<lambda>q r. push r q) q rs"

lemma inv_fill: "inv q \<Longrightarrow> inv (fill rs q)"
  by (induction rs arbitrary: q) (simp_all add: fill_def inv_push)

lemma pop_None: "inv q \<Longrightarrow> pop q = None \<longleftrightarrow> elems q = []"
  using elems_pop [of q] by (auto split: option.splits)

lemma pop_Some: "inv q \<Longrightarrow> pop q = Some (r, q') \<Longrightarrow> elems q = r # elems q'"
  using elems_pop [of q] by simp

text \<open>Pushing never loses, duplicates or reorders within a level.\<close>

lemma push_mset: "inv q \<Longrightarrow> mset (elems (push r q)) = add_mset r (mset (elems q))"
proof -
  assume "inv q"
  then have "mset (elems (push r q)) =
      add_mset r (filter_mset (\<lambda>x. rank x \<le> rank r) (mset (elems q)) +
        filter_mset (\<lambda>x. \<not> rank x \<le> rank r) (mset (elems q)))"
    by (simp add: elems_push not_le)
  then show ?thesis by (simp only: multiset_partition [symmetric])
qed

lemma push_level:
  "inv q \<Longrightarrow> filter (\<lambda>x. rank x = k) (elems (push r q)) =
     filter (\<lambda>x. rank x = k) (elems q) @ (if rank r = k then [r] else [])"
proof -
  assume q: "inv q"
  have "filter (\<lambda>x. rank x = k) (elems (push r q)) =
      filter (\<lambda>x. rank x \<le> rank r \<and> rank x = k) (elems q) @
      (if rank r = k then [r] else []) @ filter (\<lambda>x. rank r < rank x \<and> rank x = k) (elems q)"
    by (simp add: elems_push [OF q])
  also have "(\<lambda>x. rank x \<le> rank r \<and> rank x = k) = (\<lambda>x. k \<le> rank r \<and> rank x = k)" by auto
  also have "(\<lambda>x. rank r < rank x \<and> rank x = k) = (\<lambda>x. rank r < k \<and> rank x = k)" by auto
  finally show ?thesis
    by (cases "k \<le> rank r") (auto simp: not_le [symmetric] filter_empty_conv split: if_splits)
qed

lemma push_sorted: "inv q \<Longrightarrow> sorted (map rank (elems q)) \<Longrightarrow> sorted (map rank (elems (push r q)))"
  by (auto simp: elems_push sorted_append intro: sorted_filter)

lemma fill_mset: "inv q \<Longrightarrow> mset (elems (fill rs q)) = mset (elems q) + mset rs"
  by (induction rs arbitrary: q) (simp_all add: fill_def push_mset inv_push)

lemma fill_level:
  "inv q \<Longrightarrow> filter (\<lambda>x. rank x = k) (elems (fill rs q)) = filter (\<lambda>x. rank x = k) (elems q @ rs)"
  by (induction rs arbitrary: q) (simp_all add: fill_def push_level inv_push)

lemma fill_sorted: "inv q \<Longrightarrow> sorted (map rank (elems q)) \<Longrightarrow> sorted (map rank (elems (fill rs q)))"
  by (induction rs arbitrary: q) (simp_all add: fill_def push_sorted inv_push)

lemma fill_sort_key:
  assumes "inv q" and "sorted (map rank (elems q))"
  shows "elems (fill rs q) = sort_key rank (elems q @ rs)"
proof (rule properties_for_sort_key [symmetric])
  show "mset (elems (fill rs q)) = mset (elems q @ rs)"
    using assms(1) by (simp add: fill_mset)
  show "filter (\<lambda>x. rank k = rank x) (elems (fill rs q)) = filter (\<lambda>x. rank k = rank x) (elems q @ rs)" for k
    using fill_level [OF assms(1), of "rank k" rs] by (simp add: eq_commute)
  show "sorted (map rank (elems (fill rs q)))"
    using assms by (rule fill_sorted)
qed

end

subsection \<open>The three queues provide it\<close>

definition level :: "pending_request \<Rightarrow> nat" where
  "level r = (case pprio r of High \<Rightarrow> 0 | Critical \<Rightarrow> 0 | Normal \<Rightarrow> 1 | Low \<Rightarrow> 2)"

definition pq_elems :: "prio_queue \<Rightarrow> pending_request list" where
  "pq_elems q = high q @ normal q @ low q"

definition pq_inv :: "prio_queue \<Rightarrow> bool" where
  "pq_inv q \<longleftrightarrow>
     (\<forall>r \<in> set (high q). level r = 0) \<and> (\<forall>r \<in> set (normal q). level r = 1) \<and>
     (\<forall>r \<in> set (low q). level r = 2)"

lemma level_cases: "level r = 0 \<or> level r = 1 \<or> level r = 2"
  by (simp add: level_def split: priority.split)

lemma pq_push_level:
  "pq_push r q =
     (if level r = 0 then q\<lparr>high := high q @ [r]\<rparr>
      else if level r = 1 then q\<lparr>normal := normal q @ [r]\<rparr>
      else q\<lparr>low := low q @ [r]\<rparr>)"
  by (simp add: pq_push_def level_def split: priority.split)

lemma pq_elems_push:
  "pq_inv q \<Longrightarrow>
   pq_elems (pq_push r q) =
     filter (\<lambda>x. level x \<le> level r) (pq_elems q) @ [r] @ filter (\<lambda>x. level r < level x) (pq_elems q)"
  using level_cases [of r]
  by (auto simp: pq_push_level pq_elems_def pq_inv_def filter_id_conv filter_empty_conv)

lemma pq_elems_pop: "pq_inv q \<Longrightarrow> pq_elems q = (case pq_pop q of None \<Rightarrow> [] | Some (r, q') \<Rightarrow> r # pq_elems q')"
  by (simp add: pq_elems_def pq_pop_def split: list.split)

lemma pq_inv_push: "pq_inv q \<Longrightarrow> pq_inv (pq_push r q)"
  using level_cases [of r] by (auto simp: pq_push_level pq_inv_def)

lemma pq_inv_pop: "pq_inv q \<Longrightarrow> pq_pop q = Some (r, q') \<Longrightarrow> pq_inv q'"
  by (auto simp: pq_inv_def pq_pop_def split: list.splits)

lemma sorted_level: "\<forall>r \<in> set rs. level r = k \<Longrightarrow> sorted (map level rs)"
  by (induction rs) auto

lemma pq_sorted: "pq_inv q \<Longrightarrow> sorted (map level (pq_elems q))"
  using sorted_level [of "high q" 0] sorted_level [of "normal q" 1] sorted_level [of "low q" 2]
  by (auto simp: pq_inv_def pq_elems_def sorted_append)

lemma pq_inv_new: "pq_inv pq_new" and pq_elems_new: "pq_elems pq_new = []"
  by (simp_all add: pq_inv_def pq_new_def pq_elems_def)

interpretation pq: priority_queue pq_new pq_push pq_pop level pq_elems pq_inv
  by unfold_locales
    (fact pq_inv_new pq_inv_push pq_inv_pop pq_elems_new pq_elems_push pq_elems_pop)+

lemma queue_fill:
  "pq_inv q \<Longrightarrow> pq_inv (foldl (\<lambda>q r. pq_push r q) q rs) \<and>
     pq_elems (foldl (\<lambda>q r. pq_push r q) q rs) = sort_key level (pq_elems q @ rs)"
  using pq.inv_fill [of q rs] pq.fill_sort_key [of q rs] by (simp add: pq.fill_def pq_sorted)

subsection \<open>Properties\<close>

text \<open>
  Priority order. Requests queued one after the other on a queue that a connection
  can have leave it as a stable sort by level of what was there and what was added: High
  (and Critical) before Normal before Low, first come first served inside a level.
\<close>

theorem queue_order:
  assumes "pq_inv q"
  shows "pq_elems (foldl (\<lambda>q r. pq_push r q) q rs) = sort_key level (pq_elems q @ rs) \<and>
    (case pq_pop (foldl (\<lambda>q r. pq_push r q) q rs) of
       None \<Rightarrow> pq_elems q @ rs = []
     | Some (r, q') \<Rightarrow> sort_key level (pq_elems q @ rs) = r # pq_elems q')"
proof -
  let ?f = "foldl (\<lambda>q r. pq_push r q) q rs"
  have inv: "pq_inv ?f" and el: "pq_elems ?f = sort_key level (pq_elems q @ rs)"
    using queue_fill [OF assms, of rs] by auto
  have "sort_key level (pq_elems q @ rs) = [] \<longleftrightarrow> pq_elems q @ rs = []"
    by (metis length_0_conv length_sort)
  then show ?thesis
    using el pq_elems_pop [OF inv] by (cases "pq_pop ?f") auto
qed

definition pending_with :: "priority \<Rightarrow> pending_request" where
  "pending_with p = \<lparr>pframe = ping_frame, pprio = p\<rparr>"

theorem queue_order_witness:
  "pq_elems (foldl (\<lambda>q r. pq_push r q) pq_new (map pending_with [Low, High, Normal, Critical])) =
     map pending_with [High, Critical, Normal, Low]"
  using queue_order [OF pq_inv_new, of "map pending_with [Low, High, Normal, Critical]"]
  by (simp add: pq_elems_new level_def pending_with_def)

end
