(* ===== verification/Connection.thy ===== *)
theory Connection
  imports Dispatch Priority_Queue
begin

text \<open>
  The handler of one client connection, \<open>src/transport/connection.rs\<close>. A connection is a
  state: the bytes that have arrived on the socket and were not read yet, the priority
  queue, the responses held back for a batch, the frames written, and the database. One
  run of the loop body is \<open>conn_iter\<close>; bytes arriving, the peer going away and the
  shutdown signal are the other steps. A write succeeds as long as the peer is there.

  Every response is computed inline and the permit is released in the same iteration, so
  all permits are free when an iteration starts: the semaphore matters only when it has
  no permits at all, and then the iteration never comes back (\<open>Stuck\<close>).
\<close>

record 'db server =
  s_bson :: bson_lib
  s_show :: "bson \<Rightarrow> string"
  s_driver :: "'db driver"
  s_max_frame_size :: u32
  s_max_concurrent :: u32

datatype status = Running | Closed | Stuck

record 'db conn =
  inp :: bytes
  queue :: prio_queue
  pending :: "frame list"
  written :: "frame list"
  writable :: bool
  database :: 'db
  status :: status

subsection \<open>Frames sent by the server\<close>

definition reply_frame :: "opcode \<Rightarrow> u32 \<Rightarrow> bytes \<times> bytes \<Rightarrow> frame" where
  "reply_frame op rid body =
     \<lparr>header = \<lparr>msg_len = 0,
        hflags = \<lparr>opcode = op, end_of_stream = True, no_reply = False, batch_follows = False,
                  priority = Normal\<rparr>,
        req_id = rid\<rparr>,
      envelope = fst body, raw_docs = snd body\<rparr>"

definition write_one :: "frame \<Rightarrow> 'db conn \<Rightarrow> 'db conn" where
  "write_one f c = (if writable c then c\<lparr>written := written c @ [f]\<rparr> else c)"

definition send_error :: "'db server \<Rightarrow> u32 \<Rightarrow> i32 \<Rightarrow> string \<Rightarrow> 'db conn \<Rightarrow> 'db conn" where
  "send_error S rid code message c =
     (case encode_response (s_bson S) (RespError code message) of
        Inl e \<Rightarrow> c
      | Inr body \<Rightarrow> write_one (reply_frame OpError rid body) c)"

definition SHUTDOWN_DRAIN_MS :: nat where "SHUTDOWN_DRAIN_MS = 5000"

definition shutdown_text :: string where
  "shutdown_text =
     ''{'' @ [CHR 0x22] @ ''shutdown'' @ [CHR 0x22] @ '':true,'' @ [CHR 0x22] @ ''drain_ms'' @
     [CHR 0x22] @ '':'' @ show_nat SHUTDOWN_DRAIN_MS @ '','' @ [CHR 0x22] @ ''doc_bytes_len'' @
     [CHR 0x22] @ '':0}''"

definition ascii_bytes :: "string \<Rightarrow> bytes" where
  "ascii_bytes s = map (\<lambda>ch. word_of_nat (of_char ch)) s"

definition shutdown_frame :: frame where
  "shutdown_frame = reply_frame Handshake 0 (ascii_bytes shutdown_text, [])"

definition send_shutdown_frame :: "'db conn \<Rightarrow> 'db conn" where
  "send_shutdown_frame c = write_one shutdown_frame c"

text \<open>Flushing a batch: all held responses, then the last one; on an error none are kept.\<close>

definition flush_batch :: "frame \<Rightarrow> 'db conn \<Rightarrow> bool \<times> 'db conn" where
  "flush_batch final c =
     (if writable c then (True, c\<lparr>written := written c @ pending c @ [final], pending := []\<rparr>)
      else (False, c\<lparr>pending := []\<rparr>))"

subsection \<open>Handshake\<close>

definition handshake_frame :: "'db server \<Rightarrow> frame \<Rightarrow> 'db conn \<Rightarrow> 'db conn" where
  "handshake_frame S first_frame c =
     (let rid = req_id (header first_frame) in
      if opcode (hflags (header first_frame)) \<noteq> Handshake then
        (send_error S rid 1 ''first frame must be Handshake'' c)\<lparr>status := Closed\<rparr>
      else
        (case parse_envelope (s_bson S) (envelope first_frame) Handshake of
           Inl e \<Rightarrow>
             (send_error S rid 1 (''invalid handshake: '' @ codec_error_text e) c)\<lparr>status := Closed\<rparr>
         | Inr req \<Rightarrow>
             (case encode_response (s_bson S)
                     (handle_handshake req (s_max_frame_size S) (s_max_concurrent S)) of
                Inl e \<Rightarrow> c\<lparr>status := Closed\<rparr>
              | Inr body \<Rightarrow>
                  if writable c then write_one (reply_frame Handshake rid body) c
                  else c\<lparr>status := Closed\<rparr>)))"

definition conn_start :: "bytes \<Rightarrow> 'db \<Rightarrow> 'db conn" where
  "conn_start bs s =
     \<lparr>inp = bs, queue = pq_new, pending = [], written = [], writable = True, database = s,
      status = Running\<rparr>"

text \<open>The first read fails on a closed socket and on a malformed frame alike: no reply.\<close>

definition handshake :: "'db server \<Rightarrow> 'db conn \<Rightarrow> 'db conn" where
  "handshake S c =
     (case read_frame (s_max_frame_size S) (inp c) of
        (Inl e, rest) \<Rightarrow> c\<lparr>inp := rest, status := Closed\<rparr>
      | (Inr f, rest) \<Rightarrow> handshake_frame S f (c\<lparr>inp := rest\<rparr>))"

subsection \<open>Taking frames from the socket\<close>

text \<open>
  A read under a zero timeout: it is polled once and dropped if it does not complete, with
  whatever bytes it had read by then, so that bytes which do not make a whole frame are
  gone. On a frame that does not decode, its bytes are gone as well.
\<close>

definition poll_frame :: "u32 \<Rightarrow> bytes \<Rightarrow> frame option \<times> bytes" where
  "poll_frame m s =
     (case read_frame m s of
        (Inr f, rest) \<Rightarrow> (Some f, rest)
      | (Inl e, rest) \<Rightarrow> (None, rest))"

definition pending_of :: "frame \<Rightarrow> pending_request" where
  "pending_of f = \<lparr>pframe = f, pprio = resolve_priority f\<rparr>"

lemma poll_frame_shorter: "poll_frame m s = (Some f, rest) \<Longrightarrow> length rest < length s"
  using read_frame_Inr [of m s f rest]
  by (auto simp: poll_frame_def HEADER_SIZE_def split: prod.splits sum.splits)

function coalesce :: "u32 \<Rightarrow> bytes \<Rightarrow> prio_queue \<Rightarrow> bytes \<times> prio_queue" where
  "coalesce m s q =
     (case poll_frame m s of
        (Some f, rest) \<Rightarrow> coalesce m rest (pq_push (pending_of f) q)
      | (None, rest) \<Rightarrow> (rest, q))"
  by pat_completeness auto
termination
  by (relation "measure (\<lambda>(m, s, q). length s)") (auto dest: sym intro: poll_frame_shorter)

declare coalesce.simps [simp del]

subsection \<open>Serving one frame\<close>

definition deliver :: "bool \<Rightarrow> frame \<Rightarrow> 'db conn \<Rightarrow> 'db conn" where
  "deliver batch f c =
     (if batch then c\<lparr>pending := pending c @ [f]\<rparr>
      else (case flush_batch f c of
              (True, c') \<Rightarrow> c'
            | (False, c') \<Rightarrow> c'\<lparr>status := Closed\<rparr>))"

definition reject_envelope :: "'db server \<Rightarrow> frame \<Rightarrow> codec_error \<Rightarrow> 'db conn \<Rightarrow> 'db conn" where
  "reject_envelope S f e c =
     (let fl = hflags (header f) in
      if no_reply fl then c
      else
        (case encode_response (s_bson S) (RespError 1 (''invalid envelope: '' @ codec_error_text e)) of
           Inl _ \<Rightarrow> c
         | Inr body \<Rightarrow> deliver (batch_follows fl) (reply_frame OpError (req_id (header f)) body) c))"

text \<open>
  A failed write leaves the inner loop only, and flushing a Unix socket never fails, so
  that the connection goes on without the responses it held.
\<close>

definition finish_no_reply :: "bool \<Rightarrow> 'db conn \<Rightarrow> 'db conn" where
  "finish_no_reply batch c =
     (if batch \<or> pending c = [] then c
      else if writable c then c\<lparr>written := written c @ pending c, pending := []\<rparr>
      else c\<lparr>pending := []\<rparr>)"

definition response_opcode :: "opcode \<Rightarrow> operation_response \<Rightarrow> opcode" where
  "response_opcode op response = (case response of RespError _ _ \<Rightarrow> OpError | _ \<Rightarrow> op)"

definition encode_reply :: "'db server \<Rightarrow> frame \<Rightarrow> operation_response \<Rightarrow> frame option" where
  "encode_reply S f response =
     (let fl = hflags (header f); rid = req_id (header f) in
      case encode_response (s_bson S) response of
        Inr body \<Rightarrow> Some (reply_frame (response_opcode (opcode fl) response) rid body)
      | Inl _ \<Rightarrow>
          (case encode_response (s_bson S) (RespError 1 ''internal encoding error'') of
             Inr body \<Rightarrow> Some (reply_frame OpError rid body)
           | Inl _ \<Rightarrow> None))"

definition serve_frame :: "'db server \<Rightarrow> frame \<Rightarrow> 'db conn \<Rightarrow> 'db conn" where
  "serve_frame S f c =
     (let fl = hflags (header f) in
      case parse_envelope (s_bson S) (envelope f) (opcode fl) of
        Inl e \<Rightarrow> reject_envelope S f e c
      | Inr request \<Rightarrow>
          if resolve_priority f \<noteq> Critical \<and> s_max_concurrent S = 0 then c\<lparr>status := Stuck\<rparr>
          else
            (case dispatch (s_bson S) (s_show S) (s_driver S) request (raw_docs f) (database c) of
               (response, db) \<Rightarrow>
                 (let c = c\<lparr>database := db\<rparr> in
                  if no_reply fl then finish_no_reply (batch_follows fl) c
                  else
                    (case encode_reply S f response of
                       None \<Rightarrow> c
                     | Some r \<Rightarrow> deliver (batch_follows fl) r c))))"

subsection \<open>The loop body\<close>

definition serve_next :: "'db server \<Rightarrow> frame \<Rightarrow> 'db conn \<Rightarrow> 'db conn" where
  "serve_next S f c =
     (case coalesce (s_max_frame_size S) (inp c) (queue c) of
        (rest, q) \<Rightarrow> serve_frame S f (c\<lparr>inp := rest, queue := q\<rparr>))"

definition conn_iter :: "'db server \<Rightarrow> 'db conn \<Rightarrow> 'db conn" where
  "conn_iter S c =
     (case pq_pop (queue c) of
        Some (r, q) \<Rightarrow> serve_next S (pframe r) (c\<lparr>queue := q\<rparr>)
      | None \<Rightarrow>
          (case read_frame (s_max_frame_size S) (inp c) of
             (Inl e, rest) \<Rightarrow> c\<lparr>inp := rest, status := Closed\<rparr>
           | (Inr f, rest) \<Rightarrow> serve_next S f (c\<lparr>inp := rest\<rparr>)))"

text \<open>
  An iteration can run when a frame is queued or one can be read; a socket that holds only
  a part of a frame keeps the blocking read waiting until the peer sends more or closes.
  The shutdown signal is looked at only while waiting; bytes read during the drain period
  are discarded.
\<close>

definition ready :: "'db server \<Rightarrow> 'db conn \<Rightarrow> bool" where
  "ready S c \<longleftrightarrow>
     pq_pop (queue c) \<noteq> None \<or> fst (read_frame (s_max_frame_size S) (inp c)) \<noteq> Inl io_eof"

inductive conn_step :: "'db server \<Rightarrow> 'db conn \<Rightarrow> 'db conn \<Rightarrow> bool" for S where
  arrive: "status c = Running \<Longrightarrow> conn_step S c (c\<lparr>inp := inp c @ bs\<rparr>)"
| peer_gone: "status c = Running \<Longrightarrow> conn_step S c (c\<lparr>writable := False\<rparr>)"
| iterate: "status c = Running \<Longrightarrow> ready S c \<Longrightarrow> conn_step S c (conn_iter S c)"
| eof: "status c = Running \<Longrightarrow> \<not> ready S c \<Longrightarrow> conn_step S c (c\<lparr>inp := [], status := Closed\<rparr>)"
| shutdown: "status c = Running \<Longrightarrow> pq_pop (queue c) = None \<Longrightarrow>
    conn_step S c ((send_shutdown_frame c)\<lparr>inp := [], status := Closed\<rparr>)"

inductive_cases conn_stepE: "conn_step S c c'"

lemmas serve_defs =
  serve_frame_def reject_envelope_def finish_no_reply_def encode_reply_def deliver_def
  flush_batch_def Let_def

subsection \<open>The sequential server\<close>

text \<open>
  What serving a frame means when batching is left out of account: the reply, when one is
  due, and the database afterwards.
\<close>

definition spec_reply :: "'db server \<Rightarrow> frame \<Rightarrow> 'db \<Rightarrow> frame option \<times> 'db" where
  "spec_reply S f s =
     (let fl = hflags (header f) in
      case parse_envelope (s_bson S) (envelope f) (opcode fl) of
        Inl e \<Rightarrow>
          ((if no_reply fl then None
            else (case encode_response (s_bson S) (RespError 1 (''invalid envelope: '' @ codec_error_text e)) of
                    Inl _ \<Rightarrow> None
                  | Inr body \<Rightarrow> Some (reply_frame OpError (req_id (header f)) body))), s)
      | Inr request \<Rightarrow>
          (case dispatch (s_bson S) (s_show S) (s_driver S) request (raw_docs f) s of
             (response, s') \<Rightarrow> ((if no_reply fl then None else encode_reply S f response), s')))"

fun opt_list :: "'a option \<Rightarrow> 'a list" where
  "opt_list None = []"
| "opt_list (Some x) = [x]"

fun spec_run :: "'db server \<Rightarrow> frame list \<Rightarrow> 'db \<Rightarrow> frame list \<times> 'db" where
  "spec_run S [] s = ([], s)"
| "spec_run S (f # fs) s =
     (case spec_reply S f s of
        (r, s1) \<Rightarrow> (case spec_run S fs s1 of (rs, s2) \<Rightarrow> (opt_list r @ rs, s2)))"

definition replies :: "'db conn \<Rightarrow> frame list" where
  "replies c = written c @ pending c"


text \<open>A connection that can serve: the peer is there and there is a permit.\<close>

definition serving :: "'db server \<Rightarrow> 'db conn \<Rightarrow> bool" where
  "serving S c \<longleftrightarrow> status c = Running \<and> writable c \<and> s_max_concurrent S \<noteq> 0"

lemma deliver_serving:
  "writable c \<Longrightarrow>
   replies (deliver b r c) = replies c @ [r] \<and> database (deliver b r c) = database c \<and>
   inp (deliver b r c) = inp c \<and> queue (deliver b r c) = queue c \<and>
   status (deliver b r c) = status c \<and> writable (deliver b r c)"
  by (simp add: deliver_def flush_batch_def replies_def)

lemma finish_serving:
  "writable c \<Longrightarrow>
   replies (finish_no_reply b c) = replies c \<and> database (finish_no_reply b c) = database c \<and>
   inp (finish_no_reply b c) = inp c \<and> queue (finish_no_reply b c) = queue c \<and>
   status (finish_no_reply b c) = status c \<and> writable (finish_no_reply b c)"
  by (simp add: finish_no_reply_def replies_def)

lemma replies_update [simp]:
  "replies (c\<lparr>database := d\<rparr>) = replies c" "replies (c\<lparr>inp := i\<rparr>) = replies c"
  "replies (c\<lparr>queue := q\<rparr>) = replies c" "replies (c\<lparr>status := s\<rparr>) = replies c"
  by (simp_all add: replies_def)

lemma serve_frame_spec:
  assumes "serving S c"
  shows "replies (serve_frame S f c) = replies c @ opt_list (fst (spec_reply S f (database c))) \<and>
    database (serve_frame S f c) = snd (spec_reply S f (database c)) \<and>
    inp (serve_frame S f c) = inp c \<and> queue (serve_frame S f c) = queue c \<and>
    serving S (serve_frame S f c)"
proof (cases "parse_envelope (s_bson S) (envelope f) (opcode (hflags (header f)))")
  case (Inl e)
  then show ?thesis
    using assms
    by (auto simp: serve_frame_def spec_reply_def reject_envelope_def Let_def serving_def
        deliver_serving split: sum.split)
next
  case (Inr req)
  obtain resp db where d: "dispatch (s_bson S) (s_show S) (s_driver S) req (raw_docs f) (database c) = (resp, db)"
    by fastforce
  show ?thesis
    using assms Inr d
    by (auto simp: serve_frame_def spec_reply_def Let_def serving_def
        deliver_serving finish_serving split: option.split)
qed

text \<open>When every response can be encoded, a frame gets a reply unless it asks for none.\<close>

definition encodes_all :: "bson_lib \<Rightarrow> bool" where
  "encodes_all B \<longleftrightarrow> (\<forall>r. \<exists>body. encode_response B r = Inr body)"

lemma encodes_allD: "encodes_all B \<Longrightarrow> \<exists>body. encode_response B r = Inr body"
  by (simp add: encodes_all_def)

definition replies_to :: "frame \<Rightarrow> frame \<Rightarrow> bool" where
  "replies_to f r \<longleftrightarrow>
     req_id (header r) = req_id (header f) \<and>
     opcode (hflags (header r)) \<in> {opcode (hflags (header f)), OpError} \<and>
     end_of_stream (hflags (header r)) \<and> \<not> batch_follows (hflags (header r))"

lemma reply_frame_replies_to:
  "op \<in> {opcode (hflags (header f)), OpError} \<Longrightarrow> replies_to f (reply_frame op (req_id (header f)) body)"
  by (simp add: replies_to_def reply_frame_def)

lemma encode_reply_replies_to: "encode_reply S f resp = Some r \<Longrightarrow> replies_to f r"
  by (auto simp: encode_reply_def Let_def response_opcode_def
      intro!: reply_frame_replies_to split: sum.splits operation_response.splits)

lemma spec_reply_replies_to: "fst (spec_reply S f s) = Some r \<Longrightarrow> replies_to f r"
  by (auto simp: spec_reply_def Let_def intro: reply_frame_replies_to encode_reply_replies_to
      split: sum.splits if_splits prod.splits)

lemma spec_reply_some:
  assumes "encodes_all (s_bson S)"
  shows "fst (spec_reply S f s) = None \<longleftrightarrow> no_reply (hflags (header f))"
proof -
  have enc: "\<exists>body. encode_response (s_bson S) r = Inr body" for r
    using assms by (rule encodes_allD)
  have "encode_reply S f resp \<noteq> None" for resp
    using enc [of resp] by (auto simp: encode_reply_def Let_def)
  then show ?thesis
    using enc
    by (auto simp: spec_reply_def Let_def split: sum.split prod.split) (metis Inl_Inr_False)+
qed

lemma spec_run_replies:
  assumes "encodes_all (s_bson S)"
  shows "list_all2 replies_to (filter (\<lambda>f. \<not> no_reply (hflags (header f))) fs) (fst (spec_run S fs s))"
proof (induction fs arbitrary: s)
  case (Cons f fs)
  obtain r s1 where r: "spec_reply S f s = (r, s1)" by fastforce
  obtain rs s2 where rs: "spec_run S fs s1 = (rs, s2)" by fastforce
  from r spec_reply_some [OF assms, of f s] spec_reply_replies_to [of S f s]
  show ?case
    using Cons.IH [of s1] by (cases r) (auto simp: rs)
qed simp

subsection \<open>A burst of frames\<close>

lemma poll_sent:
  "sendable f \<Longrightarrow> frame_msg_len f \<le> m \<Longrightarrow> poll_frame m (write_frame f @ rest) = (Some (sent f), rest)"
  by (simp add: poll_frame_def read_write_frame)

lemma read_nothing: "read_frame m [] = (Inl io_eof, [])"
  by (simp add: read_frame_def read_exact_def HEADER_SIZE_def)

lemma poll_nothing: "poll_frame m [] = (None, [])"
  by (simp add: poll_frame_def read_nothing)

definition fits :: "u32 \<Rightarrow> frame \<Rightarrow> bool" where
  "fits m f \<longleftrightarrow> sendable f \<and> frame_msg_len f \<le> m"

abbreviation wire :: "frame list \<Rightarrow> bytes" where
  "wire fs \<equiv> concat (map write_frame fs)"

lemma coalesce_burst:
  "list_all (fits m) fs \<Longrightarrow>
   coalesce m (wire fs) q = ([], foldl (\<lambda>q r. pq_push r q) q (map (pending_of \<circ> sent) fs))"
proof (induction fs arbitrary: q)
  case Nil
  then show ?case by (simp add: coalesce.simps poll_nothing)
next
  case (Cons f fs)
  then have "poll_frame m (write_frame f @ wire fs) = (Some (sent f), wire fs)"
    by (intro poll_sent) (auto simp: fits_def)
  then show ?case
    using Cons by (simp add: coalesce.simps [of m "write_frame f @ wire fs"])
qed

lemma coalesce_nothing: "coalesce m [] q = ([], q)"
  by (simp add: coalesce.simps poll_nothing)

lemma drain_queue:
  "serving S c \<Longrightarrow> inp c = [] \<Longrightarrow> pq_inv (queue c) \<Longrightarrow> map pframe (pq_elems (queue c)) = fs \<Longrightarrow>
   (let c' = (conn_iter S ^^ length fs) c in
    replies c' = replies c @ fst (spec_run S fs (database c)) \<and>
    database c' = snd (spec_run S fs (database c)) \<and> serving S c' \<and> inp c' = [] \<and> pq_elems (queue c') = [])"
proof (induction fs arbitrary: c)
  case Nil
  then show ?case by simp
next
  case (Cons f fs)
  from Cons.prems obtain r q where pop: "pq_pop (queue c) = Some (r, q)"
    and f: "pframe r = f" "map pframe (pq_elems q) = fs" and q: "pq_inv q"
    using pq_elems_pop [of "queue c"] by (auto split: option.splits dest: pq_inv_pop)
  let ?c = "c\<lparr>inp := [], queue := q\<rparr>"
  have it: "conn_iter S c = serve_frame S f ?c"
    using pop f(1) Cons.prems(2) by (simp add: conn_iter_def serve_next_def coalesce_nothing)
  have "serving S ?c" using Cons.prems(1) by (simp add: serving_def)
  from serve_frame_spec [OF this, of f] Cons.IH [of "conn_iter S c"] q f
  show ?case
    by (simp add: it Let_def funpow_swap1 case_prod_beta del: funpow.simps)
      (simp add: funpow_Suc_right it del: funpow.simps)
qed


definition frame_level :: "frame \<Rightarrow> nat" where
  "frame_level f = level (pending_of f)"

lemma insort_pending:
  "insort_key level (pending_of f) (map pending_of fs) = map pending_of (insort_key frame_level f fs)"
  by (induction fs) (simp_all add: frame_level_def)

lemma sort_pending: "sort_key level (map pending_of fs) = map pending_of (sort_key frame_level fs)"
  by (induction fs) (simp_all add: insort_pending)

lemma frame_level_sent: "frame_level (sent f) = frame_level f"
  by (simp add: frame_level_def pending_of_def resolve_priority_def level_def sent_def sent_header_def)

lemma insort_sent: "insort_key frame_level (sent f) (map sent fs) = map sent (insort_key frame_level f fs)"
  by (induction fs) (simp_all add: frame_level_sent)

lemma sort_sent: "sort_key frame_level (map sent fs) = map sent (sort_key frame_level fs)"
  by (induction fs) (simp_all add: insort_sent)

lemma sent_fields:
  "hflags (header (sent f)) = hflags (header f)" "req_id (header (sent f)) = req_id (header f)"
  "envelope (sent f) = envelope f" "raw_docs (sent f) = raw_docs f"
  by (simp_all add: sent_def sent_header_def)

lemma spec_reply_sent: "spec_reply S (sent f) s = spec_reply S f s"
  unfolding spec_reply_def encode_reply_def sent_fields ..

lemma spec_run_sent: "spec_run S (map sent fs) s = spec_run S fs s"
  by (induction fs arbitrary: s) (simp_all add: spec_reply_sent)

lemma pframe_pending [simp]: "pframe (pending_of f) = f"
  by (simp add: pending_of_def)

text \<open>The order in which a burst is served: its first frame, then the rest by level.\<close>

fun burst_order :: "frame list \<Rightarrow> frame list" where
  "burst_order [] = []"
| "burst_order (f # fs) = f # sort_key frame_level fs"

lemma burst_run:
  assumes "serving S c" and "queue c = pq_new" and "inp c = wire fs"
    and "list_all (fits (s_max_frame_size S)) fs"
  shows "let c' = (conn_iter S ^^ length fs) c in
    replies c' = replies c @ fst (spec_run S (burst_order fs) (database c)) \<and>
    database c' = snd (spec_run S (burst_order fs) (database c)) \<and>
    serving S c' \<and> inp c' = [] \<and> pq_elems (queue c') = []"
proof (cases fs)
  case Nil
  then show ?thesis using assms by (simp add: pq_elems_new)
next
  case (Cons f gs)
  define q where "q = foldl (\<lambda>q r. pq_push r q) pq_new (map (pending_of \<circ> sent) gs)"
  let ?c = "c\<lparr>inp := [], queue := q\<rparr>"
  have q: "pq_inv q" "pq_elems q = map pending_of (map sent (sort_key frame_level gs))"
    using queue_fill [OF pq_inv_new, of "map (pending_of \<circ> sent) gs"] sort_pending [of "map sent gs"]
    by (simp_all add: q_def pq_elems_new sort_sent)
  have "read_frame (s_max_frame_size S) (inp c) = (Inr (sent f), wire gs)"
    using assms(3,4) Cons by (simp add: fits_def read_write_frame)
  moreover have "coalesce (s_max_frame_size S) (wire gs) pq_new = ([], q)"
    using assms(4) Cons by (simp add: coalesce_burst q_def)
  moreover have "pq_pop (queue c) = None"
    using assms(2) by (simp add: pq_pop_def pq_new_def)
  ultimately have it: "conn_iter S c = serve_frame S (sent f) ?c"
    using assms(2) by (simp add: conn_iter_def serve_next_def)
  have "serving S ?c" using assms(1) by (simp add: serving_def)
  note one = serve_frame_spec [OF this, of "sent f", folded it]
  from drain_queue [of S "conn_iter S c" "map sent (sort_key frame_level gs)"] one q
  have "let c' = (conn_iter S ^^ length gs) (conn_iter S c) in
      replies c' = replies (conn_iter S c) @ fst (spec_run S (map sent (sort_key frame_level gs)) (database (conn_iter S c))) \<and>
      database c' = snd (spec_run S (map sent (sort_key frame_level gs)) (database (conn_iter S c))) \<and>
      serving S c' \<and> inp c' = [] \<and> pq_elems (queue c') = []"
    by (simp add: comp_def)
  then show ?thesis
    using one
    by (simp add: Cons Let_def funpow_swap1 case_prod_beta spec_reply_sent spec_run_sent)
qed

subsection \<open>Batch boundaries\<close>

lemma pending_deliver: "\<not> b \<Longrightarrow> pending (deliver b r c) = []"
  by (simp add: deliver_def flush_batch_def)

lemma pending_finish: "\<not> b \<Longrightarrow> pending (finish_no_reply b c) = []"
  by (simp add: finish_no_reply_def)

definition parses :: "'db server \<Rightarrow> frame \<Rightarrow> bool" where
  "parses S f \<longleftrightarrow> (\<exists>req. parse_envelope (s_bson S) (envelope f) (opcode (hflags (header f))) = Inr req)"

lemma encode_reply_all: "encodes_all (s_bson S) \<Longrightarrow> encode_reply S f resp \<noteq> None"
  using encodes_allD [of "s_bson S" resp] by (auto simp: encode_reply_def Let_def)

lemma boundary_flushes:
  assumes "encodes_all (s_bson S)" and "s_max_concurrent S \<noteq> 0" and "\<not> batch_follows (hflags (header f))"
    and "parses S f \<or> \<not> no_reply (hflags (header f))"
  shows "pending (serve_frame S f c) = []"
proof (cases "parse_envelope (s_bson S) (envelope f) (opcode (hflags (header f)))")
  case (Inl e)
  then show ?thesis
    using assms encodes_allD [OF assms(1), of "RespError 1 (''invalid envelope: '' @ codec_error_text e)"]
    by (auto simp: serve_frame_def reject_envelope_def parses_def Let_def pending_deliver)
next
  case (Inr req)
  then show ?thesis
    using assms encode_reply_all [OF assms(1), of f]
    by (cases "dispatch (s_bson S) (s_show S) (s_driver S) req (raw_docs f) (database c)")
      (auto simp: serve_frame_def Let_def pending_deliver pending_finish simp del: not_None_eq
        split: option.split)
qed

lemma boundary_forgotten:
  "\<not> parses S f \<Longrightarrow> no_reply (hflags (header f)) \<Longrightarrow> serve_frame S f c = c"
  by (cases "parse_envelope (s_bson S) (envelope f) (opcode (hflags (header f)))")
    (simp_all add: serve_frame_def reject_envelope_def parses_def)

subsection \<open>Steps of a connection\<close>

lemma deliver_written: "prefix (written c) (written (deliver b r c))"
  by (simp add: deliver_def flush_batch_def)

lemma serve_frame_frame:
  "prefix (written c) (written (serve_frame S f c)) \<and> queue (serve_frame S f c) = queue c \<and>
   inp (serve_frame S f c) = inp c"
  by (auto simp: serve_frame_def reject_envelope_def finish_no_reply_def Let_def deliver_def
      flush_batch_def split: sum.split prod.split option.split)

lemma coalesce_inv: "pq_inv q \<Longrightarrow> pq_inv (snd (coalesce m s q))"
proof (induction m s q rule: coalesce.induct)
  case (1 m s q)
  then show ?case
    by (subst coalesce.simps) (auto split: prod.split option.split simp: pq_inv_push)
qed

lemma serve_next_step:
  "pq_inv (queue c) \<Longrightarrow>
   prefix (written c) (written (serve_next S f c)) \<and> pq_inv (queue (serve_next S f c))"
  using serve_frame_frame [of "c\<lparr>inp := i, queue := q\<rparr>" S f for i q]
    coalesce_inv [of "queue c" "s_max_frame_size S" "inp c"]
  by (auto simp: serve_next_def split: prod.split)

lemma conn_iter_step:
  "pq_inv (queue c) \<Longrightarrow>
   prefix (written c) (written (conn_iter S c)) \<and> pq_inv (queue (conn_iter S c))"
  using serve_next_step [of "c\<lparr>queue := q\<rparr>" S f for q f] serve_next_step [of "c\<lparr>inp := i\<rparr>" S f for i f]
  by (auto simp: conn_iter_def split: option.split prod.split sum.split dest: pq_inv_pop)

lemma conn_step_inv:
  "conn_step S c c' \<Longrightarrow> pq_inv (queue c) \<Longrightarrow>
   prefix (written c) (written c') \<and> pq_inv (queue c') \<and> status c = Running"
  by (erule conn_stepE) (auto simp: conn_iter_step send_shutdown_frame_def write_one_def)

lemma conn_run_inv:
  "(conn_step S)\<^sup>*\<^sup>* c c' \<Longrightarrow> pq_inv (queue c) \<Longrightarrow> prefix (written c) (written c') \<and> pq_inv (queue c')"
  by (induction rule: rtranclp_induct) (auto dest: conn_step_inv intro: prefix_order.trans)


subsection \<open>Reads that are given up\<close>

lemma read_exact_short: "length s < n \<Longrightarrow> read_exact n s = (Inl io_eof, [])"
  by (simp add: read_exact_def)

lemma read_partial:
  assumes "fits m f" and "k < length (write_frame f)"
  shows "read_frame m (take k (write_frame f)) = (Inl io_eof, [])"
proof (cases "k < HEADER_SIZE")
  case True
  then show ?thesis by (simp add: read_frame_def read_exact_short)
next
  case False
  let ?body = "envelope f @ raw_docs f"
  have w: "take k (write_frame f) = header_encode (sent_header f) @ take (k - HEADER_SIZE) ?body"
    using False by (simp add: write_frame_def HEADER_SIZE_def)
  have "k - HEADER_SIZE < length ?body"
    using assms(2) False by (simp add: write_frame_length)
  moreover have "payload_length (sent_header f) = length ?body"
    using assms(1) by (simp add: fits_def payload_length_sent)
  ultimately have short: "read_exact (payload_length (sent_header f)) (take (k - HEADER_SIZE) ?body) = (Inl io_eof, [])"
    and "payload_length (sent_header f) \<noteq> 0"
    by (auto intro: read_exact_short)
  moreover have "\<not> m < msg_len (sent_header f)"
    using assms(1) by (simp add: fits_def sent_header_def not_less)
  moreover have "read_exact HEADER_SIZE (take k (write_frame f)) =
      (Inr (header_encode (sent_header f)), take (k - HEADER_SIZE) ?body)"
    unfolding w by (rule read_exact_append) (simp add: HEADER_SIZE_def)
  ultimately show ?thesis by (simp add: read_frame_def)
qed

lemma poll_partial:
  "fits m f \<Longrightarrow> k < length (write_frame f) \<Longrightarrow> poll_frame m (take k (write_frame f)) = (None, [])"
  by (simp add: poll_frame_def read_partial)

subsection \<open>Frames with a bad envelope\<close>

lemma read_malformed:
  assumes "frame_msg_len f \<le> m" and "4 \<le> length (envelope f)"
    and "length (envelope f) + length (raw_docs f) < bson_size (envelope f)"
    and "6 + (length (envelope f) + length (raw_docs f)) < 2 ^ 32"
  shows "read_frame m (write_frame f @ rest) =
    (Inl (MalformedEnvelope ''BSON size exceeds payload length''), rest)"
proof -
  let ?body = "envelope f @ raw_docs f"
  have len: "payload_length (sent_header f) = length ?body"
    using assms(4) by (simp add: payload_length_def sent_header_def frame_msg_len_def unat_u32_of_len)
  have "read_exact HEADER_SIZE (write_frame f @ rest) = (Inr (header_encode (sent_header f)), ?body @ rest)"
    using read_exact_append [of "header_encode (sent_header f)" HEADER_SIZE "?body @ rest"]
    by (simp add: write_frame_def HEADER_SIZE_def)
  moreover have "read_exact (payload_length (sent_header f)) (?body @ rest) = (Inr ?body, rest)"
    by (rule read_exact_append) (simp add: len)
  moreover have "\<not> m < msg_len (sent_header f)"
    using assms(1) by (simp add: sent_header_def not_less)
  moreover have "split_payload (sent_header f) ?body = Inl (MalformedEnvelope ''BSON size exceeds payload length'')"
    using assms(2,3) by (simp add: split_payload_def bson_size_append)
  moreover have "payload_length (sent_header f) \<noteq> 0"
    using assms(2) len by auto
  ultimately show ?thesis by (simp add: read_frame_def)
qed

lemma shutdown_bytes: "length (ascii_bytes shutdown_text) = 51"
  "bson_size (ascii_bytes shutdown_text) = 0x6873227B"
  by (simp_all add: ascii_bytes_def shutdown_text_def SHUTDOWN_DRAIN_MS_def show_nat.simps
      bson_size_def i32_as_usize_def u32_from_le_def u32_from_be_def)

subsection \<open>The handshake\<close>

lemma parse_handshake_request:
  "parse_envelope B bs Handshake = Inr req \<Longrightarrow> \<exists>lang. req = ReqHandshake lang"
  by (auto simp: parse_envelope_def parse_handshake_def result_simps)

lemma handshake_result:
  assumes "fits (s_max_frame_size S) f" and "encodes_all (s_bson S)"
  shows "let c' = handshake S (conn_start (write_frame f @ rest) s); rid = req_id (header f) in
    database c' = s \<and> inp c' = rest \<and> pending c' = [] \<and>
    (if opcode (hflags (header f)) = Handshake \<and> parses S f
     then status c' = Running \<and>
       (\<exists>body. encode_response (s_bson S) (RespHandshake (s_max_frame_size S) (s_max_concurrent S)) = Inr body \<and>
          written c' = [reply_frame Handshake rid body])
     else status c' = Closed \<and>
       (\<exists>msg body. encode_response (s_bson S) (RespError 1 msg) = Inr body \<and>
          written c' = [reply_frame OpError rid body]))"
proof -
  let ?c = "(conn_start (write_frame f @ rest) s)\<lparr>inp := rest\<rparr>"
  have h: "handshake S (conn_start (write_frame f @ rest) s) = handshake_frame S (sent f) ?c"
    using assms(1) by (simp add: handshake_def conn_start_def fits_def read_write_frame)
  have err: "\<exists>body. encode_response (s_bson S) (RespError 1 msg) = Inr body \<and>
      send_error S rid 1 msg ?c = ?c\<lparr>written := [reply_frame OpError rid body]\<rparr>" for rid msg
    using encodes_allD [OF assms(2), of "RespError 1 msg"]
    by (auto simp: send_error_def write_one_def conn_start_def)
  show ?thesis
  proof (cases "opcode (hflags (header f)) = Handshake")
    case False
    then show ?thesis
      unfolding h using err [of "''first frame must be Handshake''" "req_id (header f)"]
      by (auto simp: handshake_frame_def Let_def sent_fields conn_start_def) blast
  next
    case True
    show ?thesis
    proof (cases "parse_envelope (s_bson S) (envelope f) Handshake")
      case (Inl e)
      then show ?thesis
        unfolding h using True err [of "''invalid handshake: '' @ codec_error_text e" "req_id (header f)"]
        by (auto simp: handshake_frame_def Let_def sent_fields conn_start_def parses_def) blast
    next
      case (Inr req)
      then obtain lang where "req = ReqHandshake lang"
        using parse_handshake_request by blast
      then show ?thesis
        unfolding h using True Inr encodes_allD [OF assms(2), of "RespHandshake (s_max_frame_size S) (s_max_concurrent S)"]
        by (auto simp: handshake_frame_def Let_def sent_fields conn_start_def parses_def
            handle_handshake_def write_one_def)
    qed
  qed
qed

subsection \<open>A concrete server\<close>

definition total_bson :: bson_lib where
  "total_bson = sample_bson\<lparr>to_vec := (\<lambda>d. Inr (or_default [5, 0, 0, 0, 0] (map_of sample_table d)))\<rparr>"

definition sample_server :: "document list server" where
  "sample_server =
     \<lparr>s_bson = total_bson, s_show = (\<lambda>_. []), s_driver = sample_driver, s_max_frame_size = 1024,
      s_max_concurrent = 4\<rparr>"

definition sample_request :: "opcode \<Rightarrow> u32 \<Rightarrow> priority \<Rightarrow> frame" where
  "sample_request op rid p =
     \<lparr>header = \<lparr>msg_len = 0,
        hflags = \<lparr>opcode = op, end_of_stream = True, no_reply = False, batch_follows = False, priority = p\<rparr>,
        req_id = rid\<rparr>,
      envelope = [15, 0, 0, 0, 2, 100, 98, 0, 2, 0, 0, 0, 116, 0, 0], raw_docs = []\<rparr>"

lemma total_bson_encodes: "encodes_all total_bson"
  by (simp add: encodes_all_def encode_response_def total_bson_def table_bson_def case_prod_beta)

lemma sample_request_fits: "fits 1024 (sample_request op rid p)"
  by (simp add: fits_def sample_request_def sendable_def self_delimiting_def bson_size_def
      u32_from_le_def u32_from_be_def i32_as_usize_def frame_msg_len_def u32_of_len_def)


subsection \<open>Properties\<close>

text \<open>
  C1. A burst is served completely, once each, by priority. When a client has sent a
  series of frames to an idle connection, as many iterations as there are frames serve
  them all: the first frame, then the others as a stable sort by level. The replies,
  written or held for a batch, and the database are those of the sequential server on
  that order; every frame that wants a reply gets exactly one, in order, with its request
  id and its opcode or the error opcode; and the connection is still running.
\<close>

theorem burst_served:
  assumes "serving S c" and "queue c = pq_new" and "inp c = wire fs"
    and "list_all (fits (s_max_frame_size S)) fs" and "encodes_all (s_bson S)"
  shows "let c' = (conn_iter S ^^ length fs) c; out = spec_run S (burst_order fs) (database c) in
    replies c' = replies c @ fst out \<and> database c' = snd out \<and> inp c' = [] \<and>
    pq_elems (queue c') = [] \<and> status c' = Running \<and>
    list_all2 replies_to (filter (\<lambda>f. \<not> no_reply (hflags (header f))) (burst_order fs)) (fst out)"
  using burst_run [OF assms(1-4)] spec_run_replies [OF assms(5), of "burst_order fs" "database c"]
  by (auto simp: Let_def serving_def)

definition sample_burst :: "frame list" where
  "sample_burst =
     [sample_request ListCollections 1 Normal, sample_request ListCollections 2 Low,
      sample_request CountDocuments 3 High]"

lemma sample_burst_order:
  "burst_order sample_burst =
     [sample_request ListCollections 1 Normal, sample_request CountDocuments 3 High,
      sample_request ListCollections 2 Low]"
  by (simp add: sample_burst_def frame_level_def level_def pending_of_def resolve_priority_def
      sample_request_def)

lemma sample_burst_replies:
  "filter (\<lambda>f. \<not> no_reply (hflags (header f))) (burst_order sample_burst) = burst_order sample_burst"
  "map (req_id \<circ> header) (burst_order sample_burst) = [1, 3, 2]"
  by (simp_all add: sample_burst_order sample_request_def)

lemma replies_to_ids: "list_all2 replies_to fs rs \<Longrightarrow> map (req_id \<circ> header) rs = map (req_id \<circ> header) fs"
  by (induction rule: list_all2_induct) (auto simp: replies_to_def)

theorem burst_served_witness:
  "let c' = (conn_iter sample_server ^^ length sample_burst) (conn_start (wire sample_burst) []) in
   status c' = Running \<and> inp c' = [] \<and> map (req_id \<circ> header) (replies c') = [1, 3, 2]"
proof -
  let ?c = "conn_start (wire sample_burst) []"
  have "serving sample_server ?c" "queue ?c = pq_new" "inp ?c = wire sample_burst"
    "list_all (fits (s_max_frame_size sample_server)) sample_burst" "encodes_all (s_bson sample_server)"
    using sample_request_fits total_bson_encodes
    by (simp_all add: serving_def conn_start_def sample_server_def sample_burst_def)
  note served = burst_served [OF this, unfolded Let_def sample_burst_replies(1)]
  have "replies ?c = []" by (simp add: replies_def conn_start_def)
  with served show ?thesis
    using replies_to_ids [of "burst_order sample_burst"] sample_burst_replies(2)
    by (metis append_Nil)
qed

text \<open>
  Batch boundaries. A frame that ends a batch leaves no response behind, held ones
  are written before its own; with one exception: a frame whose envelope does not parse
  and that wants no reply changes nothing, so that responses held for the batch it ends
  stay held until some later frame.
\<close>

theorem batch_boundary:
  assumes "encodes_all (s_bson S)" and "s_max_concurrent S \<noteq> 0" and "\<not> batch_follows (hflags (header f))"
  shows "if parses S f \<or> \<not> no_reply (hflags (header f))
    then pending (serve_frame S f c) = [] \<and>
      (serving S c \<longrightarrow> prefix (written c @ pending c) (written (serve_frame S f c)))
    else serve_frame S f c = c"
proof (cases "parses S f \<or> \<not> no_reply (hflags (header f))")
  case True
  with assms have p: "pending (serve_frame S f c) = []" by (rule boundary_flushes)
  have "serving S c \<Longrightarrow> prefix (replies c) (replies (serve_frame S f c))"
    using serve_frame_spec [of S c f] by simp
  with p True show ?thesis by (simp add: replies_def)
qed (simp add: boundary_forgotten)

definition silent :: "frame \<Rightarrow> frame" where
  "silent f = f\<lparr>header := (header f)\<lparr>hflags := (hflags (header f))\<lparr>no_reply := True\<rparr>\<rparr>\<rparr>"

theorem batch_boundary_witness:
  "serve_frame sample_server (silent (sample_request Handshake 9 Normal))
     ((conn_start [] [])\<lparr>pending := [ping_frame]\<rparr>) = (conn_start [] [])\<lparr>pending := [ping_frame]\<rparr>"
proof -
  have "\<not> parses sample_server (silent (sample_request Handshake 9 Normal))"
    by (simp add: parses_def sample_server_def silent_def sample_request_def parse_envelope_def
        total_bson_def table_bson_def sample_table_def parse_handshake_def get_required_str_def get_str_def)
  then show ?thesis
    using batch_boundary [of sample_server "silent (sample_request Handshake 9 Normal)"] total_bson_encodes
    by (simp add: sample_server_def silent_def sample_request_def)
qed

text \<open>
  Connection safety. Along every run of a connection, frames arriving, the peer
  leaving, iterations and shutdown in any order, what has been written is only ever
  extended and the priority queue keeps each request at its level.
\<close>

theorem connection_safety:
  assumes "(conn_step S)\<^sup>*\<^sup>* (conn_start bs s) c" and "(conn_step S)\<^sup>*\<^sup>* c c'"
  shows "pq_inv (queue c) \<and> prefix (written c) (written c')"
proof -
  have "pq_inv (queue (conn_start bs s))"
    by (simp add: conn_start_def pq_inv_new)
  then have "pq_inv (queue c)"
    using conn_run_inv [OF assms(1)] by simp
  then show ?thesis using conn_run_inv [OF assms(2)] by simp
qed

theorem connection_safety_witness:
  "prefix [] (written ((conn_start [1] [])\<lparr>writable := False\<rparr>))"
proof -
  have "conn_step sample_server (conn_start [1] []) ((conn_start [1] [])\<lparr>writable := False\<rparr>)"
    by (rule conn_step.peer_gone) (simp add: conn_start_def)
  from connection_safety [OF rtranclp.rtrancl_refl [of "conn_step sample_server" "conn_start [1] []"]
      r_into_rtranclp [of "conn_step sample_server", OF this]]
  show ?thesis by simp
qed

text \<open>
  Handshake. The first frame decides: a handshake that parses is answered with the
  configured limits and the connection goes on; any other first frame gets one error
  reply and the connection closes. Either way the reply carries the frame's request id,
  the rest of the input is untouched and so is the database.
\<close>

theorem handshake_decides:
  assumes "fits (s_max_frame_size S) f" and "encodes_all (s_bson S)"
  shows "let c' = handshake S (conn_start (write_frame f @ rest) s); rid = req_id (header f) in
    database c' = s \<and> inp c' = rest \<and> pending c' = [] \<and>
    (if opcode (hflags (header f)) = Handshake \<and> parses S f
     then status c' = Running \<and>
       (\<exists>body. encode_response (s_bson S) (RespHandshake (s_max_frame_size S) (s_max_concurrent S)) = Inr body \<and>
          written c' = [reply_frame Handshake rid body])
     else status c' = Closed \<and>
       (\<exists>msg body. encode_response (s_bson S) (RespError 1 msg) = Inr body \<and>
          written c' = [reply_frame OpError rid body]))"
  using assms by (rule handshake_result)

theorem handshake_decides_witness:
  "status (handshake sample_server (conn_start (write_frame (sample_request Find 5 Normal) @ [7]) [])) = Closed"
  using handshake_decides [of sample_server "sample_request Find 5 Normal" "[7]" "[]"]
    sample_request_fits [of Find 5 Normal] total_bson_encodes
  by (simp add: sample_server_def Let_def) (simp add: sample_request_def)

text \<open>
  A read that is given up loses bytes. When the zero-timeout read of the coalescing
  loop meets a part of a frame, the part is gone: nothing is queued for it and no byte
  of it is left for the next read, which will take the rest of the frame for a header.
\<close>

theorem cancelled_read_loses_bytes:
  assumes "fits m f" and "k < length (write_frame f)"
  shows "coalesce m (take k (write_frame f)) q = ([], q)"
  using poll_partial [OF assms] by (simp add: coalesce.simps)

theorem cancelled_read_loses_bytes_witness:
  "coalesce 1024 (take 12 (write_frame (sample_request Find 5 Normal))) pq_new = ([], pq_new)"
  by (rule cancelled_read_loses_bytes [OF sample_request_fits])
    (simp add: write_frame_length HEADER_SIZE_def sample_request_def)

text \<open>
  The shutdown notice is not a frame of the protocol. Its envelope is JSON text, whose
  first four bytes are no length, so that a reader of frames, this program's own reader
  included, rejects it as malformed.
\<close>

theorem shutdown_frame_unreadable:
  assumes "frame_msg_len shutdown_frame \<le> m"
  shows "read_frame m (write_frame shutdown_frame @ rest) =
    (Inl (MalformedEnvelope ''BSON size exceeds payload length''), rest)"
  using assms
  by (rule read_malformed)
    (simp_all add: shutdown_frame_def reply_frame_def shutdown_bytes)

theorem shutdown_frame_unreadable_witness:
  "read_frame 64 (write_frame shutdown_frame) = (Inl (MalformedEnvelope ''BSON size exceeds payload length''), [])"
  using shutdown_frame_unreadable [of 64 "[]"]
  by (simp add: frame_msg_len_def shutdown_frame_def reply_frame_def shutdown_bytes u32_of_len_def)

end
