(* ===== verification/Pipeline_Refs.thy ===== *)
theory Pipeline_Refs
  imports Mongo_Values
begin

text \<open>
  References between the steps of a transaction pipeline,
  \<open>src/operations/pipeline_refs.rs\<close>: parsing \<open>step.field[0].sub\<close>, finding the references
  \<open>{{...}}\<close> in a JSON value, and resolving them against the results of earlier steps. The
  scanner \<open>captures\<close> is what the pattern of the source matches: two opening braces, the
  longest run of characters other than a closing brace, not empty, and two closing
  braces, leftmost first and without overlaps. \<open>render\<close> is the JSON text of a value
  (\<open>Value::to_string\<close>).
\<close>

abbreviation pipeline_err :: "string \<Rightarrow> mongo_error + 'a" where
  "pipeline_err msg \<equiv> Inl (TransactionPipelineError msg)"

subsection \<open>Parsing a reference\<close>

datatype path_segment = SegField string | SegIndex nat | SegWildcard

definition is_stop :: "char \<Rightarrow> bool" where
  "is_stop c \<longleftrightarrow> c = CHR ''.'' \<or> c = CHR ''[''"

definition until_stop :: "string \<Rightarrow> string" where
  "until_stop s = takeWhile (\<lambda>c. \<not> is_stop c) s"

text \<open>\<open>usize::from_str\<close>: digits, at least one, after an optional plus sign, within 64 bits.\<close>

definition parse_usize :: "string \<Rightarrow> nat option" where
  "parse_usize s =
     (let ds = (if take 1 s = ''+'' then drop 1 s else s) in
      if ds \<noteq> [] \<and> list_all is_digit ds \<and> digits_val ds < 2 ^ 64 then Some (digits_val ds) else None)"

definition quote :: "string \<Rightarrow> string" where
  "quote s = [CHR 0x27] @ s @ [CHR 0x27]"

function parse_segments ::
  "string \<Rightarrow> string \<Rightarrow> path_segment list \<Rightarrow> mongo_error + path_segment list" where
  "parse_segments reference rest segments =
     (case rest of
        [] \<Rightarrow> Inr segments
      | c # r \<Rightarrow>
          if c = CHR ''.'' then
            (let field = until_stop r in
             if field = [] then pipeline_err (''Empty field name in reference: '' @ reference)
             else parse_segments reference (drop (length field) r) (segments @ [SegField field]))
          else if c = CHR ''['' then
            (if CHR '']'' \<notin> set r then pipeline_err (''Unclosed bracket in reference: '' @ reference)
             else
               (let inside = takeWhile (\<lambda>c. c \<noteq> CHR '']'') r;
                    next = drop (Suc (length inside)) r in
                if inside = ''*'' then parse_segments reference next (segments @ [SegWildcard])
                else
                  (case parse_usize inside of
                     None \<Rightarrow> pipeline_err (''Invalid array index '' @ quote inside @ '' in reference: '' @ reference)
                   | Some idx \<Rightarrow> parse_segments reference next (segments @ [SegIndex idx]))))
          else pipeline_err (''Unexpected character in reference: '' @ reference))"
  by pat_completeness auto
termination
  by (relation "measure (\<lambda>(reference, rest, segments). length rest)") auto

declare parse_segments.simps [simp del]

definition parse_reference :: "string \<Rightarrow> mongo_error + (string \<times> path_segment list)" where
  "parse_reference reference =
     (if reference = [] then pipeline_err ''Empty reference''
      else
        (let step_name = until_stop reference in
         if step_name = [] then pipeline_err ''Empty step name in reference''
         else
           (let remainder = drop (length step_name) reference in
            if remainder = [] then Inr (step_name, [])
            else rbind (parse_segments reference remainder []) (\<lambda>segments. Inr (step_name, segments)))))"

subsection \<open>Finding references\<close>

text \<open>The match that starts at the head of a string: the captured run and what follows.\<close>

definition match_here :: "string \<Rightarrow> (string \<times> string) option" where
  "match_here s =
     (if take 2 s = ''{{'' then
        (let run = takeWhile (\<lambda>c. c \<noteq> CHR ''}'') (drop 2 s);
             after = drop (2 + length run) s in
         if run \<noteq> [] \<and> take 2 after = ''}}'' then Some (run, drop 2 after) else None)
      else None)"

lemma match_here_shorter: "match_here s = Some (run, rest) \<Longrightarrow> length rest < length s"
  by (auto simp: match_here_def Let_def split: if_splits) (cases s, auto)

function captures :: "string \<Rightarrow> string list" where
  "captures [] = []"
| "captures (c # s) =
     (case match_here (c # s) of
        Some (run, rest) \<Rightarrow> run # captures rest
      | None \<Rightarrow> captures s)"
  by pat_completeness auto
termination
  by (relation "measure length") (auto dest: sym match_here_shorter simp: match_here_shorter)

definition full_match :: "string \<Rightarrow> string" where
  "full_match run = ''{{'' @ run @ ''}}''"

fun add_ref :: "string list \<Rightarrow> string \<Rightarrow> string list" where
  "add_ref refs run = (let r = trim run in if r \<in> set refs then refs else refs @ [r])"

fun extract_refs_recursive :: "json \<Rightarrow> string list \<Rightarrow> string list" where
  "extract_refs_recursive (JString s) refs = foldl add_ref refs (captures s)"
| "extract_refs_recursive (JArray arr) refs = fold extract_refs_recursive arr refs"
| "extract_refs_recursive (JObject m) refs = fold (\<lambda>kv. extract_refs_recursive (snd kv)) m refs"
| "extract_refs_recursive _ refs = refs"

definition extract_references :: "json \<Rightarrow> string list" where
  "extract_references value = extract_refs_recursive value []"

subsection \<open>Resolving references\<close>

type_synonym results = "string \<Rightarrow> json option"

fun traverse_path :: "json \<Rightarrow> path_segment list \<Rightarrow> string \<Rightarrow> mongo_error + json" where
  "traverse_path value [] ref_str = Inr value"
| "traverse_path value (SegField field # remaining) ref_str =
     (case value of
        JArray arr \<Rightarrow>
          (if field = ''length'' then Inr (json_of_nat (length arr))
           else pipeline_err (''Cannot access field '' @ quote field @ '' on non-object value in reference '' @ quote ref_str))
      | JObject m \<Rightarrow>
          (case doc_get m field of
             None \<Rightarrow> pipeline_err (''SegField '' @ quote field @ '' not found in reference '' @ quote ref_str)
           | Some v \<Rightarrow> traverse_path v remaining ref_str)
      | _ \<Rightarrow> pipeline_err (''Cannot access field '' @ quote field @ '' on non-object value in reference '' @ quote ref_str))"
| "traverse_path value (SegIndex idx # remaining) ref_str =
     (case value of
        JArray arr \<Rightarrow>
          (if idx < length arr then traverse_path (arr ! idx) remaining ref_str
           else pipeline_err (''Array index '' @ show_nat idx @ '' out of bounds in reference '' @ quote ref_str))
      | _ \<Rightarrow> pipeline_err (''Cannot index non-array value in reference '' @ quote ref_str))"
| "traverse_path value (SegWildcard # remaining) ref_str =
     (case value of
        JArray arr \<Rightarrow>
          rbind (collect (\<lambda>item. traverse_path item remaining ref_str) arr) (\<lambda>rs. Inr (JArray rs))
      | _ \<Rightarrow> pipeline_err (''Cannot use wildcard on non-array value in reference '' @ quote ref_str))"

definition resolve_single_ref :: "string \<Rightarrow> results \<Rightarrow> mongo_error + json" where
  "resolve_single_ref ref_str results =
     rbind (parse_reference ref_str) (\<lambda>(step_name, path).
       (case results step_name of
          None \<Rightarrow> pipeline_err (''Step '' @ quote step_name @ '' not found in results'')
        | Some step_result \<Rightarrow>
            if path = [] then Inr step_result else traverse_path step_result path ref_str))"

text \<open>\<open>str::replace\<close>: every occurrence from the left, without overlaps; patterns here are never empty.\<close>

function str_replace :: "string \<Rightarrow> string \<Rightarrow> string \<Rightarrow> string" where
  "str_replace pat new [] = []"
| "str_replace pat new (c # s) =
     (if pat \<noteq> [] \<and> prefix pat (c # s) then new @ str_replace pat new (drop (length pat) (c # s))
      else c # str_replace pat new s)"
  by pat_completeness auto
termination
  by (relation "measure (\<lambda>(pat, new, s). length s)") (auto simp: Suc_diff_le split: nat_diff_split)

fun ref_text :: "(json \<Rightarrow> string) \<Rightarrow> json \<Rightarrow> string" where
  "ref_text render (JString s) = s"
| "ref_text render JNull = ''null''"
| "ref_text render v = render v"

fun interpolate :: "(json \<Rightarrow> string) \<Rightarrow> results \<Rightarrow> string list \<Rightarrow> string \<Rightarrow> mongo_error + string" where
  "interpolate render results [] result = Inr result"
| "interpolate render results (cap # caps) result =
     rbind (resolve_single_ref (trim cap) results) (\<lambda>resolved.
       interpolate render results caps (str_replace (full_match cap) (ref_text render resolved) result))"

text \<open>A string that is one reference and nothing else.\<close>

definition whole_ref :: "string \<Rightarrow> string option" where
  "whole_ref s =
     (let trimmed = trim s in
      if prefix ''{{'' trimmed \<and> suffix ''}}'' trimmed then
        (let inner = take (length trimmed - 4) (drop 2 trimmed) in
         if \<not> str_contains inner ''{{'' \<and> \<not> str_contains inner ''}}'' then Some (trim inner) else None)
      else None)"

definition resolve_string :: "(json \<Rightarrow> string) \<Rightarrow> string \<Rightarrow> results \<Rightarrow> mongo_error + json" where
  "resolve_string render s results =
     (case whole_ref s of
        Some inner \<Rightarrow> resolve_single_ref inner results
      | None \<Rightarrow>
          rbind (interpolate render results (captures s) s) (\<lambda>result. Inr (JString result)))"

definition map_of_fields :: "(string \<times> json) list \<Rightarrow> (string \<times> json) list" where
  "map_of_fields fields = foldl (\<lambda>m (k, v). doc_insert k v m) [] fields"

fun resolve_value :: "(json \<Rightarrow> string) \<Rightarrow> json \<Rightarrow> results \<Rightarrow> mongo_error + json" where
  "resolve_value render (JString s) results = resolve_string render s results"
| "resolve_value render (JArray arr) results =
     rbind (collect (\<lambda>v. resolve_value render v results) arr) (\<lambda>rs. Inr (JArray rs))"
| "resolve_value render (JObject m) results =
     rbind (collect (\<lambda>kv. rbind (resolve_value render (snd kv) results) (\<lambda>r. Inr (fst kv, r))) m)
       (\<lambda>fields. Inr (JObject (map_of_fields fields)))"
| "resolve_value render other results = Inr other"

definition resolve_references :: "(json \<Rightarrow> string) \<Rightarrow> json \<Rightarrow> results \<Rightarrow> mongo_error + json" where
  "resolve_references render value results = resolve_value render value results"


subsection \<open>Printing and parsing references\<close>

fun show_segment :: "path_segment \<Rightarrow> string" where
  "show_segment (SegField f) = ''.'' @ f"
| "show_segment (SegIndex n) = ''['' @ show_nat n @ '']''"
| "show_segment SegWildcard = ''[*]''"

definition show_path :: "path_segment list \<Rightarrow> string" where
  "show_path segs = concat (map show_segment segs)"

definition show_ref :: "string \<Rightarrow> path_segment list \<Rightarrow> string" where
  "show_ref name segs = name @ show_path segs"

definition is_name :: "string \<Rightarrow> bool" where
  "is_name s \<longleftrightarrow> s \<noteq> [] \<and> list_all (\<lambda>c. \<not> is_stop c) s"

fun segment_ok :: "path_segment \<Rightarrow> bool" where
  "segment_ok (SegField f) = is_name f"
| "segment_ok (SegIndex n) = (n < 2 ^ 64)"
| "segment_ok SegWildcard = True"

lemma until_stop_name:
  "is_name f \<Longrightarrow> rest = [] \<or> is_stop (hd rest) \<Longrightarrow> until_stop (f @ rest) = f"
  unfolding until_stop_def is_name_def list_all_iff
  by (cases rest) (auto simp: takeWhile_append2 takeWhile_tail)

lemma show_path_starts: "show_path segs = [] \<or> is_stop (hd (show_path segs))"
proof (cases segs)
  case (Cons x xs)
  then show ?thesis by (cases x) (simp_all add: show_path_def is_stop_def)
qed (simp add: show_path_def)

lemma parse_usize_show_nat: "n < 2 ^ 64 \<Longrightarrow> parse_usize (show_nat n) = Some n"
proof -
  assume n: "n < 2 ^ 64"
  obtain c cs where c: "show_nat n = c # cs" and "is_digit c"
    using show_nat_digits [of n] by (cases "show_nat n") auto
  moreover have "\<not> is_digit (CHR ''+'')" by (simp add: is_digit_def)
  ultimately have "c \<noteq> CHR ''+''" by auto
  then have "take 1 (show_nat n) \<noteq> ''+''"
    by (simp add: c)
  then show ?thesis
    using show_nat_digits [of n] n by (simp add: parse_usize_def)
qed

lemma show_nat_no_bracket: "CHR '']'' \<notin> set (show_nat n)" "show_nat n \<noteq> ''*''"
proof -
  have "list_all is_digit (show_nat n)" using show_nat_digits by simp
  then show "CHR '']'' \<notin> set (show_nat n)" "show_nat n \<noteq> ''*''"
    by (auto simp: list_all_iff is_digit_def)
qed

lemma parse_segments_show:
  "list_all segment_ok segs \<Longrightarrow>
   parse_segments reference (show_path segs) acc = Inr (acc @ segs)"
proof (induction segs arbitrary: acc)
  case Nil
  then show ?case by (simp add: show_path_def parse_segments.simps)
next
  case (Cons x segs)
  have p: "show_path (x # segs) = show_segment x @ show_path segs"
    by (simp add: show_path_def)
  have IH: "parse_segments reference (show_path segs) (acc @ [x]) = Inr ((acc @ [x]) @ segs)"
    using Cons by (intro Cons.IH) simp
  show ?case
  proof (cases x)
    case (SegField f)
    then have "until_stop (f @ show_path segs) = f" "f \<noteq> []"
      using Cons.prems until_stop_name [of f, OF _ show_path_starts [of segs]]
      by (auto simp: is_name_def)
    then show ?thesis
      using IH unfolding p unfolding SegField by (subst parse_segments.simps) simp
  next
    case (SegIndex n)
    have "takeWhile (\<lambda>c. c \<noteq> CHR '']'') (show_nat n @ CHR '']'' # show_path segs) = show_nat n"
      using show_nat_no_bracket(1) [of n] by (subst takeWhile_append2) auto
    then show ?thesis
      using IH Cons.prems show_nat_no_bracket(2) [of n]
      unfolding p unfolding SegIndex by (subst parse_segments.simps) (simp add: parse_usize_show_nat)
  next
    case SegWildcard
    then show ?thesis
      using IH unfolding p unfolding SegWildcard by (subst parse_segments.simps) simp
  qed
qed

lemma parse_show_ref:
  assumes "is_name name" and "list_all segment_ok segs"
  shows "parse_reference (show_ref name segs) = Inr (name, segs)"
proof -
  have "until_stop (name @ show_path segs) = name" "name \<noteq> []"
    using assms(1) until_stop_name [OF assms(1) show_path_starts [of segs]] by (auto simp: is_name_def)
  moreover have "show_path segs = [] \<Longrightarrow> segs = []"
  proof (cases segs)
    case (Cons x xs)
    then show "show_path segs = [] \<Longrightarrow> segs = []" by (cases x) (simp_all add: show_path_def)
  qed simp
  ultimately show ?thesis
    using parse_segments_show [OF assms(2), of "name @ show_path segs" "[]"]
    by (auto simp: parse_reference_def show_ref_def Let_def)
qed

lemma parse_reference_name: "parse_reference r = Inr (name, segs) \<Longrightarrow> name = until_stop r \<and> name \<noteq> []"
  by (auto simp: parse_reference_def Let_def result_simps split: if_splits)


subsection \<open>Which references a value has\<close>

fun strings_of :: "json \<Rightarrow> string set" where
  "strings_of (JString s) = {s}"
| "strings_of (JArray arr) = (\<Union>v \<in> set arr. strings_of v)"
| "strings_of (JObject m) = (\<Union>kv \<in> set m. strings_of (snd kv))"
| "strings_of _ = {}"

text \<open>The references that resolving a string looks up, in order.\<close>

definition string_refs :: "string \<Rightarrow> string list" where
  "string_refs s = (case whole_ref s of Some inner \<Rightarrow> [inner] | None \<Rightarrow> map trim (captures s))"

lemma set_foldl_add_ref: "set (foldl add_ref refs runs) = set refs \<union> trim ` set runs"
  by (induction runs arbitrary: refs) (auto simp: Let_def)

lemma set_fold_extract:
  "(\<And>v refs. v \<in> set vs \<Longrightarrow> set (f v refs) = set refs \<union> g v) \<Longrightarrow>
   set (fold f vs refs) = set refs \<union> (\<Union>v \<in> set vs. g v)"
  by (induction vs arbitrary: refs) (auto simp: Un_assoc)

lemma set_extract_recursive:
  "set (extract_refs_recursive v refs) = set refs \<union> (\<Union>s \<in> strings_of v. trim ` set (captures s))"
proof (induction v arbitrary: refs rule: json_induct)
  case (JArray arr)
  have "set (fold extract_refs_recursive arr refs) =
      set refs \<union> (\<Union>v \<in> set arr. \<Union>s \<in> strings_of v. trim ` set (captures s))"
    by (rule set_fold_extract) (rule JArray)
  then show ?case by simp
next
  case (JObject m)
  have "set (fold (\<lambda>kv. extract_refs_recursive (snd kv)) m refs) =
      set refs \<union> (\<Union>kv \<in> set m. \<Union>s \<in> strings_of (snd kv). trim ` set (captures s))"
    by (rule set_fold_extract) (use JObject in fastforce)
  then show ?case by simp
qed (simp_all add: set_foldl_add_ref)

lemma set_extract: "set (extract_references v) = (\<Union>s \<in> strings_of v. trim ` set (captures s))"
  by (simp add: extract_references_def set_extract_recursive)

subsection \<open>When resolution succeeds\<close>

definition resolvable :: "results \<Rightarrow> string \<Rightarrow> bool" where
  "resolvable results r \<longleftrightarrow> (\<exists>v. resolve_single_ref r results = Inr v)"

lemma interpolate_iff:
  "(\<exists>t. interpolate render results caps s = Inr t) \<longleftrightarrow> (\<forall>c \<in> set caps. resolvable results (trim c))"
proof (induction caps arbitrary: s)
  case (Cons c caps)
  then show ?case
    by (cases "resolve_single_ref (trim c) results") (auto simp: resolvable_def)
qed simp

lemma resolve_string_iff:
  "(\<exists>v. resolve_string render s results = Inr v) \<longleftrightarrow> (\<forall>r \<in> set (string_refs s). resolvable results r)"
  using interpolate_iff [of render results "captures s" s]
  by (auto simp: resolve_string_def string_refs_def resolvable_def result_simps split: option.split)

lemma collect_iff: "(\<exists>ys. collect f xs = Inr ys) \<longleftrightarrow> (\<forall>x \<in> set xs. \<exists>y. f x = Inr y)"
  by (induction xs) (auto simp: result_simps)

lemma resolve_value_iff:
  "(\<exists>r. resolve_value render v results = Inr r) \<longleftrightarrow>
   (\<forall>s \<in> strings_of v. \<forall>r \<in> set (string_refs s). resolvable results r)"
proof (induction v rule: json_induct)
  case (JArray arr)
  have "(\<exists>r. resolve_value render (JArray arr) results = Inr r) \<longleftrightarrow>
      (\<exists>ys. collect (\<lambda>v. resolve_value render v results) arr = Inr ys)"
    by (auto simp: result_simps)
  then show ?case using JArray by (auto simp: collect_iff)
next
  case (JObject m)
  have "(\<exists>r. resolve_value render (JObject m) results = Inr r) \<longleftrightarrow>
      (\<exists>ys. collect (\<lambda>kv. rbind (resolve_value render (snd kv) results) (\<lambda>r. Inr (fst kv, r))) m = Inr ys)"
    by (auto simp: result_simps)
  moreover have "(\<exists>r. resolve_value render (snd kv) results = Inr r) \<longleftrightarrow>
      (\<forall>s \<in> strings_of (snd kv). \<forall>r \<in> set (string_refs s). resolvable results r)" if "kv \<in> set m" for kv
    using that JObject [of "fst kv" "snd kv"] by simp
  ultimately show ?case by (auto simp: collect_iff result_simps)
qed (simp_all add: resolve_string_iff)

lemma map_of_fields_id: "doc_ok m \<Longrightarrow> map_of_fields m = m"
proof -
  have "doc_ok (a @ m) \<Longrightarrow> foldl (\<lambda>m (k, v). doc_insert k v m) a m = a @ m" for a
    by (induction m arbitrary: a) (auto simp: doc_insert_absent doc_ok_def)
  from this [of "[]"] show "doc_ok m \<Longrightarrow> map_of_fields m = m"
    by (simp add: map_of_fields_def)
qed

lemma resolve_value_plain:
  "(\<forall>s \<in> strings_of v. string_refs s = []) \<Longrightarrow> json_ok v \<Longrightarrow> resolve_value render v results = Inr v"
proof (induction v rule: json_induct)
  case (JString s)
  then show ?case
    by (auto simp: resolve_string_def string_refs_def split: option.splits)
next
  case (JArray arr)
  then have "collect (\<lambda>v. resolve_value render v results) arr = Inr (map id arr)"
    by (intro collect_map_Inr) (auto simp: list_all_iff)
  then show ?case by simp
next
  case (JObject m)
  then have "collect (\<lambda>kv. rbind (resolve_value render (snd kv) results) (\<lambda>r. Inr (fst kv, r))) m = Inr (map id m)"
    by (intro collect_map_Inr) (fastforce simp: list_all_iff)
  then show ?case using JObject.prems by (simp add: map_of_fields_id)
qed simp_all

subsection \<open>Strings that are one reference\<close>

definition plain_char :: "char \<Rightarrow> bool" where
  "plain_char c \<longleftrightarrow> \<not> is_ws c \<and> c \<noteq> CHR ''{'' \<and> c \<noteq> CHR ''}''"

lemma not_contains: "list_all plain_char s \<Longrightarrow> \<not> str_contains s ''{{'' \<and> \<not> str_contains s ''}}''"
proof -
  assume h: "list_all plain_char s"
  have "CHR ''{'' \<notin> set s" "CHR ''}'' \<notin> set s"
    using h by (auto simp: list_all_iff plain_char_def)
  then show ?thesis
    using set_mono_sublist [of "''{{''" s] set_mono_sublist [of "''}}''" s]
    by (auto simp: str_contains_iff)
qed

lemma brace_not_ws: "\<not> is_ws (CHR ''{'')" "\<not> is_ws (CHR ''}'')"
  by (simp_all add: is_ws_def)

lemma whole_ref_plain:
  assumes "list_all plain_char r"
  shows "whole_ref (full_match r) = Some r"
proof -
  have nows: "\<forall>c \<in> set r. \<not> is_ws c"
    using assms by (simp add: list_all_iff plain_char_def)
  then have "\<forall>c \<in> set (full_match r). \<not> is_ws c"
    using brace_not_ws by (auto simp: full_match_def)
  then have "trim (full_match r) = full_match r"
    by (rule trim_no_ws)
  moreover have "trim r = r"
    using nows by (rule trim_no_ws)
  ultimately show ?thesis
    using not_contains [OF assms] by (simp add: whole_ref_def full_match_def suffix_def)
qed

lemma show_segment_plain: "segment_ok x \<Longrightarrow> (\<And>f. x = SegField f \<Longrightarrow> list_all plain_char f) \<Longrightarrow> list_all plain_char (show_segment x)"
proof (cases x)
  case (SegIndex n)
  have "list_all plain_char (show_nat n)"
    using show_nat_digits [of n]
    by (auto simp: list_all_iff is_digit_def plain_char_def is_ws_def)
  with SegIndex show ?thesis by (simp add: plain_char_def is_ws_def)
qed (simp_all add: plain_char_def is_ws_def)

fun segment_plain :: "path_segment \<Rightarrow> bool" where
  "segment_plain (SegField f) = (is_name f \<and> list_all plain_char f)"
| "segment_plain (SegIndex n) = (n < 2 ^ 64)"
| "segment_plain SegWildcard = True"

lemma segment_plain_ok: "segment_plain x \<Longrightarrow> segment_ok x \<and> list_all plain_char (show_segment x)"
  using show_segment_plain [of x] by (cases x) auto

lemma show_ref_plain:
  "list_all plain_char name \<Longrightarrow> list_all segment_plain segs \<Longrightarrow> list_all plain_char (show_ref name segs)"
  using segment_plain_ok by (auto simp: show_ref_def show_path_def list_all_iff)

lemma traverse_empty: "(if segs = [] then Inr v else traverse_path v segs r) = traverse_path v segs r"
  by simp

lemma resolve_whole:
  assumes "is_name name" and "list_all plain_char name" and "list_all segment_plain segs"
    and "results name = Some v"
  shows "resolve_string render (full_match (show_ref name segs)) results =
    traverse_path v segs (show_ref name segs)"
proof -
  have "list_all segment_ok segs"
    using assms(3) segment_plain_ok by (auto simp: list_all_iff)
  with assms(1) have "parse_reference (show_ref name segs) = Inr (name, segs)"
    by (rule parse_show_ref)
  then show ?thesis
    using whole_ref_plain [OF show_ref_plain [OF assms(2,3)]] assms(4)
    by (simp add: resolve_string_def resolve_single_ref_def)
qed


subsection \<open>Properties\<close>

text \<open>
  Reference round trip. The text of a step name and a path is parsed back into that
  name and path, for names without dots and brackets and indices of 64 bits.
\<close>

theorem reference_round_trip:
  assumes "is_name name" and "list_all segment_ok segs"
  shows "parse_reference (show_ref name segs) = Inr (name, segs)"
  using assms by (rule parse_show_ref)

theorem reference_round_trip_witness:
  "parse_reference ''users.items[3][*].id'' =
     Inr (''users'', [SegField ''items'', SegIndex 3, SegWildcard, SegField ''id''])"
  using reference_round_trip [of "''users''" "[SegField ''items'', SegIndex 3, SegWildcard, SegField ''id'']"]
  by (simp add: is_name_def is_stop_def show_ref_def show_path_def show_nat.simps digit_chars)

text \<open>
  C26. Resolution fails exactly when a reference does. Resolving a value succeeds if and
  only if every reference of every string in it names a step with a result and a path
  that exists there; and a value without references comes back unchanged.
\<close>

theorem resolution_exact:
  "((\<exists>r. resolve_references render v results = Inr r) \<longleftrightarrow>
     (\<forall>s \<in> strings_of v. \<forall>r \<in> set (string_refs s). resolvable results r)) \<and>
   ((\<forall>s \<in> strings_of v. string_refs s = []) \<and> json_ok v \<longrightarrow>
     resolve_references render v results = Inr v)"
  unfolding resolve_references_def
  using resolve_value_iff [of render v results] resolve_value_plain [of v render results] by blast

theorem resolution_exact_witness:
  "resolve_references (\<lambda>_. []) (JObject [(''qty'', JString ''five''), (''ok'', JBool True)]) Map.empty =
     Inr (JObject [(''qty'', JString ''five''), (''ok'', JBool True)])"
proof -
  let ?v = "JObject [(''qty'', JString ''five''), (''ok'', JBool True)]"
  have "json_ok ?v" by (simp add: doc_ok_def)
  moreover have "\<forall>s \<in> strings_of ?v. string_refs s = []"
    by (simp add: string_refs_def whole_ref_def match_here_def trim_def is_ws_def)
  ultimately show ?thesis
    using resolution_exact [of "\<lambda>_. []" ?v Map.empty] by blast
qed

text \<open>
  A string that is one reference keeps the type of what it refers to: it is replaced
  by the value at the end of the path, whatever kind of value that is, and not by its text.
\<close>

theorem whole_reference_keeps_value:
  assumes "is_name name" and "list_all plain_char name" and "list_all segment_plain segs"
    and "results name = Some v"
  shows "resolve_references render (JString (full_match (show_ref name segs))) results =
    traverse_path v segs (show_ref name segs)"
  unfolding resolve_references_def resolve_value.simps
  using assms by (rule resolve_whole)

theorem whole_reference_keeps_value_witness:
  "resolve_references (\<lambda>_. []) (JString ''{{u.tags[1]}}'')
     [''u'' \<mapsto> JObject [(''tags'', JArray [JNull, JBool True])]] = Inr (JBool True)"
  using whole_reference_keeps_value [of "''u''" "[SegField ''tags'', SegIndex 1]"
      "[''u'' \<mapsto> JObject [(''tags'', JArray [JNull, JBool True])]]"
      "JObject [(''tags'', JArray [JNull, JBool True])]" "\<lambda>_. []"]
  by (simp add: is_name_def is_stop_def plain_char_def is_ws_def show_ref_def show_path_def
      show_nat.simps digit_chars full_match_def)

text \<open>
  Interpolation is not simultaneous. Each reference is replaced in the text that the
  earlier replacements have produced, so that braces coming from the data are replaced in
  their turn: the second occurrence below is part of a value, not of the template.
\<close>

theorem interpolation_rescans_values:
  "resolve_references (\<lambda>_. []) (JString ''{{a}} {{b}}'')
     [''a'' \<mapsto> JString ''{{b}}'', ''b'' \<mapsto> JString ''x''] = Inr (JString ''x x'')"
  by (simp add: resolve_references_def resolve_string_def whole_ref_def trim_def is_ws_def match_here_def
      resolve_single_ref_def parse_reference_def until_stop_def is_stop_def full_match_def suffix_def
      str_contains_def)

text \<open>
  A blind spot of extraction. An empty pair of braces is no reference for the scanner
  that validation uses, but resolution takes it for one and fails.
\<close>

theorem empty_braces_escape_extraction:
  "extract_references (JString ''{{}}'') = [] \<and>
   resolve_references render (JString ''{{}}'') results =
     Inl (TransactionPipelineError ''Empty reference'')"
  by (simp add: extract_references_def match_here_def resolve_references_def resolve_string_def
      whole_ref_def trim_def is_ws_def suffix_def str_contains_def resolve_single_ref_def parse_reference_def)

end
