(* ===== verification/Txn_Pipeline.thy ===== *)
theory Txn_Pipeline
  imports Operations Pipeline_Refs
begin

text \<open>
  Transactions: \<open>src/operations/transaction.rs\<close> (the wrapper of a driver session) and
  \<open>src/operations/transaction_pipeline.rs\<close> (validation and execution of a series of
  steps inside one transaction). The calls a session offers are the parameter
  \<open>session_driver\<close> over a state that holds the database, the session and the clock; a
  cursor is the list of what its \<open>advance\<close> calls give, an error or a document that
  may fail to decode. \<open>json_lib\<close> is the conversion between JSON and BSON values.
\<close>

type_synonym session_cursor = "(driver_error + (driver_error + document)) list"
type_synonym ('s, 'a) call = "'s \<Rightarrow> (driver_error + 'a) \<times> 's"

record update_outcome =
  uo_matched :: u64
  uo_modified :: u64
  uo_upserted :: "bson option"

record 's session_driver =
  x_start_session :: "('s, unit) call"
  x_start_transaction :: "bool \<Rightarrow> ('s, unit) call"
  x_find :: "string \<Rightarrow> string \<Rightarrow> document \<Rightarrow> i64 option \<Rightarrow> ('s, session_cursor) call"
  x_insert_one :: "string \<Rightarrow> string \<Rightarrow> document \<Rightarrow> ('s, bson) call"
  x_insert_many :: "string \<Rightarrow> string \<Rightarrow> document list \<Rightarrow> ('s, bson list) call"
  x_update_one :: "string \<Rightarrow> string \<Rightarrow> document \<Rightarrow> document \<Rightarrow> ('s, update_outcome) call"
  x_update_many :: "string \<Rightarrow> string \<Rightarrow> document \<Rightarrow> document \<Rightarrow> ('s, update_outcome) call"
  x_delete_one :: "string \<Rightarrow> string \<Rightarrow> document \<Rightarrow> ('s, u64) call"
  x_delete_many :: "string \<Rightarrow> string \<Rightarrow> document \<Rightarrow> ('s, u64) call"
  x_find_and_update :: "string \<Rightarrow> string \<Rightarrow> document \<Rightarrow> document \<Rightarrow> return_document \<Rightarrow>
    ('s, document option) call"
  x_aggregate :: "string \<Rightarrow> string \<Rightarrow> document list \<Rightarrow> ('s, session_cursor) call"
  x_commit :: "('s, unit) call"
  x_abort :: "('s, unit) call"
  x_now :: "'s \<Rightarrow> nat"

record json_lib =
  to_bson :: "json \<Rightarrow> string + bson"
  to_json :: "bson \<Rightarrow> string + json"
  to_text :: "json \<Rightarrow> string"

text \<open>A driver call under the question mark: its error is converted.\<close>

definition asking :: "(driver_error + 'a) \<times> 's \<Rightarrow> (mongo_error + 'a) \<times> 's" where
  "asking r = (map_err from_driver_error (fst r), snd r)"

subsection \<open>The transaction wrapper\<close>

fun drain_session :: "document list \<Rightarrow> session_cursor \<Rightarrow> mongo_error + document list" where
  "drain_session results [] = Inr results"
| "drain_session results (Inl e # c) = Inl (from_driver_error e)"
| "drain_session results (Inr (Inl e) # c) = Inl (from_driver_error e)"
| "drain_session results (Inr (Inr d) # c) = drain_session (results @ [d]) c"

definition txn_begin where
  "txn_begin X s = sbind (asking (x_start_session X s)) (\<lambda>_ s. asking (x_start_transaction X False s))"

definition txn_find where
  "txn_find X db coll flt s =
     sbind (asking (x_find X db coll flt None s)) (\<lambda>cursor s. (drain_session [] cursor, s))"

definition txn_insert where
  "txn_insert X db coll document s = asking (x_insert_one X db coll document s)"

definition txn_update where
  "txn_update X db coll flt upd s = asking (x_update_one X db coll flt upd s)"

definition txn_delete where
  "txn_delete X db coll flt s = asking (x_delete_one X db coll flt s)"

definition txn_commit where
  "txn_commit X s = asking (x_commit X s)"

definition txn_abort where
  "txn_abort X s = asking (x_abort X s)"

subsection \<open>Validation of a pipeline\<close>

definition MAX_STEPS :: nat where "MAX_STEPS = 50"
definition MAX_DOCS :: nat where "MAX_DOCS = 101"
definition TIMEOUT_MS :: u64 where "TIMEOUT_MS = 30000"
definition MAX_RETRIES :: nat where "MAX_RETRIES = 3"

record step_def =
  step_name :: string
  step_db :: string
  step_coll :: string
  operation_type :: string
  operation_json :: json
  find_limit :: "i64 option"

definition is_ascii_alnum :: "char \<Rightarrow> bool" where
  "is_ascii_alnum c \<longleftrightarrow> is_ascii_alpha c \<or> is_digit c"

fun is_valid_name :: "string \<Rightarrow> bool" where
  "is_valid_name [] = False"
| "is_valid_name (c # cs) =
     ((is_ascii_alpha c \<or> c = CHR ''_'') \<and> list_all (\<lambda>c. is_ascii_alnum c \<or> c = CHR ''_'') cs)"

definition forbidden_ops :: "string list" where
  "forbidden_ops = [''begin_transaction'', ''commit_transaction'', ''abort_transaction'']"

fun check_refs :: "step_def list \<Rightarrow> string list \<Rightarrow> string \<Rightarrow> string list \<Rightarrow> mongo_error + unit" where
  "check_refs steps seen name [] = Inr ()"
| "check_refs steps seen name (r # refs) =
     rbind (parse_reference r) (\<lambda>(ref_step_name, _).
       if ref_step_name \<notin> set seen then
         (if ref_step_name \<in> step_name ` set steps
          then pipeline_err (''Step '' @ quote name @ '': forward reference to step '' @ quote ref_step_name @ '' which is defined later'')
          else pipeline_err (''Step '' @ quote name @ '': references unknown step '' @ quote ref_step_name))
       else check_refs steps seen name refs)"

fun over_limit :: "i64 option \<Rightarrow> bool" where
  "over_limit None = False"
| "over_limit (Some limit) = (sint limit > int MAX_DOCS)"

definition limit_text :: "i64 option \<Rightarrow> string" where
  "limit_text l = (case l of None \<Rightarrow> [] | Some limit \<Rightarrow> show_int (sint limit))"

text \<open>One round of the validation loop, up to the references.\<close>

definition check_step :: "string list \<Rightarrow> step_def \<Rightarrow> mongo_error + unit" where
  "check_step seen step =
     (if step_name step = [] then pipeline_err ''Step name must not be empty''
      else if step_db step = [] then pipeline_err (''Step '' @ quote (step_name step) @ '': database must not be empty'')
      else if step_coll step = [] then pipeline_err (''Step '' @ quote (step_name step) @ '': collection must not be empty'')
      else if \<not> is_valid_name (step_name step) then
        pipeline_err (''Step name '' @ quote (step_name step) @
          '' is invalid: must start with a letter or underscore and contain only alphanumeric characters and underscores'')
      else if step_name step \<in> set seen then pipeline_err (''Step name '' @ quote (step_name step) @ '' is a duplicate'')
      else if operation_type step \<in> set forbidden_ops then
        pipeline_err (''Step '' @ quote (step_name step) @ '': operation_type '' @ quote (operation_type step) @
          '' is not allowed in a pipeline'')
      else if over_limit (find_limit step) then
        pipeline_err (''Step '' @ quote (step_name step) @ '': find_limit '' @ limit_text (find_limit step) @
          '' exceeds maximum of '' @ show_nat MAX_DOCS)
      else Inr ())"

fun validate_steps :: "step_def list \<Rightarrow> string list \<Rightarrow> step_def list \<Rightarrow> mongo_error + unit" where
  "validate_steps steps seen [] = Inr ()"
| "validate_steps steps seen (step # rest) =
     rbind (check_step seen step) (\<lambda>_.
     rbind (check_refs steps (step_name step # seen) (step_name step) (extract_references (operation_json step))) (\<lambda>_.
       validate_steps steps (step_name step # seen) rest))"

definition validate_pipeline :: "step_def list \<Rightarrow> mongo_error + unit" where
  "validate_pipeline steps =
     (if steps = [] then pipeline_err ''Pipeline must have at least one step''
      else if length steps > MAX_STEPS then
        pipeline_err (''Pipeline exceeds maximum of '' @ show_nat MAX_STEPS @ '' steps'')
      else validate_steps steps [] steps)"

subsection \<open>Executing a step\<close>

definition bson_from_json :: "json_lib \<Rightarrow> json \<Rightarrow> document" where
  "bson_from_json J v = (case to_bson J v of Inr (BDocument d) \<Rightarrow> d | _ \<Rightarrow> [])"

definition bson_to_json :: "json_lib \<Rightarrow> bson \<Rightarrow> json" where
  "bson_to_json J b = (case to_json J b of Inr v \<Rightarrow> v | Inl _ \<Rightarrow> JNull)"

definition doc_to_json :: "json_lib \<Rightarrow> document \<Rightarrow> json" where
  "doc_to_json J d = (case to_json J (BDocument d) of Inr v \<Rightarrow> v | Inl _ \<Rightarrow> JNull)"

definition doc_field :: "json_lib \<Rightarrow> json \<Rightarrow> string \<Rightarrow> document" where
  "doc_field J op k = (case json_get op k of None \<Rightarrow> [] | Some v \<Rightarrow> bson_from_json J v)"

definition docs_field :: "json_lib \<Rightarrow> json \<Rightarrow> string \<Rightarrow> document list" where
  "docs_field J op k =
     (case Option.bind (json_get op k) as_array of None \<Rightarrow> [] | Some vs \<Rightarrow> map (bson_from_json J) vs)"

definition step_find_one where
  "step_find_one X J step op s =
     sbind (asking (x_find X (step_db step) (step_coll step) (doc_field J op ''filter'') (Some 1) s))
       (\<lambda>cursor s.
          case cursor of
            [] \<Rightarrow> (Inr JNull, s)
          | Inl e # _ \<Rightarrow> (Inl (from_driver_error e), s)
          | Inr (Inl e) # _ \<Rightarrow> (Inl (from_driver_error e), s)
          | Inr (Inr d) # _ \<Rightarrow> (Inr (doc_to_json J d), s))"

definition step_find where
  "step_find X J step op s =
     (let limit = (case find_limit step of None \<Rightarrow> word_of_nat MAX_DOCS | Some l \<Rightarrow> l) in
      sbind (asking (x_find X (step_db step) (step_coll step) (doc_field J op ''filter'') (Some limit) s))
        (\<lambda>cursor s. (rbind (drain_session [] cursor) (\<lambda>docs. Inr (JArray (map (doc_to_json J) docs))), s)))"

definition step_insert where
  "step_insert X J step op s =
     sbind (asking (x_insert_one X (step_db step) (step_coll step) (doc_field J op ''document'') s))
       (\<lambda>inserted_id s. (Inr (JObject [(''inserted_id'', bson_to_json J inserted_id)]), s))"

definition step_insert_many where
  "step_insert_many X J step op s =
     sbind (asking (x_insert_many X (step_db step) (step_coll step) (docs_field J op ''documents'') s))
       (\<lambda>ids s. (Inr (JObject [(''inserted_ids'', JArray (map (bson_to_json J) ids)),
                              (''inserted_count'', json_of_nat (length ids))]), s))"

definition update_json :: "json_lib \<Rightarrow> update_outcome \<Rightarrow> json" where
  "update_json J u =
     JObject [(''matched_count'', JNumber (PosInt (uo_matched u))),
              (''modified_count'', JNumber (PosInt (uo_modified u))),
              (''upserted_id'', case uo_upserted u of None \<Rightarrow> JNull | Some b \<Rightarrow> bson_to_json J b)]"

definition step_update where
  "step_update X J step op s =
     sbind (asking (x_update_one X (step_db step) (step_coll step) (doc_field J op ''filter'')
              (doc_field J op ''update'') s))
       (\<lambda>u s. (Inr (update_json J u), s))"

definition step_update_many where
  "step_update_many X J step op s =
     sbind (asking (x_update_many X (step_db step) (step_coll step) (doc_field J op ''filter'')
              (doc_field J op ''update'') s))
       (\<lambda>u s. (Inr (update_json J u), s))"

definition step_delete where
  "step_delete X J step op s =
     sbind (asking (x_delete_one X (step_db step) (step_coll step) (doc_field J op ''filter'') s))
       (\<lambda>n s. (Inr (JObject [(''deleted_count'', JNumber (PosInt n))]), s))"

definition step_delete_many where
  "step_delete_many X J step op s =
     sbind (asking (x_delete_many X (step_db step) (step_coll step) (doc_field J op ''filter'') s))
       (\<lambda>n s. (Inr (JObject [(''deleted_count'', JNumber (PosInt n))]), s))"

definition step_find_and_modify where
  "step_find_and_modify X J step op s =
     sbind (asking (x_find_and_update X (step_db step) (step_coll step) (doc_field J op ''filter'')
              (doc_field J op ''update'') After s))
       (\<lambda>r s. (Inr (case r of None \<Rightarrow> JNull | Some d \<Rightarrow> doc_to_json J d), s))"

text \<open>The aggregation loop advances the cursor once more before it looks at the cap.\<close>

fun drain_capped :: "json_lib \<Rightarrow> json list \<Rightarrow> session_cursor \<Rightarrow> mongo_error + json list" where
  "drain_capped J docs [] = Inr docs"
| "drain_capped J docs (Inl e # c) = Inl (from_driver_error e)"
| "drain_capped J docs (Inr d # c) =
     (if length docs < MAX_DOCS then
        (case d of
           Inl e \<Rightarrow> Inl (from_driver_error e)
         | Inr doc \<Rightarrow> drain_capped J (docs @ [doc_to_json J doc]) c)
      else Inr docs)"

definition step_aggregate where
  "step_aggregate X J step op s =
     sbind (asking (x_aggregate X (step_db step) (step_coll step) (docs_field J op ''pipeline'') s))
       (\<lambda>cursor s. (rbind (drain_capped J [] cursor) (\<lambda>docs. Inr (JArray docs)), s))"

definition execute_step where
  "execute_step X J step op s =
     (let t = operation_type step in
      if t = ''find_one'' then step_find_one X J step op s
      else if t = ''find'' then step_find X J step op s
      else if t = ''insert'' then step_insert X J step op s
      else if t = ''insert_many'' then step_insert_many X J step op s
      else if t = ''update'' then step_update X J step op s
      else if t = ''update_many'' then step_update_many X J step op s
      else if t = ''delete'' then step_delete X J step op s
      else if t = ''delete_many'' then step_delete_many X J step op s
      else if t = ''find_and_modify'' then step_find_and_modify X J step op s
      else if t = ''aggregate'' then step_aggregate X J step op s
      else (Inl (TransactionPipelineError (''Unsupported operation type: '' @ t)), s))"

lemmas step_defs =
  step_find_one_def step_find_def step_insert_def step_insert_many_def step_update_def
  step_update_many_def step_delete_def step_delete_many_def step_find_and_modify_def
  step_aggregate_def


subsection \<open>The executor\<close>

record txn_options =
  read_concern :: "string option"
  write_concern :: "string option"
  max_time_ms :: u64

definition default_txn_options :: txn_options where
  "default_txn_options = \<lparr>read_concern = None, write_concern = None, max_time_ms = TIMEOUT_MS\<rparr>"

record step_result =
  res_name :: string
  res_success :: bool
  res_json :: json

record execution_result =
  exec_steps :: "step_result list"
  total_steps :: u32
  steps_done :: u32
  elapsed_ms :: u64

record pipeline_failure =
  failed_step :: string
  step_index :: u32
  reason :: string
  steps_completed :: "string list"
  rolled_back :: bool

definition elapsed :: "'s session_driver \<Rightarrow> nat \<Rightarrow> 's \<Rightarrow> u64" where
  "elapsed X start s = word_of_nat (x_now X s - start)"

definition early_failure :: "string \<Rightarrow> pipeline_failure" where
  "early_failure msg =
     \<lparr>failed_step = [], step_index = 0, reason = msg, steps_completed = [], rolled_back = False\<rparr>"

definition step_failure :: "step_def \<Rightarrow> nat \<Rightarrow> string \<Rightarrow> step_result list \<Rightarrow> pipeline_failure" where
  "step_failure step idx msg done =
     \<lparr>failed_step = step_name step, step_index = u32_of_len idx, reason = msg,
      steps_completed = map res_name done, rolled_back = True\<rparr>"

definition abort_with where
  "abort_with X f s = (Inl f, snd (x_abort X s))"

fun run_steps ::
  "'s session_driver \<Rightarrow> json_lib \<Rightarrow> u64 \<Rightarrow> nat \<Rightarrow> nat \<Rightarrow> results \<Rightarrow> step_result list \<Rightarrow> step_def list \<Rightarrow> 's \<Rightarrow>
   (pipeline_failure + step_result list) \<times> 's" where
  "run_steps X J max_ms start idx results done [] s = (Inr done, s)"
| "run_steps X J max_ms start idx results done (step # steps) s =
     (let ms = elapsed X start s in
      if ms > max_ms then
        abort_with X (step_failure step idx
          (''Pipeline timeout exceeded ('' @ show_nat (unat ms) @ ''ms > '' @ show_nat (unat max_ms) @ ''ms)'') done) s
      else
        (case resolve_references (to_text J) (operation_json step) results of
           Inl e \<Rightarrow> abort_with X (step_failure step idx (''Reference resolution failed: '' @ err_text e) done) s
         | Inr resolved_op \<Rightarrow>
             (case execute_step X J step resolved_op s of
                (Inl e, s') \<Rightarrow> abort_with X (step_failure step idx (err_text e) done) s'
              | (Inr v, s') \<Rightarrow>
                  run_steps X J max_ms start (Suc idx) (results(step_name step \<mapsto> v))
                    (done @ [\<lparr>res_name = step_name step, res_success = True, res_json = v\<rparr>]) steps s')))"

definition commit_failure :: "nat \<Rightarrow> string \<Rightarrow> step_result list \<Rightarrow> pipeline_failure" where
  "commit_failure n msg done =
     \<lparr>failed_step = [], step_index = u32_of_len n, reason = ''Commit failed: '' @ msg,
      steps_completed = map res_name done, rolled_back = True\<rparr>"

definition transient :: "driver_error \<Rightarrow> bool" where
  "transient e \<longleftrightarrow> str_contains (err_message e) ''TransientTransactionError''"

datatype attempt = Finished "pipeline_failure + execution_result" | Retry

text \<open>One round of the retry loop: a fresh session, the steps, and the commit.\<close>

definition run_attempt ::
  "'s session_driver \<Rightarrow> json_lib \<Rightarrow> u64 \<Rightarrow> nat \<Rightarrow> step_def list \<Rightarrow> 's \<Rightarrow> attempt \<times> 's" where
  "run_attempt X J max_ms start steps s =
     (case x_start_session X s of
        (Inl e, s1) \<Rightarrow> (Finished (Inl (early_failure (''Failed to start session: '' @ err_message e))), s1)
      | (Inr _, s1) \<Rightarrow>
          (case x_start_transaction X True s1 of
             (Inl e, s2) \<Rightarrow> (Finished (Inl (early_failure (''Failed to start transaction: '' @ err_message e))), s2)
           | (Inr _, s2) \<Rightarrow>
               (case run_steps X J max_ms start 0 Map.empty [] steps s2 of
                  (Inl f, s3) \<Rightarrow> (Finished (Inl f), s3)
                | (Inr done, s3) \<Rightarrow>
                    (case x_commit X s3 of
                       (Inr _, s4) \<Rightarrow>
                         (Finished (Inr \<lparr>exec_steps = done, total_steps = u32_of_len (length steps),
                            steps_done = u32_of_len (length done), elapsed_ms = elapsed X start s4\<rparr>), s4)
                     | (Inl e, s4) \<Rightarrow>
                         if transient e then (Retry, s4)
                         else (Finished (Inl (commit_failure (length steps) (err_message e) done)), s4)))))"

definition exhausted :: pipeline_failure where
  "exhausted =
     \<lparr>failed_step = [], step_index = 0,
      reason = ''Transaction failed after '' @ show_nat MAX_RETRIES @ '' retries due to transient errors'',
      steps_completed = [], rolled_back = True\<rparr>"

fun run_attempts ::
  "nat \<Rightarrow> 's session_driver \<Rightarrow> json_lib \<Rightarrow> u64 \<Rightarrow> nat \<Rightarrow> step_def list \<Rightarrow> 's \<Rightarrow>
   (pipeline_failure + execution_result) \<times> 's" where
  "run_attempts 0 X J max_ms start steps s = (Inl exhausted, s)"
| "run_attempts (Suc n) X J max_ms start steps s =
     (case run_attempt X J max_ms start steps s of
        (Finished r, s') \<Rightarrow> (r, s')
      | (Retry, s') \<Rightarrow> run_attempts n X J max_ms start steps s')"

definition execute_transaction_pipeline ::
  "'s session_driver \<Rightarrow> json_lib \<Rightarrow> step_def list \<Rightarrow> txn_options \<Rightarrow> 's \<Rightarrow>
   (pipeline_failure + execution_result) \<times> 's" where
  "execute_transaction_pipeline X J steps options s =
     (case validate_pipeline steps of
        Inl e \<Rightarrow> (Inl (early_failure (err_text e)), s)
      | Inr _ \<Rightarrow> run_attempts MAX_RETRIES X J (max_time_ms options) (x_now X s) steps s)"

subsection \<open>What validation establishes\<close>

text \<open>A reference is bound when it parses and names a step of the list.\<close>

definition bound :: "string list \<Rightarrow> string \<Rightarrow> bool" where
  "bound names r \<longleftrightarrow> (\<exists>name path. parse_reference r = Inr (name, path) \<and> name \<in> set names)"

definition step_ok :: "string list \<Rightarrow> step_def \<Rightarrow> bool" where
  "step_ok before step \<longleftrightarrow>
     is_valid_name (step_name step) \<and> step_db step \<noteq> [] \<and> step_coll step \<noteq> [] \<and>
     step_name step \<notin> set before \<and> operation_type step \<notin> set forbidden_ops \<and>
     \<not> over_limit (find_limit step) \<and>
     (\<forall>r \<in> set (extract_references (operation_json step)). bound (step_name step # before) r)"

fun steps_ok :: "string list \<Rightarrow> step_def list \<Rightarrow> bool" where
  "steps_ok before [] = True"
| "steps_ok before (step # rest) \<longleftrightarrow> step_ok before step \<and> steps_ok (step_name step # before) rest"

lemma check_refs_Inr: "check_refs steps seen name refs = Inr u \<longleftrightarrow> (\<forall>r \<in> set refs. bound seen r)"
proof (induction refs)
  case (Cons r refs)
  then show ?case
    by (cases "parse_reference r") (auto simp: bound_def split: if_splits)
qed simp

lemma check_step_Inr:
  "check_step seen step = Inr u \<longleftrightarrow>
     is_valid_name (step_name step) \<and> step_db step \<noteq> [] \<and> step_coll step \<noteq> [] \<and>
     step_name step \<notin> set seen \<and> operation_type step \<notin> set forbidden_ops \<and>
     \<not> over_limit (find_limit step)"
  by (cases "step_name step") (auto simp: check_step_def)

lemma validate_steps_Inr: "validate_steps steps seen rest = Inr u \<longleftrightarrow> steps_ok seen rest"
  by (induction rest arbitrary: seen) (auto simp: result_simps check_step_Inr check_refs_Inr step_ok_def)

lemma validate_pipeline_Inr:
  "validate_pipeline steps = Inr u \<longleftrightarrow> steps \<noteq> [] \<and> length steps \<le> MAX_STEPS \<and> steps_ok [] steps"
  by (auto simp: validate_pipeline_def validate_steps_Inr not_le)

lemma steps_ok_names: "steps_ok before steps \<Longrightarrow> distinct (map step_name steps) \<and> set before \<inter> step_name ` set steps = {}"
proof (induction steps arbitrary: before)
  case (Cons step steps)
  then show ?case
    using Cons.IH [of "step_name step # before"] by (auto simp: step_ok_def)
qed simp

lemma steps_ok_nth:
  "steps_ok before steps \<longleftrightarrow>
     (\<forall>i < length steps. step_ok (rev (map step_name (take i steps)) @ before) (steps ! i))"
proof (induction steps arbitrary: before)
  case (Cons step steps)
  then show ?case
    by (auto simp: less_Suc_eq_0_disj nth_Cons' take_Cons' All_less_Suc2)
qed simp


subsection \<open>Sessions\<close>

text \<open>
  What the executor relies on of sessions: until a commit, nothing that is done changes
  the committed data \<open>comm\<close>, and a commit that fails with a transient transaction error
  has committed nothing, which is what makes retrying safe. Nothing is assumed of commits
  that fail otherwise, whose outcome is unknown.
\<close>

definition keeps :: "('s \<Rightarrow> 'd) \<Rightarrow> ('s \<Rightarrow> 'a \<times> 's) \<Rightarrow> bool" where
  "keeps comm f \<longleftrightarrow> (\<forall>s. comm (snd (f s)) = comm s)"

definition session_law :: "'s session_driver \<Rightarrow> ('s \<Rightarrow> 'd) \<Rightarrow> bool" where
  "session_law X comm \<longleftrightarrow>
     keeps comm (x_start_session X) \<and> (\<forall>p. keeps comm (x_start_transaction X p)) \<and>
     (\<forall>db c q l. keeps comm (x_find X db c q l)) \<and> (\<forall>db c d. keeps comm (x_insert_one X db c d)) \<and>
     (\<forall>db c ds. keeps comm (x_insert_many X db c ds)) \<and>
     (\<forall>db c q u. keeps comm (x_update_one X db c q u)) \<and>
     (\<forall>db c q u. keeps comm (x_update_many X db c q u)) \<and>
     (\<forall>db c q. keeps comm (x_delete_one X db c q)) \<and> (\<forall>db c q. keeps comm (x_delete_many X db c q)) \<and>
     (\<forall>db c q u a. keeps comm (x_find_and_update X db c q u a)) \<and>
     (\<forall>db c p. keeps comm (x_aggregate X db c p)) \<and> keeps comm (x_abort X) \<and>
     (\<forall>s e s'. x_commit X s = (Inl e, s') \<and> transient e \<longrightarrow> comm s' = comm s)"

lemma sbind_keeps: "(\<And>a s. snd (f a s) = s) \<Longrightarrow> snd (sbind (asking r) f) = snd r"
  by (cases r; cases "fst r") (auto simp: asking_def sbind_def)

lemma execute_step_keeps:
  assumes "session_law X comm"
  shows "comm (snd (execute_step X J step op s)) = comm s"
proof -
  have p: "snd (case c of [] \<Rightarrow> (Inr JNull, s) | Inl e # x \<Rightarrow> (Inl (from_driver_error e), s)
      | Inr (Inl e) # x \<Rightarrow> (Inl (from_driver_error e), s) | Inr (Inr d) # x \<Rightarrow> (Inr (doc_to_json J d), s)) = s"
    for c :: session_cursor and s :: 'a
    by (simp split: list.split sum.split)
  show ?thesis
    using assms unfolding session_law_def keeps_def
    by (simp add: execute_step_def step_defs Let_def sbind_keeps p)
qed

definition results_of :: "step_def list \<Rightarrow> step_result list \<Rightarrow> bool" where
  "results_of steps rs \<longleftrightarrow> map res_name rs = map step_name steps \<and> list_all res_success rs"

text \<open>What the failure of a step reports, for the steps that were to run from index \<open>idx\<close> on.\<close>

definition failure_at :: "nat \<Rightarrow> step_result list \<Rightarrow> step_def list \<Rightarrow> pipeline_failure \<Rightarrow> bool" where
  "failure_at idx done steps f \<longleftrightarrow>
     rolled_back f \<and>
     (\<exists>i < length steps. failed_step f = step_name (steps ! i) \<and> step_index f = u32_of_len (idx + i) \<and>
        steps_completed f = map res_name done @ map step_name (take i steps))"

lemma failure_at_0: "failure_at idx done (step # steps) (step_failure step idx msg done)"
  by (auto simp: failure_at_def step_failure_def intro!: exI [of _ 0])

lemma failure_at_Suc:
  "failure_at (Suc idx) (done @ [\<lparr>res_name = step_name step, res_success = b, res_json = v\<rparr>]) steps f \<Longrightarrow>
   failure_at idx done (step # steps) f"
proof -
  assume "failure_at (Suc idx) (done @ [\<lparr>res_name = step_name step, res_success = b, res_json = v\<rparr>]) steps f"
  then obtain i where "rolled_back f" "i < length steps" "failed_step f = step_name (steps ! i)"
    "step_index f = u32_of_len (Suc idx + i)"
    "steps_completed f = map res_name done @ step_name step # map step_name (take i steps)"
    by (auto simp: failure_at_def)
  then show ?thesis
    unfolding failure_at_def by (intro conjI exI [of _ "Suc i"]) auto
qed

lemma run_steps_result:
  assumes "session_law X comm"
  shows "run_steps X J m start idx results done steps s = (r, s') \<Longrightarrow>
    comm s' = comm s \<and>
    (case r of
       Inr out \<Rightarrow> \<exists>new. out = done @ new \<and> results_of steps new
     | Inl f \<Rightarrow> failure_at idx done steps f)"
proof (induction steps arbitrary: idx results "done" s)
  case Nil
  then show ?case by (auto simp: results_of_def)
next
  case (Cons step steps)
  have ab: "comm (snd (x_abort X t)) = comm t" for t
    using assms by (simp add: session_law_def keeps_def)
  show ?case
  proof (cases "elapsed X start s > m")
    case True
    then show ?thesis
      using Cons.prems ab by (auto simp: abort_with_def failure_at_0)
  next
    case time: False
    show ?thesis
    proof (cases "resolve_references (to_text J) (operation_json step) results")
      case (Inl e)
      then show ?thesis
        using Cons.prems ab time by (auto simp: abort_with_def failure_at_0)
    next
      case op: (Inr op)
      obtain v t where ex: "execute_step X J step op s = (v, t)" by fastforce
      have ct: "comm t = comm s"
        using execute_step_keeps [OF assms, of J step op s] ex by simp
      show ?thesis
      proof (cases v)
        case (Inl e)
        then show ?thesis
          using Cons.prems ab time op ex ct by (auto simp: abort_with_def failure_at_0)
      next
        case (Inr w)
        then have "run_steps X J m start (Suc idx) (results(step_name step \<mapsto> w))
            (done @ [\<lparr>res_name = step_name step, res_success = True, res_json = w\<rparr>]) steps t = (r, s')"
          using Cons.prems time op ex by simp
        from Cons.IH [OF this] ct show ?thesis
          by (auto simp: results_of_def dest: failure_at_Suc split: sum.splits)
      qed
    qed
  qed
qed

lemma run_attempt_result:
  assumes "session_law X comm" and "run_attempt X J m start steps s = (a, s')"
  shows "case a of
      Retry \<Rightarrow> comm s' = comm s
    | Finished (Inr res) \<Rightarrow> results_of steps (exec_steps res) \<and> total_steps res = u32_of_len (length steps) \<and>
        steps_done res = total_steps res
    | Finished (Inl f) \<Rightarrow> comm s' = comm s \<or>
        (\<exists>msg done. f = commit_failure (length steps) msg done \<and> results_of steps done)"
proof -
  have c1: "comm (snd (x_start_session X t)) = comm t"
    and c2: "comm (snd (x_start_transaction X True t)) = comm t" for t
    using assms(1) by (simp_all add: session_law_def keeps_def)
  have c3: "x_commit X t = (Inl e, t') \<Longrightarrow> transient e \<Longrightarrow> comm t' = comm t" for t e t'
    using assms(1) by (auto simp: session_law_def)
  obtain r1 s1 where 1: "x_start_session X s = (r1, s1)" by fastforce
  obtain r2 s2 where 2: "x_start_transaction X True s1 = (r2, s2)" by fastforce
  obtain r3 s3 where 3: "run_steps X J m start 0 Map.empty [] steps s2 = (r3, s3)" by fastforce
  obtain r4 s4 where 4: "x_commit X s3 = (r4, s4)" by fastforce
  have k: "comm s1 = comm s" "comm s2 = comm s1" "comm s3 = comm s2"
    using c1 [of s] c2 [of s1] run_steps_result [OF assms(1) 3] 1 2 by auto
  have len: "results_of steps rs \<Longrightarrow> length rs = length steps" for rs
    unfolding results_of_def by (metis length_map)
  show ?thesis
    using assms(2) 1 2 3 4 k c3 [of s3] run_steps_result [OF assms(1) 3] len
    by (auto simp: run_attempt_def split: sum.splits if_splits)
qed

lemma run_attempts_result:
  assumes "session_law X comm"
  shows "run_attempts n X J m start steps s = (r, s') \<Longrightarrow>
    (case r of
      Inr res \<Rightarrow> results_of steps (exec_steps res) \<and> total_steps res = u32_of_len (length steps) \<and>
        steps_done res = total_steps res
    | Inl f \<Rightarrow> comm s' = comm s \<or>
        (\<exists>msg done. f = commit_failure (length steps) msg done \<and> results_of steps done))"
proof (induction n arbitrary: s)
  case (Suc n)
  obtain a t where a: "run_attempt X J m start steps s = (a, t)" by fastforce
  note att = run_attempt_result [OF assms a]
  show ?case
  proof (cases a)
    case (Finished x)
    then show ?thesis using Suc.prems a att by auto
  next
    case Retry
    then show ?thesis using Suc.prems a att Suc.IH [of t] by (auto split: sum.splits)
  qed
qed auto

subsection \<open>References at run time\<close>

text \<open>
  While steps run, the results bound are those of the steps done, so that for a step
  whose references name earlier steps only the path of a reference can be missing.
\<close>

lemma interpolate_error:
  "interpolate render results caps s = Inl e \<Longrightarrow> \<exists>c \<in> set caps. resolve_single_ref (trim c) results = Inl e"
  by (induction caps arbitrary: s) (auto simp: result_simps)

lemma resolve_value_error:
  "resolve_value render v results = Inl e \<Longrightarrow>
   \<exists>s \<in> strings_of v. \<exists>r \<in> set (string_refs s). resolve_single_ref r results = Inl e"
proof (induction v rule: json_induct)
  case (JString s)
  then show ?case
    using interpolate_error [of render results "captures s" s e]
    by (auto simp: resolve_string_def string_refs_def result_simps split: option.splits)
next
  case (JArray arr)
  then show ?case by (auto simp: result_simps dest!: collect_eq_Inl) blast
next
  case (JObject m)
  then obtain k w where w: "(k, w) \<in> set m" "resolve_value render w results = Inl e"
    by (auto simp: result_simps dest!: collect_eq_Inl)
  from JObject.IH [OF this] w(1) show ?case
    by (auto intro!: bexI [of _ "(k, w)"])
qed auto

text \<open>The references that resolution looks up are among those that validation has seen.\<close>

definition all_seen :: "step_def \<Rightarrow> bool" where
  "all_seen step \<longleftrightarrow>
     (\<forall>s \<in> strings_of (operation_json step). set (string_refs s) \<subseteq> set (extract_references (operation_json step)))"

definition no_self_reference :: "step_def \<Rightarrow> bool" where
  "no_self_reference step \<longleftrightarrow>
     (\<forall>r \<in> set (extract_references (operation_json step)). \<forall>path. parse_reference r \<noteq> Inr (step_name step, path))"

lemma resolve_error_is_path:
  assumes "step_ok before step" and "dom results = set before" and "all_seen step" and "no_self_reference step"
    and "resolve_references render (operation_json step) results = Inl e"
  shows "\<exists>r name path v. parse_reference r = Inr (name, path) \<and> results name = Some v \<and>
    traverse_path v path r = Inl e"
proof -
  from resolve_value_error [OF assms(5) [unfolded resolve_references_def]] obtain s r
    where s: "s \<in> strings_of (operation_json step)" "r \<in> set (string_refs s)"
      and e: "resolve_single_ref r results = Inl e"
    by blast
  then have r: "r \<in> set (extract_references (operation_json step))"
    using assms(3) by (auto simp: all_seen_def)
  then obtain name path where p: "parse_reference r = Inr (name, path)" "name \<in> set (step_name step # before)"
    using assms(1) by (auto simp: step_ok_def bound_def)
  moreover have "name \<noteq> step_name step"
    using assms(4) r p(1) by (auto simp: no_self_reference_def)
  ultimately obtain v where "results name = Some v"
    using assms(2) by auto
  with p e show ?thesis
    by (auto simp: resolve_single_ref_def split: if_splits)
qed

subsection \<open>A concrete session\<close>

text \<open>
  For the examples: a session whose state is the committed documents, the documents of
  the open transaction and the clock; inserting and finding work, the rest does nothing.
\<close>

record toy =
  committed :: "document list"
  working :: "document list"
  clock :: nat

definition toy_session :: "toy session_driver" where
  "toy_session =
     \<lparr>x_start_session = (\<lambda>s. (Inr (), s)),
      x_start_transaction = (\<lambda>p s. (Inr (), s\<lparr>working := committed s\<rparr>)),
      x_find = (\<lambda>db c q l s. (Inr (map (\<lambda>d. Inr (Inr d)) (working s)), s)),
      x_insert_one = (\<lambda>db c d s. (Inr (BInt32 7), s\<lparr>working := working s @ [d]\<rparr>)),
      x_insert_many = (\<lambda>db c ds s. (Inr (map (\<lambda>d. BNull) ds), s\<lparr>working := working s @ ds\<rparr>)),
      x_update_one = (\<lambda>db c q u s. (Inl \<lparr>err_kind = EWrite, err_message = ''conflict''\<rparr>, s)),
      x_update_many = (\<lambda>db c q u s. (Inl \<lparr>err_kind = EWrite, err_message = ''conflict''\<rparr>, s)),
      x_delete_one = (\<lambda>db c q s. (Inr 0, s)),
      x_delete_many = (\<lambda>db c q s. (Inr 0, s)),
      x_find_and_update = (\<lambda>db c q u a s. (Inr None, s)),
      x_aggregate = (\<lambda>db c p s. (Inr [], s)),
      x_commit = (\<lambda>s. (Inr (), s\<lparr>committed := working s\<rparr>)),
      x_abort = (\<lambda>s. (Inr (), s\<lparr>working := committed s\<rparr>)),
      x_now = clock\<rparr>"

definition toy_json :: json_lib where
  "toy_json =
     \<lparr>to_bson = (\<lambda>v. case v of JObject m \<Rightarrow> Inr (BDocument (map (\<lambda>(k, _). (k, BNull)) m)) | _ \<Rightarrow> Inr BNull),
      to_json = (\<lambda>b. case b of BInt32 n \<Rightarrow> Inr (JNumber (PosInt (ucast n))) | _ \<Rightarrow> Inr JNull),
      to_text = (\<lambda>_. [])\<rparr>"

definition toy_state :: toy where
  "toy_state = \<lparr>committed = [], working = [], clock = 0\<rparr>"

definition toy_step :: "string \<Rightarrow> string \<Rightarrow> json \<Rightarrow> step_def" where
  "toy_step name op v =
     \<lparr>step_name = name, step_db = ''d'', step_coll = ''c'', operation_type = op,
      operation_json = v, find_limit = None\<rparr>"

definition toy_second :: step_def where
  "toy_second = toy_step ''b'' ''update'' (JObject [(''filter'', JString ''{{a.inserted_id}}'')])"

definition toy_steps :: "step_def list" where
  "toy_steps =
     [toy_step ''a'' ''insert'' (JObject [(''document'', JObject [(''x'', JNull)])]), toy_second]"

lemma toy_session_law: "session_law toy_session committed"
  by (simp add: session_law_def keeps_def toy_session_def)

subsection \<open>Properties\<close>

text \<open>
  C25. Validation accepts exactly the sound pipelines: between one and fifty steps, each
  with a valid, new name, a database and a collection, no transaction control, no limit
  above the cap, and every reference in it well formed and naming the step itself or an
  earlier one. In particular names are distinct and no reference points forward.
\<close>

theorem validation_exact:
  "(validate_pipeline steps = Inr () \<longleftrightarrow>
     steps \<noteq> [] \<and> length steps \<le> 50 \<and>
     (\<forall>i < length steps. step_ok (rev (map step_name (take i steps))) (steps ! i))) \<and>
   (validate_pipeline steps = Inr () \<longrightarrow> distinct (map step_name steps))"
  using validate_pipeline_Inr [of steps "()"] steps_ok_nth [of "[]" steps] steps_ok_names [of "[]" steps]
  by (auto simp: MAX_STEPS_def)

theorem validation_exact_witness:
  "validate_pipeline toy_steps = Inr () \<and> distinct (map step_name toy_steps)"
proof -
  have "validate_pipeline toy_steps = Inr ()"
    by (simp add: validate_pipeline_def toy_steps_def toy_second_def toy_step_def MAX_STEPS_def check_step_def
        is_ascii_alpha_def forbidden_ops_def extract_references_def match_here_def trim_def is_ws_def
        parse_reference_def until_stop_def is_stop_def parse_segments.simps Let_def)
  then show ?thesis using validation_exact [of toy_steps] by simp
qed


lemma toy_fails:
  "fst (execute_transaction_pipeline toy_session toy_json
     [toy_step ''a'' ''update'' JNull] default_txn_options toy_state) =
   Inl (step_failure (toy_step ''a'' ''update'' JNull) 0 ''Operation error: conflict'' [])"
  by (simp add: execute_transaction_pipeline_def validate_pipeline_def toy_step_def MAX_STEPS_def
      check_step_def is_ascii_alpha_def forbidden_ops_def extract_references_def MAX_RETRIES_def
      run_attempt_def toy_session_def toy_state_def elapsed_def default_txn_options_def
      resolve_references_def execute_step_def step_update_def asking_def from_driver_error_def
      abort_with_def numeral_3_eq_3)


text \<open>
  References of a validated pipeline are found. Let a step of a validated pipeline be
  reached with results for the steps before it. If resolving its operation fails, the
  step that the reference names does have a result, and what is missing is the path;
  provided the step does not refer to itself and has no braces that validation overlooks.
\<close>

theorem validated_references_found:
  assumes "validate_pipeline steps = Inr ()" and "i < length steps"
    and "dom results = step_name ` set (take i steps)"
    and "all_seen (steps ! i)" and "no_self_reference (steps ! i)"
    and "resolve_references render (operation_json (steps ! i)) results = Inl e"
  shows "\<exists>r name path v. parse_reference r = Inr (name, path) \<and> results name = Some v \<and>
    traverse_path v path r = Inl e"
proof -
  have "step_ok (rev (map step_name (take i steps))) (steps ! i)"
    using assms(1,2) validate_pipeline_Inr [of steps "()"] steps_ok_nth [of "[]" steps] by auto
  then show ?thesis
    using assms(3-6) by (intro resolve_error_is_path) auto
qed

lemma toy_steps_valid: "validate_pipeline toy_steps = Inr ()"
  by (simp add: validate_pipeline_def toy_steps_def toy_second_def toy_step_def MAX_STEPS_def check_step_def
      is_ascii_alpha_def forbidden_ops_def extract_references_def match_here_def trim_def is_ws_def
      parse_reference_def until_stop_def is_stop_def parse_segments.simps Let_def)

lemma toy_reference:
  "extract_references (operation_json toy_second) = [''a.inserted_id'']"
  "string_refs ''{{a.inserted_id}}'' = [''a.inserted_id'']"
  "parse_reference ''a.inserted_id'' = Inr (''a'', [SegField ''inserted_id''])"
  "strings_of (operation_json toy_second) = {''{{a.inserted_id}}''}"
  by (simp_all add: toy_second_def toy_step_def extract_references_def match_here_def trim_def is_ws_def
      string_refs_def whole_ref_def suffix_def str_contains_def parse_reference_def until_stop_def
      is_stop_def parse_segments.simps Let_def)

lemma toy_unresolved:
  "\<exists>e. resolve_references (\<lambda>_. []) (operation_json toy_second) [''a'' \<mapsto> JNull] = Inl e"
proof -
  have "\<not> resolvable [''a'' \<mapsto> JNull] ''a.inserted_id''"
    by (simp add: resolvable_def resolve_single_ref_def toy_reference)
  then have "\<nexists>v. resolve_references (\<lambda>_. []) (operation_json toy_second) [''a'' \<mapsto> JNull] = Inr v"
    using resolve_value_iff [of "\<lambda>_. []" "operation_json toy_second" "[''a'' \<mapsto> JNull]"]
    by (simp add: resolve_references_def toy_reference)
  then show ?thesis
    by (cases "resolve_references (\<lambda>_. []) (operation_json toy_second) [''a'' \<mapsto> JNull]") auto
qed

theorem validated_references_found_witness:
  "\<exists>r name path v. parse_reference r = Inr (name, path) \<and> [''a'' \<mapsto> JNull] name = Some v \<and>
     (\<exists>e. traverse_path v path r = Inl e)"
proof -
  have nth: "toy_steps ! Suc 0 = toy_second" "Suc 0 < length toy_steps"
    "dom [''a'' \<mapsto> JNull] = step_name ` set (take (Suc 0) toy_steps)"
    by (simp_all add: toy_steps_def toy_step_def)
  have "all_seen toy_second" "no_self_reference toy_second"
    by (simp_all add: all_seen_def no_self_reference_def toy_reference)
      (simp add: toy_second_def toy_step_def)
  moreover obtain e where "resolve_references (\<lambda>_. []) (operation_json toy_second) [''a'' \<mapsto> JNull] = Inl e"
    using toy_unresolved by blast
  ultimately show ?thesis
    using validated_references_found [OF toy_steps_valid nth(2,3), unfolded nth(1)] by blast
qed

text \<open>
  A step that refers to itself passes validation and can never run: its name is
  counted as seen before its references are looked at, and it has no result when they
  are resolved.
\<close>

theorem self_reference_accepted:
  assumes "elapsed X start s \<le> m"
  shows "validate_pipeline [toy_step ''a'' ''insert'' (JString ''{{a}}'')] = Inr () \<and>
    fst (run_steps X J m start 0 Map.empty [] [toy_step ''a'' ''insert'' (JString ''{{a}}'')] s) =
      Inl (step_failure (toy_step ''a'' ''insert'' (JString ''{{a}}'')) 0
        (''Reference resolution failed: Transaction pipeline error: Step '' @ quote ''a'' @ '' not found in results'') [])"
  using assms
  by (simp add: validate_pipeline_def toy_step_def MAX_STEPS_def check_step_def not_less
      is_ascii_alpha_def forbidden_ops_def extract_references_def match_here_def trim_def is_ws_def
      parse_reference_def until_stop_def is_stop_def Let_def resolve_references_def resolve_string_def
      whole_ref_def suffix_def str_contains_def resolve_single_ref_def abort_with_def)

theorem self_reference_accepted_witness:
  "validate_pipeline [toy_step ''a'' ''insert'' (JString ''{{a}}'')] = Inr ()"
  using self_reference_accepted [of toy_session 0 toy_state 30000 toy_json]
  by (simp add: elapsed_def toy_session_def toy_state_def)

end
