(* ===== verification/Tenant.thy ===== *)
theory Tenant
  imports Mongo_Prelude
begin

text \<open>
  Multi-tenancy, \<open>src/tenant/\<close>: the tenant of a request (\<open>context.rs\<close>), the registry of
  configurations (\<open>registry.rs\<close>), the cache partitioned by tenant with a capacity each
  (\<open>isolation.rs\<close>) and the rate limiters (\<open>quota.rs\<close>). A concurrent map is a partial
  function; the time is in nanoseconds. The contract the three stores share is the locale
  \<open>tenant_isolation\<close>: what a tenant sees of a store, and what its operations answer, depend
  on its own operations only.
\<close>

subsection \<open>Tenant context\<close>

record tenant_context =
  tenant_id :: "string option"

definition TENANT_HEADER :: string where "TENANT_HEADER = ''x-tenant-id''"

definition default_tenant :: tenant_context where
  "default_tenant = \<lparr>tenant_id = None\<rparr>"

text \<open>A header map gives the bytes of a header; \<open>to_str\<close> accepts visible ASCII and tabs.\<close>

definition visible :: "u8 \<Rightarrow> bool" where
  "visible b \<longleftrightarrow> 32 \<le> b \<and> b < 127 \<or> b = 9"

definition header_str :: "bytes \<Rightarrow> string option" where
  "header_str bs = (if list_all visible bs then Some (map (\<lambda>b. char_of (unat b)) bs) else None)"

definition from_headers :: "(string \<Rightarrow> bytes option) \<Rightarrow> tenant_context" where
  "from_headers headers = \<lparr>tenant_id = Option.bind (headers TENANT_HEADER) header_str\<rparr>"

subsection \<open>Registry\<close>

record tenant_config =
  cfg_tenant_id :: string
  max_connections :: nat
  max_cache_entries :: nat
  rate_limit_ops_per_sec :: u64
  connection_uri_override :: "string option"

type_synonym tenant_registry = "string \<Rightarrow> tenant_config option"

definition registry_new :: tenant_registry where "registry_new = Map.empty"

definition registry_register :: "tenant_config \<Rightarrow> tenant_registry \<Rightarrow> tenant_registry" where
  "registry_register config r = r(cfg_tenant_id config \<mapsto> config)"

definition registry_get :: "string \<Rightarrow> tenant_registry \<Rightarrow> tenant_config option" where
  "registry_get t r = r t"

definition registry_remove :: "string \<Rightarrow> tenant_registry \<Rightarrow> tenant_registry" where
  "registry_remove t r = r(t := None)"

definition registry_list :: "tenant_registry \<Rightarrow> string set" where
  "registry_list r = dom r"

subsection \<open>Partitioned cache\<close>

type_synonym cache_key = "string \<times> string"

definition tenant_cache_key :: "string option \<Rightarrow> string \<Rightarrow> cache_key" where
  "tenant_cache_key t key = ((case t of None \<Rightarrow> ''__default__'' | Some t \<Rightarrow> t), key)"

record partitioned_cache =
  max_per_tenant :: nat
  entries :: "cache_key \<Rightarrow> string option"
  counts :: "string \<Rightarrow> nat option"

definition cache_new :: "nat \<Rightarrow> partitioned_cache" where
  "cache_new n = \<lparr>max_per_tenant = n, entries = Map.empty, counts = Map.empty\<rparr>"

text \<open>
  An insertion looks and then writes: the two halves are separate accesses to the shared
  maps, and another thread may come between them.
\<close>

datatype insert_plan = Overwrite | Reject | Fresh

definition cache_look :: "string \<Rightarrow> string \<Rightarrow> partitioned_cache \<Rightarrow> insert_plan" where
  "cache_look t key c =
     (if entries c (tenant_cache_key (Some t) key) \<noteq> None then Overwrite
      else
        (let current_count = (case counts c t of None \<Rightarrow> 0 | Some n \<Rightarrow> n) in
         if max_per_tenant c \<le> current_count then Reject else Fresh))"

definition cache_write :: "insert_plan \<Rightarrow> string \<Rightarrow> string \<Rightarrow> string \<Rightarrow> partitioned_cache \<Rightarrow> bool \<times> partitioned_cache" where
  "cache_write plan t key value c =
     (case plan of
        Overwrite \<Rightarrow> (True, c\<lparr>entries := (entries c)(tenant_cache_key (Some t) key \<mapsto> value)\<rparr>)
      | Reject \<Rightarrow> (False, c)
      | Fresh \<Rightarrow>
          (True, c\<lparr>entries := (entries c)(tenant_cache_key (Some t) key \<mapsto> value),
                  counts := (counts c)(t \<mapsto> (case counts c t of None \<Rightarrow> 1 | Some n \<Rightarrow> n + 1))\<rparr>))"

definition cache_insert :: "string \<Rightarrow> string \<Rightarrow> string \<Rightarrow> partitioned_cache \<Rightarrow> bool \<times> partitioned_cache" where
  "cache_insert t key value c = cache_write (cache_look t key c) t key value c"

definition cache_get :: "string \<Rightarrow> string \<Rightarrow> partitioned_cache \<Rightarrow> string option" where
  "cache_get t key c = entries c (tenant_cache_key (Some t) key)"

definition remove_tenant :: "string \<Rightarrow> partitioned_cache \<Rightarrow> partitioned_cache" where
  "remove_tenant t c =
     c\<lparr>entries := (\<lambda>k. if fst k \<noteq> t then entries c k else None), counts := (counts c)(t := None)\<rparr>"

subsection \<open>Rate limiters\<close>

record rate_limiter =
  max_per_second :: u64
  window_count :: u64
  window_start :: nat

definition limiter_new :: "u64 \<Rightarrow> nat \<Rightarrow> rate_limiter" where
  "limiter_new m now = \<lparr>max_per_second = m, window_count = 0, window_start = now\<rparr>"

definition NANOS :: nat where "NANOS = 1000000000"

definition try_acquire :: "nat \<Rightarrow> rate_limiter \<Rightarrow> bool \<times> rate_limiter" where
  "try_acquire now l =
     (let l = (if (now - window_start l) div NANOS \<ge> 1
               then l\<lparr>window_count := 0, window_start := now\<rparr> else l);
          current = window_count l;
          l = l\<lparr>window_count := current + 1\<rparr> in
      if max_per_second l \<le> current then (False, l\<lparr>window_count := window_count l - 1\<rparr>)
      else (True, l))"

type_synonym quota_manager = "string \<Rightarrow> rate_limiter option"

definition quota_set_limit :: "string \<Rightarrow> u64 \<Rightarrow> nat \<Rightarrow> quota_manager \<Rightarrow> quota_manager" where
  "quota_set_limit t m now q = q(t \<mapsto> limiter_new m now)"

definition quota_try_acquire :: "string \<Rightarrow> nat \<Rightarrow> quota_manager \<Rightarrow> bool \<times> quota_manager" where
  "quota_try_acquire t now q =
     (case q t of
        Some limiter \<Rightarrow> (case try_acquire now limiter of (ok, l) \<Rightarrow> (ok, q(t \<mapsto> l)))
      | None \<Rightarrow> (True, q))"

definition quota_remove :: "string \<Rightarrow> quota_manager \<Rightarrow> quota_manager" where
  "quota_remove t q = q(t := None)"

subsection \<open>Isolation of tenants\<close>

locale tenant_isolation =
  fixes step :: "'op \<Rightarrow> 's \<Rightarrow> 'o \<times> 's"
    and actor :: "'op \<Rightarrow> 't"
    and view :: "'t \<Rightarrow> 's \<Rightarrow> 'v"
  assumes others: "actor x \<noteq> t \<Longrightarrow> view t (snd (step x s)) = view t s"
    and own: "view (actor x) s = view (actor x) s' \<Longrightarrow>
      fst (step x s) = fst (step x s') \<and>
      view (actor x) (snd (step x s)) = view (actor x) (snd (step x s'))"
begin

text \<open>The answers that the operations of one tenant get in a run, and its view at the end.\<close>

fun answers_of :: "'t \<Rightarrow> 'op list \<Rightarrow> 's \<Rightarrow> 'o list \<times> 's" where
  "answers_of t [] s = ([], s)"
| "answers_of t (x # xs) s =
     (case step x s of
        (r, s') \<Rightarrow> (case answers_of t xs s' of (rs, s'') \<Rightarrow> ((if actor x = t then [r] else []) @ rs, s'')))"

lemma noninterference:
  "view t s = view t s' \<Longrightarrow>
   fst (answers_of t xs s) = fst (answers_of t (filter (\<lambda>x. actor x = t) xs) s') \<and>
   view t (snd (answers_of t xs s)) = view t (snd (answers_of t (filter (\<lambda>x. actor x = t) xs) s'))"
proof (induction xs arbitrary: s s')
  case (Cons x xs)
  show ?case
  proof (cases "actor x = t")
    case True
    then have "fst (step x s) = fst (step x s')" "view t (snd (step x s)) = view t (snd (step x s'))"
      using own [of x s s'] Cons.prems by auto
    with Cons.IH [of "snd (step x s)" "snd (step x s')"] True show ?thesis
      by (simp add: case_prod_beta)
  next
    case False
    with Cons.IH [of "snd (step x s)" s'] Cons.prems others [of x t s] show ?thesis
      by (simp add: case_prod_beta)
  qed
qed simp

end

datatype cache_op = CacheInsert string string string | CacheGet string string | CacheRemove string

datatype cache_answer = Inserted bool | Found "string option" | Removed

fun cache_step :: "cache_op \<Rightarrow> partitioned_cache \<Rightarrow> cache_answer \<times> partitioned_cache" where
  "cache_step (CacheInsert t k v) c = (case cache_insert t k v c of (ok, c') \<Rightarrow> (Inserted ok, c'))"
| "cache_step (CacheGet t k) c = (Found (cache_get t k c), c)"
| "cache_step (CacheRemove t) c = (Removed, remove_tenant t c)"

fun cache_actor :: "cache_op \<Rightarrow> string" where
  "cache_actor (CacheInsert t k v) = t"
| "cache_actor (CacheGet t k) = t"
| "cache_actor (CacheRemove t) = t"

definition cache_view :: "string \<Rightarrow> partitioned_cache \<Rightarrow> nat \<times> (string \<Rightarrow> string option) \<times> nat option" where
  "cache_view t c = (max_per_tenant c, (\<lambda>k. entries c (t, k)), counts c t)"

lemma cache_view_eq:
  "cache_view t c = cache_view t c' \<longleftrightarrow>
     max_per_tenant c = max_per_tenant c' \<and> (\<forall>k. entries c (t, k) = entries c' (t, k)) \<and> counts c t = counts c' t"
  by (auto simp: cache_view_def fun_eq_iff)

lemmas cache_defs = cache_insert_def cache_look_def cache_write_def tenant_cache_key_def

interpretation cache_iso: tenant_isolation cache_step cache_actor cache_view
proof
  show "cache_view t (snd (cache_step x s)) = cache_view t s" if "cache_actor x \<noteq> t" for x t s
    using that
    by (cases x) (auto simp: cache_defs remove_tenant_def cache_view_eq Let_def split: insert_plan.split)
  show "fst (cache_step x s) = fst (cache_step x s') \<and>
      cache_view (cache_actor x) (snd (cache_step x s)) = cache_view (cache_actor x) (snd (cache_step x s'))"
    if "cache_view (cache_actor x) s = cache_view (cache_actor x) s'" for x s s'
    using that
    by (cases x) (auto simp: cache_defs remove_tenant_def cache_view_eq cache_get_def Let_def split: insert_plan.split)
qed

datatype quota_op = SetLimit string u64 nat | Acquire string nat | RemoveLimit string

fun quota_step :: "quota_op \<Rightarrow> quota_manager \<Rightarrow> bool \<times> quota_manager" where
  "quota_step (SetLimit t m now) q = (True, quota_set_limit t m now q)"
| "quota_step (Acquire t now) q = quota_try_acquire t now q"
| "quota_step (RemoveLimit t) q = (True, quota_remove t q)"

fun quota_actor :: "quota_op \<Rightarrow> string" where
  "quota_actor (SetLimit t m now) = t"
| "quota_actor (Acquire t now) = t"
| "quota_actor (RemoveLimit t) = t"

interpretation quota_iso: tenant_isolation quota_step quota_actor "\<lambda>t q. q t"
proof
  show "snd (quota_step x q) t = q t" if "quota_actor x \<noteq> t" for x t q
    using that
    by (cases x) (auto simp: quota_set_limit_def quota_try_acquire_def quota_remove_def split: option.split prod.split)
  show "fst (quota_step x q) = fst (quota_step x q') \<and> snd (quota_step x q) (quota_actor x) = snd (quota_step x q') (quota_actor x)"
    if "q (quota_actor x) = q' (quota_actor x)" for x q q'
    using that
    by (cases x) (auto simp: quota_set_limit_def quota_try_acquire_def quota_remove_def split: option.split prod.split)
qed


datatype registry_op = Register tenant_config | Lookup string | Unregister string

fun registry_step :: "registry_op \<Rightarrow> tenant_registry \<Rightarrow> tenant_config option \<times> tenant_registry" where
  "registry_step (Register c) r = (None, registry_register c r)"
| "registry_step (Lookup t) r = (registry_get t r, r)"
| "registry_step (Unregister t) r = (None, registry_remove t r)"

fun registry_actor :: "registry_op \<Rightarrow> string" where
  "registry_actor (Register c) = cfg_tenant_id c"
| "registry_actor (Lookup t) = t"
| "registry_actor (Unregister t) = t"

lemmas registry_defs = registry_register_def registry_get_def registry_remove_def

interpretation registry_iso: tenant_isolation registry_step registry_actor "\<lambda>t r. r t"
proof
  show "snd (registry_step x r) t = r t" if "registry_actor x \<noteq> t" for x t r
    using that by (cases x) (auto simp: registry_defs)
  show "fst (registry_step x r) = fst (registry_step x r') \<and>
      snd (registry_step x r) (registry_actor x) = snd (registry_step x r') (registry_actor x)"
    if "r (registry_actor x) = r' (registry_actor x)" for x r r'
    using that by (cases x) (auto simp: registry_defs)
qed

subsection \<open>Capacity of the cache\<close>

definition held :: "partitioned_cache \<Rightarrow> string \<Rightarrow> string set" where
  "held c t = {k. entries c (t, k) \<noteq> None}"

definition counted :: "partitioned_cache \<Rightarrow> string \<Rightarrow> nat" where
  "counted c t = (case counts c t of None \<Rightarrow> 0 | Some n \<Rightarrow> n)"

definition cache_ok :: "partitioned_cache \<Rightarrow> bool" where
  "cache_ok c \<longleftrightarrow>
     (\<forall>t. finite (held c t) \<and> card (held c t) = counted c t \<and> counted c t \<le> max_per_tenant c)"

lemma cache_ok_new: "cache_ok (cache_new n)"
  by (simp add: cache_ok_def cache_new_def held_def counted_def)

lemma held_write:
  "held (c\<lparr>entries := (entries c)((t, k) \<mapsto> v), counts := x\<rparr>) t' = (if t' = t then insert k (held c t) else held c t')"
  "held (c\<lparr>entries := (entries c)((t, k) \<mapsto> v)\<rparr>) t' = (if t' = t then insert k (held c t) else held c t')"
  by (auto simp: held_def)

lemma cache_ok_insert: "cache_ok c \<Longrightarrow> cache_ok (snd (cache_insert t k v c))"
proof -
  assume ok: "cache_ok c"
  show ?thesis
  proof (cases "entries c (t, k) = None")
    case False
    then have "insert k (held c t) = held c t" by (auto simp: held_def)
    moreover have "cache_insert t k v c = (True, c\<lparr>entries := (entries c)((t, k) \<mapsto> v)\<rparr>)"
      using False by (auto simp: cache_defs)
    ultimately show ?thesis
      using ok by (simp add: cache_ok_def held_write counted_def)
  next
    case None: True
    then have new: "k \<notin> held c t" by (simp add: held_def)
    show ?thesis
    proof (cases "max_per_tenant c \<le> counted c t")
      case True
      then have "cache_insert t k v c = (False, c)"
        using None by (simp add: cache_defs counted_def)
      with ok show ?thesis by simp
    next
      case False
      then have "cache_insert t k v c =
          (True, c\<lparr>entries := (entries c)((t, k) \<mapsto> v), counts := (counts c)(t \<mapsto> Suc (counted c t))\<rparr>)"
        using None by (simp add: cache_defs counted_def split: option.split)
      then show ?thesis
        using ok False new by (auto simp: cache_ok_def held_write counted_def)
    qed
  qed
qed

lemma cache_ok_remove: "cache_ok c \<Longrightarrow> cache_ok (remove_tenant t c)"
proof -
  have "held (remove_tenant t c) t' = (if t' = t then {} else held c t')" for t'
    by (auto simp: held_def remove_tenant_def)
  moreover assume "cache_ok c"
  ultimately show ?thesis by (simp add: cache_ok_def counted_def) (simp add: remove_tenant_def)
qed

lemma cache_ok_step: "cache_ok c \<Longrightarrow> cache_ok (snd (cache_step x c))"
  using cache_ok_insert cache_ok_remove by (cases x) (auto simp: case_prod_beta)

fun cache_run :: "cache_op list \<Rightarrow> partitioned_cache \<Rightarrow> partitioned_cache" where
  "cache_run [] c = c"
| "cache_run (x # xs) c = cache_run xs (snd (cache_step x c))"

lemma cache_ok_run: "cache_ok c \<Longrightarrow> cache_ok (cache_run xs c)"
  by (induction xs arbitrary: c) (auto intro: cache_ok_step)

lemma cache_step_max: "max_per_tenant (snd (cache_step x c)) = max_per_tenant c"
  by (cases x) (auto simp: cache_defs remove_tenant_def Let_def split: insert_plan.split)

lemma cache_run_max: "max_per_tenant (cache_run xs c) = max_per_tenant c"
  by (induction xs arbitrary: c) (simp_all add: cache_step_max)

subsection \<open>Rate limits\<close>

definition in_window :: "rate_limiter \<Rightarrow> nat \<Rightarrow> bool" where
  "in_window l now \<longleftrightarrow> now - window_start l < NANOS"

lemma try_acquire_window:
  "in_window l now \<Longrightarrow>
   try_acquire now l =
     (if window_count l < max_per_second l then (True, l\<lparr>window_count := window_count l + 1\<rparr>) else (False, l))"
proof -
  assume "in_window l now"
  then have "(now - window_start l) div NANOS = 0" by (simp add: in_window_def)
  then show ?thesis by (simp add: try_acquire_def Let_def not_less)
qed

fun acquire_run :: "nat list \<Rightarrow> rate_limiter \<Rightarrow> bool list \<times> rate_limiter" where
  "acquire_run [] l = ([], l)"
| "acquire_run (now # nows) l =
     (case try_acquire now l of (ok, l1) \<Rightarrow> (case acquire_run nows l1 of (oks, l2) \<Rightarrow> (ok # oks, l2)))"

abbreviation granted :: "bool list \<Rightarrow> nat" where
  "granted oks \<equiv> length (filter (\<lambda>ok. ok) oks)"

lemma unat_incr: "(x :: u64) < y \<Longrightarrow> unat (x + 1) = Suc (unat x)"
proof -
  assume h: "x < y"
  have "unat x + unat (1 :: u64) < 2 ^ LENGTH(64)"
    using h unsigned_less [of y, where 'a = nat] by (simp add: word_less_nat_alt)
  then have "unat (x + 1) = unat x + unat (1 :: u64)"
    by (simp only: unat_add_lem)
  then show ?thesis by simp
qed

lemma acquire_run_window:
  "\<forall>now \<in> set nows. in_window l now \<Longrightarrow> window_count l \<le> max_per_second l \<Longrightarrow>
   granted (fst (acquire_run nows l)) = min (length nows) (unat (max_per_second l) - unat (window_count l))"
proof (induction nows arbitrary: l)
  case (Cons now nows)
  show ?case
  proof (cases "window_count l < max_per_second l")
    case False
    then have eq: "window_count l = max_per_second l" using Cons.prems(2) by simp
    moreover have "granted (fst (acquire_run nows l)) = min (length nows) (unat (max_per_second l) - unat (window_count l))"
      using Cons.prems by (intro Cons.IH) auto
    ultimately show ?thesis
      using Cons.prems False by (simp add: try_acquire_window case_prod_beta)
  next
    case True
    let ?l = "l\<lparr>window_count := window_count l + 1\<rparr>"
    have u: "unat (window_count l + 1) = Suc (unat (window_count l))"
      using True by (rule unat_incr)
    then have "window_count ?l \<le> max_per_second ?l"
      using True by (simp add: word_le_nat_alt word_less_nat_alt)
    moreover have "\<forall>now \<in> set nows. in_window ?l now"
      using Cons.prems by (simp add: in_window_def)
    ultimately have "granted (fst (acquire_run nows ?l)) = min (length nows) (unat (max_per_second ?l) - unat (window_count ?l))"
      by (rule Cons.IH [rotated])
    then show ?thesis
      using Cons.prems True u
      by (simp add: try_acquire_window case_prod_beta word_less_nat_alt)
  qed
qed simp

subsection \<open>Properties\<close>

text \<open>
  C27. Tenants do not interfere. In any interleaving of cache operations, and of rate
  limiter operations, of several tenants, the answers one tenant gets, and what it sees
  of the store at the end, are those of a run of its own operations alone.
\<close>

theorem tenants_isolated:
  "fst (cache_iso.answers_of t xs c) =
     fst (cache_iso.answers_of t (filter (\<lambda>x. cache_actor x = t) xs) c) \<and>
   cache_view t (snd (cache_iso.answers_of t xs c)) =
     cache_view t (snd (cache_iso.answers_of t (filter (\<lambda>x. cache_actor x = t) xs) c)) \<and>
   fst (quota_iso.answers_of t ys q) =
     fst (quota_iso.answers_of t (filter (\<lambda>x. quota_actor x = t) ys) q)"
  using cache_iso.noninterference [of t c c xs] quota_iso.noninterference [of q t q ys] by auto

text \<open>
  Capacity of the partitioned cache. After any sequence of operations on a new
  cache, the count of each tenant is the number of its entries and within the capacity.
\<close>

theorem cache_capacity:
  "card (held (cache_run xs (cache_new n)) t) = counted (cache_run xs (cache_new n)) t \<and>
   counted (cache_run xs (cache_new n)) t \<le> n"
  using cache_ok_run [OF cache_ok_new, of xs n] cache_run_max [of xs "cache_new n"]
  by (simp add: cache_ok_def) (simp add: cache_new_def)

text \<open>
  The capacity is not kept between threads. Looking and writing are separate: when
  two insertions of one tenant look before either writes, both are accepted although the
  capacity is one, and the count exceeds it.
\<close>

theorem concurrent_inserts_overshoot:
  "let c = cache_new 1;
       plan1 = cache_look ''t'' ''k1'' c; plan2 = cache_look ''t'' ''k2'' c;
       (ok1, c1) = cache_write plan1 ''t'' ''k1'' ''v'' c;
       (ok2, c2) = cache_write plan2 ''t'' ''k2'' ''v'' c1
   in ok1 \<and> ok2 \<and> counted c2 ''t'' = 2 \<and> max_per_tenant c2 = 1"
  by (simp add: cache_new_def cache_look_def cache_write_def tenant_cache_key_def counted_def)

text \<open>
  C32. Rate limit inside a window. Of any number of attempts within the current window of
  a limiter, exactly as many are granted as the limit leaves, and the others refused.
\<close>

theorem rate_limit_window:
  assumes "\<forall>now \<in> set nows. in_window l now" and "window_count l \<le> max_per_second l"
  shows "granted (fst (acquire_run nows l)) =
    min (length nows) (unat (max_per_second l) - unat (window_count l))"
  using assms by (rule acquire_run_window)

theorem rate_limit_window_witness:
  "granted (fst (acquire_run [5, 5, 7] (limiter_new 2 0))) = 2"
  using rate_limit_window [of "[5, 5, 7]" "limiter_new 2 0"]
  by (simp add: in_window_def limiter_new_def NANOS_def)

text \<open>
  The window does not slide. Windows follow each other from the first attempt after a
  second, so that twice the limit can be granted within a tenth of a second around the
  boundary of two windows.
\<close>

theorem window_is_fixed:
  "fst (acquire_run [950000000, 950000000, 1000000000, 1000000000] (limiter_new 2 0)) =
     [True, True, True, True]"
  by (simp add: try_acquire_def limiter_new_def NANOS_def Let_def word_le_nat_alt)

end
