(* ===== verification/Mql_Validator.thy ===== *)
theory Mql_Validator
  imports Mongo_Values
begin

text \<open>
  Checking and decoding of generated queries: \<open>src/compiled/validator.rs\<close>, the types of
  \<open>src/compiled/mod.rs\<close>, and of \<open>src/compiled/translator.rs\<close> the parsing of a language
  model's answer and its validation. \<open>query_lib\<close> holds what the code takes from the JSON
  and BSON libraries: reading JSON text, turning a JSON value into a BSON document, and
  reading a template from JSON.
\<close>

subsection \<open>Validator\<close>

definition ALLOWED_STAGES :: "string list" where
  "ALLOWED_STAGES =
     [''$match'', ''$project'', ''$sort'', ''$limit'', ''$skip'', ''$group'', ''$lookup'', ''$unwind'',
      ''$vectorSearch'', ''$search'', ''$count'', ''$addFields'', ''$set'']"

definition BLOCKED_STAGES :: "string list" where
  "BLOCKED_STAGES =
     [''$out'', ''$merge'', ''$collStats'', ''$currentOp'', ''$listSessions'', ''$planCacheStats'']"

definition DANGEROUS_OPERATORS :: "string list" where
  "DANGEROUS_OPERATORS = [''$where'', ''$function'', ''$accumulator'']"

text \<open>A loop whose body may return an error: the first one ends it.\<close>

fun each :: "('a \<Rightarrow> 'e + unit) \<Rightarrow> 'a list \<Rightarrow> 'e + unit" where
  "each f [] = Inr ()"
| "each f (x # xs) = rbind (f x) (\<lambda>_. each f xs)"

lemma each_cong [fundef_cong]:
  "xs = ys \<Longrightarrow> (\<And>x. x \<in> set xs \<Longrightarrow> f x = g x) \<Longrightarrow> each f xs = each g ys"
  by (induction xs arbitrary: ys) auto

lemma each_Inr: "each f xs = Inr u \<longleftrightarrow> (\<forall>x \<in> set xs. f x = Inr ())"
proof (induction xs)
  case (Cons x xs)
  then show ?case by (cases "f x") auto
qed simp

text \<open>
  \<open>check_value\<close> looks into a document; \<open>check_dangerous_operators\<close> is it at a document. In
  an array only the items that are documents are looked into.
\<close>

fun check_value :: "bson \<Rightarrow> string + unit" where
  "check_value (BDocument doc) =
     each (\<lambda>kv.
       if fst kv \<in> set DANGEROUS_OPERATORS
       then Inl ([CHR 0x27] @ fst kv @ [CHR 0x27] @ '' operator is not allowed (code execution risk)'')
       else
         (case snd kv of
            BDocument nested \<Rightarrow> check_value (snd kv)
          | BArray arr \<Rightarrow> each (\<lambda>item. if as_document item \<noteq> None then check_value item else Inr ()) arr
          | _ \<Rightarrow> Inr ())) doc"
| "check_value _ = Inr ()"

definition check_dangerous_operators :: "document \<Rightarrow> string + unit" where
  "check_dangerous_operators doc = check_value (BDocument doc)"

definition validate_filter :: "document \<Rightarrow> string + unit" where
  "validate_filter flt = check_dangerous_operators flt"

definition check_stage :: "nat \<Rightarrow> document \<Rightarrow> string + unit" where
  "check_stage i stage =
     (case doc_keys stage of
        [] \<Rightarrow> Inl (''Stage '' @ show_nat i @ '' is empty'')
      | stage_name # _ \<Rightarrow>
          if stage_name \<in> set BLOCKED_STAGES then
            Inl (''Blocked stage '' @ [CHR 0x27] @ stage_name @ [CHR 0x27] @ '' at position '' @ show_nat i)
          else if stage_name \<notin> set ALLOWED_STAGES then
            Inl (''Unknown stage '' @ [CHR 0x27] @ stage_name @ [CHR 0x27] @ '' at position '' @ show_nat i @
              '' '' @ [CHR 0xE2, CHR 0x80, CHR 0x94] @ '' not in allowlist'')
          else check_dangerous_operators stage)"

definition validate_mql_pipeline :: "document list \<Rightarrow> string + unit" where
  "validate_mql_pipeline pipeline = each (\<lambda>(i, stage). check_stage i stage) (enumerate 0 pipeline)"

subsection \<open>Compiled queries\<close>

datatype compiled_mql =
    MqlFind document "document option"
  | MqlAggregate "document list"
  | MqlVectorSearch string "document option"
  | MqlFulltext string "document option"
  | MqlGeo document "document option"

fun mql_method :: "compiled_mql \<Rightarrow> string" where
  "mql_method (MqlFind _ _) = ''filter''"
| "mql_method (MqlAggregate _) = ''aggregate''"
| "mql_method (MqlVectorSearch _ _) = ''vector_search''"
| "mql_method (MqlFulltext _ _) = ''fulltext''"
| "mql_method (MqlGeo _ _) = ''geo''"

datatype parameter_type = PNumber | PString | PBoolean

record template_parameter =
  tp_name :: string
  tp_placeholder :: string
  tp_type :: parameter_type

record query_template =
  qt_pattern :: string
  qt_parameters :: "template_parameter list"

record llm_parameter =
  lp_name :: string
  lp_value :: json
  lp_type :: parameter_type

record llm_template =
  lt_intent_pattern :: string
  lt_parameters :: "llm_parameter list"
  lt_mql_pattern :: json

record compiled_query =
  cq_hash :: string
  cq_intent :: string
  cq_collection :: string
  cq_database :: string
  cq_mql :: compiled_mql
  cq_template :: "query_template option"
  cq_llm_template :: "llm_template option"
  cq_created_at :: i64

datatype llm_error = ApiError string | InvalidResponse string | NotConfigured | RateLimited u64

datatype translate_error = NoProvider | Llm llm_error | ParseError string | Validation string

record query_lib =
  json_from_text :: "string \<Rightarrow> string + json"
  json_to_document :: "json \<Rightarrow> string + document"
  template_from_json :: "json \<Rightarrow> llm_template option"

text \<open>\<open>value[key]\<close> is null when there is no such field.\<close>

definition json_index :: "json \<Rightarrow> string \<Rightarrow> json" where
  "json_index v k = (case json_get v k of None \<Rightarrow> JNull | Some w \<Rightarrow> w)"

definition ok_of :: "'e + 'a \<Rightarrow> 'a option" where
  "ok_of r = (case r of Inl _ \<Rightarrow> None | Inr a \<Rightarrow> Some a)"

definition json_doc_field :: "query_lib \<Rightarrow> json \<Rightarrow> string \<Rightarrow> document option" where
  "json_doc_field Q v k = Option.bind (json_get v k) (\<lambda>o'. ok_of (json_to_document Q o'))"

definition search_query_of :: "json \<Rightarrow> string" where
  "search_query_of v =
     (case Option.bind (case json_get v ''search_query'' of None \<Rightarrow> json_get v ''query'' | Some q \<Rightarrow> Some q) as_str of
        None \<Rightarrow> []
      | Some s \<Rightarrow> s)"

definition parse_filter :: "query_lib \<Rightarrow> json \<Rightarrow> translate_error + document" where
  "parse_filter Q v =
     map_err (\<lambda>e. ParseError (''Invalid filter: '' @ e)) (json_to_document Q (json_index v ''filter''))"

definition parse_method_response :: "query_lib \<Rightarrow> json \<Rightarrow> string \<Rightarrow> translate_error + compiled_mql" where
  "parse_method_response Q v m =
     (if m = ''filter'' then
        rbind (parse_filter Q v) (\<lambda>flt. Inr (MqlFind flt (json_doc_field Q v ''options'')))
      else if m = ''geo'' then
        rbind (parse_filter Q v) (\<lambda>flt. Inr (MqlGeo flt (json_doc_field Q v ''options'')))
      else if m = ''aggregate'' then
        rbind (ok_or (ParseError ''Missing pipeline'') (as_array (json_index v ''pipeline''))) (\<lambda>stages.
        rbind (collect (\<lambda>s. map_err ParseError (json_to_document Q s)) stages) (\<lambda>pipeline.
          Inr (MqlAggregate pipeline)))
      else if m = ''vector_search'' then
        Inr (MqlVectorSearch (search_query_of v) (json_doc_field Q v ''pre_filter''))
      else if m = ''fulltext'' then
        Inr (MqlFulltext (search_query_of v) (json_doc_field Q v ''pre_filter''))
      else
        Inr (MqlFind (case json_to_document Q (json_index v ''filter'') of Inl _ \<Rightarrow> [] | Inr d \<Rightarrow> d) None))"

definition strip_prefix_of :: "string \<Rightarrow> string \<Rightarrow> string option" where
  "strip_prefix_of p s = (if prefix p s then Some (drop (length p) s) else None)"

definition strip_suffix_of :: "string \<Rightarrow> string \<Rightarrow> string option" where
  "strip_suffix_of p s = (if suffix p s then Some (take (length s - length p) s) else None)"

text \<open>The Markdown fence that language models put around JSON.\<close>

definition fence :: string where
  "fence = [CHR 0x60, CHR 0x60, CHR 0x60]"

definition strip_fences :: "string \<Rightarrow> string" where
  "strip_fences response =
     (let cleaned = trim response in
      if prefix fence cleaned then
        (let without_start =
           (case strip_prefix_of (fence @ ''json'') cleaned of
              Some r \<Rightarrow> r
            | None \<Rightarrow> (case strip_prefix_of fence cleaned of Some r \<Rightarrow> r | None \<Rightarrow> cleaned))
         in trim (case strip_suffix_of fence without_start of Some r \<Rightarrow> r | None \<Rightarrow> without_start))
      else cleaned)"

definition response_method :: "json \<Rightarrow> string" where
  "response_method v =
     (case Option.bind (json_get v ''method'') as_str of
        Some m \<Rightarrow> m
      | None \<Rightarrow>
          (if Option.bind (json_get v ''type'') as_str = Some ''aggregate'' then ''aggregate'' else ''filter''))"

definition parse_llm_response :: "query_lib \<Rightarrow> string \<Rightarrow> translate_error + (compiled_mql \<times> llm_template option)" where
  "parse_llm_response Q response =
     rbind (map_err (\<lambda>e. ParseError (''Invalid JSON from LLM: '' @ e)) (json_from_text Q (strip_fences response)))
       (\<lambda>v. rbind (parse_method_response Q v (response_method v)) (\<lambda>mql.
          Inr (mql, Option.bind (json_get v ''template'') (template_from_json Q))))"

fun validate_mql :: "compiled_mql \<Rightarrow> translate_error + unit" where
  "validate_mql (MqlFind flt _) = map_err Validation (validate_filter flt)"
| "validate_mql (MqlGeo flt _) = map_err Validation (validate_filter flt)"
| "validate_mql (MqlAggregate pipeline) = map_err Validation (validate_mql_pipeline pipeline)"
| "validate_mql (MqlVectorSearch search_query _) =
     (if search_query = [] then Inl (Validation ''Empty search query'') else Inr ())"
| "validate_mql (MqlFulltext search_query _) =
     (if search_query = [] then Inl (Validation ''Empty search query'') else Inr ())"

subsection \<open>Everything in a value\<close>

text \<open>The keys that occur anywhere in a value, however deep and through whatever arrays.\<close>

fun all_keys :: "bson \<Rightarrow> string set" where
  "all_keys (BDocument d) = (\<Union>kv \<in> set d. insert (fst kv) (all_keys (snd kv)))"
| "all_keys (BArray arr) = (\<Union>v \<in> set arr. all_keys v)"
| "all_keys (BJavaScriptCodeWithScope code scope) = (\<Union>kv \<in> set scope. insert (fst kv) (all_keys (snd kv)))"
| "all_keys _ = {}"

text \<open>Values without an array directly inside an array and without code with a scope.\<close>

fun is_array :: "bson \<Rightarrow> bool" where
  "is_array (BArray _) = True"
| "is_array _ = False"

fun flat :: "bson \<Rightarrow> bool" where
  "flat (BDocument d) = list_all (\<lambda>kv. flat (snd kv)) d"
| "flat (BArray arr) = list_all (\<lambda>v. flat v \<and> \<not> is_array v) arr"
| "flat (BJavaScriptCodeWithScope _ _) = False"
| "flat _ = True"

definition harmless :: "bson \<Rightarrow> bool" where
  "harmless v \<longleftrightarrow> all_keys v \<inter> set DANGEROUS_OPERATORS = {}"

lemma harmless_doc:
  "harmless (BDocument d) \<longleftrightarrow> (\<forall>kv \<in> set d. fst kv \<notin> set DANGEROUS_OPERATORS \<and> harmless (snd kv))"
  by (auto simp: harmless_def)

lemma harmless_array: "harmless (BArray arr) \<longleftrightarrow> (\<forall>v \<in> set arr. harmless v)"
  by (auto simp: harmless_def)

text \<open>What the check asks of the value of a key.\<close>

definition value_ok :: "bson \<Rightarrow> bool" where
  "value_ok w =
     (case w of
        BDocument _ \<Rightarrow> check_value w = Inr ()
      | BArray arr \<Rightarrow> (\<forall>item \<in> set arr. as_document item \<noteq> None \<longrightarrow> check_value item = Inr ())
      | _ \<Rightarrow> True)"

lemma check_doc_ok:
  "check_value (BDocument d) = Inr () \<longleftrightarrow>
     (\<forall>kv \<in> set d. fst kv \<notin> set DANGEROUS_OPERATORS \<and> value_ok (snd kv))"
proof -
  have "(case w of
           BDocument nested \<Rightarrow> check_value w
         | BArray arr \<Rightarrow> each (\<lambda>item. if as_document item \<noteq> None then check_value item else Inr ()) arr
         | _ \<Rightarrow> Inr ()) = Inr () \<longleftrightarrow> value_ok w" for w
    by (cases w) (auto simp: value_ok_def each_Inr simp del: check_value.simps)
  then show ?thesis by (simp add: each_Inr) blast
qed

lemma value_ok_flat: "flat v \<Longrightarrow> value_ok v \<longleftrightarrow> harmless v"
proof (induction v rule: bson_induct)
  case (Other v)
  then show ?case by (cases v) (simp_all add: value_ok_def harmless_def)
next
  case (BArray arr)
  have "(as_document item \<noteq> None \<longrightarrow> check_value item = Inr ()) \<longleftrightarrow> harmless item" if item: "item \<in> set arr" for item
  proof -
    have "value_ok item \<longleftrightarrow> harmless item" "\<not> is_array item"
      using BArray item by (auto simp: list_all_iff)
    then show ?thesis by (cases item) (simp_all add: value_ok_def)
  qed
  then show ?case by (simp add: value_ok_def harmless_array)
next
  case (BDocument d)
  then have "\<forall>kv \<in> set d. value_ok (snd kv) \<longleftrightarrow> harmless (snd kv)"
    by (fastforce simp: list_all_iff)
  then show ?case
    by (auto simp: value_ok_def check_doc_ok harmless_doc simp del: check_value.simps)
qed

lemma check_flat: "flat (BDocument d) \<Longrightarrow> check_dangerous_operators d = Inr () \<longleftrightarrow> harmless (BDocument d)"
  using value_ok_flat [of "BDocument d"] by (simp add: check_dangerous_operators_def value_ok_def)

lemma check_stage_Inr:
  "check_stage i stage = Inr () \<longleftrightarrow>
     (\<exists>k v rest. stage = (k, v) # rest \<and> k \<in> set ALLOWED_STAGES) \<and> check_dangerous_operators stage = Inr ()"
  by (cases stage) (auto simp: check_stage_def ALLOWED_STAGES_def BLOCKED_STAGES_def)

lemma validate_mql_pipeline_Inr:
  "validate_mql_pipeline pipeline = Inr () \<longleftrightarrow>
     (\<forall>stage \<in> set pipeline. (\<exists>k v rest. stage = (k, v) # rest \<and> k \<in> set ALLOWED_STAGES) \<and>
        check_dangerous_operators stage = Inr ())"
proof -
  have "validate_mql_pipeline pipeline = Inr () \<longleftrightarrow> (\<forall>(i, stage) \<in> set (enumerate 0 pipeline). check_stage i stage = Inr ())"
    by (auto simp: validate_mql_pipeline_def each_Inr)
  also have "\<dots> \<longleftrightarrow> (\<forall>stage \<in> set pipeline. (\<exists>k v rest. stage = (k, v) # rest \<and> k \<in> set ALLOWED_STAGES) \<and>
      check_dangerous_operators stage = Inr ())"
  proof -
    have "set pipeline = snd ` set (enumerate 0 pipeline)"
      by (metis list.set_map map_snd_enumerate)
    then show ?thesis by (simp add: check_stage_Inr case_prod_beta)
  qed
  finally show ?thesis .
qed

subsection \<open>What validation promises\<close>

definition stage_allowed :: "document \<Rightarrow> bool" where
  "stage_allowed stage \<longleftrightarrow> (\<exists>k v rest. stage = (k, v) # rest \<and> k \<in> set ALLOWED_STAGES)"

text \<open>The documents of a query that are looked into, and what is promised of the query.\<close>

fun checked_documents :: "compiled_mql \<Rightarrow> document list" where
  "checked_documents (MqlFind flt _) = [flt]"
| "checked_documents (MqlGeo flt _) = [flt]"
| "checked_documents (MqlAggregate pipeline) = pipeline"
| "checked_documents _ = []"

fun well_formed_query :: "compiled_mql \<Rightarrow> bool" where
  "well_formed_query (MqlAggregate pipeline) = list_all stage_allowed pipeline"
| "well_formed_query (MqlVectorSearch q _) = (q \<noteq> [])"
| "well_formed_query (MqlFulltext q _) = (q \<noteq> [])"
| "well_formed_query _ = True"

definition flat_query :: "compiled_mql \<Rightarrow> bool" where
  "flat_query q \<longleftrightarrow> (\<forall>d \<in> set (checked_documents q). flat (BDocument d))"

lemma validate_mql_Inr:
  "validate_mql q = Inr () \<longleftrightarrow>
     well_formed_query q \<and> (\<forall>d \<in> set (checked_documents q). check_dangerous_operators d = Inr ())"
  by (cases q)
    (auto simp: validate_filter_def validate_mql_pipeline_Inr stage_allowed_def list_all_iff result_simps)



text \<open>
  Validation leaves two gaps: whatever document stands in an array that stands
  directly in an array is not looked into, and neither is the filter that goes with a
  vector or full-text search.
\<close>

theorem validation_gaps:
  assumes "k \<notin> set DANGEROUS_OPERATORS" and "search \<noteq> []"
  shows "validate_mql (MqlFind [(k, BArray [BArray [BDocument d]])] opts) = Inr () \<and>
    validate_mql (MqlVectorSearch search (Some d)) = Inr () \<and>
    validate_mql (MqlFulltext search (Some d)) = Inr ()"
  using assms by (simp add: validate_mql_Inr check_dangerous_operators_def del: validate_mql.simps)

theorem validation_gaps_witness:
  "validate_mql (MqlFind [(''$or'', BArray [BArray [BDocument [(''$where'', BString ''x'')]]])] None) = Inr ()"
  using validation_gaps [of "''$or''" "''q''"] by (simp add: DANGEROUS_OPERATORS_def del: validate_mql.simps)

subsection \<open>Fenced answers\<close>

lemma trim_pad:
  assumes "list_all is_ws u" and "list_all is_ws w"
  shows "trim (u @ s @ w) = trim s"
proof -
  have u: "dropWhile is_ws (u @ x) = dropWhile is_ws x" if "list_all is_ws u" for u x
    using that by (induction u) auto
  have w: "rev (dropWhile is_ws (rev (x @ w))) = rev (dropWhile is_ws (rev x))" for x
    using assms(2) by (simp add: u)
  show ?thesis
  proof (cases "list_all is_ws s")
    case True
    then have "dropWhile is_ws (u @ s @ w) = []" and "dropWhile is_ws s = []"
      using assms by (simp_all add: dropWhile_eq_Nil_conv list_all_iff)
    then show ?thesis by (simp only: trim_def)
  next
    case False
    then have "dropWhile is_ws (s @ w) = dropWhile is_ws s @ w"
      by (meson dropWhile_append1 list_all_iff)
    then show ?thesis
      using assms(1) w by (simp add: trim_def u)
  qed
qed

definition fenced :: "string \<Rightarrow> string \<Rightarrow> string \<Rightarrow> string \<Rightarrow> string" where
  "fenced tag before txt after = fence @ tag @ before @ txt @ after @ fence"

lemma strip_fences_fenced:
  assumes tag: "tag = [] \<or> tag = ''json''"
    and ws: "list_all is_ws before" "list_all is_ws after"
    and obj: "prefix ''{'' txt"
  shows "strip_fences (fenced tag before txt after) = trim txt"
proof -
  let ?body = "before @ txt @ after"
  have bt: "\<not> is_ws CHR 0x60" by (simp add: is_ws_def)
  have trimmed: "trim (fenced tag before txt after) = fenced tag before txt after"
    by (rule trim_id [of _ "CHR 0x60" "[CHR 0x60, CHR 0x60] @ tag @ ?body @ fence"
          "fence @ tag @ ?body @ [CHR 0x60, CHR 0x60]" "CHR 0x60"])
      (simp_all add: fenced_def fence_def bt)
  have "\<not> prefix ''json'' (?body @ fence)"
    using ws(1) obj by (cases before) (auto simp: is_ws_def prefix_def)
  with tag have strip: "(case strip_prefix_of (fence @ ''json'') (fenced tag before txt after) of
      Some r \<Rightarrow> r
    | None \<Rightarrow> (case strip_prefix_of fence (fenced tag before txt after) of
        Some r \<Rightarrow> r | None \<Rightarrow> fenced tag before txt after)) = ?body @ fence"
    by (auto simp: strip_prefix_of_def fenced_def)
  have suffix: "strip_suffix_of fence (?body @ fence) = Some ?body"
    by (simp add: strip_suffix_of_def suffix_def)
  show ?thesis
    unfolding strip_fences_def trimmed Let_def strip suffix
    using trim_pad [OF ws] by (simp add: fenced_def)
qed

lemma strip_fences_object: "prefix ''{'' txt \<Longrightarrow> trim txt = txt \<Longrightarrow> strip_fences txt = txt"
  by (auto simp: strip_fences_def fence_def prefix_def)

text \<open>
  The Markdown fence that a language model puts around its JSON object, with or
  without the word json and with any white space inside, makes no difference: the answer
  is parsed as the object alone is.
\<close>

theorem fences_are_transparent:
  assumes "tag = [] \<or> tag = ''json''" and "list_all is_ws before" and "list_all is_ws after"
    and "prefix ''{'' txt" and "trim txt = txt"
  shows "parse_llm_response Q (fenced tag before txt after) = parse_llm_response Q txt"
  using assms by (simp add: parse_llm_response_def strip_fences_fenced strip_fences_object)

theorem fences_are_transparent_witness:
  "parse_llm_response \<lparr>json_from_text = \<lambda>t. Inr (JString t), json_to_document = \<lambda>j. Inr [], template_from_json = \<lambda>j. None\<rparr>
     (fenced ''json'' [CHR 0x0A] ''{}'' [CHR 0x0A]) = Inr (MqlFind [] None, None)"
  using fences_are_transparent [of "''json''" "[CHR 0x0A]" "[CHR 0x0A]" "''{}''"
      "\<lparr>json_from_text = \<lambda>t. Inr (JString t), json_to_document = \<lambda>j. Inr [], template_from_json = \<lambda>j. None\<rparr>"]
  by (simp add: is_ws_def trim_def parse_llm_response_def response_method_def parse_method_response_def
      parse_filter_def json_doc_field_def)

end
