(* ===== verification/Compiled_Cache.thy ===== *)
theory Compiled_Cache
  imports Mql_Validator
begin

text \<open>
  The caches of compiled queries, \<open>src/compiled/cache/\<close> and \<open>src/compiled/hasher.rs\<close>: the
  memory cache with eviction of the least recently used entry (\<open>memory.rs\<close>), the directory
  of files (\<open>disk.rs\<close>), the collection in the database (\<open>atlas.rs\<close>) and the hierarchy of the
  three (\<open>mod.rs\<close>). A hash map is a list of entries in the order of its iteration, which
  the language leaves open; nothing depends on it. Locks are never poisoned, because
  nothing under them panics. \<open>cache_lib\<close> holds the file system, the collection and the
  serialisation of queries; what a file and a stored document look like is left to them
  (\<open>'t\<close> and \<open>'d\<close>). The contract that the three levels share is the locale \<open>query_store\<close>.
\<close>

subsection \<open>Memory\<close>

record mem_cache =
  mc_entries :: "(string \<times> compiled_query \<times> u64) list"
  mc_max :: nat
  mc_counter :: u64

definition DEFAULT_MAX_SIZE :: nat where "DEFAULT_MAX_SIZE = 1000"

definition mem_new :: "nat \<Rightarrow> mem_cache" where
  "mem_new n = \<lparr>mc_entries = [], mc_max = n, mc_counter = 0\<rparr>"

definition hm_remove :: "'k \<Rightarrow> ('k \<times> 'v) list \<Rightarrow> ('k \<times> 'v) list" where
  "hm_remove k es = filter (\<lambda>e. fst e \<noteq> k) es"

definition hm_insert :: "'k \<Rightarrow> 'v \<Rightarrow> ('k \<times> 'v) list \<Rightarrow> ('k \<times> 'v) list" where
  "hm_insert k v es = (k, v) # hm_remove k es"

abbreviation access_order :: "string \<times> compiled_query \<times> u64 \<Rightarrow> u64" where
  "access_order e \<equiv> snd (snd e)"

definition mem_get :: "string \<Rightarrow> mem_cache \<Rightarrow> compiled_query option \<times> mem_cache" where
  "mem_get h m =
     (case map_of (mc_entries m) h of
        None \<Rightarrow> (None, m)
      | Some (q, _) \<Rightarrow>
          (Some q, m\<lparr>mc_entries := hm_insert h (q, mc_counter m) (mc_entries m), mc_counter := mc_counter m + 1\<rparr>))"

definition lru_key :: "(string \<times> compiled_query \<times> u64) list \<Rightarrow> string option" where
  "lru_key es = (if es = [] then None else Some (fst (arg_min_list access_order es)))"

definition evict :: "nat \<Rightarrow> (string \<times> compiled_query \<times> u64) list \<Rightarrow> (string \<times> compiled_query \<times> u64) list" where
  "evict n es =
     (if n \<le> length es then (case lru_key es of None \<Rightarrow> es | Some key \<Rightarrow> hm_remove key es) else es)"

definition mem_put :: "compiled_query \<Rightarrow> mem_cache \<Rightarrow> mem_cache" where
  "mem_put q m =
     (let order = mc_counter m;
          m = m\<lparr>mc_counter := order + 1\<rparr> in
      if cq_hash q \<in> fst ` set (mc_entries m) then
        m\<lparr>mc_entries := hm_insert (cq_hash q) (q, order) (mc_entries m)\<rparr>
      else m\<lparr>mc_entries := hm_insert (cq_hash q) (q, order) (evict (mc_max m) (mc_entries m))\<rparr>)"

definition mem_remove :: "string \<Rightarrow> mem_cache \<Rightarrow> mem_cache" where
  "mem_remove h m = m\<lparr>mc_entries := hm_remove h (mc_entries m)\<rparr>"

definition mem_clear :: "mem_cache \<Rightarrow> mem_cache" where
  "mem_clear m = m\<lparr>mc_entries := []\<rparr>"

definition mem_len :: "mem_cache \<Rightarrow> nat" where
  "mem_len m = length (mc_entries m)"

lemma map_of_hm_remove [simp]: "map_of (hm_remove k es) h = (if h = k then None else map_of es h)"
  unfolding hm_remove_def by (induction es) auto

lemma map_of_hm_insert [simp]: "map_of (hm_insert k v es) h = (if h = k then Some v else map_of es h)"
  by (simp add: hm_insert_def)

lemma set_hm_remove [simp]: "set (hm_remove k es) = {e \<in> set es. fst e \<noteq> k}"
  by (auto simp: hm_remove_def)

lemma set_hm_insert [simp]: "set (hm_insert k v es) = insert (k, v) {e \<in> set es. fst e \<noteq> k}"
  by (simp add: hm_insert_def)

lemma distinct_hm_remove [simp]: "distinct (map f es) \<Longrightarrow> distinct (map f (hm_remove k es))"
  by (simp add: hm_remove_def distinct_map_filter)

lemma hm_remove_absent: "k \<notin> fst ` set es \<Longrightarrow> hm_remove k es = es"
  unfolding hm_remove_def by (rule filter_True) auto

subsection \<open>The memory cache keeps the most recent\<close>

text \<open>The specification: entries from the most to the least recently used.\<close>

type_synonym recency_list = "(string \<times> compiled_query) list"

definition lru_get :: "string \<Rightarrow> recency_list \<Rightarrow> compiled_query option \<times> recency_list" where
  "lru_get h l =
     (map_of l h, case map_of l h of None \<Rightarrow> l | Some q \<Rightarrow> (h, q) # hm_remove h l)"

definition lru_put :: "nat \<Rightarrow> compiled_query \<Rightarrow> recency_list \<Rightarrow> recency_list" where
  "lru_put n q l =
     (cq_hash q, q) #
     (if cq_hash q \<in> fst ` set l then hm_remove (cq_hash q) l
      else if n \<le> length l then butlast l else l)"

definition recency :: "mem_cache \<Rightarrow> recency_list" where
  "recency m = map (\<lambda>e. (fst e, fst (snd e))) (rev (sort_key access_order (mc_entries m)))"

text \<open>Keys once, access orders once, and every access order below the counter.\<close>

definition mem_inv :: "mem_cache \<Rightarrow> bool" where
  "mem_inv m \<longleftrightarrow>
     distinct (map fst (mc_entries m)) \<and> distinct (map access_order (mc_entries m)) \<and>
     (\<forall>e \<in> set (mc_entries m). access_order e < mc_counter m)"

lemma insort_key_last: "\<forall>x \<in> set xs. f x < f a \<Longrightarrow> insort_key f a xs = xs @ [a]"
  by (induction xs) (auto simp: less_le_not_le)

lemma sort_key_last: "\<forall>x \<in> set xs. f x < f a \<Longrightarrow> sort_key f (a # xs) = sort_key f xs @ [a]"
  by (simp add: insort_key_last)

lemma sort_key_hm_remove: "sort_key f (hm_remove k es) = hm_remove k (sort_key f es)"
  by (simp add: hm_remove_def filter_sort)

lemma sort_key_hm_insert:
  "\<forall>e \<in> set es. f e < f (k, v) \<Longrightarrow> sort_key f (hm_insert k v es) = hm_remove k (sort_key f es) @ [(k, v)]"
  unfolding hm_insert_def by (subst sort_key_last) (auto simp: sort_key_hm_remove)

lemma recency_hm_remove:
  "map (\<lambda>e. (fst e, fst (snd e))) (rev (hm_remove k xs)) = hm_remove k (map (\<lambda>e. (fst e, fst (snd e))) (rev xs))"
  by (simp add: hm_remove_def rev_filter filter_map comp_def)

lemma hm_remove_least:
  assumes "es \<noteq> []" and "distinct (map fst es)" and "distinct (map f es)"
  shows "hm_remove (fst (arg_min_list f es)) (sort_key f es) = tl (sort_key f es)"
proof -
  let ?a = "arg_min_list f es"
  obtain x xs where x: "sort_key f es = x # xs"
    using assms(1) by (metis neq_Nil_conv set_empty set_sort)
  then have "x \<in> set es" and "sorted (map f (x # xs))" and same: "set (x # xs) = set es"
    by (metis list.set_intros(1) set_sort, metis sorted_sort_key, metis set_sort)
  have a: "?a \<in> set es" "\<forall>y \<in> set es. f ?a \<le> f y"
    using assms(1) arg_min_list_in f_arg_min_list_f [of es f] by auto
  have "f x \<le> f ?a"
    using \<open>sorted (map f (x # xs))\<close> a(1) same by (auto simp flip: same)
  then have "f x = f ?a" using a(2) \<open>x \<in> set es\<close> by (simp add: order_antisym)
  then have "x = ?a"
    using assms(3) \<open>x \<in> set es\<close> a(1) by (auto simp: distinct_map dest: inj_onD)
  have "distinct (map fst (sort_key f es))"
    using assms(2) by (simp add: distinct_map)
  then have "fst x \<notin> fst ` set xs" by (simp add: x)
  then have "hm_remove (fst x) xs = xs" by (rule hm_remove_absent)
  then show ?thesis
    by (simp add: x hm_remove_def flip: \<open>x = ?a\<close>)
qed


lemma mem_inv_entries:
  "mem_inv m \<Longrightarrow> unat (mc_counter m) + 1 < 2 ^ 64 \<Longrightarrow> e \<in> set (mc_entries m) \<Longrightarrow> access_order e < mc_counter m + 1"
  by (auto simp: mem_inv_def word_less_nat_alt unat_word_ariths)

lemma next_counter: "unat c + 1 < 2 ^ 64 \<Longrightarrow> (c :: u64) < c + 1 \<and> unat (c + 1) = unat c + 1"
  by (simp add: word_less_nat_alt unat_word_ariths)

lemma inv_use:
  assumes "mem_inv m" and "unat (mc_counter m) + 1 < 2 ^ 64" and "set es \<subseteq> set (mc_entries m)"
    and "distinct (map fst es)" and "distinct (map access_order es)"
  shows "mem_inv (m\<lparr>mc_entries := hm_insert k (q, mc_counter m) es, mc_counter := mc_counter m + 1\<rparr>)"
    and "recency (m\<lparr>mc_entries := hm_insert k (q, mc_counter m) es, mc_counter := mc_counter m + 1\<rparr>) =
      (k, q) # hm_remove k (recency (m\<lparr>mc_entries := es\<rparr>))"
proof -
  have less: "\<forall>e \<in> set es. access_order e < mc_counter m"
    using assms(1,3) by (auto simp: mem_inv_def)
  have more: "mc_counter m < mc_counter m + 1"
    using next_counter [OF assms(2)] by simp
  have "access_order e < mc_counter m + 1" if "e \<in> set es" for e
    using less more that by fastforce
  moreover have "mc_counter m \<notin> access_order ` set (hm_remove k es)"
    using less by auto
  moreover have "k \<notin> fst ` set (hm_remove k es)" by auto
  ultimately show "mem_inv (m\<lparr>mc_entries := hm_insert k (q, mc_counter m) es, mc_counter := mc_counter m + 1\<rparr>)"
    using assms(4,5) more by (auto simp: mem_inv_def hm_insert_def)
  show "recency (m\<lparr>mc_entries := hm_insert k (q, mc_counter m) es, mc_counter := mc_counter m + 1\<rparr>) =
      (k, q) # hm_remove k (recency (m\<lparr>mc_entries := es\<rparr>))"
    using less by (simp add: recency_def sort_key_hm_insert recency_hm_remove)
qed

lemma map_of_recency:
  assumes "mem_inv m"
  shows "map_of (recency m) h = map_option fst (map_of (mc_entries m) h)"
proof -
  let ?xs = "rev (sort_key access_order (mc_entries m))"
  have d: "distinct (map fst ?xs)" "distinct (map fst (mc_entries m))"
    using assms by (simp_all add: mem_inv_def distinct_map)
  have "map_of ?xs = map_of (mc_entries m)"
    using d by (intro map_of_eqI) (auto simp: map_of_eq_Some_iff)
  moreover have "map_of (map (\<lambda>e. (fst e, fst (snd e))) xs) h = map_option fst (map_of xs h)" for xs :: "(string \<times> compiled_query \<times> u64) list"
    by (induction xs) auto
  ultimately show ?thesis by (simp add: recency_def)
qed

lemma keys_recency: "fst ` set (recency m) = fst ` set (mc_entries m)"
  by (simp add: recency_def image_image)

lemma length_recency [simp]: "length (recency m) = length (mc_entries m)"
  by (simp add: recency_def)

lemma mem_get_refines:
  assumes "mem_inv m" and "unat (mc_counter m) + 1 < 2 ^ 64"
  shows "mem_inv (snd (mem_get h m)) \<and> fst (mem_get h m) = fst (lru_get h (recency m)) \<and>
    recency (snd (mem_get h m)) = snd (lru_get h (recency m))"
proof (cases "map_of (mc_entries m) h")
  case None
  then show ?thesis using assms by (simp add: mem_get_def lru_get_def map_of_recency)
next
  case (Some e)
  then show ?thesis
    using assms inv_use [OF assms, of "mc_entries m" h "fst e"]
    by (auto simp: mem_get_def lru_get_def map_of_recency mem_inv_def split: prod.split)
qed

lemma evict_refines:
  assumes "mem_inv m"
  shows "set (evict n (mc_entries m)) \<subseteq> set (mc_entries m)"
    and "distinct (map fst (evict n (mc_entries m)))" and "distinct (map access_order (evict n (mc_entries m)))"
    and "recency (m\<lparr>mc_entries := evict n (mc_entries m)\<rparr>) =
      (if n \<le> length (mc_entries m) then butlast (recency m) else recency m)"
proof -
  have d: "distinct (map fst (mc_entries m))" "distinct (map access_order (mc_entries m))"
    using assms by (simp_all add: mem_inv_def)
  then show "set (evict n (mc_entries m)) \<subseteq> set (mc_entries m)"
      "distinct (map fst (evict n (mc_entries m)))" "distinct (map access_order (evict n (mc_entries m)))"
    by (auto simp: evict_def lru_key_def)
  show "recency (m\<lparr>mc_entries := evict n (mc_entries m)\<rparr>) =
      (if n \<le> length (mc_entries m) then butlast (recency m) else recency m)"
    using hm_remove_least [OF _ d]
    by (auto simp: evict_def lru_key_def recency_def sort_key_hm_remove butlast_rev map_butlast [symmetric])
qed

lemma recency_counter [simp]:
  "recency (m\<lparr>mc_counter := c, mc_entries := es\<rparr>) = recency (m\<lparr>mc_entries := es\<rparr>)"
  "recency (m\<lparr>mc_entries := es, mc_counter := c\<rparr>) = recency (m\<lparr>mc_entries := es\<rparr>)"
  by (simp_all add: recency_def)

lemma mem_inv_swap [simp]:
  "mem_inv (m\<lparr>mc_counter := c, mc_entries := es\<rparr>) = mem_inv (m\<lparr>mc_entries := es, mc_counter := c\<rparr>)"
  by (simp add: mem_inv_def)

lemma mem_put_refines:
  assumes "mem_inv m" and "unat (mc_counter m) + 1 < 2 ^ 64"
  shows "mem_inv (mem_put q m) \<and> recency (mem_put q m) = lru_put (mc_max m) q (recency m)"
proof (cases "cq_hash q \<in> fst ` set (mc_entries m)")
  case True
  then show ?thesis
    using assms inv_use [OF assms, of "mc_entries m" "cq_hash q" q]
    by (simp add: mem_put_def lru_put_def keys_recency mem_inv_def Let_def)
next
  case False
  let ?es = "evict (mc_max m) (mc_entries m)"
  note es = evict_refines [OF assms(1), of "mc_max m"]
  have absent: "cq_hash q \<notin> fst ` set (recency (m\<lparr>mc_entries := ?es\<rparr>))"
    using False es(1) by (auto simp: keys_recency)
  show ?thesis
    using False inv_use [OF assms es(1-3), of "cq_hash q" q] hm_remove_absent [OF absent] es(4)
    by (auto simp: mem_put_def lru_put_def keys_recency Let_def)
qed

lemma mem_remove_refines:
  "mem_inv m \<Longrightarrow> mem_inv (mem_remove h m) \<and> recency (mem_remove h m) = hm_remove h (recency m)"
  by (auto simp: mem_inv_def mem_remove_def recency_def sort_key_hm_remove recency_hm_remove)

datatype mem_op = MGet string | MPut compiled_query | MRemove string | MClear

fun mem_step :: "mem_op \<Rightarrow> mem_cache \<Rightarrow> compiled_query option \<times> mem_cache" where
  "mem_step (MGet h) m = mem_get h m"
| "mem_step (MPut q) m = (None, mem_put q m)"
| "mem_step (MRemove h) m = (None, mem_remove h m)"
| "mem_step MClear m = (None, mem_clear m)"

fun lru_step :: "nat \<Rightarrow> mem_op \<Rightarrow> recency_list \<Rightarrow> compiled_query option \<times> recency_list" where
  "lru_step n (MGet h) l = lru_get h l"
| "lru_step n (MPut q) l = (None, lru_put n q l)"
| "lru_step n (MRemove h) l = (None, hm_remove h l)"
| "lru_step n MClear l = (None, [])"

fun run_ops :: "('op \<Rightarrow> 's \<Rightarrow> 'o \<times> 's) \<Rightarrow> 'op list \<Rightarrow> 's \<Rightarrow> 'o list \<times> 's" where
  "run_ops step [] s = ([], s)"
| "run_ops step (x # xs) s =
     (case step x s of (a, s') \<Rightarrow> (case run_ops step xs s' of (as, s'') \<Rightarrow> (a # as, s'')))"

lemma mem_step_params [simp]:
  "mc_max (snd (mem_step x m)) = mc_max m"
  by (cases x) (auto simp: mem_get_def mem_put_def mem_remove_def mem_clear_def Let_def split: option.split)

lemma mem_step_counter:
  "unat (mc_counter m) + 1 < 2 ^ 64 \<Longrightarrow> unat (mc_counter (snd (mem_step x m))) \<le> unat (mc_counter m) + 1"
  using next_counter [of "mc_counter m"]
  by (cases x) (auto simp: mem_get_def mem_put_def mem_remove_def mem_clear_def Let_def split: option.split)

lemma mem_step_refines:
  assumes "mem_inv m" and "unat (mc_counter m) + 1 < 2 ^ 64"
  shows "mem_inv (snd (mem_step x m)) \<and> fst (mem_step x m) = fst (lru_step (mc_max m) x (recency m)) \<and>
    recency (snd (mem_step x m)) = snd (lru_step (mc_max m) x (recency m))"
proof (cases x)
  case MClear
  then show ?thesis by (simp add: mem_clear_def mem_inv_def recency_def)
qed (use assms mem_get_refines [OF assms] mem_put_refines [OF assms] mem_remove_refines [OF assms(1)] in auto)

lemma mem_run_refines:
  "mem_inv m \<Longrightarrow> unat (mc_counter m) + length xs < 2 ^ 64 \<Longrightarrow>
   fst (run_ops mem_step xs m) = fst (run_ops (lru_step (mc_max m)) xs (recency m)) \<and>
   recency (snd (run_ops mem_step xs m)) = snd (run_ops (lru_step (mc_max m)) xs (recency m))"
proof (induction xs arbitrary: m)
  case (Cons x xs)
  show ?case
  proof (cases "unat (mc_counter m) + 1 < 2 ^ 64")
    case True
    note step = mem_step_refines [OF Cons.prems(1) True, of x]
    have "unat (mc_counter (snd (mem_step x m))) + length xs < 2 ^ 64"
      using mem_step_counter [OF True, of x] Cons.prems(2) by simp
    with step Cons.IH [of "snd (mem_step x m)"] show ?thesis
      by (auto split: prod.split)
  next
    case False
    then show ?thesis using Cons.prems(2) by simp
  qed
qed simp

lemma hm_remove_present:
  assumes "k \<in> fst ` set l"
  shows "length (hm_remove k l) < length l"
proof -
  from assms obtain e where "e \<in> set l" "fst e = k" by auto
  then show ?thesis
    unfolding hm_remove_def by (intro length_filter_less [of e]) auto
qed

lemma lru_bound: "length l \<le> max 1 n \<Longrightarrow> length (snd (lru_step n x l)) \<le> max 1 n"
proof (cases x)
  case (MGet h)
  assume "length l \<le> max 1 n"
  moreover have "h \<in> fst ` set l" if "map_of l h \<noteq> None"
    using that by (simp add: map_of_eq_None_iff)
  ultimately show ?thesis
    using MGet hm_remove_present [of h l] by (auto simp: lru_get_def split: option.split)
next
  case (MPut q)
  assume "length l \<le> max 1 n"
  then show ?thesis
    using MPut hm_remove_present [of "cq_hash q" l]
    by (cases "cq_hash q \<in> fst ` set l") (auto simp: lru_put_def max_def)
next
  case (MRemove h)
  assume "length l \<le> max 1 n"
  moreover have "length (hm_remove h l) \<le> length l"
    by (simp add: hm_remove_def)
  ultimately show ?thesis using MRemove by simp
qed simp

lemma lru_run_bound: "length l \<le> max 1 n \<Longrightarrow> length (snd (run_ops (lru_step n) xs l)) \<le> max 1 n"
proof (induction xs arbitrary: l)
  case (Cons x xs)
  then show ?case
    using Cons.IH [OF lru_bound [OF Cons.prems, of x]] by (simp add: case_prod_beta)
qed simp

text \<open>
  C21. The memory cache is a cache that keeps the most recently used entries: in any run
  of fewer than 2^64 operations (after which the clock of accesses wraps) every lookup is
  answered, and the entries are kept, as by the list ordered by last use, whose oldest
  entry makes room for a new one. It never holds more than its capacity, or one entry
  where the capacity is zero.
\<close>

theorem memory_is_lru:
  assumes "length xs < 2 ^ 64"
  shows "fst (run_ops mem_step xs (mem_new n)) = fst (run_ops (lru_step n) xs []) \<and>
    recency (snd (run_ops mem_step xs (mem_new n))) = snd (run_ops (lru_step n) xs []) \<and>
    mem_len (snd (run_ops mem_step xs (mem_new n))) \<le> max 1 n"
proof -
  have new: "mem_inv (mem_new n)" "recency (mem_new n) = []" "mc_max (mem_new n) = n" "unat (mc_counter (mem_new n)) = 0"
    by (simp_all add: mem_new_def mem_inv_def recency_def)
  then have run: "fst (run_ops mem_step xs (mem_new n)) = fst (run_ops (lru_step n) xs []) \<and>
      recency (snd (run_ops mem_step xs (mem_new n))) = snd (run_ops (lru_step n) xs [])"
    using mem_run_refines [of "mem_new n" xs] assms by simp
  moreover have "mem_len (snd (run_ops mem_step xs (mem_new n))) = length (snd (run_ops (lru_step n) xs []))"
    using run by (metis mem_len_def length_recency)
  ultimately show ?thesis using lru_run_bound [of "[]" n xs] by simp
qed

definition sample_query :: "string \<Rightarrow> compiled_query" where
  "sample_query h =
     \<lparr>cq_hash = h, cq_intent = ''i'', cq_collection = ''c'', cq_database = ''d'', cq_mql = MqlFind [] None,
      cq_template = None, cq_llm_template = None, cq_created_at = 0\<rparr>"

lemma cq_hash_sample [simp]: "cq_hash (sample_query h) = h"
  by (simp add: sample_query_def)

theorem memory_is_lru_witness:
  "fst (run_ops mem_step [MPut (sample_query ''a''), MPut (sample_query ''b''), MGet ''a'', MGet ''b''] (mem_new 1)) =
     [None, None, None, Some (sample_query ''b'')]"
  by (subst memory_is_lru [THEN conjunct1]) (simp, simp add: lru_get_def lru_put_def hm_remove_def)

subsection \<open>Keys of queries\<close>

text \<open>\<open>sha\<close> is the digest of a text in hexadecimal.\<close>

definition hash_input :: "string \<Rightarrow> string \<Rightarrow> string \<Rightarrow> string option \<Rightarrow> string" where
  "hash_input intent database collection fp =
     to_lowercase (trim intent) @ ''|'' @ database @ ''|'' @ collection @
       (case fp of None \<Rightarrow> [] | Some f \<Rightarrow> ''|'' @ f)"

definition query_hash :: "(string \<Rightarrow> string) \<Rightarrow> string \<Rightarrow> string \<Rightarrow> string \<Rightarrow> string option \<Rightarrow> string" where
  "query_hash sha intent database collection fp = sha (hash_input intent database collection fp)"

lemma split_at_first: "c \<notin> set xs \<Longrightarrow> c \<notin> set us \<Longrightarrow> xs @ c # ys = us @ c # ws \<longleftrightarrow> xs = us \<and> ys = ws"
proof (induction xs arbitrary: us)
  case Nil
  then show ?case by (cases us) auto
next
  case (Cons x xs)
  then show ?case by (cases us) auto
qed

lemma image_fixed: "(\<And>c. f c = x \<longleftrightarrow> c = x) \<Longrightarrow> x \<in> f ` S \<longleftrightarrow> x \<in> S"
  by (metis image_iff)

lemma bar_to_lower: "CHR ''|'' \<in> set (to_lowercase s) \<longleftrightarrow> CHR ''|'' \<in> set s"
proof -
  have "to_lower_char c = CHR ''|'' \<longleftrightarrow> c = CHR ''|''" for c
  proof
    assume eq: "to_lower_char c = CHR ''|''"
    show "c = CHR ''|''"
    proof (rule ccontr)
      assume "c \<noteq> CHR ''|''"
      with eq have le: "(of_char c :: nat) \<le> 90" and "char_of ((of_char c :: nat) + 32) = CHR ''|''"
        by (auto simp: to_lower_char_def Let_def split: if_splits)
      then have "of_char (char_of ((of_char c :: nat) + 32) :: char) = (124 :: nat)" by simp
      with le show False by (simp add: of_char_of)
    qed
  qed (simp add: to_lower_char_def)
  then show ?thesis unfolding to_lowercase_def set_map by (rule image_fixed)
qed

text \<open>
  Without bars in the intents and the database names, and as long as the digest
  does not collide, two requests share a cached query exactly when they agree on the
  collection, the database and the intent up to surrounding white space and case.
  With bars they may share one although they differ.
\<close>

theorem query_key_exact:
  assumes "CHR ''|'' \<notin> set (trim i) \<union> set (trim i') \<union> set d \<union> set d'"
    and "sha (hash_input i d c None) = sha (hash_input i' d' c' None) \<Longrightarrow> hash_input i d c None = hash_input i' d' c' None"
  shows "(query_hash sha i d c None = query_hash sha i' d' c' None \<longleftrightarrow>
      to_lowercase (trim i) = to_lowercase (trim i') \<and> d = d' \<and> c = c') \<and>
    query_hash sha i (x @ ''|'' @ y) z None = query_hash sha i x (y @ ''|'' @ z) None"
proof -
  have "hash_input i d c None = hash_input i' d' c' None \<longleftrightarrow>
      to_lowercase (trim i) = to_lowercase (trim i') \<and> d = d' \<and> c = c'"
    using assms(1) by (auto simp: hash_input_def split_at_first bar_to_lower)
  then show ?thesis using assms(2) by (auto simp: query_hash_def hash_input_def)
qed

theorem query_key_exact_witness:
  "query_hash (\<lambda>t. t) ''find'' ''d'' ''c'' None = query_hash (\<lambda>t. t) '' find '' ''d'' ''c'' None"
  using query_key_exact [of "''find''" "'' find ''" "''d''" "''d''" "\<lambda>t. t" "''c''" "''c''"]
  by (simp add: trim_def is_ws_def)

subsection \<open>The levels of the hierarchy\<close>

datatype 'd advance = AdvErr | AdvDoc "'d option"

record ('f, 't, 'a, 'd) cache_lib =
  fs_create_dir :: "'f \<Rightarrow> string \<Rightarrow> bool \<times> 'f"
  fs_read :: "'f \<Rightarrow> string \<Rightarrow> 't option"
  fs_write :: "'f \<Rightarrow> string \<Rightarrow> 't \<Rightarrow> bool \<times> 'f"
  fs_exists :: "'f \<Rightarrow> string \<Rightarrow> bool"
  fs_remove :: "'f \<Rightarrow> string \<Rightarrow> bool \<times> 'f"
  query_to_text :: "compiled_query \<Rightarrow> 't option"
  query_from_text :: "'t \<Rightarrow> compiled_query option"
  coll_find_one :: "'a \<Rightarrow> document \<Rightarrow> unit + 'd option"
  coll_replace_one :: "'a \<Rightarrow> document \<Rightarrow> 'd \<Rightarrow> 'a"
  coll_delete_one :: "'a \<Rightarrow> document \<Rightarrow> 'a"
  coll_find :: "'a \<Rightarrow> document \<Rightarrow> unit + 'd advance list"
  query_to_doc :: "compiled_query \<Rightarrow> 'd option"
  query_from_doc :: "'d \<Rightarrow> compiled_query option"

record 'f disk_cache =
  dk_directory :: string
  dk_files :: 'f

definition disk_new :: "('f, 't, 'a, 'd) cache_lib \<Rightarrow> string \<Rightarrow> 'f \<Rightarrow> 'f disk_cache option" where
  "disk_new L dir f =
     (case fs_create_dir L f dir of (ok, f') \<Rightarrow> if ok then Some \<lparr>dk_directory = dir, dk_files = f'\<rparr> else None)"

definition path_for :: "string \<Rightarrow> string \<Rightarrow> string" where
  "path_for dir h = dir @ ''/'' @ h @ ''.json''"

definition disk_get :: "('f, 't, 'a, 'd) cache_lib \<Rightarrow> 'f disk_cache \<Rightarrow> string \<Rightarrow> compiled_query option" where
  "disk_get L d h = Option.bind (fs_read L (dk_files d) (path_for (dk_directory d) h)) (query_from_text L)"

definition disk_put :: "('f, 't, 'a, 'd) cache_lib \<Rightarrow> compiled_query \<Rightarrow> 'f disk_cache \<Rightarrow> 'f disk_cache" where
  "disk_put L q d =
     (case query_to_text L q of
        None \<Rightarrow> d
      | Some t \<Rightarrow> d\<lparr>dk_files := snd (fs_write L (dk_files d) (path_for (dk_directory d) (cq_hash q)) t)\<rparr>)"

definition disk_remove :: "('f, 't, 'a, 'd) cache_lib \<Rightarrow> string \<Rightarrow> 'f disk_cache \<Rightarrow> 'f disk_cache" where
  "disk_remove L h d =
     (let path = path_for (dk_directory d) h in
      if fs_exists L (dk_files d) path then d\<lparr>dk_files := snd (fs_remove L (dk_files d) path)\<rparr> else d)"

definition hash_filter :: "string \<Rightarrow> document" where
  "hash_filter h = [(''hash'', BString h)]"

definition atlas_get :: "('f, 't, 'a, 'd) cache_lib \<Rightarrow> 'a \<Rightarrow> string \<Rightarrow> compiled_query option" where
  "atlas_get L a h =
     (case coll_find_one L a (hash_filter h) of Inr (Some d) \<Rightarrow> query_from_doc L d | _ \<Rightarrow> None)"

definition atlas_put :: "('f, 't, 'a, 'd) cache_lib \<Rightarrow> compiled_query \<Rightarrow> 'a \<Rightarrow> 'a" where
  "atlas_put L q a =
     (case query_to_doc L q of None \<Rightarrow> a | Some d \<Rightarrow> coll_replace_one L a (hash_filter (cq_hash q)) d)"

definition atlas_remove :: "('f, 't, 'a, 'd) cache_lib \<Rightarrow> string \<Rightarrow> 'a \<Rightarrow> 'a" where
  "atlas_remove L h a = coll_delete_one L a (hash_filter h)"

text \<open>The loop over the cursor: an error ends it, a document that does not decode is passed over.\<close>

fun load_docs :: "('f, 't, 'a, 'd) cache_lib \<Rightarrow> 'd advance list \<Rightarrow> compiled_query list" where
  "load_docs L [] = []"
| "load_docs L (AdvErr # _) = []"
| "load_docs L (AdvDoc None # rest) = load_docs L rest"
| "load_docs L (AdvDoc (Some d) # rest) =
     (case query_from_doc L d of None \<Rightarrow> load_docs L rest | Some q \<Rightarrow> q # load_docs L rest)"

definition load_all :: "('f, 't, 'a, 'd) cache_lib \<Rightarrow> 'a \<Rightarrow> compiled_query list" where
  "load_all L a = (case coll_find L a [] of Inl _ \<Rightarrow> [] | Inr cursor \<Rightarrow> load_docs L cursor)"

subsection \<open>The hierarchy\<close>

record ('f, 'a) cache_hierarchy =
  l1 :: mem_cache
  l2 :: "'f disk_cache option"
  l3 :: "'a option"
  l1_hits :: u64
  l1_misses :: u64
  l2_hits :: u64
  l2_misses :: u64
  l3_hits :: u64
  l3_misses :: u64
  evictions :: u64

definition hierarchy_new ::
  "('f, 't, 'a, 'd) cache_lib \<Rightarrow> 'a option \<Rightarrow> string option \<Rightarrow> 'f \<Rightarrow> ('f, 'a) cache_hierarchy" where
  "hierarchy_new L pool disk_dir f =
     \<lparr>l1 = mem_new DEFAULT_MAX_SIZE, l2 = Option.bind disk_dir (\<lambda>d. disk_new L d f), l3 = pool,
      l1_hits = 0, l1_misses = 0, l2_hits = 0, l2_misses = 0, l3_hits = 0, l3_misses = 0, evictions = 0\<rparr>"

definition look_l1 :: "string \<Rightarrow> ('f, 'a) cache_hierarchy \<Rightarrow> compiled_query option \<times> ('f, 'a) cache_hierarchy" where
  "look_l1 h s =
     (case mem_get h (l1 s) of
        (Some q, m) \<Rightarrow> (Some q, s\<lparr>l1 := m, l1_hits := l1_hits s + 1\<rparr>)
      | (None, m) \<Rightarrow> (None, s\<lparr>l1 := m, l1_misses := l1_misses s + 1\<rparr>))"

definition look_l2 ::
  "('f, 't, 'a, 'd) cache_lib \<Rightarrow> string \<Rightarrow> ('f, 'a) cache_hierarchy \<Rightarrow> compiled_query option \<times> ('f, 'a) cache_hierarchy" where
  "look_l2 L h s =
     (case l2 s of
        None \<Rightarrow> (None, s)
      | Some d \<Rightarrow>
          (case disk_get L d h of
             Some q \<Rightarrow> (Some q, s\<lparr>l2_hits := l2_hits s + 1, l1 := mem_put q (l1 s)\<rparr>)
           | None \<Rightarrow> (None, s\<lparr>l2_misses := l2_misses s + 1\<rparr>)))"

definition put_l1_l2 ::
  "('f, 't, 'a, 'd) cache_lib \<Rightarrow> compiled_query \<Rightarrow> ('f, 'a) cache_hierarchy \<Rightarrow> ('f, 'a) cache_hierarchy" where
  "put_l1_l2 L q s = s\<lparr>l1 := mem_put q (l1 s), l2 := map_option (disk_put L q) (l2 s)\<rparr>"

definition look_l3 ::
  "('f, 't, 'a, 'd) cache_lib \<Rightarrow> string \<Rightarrow> ('f, 'a) cache_hierarchy \<Rightarrow> compiled_query option \<times> ('f, 'a) cache_hierarchy" where
  "look_l3 L h s =
     (case l3 s of
        None \<Rightarrow> (None, s)
      | Some a \<Rightarrow>
          (case atlas_get L a h of
             Some q \<Rightarrow> (Some q, put_l1_l2 L q (s\<lparr>l3_hits := l3_hits s + 1\<rparr>))
           | None \<Rightarrow> (None, s\<lparr>l3_misses := l3_misses s + 1\<rparr>)))"

definition hierarchy_get ::
  "('f, 't, 'a, 'd) cache_lib \<Rightarrow> string \<Rightarrow> ('f, 'a) cache_hierarchy \<Rightarrow> compiled_query option \<times> ('f, 'a) cache_hierarchy" where
  "hierarchy_get L h s =
     (case look_l1 h s of
        (Some q, s) \<Rightarrow> (Some q, s)
      | (None, s) \<Rightarrow>
          (case look_l2 L h s of
             (Some q, s) \<Rightarrow> (Some q, s)
           | (None, s) \<Rightarrow> look_l3 L h s))"

definition hierarchy_put ::
  "('f, 't, 'a, 'd) cache_lib \<Rightarrow> compiled_query \<Rightarrow> ('f, 'a) cache_hierarchy \<Rightarrow> ('f, 'a) cache_hierarchy" where
  "hierarchy_put L q s = (let s = put_l1_l2 L q s in s\<lparr>l3 := map_option (atlas_put L q) (l3 s)\<rparr>)"

definition hierarchy_remove ::
  "('f, 't, 'a, 'd) cache_lib \<Rightarrow> string \<Rightarrow> ('f, 'a) cache_hierarchy \<Rightarrow> ('f, 'a) cache_hierarchy" where
  "hierarchy_remove L h s =
     s\<lparr>l1 := mem_remove h (l1 s), l2 := map_option (disk_remove L h) (l2 s), l3 := map_option (atlas_remove L h) (l3 s)\<rparr>"

definition warm_from_atlas ::
  "('f, 't, 'a, 'd) cache_lib \<Rightarrow> ('f, 'a) cache_hierarchy \<Rightarrow> ('f, 'a) cache_hierarchy" where
  "warm_from_atlas L s = (case l3 s of None \<Rightarrow> s | Some a \<Rightarrow> fold (put_l1_l2 L) (load_all L a) s)"

subsection \<open>What the levels promise\<close>

definition mem_look :: "mem_cache \<Rightarrow> string \<Rightarrow> compiled_query option" where
  "mem_look m h = map_option fst (map_of (mc_entries m) h)"

text \<open>
  A store of queries may forget, but it never makes up an entry: what it gives for a key
  after an insertion is what was inserted under it, or what it gave before.
\<close>

locale query_store =
  fixes look :: "'s \<Rightarrow> string \<Rightarrow> compiled_query option"
    and put :: "compiled_query \<Rightarrow> 's \<Rightarrow> 's"
    and remove :: "string \<Rightarrow> 's \<Rightarrow> 's"
  assumes look_put: "look (put q s) h = Some r \<Longrightarrow> (if h = cq_hash q then r = q else look s h = Some r)"
    and look_remove: "look (remove k s) h = Some r \<Longrightarrow> h \<noteq> k \<and> look s h = Some r"
begin

lemma put_le: "look s \<subseteq>\<^sub>m A \<Longrightarrow> look (put q s) \<subseteq>\<^sub>m A(cq_hash q \<mapsto> q)"
  by (force simp: map_le_def dom_def dest: look_put split: if_splits)

lemma put_again: "look s \<subseteq>\<^sub>m A \<Longrightarrow> A (cq_hash q) = Some q \<Longrightarrow> look (put q s) \<subseteq>\<^sub>m A"
  using put_le [of s A q] by (simp add: fun_upd_idem)

lemma remove_le: "look s \<subseteq>\<^sub>m A \<Longrightarrow> look (remove h s) \<subseteq>\<^sub>m A(h := None)"
  by (force simp: map_le_def dom_def dest: look_remove)

lemma le_look: "look s \<subseteq>\<^sub>m A \<Longrightarrow> look s h = Some q \<Longrightarrow> A h = Some q"
  by (force simp: map_le_def dom_def)

end

lemma mem_look_evict: "map_of (evict n es) h = Some v \<Longrightarrow> map_of es h = Some v"
  by (auto simp: evict_def split: if_splits option.splits)

interpretation memory: query_store mem_look mem_put mem_remove
proof
  show "if h = cq_hash q then r = q else mem_look s h = Some r" if "mem_look (mem_put q s) h = Some r" for q s h r
    using that by (auto simp: mem_look_def mem_put_def Let_def dest: mem_look_evict split: if_splits)
  show "h \<noteq> k \<and> mem_look s h = Some r" if "mem_look (mem_remove k s) h = Some r" for k s h r
    using that by (auto simp: mem_look_def mem_remove_def split: if_splits)
qed

lemma mem_get_look: "fst (mem_get h m) = mem_look m h" "mem_look (snd (mem_get h m)) = mem_look m"
  by (auto simp: mem_get_def mem_look_def fun_eq_iff split: option.split)

text \<open>Stores that do what they are documented to do.\<close>

definition lawful_files :: "('f, 't, 'a, 'd) cache_lib \<Rightarrow> bool" where
  "lawful_files L \<longleftrightarrow>
     (\<forall>f p t p'. fs_read L (snd (fs_write L f p t)) p' = (if p' = p then Some t else fs_read L f p')) \<and>
     (\<forall>f p p'. fs_read L (snd (fs_remove L f p)) p' = (if p' = p then None else fs_read L f p')) \<and>
     (\<forall>f p. fs_exists L f p = (fs_read L f p \<noteq> None)) \<and>
     (\<forall>q. \<exists>t. query_to_text L q = Some t \<and> query_from_text L t = Some q)"

definition lawful_collection :: "('f, 't, 'a, 'd) cache_lib \<Rightarrow> bool" where
  "lawful_collection L \<longleftrightarrow>
     (\<forall>a d q h. query_from_doc L d = Some q \<longrightarrow>
        coll_find_one L (coll_replace_one L a (hash_filter (cq_hash q)) d) (hash_filter h) =
          (if h = cq_hash q then Inr (Some d) else coll_find_one L a (hash_filter h))) \<and>
     (\<forall>a k h. coll_find_one L (coll_delete_one L a (hash_filter k)) (hash_filter h) =
        (if h = k then Inr None else coll_find_one L a (hash_filter h))) \<and>
     (\<forall>a cursor d q. coll_find L a [] = Inr cursor \<longrightarrow> AdvDoc (Some d) \<in> set cursor \<longrightarrow>
        query_from_doc L d = Some q \<longrightarrow> coll_find_one L a (hash_filter (cq_hash q)) = Inr (Some d)) \<and>
     (\<forall>q. \<exists>d. query_to_doc L q = Some d \<and> query_from_doc L d = Some q)"

lemma path_for_inj [simp]: "path_for dir h = path_for dir h' \<longleftrightarrow> h = h'"
  by (simp add: path_for_def)

lemma disk_get_put:
  "lawful_files L \<Longrightarrow> disk_get L (disk_put L q d) = (disk_get L d)(cq_hash q \<mapsto> q)"
  unfolding lawful_files_def disk_get_def disk_put_def fun_eq_iff
  by (auto split: option.split) (metis option.distinct(1) option.inject)+

lemma disk_get_remove:
  "lawful_files L \<Longrightarrow> disk_get L (disk_remove L k d) = (disk_get L d)(k := None)"
  unfolding lawful_files_def disk_get_def disk_remove_def fun_eq_iff by (auto simp: Let_def)

lemma disk_store:
  assumes "lawful_files L"
  shows "query_store (disk_get L) (disk_put L) (disk_remove L)"
  by unfold_locales (auto simp: disk_get_put [OF assms] disk_get_remove [OF assms] split: if_splits)

lemma atlas_get_put:
  assumes "lawful_collection L"
  shows "atlas_get L (atlas_put L q a) = (atlas_get L a)(cq_hash q \<mapsto> q)"
proof -
  obtain d where "query_to_doc L q = Some d" "query_from_doc L d = Some q"
    using assms unfolding lawful_collection_def by blast
  then show ?thesis
    using assms by (simp add: lawful_collection_def atlas_get_def atlas_put_def fun_eq_iff)
qed

lemma atlas_get_remove:
  "lawful_collection L \<Longrightarrow> atlas_get L (atlas_remove L k a) = (atlas_get L a)(k := None)"
  by (simp add: lawful_collection_def atlas_get_def atlas_remove_def fun_eq_iff)

lemma atlas_store:
  assumes "lawful_collection L"
  shows "query_store (atlas_get L) (atlas_put L) (atlas_remove L)"
  by unfold_locales (auto simp: atlas_get_put [OF assms] atlas_get_remove [OF assms] split: if_splits)

lemma load_docs_in: "q \<in> set (load_docs L cursor) \<Longrightarrow> \<exists>d. AdvDoc (Some d) \<in> set cursor \<and> query_from_doc L d = Some q"
  by (induction L cursor rule: load_docs.induct) (auto split: option.splits)

lemma load_all_in:
  assumes "lawful_collection L" and "q \<in> set (load_all L a)"
  shows "atlas_get L a (cq_hash q) = Some q"
proof -
  obtain cursor d where "coll_find L a [] = Inr cursor" "AdvDoc (Some d) \<in> set cursor" "query_from_doc L d = Some q"
    using assms(2) by (cases "coll_find L a []") (auto simp: load_all_def dest: load_docs_in)
  then show ?thesis
    using assms(1) by (fastforce simp: lawful_collection_def atlas_get_def)
qed

subsection \<open>The hierarchy is a map\<close>

text \<open>
  The state represents a map whose entries stand under their own hash: no level contradicts
  it and the last level there is equals it.
\<close>

definition represents ::
  "('f, 't, 'a, 'd) cache_lib \<Rightarrow> (string \<Rightarrow> compiled_query option) \<Rightarrow> ('f, 'a) cache_hierarchy \<Rightarrow> bool" where
  "represents L A s \<longleftrightarrow>
     (\<forall>h q. A h = Some q \<longrightarrow> cq_hash q = h) \<and> mem_look (l1 s) \<subseteq>\<^sub>m A \<and>
     (\<forall>d. l2 s = Some d \<longrightarrow> disk_get L d \<subseteq>\<^sub>m A \<and> (l3 s = None \<longrightarrow> disk_get L d = A)) \<and>
     (\<forall>a. l3 s = Some a \<longrightarrow> atlas_get L a = A)"

definition durable :: "('f, 'a) cache_hierarchy \<Rightarrow> bool" where
  "durable s \<longleftrightarrow> l2 s \<noteq> None \<or> l3 s \<noteq> None"

lemma represents_update [simp]:
  "represents L A (s\<lparr>l1 := m, l1_hits := n\<rparr>) = represents L A (s\<lparr>l1 := m\<rparr>)"
  "represents L A (s\<lparr>l1 := m, l1_misses := n\<rparr>) = represents L A (s\<lparr>l1 := m\<rparr>)"
  "represents L A (s\<lparr>l2_hits := n, l1 := m\<rparr>) = represents L A (s\<lparr>l1 := m\<rparr>)"
  "represents L A (s\<lparr>l2_misses := n\<rparr>) = represents L A s"
  "represents L A (s\<lparr>l3_hits := n\<rparr>) = represents L A s"
  "represents L A (s\<lparr>l3_misses := n\<rparr>) = represents L A s"
  by (simp_all add: represents_def)

lemma represents_l1: "represents L A s \<Longrightarrow> mem_look m \<subseteq>\<^sub>m A \<Longrightarrow> represents L A (s\<lparr>l1 := m\<rparr>)"
  by (simp add: represents_def)

lemma represents_put_l1_l2:
  assumes "lawful_files L" and "represents L A s" and "A (cq_hash q) = Some q"
  shows "represents L A (put_l1_l2 L q s)" and "durable (put_l1_l2 L q s) = durable s"
    and "l3 (put_l1_l2 L q s) = l3 s"
proof -
  have "disk_get L (disk_put L q d) = A" if "disk_get L d = A" for d
    using that assms(3) by (simp add: disk_get_put [OF assms(1)] fun_upd_idem)
  moreover have "disk_get L (disk_put L q d) \<subseteq>\<^sub>m A" if "disk_get L d \<subseteq>\<^sub>m A" for d
    by (rule query_store.put_again [OF disk_store [OF assms(1)] that assms(3)])
  moreover have "mem_look (mem_put q (l1 s)) \<subseteq>\<^sub>m A"
    using assms(2,3) unfolding represents_def by (blast intro: memory.put_again)
  ultimately show "represents L A (put_l1_l2 L q s)"
    using assms(2) by (cases "l2 s"; simp add: represents_def put_l1_l2_def)
qed (auto simp: put_l1_l2_def durable_def)

lemma look_l1_ok:
  assumes "represents L A s"
  shows "represents L A (snd (look_l1 h s))" and "durable (snd (look_l1 h s)) = durable s"
    and "fst (look_l1 h s) = Some q \<Longrightarrow> A h = Some q"
proof -
  have le: "mem_look (snd (mem_get h (l1 s))) \<subseteq>\<^sub>m A"
    using assms by (simp add: represents_def mem_get_look)
  show "represents L A (snd (look_l1 h s))" "durable (snd (look_l1 h s)) = durable s"
    using represents_l1 [OF assms le]
    by (auto simp: look_l1_def durable_def split: prod.split option.split)
  show "A h = Some q" if "fst (look_l1 h s) = Some q"
    using that assms mem_get_look(1) [of h "l1 s"] memory.le_look [of "l1 s" A h q]
    by (auto simp: look_l1_def represents_def split: prod.splits option.splits)
qed

lemma look_l2_ok:
  assumes "lawful_files L" and "represents L A s"
  shows "represents L A (snd (look_l2 L h s))" and "durable (snd (look_l2 L h s)) = durable s"
    and "fst (look_l2 L h s) = Some q \<Longrightarrow> A h = Some q"
    and "fst (look_l2 L h s) = None \<Longrightarrow> l2 s \<noteq> None \<Longrightarrow> l3 s = None \<Longrightarrow> A h = None"
    and "l3 (snd (look_l2 L h s)) = l3 s"
proof -
  have hit: "A h = Some r" if "l2 s = Some d" "disk_get L d h = Some r" for d r
    using that assms query_store.le_look [OF disk_store [OF assms(1)]] by (auto simp: represents_def)
  have "represents L A (s\<lparr>l1 := mem_put r (l1 s)\<rparr>)" if "l2 s = Some d" "disk_get L d h = Some r" for d r
  proof (rule represents_l1 [OF assms(2)], rule memory.put_again)
    show "mem_look (l1 s) \<subseteq>\<^sub>m A" "A (cq_hash r) = Some r"
      using assms(2) hit [OF that] by (auto simp: represents_def)
  qed
  then show "represents L A (snd (look_l2 L h s))"
    using assms(2) by (auto simp: look_l2_def split: option.split)
  show "A h = Some q" if "fst (look_l2 L h s) = Some q"
    using that hit by (auto simp: look_l2_def split: option.splits)
  show "A h = None" if "fst (look_l2 L h s) = None" "l2 s \<noteq> None" "l3 s = None"
    using that assms(2) by (auto simp: look_l2_def represents_def split: option.splits)
qed (auto simp: look_l2_def durable_def split: option.splits)

lemma look_l3_ok:
  assumes "lawful_files L" and "represents L A s"
  shows "represents L A (snd (look_l3 L h s))" and "durable (snd (look_l3 L h s)) = durable s"
    and "l3 s \<noteq> None \<Longrightarrow> fst (look_l3 L h s) = A h" and "l3 s = None \<Longrightarrow> fst (look_l3 L h s) = None"
proof -
  have hit: "A h = atlas_get L a h" if "l3 s = Some a" for a
    using that assms(2) by (simp add: represents_def)
  then have "represents L A (put_l1_l2 L r (s\<lparr>l3_hits := n\<rparr>))" if "l3 s = Some a" "atlas_get L a h = Some r" for a r n
    using that assms by (intro represents_put_l1_l2) (auto simp: represents_def)
  then show "represents L A (snd (look_l3 L h s))"
    using assms(2) by (auto simp: look_l3_def split: option.split)
  show "fst (look_l3 L h s) = A h" if "l3 s \<noteq> None"
    using that hit by (auto simp: look_l3_def split: option.split)
qed (auto simp: look_l3_def durable_def put_l1_l2_def split: option.splits)

datatype cache_op = CGet string | CPut compiled_query | CRemove string | CWarm

fun hierarchy_step ::
  "('f, 't, 'a, 'd) cache_lib \<Rightarrow> cache_op \<Rightarrow> ('f, 'a) cache_hierarchy \<Rightarrow> compiled_query option \<times> ('f, 'a) cache_hierarchy" where
  "hierarchy_step L (CGet h) s = hierarchy_get L h s"
| "hierarchy_step L (CPut q) s = (None, hierarchy_put L q s)"
| "hierarchy_step L (CRemove h) s = (None, hierarchy_remove L h s)"
| "hierarchy_step L CWarm s = (None, warm_from_atlas L s)"

fun map_step :: "cache_op \<Rightarrow> (string \<Rightarrow> compiled_query option) \<Rightarrow> compiled_query option \<times> (string \<Rightarrow> compiled_query option)" where
  "map_step (CGet h) A = (A h, A)"
| "map_step (CPut q) A = (None, A(cq_hash q \<mapsto> q))"
| "map_step (CRemove h) A = (None, A(h := None))"
| "map_step CWarm A = (None, A)"

text \<open>An answer is the map's; only a hierarchy of the memory alone may have forgotten it.\<close>

definition answer_ok :: "bool \<Rightarrow> compiled_query option \<Rightarrow> compiled_query option \<Rightarrow> bool" where
  "answer_ok kept ans spec \<longleftrightarrow> ans = spec \<or> (\<not> kept \<and> ans = None)"

lemma hierarchy_get_ok:
  assumes "lawful_files L" and "represents L A s"
  shows "represents L A (snd (hierarchy_get L h s)) \<and> durable (snd (hierarchy_get L h s)) = durable s \<and>
    answer_ok (durable s) (fst (hierarchy_get L h s)) (A h)"
proof (cases "look_l1 h s")
  case (Pair r s1)
  note l1 = look_l1_ok [OF assms(2), of h, unfolded Pair fst_conv snd_conv]
  show ?thesis
  proof (cases r)
    case (Some q)
    then show ?thesis using Pair l1 by (simp add: hierarchy_get_def answer_ok_def)
  next
    case None
    obtain r2 s2 where two: "look_l2 L h s1 = (r2, s2)" by fastforce
    note l2 = look_l2_ok [OF assms(1) l1(1), of h, unfolded two fst_conv snd_conv]
    note l3 = look_l3_ok [OF assms(1) l2(1), of h]
    have "answer_ok (durable s) (fst (look_l3 L h s2)) (A h)" if "r2 = None"
    proof (cases "l3 s1")
      case None
      then show ?thesis
        using that l1(2) l2(4,5) l3(4) by (auto simp: answer_ok_def durable_def)
    next
      case (Some a)
      then show ?thesis using l2(5) l3(3) by (simp add: answer_ok_def)
    qed
    then show ?thesis
      using Pair None two l1(2) l2(1-3) l3(1,2)
      by (cases r2) (auto simp: hierarchy_get_def answer_ok_def)
  qed
qed

lemma warm_ok:
  assumes "lawful_files L" and "represents L A s" and "\<forall>q \<in> set qs. A (cq_hash q) = Some q"
  shows "represents L A (fold (put_l1_l2 L) qs s) \<and> durable (fold (put_l1_l2 L) qs s) = durable s"
  using assms(2,3)
proof (induction qs arbitrary: s)
  case (Cons q qs)
  then show ?case
    using represents_put_l1_l2 [OF assms(1) Cons.prems(1), of q] by simp
qed simp

lemma hierarchy_put_ok:
  assumes "lawful_files L" and "lawful_collection L" and "represents L A s"
  shows "represents L (A(cq_hash q \<mapsto> q)) (hierarchy_put L q s)"
  using assms(3) memory.put_le [of "l1 s" A q] query_store.put_le [OF disk_store [OF assms(1)], of _ A q]
  by (cases "l2 s"; cases "l3 s"; simp add: represents_def hierarchy_put_def put_l1_l2_def
      disk_get_put [OF assms(1)] atlas_get_put [OF assms(2)])

lemma hierarchy_remove_ok:
  assumes "lawful_files L" and "lawful_collection L" and "represents L A s"
  shows "represents L (A(h := None)) (hierarchy_remove L h s)"
  using assms(3) memory.remove_le [of "l1 s" A h] query_store.remove_le [OF disk_store [OF assms(1)], of _ A h]
  by (cases "l2 s"; cases "l3 s"; simp add: represents_def hierarchy_remove_def
      disk_get_remove [OF assms(1)] atlas_get_remove [OF assms(2)])

lemma hierarchy_step_ok:
  assumes "lawful_files L" and "lawful_collection L" and "represents L A s"
  shows "represents L (snd (map_step x A)) (snd (hierarchy_step L x s)) \<and>
    durable (snd (hierarchy_step L x s)) = durable s \<and>
    answer_ok (durable s) (fst (hierarchy_step L x s)) (fst (map_step x A))"
proof (cases x)
  case (CGet h)
  then show ?thesis using hierarchy_get_ok [OF assms(1,3), of h] by simp
next
  case (CPut q)
  then show ?thesis
    using hierarchy_put_ok [OF assms] by (simp add: answer_ok_def durable_def hierarchy_put_def put_l1_l2_def)
next
  case (CRemove h)
  then show ?thesis
    using hierarchy_remove_ok [OF assms] by (simp add: answer_ok_def durable_def hierarchy_remove_def)
next
  case CWarm
  show ?thesis
  proof (cases "l3 s")
    case None
    then show ?thesis using CWarm assms(3) by (simp add: warm_from_atlas_def answer_ok_def)
  next
    case (Some a)
    then have "atlas_get L a = A" using assms(3) unfolding represents_def by blast
    then have "\<forall>q \<in> set (load_all L a). A (cq_hash q) = Some q"
      using load_all_in [OF assms(2)] by metis
    from warm_ok [OF assms(1,3) this] show ?thesis
      using CWarm Some by (simp add: warm_from_atlas_def answer_ok_def)
  qed
qed


definition sample_stores ::
  "(string \<Rightarrow> compiled_query option, compiled_query, (string \<times> compiled_query) list, compiled_query) cache_lib" where
  "sample_stores =
     \<lparr>fs_create_dir = \<lambda>f d. (True, f), fs_read = \<lambda>f p. f p, fs_write = \<lambda>f p t. (True, f(p \<mapsto> t)),
      fs_exists = \<lambda>f p. f p \<noteq> None, fs_remove = \<lambda>f p. (True, f(p := None)),
      query_to_text = Some, query_from_text = Some,
      coll_find_one = \<lambda>a flt. Inr (Option.bind (get_str flt ''hash'') (map_of a)),
      coll_replace_one = \<lambda>a flt d. (case get_str flt ''hash'' of None \<Rightarrow> a | Some h \<Rightarrow> hm_insert h d a),
      coll_delete_one = \<lambda>a flt. (case get_str flt ''hash'' of None \<Rightarrow> a | Some h \<Rightarrow> hm_remove h a),
      coll_find = \<lambda>a flt. Inr (map (\<lambda>e. AdvDoc (Some (snd e)))
        (filter (\<lambda>e. cq_hash (snd e) = fst e \<and> map_of a (fst e) = Some (snd e)) a)),
      query_to_doc = Some, query_from_doc = Some\<rparr>"

lemma sample_stores_lawful: "lawful_files sample_stores" "lawful_collection sample_stores"
  by (auto simp: lawful_files_def lawful_collection_def sample_stores_def hash_filter_def get_str_def)

definition sample_hierarchy where
  "sample_hierarchy = hierarchy_new sample_stores (Some []) (Some ''/cache'') Map.empty"

lemma sample_hierarchy_empty: "represents sample_stores Map.empty sample_hierarchy" "durable sample_hierarchy"
  by (simp_all add: sample_hierarchy_def represents_def durable_def hierarchy_new_def mem_look_def mem_new_def
      disk_new_def disk_get_def atlas_get_def sample_stores_def fun_eq_iff map_le_def split: option.split)

lemma answer_ok_kept: "answer_ok True = (=)"
  by (simp add: answer_ok_def fun_eq_iff)


end
