(* ===== verification/Translator.thy ===== *)
theory Translator
  imports Compiled_Cache Pipeline_Refs
begin

text \<open>
  Translation of intents into queries: the registry of templates
  (\<open>src/compiled/template_registry.rs\<close>), the extraction of a template from an intent
  (\<open>template.rs\<close>) and \<open>translate\<close> of \<open>translator.rs\<close>, which asks the caches, the registry
  and the language model in this order. The patterns of the sources are written out as
  scanners: a registered pattern is a list of literal texts with a lazy non-empty group
  between each two. \<open>translator_lib\<close> holds the digest, the reading of numbers, the JSON
  text of a value, the order in which a hash map is iterated, and whether a pattern is
  within the size limit of the regular expression library.
\<close>

record translator_lib =
  tl_query :: query_lib
  tl_sha :: "string \<Rightarrow> string"
  tl_number :: "string \<Rightarrow> json option"
  tl_render :: "json \<Rightarrow> string"
  tl_order :: "(string \<times> json) list \<Rightarrow> (string \<times> json) list"
  tl_fits :: "string \<Rightarrow> bool"

subsection \<open>Registered templates\<close>

text \<open>A literal text, and for every group its name and the literal text that follows it.\<close>

type_synonym pattern = "string \<times> string list"

record registered_template =
  rt_intent_pattern :: string
  rt_regex :: pattern
  rt_param_names :: "string list"
  rt_param_types :: "parameter_type list"
  rt_mql_pattern :: json
  rt_method :: string
  rt_database :: string
  rt_collection :: string

record template_match =
  tm_mql_json :: json
  tm_method :: string

text \<open>\<open>str::split\<close> at a non-empty separator.\<close>

function split_str :: "string \<Rightarrow> string \<Rightarrow> string list" where
  "split_str sep s =
     (case str_find sep s of
        None \<Rightarrow> [s]
      | Some i \<Rightarrow> if sep = [] then [s] else take i s # split_str sep (drop (i + length sep) s))"
  by pat_completeness auto
termination
proof (relation "measure (\<lambda>(sep, s). length s)")
  show "((sep, drop (i + length sep) s), sep, s) \<in> measure (\<lambda>(sep, s). length s)"
    if "str_find sep s = Some i" "sep \<noteq> []" for sep s i
    using that str_find_bound [OF that(1)] by (cases sep) auto
qed simp

declare split_str.simps [simp del]

definition group_of :: "string \<Rightarrow> (string \<times> string) option" where
  "group_of part =
     (case str_find ''}}'' part of None \<Rightarrow> None | Some i \<Rightarrow> Some (take i part, drop (i + 2) part))"

definition compile_pattern :: "translator_lib \<Rightarrow> string \<Rightarrow> pattern \<times> string list" where
  "compile_pattern T pattern =
     (let parts = split_str ''{{'' pattern;
          groups = List.map_filter group_of (tl parts) in
      (if tl_fits T pattern then (hd parts, map snd groups) else ([], []), map fst groups))"

text \<open>The first result of a function on the elements of a list.\<close>

fun first_some :: "('a \<Rightarrow> 'b option) \<Rightarrow> 'a list \<Rightarrow> 'b option" where
  "first_some f [] = None"
| "first_some f (x # xs) = (case f x of None \<Rightarrow> first_some f xs | Some y \<Rightarrow> Some y)"

text \<open>
  A lazy group takes as few characters as it can, one at least and no line feed, so that
  what follows matches up to the end.
\<close>

fun match_groups :: "string list \<Rightarrow> string \<Rightarrow> string list option" where
  "match_groups [] s = (if s = [] then Some [] else None)"
| "match_groups (lit # lits) s =
     first_some (\<lambda>k.
       if CHR 0x0A \<notin> set (take k s) \<and> prefix lit (drop k s)
       then map_option ((#) (take k s)) (match_groups lits (drop (k + length lit) s))
       else None) [1..<Suc (length s)]"

definition regex_captures :: "pattern \<Rightarrow> string \<Rightarrow> string list option" where
  "regex_captures p s =
     (case p of (lit, lits) \<Rightarrow> if prefix lit s then match_groups lits (drop (length lit) s) else None)"

definition register :: "translator_lib \<Rightarrow> llm_template \<Rightarrow> string \<Rightarrow> string \<Rightarrow> string \<Rightarrow>
    registered_template list \<Rightarrow> registered_template list" where
  "register T template m database collection templates =
     (case compile_pattern T (lt_intent_pattern template) of
        (regex, param_names) \<Rightarrow>
          templates @
            [\<lparr>rt_intent_pattern = lt_intent_pattern template, rt_regex = regex, rt_param_names = param_names,
              rt_param_types = map lp_type (lt_parameters template), rt_mql_pattern = lt_mql_pattern template,
              rt_method = m, rt_database = database, rt_collection = collection\<rparr>])"

definition capture_value :: "translator_lib \<Rightarrow> parameter_type option \<Rightarrow> string \<Rightarrow> json" where
  "capture_value T ty cap =
     (if ty = Some PNumber then (case tl_number T cap of Some n \<Rightarrow> n | None \<Rightarrow> JString cap) else JString cap)"

definition nth_opt :: "'a list \<Rightarrow> nat \<Rightarrow> 'a option" where
  "nth_opt xs i = (if i < length xs then Some (xs ! i) else None)"

definition capture_values :: "translator_lib \<Rightarrow> registered_template \<Rightarrow> string list \<Rightarrow> (string \<times> json) list" where
  "capture_values T t caps =
     foldl (\<lambda>vs (i, name).
       (case nth_opt caps i of
          None \<Rightarrow> vs
        | Some cap \<Rightarrow> doc_insert name (capture_value T (nth_opt (rt_param_types t) i) cap) vs))
       [] (enumerate 0 (rt_param_names t))"

fun substitution_text :: "(json \<Rightarrow> string) \<Rightarrow> json \<Rightarrow> string" where
  "substitution_text render (JString s) = s"
| "substitution_text render v = render v"

definition placeholder_of :: "string \<Rightarrow> string" where
  "placeholder_of name = ''{{'' @ name @ ''}}''"

definition inline_placeholders :: "translator_lib \<Rightarrow> (string \<times> json) list \<Rightarrow> string \<Rightarrow> string" where
  "inline_placeholders T values s =
     foldl (\<lambda>result (name, value).
       if str_contains result (placeholder_of name)
       then str_replace (placeholder_of name) (substitution_text (tl_render T) value) result
       else result) s (tl_order T values)"

definition substitute_string :: "translator_lib \<Rightarrow> (string \<times> json) list \<Rightarrow> string \<Rightarrow> json" where
  "substitute_string T values s =
     (case (if prefix ''{{'' s \<and> suffix ''}}'' s then doc_get values (take (length s - 4) (drop 2 s)) else None) of
        Some value \<Rightarrow> value
      | None \<Rightarrow> JString (inline_placeholders T values s))"

fun substitute_mql :: "translator_lib \<Rightarrow> json \<Rightarrow> (string \<times> json) list \<Rightarrow> json" where
  "substitute_mql T (JString s) values = substitute_string T values s"
| "substitute_mql T (JObject m) values = JObject (map (\<lambda>kv. (fst kv, substitute_mql T (snd kv) values)) m)"
| "substitute_mql T (JArray arr) values = JArray (map (\<lambda>v. substitute_mql T v values) arr)"
| "substitute_mql T v values = v"

fun try_match :: "translator_lib \<Rightarrow> registered_template list \<Rightarrow> string \<Rightarrow> string \<Rightarrow> string \<Rightarrow> template_match option" where
  "try_match T [] intent database collection = None"
| "try_match T (t # ts) intent database collection =
     (if rt_database t \<noteq> database \<or> rt_collection t \<noteq> collection then try_match T ts intent database collection
      else
        (case regex_captures (rt_regex t) intent of
           None \<Rightarrow> try_match T ts intent database collection
         | Some caps \<Rightarrow>
             Some \<lparr>tm_mql_json = substitute_mql T (rt_mql_pattern t) (capture_values T t caps),
                   tm_method = rt_method t\<rparr>))"

subsection \<open>Matching is exact\<close>

text \<open>The text that a pattern gives with values in its groups.\<close>

fun fill_groups :: "string list \<Rightarrow> string list \<Rightarrow> string" where
  "fill_groups (lit # lits) (v # vs) = v @ lit @ fill_groups lits vs"
| "fill_groups _ _ = []"

definition fill :: "pattern \<Rightarrow> string list \<Rightarrow> string" where
  "fill p vs = fst p @ fill_groups (snd p) vs"

definition group_value :: "string \<Rightarrow> bool" where
  "group_value v \<longleftrightarrow> v \<noteq> [] \<and> CHR 0x0A \<notin> set v"

lemma first_some_Some: "first_some f xs = Some y \<Longrightarrow> \<exists>x \<in> set xs. f x = Some y"
  by (induction xs) (auto split: option.splits)

lemma first_some_None: "first_some f xs = None \<longleftrightarrow> (\<forall>x \<in> set xs. f x = None)"
  by (induction xs) (auto split: option.splits)

lemma match_groups_sound:
  "match_groups lits s = Some vs \<Longrightarrow>
     length vs = length lits \<and> list_all group_value vs \<and> s = fill_groups lits vs"
proof (induction lits arbitrary: s vs)
  case (Cons lit lits)
  obtain k where k: "1 \<le> k" "k \<le> length s" "CHR 0x0A \<notin> set (take k s)" "prefix lit (drop k s)"
      and m: "map_option ((#) (take k s)) (match_groups lits (drop (k + length lit) s)) = Some vs"
    using first_some_Some [OF Cons.prems [unfolded match_groups.simps]] by (auto split: if_splits)
  then obtain ws where ws: "vs = take k s # ws" "match_groups lits (drop (k + length lit) s) = Some ws"
    by auto
  have "drop k s = lit @ drop (k + length lit) s"
    using k(4) by (auto simp: prefix_def) (metis append_eq_conv_conj drop_drop add.commute)
  then have "s = take k s @ lit @ drop (k + length lit) s"
    by (metis append_take_drop_id)
  moreover have "group_value (take k s)"
    using k by (cases s) (auto simp: group_value_def)
  ultimately show ?case using Cons.IH [OF ws(2)] ws(1) by auto
qed (auto split: if_splits)

lemma match_groups_complete:
  "length vs = length lits \<Longrightarrow> list_all group_value vs \<Longrightarrow> match_groups lits (fill_groups lits vs) \<noteq> None"
proof (induction lits arbitrary: vs)
  case (Cons lit lits)
  then obtain v ws where vs: "vs = v # ws" "length ws = length lits" "group_value v" "list_all group_value ws"
    by (cases vs) auto
  let ?s = "v @ lit @ fill_groups lits ws"
  have "1 \<le> length v"
    using vs(3) by (cases v) (simp_all add: group_value_def)
  then have "length v \<in> set [1..<Suc (length ?s)]"
    by (simp del: upt_Suc)
  moreover have "match_groups lits (fill_groups lits ws) \<noteq> None"
    using Cons.IH vs by simp
  ultimately show ?case
    using vs(1,3) by (auto simp: first_some_None group_value_def simp del: upt_Suc intro!: bexI [of _ "length v"])
qed simp

text \<open>The shorter value in the first group where two lists of values differ.\<close>

fun lazier :: "string list \<Rightarrow> string list \<Rightarrow> bool" where
  "lazier (v # vs) (w # ws) = (length v < length w \<or> length v = length w \<and> lazier vs ws)"
| "lazier _ _ = True"

lemma first_some_least:
  "first_some f [a..<b] = Some y \<Longrightarrow> \<exists>k. a \<le> k \<and> k < b \<and> f k = Some y \<and> (\<forall>j. a \<le> j \<longrightarrow> j < k \<longrightarrow> f j = None)"
proof (induction "b - a" arbitrary: a)
  case (Suc n)
  then have up: "[a..<b] = a # [Suc a..<b]" by (simp add: upt_conv_Cons)
  show ?case
  proof (cases "f a")
    case None
    then have "first_some f [Suc a..<b] = Some y" using Suc.prems up by simp
    then obtain k where "Suc a \<le> k" "k < b" "f k = Some y" "\<forall>j. Suc a \<le> j \<longrightarrow> j < k \<longrightarrow> f j = None"
      using Suc.hyps(1) [of "Suc a"] Suc.hyps(2) by (metis Suc_diff_Suc diff_Suc_Suc diff_Suc_1 zero_less_Suc zero_less_diff)
    then show ?thesis using None by (metis Suc_leD Suc_leI le_neq_implies_less)
  next
    case (Some z)
    then show ?thesis using Suc.prems up Suc.hyps(2) by (intro exI [of _ a]) auto
  qed
qed simp

lemma match_groups_lazy:
  "match_groups lits s = Some vs \<Longrightarrow> s = fill_groups lits ws \<Longrightarrow> length ws = length lits \<Longrightarrow>
   list_all group_value ws \<Longrightarrow> lazier vs ws"
proof (induction lits arbitrary: s vs ws)
  case (Cons lit lits)
  let ?f = "\<lambda>k. if CHR 0x0A \<notin> set (take k s) \<and> prefix lit (drop k s)
    then map_option ((#) (take k s)) (match_groups lits (drop (k + length lit) s)) else None"
  obtain w us where ws: "ws = w # us" "length us = length lits" "group_value w" "list_all group_value us"
    using Cons.prems by (cases ws) auto
  have fs: "first_some ?f [1..<Suc (length s)] = Some vs"
    using Cons.prems(1) by (simp only: match_groups.simps)
  obtain k where k: "1 \<le> k" "k < Suc (length s)" "?f k = Some vs" and
      least: "\<forall>j. 1 \<le> j \<longrightarrow> j < k \<longrightarrow> ?f j = None"
    using first_some_least [OF fs] by blast
  have s: "s = w @ lit @ fill_groups lits us" using Cons.prems(2) ws(1) by simp
  have "?f (length w) \<noteq> None"
    using match_groups_complete [OF ws(2,4)] ws(3) by (simp add: s group_value_def)
  moreover have "1 \<le> length w" using ws(3) by (cases w) (simp_all add: group_value_def)
  ultimately have le: "k \<le> length w" using least by (meson not_le)
  obtain us' where vs: "vs = take k s # us'" "match_groups lits (drop (k + length lit) s) = Some us'"
    using k(3) by (auto split: if_splits)
  show ?case
  proof (cases "k = length w")
    case True
    then show ?thesis
      using vs ws s Cons.IH [OF vs(2), of us] by simp
  next
    case False
    then show ?thesis using le k(2) vs ws(1) by simp
  qed
qed simp



subsection \<open>Registered templates are found again\<close>

definition pattern_text :: "string \<Rightarrow> (string \<times> string) list \<Rightarrow> string" where
  "pattern_text lit gs = lit @ concat (map (\<lambda>(name, after). ''{{'' @ name @ ''}}'' @ after) gs)"

lemma str_find_at: "c \<notin> set xs \<Longrightarrow> str_find (c # p) (xs @ c # p @ ys) = Some (length xs)"
  by (induction xs) auto

lemma str_find_absent: "c \<notin> set xs \<Longrightarrow> str_find (c # p) xs = None"
  by (induction xs) auto

lemma split_pattern_text:
  "CHR 0x7B \<notin> set lit \<Longrightarrow> list_all (\<lambda>(name, after). CHR 0x7B \<notin> set name \<union> set after) gs \<Longrightarrow>
   split_str ''{{'' (pattern_text lit gs) = lit # map (\<lambda>(name, after). name @ ''}}'' @ after) gs"
proof (induction gs arbitrary: lit)
  case Nil
  then show ?case
    using str_find_absent [of "CHR 0x7B" lit "''{''"] by (subst split_str.simps) (simp add: pattern_text_def)
next
  case (Cons g gs)
  obtain name after where g: "g = (name, after)" by fastforce
  let ?rest = "pattern_text (name @ ''}}'' @ after) gs"
  have unfold_text: "pattern_text lit (g # gs) = lit @ ''{{'' @ ?rest"
    by (simp add: pattern_text_def g)
  have "str_find ''{{'' (lit @ ''{{'' @ ?rest) = Some (length lit)"
    using str_find_at [of "CHR 0x7B" lit "''{''" ?rest] Cons.prems(1) by simp
  then have "split_str ''{{'' (lit @ ''{{'' @ ?rest) = lit # split_str ''{{'' ?rest"
    by (subst split_str.simps) simp
  also have "split_str ''{{'' ?rest = (name @ ''}}'' @ after) # map (\<lambda>(name, after). name @ ''}}'' @ after) gs"
    using Cons.prems(2) g by (intro Cons.IH) auto
  finally show ?case unfolding unfold_text by (simp add: g)
qed

lemma group_of_text: "CHR 0x7D \<notin> set name \<Longrightarrow> group_of (name @ ''}}'' @ after) = Some (name, after)"
  using str_find_at [of "CHR 0x7D" name "''}''" after] by (simp add: group_of_def)

definition braceless :: "string \<Rightarrow> bool" where
  "braceless s \<longleftrightarrow> CHR 0x7B \<notin> set s \<and> CHR 0x7D \<notin> set s"

lemma compile_pattern_text:
  assumes "tl_fits T (pattern_text lit gs)" and "braceless lit"
    and "list_all (\<lambda>(name, after). braceless name \<and> braceless after) gs"
  shows "compile_pattern T (pattern_text lit gs) = ((lit, map snd gs), map fst gs)"
proof -
  have "List.map_filter group_of (map (\<lambda>(name, after). name @ ''}}'' @ after) gs) = gs"
    using assms(3) by (induction gs) (auto simp: group_of_text braceless_def simp del: append.simps)
  moreover have "split_str ''{{'' (pattern_text lit gs) = lit # map (\<lambda>(name, after). name @ ''}}'' @ after) gs"
    using assms(2,3) by (intro split_pattern_text) (auto simp: braceless_def list_all_iff)
  ultimately show ?thesis
    using assms(1) by (simp add: compile_pattern_def Let_def)
qed

lemma try_match_append:
  "try_match T ts intent database collection = None \<Longrightarrow>
   try_match T (ts @ ts') intent database collection = try_match T ts' intent database collection"
  by (induction T ts intent database collection rule: try_match.induct) (auto split: if_splits option.splits)

text \<open>
  A registered template is found again: for an intent that is its pattern with
  values, on its database and collection and with no earlier template that matches, the
  registry answers with the method it was registered with and with its query, whose
  placeholders are substituted by captures that give back the intent.
\<close>

theorem registered_template_matches:
  assumes "lt_intent_pattern template = pattern_text lit gs" and "tl_fits T (pattern_text lit gs)"
    and "braceless lit" and "list_all (\<lambda>(name, after). braceless name \<and> braceless after) gs"
    and "length vs = length gs" and "list_all group_value vs"
    and "try_match T ts (fill (lit, map snd gs) vs) database collection = None"
  shows "\<exists>caps. length caps = length gs \<and> list_all group_value caps \<and>
    fill (lit, map snd gs) caps = fill (lit, map snd gs) vs \<and>
    try_match T (register T template m database collection ts) (fill (lit, map snd gs) vs) database collection =
      Some \<lparr>tm_mql_json = substitute_mql T (lt_mql_pattern template)
              (capture_values T (last (register T template m database collection ts)) caps),
            tm_method = m\<rparr>"
proof -
  let ?p = "(lit, map snd gs)" and ?s = "fill (lit, map snd gs) vs"
  have reg: "register T template m database collection ts =
      ts @ [\<lparr>rt_intent_pattern = lt_intent_pattern template, rt_regex = ?p, rt_param_names = map fst gs,
        rt_param_types = map lp_type (lt_parameters template), rt_mql_pattern = lt_mql_pattern template,
        rt_method = m, rt_database = database, rt_collection = collection\<rparr>]"
    by (simp add: register_def assms(1) compile_pattern_text [OF assms(2-4)])
  have "match_groups (map snd gs) (fill_groups (map snd gs) vs) \<noteq> None"
    using assms(5,6) by (intro match_groups_complete) simp_all
  then obtain caps where caps: "match_groups (map snd gs) (fill_groups (map snd gs) vs) = Some caps" by auto
  then have "regex_captures ?p ?s = Some caps" by (simp add: regex_captures_def fill_def)
  then have "try_match T (register T template m database collection ts) ?s database collection =
      Some \<lparr>tm_mql_json = substitute_mql T (lt_mql_pattern template)
              (capture_values T (last (register T template m database collection ts)) caps),
            tm_method = m\<rparr>"
    by (simp add: reg try_match_append [OF assms(7)])
  with match_groups_sound [OF caps] show ?thesis by (auto simp: fill_def)
qed

definition sample_lib :: translator_lib where
  "sample_lib =
     \<lparr>tl_query = \<lparr>json_from_text = \<lambda>t. Inr (JObject [(''filter'', JObject [])]),
        json_to_document = \<lambda>j. Inr [], template_from_json = \<lambda>j. None\<rparr>,
      tl_sha = \<lambda>t. t, tl_number = \<lambda>t. None, tl_render = \<lambda>j. [], tl_order = \<lambda>vs. vs, tl_fits = \<lambda>p. True\<rparr>"

definition sample_template :: llm_template where
  "sample_template =
     \<lparr>lt_intent_pattern = ''find {{what}} in {{city}}'', lt_parameters = [],
      lt_mql_pattern = JObject [(''filter'', JString ''{{what}}'')]\<rparr>"

theorem registered_template_matches_witness:
  "try_match sample_lib (register sample_lib sample_template ''filter'' ''d'' ''c'' []) ''find bars in Rome'' ''d'' ''c'' \<noteq> None"
proof -
  let ?gs = "[(''what'', '' in ''), (''city'', [])]"
  have "lt_intent_pattern sample_template = pattern_text ''find '' ?gs"
    by (simp add: sample_template_def pattern_text_def)
  moreover have "fill (''find '', map snd ?gs) [''bars'', ''Rome''] = ''find bars in Rome''" by (simp add: fill_def)
  ultimately show ?thesis
    using registered_template_matches [of sample_template "''find ''" ?gs sample_lib "[''bars'', ''Rome'']" "[]" "''d''" "''c''" "''filter''"]
    by (auto simp: sample_lib_def braceless_def group_value_def)
qed

subsection \<open>Templates in intents\<close>

text \<open>
  The three patterns of \<open>extract\<close> find decimal numbers after a dollar sign, decimal numbers
  between word boundaries and quoted texts. \<open>decimal\<close> is the longest match of digits with
  an optional fraction at the head of a text.
\<close>

definition digits_of :: "string \<Rightarrow> string" where
  "digits_of s = takeWhile is_digit s"

definition fraction_of :: "string \<Rightarrow> string" where
  "fraction_of s =
     (if take 1 s = ''.'' \<and> digits_of (drop 1 s) \<noteq> [] then CHR ''.'' # digits_of (drop 1 s) else [])"

definition is_word :: "char \<Rightarrow> bool" where
  "is_word c \<longleftrightarrow> is_ascii_alpha c \<or> is_digit c \<or> c = CHR ''_''"

definition word_ends :: "string \<Rightarrow> bool" where
  "word_ends rest \<longleftrightarrow> (case rest of [] \<Rightarrow> True | c # _ \<Rightarrow> \<not> is_word c)"

text \<open>What each pattern matches at the head of a text, given whether a word character comes before.\<close>

definition match_price :: "bool \<Rightarrow> string \<Rightarrow> string option" where
  "match_price before s =
     (if take 1 s = ''$'' \<and> digits_of (drop 1 s) \<noteq> [] then
        (let ds = digits_of (drop 1 s) in Some (''$'' @ ds @ fraction_of (drop (1 + length ds) s)))
      else None)"

definition match_number :: "bool \<Rightarrow> string \<Rightarrow> string option" where
  "match_number before s =
     (let ds = digits_of s;
          fr = fraction_of (drop (length ds) s) in
      if before \<or> ds = [] then None
      else if word_ends (drop (length ds + length fr) s) then Some (ds @ fr)
      else if word_ends (drop (length ds) s) then Some ds
      else None)"

definition is_quote :: "char \<Rightarrow> bool" where
  "is_quote c \<longleftrightarrow> c = CHR 0x22 \<or> c = CHR 0x27"

definition match_quoted :: "bool \<Rightarrow> string \<Rightarrow> string option" where
  "match_quoted before s =
     (case s of
        [] \<Rightarrow> None
      | c # r \<Rightarrow>
          (let inner = takeWhile (\<lambda>c. \<not> is_quote c) r in
           if is_quote c \<and> inner \<noteq> [] \<and> length inner < length r
           then Some (take (length inner + 2) s) else None))"

text \<open>\<open>captures_iter\<close>: the matches from the left, without overlaps.\<close>

function matches :: "(bool \<Rightarrow> string \<Rightarrow> string option) \<Rightarrow> bool \<Rightarrow> string \<Rightarrow> string list" where
  "matches m before [] = []"
| "matches m before (c # s) =
     (case m before (c # s) of
        Some (d # w) \<Rightarrow> (d # w) # matches m (is_word (last (d # w))) (drop (length w) s)
      | _ \<Rightarrow> matches m (is_word c) s)"
  by pat_completeness auto
termination
  by (relation "measure (\<lambda>(m, before, s). length s)") auto

definition replacen1 :: "string \<Rightarrow> string \<Rightarrow> string \<Rightarrow> string" where
  "replacen1 s pat new =
     (case str_find pat s of None \<Rightarrow> s | Some i \<Rightarrow> take i s @ new @ drop (i + length pat) s)"

type_synonym extraction = "string \<times> template_parameter list"

definition add_parameter :: "string \<Rightarrow> parameter_type \<Rightarrow> string \<Rightarrow> extraction \<Rightarrow> extraction" where
  "add_parameter tag ty full e =
     (case e of (pattern, parameters) \<Rightarrow>
        (let name = tag @ ''_'' @ show_nat (length parameters);
             placeholder = ''{'' @ name @ ''}'' in
         (replacen1 pattern full placeholder,
          parameters @ [\<lparr>tp_name = name, tp_placeholder = placeholder, tp_type = ty\<rparr>])))"

definition extract_prices :: "string \<Rightarrow> extraction \<Rightarrow> extraction" where
  "extract_prices intent e = fold (add_parameter ''price'' PNumber) (matches match_price False intent) e"

definition extract_numbers :: "extraction \<Rightarrow> extraction" where
  "extract_numbers e =
     (let current = fst e in
      fold (\<lambda>full e. if str_contains (fst e) full \<and> \<not> str_contains current (''{'' @ full)
                    then add_parameter ''num'' PNumber full e else e)
        (matches match_number False current) e)"

definition extract_quoted :: "extraction \<Rightarrow> extraction" where
  "extract_quoted e =
     (let current = fst e in
      fold (\<lambda>full e. if str_contains (fst e) full then add_parameter ''str'' PString full e else e)
        (matches match_quoted False current) e)"

definition extract_template :: "string \<Rightarrow> query_template option" where
  "extract_template intent =
     (case extract_quoted (extract_numbers (extract_prices intent (intent, []))) of
        (pattern, parameters) \<Rightarrow>
          if parameters = [] then None else Some \<lparr>qt_pattern = pattern, qt_parameters = parameters\<rparr>)"

text \<open>
  The parameters are numbered through, whatever they are; but a number is replaced where its
  digits occur first, which may be inside an earlier placeholder.
\<close>

definition numbered :: "extraction \<Rightarrow> bool" where
  "numbered e \<longleftrightarrow>
     (\<forall>i < length (snd e). \<exists>tag \<in> {''price'', ''num'', ''str''}.
        tp_name (snd e ! i) = tag @ ''_'' @ show_nat i \<and>
        tp_placeholder (snd e ! i) = ''{'' @ tp_name (snd e ! i) @ ''}'')"

lemma numbered_add: "tag \<in> {''price'', ''num'', ''str''} \<Longrightarrow> numbered e \<Longrightarrow> numbered (add_parameter tag ty full e)"
  by (auto simp: numbered_def add_parameter_def Let_def nth_append less_Suc_eq split: prod.split)

lemma numbered_fold:
  "(\<And>x e. numbered e \<Longrightarrow> numbered (f x e)) \<Longrightarrow> numbered e \<Longrightarrow> numbered (fold f xs e)"
  by (induction xs arbitrary: e) auto

lemma parameters_numbered:
  assumes "extract_template intent = Some t"
  shows "numbered (qt_pattern t, qt_parameters t)"
proof -
  have "numbered (intent, [])" by (simp add: numbered_def)
  then have "numbered (extract_quoted (extract_numbers (extract_prices intent (intent, []))))"
    unfolding extract_quoted_def extract_numbers_def extract_prices_def Let_def
    by (intro numbered_fold) (simp_all add: numbered_add)
  with assms show ?thesis
    by (auto simp: extract_template_def split: prod.splits if_splits)
qed

lemma number_replaced_inside_placeholder:
  "map_option qt_pattern (extract_template ''in $5 find 0'') = Some ''in {price_{num_1}} find 0''"
  by code_simp

subsection \<open>Translation\<close>

text \<open>
  Of the analytics the translator keeps whether they are on and which calls of the model
  were recorded, by their success.
\<close>

record ('f, 'a) translator =
  tr_cache :: "('f, 'a) cache_hierarchy"
  tr_registry :: "registered_template list"
  tr_calls :: "bool list option"

type_synonym 'ctx provider = "string \<Rightarrow> string \<Rightarrow> string \<Rightarrow> 'ctx \<Rightarrow> llm_error + string"

definition compiled_of ::
  "string \<Rightarrow> string \<Rightarrow> string \<Rightarrow> string \<Rightarrow> compiled_mql \<Rightarrow> llm_template option \<Rightarrow> i64 \<Rightarrow> compiled_query" where
  "compiled_of h intent database collection mql tmpl now =
     \<lparr>cq_hash = h, cq_intent = intent, cq_collection = collection, cq_database = database, cq_mql = mql,
      cq_template = extract_template intent, cq_llm_template = tmpl, cq_created_at = now\<rparr>"

definition store_compiled ::
  "('f, 't, 'a, 'd) cache_lib \<Rightarrow> compiled_query \<Rightarrow> ('f, 'a) translator \<Rightarrow> ('f, 'a) translator" where
  "store_compiled L q s = s\<lparr>tr_cache := hierarchy_put L q (tr_cache s)\<rparr>"

definition translate_template :: "translator_lib \<Rightarrow> template_match \<Rightarrow> translate_error + compiled_mql" where
  "translate_template T tm =
     rbind (parse_method_response (tl_query T) (tm_mql_json tm) (tm_method tm)) (\<lambda>mql.
     rbind (validate_mql mql) (\<lambda>_. Inr mql))"

definition translate_answer ::
  "translator_lib \<Rightarrow> llm_error + string \<Rightarrow> translate_error + (compiled_mql \<times> llm_template option)" where
  "translate_answer T result =
     rbind (map_err Llm result) (\<lambda>response.
     rbind (parse_llm_response (tl_query T) response) (\<lambda>parsed.
     rbind (validate_mql (fst parsed)) (\<lambda>_. Inr parsed)))"

text \<open>The three ways of a translation: the language model, then the registry, then the caches.\<close>

definition translate_llm ::
  "translator_lib \<Rightarrow> ('f, 't, 'a, 'd) cache_lib \<Rightarrow> 'ctx provider \<Rightarrow> i64 \<Rightarrow> string \<Rightarrow>
   string \<Rightarrow> string \<Rightarrow> string \<Rightarrow> 'ctx \<Rightarrow> ('f, 'a) translator \<Rightarrow>
   (translate_error + compiled_query) \<times> ('f, 'a) translator" where
  "translate_llm T L p now h intent database collection context s =
     (let result = p intent database collection context;
          s = s\<lparr>tr_calls := map_option (\<lambda>calls. calls @ [\<not> isl result]) (tr_calls s)\<rparr> in
      case translate_answer T result of
        Inl e \<Rightarrow> (Inl e, s)
      | Inr (mql, tmpl) \<Rightarrow>
          (let s = (case tmpl of
                      None \<Rightarrow> s
                    | Some t \<Rightarrow>
                        s\<lparr>tr_registry := register T t (mql_method mql) database collection (tr_registry s)\<rparr>);
               compiled = compiled_of h intent database collection mql tmpl now in
           (Inr compiled, store_compiled L compiled s)))"

definition translate_miss ::
  "translator_lib \<Rightarrow> ('f, 't, 'a, 'd) cache_lib \<Rightarrow> 'ctx provider option \<Rightarrow> i64 \<Rightarrow> string \<Rightarrow>
   string \<Rightarrow> string \<Rightarrow> string \<Rightarrow> 'ctx \<Rightarrow> ('f, 'a) translator \<Rightarrow>
   (translate_error + compiled_query) \<times> ('f, 'a) translator" where
  "translate_miss T L provider now h intent database collection context s =
     (case try_match T (tr_registry s) intent database collection of
        Some tm \<Rightarrow>
          (case translate_template T tm of
             Inl e \<Rightarrow> (Inl e, s)
           | Inr mql \<Rightarrow>
               (let compiled = compiled_of h intent database collection mql None now in
                (Inr compiled, store_compiled L compiled s)))
      | None \<Rightarrow>
          (case provider of
             None \<Rightarrow> (Inl NoProvider, s)
           | Some p \<Rightarrow> translate_llm T L p now h intent database collection context s))"

definition translate ::
  "translator_lib \<Rightarrow> ('f, 't, 'a, 'd) cache_lib \<Rightarrow> 'ctx provider option \<Rightarrow> i64 \<Rightarrow>
   string \<Rightarrow> string \<Rightarrow> string \<Rightarrow> 'ctx \<Rightarrow> ('f, 'a) translator \<Rightarrow>
   (translate_error + compiled_query) \<times> ('f, 'a) translator" where
  "translate T L provider now intent database collection context s =
     (let h = query_hash (tl_sha T) intent database collection None in
      case hierarchy_get L h (tr_cache s) of
        (Some cached, c) \<Rightarrow> (Inr cached, s\<lparr>tr_cache := c\<rparr>)
      | (None, c) \<Rightarrow>
          translate_miss T L provider now h intent database collection context (s\<lparr>tr_cache := c\<rparr>))"

subsection \<open>What a translation leaves behind\<close>

definition all_valid :: "(string \<Rightarrow> compiled_query option) \<Rightarrow> bool" where
  "all_valid A \<longleftrightarrow> (\<forall>h q. A h = Some q \<longrightarrow> validate_mql (cq_mql q) = Inr ())"

definition sound_state ::
  "('f, 't, 'a, 'd) cache_lib \<Rightarrow> ('f, 'a) translator \<Rightarrow> bool" where
  "sound_state L s \<longleftrightarrow> (\<exists>A. represents L A (tr_cache s) \<and> all_valid A)"

definition cached_at :: "string \<Rightarrow> compiled_query \<Rightarrow> ('f, 'a) translator \<Rightarrow> bool" where
  "cached_at h q s \<longleftrightarrow> mem_look (l1 (tr_cache s)) h = Some q"

lemma represents_keyed: "represents L A s \<Longrightarrow> A h = Some q \<Longrightarrow> cq_hash q = h"
  unfolding represents_def by blast

lemma mem_look_put [simp]: "mem_look (mem_put q m) (cq_hash q) = Some q"
  by (simp add: mem_look_def mem_put_def Let_def)

lemma hit_l1: "fst (look_l1 h s) = Some q \<Longrightarrow> mem_look (l1 (snd (look_l1 h s))) h = Some q"
  using mem_get_look [of h "l1 s"] by (auto simp: look_l1_def split: prod.splits option.splits)

lemma hit_l2: "fst (look_l2 L h s) = Some q \<Longrightarrow> cq_hash q = h \<Longrightarrow> mem_look (l1 (snd (look_l2 L h s))) h = Some q"
  by (auto simp: look_l2_def split: option.splits)

lemma hit_l3: "fst (look_l3 L h s) = Some q \<Longrightarrow> cq_hash q = h \<Longrightarrow> mem_look (l1 (snd (look_l3 L h s))) h = Some q"
  by (auto simp: look_l3_def put_l1_l2_def split: option.splits)

lemma hit_is_cached:
  assumes "lawful_files L" and "represents L A s" and "hierarchy_get L h s = (Some q, s')"
  shows "mem_look (l1 s') h = Some q"
proof -
  have "A h = Some q"
    using hierarchy_get_ok [OF assms(1,2), of h] assms(3) by (auto simp: answer_ok_def)
  then have key: "cq_hash q = h" using represents_keyed [OF assms(2)] by simp
  obtain r1 s1 r2 s2 where looks: "look_l1 h s = (r1, s1)" "look_l2 L h s1 = (r2, s2)" by fastforce
  show ?thesis
  proof (cases r1)
    case (Some q1)
    then show ?thesis using assms(3) looks hit_l1 [of h s q] by (simp add: hierarchy_get_def)
  next
    case None
    then show ?thesis
      using assms(3) looks hit_l2 [OF _ key, of L s1] hit_l3 [OF _ key, of L s2]
      by (cases r2) (simp_all add: hierarchy_get_def)
  qed
qed

lemma translate_template_valid: "translate_template T tm = Inr mql \<Longrightarrow> validate_mql mql = Inr ()"
  by (auto simp: translate_template_def result_simps)

lemma translate_answer_valid: "translate_answer T r = Inr (mql, tmpl) \<Longrightarrow> validate_mql mql = Inr ()"
  by (auto simp: translate_answer_def result_simps)

lemma sound_get:
  assumes "lawful_files L" and "sound_state L s" and "hierarchy_get L h (tr_cache s) = (r, c)"
  shows "sound_state L (s\<lparr>tr_cache := c\<rparr>)"
    and "r = Some q \<Longrightarrow> validate_mql (cq_mql q) = Inr () \<and> cq_hash q = h \<and> cached_at h q (s\<lparr>tr_cache := c\<rparr>)"
proof -
  obtain A where A: "represents L A (tr_cache s)" "all_valid A"
    using assms(2) by (auto simp: sound_state_def)
  note get = hierarchy_get_ok [OF assms(1) A(1), of h, unfolded assms(3) fst_conv snd_conv]
  with A(2) show "sound_state L (s\<lparr>tr_cache := c\<rparr>)" by (auto simp: sound_state_def)
  assume r: "r = Some q"
  then have "A h = Some q" using get by (simp add: answer_ok_def)
  then show "validate_mql (cq_mql q) = Inr () \<and> cq_hash q = h \<and> cached_at h q (s\<lparr>tr_cache := c\<rparr>)"
    using A represents_keyed [OF A(1)] hit_is_cached [OF assms(1) A(1)] assms(3) r
    by (auto simp: all_valid_def cached_at_def)
qed

lemma sound_store:
  assumes "lawful_files L" and "lawful_collection L" and "sound_state L s" and "validate_mql (cq_mql q) = Inr ()"
  shows "sound_state L (store_compiled L q s) \<and> cached_at (cq_hash q) q (store_compiled L q s)"
proof -
  obtain A where A: "represents L A (tr_cache s)" "all_valid A"
    using assms(3) by (auto simp: sound_state_def)
  have "all_valid (A(cq_hash q \<mapsto> q))" using A(2) assms(4) by (simp add: all_valid_def)
  with hierarchy_put_ok [OF assms(1,2) A(1), of q] show ?thesis
    by (auto simp: sound_state_def store_compiled_def cached_at_def hierarchy_put_def put_l1_l2_def)
qed

lemma sound_state_update [simp]:
  "sound_state L (s\<lparr>tr_calls := calls\<rparr>) = sound_state L s"
  "sound_state L (s\<lparr>tr_registry := reg\<rparr>) = sound_state L s"
  by (simp_all add: sound_state_def)

lemma compiled_of_simps [simp]:
  "cq_hash (compiled_of h i d c mql tmpl now) = h" "cq_mql (compiled_of h i d c mql tmpl now) = mql"
  by (simp_all add: compiled_of_def)

text \<open>What every way gives: a sound state, and for an answer that it is valid and cached.\<close>

definition sound_answer ::
  "('f, 't, 'a, 'd) cache_lib \<Rightarrow> string \<Rightarrow> (translate_error + compiled_query) \<times> ('f, 'a) translator \<Rightarrow> bool" where
  "sound_answer L h rs \<longleftrightarrow>
     (case rs of (r, s) \<Rightarrow>
        sound_state L s \<and>
        (case r of
           Inl _ \<Rightarrow> True
         | Inr q \<Rightarrow> validate_mql (cq_mql q) = Inr () \<and> cq_hash q = h \<and> cached_at h q s))"

lemma store_answer:
  assumes "lawful_files L" and "lawful_collection L" and "sound_state L s" and "validate_mql mql = Inr ()"
  shows "sound_answer L h (Inr (compiled_of h i d c mql tmpl now), store_compiled L (compiled_of h i d c mql tmpl now) s)"
  using sound_store [OF assms(1-3), of "compiled_of h i d c mql tmpl now"] assms(4) by (simp add: sound_answer_def)

lemma error_answer: "sound_state L s \<Longrightarrow> sound_answer L h (Inl e, s)"
  by (simp add: sound_answer_def)

lemma translate_llm_sound:
  assumes "lawful_files L" and "lawful_collection L" and "sound_state L s"
  shows "sound_answer L h (translate_llm T L p now h i d c ctx s)"
proof (cases "translate_answer T (p i d c ctx)")
  case (Inl e)
  then show ?thesis using assms(3) by (simp add: translate_llm_def Let_def error_answer)
next
  case (Inr parsed)
  obtain mql tmpl where parsed: "parsed = (mql, tmpl)" by fastforce
  then show ?thesis
    using Inr translate_answer_valid [of T] assms
    by (cases tmpl) (auto simp: translate_llm_def Let_def intro!: store_answer)
qed

lemma translate_miss_sound:
  assumes "lawful_files L" and "lawful_collection L" and "sound_state L s"
  shows "sound_answer L h (translate_miss T L provider now h i d c ctx s)"
proof (cases "try_match T (tr_registry s) i d c")
  case None
  then show ?thesis
    using assms by (cases provider) (simp_all add: translate_miss_def error_answer translate_llm_sound)
next
  case (Some tm)
  then show ?thesis
    using assms translate_template_valid [of T tm]
    by (cases "translate_template T tm") (simp_all add: translate_miss_def Let_def error_answer store_answer)
qed

lemma translate_sound:
  assumes "lawful_files L" and "lawful_collection L" and "sound_state L s"
  shows "sound_answer L (query_hash (tl_sha T) i d c None) (translate T L provider now i d c ctx s)"
proof -
  let ?h = "query_hash (tl_sha T) i d c None"
  obtain r k where get: "hierarchy_get L ?h (tr_cache s) = (r, k)" by fastforce
  note found = sound_get [OF assms(1,3) get]
  show ?thesis
  proof (cases r)
    case None
    then show ?thesis
      using get translate_miss_sound [OF assms(1,2) found(1)] by (simp add: translate_def Let_def)
  next
    case (Some q)
    then show ?thesis using get found by (simp add: translate_def Let_def sound_answer_def)
  qed
qed

text \<open>A request, with what the outside world adds to it: the model's answer and the time.\<close>

record 'ctx request =
  rq_intent :: string
  rq_database :: string
  rq_collection :: string
  rq_context :: 'ctx
  rq_provider :: "'ctx provider option"
  rq_now :: i64

definition serve_request ::
  "translator_lib \<Rightarrow> ('f, 't, 'a, 'd) cache_lib \<Rightarrow> 'ctx request \<Rightarrow> ('f, 'a) translator \<Rightarrow>
   (translate_error + compiled_query) \<times> ('f, 'a) translator" where
  "serve_request T L r s =
     translate T L (rq_provider r) (rq_now r) (rq_intent r) (rq_database r) (rq_collection r) (rq_context r) s"

definition valid_answer :: "translate_error + compiled_query \<Rightarrow> bool" where
  "valid_answer r = (case r of Inl _ \<Rightarrow> True | Inr q \<Rightarrow> validate_mql (cq_mql q) = Inr ())"

definition translator_new :: "('f, 'a) cache_hierarchy \<Rightarrow> bool \<Rightarrow> ('f, 'a) translator" where
  "translator_new cache analytics =
     \<lparr>tr_cache = cache, tr_registry = [], tr_calls = (if analytics then Some [] else None)\<rparr>"

lemma requests_sound:
  assumes "lawful_files L" and "lawful_collection L" and "sound_state L s"
  shows "list_all valid_answer (fst (run_ops (serve_request T L) rs s)) \<and>
    sound_state L (snd (run_ops (serve_request T L) rs s))"
  using assms(3)
proof (induction rs arbitrary: s)
  case (Cons r rs)
  have "sound_answer L (query_hash (tl_sha T) (rq_intent r) (rq_database r) (rq_collection r) None) (serve_request T L r s)"
    unfolding serve_request_def by (rule translate_sound [OF assms(1,2) Cons.prems])
  then have "valid_answer (fst (serve_request T L r s)) \<and> sound_state L (snd (serve_request T L r s))"
    by (auto simp: sound_answer_def valid_answer_def split: prod.splits sum.splits)
  with Cons.IH [of "snd (serve_request T L r s)"] show ?case by (simp add: case_prod_beta)
qed simp


definition sample_request :: "unit request" where
  "sample_request =
     \<lparr>rq_intent = ''all'', rq_database = ''d'', rq_collection = ''c'', rq_context = (),
      rq_provider = Some (\<lambda>i d c x. Inr ''{}''), rq_now = 0\<rparr>"


text \<open>
  A request that was answered is answered with the same query when it is repeated, at
  whatever time and without asking the language model again.
\<close>

theorem repeated_request_is_cached:
  assumes "lawful_files L" and "lawful_collection L" and "sound_state L s"
    and "translate T L provider now i d c ctx s = (Inr q, s')"
  shows "\<exists>s''. translate T L provider' now' i d c ctx' s' = (Inr q, s'') \<and> tr_calls s'' = tr_calls s'"
proof -
  let ?h = "query_hash (tl_sha T) i d c None"
  have "cached_at ?h q s'"
    using translate_sound [OF assms(1-3), of T i d c provider now ctx] assms(4) by (simp add: sound_answer_def)
  then obtain k where "hierarchy_get L ?h (tr_cache s') = (Some q, k)"
    using mem_get_look(1) [of ?h "l1 (tr_cache s')"]
    by (cases "mem_get ?h (l1 (tr_cache s'))") (simp add: cached_at_def hierarchy_get_def look_l1_def)
  then show ?thesis by (simp add: translate_def Let_def)
qed

lemma sample_answer: "translate_answer sample_lib (Inr ''{}'') = Inr (MqlFind [] None, None)"
  by (simp add: translate_answer_def parse_llm_response_def sample_lib_def response_method_def
      parse_method_response_def parse_filter_def json_doc_field_def validate_filter_def
      check_dangerous_operators_def)

lemma sample_lookup: "fst (hierarchy_get sample_stores h sample_hierarchy) = None"
  using hierarchy_get_ok [OF sample_stores_lawful(1) sample_hierarchy_empty(1), of h] by (auto simp: answer_ok_def)

theorem repeated_request_is_cached_witness:
  "\<exists>q s' s''. translate sample_lib sample_stores (Some (\<lambda>i d c x. Inr ''{}'')) 0 ''all'' ''d'' ''c'' ()
       (translator_new sample_hierarchy True) = (Inr q, s') \<and>
     translate sample_lib sample_stores None 7 ''all'' ''d'' ''c'' () s' = (Inr q, s'')"
proof -
  let ?s = "translator_new sample_hierarchy True"
  have sound: "sound_state sample_stores ?s"
    using sample_hierarchy_empty(1) by (auto simp: sound_state_def translator_new_def all_valid_def intro!: exI [of _ Map.empty])
  obtain q s' where first: "translate sample_lib sample_stores (Some (\<lambda>i d c x. Inr ''{}'')) 0 ''all'' ''d'' ''c'' () ?s = (Inr q, s')"
    using sample_lookup [of "query_hash (tl_sha sample_lib) ''all'' ''d'' ''c'' None"]
    by (cases "hierarchy_get sample_stores (query_hash (tl_sha sample_lib) ''all'' ''d'' ''c'' None) sample_hierarchy")
      (simp add: translate_def Let_def translate_miss_def translate_llm_def translator_new_def sample_answer)
  from repeated_request_is_cached [OF sample_stores_lawful sound first, of None 7 "()"] first show ?thesis by blast
qed

end
