(* ===== verification/Analytics.thy ===== *)
theory Analytics
  imports Mongo_Values "HOL-Library.Multiset" "HOL-Library.List_Lexorder" "HOL-Library.Char_ord"
begin

text \<open>
  Analytics, \<open>src/analytics/\<close>: events and the fingerprint of a filter (\<open>types.rs\<close>), the ring
  buffer (\<open>ring_buffer.rs\<close>), the collector (\<open>collector.rs\<close>), the summary of a list of events
  (\<open>aggregator.rs\<close>) and the snapshot that is written to the database (\<open>persistence.rs\<close>).
  Latencies are in nanoseconds. \<open>float_lib\<close> holds the floating-point operations of the
  summary: the quotient of two counts, a latency in milliseconds, and the rank of a
  percentile. A hash map is iterated in an order that the language leaves open (\<open>fl_order\<close>).
\<close>

subsection \<open>Events\<close>

datatype operation_kind =
    OkFind | OkFindOne | OkInsert | OkInsertMany | OkUpdate | OkUpdateMany | OkDelete | OkDeleteMany
  | OkFindAndModify | OkAggregate | OkSearch | OkWatch | OkRunCommand | OkBeginTransaction
  | OkCommitTransaction | OkAbortTransaction | OkCreateCollection | OkCreateIndex | OkListDatabases
  | OkListCollections | OkPipeline

record analytics_event =
  ev_operation :: operation_kind
  ev_database :: string
  ev_collection :: string
  ev_latency :: nat
  ev_success :: bool
  ev_timestamp :: nat
  ev_fingerprint :: "string option"
  ev_tenant_id :: "string option"
  ev_document_count :: "u64 option"

definition event_new :: "operation_kind \<Rightarrow> string \<Rightarrow> string \<Rightarrow> nat \<Rightarrow> bool \<Rightarrow> nat \<Rightarrow> analytics_event" where
  "event_new op database collection latency success now =
     \<lparr>ev_operation = op, ev_database = database, ev_collection = collection, ev_latency = latency,
      ev_success = success, ev_timestamp = now, ev_fingerprint = None, ev_tenant_id = None,
      ev_document_count = None\<rparr>"

record llm_call_event =
  lc_provider :: string
  lc_model :: string
  lc_tokens_in :: u32
  lc_tokens_out :: u32
  lc_latency :: nat
  lc_success :: bool
  lc_timestamp :: nat

record pipeline_event =
  pe_is_transaction :: bool
  pe_steps :: nat
  pe_latency :: nat
  pe_success :: bool
  pe_retries :: u32
  pe_timestamp :: nat

subsection \<open>Fingerprints\<close>

fun join :: "string \<Rightarrow> string list \<Rightarrow> string" where
  "join sep [] = []"
| "join sep [x] = x"
| "join sep (x # y # xs) = x @ sep @ join sep (y # xs)"

text \<open>
  The entries are sorted by key; as keys occur once, looking a key up again gives the
  value it came with.
\<close>

fun fingerprint_value :: "bson \<Rightarrow> string" where
  "fingerprint_value (BDocument doc) =
     ''{'' @ join '','' (map (\<lambda>kf. fst kf @ '':'' @ snd kf)
       (sort_key fst (map (\<lambda>kv. (fst kv, fingerprint_value (snd kv))) doc))) @ ''}''"
| "fingerprint_value (BArray arr) =
     (if arr = [] then ''[]'' else ''['' @ hd (map fingerprint_value arr) @ '']'')"
| "fingerprint_value (BDouble _) = ''Double''"
| "fingerprint_value (BString _) = ''String''"
| "fingerprint_value (BBinary _ _) = ''Binary''"
| "fingerprint_value (BObjectId _) = ''ObjectId''"
| "fingerprint_value (BBoolean _) = ''Boolean''"
| "fingerprint_value BNull = ''Null''"
| "fingerprint_value (BRegularExpression _ _) = ''Regex''"
| "fingerprint_value (BJavaScriptCode _) = ''JavaScript''"
| "fingerprint_value (BJavaScriptCodeWithScope _ _) = ''JavaScriptWithScope''"
| "fingerprint_value (BInt32 _) = ''Int32''"
| "fingerprint_value (BInt64 _) = ''Int64''"
| "fingerprint_value (BTimestamp _ _) = ''Timestamp''"
| "fingerprint_value (BDateTime _) = ''DateTime''"
| "fingerprint_value (BSymbol _) = ''Symbol''"
| "fingerprint_value (BDecimal128 _) = ''Decimal128''"
| "fingerprint_value BUndefined = ''Undefined''"
| "fingerprint_value BMaxKey = ''MaxKey''"
| "fingerprint_value BMinKey = ''MinKey''"
| "fingerprint_value (BDbPointer _ _) = ''DbPointer''"

definition from_document :: "document \<Rightarrow> string" where
  "from_document doc = fingerprint_value (BDocument doc)"

subsection \<open>Ring buffer and collector\<close>

record 'a ring_buffer =
  rb_buffer :: "'a list"
  rb_capacity :: nat

definition ring_new :: "nat \<Rightarrow> 'a ring_buffer" where
  "ring_new n = \<lparr>rb_buffer = [], rb_capacity = n\<rparr>"

definition ring_push :: "'a \<Rightarrow> 'a ring_buffer \<Rightarrow> 'a ring_buffer" where
  "ring_push x b =
     (let kept = (if rb_capacity b \<le> length (rb_buffer b) then tl (rb_buffer b) else rb_buffer b) in
      b\<lparr>rb_buffer := kept @ [x]\<rparr>)"

definition ring_len :: "'a ring_buffer \<Rightarrow> nat" where "ring_len b = length (rb_buffer b)"
definition ring_is_empty :: "'a ring_buffer \<Rightarrow> bool" where "ring_is_empty b = (ring_len b = 0)"
definition ring_snapshot :: "'a ring_buffer \<Rightarrow> 'a list" where "ring_snapshot b = rb_buffer b"

definition ring_drain :: "'a ring_buffer \<Rightarrow> 'a list \<times> 'a ring_buffer" where
  "ring_drain b = (rb_buffer b, b\<lparr>rb_buffer := []\<rparr>)"

record collector =
  ac_buffer :: "analytics_event ring_buffer"
  ac_total_ops :: u64
  ac_total_errors :: u64
  ac_llm_calls :: "llm_call_event list"
  ac_pipeline_events :: "pipeline_event list"

definition collector_new :: "nat \<Rightarrow> collector" where
  "collector_new n =
     \<lparr>ac_buffer = ring_new n, ac_total_ops = 0, ac_total_errors = 0, ac_llm_calls = [], ac_pipeline_events = []\<rparr>"

definition record_event :: "analytics_event \<Rightarrow> collector \<Rightarrow> collector" where
  "record_event ev c =
     c\<lparr>ac_total_ops := ac_total_ops c + 1,
       ac_total_errors := (if ev_success ev then ac_total_errors c else ac_total_errors c + 1),
       ac_buffer := ring_push ev (ac_buffer c)\<rparr>"

text \<open>A list that is kept to its last thousand entries.\<close>

definition push_capped :: "'a \<Rightarrow> 'a list \<Rightarrow> 'a list" where
  "push_capped x xs = (if 1000 \<le> length xs then tl xs else xs) @ [x]"

definition record_llm_call :: "llm_call_event \<Rightarrow> collector \<Rightarrow> collector" where
  "record_llm_call ev c = c\<lparr>ac_llm_calls := push_capped ev (ac_llm_calls c)\<rparr>"

definition record_pipeline :: "pipeline_event \<Rightarrow> collector \<Rightarrow> collector" where
  "record_pipeline ev c = c\<lparr>ac_pipeline_events := push_capped ev (ac_pipeline_events c)\<rparr>"

definition event_count :: "collector \<Rightarrow> nat" where "event_count c = ring_len (ac_buffer c)"
definition snapshot :: "collector \<Rightarrow> analytics_event list" where "snapshot c = ring_snapshot (ac_buffer c)"

subsection \<open>Summaries\<close>

text \<open>
  \<open>fl_rank p n\<close> is the integer part, upwards, of p hundredths of n, as the floating-point
  product gives it.
\<close>

record float_lib =
  fl_zero :: f64
  fl_ratio :: "nat \<Rightarrow> nat \<Rightarrow> f64"
  fl_millis :: "nat \<Rightarrow> f64"
  fl_rank :: "nat \<Rightarrow> nat \<Rightarrow> nat"
  fl_order :: "(string \<times> nat) list \<Rightarrow> (string \<times> nat) list"
  fl_kind_order :: "(operation_kind \<times> nat) list \<Rightarrow> (operation_kind \<times> nat) list"

record analytics_summary =
  su_total_operations :: nat
  su_total_errors :: nat
  su_error_rate :: f64
  su_p50 :: f64
  su_p95 :: f64
  su_p99 :: f64
  su_top_operations :: "(operation_kind \<times> nat) list"
  su_top_collections :: "(string \<times> nat) list"

text \<open>\<open>percentile\<close> on the sorted latencies; the conversion to milliseconds keeps their order.\<close>

definition percentile :: "float_lib \<Rightarrow> nat list \<Rightarrow> nat \<Rightarrow> nat option" where
  "percentile F sorted_latencies pct =
     (let n = length sorted_latencies in
      if n = 0 then None
      else if n = 1 then Some (sorted_latencies ! 0)
      else Some (sorted_latencies ! min (fl_rank F pct n - 1) (n - 1)))"

fun bump :: "'k \<Rightarrow> ('k \<times> nat) list \<Rightarrow> ('k \<times> nat) list" where
  "bump k [] = [(k, 1)]"
| "bump k ((k', n) # m) = (if k = k' then (k', Suc n) # m else (k', n) # bump k m)"

definition counts_of :: "'k list \<Rightarrow> ('k \<times> nat) list" where
  "counts_of ks = foldl (\<lambda>m k. bump k m) [] ks"

text \<open>Sorted by count, the largest first, in a stable way, and cut to ten.\<close>

definition top_ten :: "('k \<times> nat) list \<Rightarrow> ('k \<times> nat) list" where
  "top_ten m = take 10 (sort_key (\<lambda>kn. - int (snd kn)) m)"

definition collection_name :: "analytics_event \<Rightarrow> string" where
  "collection_name ev = ev_database ev @ ''.'' @ ev_collection ev"

definition millis_or_zero :: "float_lib \<Rightarrow> nat option \<Rightarrow> f64" where
  "millis_or_zero F x = (case x of None \<Rightarrow> fl_zero F | Some n \<Rightarrow> fl_millis F n)"

definition aggregate_events :: "float_lib \<Rightarrow> analytics_event list \<Rightarrow> analytics_summary" where
  "aggregate_events F events =
     (if events = [] then
        \<lparr>su_total_operations = 0, su_total_errors = 0, su_error_rate = fl_zero F, su_p50 = fl_zero F,
         su_p95 = fl_zero F, su_p99 = fl_zero F, su_top_operations = [], su_top_collections = []\<rparr>
      else
        (let errors = length (filter (\<lambda>e. \<not> ev_success e) events);
             latencies = sort (map ev_latency events) in
         \<lparr>su_total_operations = length events, su_total_errors = errors,
          su_error_rate = fl_ratio F errors (length events),
          su_p50 = millis_or_zero F (percentile F latencies 50),
          su_p95 = millis_or_zero F (percentile F latencies 95),
          su_p99 = millis_or_zero F (percentile F latencies 99),
          su_top_operations = top_ten (fl_kind_order F (counts_of (map ev_operation events))),
          su_top_collections = top_ten (fl_order F (counts_of (map collection_name events)))\<rparr>))"

subsection \<open>Snapshots in the database\<close>

fun kind_name :: "operation_kind \<Rightarrow> string" where
  "kind_name OkFind = ''Find''"
| "kind_name OkFindOne = ''FindOne''"
| "kind_name OkInsert = ''Insert''"
| "kind_name OkInsertMany = ''InsertMany''"
| "kind_name OkUpdate = ''Update''"
| "kind_name OkUpdateMany = ''UpdateMany''"
| "kind_name OkDelete = ''Delete''"
| "kind_name OkDeleteMany = ''DeleteMany''"
| "kind_name OkFindAndModify = ''FindAndModify''"
| "kind_name OkAggregate = ''Aggregate''"
| "kind_name OkSearch = ''Search''"
| "kind_name OkWatch = ''Watch''"
| "kind_name OkRunCommand = ''RunCommand''"
| "kind_name OkBeginTransaction = ''BeginTransaction''"
| "kind_name OkCommitTransaction = ''CommitTransaction''"
| "kind_name OkAbortTransaction = ''AbortTransaction''"
| "kind_name OkCreateCollection = ''CreateCollection''"
| "kind_name OkCreateIndex = ''CreateIndex''"
| "kind_name OkListDatabases = ''ListDatabases''"
| "kind_name OkListCollections = ''ListCollections''"
| "kind_name OkPipeline = ''Pipeline''"

definition count_i64 :: "nat \<Rightarrow> bson" where
  "count_i64 n = BInt64 (word_of_nat n)"

definition snapshot_document :: "analytics_summary \<Rightarrow> i64 \<Rightarrow> document" where
  "snapshot_document su now =
     [(''timestamp'', BDateTime now),
      (''total_operations'', count_i64 (su_total_operations su)),
      (''total_errors'', count_i64 (su_total_errors su)),
      (''error_rate'', BDouble (su_error_rate su)),
      (''p50_latency_ms'', BDouble (su_p50 su)),
      (''p95_latency_ms'', BDouble (su_p95 su)),
      (''p99_latency_ms'', BDouble (su_p99 su)),
      (''top_operations'', BArray (map (\<lambda>(op, n). BDocument [(''operation'', BString (kind_name op)), (''count'', count_i64 n)])
         (su_top_operations su))),
      (''top_collections'', BArray (map (\<lambda>(c, n). BDocument [(''collection'', BString c), (''count'', count_i64 n)])
         (su_top_collections su)))]"

text \<open>\<open>insert_one\<close> of the driver on the collection of snapshots is a parameter.\<close>

definition flush_snapshot ::
  "float_lib \<Rightarrow> (document \<Rightarrow> 'db \<Rightarrow> (string + unit) \<times> 'db) \<Rightarrow> i64 \<Rightarrow> collector \<Rightarrow> 'db \<Rightarrow> (mongo_error + unit) \<times> 'db" where
  "flush_snapshot F insert_one now c db =
     (if snapshot c = [] then (Inr (), db)
      else
        (case insert_one (snapshot_document (aggregate_events F (snapshot c)) now) db of
           (Inl e, db') \<Rightarrow> (Inl (OperationError (''Failed to insert analytics snapshot: '' @ e)), db')
         | (Inr _, db') \<Rightarrow> (Inr (), db')))"

subsection \<open>The ring buffer keeps the last events\<close>

definition last_n :: "nat \<Rightarrow> 'a list \<Rightarrow> 'a list" where
  "last_n n xs = drop (length xs - n) xs"

lemma ring_push_last:
  assumes "rb_buffer b = last_n (max 1 (rb_capacity b)) xs"
  shows "rb_buffer (ring_push x b) = last_n (max 1 (rb_capacity b)) (xs @ [x])"
proof -
  let ?m = "max 1 (rb_capacity b)"
  have tl: "tl (drop j xs) = drop (Suc j) xs" for j
    by (simp add: drop_Suc tl_drop)
  have len: "length (rb_buffer b) = min (length xs) ?m"
    using assms by (simp add: last_n_def)
  consider "?m \<le> length xs" | "length xs < ?m" "xs = []" | "length xs < ?m" "\<not> rb_capacity b \<le> length (rb_buffer b)"
    using len by (cases xs; cases "?m \<le> length xs") auto
  then show ?thesis
  proof cases
    case 1
    then have "rb_capacity b \<le> length (rb_buffer b)" using len by simp
    then show ?thesis
      using 1 by (simp add: ring_push_def assms last_n_def tl Suc_diff_le)
  qed (use assms in \<open>simp_all add: ring_push_def last_n_def\<close>)
qed

lemma record_events:
  "let c = fold record_event evs (collector_new n) in
     rb_buffer (ac_buffer c) = last_n (max 1 n) evs \<and> rb_capacity (ac_buffer c) = n \<and>
     ac_total_ops c = word_of_nat (length evs) \<and>
     ac_total_errors c = word_of_nat (length (filter (\<lambda>e. \<not> ev_success e) evs))"
proof (induction evs rule: rev_induct)
  case Nil
  then show ?case by (simp add: collector_new_def ring_new_def last_n_def)
next
  case (snoc ev evs)
  let ?c = "fold record_event evs (collector_new n)"
  have "rb_buffer (ring_push ev (ac_buffer ?c)) = last_n (max 1 n) (evs @ [ev])"
    using snoc ring_push_last [of "ac_buffer ?c" evs ev] by (simp add: Let_def)
  moreover have "rb_capacity (ring_push ev (ac_buffer ?c)) = n"
    using snoc by (simp add: Let_def ring_push_def)
  ultimately show ?case
    using snoc by (simp add: Let_def record_event_def [of ev] add.commute)
qed

text \<open>
  After any events the collector holds exactly the most recent ones in order, as many
  as its capacity (one where the capacity is zero), and its counters are the numbers of
  all events and of all failed ones, modulo 2^64.
\<close>

theorem collector_keeps_last:
  "snapshot (fold record_event evs (collector_new n)) = last_n (max 1 n) evs \<and>
   event_count (fold record_event evs (collector_new n)) = min (max 1 n) (length evs) \<and>
   ac_total_ops (fold record_event evs (collector_new n)) = word_of_nat (length evs) \<and>
   ac_total_errors (fold record_event evs (collector_new n)) = word_of_nat (length (filter (\<lambda>e. \<not> ev_success e) evs))"
  using record_events [of evs n] by (auto simp: Let_def snapshot_def ring_snapshot_def event_count_def ring_len_def last_n_def)

subsection \<open>Fingerprints depend on the shape only\<close>

text \<open>
  Two values have the same shape if they are documents with the same keys, in any order,
  and values of the same shape, arrays whose first items have, or scalars of one type.
\<close>

inductive same_shape :: "bson \<Rightarrow> bson \<Rightarrow> bool" where
  same_doc: "doc_ok d \<Longrightarrow> doc_ok d' \<Longrightarrow> fst ` set d = fst ` set d' \<Longrightarrow>
    \<forall>k v v'. map_of d k = Some v \<longrightarrow> map_of d' k = Some v' \<longrightarrow> same_shape v v' \<Longrightarrow>
    same_shape (BDocument d) (BDocument d')"
| same_empty: "same_shape (BArray []) (BArray [])"
| same_array: "same_shape x y \<Longrightarrow> same_shape (BArray (x # xs)) (BArray (y # ys))"
| same_scalar: "as_document v = None \<Longrightarrow> as_bson_array v = None \<Longrightarrow> fingerprint_value v = fingerprint_value w \<Longrightarrow>
    as_document w = None \<Longrightarrow> as_bson_array w = None \<Longrightarrow> same_shape v w"

lemma sort_by_key_unique:
  assumes "distinct (map fst xs)" and "distinct (map fst ys)" and "set xs = set ys"
  shows "sort_key fst xs = sort_key fst (ys :: (string \<times> 'v) list)"
proof (rule sort_key_inj_key_eq)
  have "mset xs = mset ys"
    using assms by (simp add: set_eq_iff_mset_eq_distinct distinct_map)
  then show "mset xs = mset (sort_key fst ys)" by simp
  show "inj_on fst (set xs)" using assms(1) by (simp add: distinct_map)
qed simp

lemma same_shape_fingerprint: "same_shape v w \<Longrightarrow> fingerprint_value v = fingerprint_value w"
proof (induction rule: same_shape.induct)
  case (same_doc d d')
  let ?f = "\<lambda>kv. (fst kv, fingerprint_value (snd kv))"
  have keys: "distinct (map fst (map ?f d))" "distinct (map fst (map ?f d'))"
    using same_doc(1,2) by (simp_all add: doc_ok_def comp_def)
  have look: "map_of (map ?f e) k = map_option fingerprint_value (map_of e k)" for e :: document and k
    by (induction e) auto
  have "map_of (map ?f d) k = map_of (map ?f d') k" for k
  proof (cases "map_of d k")
    case None
    then have "map_of d' k = None" using same_doc(3) by (simp add: map_of_eq_None_iff)
    with None show ?thesis by (simp add: look)
  next
    case (Some v)
    then obtain v' where "map_of d' k = Some v'"
      using same_doc(3) by (metis domD domI dom_map_of_conv_image_fst)
    with Some same_doc(4) show ?thesis by (simp add: look)
  qed
  then have "map_of (map ?f d) = map_of (map ?f d')" by (rule ext)
  then have "set (map ?f d) = set (map ?f d')"
    using map_of_inject_set [OF keys] by blast
  then have "sort_key fst (map ?f d) = sort_key fst (map ?f d')"
    by (rule sort_by_key_unique [OF keys])
  then show ?case by simp
qed auto

text \<open>
  The fingerprint of a filter depends on its shape only: neither the values nor the
  order of the keys matter, at any depth.
\<close>

theorem fingerprint_of_shape:
  "same_shape (BDocument d) (BDocument d') \<Longrightarrow> from_document d = from_document d'"
  unfolding from_document_def by (rule same_shape_fingerprint)

theorem fingerprint_of_shape_witness:
  "from_document [(''a'', BInt32 1), (''b'', BString ''x'')] = from_document [(''b'', BString ''y''), (''a'', BInt32 2)]"
  by (rule fingerprint_of_shape, rule same_doc)
    (auto simp: doc_ok_def intro: same_scalar split: if_splits)

subsection \<open>Summaries are exact\<close>

lemma map_of_bump [simp]:
  "map_of (bump k m) k' = (if k' = k then Some (case map_of m k of None \<Rightarrow> 1 | Some n \<Rightarrow> Suc n) else map_of m k')"
  by (induction k m rule: bump.induct) auto

lemma keys_bump: "fst ` set (bump k m) = insert k (fst ` set m)"
  by (induction k m rule: bump.induct) auto

lemma distinct_bump: "distinct (map fst m) \<Longrightarrow> distinct (map fst (bump k m))"
proof (induction k m rule: bump.induct)
  case (2 k k' n m)
  then show ?case using keys_bump [of k m] by (auto simp: image_iff)
qed simp

lemma counts_of_exact:
  "distinct (map fst (counts_of ks)) \<and>
   map_of (counts_of ks) k = (if k \<in> set ks then Some (count_list ks k) else None)"
proof (induction ks arbitrary: k rule: rev_induct)
  case Nil
  then show ?case by (simp add: counts_of_def)
next
  case (snoc x ks)
  have "counts_of (ks @ [x]) = bump x (counts_of ks)" by (simp add: counts_of_def)
  then show ?case
    using snoc distinct_bump [of "counts_of ks" x] by (auto simp: count_list_0_iff)
qed

text \<open>A table of the most frequent entries of a list.\<close>

definition top_of :: "'k list \<Rightarrow> ('k \<times> nat) list \<Rightarrow> bool" where
  "top_of ks tab \<longleftrightarrow>
     distinct (map fst tab) \<and> length tab = min 10 (card (set ks)) \<and> sorted_wrt (\<ge>) (map snd tab) \<and>
     (\<forall>(k, n) \<in> set tab. k \<in> set ks \<and> n = count_list ks k \<and>
        (\<forall>k' \<in> set ks - fst ` set tab. count_list ks k' \<le> n))"

lemma top_ten_exact:
  assumes "mset m = mset (counts_of ks)"
  shows "top_of ks (top_ten m)"
proof -
  let ?s = "sort_key (\<lambda>kn. - int (snd kn)) m"
  have keys: "distinct (map fst (counts_of ks))"
    using counts_of_exact [of ks] by blast
  have set: "set ?s = set (counts_of ks)" using assms by (metis set_mset_mset set_sort)
  have "mset (map fst ?s) = mset (map fst (counts_of ks))" using assms by simp
  then have distinct: "distinct (map fst ?s)" using keys by (metis mset_eq_imp_distinct_iff)
  have entry: "(k, n) \<in> set ?s \<longleftrightarrow> k \<in> set ks \<and> n = count_list ks k" for k n
  proof -
    have "(k, n) \<in> set ?s \<longleftrightarrow> map_of (counts_of ks) k = Some n"
      unfolding set using keys by (simp only: map_of_eq_Some_iff)
    also have "\<dots> \<longleftrightarrow> k \<in> set ks \<and> n = count_list ks k"
      using counts_of_exact [of ks k] by auto
    finally show ?thesis .
  qed
  then have "fst ` set ?s = set ks" by force
  then have "card (set ks) = length ?s" using distinct by (metis distinct_card length_map set_map)
  moreover have order: "sorted_wrt (\<lambda>x y. snd x \<ge> snd y) ?s"
    using sorted_sort_key [of "\<lambda>kn. - int (snd kn)" m] by (simp add: sorted_map)
  have "sorted_wrt (\<lambda>x y. snd x \<ge> snd y) (take 10 ?s @ drop 10 ?s)"
    using order by (simp only: append_take_drop_id)
  then have below: "snd y \<le> snd x" if "x \<in> set (take 10 ?s)" "y \<in> set (drop 10 ?s)" for x y
    using that unfolding sorted_wrt_append by blast
  have "set ?s = set (take 10 ?s) \<union> set (drop 10 ?s)"
    by (metis append_take_drop_id set_append)
  then have rest: "y \<in> set (drop 10 ?s)" if "y \<in> set ?s" "fst y \<notin> fst ` set (take 10 ?s)" for y
    using that by blast
  have "count_list ks k' \<le> n" if "(k, n) \<in> set (take 10 ?s)" "k' \<in> set ks" "k' \<notin> fst ` set (take 10 ?s)" for k n k'
    using below [OF that(1) rest [of "(k', count_list ks k')"]] that(2,3) entry by simp
  moreover have "\<forall>(k, n) \<in> set (take 10 ?s). k \<in> set ks \<and> n = count_list ks k"
    using entry by (auto dest: in_set_takeD)
  moreover have "distinct (map fst (take 10 ?s))" using distinct by (metis distinct_take take_map)
  moreover have "sorted_wrt (\<ge>) (map snd (take 10 ?s))"
    using order by (simp add: sorted_wrt_map sorted_wrt_take)
  ultimately show ?thesis unfolding top_of_def top_ten_def by auto
qed

text \<open>
  The tables of a summary list the most frequent operations and collections with their
  exact numbers of events, ten at most, the most frequent first, whatever the order in
  which hash maps are iterated.
\<close>

theorem summary_tables_exact:
  assumes "\<And>m. mset (fl_order F m) = mset m" and "\<And>m. mset (fl_kind_order F m) = mset m"
  shows "top_of (map ev_operation events) (su_top_operations (aggregate_events F events)) \<and>
    top_of (map collection_name events) (su_top_collections (aggregate_events F events))"
proof (cases events)
  case Nil
  then show ?thesis by (simp add: aggregate_events_def top_of_def)
next
  case (Cons e es)
  then show ?thesis
    using assms by (simp add: aggregate_events_def Let_def top_ten_exact)
qed

definition sample_floats :: float_lib where
  "sample_floats =
     \<lparr>fl_zero = 0, fl_ratio = \<lambda>a b. word_of_nat (a div b), fl_millis = \<lambda>n. word_of_nat (n div 1000000),
      fl_rank = \<lambda>p n. (p * n + 99) div 100, fl_order = rev, fl_kind_order = rev\<rparr>"

theorem summary_tables_exact_witness:
  "top_of [''d.c''] (su_top_collections (aggregate_events sample_floats [event_new OkFind ''d'' ''c'' 5 True 0]))"
  using summary_tables_exact [of sample_floats "[event_new OkFind ''d'' ''c'' 5 True 0]"]
  by (simp add: sample_floats_def event_new_def collection_name_def)

text \<open>The percentiles of a summary are latencies of its events and they are in order.\<close>

lemma percentiles_ordered:
  assumes "sorted ls" and "ls \<noteq> []" and "\<And>p q n. p \<le> q \<Longrightarrow> fl_rank F p n \<le> fl_rank F q n"
  shows "\<exists>a b c. percentile F ls 50 = Some a \<and> percentile F ls 95 = Some b \<and> percentile F ls 99 = Some c \<and>
    {a, b, c} \<subseteq> set ls \<and> a \<le> b \<and> b \<le> c"
proof -
  let ?n = "length ls"
  let ?i = "\<lambda>p. min (fl_rank F p ?n - 1) (?n - 1)"
  have in_range: "?i p < ?n" for p using assms(2) by (cases ls) auto
  have "?i p \<le> ?i q" if "p \<le> q" for p q using assms(3) [OF that, of ?n] by auto
  then have "ls ! ?i p \<le> ls ! ?i q" if "p \<le> q" for p q
    using that in_range assms(1) by (intro sorted_nth_mono)
  moreover have "percentile F ls p = Some (ls ! ?i p)" for p
    using assms(2) by (auto simp: percentile_def Let_def)
  ultimately show ?thesis using in_range by simp
qed

end
