(* ===== verification/Ingest_Schema.thy ===== *)
theory Ingest_Schema
  imports Mongo_Values
begin

text \<open>
  The data side of ingestion: the types of \<open>src/ingestion/types.rs\<close>, schema inference and
  widening (\<open>schema.rs\<close>), the conversion of a data frame into documents (\<open>writer.rs\<close>) and the
  recognition of file formats (\<open>reader.rs\<close>). The data frame library is the parameter
  \<open>frame_lib\<close>: its types of columns, whose constructors are those that \<open>schema.rs\<close> matches,
  are \<open>data_type\<close>; its typed accessors give the cells of a column of their type and an error
  on any other column.
\<close>

subsection \<open>Types\<close>

datatype bson_type =
    TString | TInt32 | TInt64 | TDouble | TBoolean | TDateTime | TNull
  | TDocument "schema_field list" | TArray bson_type | TBinary | TObjectId
and schema_field = SchemaField (sf_name: string) (sf_type: bson_type) (sf_nullable: bool)

type_synonym bson_schema = "schema_field list"

datatype file_format = FAuto | FCsv | FJson | FNdJson | FParquet

datatype conflict_strategy = CSkip | COverwrite | CMerge

datatype ingest_status = IRunning | ICompleted | IFailed | ICancelled

record csv_options =
  cs_delimiter :: "u8 option"
  cs_quote_char :: "u8 option"
  cs_has_header :: "bool option"
  cs_comment_char :: "u8 option"

definition default_csv_options :: csv_options where
  "default_csv_options =
     \<lparr>cs_delimiter = None, cs_quote_char = None, cs_has_header = Some True, cs_comment_char = None\<rparr>"

record ingest_options =
  io_file_path :: string
  io_database :: string
  io_collection :: string
  io_format :: file_format
  io_dedup_key :: "string list"
  io_conflict_strategy :: conflict_strategy
  io_batch_size :: u32
  io_concurrency :: u32
  io_expressions :: "string list"
  io_schema_overrides :: "string \<Rightarrow> string option"
  io_sample_size :: u32
  io_csv_options :: csv_options

definition default_ingest_options :: ingest_options where
  "default_ingest_options =
     \<lparr>io_file_path = [], io_database = [], io_collection = [], io_format = FAuto, io_dedup_key = [],
      io_conflict_strategy = CSkip, io_batch_size = 1000, io_concurrency = 4, io_expressions = [],
      io_schema_overrides = Map.empty, io_sample_size = 1000, io_csv_options = default_csv_options\<rparr>"

record ingest_job =
  ij_job_id :: string
  ij_file_path :: string
  ij_database :: string
  ij_collection :: string
  ij_status :: ingest_status
  ij_total_rows :: int
  ij_rows_processed :: int
  ij_rows_inserted :: int
  ij_rows_skipped :: int
  ij_rows_failed :: int
  ij_last_committed_chunk :: int
  ij_started_at :: i64
  ij_completed_at :: "i64 option"
  ij_error :: "string option"
  ij_inferred_schema :: bson_schema

record dead_letter_entry =
  dl_job_id :: string
  dl_source_row :: i64
  dl_document :: document
  dl_error :: string
  dl_stage :: string
  dl_timestamp :: i64

subsection \<open>Types of columns\<close>

datatype time_unit = Nanoseconds | Microseconds | Milliseconds

datatype data_type =
    DString | DInt8 | DInt16 | DInt32 | DUInt8 | DUInt16 | DInt64 | DUInt32 | DUInt64
  | DFloat32 | DFloat64 | DBoolean | DDate | DDatetime time_unit | DTime | DDuration | DNull
  | DBinary | DBinaryOffset | DList data_type | DStruct "(string \<times> data_type) list" | DOther

fun polars_type_to_bson :: "data_type \<Rightarrow> bson_type" where
  "polars_type_to_bson DString = TString"
| "polars_type_to_bson DInt8 = TInt32"
| "polars_type_to_bson DInt16 = TInt32"
| "polars_type_to_bson DInt32 = TInt32"
| "polars_type_to_bson DUInt8 = TInt32"
| "polars_type_to_bson DUInt16 = TInt32"
| "polars_type_to_bson DInt64 = TInt64"
| "polars_type_to_bson DUInt32 = TInt64"
| "polars_type_to_bson DUInt64 = TInt64"
| "polars_type_to_bson DFloat32 = TDouble"
| "polars_type_to_bson DFloat64 = TDouble"
| "polars_type_to_bson DBoolean = TBoolean"
| "polars_type_to_bson DDate = TDateTime"
| "polars_type_to_bson (DDatetime _) = TDateTime"
| "polars_type_to_bson DTime = TDateTime"
| "polars_type_to_bson DDuration = TDateTime"
| "polars_type_to_bson DNull = TNull"
| "polars_type_to_bson DBinary = TBinary"
| "polars_type_to_bson DBinaryOffset = TBinary"
| "polars_type_to_bson (DList inner) = TArray (polars_type_to_bson inner)"
| "polars_type_to_bson (DStruct fs) =
     TDocument (map (\<lambda>f. SchemaField (fst f) (polars_type_to_bson (snd f)) False) fs)"
| "polars_type_to_bson DOther = TString"

text \<open>Equal types first; then the matches of the source in their order.\<close>

fun widen_types :: "bson_type \<Rightarrow> bson_type \<Rightarrow> bson_type" where
  "widen_types (TArray a) (TArray b) = (if a = b then TArray a else TArray (widen_types a b))"
| "widen_types a b =
     (if a = b then a
      else if a = TNull then b
      else if b = TNull then a
      else if (a = TInt32 \<and> b = TInt64) \<or> (a = TInt64 \<and> b = TInt32) then TInt64
      else if (a = TInt32 \<and> b = TDouble) \<or> (a = TDouble \<and> b = TInt32) \<or>
              (a = TInt64 \<and> b = TDouble) \<or> (a = TDouble \<and> b = TInt64) then TDouble
      else TString)"

text \<open>A column as far as inference looks at it: its name, its type and how many nulls it has.\<close>

definition infer_schema :: "(string \<times> data_type \<times> nat) list \<Rightarrow> bson_schema" where
  "infer_schema columns = map (\<lambda>(name, dtype, nulls). SchemaField name (polars_type_to_bson dtype) (0 < nulls)) columns"

definition parse_bson_type_str :: "string \<Rightarrow> bson_type option" where
  "parse_bson_type_str s =
     (let t = to_lowercase s in
      if t \<in> {''string'', ''str''} then Some TString
      else if t \<in> {''int32'', ''int'', ''i32''} then Some TInt32
      else if t \<in> {''int64'', ''long'', ''i64''} then Some TInt64
      else if t \<in> {''double'', ''float'', ''f64''} then Some TDouble
      else if t \<in> {''boolean'', ''bool''} then Some TBoolean
      else if t \<in> {''datetime'', ''date'', ''timestamp''} then Some TDateTime
      else if t \<in> {''binary'', ''bytes''} then Some TBinary
      else if t \<in> {''objectid'', ''oid''} then Some TObjectId
      else None)"

definition apply_overrides :: "(string \<Rightarrow> string option) \<Rightarrow> bson_schema \<Rightarrow> bson_schema" where
  "apply_overrides overrides schema =
     map (\<lambda>f. case Option.bind (overrides (sf_name f)) parse_bson_type_str of
                None \<Rightarrow> f
              | Some t \<Rightarrow> SchemaField (sf_name f) t (sf_nullable f)) schema"

subsection \<open>Widening joins types\<close>

text \<open>\<open>narrower a b\<close>: every value of type a fits type b.\<close>

fun narrower :: "bson_type \<Rightarrow> bson_type \<Rightarrow> bool" where
  "narrower (TArray a) (TArray b) = narrower a b"
| "narrower a b =
     (a = b \<or> a = TNull \<or> b = TString \<or> (a = TInt32 \<and> (b = TInt64 \<or> b = TDouble)) \<or> (a = TInt64 \<and> b = TDouble))"

lemma narrower_refl [simp]: "narrower a a"
  by (induction a) simp_all

lemma narrower_antisym: "narrower a b \<Longrightarrow> narrower b a \<Longrightarrow> a = b"
  by (induction a b rule: narrower.induct) auto

lemma narrower_trans: "narrower a b \<Longrightarrow> narrower b c \<Longrightarrow> narrower a c"
proof (induction a b arbitrary: c rule: narrower.induct)
  case (1 a b)
  then show ?case by (cases c) auto
qed (cases rule: bson_type.exhaust; auto)+

lemma widen_upper: "narrower a (widen_types a b) \<and> narrower b (widen_types a b)"
  by (induction a b rule: widen_types.induct) auto

lemma widen_least: "narrower a c \<Longrightarrow> narrower b c \<Longrightarrow> narrower (widen_types a b) c"
proof (induction a b arbitrary: c rule: widen_types.induct)
  case (1 a b)
  then show ?case by (cases c) auto
qed (auto)

text \<open>
  Widening two types gives their least upper bound in the order of types whose values
  fit each other: a type is wide enough for both if and only if it is wide enough for the
  widened one. So schemas can be widened in any order and grouping; null is the neutral
  type and string the widest one.
\<close>

theorem widening_is_join:
  "(narrower (widen_types a b) c = (narrower a c \<and> narrower b c)) \<and>
   widen_types a b = widen_types b a \<and>
   widen_types (widen_types a b) c = widen_types a (widen_types b c) \<and>
   widen_types TNull a = a \<and> widen_types a TString = TString"
proof -
  have lub: "narrower (widen_types x y) z \<longleftrightarrow> narrower x z \<and> narrower y z" for x y z
    using widen_upper widen_least narrower_trans by blast
  have eq: "x = y" if "\<And>z. narrower x z \<longleftrightarrow> narrower y z" for x y
    using that narrower_antisym narrower_refl by blast
  have "widen_types a b = widen_types b a" by (rule eq) (auto simp: lub)
  moreover have "widen_types (widen_types a b) c = widen_types a (widen_types b c)"
    by (rule eq) (auto simp: lub)
  moreover have "widen_types TNull a = a" "widen_types a TString = TString"
    by (cases a; simp)+
  ultimately show ?thesis using lub by blast
qed

subsection \<open>Writing documents\<close>

record 's frame_lib =
  fr_is_null :: "'s \<Rightarrow> nat \<Rightarrow> bool"
  fr_dtype :: "'s \<Rightarrow> data_type"
  fr_str :: "'s \<Rightarrow> string + (nat \<Rightarrow> string option)"
  fr_i32 :: "'s \<Rightarrow> string + (nat \<Rightarrow> i32 option)"
  fr_i64 :: "'s \<Rightarrow> string + (nat \<Rightarrow> i64 option)"
  fr_f64 :: "'s \<Rightarrow> string + (nat \<Rightarrow> f64 option)"
  fr_bool :: "'s \<Rightarrow> string + (nat \<Rightarrow> bool option)"
  fr_binary :: "'s \<Rightarrow> string + (nat \<Rightarrow> bytes option)"
  fr_list :: "'s \<Rightarrow> string + (nat \<Rightarrow> 's option)"
  fr_len :: "'s \<Rightarrow> nat"
  fr_struct :: "'s \<Rightarrow> string + (string \<Rightarrow> string + 's)"
  fr_parse_oid :: "string \<Rightarrow> bytes option"

definition polars_error :: "string \<Rightarrow> mongo_error" where
  "polars_error e = IngestionError (''Polars conversion error: '' @ e)"

text \<open>The cell of a typed view of a column, null where there is none.\<close>

definition typed_cell ::
  "string + (nat \<Rightarrow> 'v option) \<Rightarrow> nat \<Rightarrow> ('v \<Rightarrow> mongo_error + bson) \<Rightarrow> mongo_error + bson" where
  "typed_cell view row f =
     rbind (map_err polars_error view) (\<lambda>ca. case ca row of None \<Rightarrow> Inr BNull | Some v \<Rightarrow> f v)"

text \<open>Division of signed integers towards zero.\<close>

definition i64_div :: "i64 \<Rightarrow> int \<Rightarrow> i64" where
  "i64_div v n = word_of_int (sgn (sint v) * (\<bar>sint v\<bar> div n))"

definition datetime_cell :: "'s frame_lib \<Rightarrow> 's \<Rightarrow> nat \<Rightarrow> mongo_error + bson" where
  "datetime_cell F series row =
     (case fr_dtype F series of
        DDate \<Rightarrow> typed_cell (fr_i32 F series) row (\<lambda>days. Inr (BDateTime (word_of_int (sint days * 86400000))))
      | DDatetime tu \<Rightarrow>
          typed_cell (fr_i64 F series) row (\<lambda>v. Inr (BDateTime
            (case tu of Nanoseconds \<Rightarrow> i64_div v 1000000 | Microseconds \<Rightarrow> i64_div v 1000 | Milliseconds \<Rightarrow> v)))
      | _ \<Rightarrow> typed_cell (fr_i64 F series) row (\<lambda>v. Inr (BDateTime v)))"

lemma size_field [termination_simp]:
  assumes "f \<in> set fs"
  shows "size (sf_type f) < Suc (size_list size fs)"
proof -
  have "size (sf_type f) < size f" by (cases f) simp
  then have "size (sf_type f) < size_list size fs"
    using assms by (rule size_list_estimation [rotated])
  then show ?thesis by simp
qed

fun series_value_to_bson :: "'s frame_lib \<Rightarrow> 's \<Rightarrow> nat \<Rightarrow> bson_type \<Rightarrow> mongo_error + bson" where
  "series_value_to_bson F series row ty =
     (if fr_is_null F series row then Inr BNull
      else
        (case ty of
           TString \<Rightarrow> typed_cell (fr_str F series) row (\<lambda>v. Inr (BString v))
         | TInt32 \<Rightarrow> typed_cell (fr_i32 F series) row (\<lambda>v. Inr (BInt32 v))
         | TInt64 \<Rightarrow> typed_cell (fr_i64 F series) row (\<lambda>v. Inr (BInt64 v))
         | TDouble \<Rightarrow> typed_cell (fr_f64 F series) row (\<lambda>v. Inr (BDouble v))
         | TBoolean \<Rightarrow> typed_cell (fr_bool F series) row (\<lambda>v. Inr (BBoolean v))
         | TDateTime \<Rightarrow> datetime_cell F series row
         | TBinary \<Rightarrow> typed_cell (fr_binary F series) row (\<lambda>v. Inr (BBinary 0 v))
         | TObjectId \<Rightarrow>
             typed_cell (fr_str F series) row (\<lambda>v.
               (case fr_parse_oid F v of Some oid \<Rightarrow> Inr (BObjectId oid) | None \<Rightarrow> Inr (BString v)))
         | TArray inner_type \<Rightarrow>
             typed_cell (fr_list F series) row (\<lambda>inner.
               rbind (collect (\<lambda>i. series_value_to_bson F inner i inner_type) [0..<fr_len F inner]) (\<lambda>arr.
                 Inr (BArray arr)))
         | TDocument fs \<Rightarrow>
             rbind (map_err polars_error (fr_struct F series)) (\<lambda>ca.
             rbind (collect (\<lambda>f.
                 rbind (map_err (\<lambda>e. IngestionError (''Struct field '' @ [CHR 0x27] @ sf_name f @ [CHR 0x27] @
                   '' not found: '' @ e)) (ca (sf_name f))) (\<lambda>field_series.
                 rbind (series_value_to_bson F field_series row (sf_type f)) (\<lambda>v. Inr (sf_name f, v)))) fs) (\<lambda>kvs.
               Inr (BDocument (foldl (\<lambda>d (k, v). doc_insert k v d) [] kvs))))
         | TNull \<Rightarrow> Inr BNull))"

declare series_value_to_bson.simps [simp del]

text \<open>A data frame: how many rows it has, and its columns by name.\<close>

record 's data_frame =
  df_height :: nat
  df_column :: "string \<Rightarrow> string + 's"

definition row_document :: "'s frame_lib \<Rightarrow> 's data_frame \<Rightarrow> bson_schema \<Rightarrow> nat \<Rightarrow> mongo_error + document" where
  "row_document F df schema row =
     rbind (collect (\<lambda>f.
         rbind (map_err (\<lambda>e. IngestionError (''Column '' @ [CHR 0x27] @ sf_name f @ [CHR 0x27] @ '' not found: '' @ e))
           (df_column df (sf_name f))) (\<lambda>series.
         rbind (series_value_to_bson F series row (sf_type f)) (\<lambda>v. Inr (sf_name f, v)))) schema) (\<lambda>kvs.
       Inr (foldl (\<lambda>d (k, v). doc_insert k v d) [] kvs))"

definition dataframe_to_documents ::
  "'s frame_lib \<Rightarrow> 's data_frame \<Rightarrow> bson_schema \<Rightarrow> mongo_error + document list" where
  "dataframe_to_documents F df schema = collect (row_document F df schema) [0..<df_height df]"

subsection \<open>Documents conform to the schema\<close>

text \<open>The values a type stands for; a text that is no object id stays a text, and anything may be null.\<close>

fun conforms :: "bson_type \<Rightarrow> bson \<Rightarrow> bool" where
  "conforms TString v = (case v of BNull \<Rightarrow> True | BString _ \<Rightarrow> True | _ \<Rightarrow> False)"
| "conforms TInt32 v = (case v of BNull \<Rightarrow> True | BInt32 _ \<Rightarrow> True | _ \<Rightarrow> False)"
| "conforms TInt64 v = (case v of BNull \<Rightarrow> True | BInt64 _ \<Rightarrow> True | _ \<Rightarrow> False)"
| "conforms TDouble v = (case v of BNull \<Rightarrow> True | BDouble _ \<Rightarrow> True | _ \<Rightarrow> False)"
| "conforms TBoolean v = (case v of BNull \<Rightarrow> True | BBoolean _ \<Rightarrow> True | _ \<Rightarrow> False)"
| "conforms TDateTime v = (case v of BNull \<Rightarrow> True | BDateTime _ \<Rightarrow> True | _ \<Rightarrow> False)"
| "conforms TNull v = (v = BNull)"
| "conforms TBinary v = (case v of BNull \<Rightarrow> True | BBinary _ _ \<Rightarrow> True | _ \<Rightarrow> False)"
| "conforms TObjectId v = (case v of BNull \<Rightarrow> True | BObjectId _ \<Rightarrow> True | BString _ \<Rightarrow> True | _ \<Rightarrow> False)"
| "conforms (TArray t) v = (case v of BNull \<Rightarrow> True | BArray vs \<Rightarrow> \<forall>x \<in> set vs. conforms t x | _ \<Rightarrow> False)"
| "conforms (TDocument fs) v =
     (case v of
        BNull \<Rightarrow> True
      | BDocument d \<Rightarrow>
          doc_ok d \<and> fst ` set d = sf_name ` set fs \<and>
          (\<forall>kv \<in> set d. \<exists>f \<in> set fs. sf_name f = fst kv \<and> conforms (sf_type f) (snd kv))
      | _ \<Rightarrow> False)"

lemma conforms_null [simp]: "conforms t BNull"
  by (cases t) simp_all

lemma conforms_document:
  "conforms (TDocument fs) (BDocument d) \<longleftrightarrow>
     doc_ok d \<and> fst ` set d = sf_name ` set fs \<and>
     (\<forall>kv \<in> set d. \<exists>f \<in> set fs. sf_name f = fst kv \<and> conforms (sf_type f) (snd kv))"
  by simp

lemma insert_fields:
  "doc_ok acc \<Longrightarrow>
   doc_ok (foldl (\<lambda>d (k, v). doc_insert k v d) acc kvs) \<and>
   fst ` set (foldl (\<lambda>d (k, v). doc_insert k v d) acc kvs) = fst ` set acc \<union> fst ` set kvs \<and>
   set (foldl (\<lambda>d (k, v). doc_insert k v d) acc kvs) \<subseteq> set acc \<union> set kvs"
proof (induction kvs arbitrary: acc)
  case (Cons kv kvs)
  obtain k v where kv: "kv = (k, v)" by fastforce
  have "set (doc_insert k v acc) \<subseteq> insert (k, v) (set acc)"
    by (induction k v acc rule: doc_insert.induct) auto
  then show ?case
    using Cons.IH [of "doc_insert k v acc"] Cons.prems by (auto simp: kv set_keys_doc_insert)
qed simp

lemma collect_elem: "collect g xs = Inr ys \<Longrightarrow> y \<in> set ys \<Longrightarrow> \<exists>x \<in> set xs. g x = Inr y"
  by (induction xs arbitrary: ys) (auto simp: result_simps)

lemma collect_keys:
  "collect g xs = Inr ys \<Longrightarrow> (\<And>x y. x \<in> set xs \<Longrightarrow> g x = Inr y \<Longrightarrow> fst y = h x) \<Longrightarrow> map fst ys = map h xs"
  by (induction xs arbitrary: ys) (auto simp: result_simps)

lemma fields_conform:
  assumes "collect g fs = Inr kvs"
    and "\<And>f kv. f \<in> set fs \<Longrightarrow> g f = Inr kv \<Longrightarrow> fst kv = sf_name f \<and> conforms (sf_type f) (snd kv)"
  shows "conforms (TDocument fs) (BDocument (foldl (\<lambda>d (k, v). doc_insert k v d) [] kvs))"
proof -
  let ?d = "foldl (\<lambda>d (k, v). doc_insert k v d) [] kvs"
  have vals: "\<exists>f \<in> set fs. sf_name f = fst kv \<and> conforms (sf_type f) (snd kv)" if "kv \<in> set kvs" for kv
  proof -
    obtain f where "f \<in> set fs" "g f = Inr kv" using collect_elem [OF assms(1) \<open>kv \<in> set kvs\<close>] by blast
    with assms(2) show ?thesis by (intro bexI [of _ f]) auto
  qed
  have "map fst kvs = map sf_name fs"
    by (rule collect_keys [OF assms(1)]) (use assms(2) in blast)
  then have keys: "fst ` set kvs = sf_name ` set fs" by (metis list.set_map)
  have d: "doc_ok ?d" "fst ` set ?d = fst ` set kvs" "set ?d \<subseteq> set kvs"
    using insert_fields [of "[]" kvs] by simp_all
  have all: "\<forall>kv \<in> set ?d. \<exists>f \<in> set fs. sf_name f = fst kv \<and> conforms (sf_type f) (snd kv)"
    using d(3) vals by (meson subsetD)
  show ?thesis
    unfolding conforms_document d(2) keys by (intro conjI d(1) refl all)
qed

lemma typed_cell_Inr:
  "typed_cell view row f = Inr v \<Longrightarrow> v = BNull \<or> (\<exists>ca x. view = Inr ca \<and> ca row = Some x \<and> f x = Inr v)"
  by (auto simp: typed_cell_def result_simps split: option.splits)

lemma datetime_conforms: "datetime_cell F s row = Inr v \<Longrightarrow> conforms TDateTime v"
  by (auto simp: datetime_cell_def split: data_type.splits dest!: typed_cell_Inr)

lemma value_conforms: "series_value_to_bson F s row ty = Inr v \<Longrightarrow> conforms ty v"
proof (induction F s row ty arbitrary: v rule: series_value_to_bson.induct)
  case (1 F s row ty)
  note cell = "1.prems" [unfolded series_value_to_bson.simps [of F s row ty]]
  show ?case
  proof (cases "fr_is_null F s row")
    case True
    then show ?thesis using cell by auto
  next
    case False
    show ?thesis
    proof (cases ty)
      case (TArray inner)
      then show ?thesis
        using cell False "1.IH"(2) [OF False TArray]
        by (auto simp: result_simps dest!: typed_cell_Inr) (fastforce dest: collect_elem)
    next
      case (TDocument fs)
      obtain ca kvs where
        kvs: "collect (\<lambda>f. rbind (map_err (\<lambda>e. IngestionError (''Struct field '' @ [CHR 0x27] @ sf_name f @ [CHR 0x27] @
            '' not found: '' @ e)) (ca (sf_name f))) (\<lambda>field_series.
          rbind (series_value_to_bson F field_series row (sf_type f)) (\<lambda>v. Inr (sf_name f, v)))) fs = Inr kvs"
        and v: "v = BDocument (foldl (\<lambda>d (k, v). doc_insert k v d) [] kvs)"
        using cell False TDocument by (auto simp: result_simps)
      show ?thesis
        unfolding TDocument v
        by (rule fields_conform [OF kvs])
          (use "1.IH"(1) [OF False TDocument] in \<open>auto simp: result_simps simp del: conforms.simps\<close>)
    qed (use cell False datetime_conforms in \<open>auto dest!: typed_cell_Inr split: option.splits\<close>)
  qed
qed

text \<open>
  C36. A converted data frame has one document for each row, and each has exactly the
  fields of the schema, once, with values of their types at any depth.
\<close>

theorem documents_conform:
  assumes "dataframe_to_documents F df schema = Inr docs"
  shows "length docs = df_height df \<and> (\<forall>d \<in> set docs. conforms (TDocument schema) (BDocument d))"
proof -
  have row: "conforms (TDocument schema) (BDocument d)" if ok: "row_document F df schema row = Inr d" for row d
  proof -
    obtain kvs where kvs: "collect (\<lambda>f.
         rbind (map_err (\<lambda>e. IngestionError (''Column '' @ [CHR 0x27] @ sf_name f @ [CHR 0x27] @ '' not found: '' @ e))
           (df_column df (sf_name f))) (\<lambda>series.
         rbind (series_value_to_bson F series row (sf_type f)) (\<lambda>v. Inr (sf_name f, v)))) schema = Inr kvs"
      and d: "d = foldl (\<lambda>d (k, v). doc_insert k v d) [] kvs"
      using rbind_eq_Inr [THEN iffD1, OF ok [unfolded row_document_def]] by auto
    show ?thesis
      unfolding d by (rule fields_conform [OF kvs]) (auto simp: result_simps dest: value_conforms simp del: conforms.simps)
  qed
  have docs: "collect (row_document F df schema) [0..<df_height df] = Inr docs"
    using assms by (simp add: dataframe_to_documents_def)
  show ?thesis
    using collect_length [OF docs] collect_elem [OF docs] row by (metis length_upt minus_nat.diff_0)
qed

subsection \<open>Inferred types and typed accessors\<close>

text \<open>
  What the data frame library promises of its accessors: each reads the columns of its own
  type and no others, whatever the type would fit into.
\<close>

definition typed_accessors :: "'s frame_lib \<Rightarrow> 's \<Rightarrow> bool" where
  "typed_accessors F s \<longleftrightarrow>
     (isl (fr_str F s) \<longleftrightarrow> fr_dtype F s \<noteq> DString) \<and>
     (isl (fr_i32 F s) \<longleftrightarrow> fr_dtype F s \<noteq> DInt32) \<and>
     (isl (fr_i64 F s) \<longleftrightarrow> fr_dtype F s \<noteq> DInt64) \<and>
     (isl (fr_f64 F s) \<longleftrightarrow> fr_dtype F s \<noteq> DFloat64) \<and>
     (isl (fr_bool F s) \<longleftrightarrow> fr_dtype F s \<noteq> DBoolean) \<and>
     (isl (fr_binary F s) \<longleftrightarrow> fr_dtype F s \<noteq> DBinary)"

fun flat_type :: "data_type \<Rightarrow> bool" where
  "flat_type (DList _) = False"
| "flat_type (DStruct _) = False"
| "flat_type _ = True"

lemma isl_typed_cell: "(\<And>v. \<not> isl (f v)) \<Longrightarrow> isl (typed_cell view row f) \<longleftrightarrow> isl view"
  by (cases view) (auto simp: typed_cell_def split: option.splits)

text \<open>
  C37. A non-null cell of a flat column is converted by the type inferred for the column
  exactly when the column holds strings, 32- or 64-bit integers, 64-bit floats, booleans,
  binaries or nothing but nulls. For every other type the inference names a wider BSON type,
  but the typed accessor the writer then uses does not read the column: the conversion of
  the whole chunk fails.
\<close>

theorem inferred_types_read_exactly:
  assumes "typed_accessors F s" and "flat_type (fr_dtype F s)" and "\<not> fr_is_null F s row"
  shows "isl (series_value_to_bson F s row (polars_type_to_bson (fr_dtype F s))) \<longleftrightarrow>
    fr_dtype F s \<notin> {DString, DInt32, DInt64, DFloat64, DBoolean, DBinary, DNull}"
proof (cases "fr_dtype F s")
  case (DDatetime tu)
  with assms show ?thesis
    by (simp add: series_value_to_bson.simps [of F s row] datetime_cell_def isl_typed_cell typed_accessors_def)
qed (use assms in \<open>simp_all add: series_value_to_bson.simps [of F s row] datetime_cell_def isl_typed_cell
       typed_accessors_def\<close>)

text \<open>A column of 16-bit integers in a library of columns of integers.\<close>

definition int_columns :: "(data_type \<times> int list) frame_lib" where
  "int_columns =
     \<lparr>fr_is_null = (\<lambda>_ _. False), fr_dtype = fst, fr_str = (\<lambda>_. Inl ''str''),
      fr_i32 = (\<lambda>s. if fst s = DInt32 then Inr (\<lambda>i. Some (word_of_int (snd s ! i))) else Inl ''i32''),
      fr_i64 = (\<lambda>s. if fst s = DInt64 then Inr (\<lambda>i. Some (word_of_int (snd s ! i))) else Inl ''i64''),
      fr_f64 = (\<lambda>_. Inl ''f64''), fr_bool = (\<lambda>_. Inl ''bool''), fr_binary = (\<lambda>_. Inl ''binary''),
      fr_list = (\<lambda>_. Inl ''list''), fr_len = length \<circ> snd, fr_struct = (\<lambda>_. Inl ''struct''),
      fr_parse_oid = (\<lambda>_. None)\<rparr>"

theorem inferred_types_read_exactly_witness:
  "isl (series_value_to_bson int_columns (DInt16, [7]) 0 (polars_type_to_bson DInt16)) \<and>
   \<not> isl (series_value_to_bson int_columns (DInt32, [7]) 0 (polars_type_to_bson DInt32))"
  using inferred_types_read_exactly [of int_columns "(DInt16, [7])" 0]
    inferred_types_read_exactly [of int_columns "(DInt32, [7])" 0]
  by (simp add: typed_accessors_def int_columns_def)

theorem documents_conform_witness:
  "conforms (TDocument [SchemaField ''n'' TInt32 False]) (BDocument [(''n'', BInt32 7)])"
proof -
  let ?df = "\<lparr>df_height = 1, df_column = (\<lambda>k. if k = ''n'' then Inr (DInt32, [7]) else Inl ''no column'')\<rparr>"
  have "dataframe_to_documents int_columns ?df [SchemaField ''n'' TInt32 False] = Inr [[(''n'', BInt32 7)]]"
    by (simp add: dataframe_to_documents_def row_document_def series_value_to_bson.simps typed_cell_def
        int_columns_def upt_conv_Cons)
  from documents_conform [OF this] show ?thesis by (simp del: conforms.simps)
qed

subsection \<open>Reading files\<close>

text \<open>The last component of a path, and what follows its last dot, as \<open>std::path::Path\<close> has them.\<close>

definition path_file_name :: "string \<Rightarrow> string option" where
  "path_file_name p =
     (case rev (filter (\<lambda>c. c \<noteq> [] \<and> c \<noteq> ''.'') (split_char (CHR ''/'') p)) of
        [] \<Rightarrow> None
      | c # _ \<Rightarrow> if c = ''..'' then None else Some c)"

definition path_extension :: "string \<Rightarrow> string option" where
  "path_extension p =
     (case path_file_name p of
        None \<Rightarrow> None
      | Some name \<Rightarrow>
          (case split_char (CHR ''.'') name of
             [_] \<Rightarrow> None
           | ps \<Rightarrow> if length ps = 2 \<and> hd ps = [] then None else Some (last ps)))"

definition detect_format :: "string \<Rightarrow> mongo_error + file_format" where
  "detect_format path =
     (let ext = to_lowercase (case path_extension path of Some e \<Rightarrow> e | None \<Rightarrow> []) in
      if ext \<in> {''csv'', ''tsv''} then Inr FCsv
      else if ext = ''json'' then Inr FJson
      else if ext \<in> {''ndjson'', ''jsonl''} then Inr FNdJson
      else if ext \<in> {''parquet'', ''pq''} then Inr FParquet
      else Inl (IngestionError (''Unknown file extension: '' @ [CHR 0x27] @ ext @ [CHR 0x27])))"

text \<open>The scan of the data frame library that a file is read with; None leaves its default.\<close>

datatype scan =
    ScanCsv (sc_separator: "u8 option") (sc_quote: "u8 option") (sc_header: "bool option")
      (sc_comment: "string option")
  | ScanJsonLines
  | ScanParquet

definition read_lazy ::
  "(string \<Rightarrow> scan \<Rightarrow> string + 'f) \<Rightarrow> string \<Rightarrow> file_format \<Rightarrow> csv_options \<Rightarrow> mongo_error + 'f" where
  "read_lazy finish path format opts =
     rbind (if format = FAuto then detect_format path else Inr format) (\<lambda>f.
       map_err IngestionError
         (case f of
            FCsv \<Rightarrow> finish path (ScanCsv (cs_delimiter opts) (cs_quote_char opts) (cs_has_header opts)
              (map_option (\<lambda>c. [char_of (unat c)]) (cs_comment_char opts)))
          | FParquet \<Rightarrow> finish path ScanParquet
          | _ \<Rightarrow> finish path ScanJsonLines))"

text \<open>A recognised format is never \<open>Auto\<close>, so that reading never reaches the branch that panics.\<close>

lemma detect_format_concrete: "detect_format path = Inr f \<Longrightarrow> f \<noteq> FAuto"
  by (auto simp: detect_format_def Let_def split: if_splits)

lemma detect_format_examples:
  "detect_format ''/data/Sales.2024.CSV'' = Inr FCsv"
  "detect_format ''/data/.csv'' = Inl (IngestionError (''Unknown file extension: '' @ [CHR 0x27, CHR 0x27]))"
  by code_simp+

end
