(* ===== verification/Ingest_Transform.thy ===== *)
theory Ingest_Transform
  imports Ingest_Schema
begin

text \<open>
  Transformations of ingested data (\<open>src/ingestion/transform.rs\<close>): the textual expressions
  \<open>rename\<close>, \<open>drop\<close>, \<open>filter\<close>, \<open>cast\<close>, \<open>select\<close> and \<open>compute\<close>, and their compilation into
  operations of the data frame library. An expression of that library is the tree of the
  calls that build it (\<open>pexpr\<close>); its lazy frames and the reading of floating-point numerals
  are parameters. A call that panics has no value.
\<close>

subsection \<open>Operations and expressions\<close>

datatype transform_op =
    Rename string string
  | Drop "string list"
  | Filter string
  | Cast string data_type
  | Select "string list"
  | Compute string string

datatype literal = LitInt i64 | LitFloat f64 | LitBool bool | LitStr string

datatype arith = Plus | Minus | Times | Divide

datatype comparison = Gt | Lt | GtEq | LtEq | EqEq | NotEq

datatype pexpr =
    PLit literal
  | PCol string
  | PArith arith pexpr pexpr
  | PCmp comparison pexpr pexpr
  | PCast pexpr data_type
  | PAlias pexpr string

record 'f lazy_lib =
  lz_rename :: "'f \<Rightarrow> string \<Rightarrow> string \<Rightarrow> 'f"
  lz_drop :: "'f \<Rightarrow> string list \<Rightarrow> 'f"
  lz_filter :: "'f \<Rightarrow> pexpr \<Rightarrow> 'f"
  lz_with_column :: "'f \<Rightarrow> pexpr \<Rightarrow> 'f"
  lz_select :: "'f \<Rightarrow> pexpr list \<Rightarrow> 'f"
  lz_parse_f64 :: "string \<Rightarrow> f64 option"

subsection \<open>Parsing an expression\<close>

definition parse_polars_dtype :: "string \<Rightarrow> mongo_error + data_type" where
  "parse_polars_dtype s =
     (let t = to_lowercase s in
      if t \<in> {''string'', ''str'', ''utf8''} then Inr DString
      else if t \<in> {''int32'', ''i32''} then Inr DInt32
      else if t \<in> {''int64'', ''i64''} then Inr DInt64
      else if t \<in> {''float32'', ''f32''} then Inr DFloat32
      else if t \<in> {''float64'', ''f64''} then Inr DFloat64
      else if t \<in> {''boolean'', ''bool''} then Inr DBoolean
      else if t = ''date'' then Inr DDate
      else Inl (IngestionError (''Unknown data type: '' @ s)))"

text \<open>The two trimmed parts around the first comma, if there is one.\<close>

definition two_parts :: "string \<Rightarrow> (string \<times> string) option" where
  "two_parts inner =
     (case str_find '','' inner of
        None \<Rightarrow> None
      | Some i \<Rightarrow> Some (trim (take i inner), trim (drop (Suc i) inner)))"

definition column_list :: "string \<Rightarrow> string list" where
  "column_list inner = map trim (split_char (CHR '','') inner)"

definition compute_usage :: string where
  "compute_usage = ''compute requires 2 arguments: name, expression '' @
     ''(e.g. compute(profit, DomesticGross + ForeignGross - Budget))''"

definition parse_function :: "string \<Rightarrow> string \<Rightarrow> mongo_error + transform_op" where
  "parse_function func inner =
     (if func = ''rename'' then
        (case two_parts inner of
           None \<Rightarrow> Inl (IngestionError ''rename requires exactly 2 arguments'')
         | Some (a, b) \<Rightarrow> Inr (Rename a b))
      else if func = ''drop'' then Inr (Drop (column_list inner))
      else if func = ''filter'' then Inr (Filter (trim inner))
      else if func = ''cast'' then
        (case two_parts inner of
           None \<Rightarrow> Inl (IngestionError ''cast requires exactly 2 arguments'')
         | Some (a, b) \<Rightarrow> rbind (parse_polars_dtype b) (\<lambda>t. Inr (Cast a t)))
      else if func = ''select'' then Inr (Select (column_list inner))
      else if func = ''compute'' then
        (case two_parts inner of
           None \<Rightarrow> Inl (IngestionError compute_usage)
         | Some (a, b) \<Rightarrow> Inr (Compute a b))
      else Inl (IngestionError (''Unknown transform function: '' @ func)))"

definition parse_expression :: "string \<Rightarrow> mongo_error + transform_op" where
  "parse_expression text_in =
     (let e = trim text_in in
      case str_find ''('' e of
        None \<Rightarrow> Inl (IngestionError (''Invalid expression, missing '' @ [CHR 0x27] @ ''('' @ [CHR 0x27] @ '': '' @ e))
      | Some open_at \<Rightarrow>
          if \<not> suffix '')'' e
          then Inl (IngestionError (''Invalid expression, missing closing '' @ [CHR 0x27] @ '')'' @ [CHR 0x27] @ '': '' @ e))
          else parse_function (take open_at e) (drop (Suc open_at) (butlast e)))"

subsection \<open>Arithmetic\<close>

definition is_arith_char :: "char \<Rightarrow> bool" where
  "is_arith_char c \<longleftrightarrow> c \<in> {CHR ''+'', CHR ''-'', CHR ''*'', CHR ''/''}"

text \<open>The piece since the last operator is the first argument.\<close>

fun arith_tokens :: "string \<Rightarrow> string \<Rightarrow> string list" where
  "arith_tokens piece [] = (if piece = [] then [] else [trim piece])"
| "arith_tokens piece (c # s) =
     (if is_arith_char c
      then (if piece = [] then [] else [trim piece]) @ [c] # arith_tokens [] s
      else arith_tokens (piece @ [c]) s)"

definition token_to_expr :: "'f lazy_lib \<Rightarrow> string \<Rightarrow> pexpr" where
  "token_to_expr L token =
     (case lz_parse_f64 L token of Some n \<Rightarrow> PLit (LitFloat n) | None \<Rightarrow> PCol token)"

definition arith_of :: "string \<Rightarrow> arith option" where
  "arith_of token =
     (if token = ''+'' then Some Plus else if token = ''-'' then Some Minus
      else if token = ''*'' then Some Times else if token = ''/'' then Some Divide else None)"

fun arith_fold :: "'f lazy_lib \<Rightarrow> pexpr \<Rightarrow> string list \<Rightarrow> mongo_error + pexpr" where
  "arith_fold L result (token # operand # rest) =
     (case arith_of token of
        None \<Rightarrow> Inl (IngestionError (''Unknown operator in arithmetic expression: '' @ token))
      | Some a \<Rightarrow> arith_fold L (PArith a result (token_to_expr L operand)) rest)"
| "arith_fold L result _ = Inr result"

definition parse_arithmetic_expr :: "'f lazy_lib \<Rightarrow> string \<Rightarrow> mongo_error + pexpr" where
  "parse_arithmetic_expr L s =
     (case arith_tokens [] (trim s) of
        [] \<Rightarrow> Inl (IngestionError ''Empty arithmetic expression'')
      | t # ts \<Rightarrow> arith_fold L (token_to_expr L t) ts)"

subsection \<open>Filters\<close>

definition parse_i64 :: "string \<Rightarrow> i64 option" where
  "parse_i64 s =
     (let ds = (if prefix ''+'' s \<or> prefix ''-'' s then drop 1 s else s);
          n = (if prefix ''-'' s then - int (digits_val ds) else int (digits_val ds))
      in if ds = [] \<or> \<not> list_all is_digit ds \<or> n < - (2 ^ 63) \<or> 2 ^ 63 \<le> n then None
         else Some (word_of_int n))"

definition quoted_by :: "char \<Rightarrow> string \<Rightarrow> bool" where
  "quoted_by q s \<longleftrightarrow> prefix [q] s \<and> suffix [q] s"

text \<open>None where the slice between the quotes panics: the text is a single quote character.\<close>

definition parse_literal :: "'f lazy_lib \<Rightarrow> string \<Rightarrow> pexpr option" where
  "parse_literal L s =
     (case parse_i64 s of
        Some v \<Rightarrow> Some (PLit (LitInt v))
      | None \<Rightarrow>
          (case lz_parse_f64 L s of
             Some v \<Rightarrow> Some (PLit (LitFloat v))
           | None \<Rightarrow>
               if to_lowercase s = ''true'' then Some (PLit (LitBool True))
               else if to_lowercase s = ''false'' then Some (PLit (LitBool False))
               else if quoted_by (CHR 0x22) s \<or> quoted_by (CHR 0x27) s
               then (if length s < 2 then None else Some (PLit (LitStr (butlast (tl s)))))
               else Some (PLit (LitStr s))))"

definition comparisons :: "(string \<times> comparison) list" where
  "comparisons = [(''>='', GtEq), (''<='', LtEq), (''!='', NotEq), (''=='', EqEq), (''>'', Gt), (''<'', Lt)]"

text \<open>The first operator of the list, not of the text, that occurs in the text.\<close>

fun find_comparison :: "(string \<times> comparison) list \<Rightarrow> string \<Rightarrow> (string \<times> comparison \<times> nat) option" where
  "find_comparison [] s = None"
| "find_comparison ((token, cmp) # rest) s =
     (case str_find token s of Some pos \<Rightarrow> Some (token, cmp, pos) | None \<Rightarrow> find_comparison rest s)"

definition parse_filter_expr :: "'f lazy_lib \<Rightarrow> string \<Rightarrow> (mongo_error + pexpr) option" where
  "parse_filter_expr L s =
     (case find_comparison comparisons s of
        None \<Rightarrow> Some (Inl (IngestionError (''No valid operator found in filter expression: '' @ s)))
      | Some (token, cmp, pos) \<Rightarrow>
          map_option (\<lambda>v. Inr (PCmp cmp (PCol (trim (take pos s))) v))
            (parse_literal L (trim (drop (pos + length token) s))))"

subsection \<open>Applying expressions\<close>

definition compile_transform :: "'f lazy_lib \<Rightarrow> transform_op \<Rightarrow> 'f \<Rightarrow> (mongo_error + 'f) option" where
  "compile_transform L t lf =
     (case t of
        Rename a b \<Rightarrow> Some (Inr (lz_rename L lf a b))
      | Drop cols \<Rightarrow> Some (Inr (lz_drop L lf cols))
      | Filter s \<Rightarrow>
          map_option (\<lambda>r. rbind r (\<lambda>e. Inr (lz_filter L lf e))) (parse_filter_expr L s)
      | Cast column t \<Rightarrow> Some (Inr (lz_with_column L lf (PCast (PCol column) t)))
      | Select cols \<Rightarrow> Some (Inr (lz_select L lf (map PCol cols)))
      | Compute name s \<Rightarrow>
          Some (rbind (parse_arithmetic_expr L s) (\<lambda>e. Inr (lz_with_column L lf (PAlias e name)))))"

fun apply_expressions :: "'f lazy_lib \<Rightarrow> 'f \<Rightarrow> string list \<Rightarrow> (mongo_error + 'f) option" where
  "apply_expressions L lf [] = Some (Inr lf)"
| "apply_expressions L lf (e # es) =
     (case parse_expression e of
        Inl err \<Rightarrow> Some (Inl err)
      | Inr t \<Rightarrow>
          (case compile_transform L t lf of
             None \<Rightarrow> None
           | Some (Inl err) \<Rightarrow> Some (Inl err)
           | Some (Inr lf') \<Rightarrow> apply_expressions L lf' es))"

subsection \<open>Finding in texts\<close>

lemma str_find_first: "pat \<noteq> [] \<Longrightarrow> hd pat \<notin> set a \<Longrightarrow> str_find pat (a @ pat @ b) = Some (length a)"
proof (induction a)
  case Nil
  then show ?case by (cases pat) auto
next
  case (Cons x a)
  then have "\<not> prefix pat (x # a @ pat @ b)" by (cases pat) auto
  with Cons show ?case by simp
qed

lemma str_find_missing: "x \<in> set pat \<Longrightarrow> x \<notin> set s \<Longrightarrow> str_find pat s = None"
proof (induction s)
  case (Cons c s)
  then have "\<not> prefix pat (c # s)" using set_mono_prefix by fastforce
  with Cons show ?case by simp
qed auto

lemma trim_ends: "trim s = s \<Longrightarrow> s \<noteq> [] \<Longrightarrow> \<not> is_ws (hd s) \<and> \<not> is_ws (last s)"
proof -
  assume s: "trim s = s" "s \<noteq> []"
  let ?d = "dropWhile is_ws s"
  have len: "length (dropWhile is_ws (rev ?d)) \<le> length ?d"
    by (metis length_dropWhile_le length_rev)
  have "length ?d = length s"
    using s(1) len length_dropWhile_le [of is_ws s] by (simp add: trim_def) (metis le_antisym length_rev)
  then have d: "?d = s"
    by (metis append_eq_append_conv append_self_conv2 takeWhile_dropWhile_id)
  then have head: "\<not> is_ws (hd s)" using s(2) by (metis hd_dropWhile)
  have "dropWhile is_ws (rev s) = rev s"
    using s(1) d by (metis rev_rev_ident trim_def)
  then have "\<not> is_ws (hd (rev s))" using s(2) by (metis hd_dropWhile rev_is_Nil_conv)
  with head s(2) show ?thesis by (simp add: hd_rev)
qed

lemma trim_ends_id: "s \<noteq> [] \<Longrightarrow> \<not> is_ws (hd s) \<Longrightarrow> \<not> is_ws (last s) \<Longrightarrow> trim s = s"
  by (rule trim_id [of s "hd s" "tl s" "butlast s" "last s"]) auto

lemma trim_blank [simp]: "trim (CHR '' '' # s) = trim s"
  by (simp add: trim_def is_ws_def)

subsection \<open>Round trip of expressions\<close>

fun join_columns :: "string list \<Rightarrow> string" where
  "join_columns [] = []"
| "join_columns [c] = c"
| "join_columns (c # cs) = c @ '', '' @ join_columns cs"

fun show_dtype :: "data_type \<Rightarrow> string" where
  "show_dtype DString = ''string''"
| "show_dtype DInt32 = ''int32''"
| "show_dtype DInt64 = ''int64''"
| "show_dtype DFloat32 = ''float32''"
| "show_dtype DFloat64 = ''float64''"
| "show_dtype DBoolean = ''boolean''"
| "show_dtype _ = ''date''"

fun show_op :: "transform_op \<Rightarrow> string" where
  "show_op (Rename a b) = ''rename('' @ a @ '', '' @ b @ '')''"
| "show_op (Drop cols) = ''drop('' @ join_columns cols @ '')''"
| "show_op (Filter e) = ''filter('' @ e @ '')''"
| "show_op (Cast c t) = ''cast('' @ c @ '', '' @ show_dtype t @ '')''"
| "show_op (Select cols) = ''select('' @ join_columns cols @ '')''"
| "show_op (Compute a e) = ''compute('' @ a @ '', '' @ e @ '')''"

definition column_ok :: "string \<Rightarrow> bool" where
  "column_ok c \<longleftrightarrow> trim c = c \<and> CHR '','' \<notin> set c"

fun op_ok :: "transform_op \<Rightarrow> bool" where
  "op_ok (Rename a b) = (column_ok a \<and> trim b = b)"
| "op_ok (Drop cols) = (cols \<noteq> [] \<and> list_all column_ok cols)"
| "op_ok (Filter e) = (trim e = e)"
| "op_ok (Cast c t) = (column_ok c \<and> t \<in> {DString, DInt32, DInt64, DFloat32, DFloat64, DBoolean, DDate})"
| "op_ok (Select cols) = (cols \<noteq> [] \<and> list_all column_ok cols)"
| "op_ok (Compute a e) = (column_ok a \<and> trim e = e)"

lemma two_parts_join: "column_ok a \<Longrightarrow> two_parts (a @ '', '' @ b) = Some (a, trim b)"
  using str_find_first [of "'',''" a "CHR '' '' # b"] by (simp add: two_parts_def column_ok_def)

lemma column_list_join: "cols \<noteq> [] \<Longrightarrow> list_all column_ok cols \<Longrightarrow> column_list (join_columns cols) = cols"
proof (induction cols rule: join_columns.induct)
  case (3 c d cs)
  have ne: "split_char (CHR '','') (CHR '' '' # s) = (CHR '' '' # hd (split_char (CHR '','') s)) # tl (split_char (CHR '','') s)"
    for s by (cases "split_char (CHR '','') s") auto
  have "column_list (CHR '' '' # s) = column_list s" for s
    unfolding column_list_def ne by (cases "split_char (CHR '','') s") (use split_char_not_Nil in auto)
  with 3 show ?case
    by (simp add: column_list_def column_ok_def split_char_append)
qed (auto simp: column_list_def column_ok_def split_char_none)

lemma parse_call:
  assumes "f \<noteq> []" and "\<not> is_ws (hd f)" and "CHR ''('' \<notin> set f"
  shows "parse_expression (f @ ''('' @ inner @ '')'') = parse_function f inner"
proof -
  let ?e = "f @ ''('' @ inner @ '')''"
  have "trim ?e = ?e"
    by (rule trim_ends_id) (use assms in \<open>simp_all add: is_ws_def\<close>)
  moreover have "str_find ''('' ?e = Some (length f)"
    using str_find_first [of "''(''" f "inner @ '')''"] assms by simp
  moreover have "suffix '')'' ?e" "drop (Suc (length f)) (butlast ?e) = inner"
    by (simp_all add: suffix_def butlast_append)
  ultimately show ?thesis
    by (simp add: parse_expression_def Let_def)
qed

lemma parse_show_dtype:
  "t \<in> {DString, DInt32, DInt64, DFloat32, DFloat64, DBoolean, DDate} \<Longrightarrow>
   parse_polars_dtype (trim (show_dtype t)) = Inr t"
  by (elim insertE emptyE; hypsubst; code_simp)

text \<open>
  C39. Every transformation whose names a list of columns can hold is read back from its
  textual form: no commas and no blanks around the names but for the last argument, which
  may hold commas and parentheses.
\<close>

theorem expression_round_trip:
  assumes "op_ok t"
  shows "parse_expression (show_op t) = Inr t"
proof -
  have call: "parse_expression (f @ ''('' @ inner @ '')'') = parse_function f inner"
    if "f \<in> {''rename'', ''drop'', ''filter'', ''cast'', ''select'', ''compute''}" for f inner
    using that by (intro parse_call) (auto simp: is_ws_def)
  note calls = call [of "''rename''", simplified] call [of "''drop''", simplified] call [of "''filter''", simplified]
    call [of "''cast''", simplified] call [of "''select''", simplified] call [of "''compute''", simplified]
  have two: "two_parts (a @ CHR '','' # CHR '' '' # b) = Some (a, trim b)" if "column_ok a" for a b
    using two_parts_join [OF that] by simp
  note pairs = calls [of "a @ CHR '','' # CHR '' '' # b" for a b, simplified]
  show ?thesis
    using assms
    by (cases t) (simp_all add: calls pairs parse_function_def two column_list_join parse_show_dtype)
qed

theorem expression_round_trip_witness:
  "parse_expression ''cast(age, int64)'' = Inr (Cast ''age'' DInt64) \<and>
   parse_expression ''drop(a, b c)'' = Inr (Drop [''a'', ''b c''])"
  using expression_round_trip [of "Cast ''age'' DInt64"] expression_round_trip [of "Drop [''a'', ''b c'']"]
  by (simp add: column_ok_def trim_def is_ws_def)

subsection \<open>Arithmetic goes from left to right\<close>

fun arith_char :: "arith \<Rightarrow> char" where
  "arith_char Plus = CHR ''+''"
| "arith_char Minus = CHR ''-''"
| "arith_char Times = CHR ''*''"
| "arith_char Divide = CHR ''/''"

definition show_arith :: "string \<Rightarrow> (arith \<times> string) list \<Rightarrow> string" where
  "show_arith x ops = x @ concat (map (\<lambda>(a, y). '' '' @ [arith_char a] @ '' '' @ y) ops)"

definition operand_ok :: "string \<Rightarrow> bool" where
  "operand_ok x \<longleftrightarrow> x \<noteq> [] \<and> trim x = x \<and> (\<forall>c \<in> set x. \<not> is_arith_char c)"

lemma arith_of_char [simp]: "is_arith_char (arith_char a)" "arith_of [arith_char a] = Some a"
  by (cases a; simp add: is_arith_char_def arith_of_def)+

lemma arith_tokens_plain: "\<forall>c \<in> set x. \<not> is_arith_char c \<Longrightarrow> arith_tokens piece (x @ s) = arith_tokens (piece @ x) s"
  by (induction x arbitrary: piece) auto

lemma trim_snoc_blank: "trim (s @ '' '') = trim s"
proof (cases "list_all is_ws s")
  case True
  then show ?thesis by (auto simp: trim_def list_all_iff is_ws_def dest: set_dropWhileD)
next
  case False
  then have "dropWhile is_ws (s @ '' '') = dropWhile is_ws s @ '' ''"
    by (metis dropWhile_append1 list_all_iff)
  then show ?thesis by (simp add: trim_def is_ws_def)
qed

lemma arith_tokens_rest:
  "list_all (operand_ok \<circ> snd) ops \<Longrightarrow> piece \<noteq> [] \<Longrightarrow>
   arith_tokens piece (concat (map (\<lambda>(a, y). '' '' @ [arith_char a] @ '' '' @ y) ops)) =
   trim piece # concat (map (\<lambda>(a, y). [[arith_char a], y]) ops)"
proof (induction ops arbitrary: piece)
  case (Cons op ops)
  obtain a y where op: "op = (a, y)" by fastforce
  have y: "operand_ok y" using Cons.prems op by simp
  have blank: "\<not> is_arith_char (CHR '' '')" by (simp add: is_arith_char_def)
  show ?case
    using Cons.prems Cons.IH [of "CHR '' '' # y"] y
    by (simp add: op blank arith_tokens_plain operand_ok_def trim_snoc_blank)
qed simp

lemma arith_fold_ops:
  "arith_fold L e (concat (map (\<lambda>(a, y). [[arith_char a], y]) ops)) =
   Inr (foldl (\<lambda>e (a, y). PArith a e (token_to_expr L y)) e ops)"
  by (induction ops arbitrary: e) auto

text \<open>
  A well-formed arithmetic text is read as the nest of its operations from left to right,
  whatever the operators: there is no precedence, so that a + b * c means (a + b) * c.
\<close>

theorem arithmetic_goes_left:
  assumes "operand_ok x" and "list_all (operand_ok \<circ> snd) ops"
  shows "parse_arithmetic_expr L (show_arith x ops) =
    Inr (foldl (\<lambda>e (a, y). PArith a e (token_to_expr L y)) (token_to_expr L x) ops)"
proof -
  have "\<not> is_ws (last (show_arith x ops))"
  proof (cases ops rule: rev_cases)
    case (snoc os op)
    then show ?thesis
      using assms(2) trim_ends [of "snd op"] by (cases op) (simp add: show_arith_def operand_ok_def)
  qed (use assms(1) trim_ends [of x] in \<open>simp add: show_arith_def operand_ok_def\<close>)
  moreover have "show_arith x ops \<noteq> []" "\<not> is_ws (hd (show_arith x ops))"
    using assms(1) trim_ends [of x] by (simp_all add: show_arith_def operand_ok_def)
  ultimately have "trim (show_arith x ops) = show_arith x ops"
    by (simp add: trim_ends_id)
  moreover have "arith_tokens [] (show_arith x ops) = x # concat (map (\<lambda>(a, y). [[arith_char a], y]) ops)"
    using assms arith_tokens_rest [of ops x] by (simp add: show_arith_def operand_ok_def arith_tokens_plain)
  ultimately show ?thesis
    by (simp add: parse_arithmetic_expr_def arith_fold_ops)
qed

definition no_floats :: "string list lazy_lib" where
  "no_floats =
     \<lparr>lz_rename = (\<lambda>f _ _. f), lz_drop = (\<lambda>f _. f), lz_filter = (\<lambda>f _. f), lz_with_column = (\<lambda>f _. f),
      lz_select = (\<lambda>f _. f), lz_parse_f64 = (\<lambda>_. None)\<rparr>"

theorem arithmetic_goes_left_witness:
  "parse_arithmetic_expr no_floats ''a + b * c'' = Inr (PArith Times (PArith Plus (PCol ''a'') (PCol ''b'')) (PCol ''c''))"
  using arithmetic_goes_left [of "''a''" "[(Plus, ''b''), (Times, ''c'')]" no_floats]
  by (simp add: operand_ok_def trim_def is_ws_def is_arith_char_def show_arith_def token_to_expr_def no_floats_def)

lemma dangling_operator_ignored: "parse_arithmetic_expr no_floats ''a + b *'' = parse_arithmetic_expr no_floats ''a + b''"
  by code_simp

subsection \<open>Filters\<close>

definition plain_text :: "string \<Rightarrow> bool" where
  "plain_text s \<longleftrightarrow> set s \<inter> {CHR ''<'', CHR ''>'', CHR ''='', CHR ''!''} = {}"

text \<open>
  A comparison of a column with a value, neither of which holds a character of an
  operator, is read as the comparison with that operator, that column and the literal the
  value denotes.
\<close>

theorem filter_round_trip:
  assumes "plain_text c" and "plain_text v" and "(token, cmp) \<in> set comparisons"
  shows "parse_filter_expr L (c @ token @ v) =
    map_option (\<lambda>e. Inr (PCmp cmp (PCol (trim c)) e)) (parse_literal L (trim v))"
proof -
  have c: "CHR ''<'' \<notin> set c" "CHR ''>'' \<notin> set c" "CHR ''='' \<notin> set c" "CHR ''!'' \<notin> set c"
    and v: "CHR ''<'' \<notin> set v" "CHR ''>'' \<notin> set v" "CHR ''='' \<notin> set v" "CHR ''!'' \<notin> set v"
    using assms(1,2) by (auto simp: plain_text_def)
  have missing: "str_find pat s = None" if "\<exists>x \<in> set pat. x \<notin> set s" for pat s
    using that str_find_missing by blast
  have "find_comparison comparisons (c @ token @ v) = Some (token, cmp, length c)"
    using assms(3) c v str_find_first [of token c v]
    by (auto simp: comparisons_def missing)
  then show ?thesis
    by (simp add: parse_filter_expr_def)
qed

theorem filter_round_trip_witness:
  "parse_filter_expr no_floats ''age >= 26'' = Some (Inr (PCmp GtEq (PCol ''age'') (PLit (LitInt 26))))"
  using filter_round_trip [of "''age ''" "'' 26''" "''>=''" GtEq no_floats]
  by (simp add: plain_text_def comparisons_def trim_def is_ws_def parse_literal_def parse_i64_def digits_val_def
      digit_val_def is_digit_def)

text \<open>
  Reading a literal panics for exactly two texts, a lone quote character of either kind,
  as long as the library reads no number from them; every other text has a value.
\<close>

theorem literal_panics_exactly:
  assumes "\<And>q. q \<in> {CHR 0x22, CHR 0x27} \<Longrightarrow> lz_parse_f64 L [q] = None"
  shows "parse_literal L s = None \<longleftrightarrow> s = [CHR 0x22] \<or> s = [CHR 0x27]"
proof -
  have "parse_i64 [CHR 0x22] = None" "parse_i64 [CHR 0x27] = None"
    by code_simp+
  moreover have "to_lowercase [CHR 0x22] = [CHR 0x22]" "to_lowercase [CHR 0x27] = [CHR 0x27]"
    by code_simp+
  moreover have "quoted_by q s \<and> length s < 2 \<longleftrightarrow> s = [q]" for q s
    by (cases s; cases "tl s") (auto simp: quoted_by_def)
  ultimately show ?thesis
    using assms by (auto simp: parse_literal_def split: option.splits)
qed

theorem literal_panics_exactly_witness:
  "parse_literal no_floats [CHR 0x22] = None \<and> apply_expressions no_floats [] [''filter(a == '' @ [CHR 0x22] @ '')''] = None"
proof -
  have none: "parse_literal no_floats [CHR 0x22] = None"
    using literal_panics_exactly [of no_floats "[CHR 0x22]"] by (simp add: no_floats_def)
  moreover have "apply_expressions no_floats [] [''filter(a == '' @ [CHR 0x22] @ '')''] = None"
    by code_simp
  ultimately show ?thesis by blast
qed

lemma apply_expressions_append:
  "apply_expressions L lf (es @ es') =
     (case apply_expressions L lf es of
        Some (Inr lf') \<Rightarrow> apply_expressions L lf' es'
      | r \<Rightarrow> r)"
  by (induction L lf es rule: apply_expressions.induct) (auto split: sum.splits option.splits)

end
