(* ===== verification/Ingest_Jobs.thy ===== *)
theory Ingest_Jobs
  imports Ingest_Schema
begin

text \<open>
  What an ingestion job writes besides its documents: the deduplication check
  (\<open>src/ingestion/dedup.rs\<close>), the dead letter queue (\<open>dlq.rs\<close>) and the progress tracker
  (\<open>progress.rs\<close>). The collections are the parameter \<open>ingest_lib\<close>, functions on a state \<open>'w\<close> of
  the world that also holds the clock and the cancel channel of a job. Points in time are
  milliseconds, as they are stored; row counts are integers, since the heights of data frames
  fit 63 bits.
\<close>

subsection \<open>What the engine calls\<close>

record ('s, 'w) ingest_lib =
  il_frames :: "'s frame_lib"
  il_slice :: "'s data_frame \<Rightarrow> nat \<Rightarrow> nat \<Rightarrow> 's data_frame"
  il_find :: "document \<Rightarrow> 'w \<Rightarrow> (string + document list) \<times> 'w"
  il_insert_many :: "document list \<Rightarrow> 'w \<Rightarrow> (string + nat) \<times> 'w"
  il_replace_one :: "document \<Rightarrow> document \<Rightarrow> 'w \<Rightarrow> (string + unit) \<times> 'w"
  il_dlq_insert :: "document list \<Rightarrow> 'w \<Rightarrow> (string + unit) \<times> 'w"
  il_dlq_find :: "document \<Rightarrow> 'w \<Rightarrow> (string + document list) \<times> 'w"
  il_jobs_insert :: "document \<Rightarrow> 'w \<Rightarrow> (string + unit) \<times> 'w"
  il_jobs_update :: "document \<Rightarrow> document \<Rightarrow> 'w \<Rightarrow> (string + unit) \<times> 'w"
  il_now :: "'w \<Rightarrow> i64"
  il_cancelled :: "'w \<Rightarrow> bool \<times> 'w"
  il_bson_eq :: "bson \<Rightarrow> bson \<Rightarrow> bool"
  il_millis_ok :: "i64 \<Rightarrow> bool"

text \<open>The engine's memory beside the world: the tracker's jobs and the jobs with a cancel channel.\<close>

record 'w ingest_state =
  is_world :: 'w
  is_jobs :: "ingest_job list"
  is_channels :: "string list"

type_synonym ('w, 'a) ingest_result = "(mongo_error + 'a) \<times> 'w ingest_state"

definition on_world :: "(string \<Rightarrow> mongo_error) \<Rightarrow> ('w \<Rightarrow> (string + 'a) \<times> 'w) \<Rightarrow> 'w ingest_state \<Rightarrow> ('w, 'a) ingest_result" where
  "on_world wrap f st =
     (case f (is_world st) of (r, w) \<Rightarrow> (map_err wrap r, st\<lparr>is_world := w\<rparr>))"

subsection \<open>Deduplication\<close>

datatype dedup_result =
    DedupInsert document
  | DedupSkip
  | DedupReplace document
  | DedupMerge document document

fun dedup_filter_from :: "string list \<Rightarrow> document \<Rightarrow> document \<Rightarrow> document option" where
  "dedup_filter_from [] doc acc = Some acc"
| "dedup_filter_from (k # ks) doc acc =
     (case doc_get doc k of
        Some v \<Rightarrow> dedup_filter_from ks doc (doc_insert k v acc)
      | None \<Rightarrow> None)"

definition build_dedup_filter :: "string list \<Rightarrow> document \<Rightarrow> document option" where
  "build_dedup_filter dedup_key doc = dedup_filter_from dedup_key doc []"

fun resolve_conflict :: "conflict_strategy \<Rightarrow> document \<Rightarrow> document \<Rightarrow> dedup_result" where
  "resolve_conflict CSkip incoming existing = DedupSkip"
| "resolve_conflict COverwrite incoming existing = DedupReplace incoming"
| "resolve_conflict CMerge incoming existing = DedupMerge incoming existing"

definition merge_documents :: "document \<Rightarrow> document \<Rightarrow> document" where
  "merge_documents incoming existing = foldl (\<lambda>d (k, v). doc_insert k v d) existing incoming"

definition same_key :: "('s, 'w) ingest_lib \<Rightarrow> string list \<Rightarrow> document \<Rightarrow> document \<Rightarrow> bool" where
  "same_key E dedup_key filter_doc existing \<longleftrightarrow>
     list_all (\<lambda>k. case (doc_get filter_doc k, doc_get existing k) of
         (Some a, Some b) \<Rightarrow> il_bson_eq E a b
       | (None, None) \<Rightarrow> True
       | _ \<Rightarrow> False) dedup_key"

definition check_one ::
  "('s, 'w) ingest_lib \<Rightarrow> string list \<Rightarrow> conflict_strategy \<Rightarrow> document list \<Rightarrow> document \<Rightarrow> dedup_result" where
  "check_one E dedup_key strategy existing_docs d =
     (case build_dedup_filter dedup_key d of
        None \<Rightarrow> DedupInsert d
      | Some f \<Rightarrow>
          (case find (same_key E dedup_key f) existing_docs of
             None \<Rightarrow> DedupInsert d
           | Some existing \<Rightarrow> resolve_conflict strategy d existing))"

definition check_batch ::
  "('s, 'w) ingest_lib \<Rightarrow> string list \<Rightarrow> conflict_strategy \<Rightarrow> document list \<Rightarrow> 'w ingest_state \<Rightarrow>
   ('w, dedup_result list) ingest_result" where
  "check_batch E dedup_key strategy docs st =
     (if dedup_key = [] then (Inr (map DedupInsert docs), st)
      else
        let or_filters = List.map_filter (build_dedup_filter dedup_key) docs in
        sbind (if or_filters = [] then (Inr [], st)
               else on_world IngestionError (il_find E [(''$or'', BArray (map BDocument or_filters))]) st)
          (\<lambda>existing_docs st. (Inr (map (check_one E dedup_key strategy existing_docs) docs), st)))"

subsection \<open>The dead letter queue\<close>

definition entry_to_document :: "dead_letter_entry \<Rightarrow> document" where
  "entry_to_document e =
     [(''job_id'', BString (dl_job_id e)), (''source_row'', BInt64 (dl_source_row e)),
      (''document'', BDocument (dl_document e)), (''error'', BString (dl_error e)),
      (''stage'', BString (dl_stage e)), (''timestamp'', BDateTime (dl_timestamp e))]"

definition or_default :: "'a \<Rightarrow> 'a option \<Rightarrow> 'a" where
  "or_default d x = (case x of None \<Rightarrow> d | Some a \<Rightarrow> a)"

definition document_to_entry :: "('s, 'w) ingest_lib \<Rightarrow> i64 \<Rightarrow> document \<Rightarrow> dead_letter_entry" where
  "document_to_entry E now d =
     \<lparr>dl_job_id = or_default [] (get_str d ''job_id''),
      dl_source_row = or_default 0 (get_i64 d ''source_row''),
      dl_document = or_default [] (get_document d ''document''),
      dl_error = or_default [] (get_str d ''error''),
      dl_stage = or_default [] (get_str d ''stage''),
      dl_timestamp =
        (case doc_get d ''timestamp'' of
           Some (BDateTime t) \<Rightarrow> if il_millis_ok E t then t else now
         | _ \<Rightarrow> now)\<rparr>"

definition dlq_push :: "('s, 'w) ingest_lib \<Rightarrow> dead_letter_entry \<Rightarrow> 'w ingest_state \<Rightarrow> ('w, unit) ingest_result" where
  "dlq_push E entry st =
     on_world (\<lambda>e. IngestionError (''DLQ push failed: '' @ e)) (il_dlq_insert E [entry_to_document entry]) st"

definition dlq_push_batch ::
  "('s, 'w) ingest_lib \<Rightarrow> dead_letter_entry list \<Rightarrow> 'w ingest_state \<Rightarrow> ('w, unit) ingest_result" where
  "dlq_push_batch E entries st =
     (if entries = [] then (Inr (), st)
      else on_world (\<lambda>e. IngestionError (''DLQ push_batch failed: '' @ e))
             (il_dlq_insert E (map entry_to_document entries)) st)"

definition dlq_get_by_job ::
  "('s, 'w) ingest_lib \<Rightarrow> string \<Rightarrow> 'w ingest_state \<Rightarrow> ('w, dead_letter_entry list) ingest_result" where
  "dlq_get_by_job E job_id st =
     sbind (on_world (\<lambda>e. IngestionError (''DLQ query failed: '' @ e)) (il_dlq_find E [(''job_id'', BString job_id)]) st)
       (\<lambda>docs st. (Inr (map (document_to_entry E (il_now E (is_world st))) docs), st))"

subsection \<open>Progress\<close>

definition status_str :: "ingest_status \<Rightarrow> string" where
  "status_str s =
     (case s of IRunning \<Rightarrow> ''running'' | ICompleted \<Rightarrow> ''completed'' | IFailed \<Rightarrow> ''failed'' | ICancelled \<Rightarrow> ''cancelled'')"

definition job_to_document :: "ingest_job \<Rightarrow> document" where
  "job_to_document job =
     [(''job_id'', BString (ij_job_id job)), (''file_path'', BString (ij_file_path job)),
      (''database'', BString (ij_database job)), (''collection'', BString (ij_collection job)),
      (''status'', BString (status_str (ij_status job))),
      (''total_rows'', BInt64 (word_of_int (ij_total_rows job))),
      (''rows_processed'', BInt64 (word_of_int (ij_rows_processed job))),
      (''rows_inserted'', BInt64 (word_of_int (ij_rows_inserted job))),
      (''rows_skipped'', BInt64 (word_of_int (ij_rows_skipped job))),
      (''rows_failed'', BInt64 (word_of_int (ij_rows_failed job))),
      (''last_committed_chunk'', BInt64 (word_of_int (ij_last_committed_chunk job))),
      (''started_at'', BDateTime (ij_started_at job))] @
     (case ij_completed_at job of None \<Rightarrow> [] | Some t \<Rightarrow> [(''completed_at'', BDateTime t)]) @
     (case ij_error job of None \<Rightarrow> [] | Some e \<Rightarrow> [(''error'', BString e)])"

definition create_job :: "('s, 'w) ingest_lib \<Rightarrow> ingest_job \<Rightarrow> 'w ingest_state \<Rightarrow> ('w, unit) ingest_result" where
  "create_job E job st =
     sbind (on_world (\<lambda>e. IngestionError (''Failed to create job: '' @ e)) (il_jobs_insert E (job_to_document job)) st)
       (\<lambda>_ st. (Inr (), st\<lparr>is_jobs := is_jobs st @ [job]\<rparr>))"

text \<open>The first job of that id is changed.\<close>

fun change_job :: "string \<Rightarrow> (ingest_job \<Rightarrow> ingest_job) \<Rightarrow> ingest_job list \<Rightarrow> ingest_job list" where
  "change_job job_id f [] = []"
| "change_job job_id f (j # js) =
     (if ij_job_id j = job_id then f j # js else j # change_job job_id f js)"

definition update_job ::
  "('s, 'w) ingest_lib \<Rightarrow> string \<Rightarrow> string \<Rightarrow> document \<Rightarrow> (ingest_job \<Rightarrow> ingest_job) \<Rightarrow> 'w ingest_state \<Rightarrow>
   ('w, unit) ingest_result" where
  "update_job E what job_id set_fields f st =
     sbind (on_world (\<lambda>e. IngestionError (what @ e))
              (il_jobs_update E [(''job_id'', BString job_id)] [(''$set'', BDocument set_fields)]) st)
       (\<lambda>_ st. (Inr (), st\<lparr>is_jobs := change_job job_id f (is_jobs st)\<rparr>))"

definition update_total_rows ::
  "('s, 'w) ingest_lib \<Rightarrow> string \<Rightarrow> int \<Rightarrow> 'w ingest_state \<Rightarrow> ('w, unit) ingest_result" where
  "update_total_rows E job_id total_rows st =
     update_job E ''Failed to update total_rows: '' job_id [(''total_rows'', BInt64 (word_of_int total_rows))]
       (\<lambda>j. j\<lparr>ij_total_rows := total_rows\<rparr>) st"

definition update_progress ::
  "('s, 'w) ingest_lib \<Rightarrow> string \<Rightarrow> int \<Rightarrow> int \<Rightarrow> int \<Rightarrow> int \<Rightarrow> int \<Rightarrow> 'w ingest_state \<Rightarrow> ('w, unit) ingest_result" where
  "update_progress E job_id processed inserted skipped failed last_chunk st =
     update_job E ''Failed to update progress: '' job_id
       [(''rows_processed'', BInt64 (word_of_int processed)), (''rows_inserted'', BInt64 (word_of_int inserted)),
        (''rows_skipped'', BInt64 (word_of_int skipped)), (''rows_failed'', BInt64 (word_of_int failed)),
        (''last_committed_chunk'', BInt64 (word_of_int last_chunk))]
       (\<lambda>j. j\<lparr>ij_rows_processed := processed, ij_rows_inserted := inserted, ij_rows_skipped := skipped,
              ij_rows_failed := failed, ij_last_committed_chunk := last_chunk\<rparr>) st"

definition complete_job :: "('s, 'w) ingest_lib \<Rightarrow> string \<Rightarrow> 'w ingest_state \<Rightarrow> ('w, unit) ingest_result" where
  "complete_job E job_id st =
     (let now = il_now E (is_world st) in
      update_job E ''Failed to complete job: '' job_id
        [(''status'', BString ''completed''), (''completed_at'', BDateTime now)]
        (\<lambda>j. j\<lparr>ij_status := ICompleted, ij_completed_at := Some now\<rparr>) st)"

definition fail_job :: "('s, 'w) ingest_lib \<Rightarrow> string \<Rightarrow> string \<Rightarrow> 'w ingest_state \<Rightarrow> ('w, unit) ingest_result" where
  "fail_job E job_id err st =
     (let now = il_now E (is_world st) in
      update_job E ''Failed to fail job: '' job_id
        [(''status'', BString ''failed''), (''error'', BString err), (''completed_at'', BDateTime now)]
        (\<lambda>j. j\<lparr>ij_status := IFailed, ij_error := Some err, ij_completed_at := Some now\<rparr>) st)"

definition cancel_job :: "('s, 'w) ingest_lib \<Rightarrow> string \<Rightarrow> 'w ingest_state \<Rightarrow> ('w, unit) ingest_result" where
  "cancel_job E job_id st =
     (let now = il_now E (is_world st) in
      update_job E ''Failed to cancel job: '' job_id
        [(''status'', BString ''cancelled''), (''completed_at'', BDateTime now)]
        (\<lambda>j. j\<lparr>ij_status := ICancelled, ij_completed_at := Some now\<rparr>) st)"

definition get_job :: "string \<Rightarrow> 'w ingest_state \<Rightarrow> ingest_job option" where
  "get_job job_id st = find (\<lambda>j. ij_job_id j = job_id) (is_jobs st)"

definition list_jobs :: "'w ingest_state \<Rightarrow> ingest_job list" where
  "list_jobs st = is_jobs st"

definition get_resumable_jobs :: "'w ingest_state \<Rightarrow> ingest_job list" where
  "get_resumable_jobs st = filter (\<lambda>j. ij_status j = IRunning) (is_jobs st)"

subsection \<open>Properties of deduplication\<close>

lemma map_of_merge:
  "map_of (foldl (\<lambda>d (k, v). doc_insert k v d) acc kvs) = map_of acc ++ map_of (rev kvs)"
proof (induction kvs arbitrary: acc)
  case (Cons kv kvs)
  then show ?case
    by (cases kv) (simp add: fun_eq_iff map_of_doc_insert map_add_def map_of_append split: option.split)
qed simp

lemma map_of_merge_documents:
  assumes "doc_ok incoming"
  shows "map_of (merge_documents incoming existing) = map_of existing ++ map_of incoming"
proof -
  have "map_of (rev incoming) = map_of incoming"
    using assms by (intro map_of_eqI) (auto simp: doc_ok_def rev_map distinct_map)
  then show ?thesis by (simp add: merge_documents_def map_of_merge)
qed

lemma filter_same_fields:
  "(\<And>k. k \<in> set ks \<Longrightarrow> map_of d k = map_of d' k) \<Longrightarrow> dedup_filter_from ks d acc = dedup_filter_from ks d' acc"
  by (induction ks d acc rule: dedup_filter_from.induct) (auto split: option.splits)

lemma filter_complete:
  "(\<exists>f. dedup_filter_from ks d acc = Some f) \<longleftrightarrow> (\<forall>k \<in> set ks. map_of d k \<noteq> None)"
  by (induction ks d acc rule: dedup_filter_from.induct) (auto split: option.splits)

lemma filter_value:
  "dedup_filter_from ks d acc = Some f \<Longrightarrow> map_of f k = (if k \<in> set ks then map_of d k else map_of acc k)"
  by (induction ks d acc rule: dedup_filter_from.induct)
    (auto simp: map_of_doc_insert split: option.splits if_splits)

lemma build_filter_complete: "(\<exists>f. build_dedup_filter ks d = Some f) \<longleftrightarrow> (\<forall>k \<in> set ks. map_of d k \<noteq> None)"
  by (simp add: build_dedup_filter_def filter_complete)

text \<open>
  A document that replaces an existing one has the same key as the incoming document it
  was made of: under either strategy its filter, which selects what is replaced, is that of
  the incoming document, and merging keeps every field of the existing document that the
  incoming one does not set.
\<close>

theorem merge_keeps_key:
  assumes "doc_ok incoming" and "build_dedup_filter ks incoming = Some f"
  shows "build_dedup_filter ks (merge_documents incoming existing) = Some f \<and>
    map_of (merge_documents incoming existing) = map_of existing ++ map_of incoming"
proof -
  have present: "\<forall>k \<in> set ks. map_of incoming k \<noteq> None"
    using assms(2) build_filter_complete by blast
  have "map_of (merge_documents incoming existing) k = map_of incoming k" if k: "k \<in> set ks" for k
  proof -
    obtain v where "map_of incoming k = Some v" using present k by blast
    then show ?thesis by (simp add: map_of_merge_documents [OF assms(1)])
  qed
  then have "build_dedup_filter ks (merge_documents incoming existing) = build_dedup_filter ks incoming"
    unfolding build_dedup_filter_def by (rule filter_same_fields)
  with assms show ?thesis by (simp add: map_of_merge_documents)
qed

theorem merge_keeps_key_witness:
  "map_of (merge_documents [(''_id'', BInt32 1), (''a'', BInt32 2)] [(''_id'', BInt32 1), (''b'', BInt32 3)]) ''b'' = Some (BInt32 3)"
  using merge_keeps_key [of "[(''_id'', BInt32 1), (''a'', BInt32 2)]" "[''_id'']" "[(''_id'', BInt32 1)]"
      "[(''_id'', BInt32 1), (''b'', BInt32 3)]"]
  by (simp add: doc_ok_def build_dedup_filter_def)

text \<open>What an existing document says about an incoming one that has all the key's fields.\<close>

definition key_match :: "('s, 'w) ingest_lib \<Rightarrow> string list \<Rightarrow> document \<Rightarrow> document \<Rightarrow> bool" where
  "key_match E ks d existing \<longleftrightarrow>
     (\<forall>k \<in> set ks. \<exists>a b. map_of d k = Some a \<and> map_of existing k = Some b \<and> il_bson_eq E a b)"

lemma same_key_match:
  assumes "build_dedup_filter ks d = Some f"
  shows "same_key E ks f existing \<longleftrightarrow> key_match E ks d existing"
proof -
  have v: "map_of f k = map_of d k" if "k \<in> set ks" for k
    using assms that filter_value [of ks d "[]" f k] by (simp add: build_dedup_filter_def)
  have p: "\<exists>a. map_of d k = Some a" if "k \<in> set ks" for k
    using assms that build_filter_complete [of ks d] by blast
  have "(case (map_of f k, map_of existing k) of (Some a, Some b) \<Rightarrow> il_bson_eq E a b | (None, None) \<Rightarrow> True | _ \<Rightarrow> False)
      \<longleftrightarrow> (\<exists>a b. map_of d k = Some a \<and> map_of existing k = Some b \<and> il_bson_eq E a b)" if "k \<in> set ks" for k
    using v [OF that] p [OF that] by (auto split: option.splits)
  then show ?thesis by (simp add: same_key_def key_match_def list_all_iff)
qed


subsection \<open>Properties of the dead letter queue\<close>

text \<open>
  An entry of the dead letter queue is read back as it was stored, whenever its time is
  one the calendar can represent.
\<close>

theorem dead_letters_round_trip:
  assumes "il_millis_ok E (dl_timestamp e)"
  shows "document_to_entry E now (entry_to_document e) = e"
  using assms by (simp add: document_to_entry_def entry_to_document_def bson_getters or_default_def)

text \<open>A store that is a list of documents and a queue that is another.\<close>

definition plain_eq :: "bson \<Rightarrow> bson \<Rightarrow> bool" where
  "plain_eq a b = (a = b)"

definition list_store :: "(data_type \<times> int list, document list) ingest_lib" where
  "list_store =
     \<lparr>il_frames = int_columns, il_slice = (\<lambda>df _ n. df\<lparr>df_height := n\<rparr>),
      il_find = (\<lambda>_ w. (Inr w, w)), il_insert_many = (\<lambda>ds w. (Inr (length ds), w @ ds)),
      il_replace_one = (\<lambda>_ _ w. (Inr (), w)), il_dlq_insert = (\<lambda>_ w. (Inr (), w)),
      il_dlq_find = (\<lambda>_ w. (Inr [], w)), il_jobs_insert = (\<lambda>_ w. (Inr (), w)),
      il_jobs_update = (\<lambda>_ _ w. (Inr (), w)), il_now = (\<lambda>_. 0), il_cancelled = (\<lambda>w. (False, w)),
      il_bson_eq = plain_eq, il_millis_ok = (\<lambda>t. t < 1000)\<rparr>"


theorem dead_letters_round_trip_witness:
  "document_to_entry list_store 5 (entry_to_document
      \<lparr>dl_job_id = ''j'', dl_source_row = 3, dl_document = [(''a'', BNull)], dl_error = ''e'', dl_stage = ''write'', dl_timestamp = 7\<rparr>) =
    \<lparr>dl_job_id = ''j'', dl_source_row = 3, dl_document = [(''a'', BNull)], dl_error = ''e'', dl_stage = ''write'', dl_timestamp = 7\<rparr>"
  by (rule dead_letters_round_trip) (simp add: list_store_def)

end
