(* ===== verification/Ingest_Engine.thy ===== *)
theory Ingest_Engine
  imports Ingest_Jobs Ingest_Transform
begin

text \<open>
  The ingestion engine (\<open>src/ingestion/engine.rs\<close>): starting a job, the sequential writer of
  jobs with a key, the concurrent writers of jobs without one, cancelling. The sequential
  loop is a partial function, so that not ending is having no value; the concurrent writers
  are a step relation on the producer, the channel and the writer tasks.
\<close>

subsection \<open>Jobs\<close>

record ('s, 'w) ingest_run =
  ir_lib :: "('s, 'w) ingest_lib"
  ir_frame :: "'s data_frame"
  ir_schema :: bson_schema
  ir_job_id :: string
  ir_batch_size :: u32
  ir_concurrency :: nat
  ir_dedup_key :: "string list"
  ir_strategy :: conflict_strategy

abbreviation total_rows :: "('s, 'w) ingest_run \<Rightarrow> nat" where
  "total_rows R \<equiv> df_height (ir_frame R)"

definition chunk_end :: "('s, 'w) ingest_run \<Rightarrow> nat \<Rightarrow> nat" where
  "chunk_end R offset = min (offset + unat (ir_batch_size R)) (total_rows R)"

definition chunk_documents :: "('s, 'w) ingest_run \<Rightarrow> nat \<Rightarrow> mongo_error + document list" where
  "chunk_documents R offset =
     dataframe_to_documents (il_frames (ir_lib R))
       (il_slice (ir_lib R) (ir_frame R) offset (chunk_end R offset - offset)) (ir_schema R)"

definition conversion_entry :: "('s, 'w) ingest_run \<Rightarrow> mongo_error \<Rightarrow> nat \<Rightarrow> i64 \<Rightarrow> dead_letter_entry" where
  "conversion_entry R e row now =
     \<lparr>dl_job_id = ir_job_id R, dl_source_row = of_nat row, dl_document = [],
      dl_error = ''Conversion error: '' @ err_text e, dl_stage = ''conversion'', dl_timestamp = now\<rparr>"

definition write_entry :: "('s, 'w) ingest_run \<Rightarrow> string \<Rightarrow> nat \<Rightarrow> document \<Rightarrow> i64 \<Rightarrow> dead_letter_entry" where
  "write_entry R e row doc now =
     \<lparr>dl_job_id = ir_job_id R, dl_source_row = of_nat row, dl_document = doc,
      dl_error = ''Insert error: '' @ e, dl_stage = ''write'', dl_timestamp = now\<rparr>"

text \<open>A letter is pushed with the time at which it is written; whether it arrives is ignored.\<close>

definition push_letter ::
  "('s, 'w) ingest_run \<Rightarrow> (i64 \<Rightarrow> dead_letter_entry) \<Rightarrow> 'w ingest_state \<Rightarrow> 'w ingest_state" where
  "push_letter R entry st = snd (dlq_push (ir_lib R) (entry (il_now (ir_lib R) (is_world st))) st)"

definition push_conversion_letters ::
  "('s, 'w) ingest_run \<Rightarrow> mongo_error \<Rightarrow> nat \<Rightarrow> nat \<Rightarrow> 'w ingest_state \<Rightarrow> 'w ingest_state" where
  "push_conversion_letters R e offset end_at st =
     fold (\<lambda>i. push_letter R (conversion_entry R e i)) [offset..<end_at] st"

definition push_write_letters ::
  "('s, 'w) ingest_run \<Rightarrow> string \<Rightarrow> nat \<Rightarrow> document list \<Rightarrow> 'w ingest_state \<Rightarrow> 'w ingest_state" where
  "push_write_letters R e offset docs st =
     fold (\<lambda>(i, doc). push_letter R (write_entry R e (offset + i) doc)) (List.enumerate 0 docs) st"

text \<open>The cancel channel is asked without waiting.\<close>

definition poll_cancel :: "('s, 'w) ingest_run \<Rightarrow> 'w ingest_state \<Rightarrow> bool \<times> 'w ingest_state" where
  "poll_cancel R st = (case il_cancelled (ir_lib R) (is_world st) of (c, w) \<Rightarrow> (c, st\<lparr>is_world := w\<rparr>))"

definition job_cancelled :: mongo_error where
  "job_cancelled = IngestionError ''Job cancelled''"

subsection \<open>The sequential writer\<close>

text \<open>The local variables of the loop.\<close>

record seq_vars =
  sq_processed :: int
  sq_inserted :: int
  sq_skipped :: int
  sq_failed :: int
  sq_chunk :: int
  sq_offset :: nat

definition seq_start :: seq_vars where
  "seq_start = \<lparr>sq_processed = 0, sq_inserted = 0, sq_skipped = 0, sq_failed = 0, sq_chunk = 0, sq_offset = 0\<rparr>"

fun sort_results ::
  "dedup_result list \<Rightarrow> document list \<times> document list \<times> int \<Rightarrow> document list \<times> document list \<times> int" where
  "sort_results [] acc = acc"
| "sort_results (r # rs) (to_insert, to_replace, skipped) =
     sort_results rs
       (case r of
          DedupInsert d \<Rightarrow> (to_insert @ [d], to_replace, skipped)
        | DedupSkip \<Rightarrow> (to_insert, to_replace, skipped + 1)
        | DedupReplace d \<Rightarrow> (to_insert, to_replace @ [d], skipped)
        | DedupMerge incoming existing \<Rightarrow> (to_insert, to_replace @ [merge_documents incoming existing], skipped))"

definition write_inserts ::
  "('s, 'w) ingest_run \<Rightarrow> nat \<Rightarrow> document list \<Rightarrow> int \<times> int \<Rightarrow> 'w ingest_state \<Rightarrow> (int \<times> int) \<times> 'w ingest_state" where
  "write_inserts R offset to_insert counts st =
     (case counts of (inserted, failed) \<Rightarrow>
        if to_insert = [] then (counts, st)
        else
          (case il_insert_many (ir_lib R) to_insert (is_world st) of
             (Inr n, w) \<Rightarrow> ((inserted + int n, failed), st\<lparr>is_world := w\<rparr>)
           | (Inl e, w) \<Rightarrow>
               ((inserted, failed + int (length to_insert)),
                push_write_letters R e offset to_insert (st\<lparr>is_world := w\<rparr>))))"

fun write_replacements ::
  "('s, 'w) ingest_run \<Rightarrow> document list \<Rightarrow> int \<times> int \<Rightarrow> 'w ingest_state \<Rightarrow> (int \<times> int) \<times> 'w ingest_state" where
  "write_replacements R [] counts st = (counts, st)"
| "write_replacements R (d # ds) (inserted, failed) st =
     (let f = or_default [] (build_dedup_filter (ir_dedup_key R) d) in
      case il_replace_one (ir_lib R) f d (is_world st) of
        (Inr _, w) \<Rightarrow> write_replacements R ds (inserted + 1, failed) (st\<lparr>is_world := w\<rparr>)
      | (Inl _, w) \<Rightarrow> write_replacements R ds (inserted, failed + 1) (st\<lparr>is_world := w\<rparr>))"

text \<open>One round of the loop, for the chunk at the offset.\<close>

definition seq_chunk ::
  "('s, 'w) ingest_run \<Rightarrow> seq_vars \<Rightarrow> 'w ingest_state \<Rightarrow> ('w, seq_vars) ingest_result" where
  "seq_chunk R v st =
     (let offset = sq_offset v; end_at = chunk_end R offset; n = int (end_at - offset) in
      case chunk_documents R offset of
        Inl e \<Rightarrow>
          (Inr (v\<lparr>sq_failed := sq_failed v + n, sq_processed := sq_processed v + n, sq_offset := end_at,
                  sq_chunk := sq_chunk v + 1\<rparr>),
           push_conversion_letters R e offset end_at st)
      | Inr docs \<Rightarrow>
          sbind (check_batch (ir_lib R) (ir_dedup_key R) (ir_strategy R) docs st) (\<lambda>results st.
            case sort_results results ([], [], sq_skipped v) of (to_insert, to_replace, skipped) \<Rightarrow>
            case write_inserts R offset to_insert (sq_inserted v, sq_failed v) st of (counts, st) \<Rightarrow>
            case write_replacements R to_replace counts st of ((inserted, failed), st) \<Rightarrow>
            let v' = v\<lparr>sq_processed := sq_processed v + n, sq_inserted := inserted, sq_skipped := skipped,
                       sq_failed := failed, sq_chunk := sq_chunk v + 1, sq_offset := end_at\<rparr>
            in (Inr v', snd (update_progress (ir_lib R) (ir_job_id R) (sq_processed v') (sq_inserted v')
                  (sq_skipped v') (sq_failed v') (sq_chunk v') st))))"

text \<open>The loop; its result is the local variables at its end, which the job drops.\<close>

partial_function (option) seq_loop ::
  "('s, 'w) ingest_run \<Rightarrow> seq_vars \<Rightarrow> 'w ingest_state \<Rightarrow> ('w, seq_vars) ingest_result option" where
  "seq_loop R v st =
     (if total_rows R \<le> sq_offset v then Some (Inr v, st)
      else
        (case poll_cancel R st of (cancelled, st1) \<Rightarrow>
           if cancelled then Some (Inl job_cancelled, st1)
           else
             (case seq_chunk R v st1 of
                (Inl e, st2) \<Rightarrow> Some (Inl e, st2)
              | (Inr v', st2) \<Rightarrow> seq_loop R v' st2)))"

definition run_sequential_writes ::
  "('s, 'w) ingest_run \<Rightarrow> 'w ingest_state \<Rightarrow> ('w, unit) ingest_result option" where
  "run_sequential_writes R st =
     map_option (\<lambda>(r, st). (rbind r (\<lambda>_. Inr ()), st)) (seq_loop R seq_start st)"

subsection \<open>The concurrent writers\<close>

text \<open>
  A writer task waits for a batch, holds one that it is about to insert, writes the letters of
  one that could not be inserted, or has ended. The producer is at the top of its loop, sends
  the documents of the chunk at its offset, writes the letters of a chunk that could not be
  converted, or has dropped its end of the channel, cancelled or not.
\<close>

datatype writer =
    Idle
  | Holding "document list" nat
  | WriteLetters string "(nat \<times> document) list" nat
  | Done

datatype producer =
    AtTop
  | Sending "document list"
  | ConversionLetters mongo_error "nat list"
  | Closed bool

record 'w conc =
  cn_state :: "'w ingest_state"
  cn_producer :: producer
  cn_offset :: nat
  cn_chunk :: int
  cn_queue :: "(document list \<times> nat) list"
  cn_writers :: "writer list"
  cn_inserted :: int
  cn_failed :: int

definition conc_start :: "('s, 'w) ingest_run \<Rightarrow> 'w ingest_state \<Rightarrow> 'w conc" where
  "conc_start R st =
     \<lparr>cn_state = st, cn_producer = AtTop, cn_offset = 0, cn_chunk = 0, cn_queue = [],
      cn_writers = replicate (ir_concurrency R) Idle, cn_inserted = 0, cn_failed = 0\<rparr>"

definition channel_capacity :: "('s, 'w) ingest_run \<Rightarrow> nat" where
  "channel_capacity R = ir_concurrency R * 2"

text \<open>The end of a round of the producer: every fourth chunk reports the progress.\<close>

definition next_chunk :: "('s, 'w) ingest_run \<Rightarrow> 'w conc \<Rightarrow> 'w conc" where
  "next_chunk R c =
     (let chunk_num = cn_chunk c + 1;
          offset = chunk_end R (cn_offset c);
          st = (if chunk_num mod 4 = 0
                then snd (update_progress (ir_lib R) (ir_job_id R) (int offset) (cn_inserted c) 0 (cn_failed c)
                       chunk_num (cn_state c))
                else cn_state c)
      in c\<lparr>cn_producer := AtTop, cn_chunk := chunk_num, cn_offset := offset, cn_state := st\<rparr>)"

text \<open>
  One step of the producer or of a writer; the middle argument lists the rows that the step
  settles: those of an inserted batch, or the row whose letter it writes.
\<close>

inductive conc_step :: "('s, 'w) ingest_run \<Rightarrow> 'w conc \<Rightarrow> nat list \<Rightarrow> 'w conc \<Rightarrow> bool" for R where
  cancelled:
    "cn_producer c = AtTop \<Longrightarrow> cn_offset c < total_rows R \<Longrightarrow> poll_cancel R (cn_state c) = (True, st) \<Longrightarrow>
     conc_step R c [] (c\<lparr>cn_state := st, cn_producer := Closed True\<rparr>)"
| convert:
    "cn_producer c = AtTop \<Longrightarrow> cn_offset c < total_rows R \<Longrightarrow> poll_cancel R (cn_state c) = (False, st) \<Longrightarrow>
     chunk_documents R (cn_offset c) = Inr docs \<Longrightarrow>
     conc_step R c [] (c\<lparr>cn_state := st, cn_producer := Sending docs\<rparr>)"
| convert_fails:
    "cn_producer c = AtTop \<Longrightarrow> cn_offset c < total_rows R \<Longrightarrow> poll_cancel R (cn_state c) = (False, st) \<Longrightarrow>
     chunk_documents R (cn_offset c) = Inl e \<Longrightarrow>
     conc_step R c [] (c\<lparr>cn_state := st,
       cn_producer := ConversionLetters e [cn_offset c..<chunk_end R (cn_offset c)]\<rparr>)"
| send:
    "cn_producer c = Sending docs \<Longrightarrow> length (cn_queue c) < channel_capacity R \<Longrightarrow>
     conc_step R c [] (next_chunk R (c\<lparr>cn_queue := cn_queue c @ [(docs, cn_offset c)]\<rparr>))"
| conversion_letter:
    "cn_producer c = ConversionLetters e (row # rows) \<Longrightarrow>
     conc_step R c [row] (c\<lparr>cn_state := push_letter R (conversion_entry R e row) (cn_state c),
       cn_producer := ConversionLetters e rows\<rparr>)"
| conversion_counted:
    "cn_producer c = ConversionLetters e [] \<Longrightarrow>
     conc_step R c [] (next_chunk R
       (c\<lparr>cn_failed := cn_failed c + int (chunk_end R (cn_offset c) - cn_offset c)\<rparr>))"
| all_sent:
    "cn_producer c = AtTop \<Longrightarrow> total_rows R \<le> cn_offset c \<Longrightarrow>
     conc_step R c [] (c\<lparr>cn_producer := Closed False\<rparr>)"
| receive:
    "i < length (cn_writers c) \<Longrightarrow> cn_writers c ! i = Idle \<Longrightarrow> cn_queue c = (docs, offset) # queue \<Longrightarrow>
     conc_step R c [] (c\<lparr>cn_queue := queue, cn_writers := (cn_writers c)[i := Holding docs offset]\<rparr>)"
| inserted:
    "i < length (cn_writers c) \<Longrightarrow> cn_writers c ! i = Holding docs offset \<Longrightarrow>
     il_insert_many (ir_lib R) docs (is_world (cn_state c)) = (Inr n, w) \<Longrightarrow>
     conc_step R c [offset..<offset + length docs]
       (c\<lparr>cn_state := (cn_state c)\<lparr>is_world := w\<rparr>, cn_writers := (cn_writers c)[i := Idle],
          cn_inserted := cn_inserted c + int n\<rparr>)"
| insert_fails:
    "i < length (cn_writers c) \<Longrightarrow> cn_writers c ! i = Holding docs offset \<Longrightarrow>
     il_insert_many (ir_lib R) docs (is_world (cn_state c)) = (Inl e, w) \<Longrightarrow>
     conc_step R c []
       (c\<lparr>cn_state := (cn_state c)\<lparr>is_world := w\<rparr>,
          cn_writers := (cn_writers c)[i := WriteLetters e (List.enumerate offset docs) (length docs)]\<rparr>)"
| write_letter:
    "i < length (cn_writers c) \<Longrightarrow> cn_writers c ! i = WriteLetters e ((row, doc) # letters) n \<Longrightarrow>
     conc_step R c [row]
       (c\<lparr>cn_state := push_letter R (write_entry R e row doc) (cn_state c),
          cn_writers := (cn_writers c)[i := WriteLetters e letters n]\<rparr>)"
| write_counted:
    "i < length (cn_writers c) \<Longrightarrow> cn_writers c ! i = WriteLetters e [] n \<Longrightarrow>
     conc_step R c [] (c\<lparr>cn_writers := (cn_writers c)[i := Idle], cn_failed := cn_failed c + int n\<rparr>)"
| writer_ends:
    "i < length (cn_writers c) \<Longrightarrow> cn_writers c ! i = Idle \<Longrightarrow> cn_producer c = Closed b \<Longrightarrow> cn_queue c = [] \<Longrightarrow>
     conc_step R c [] (c\<lparr>cn_writers := (cn_writers c)[i := Done]\<rparr>)"

text \<open>The states reached in some number of steps, with the rows settled on the way.\<close>

inductive conc_run :: "('s, 'w) ingest_run \<Rightarrow> 'w ingest_state \<Rightarrow> nat \<Rightarrow> nat list \<Rightarrow> 'w conc \<Rightarrow> bool" for R st where
  conc_run_start: "conc_run R st 0 [] (conc_start R st)"
| conc_run_step: "conc_run R st n settled c \<Longrightarrow> conc_step R c rows c' \<Longrightarrow> conc_run R st (Suc n) (settled @ rows) c'"

definition conc_finished :: "'w conc \<Rightarrow> bool" where
  "conc_finished c \<longleftrightarrow>
     (case cn_producer c of Closed _ \<Rightarrow> True | _ \<Rightarrow> False) \<and> list_all (\<lambda>t. t = Done) (cn_writers c)"

text \<open>What the function returns once every task has ended.\<close>

definition conc_result :: "('s, 'w) ingest_run \<Rightarrow> 'w conc \<Rightarrow> ('w, unit) ingest_result" where
  "conc_result R c =
     (if cn_producer c = Closed True then (Inl job_cancelled, cn_state c)
      else
        (Inr (), snd (update_progress (ir_lib R) (ir_job_id R) (int (total_rows R)) (cn_inserted c) 0 (cn_failed c)
           (cn_chunk c) (cn_state c))))"

subsection \<open>The sequential writer ends and accounts for every row\<close>

text \<open>
  What is relied on: a slice has the rows asked for, and an insertion that succeeds reports
  as many identifiers as it was given documents.
\<close>

definition honest_lib :: "('s, 'w) ingest_run \<Rightarrow> bool" where
  "honest_lib R \<longleftrightarrow>
     (\<forall>offset n. offset + n \<le> total_rows R \<longrightarrow> df_height (il_slice (ir_lib R) (ir_frame R) offset n) = n) \<and>
     (\<forall>docs w n w'. il_insert_many (ir_lib R) docs w = (Inr n, w') \<longrightarrow> n = length docs)"

lemma chunk_end_bounds: "offset \<le> total_rows R \<Longrightarrow> offset \<le> chunk_end R offset \<and> chunk_end R offset \<le> total_rows R"
  by (simp add: chunk_end_def)

lemma chunk_end_progress: "offset < total_rows R \<Longrightarrow> 0 < ir_batch_size R \<Longrightarrow> offset < chunk_end R offset"
  by (simp add: chunk_end_def word_less_nat_alt)

lemma chunk_length:
  assumes "honest_lib R" and "offset \<le> total_rows R" and "chunk_documents R offset = Inr docs"
  shows "length docs = chunk_end R offset - offset"
  using assms chunk_end_bounds [of offset R]
  by (auto simp: chunk_documents_def dataframe_to_documents_def honest_lib_def dest!: collect_length)

lemma check_batch_length: "check_batch E ks strategy docs st = (Inr results, st') \<Longrightarrow> length results = length docs"
  by (auto simp: check_batch_def sbind_eq_Inr Let_def split: if_splits)

lemma sort_results_count:
  "sort_results rs (ins, reps, s) = (ins', reps', s') \<Longrightarrow>
   int (length ins') + int (length reps') + s' = int (length ins) + int (length reps) + s + int (length rs)"
  by (induction rs arbitrary: ins reps s) (force split: dedup_result.splits)+

lemma write_inserts_count:
  "honest_lib R \<Longrightarrow> write_inserts R offset ds (i, f) st = ((i', f'), st') \<Longrightarrow> i' + f' = i + f + int (length ds)"
  by (auto simp: write_inserts_def honest_lib_def split: if_splits prod.splits sum.splits) blast

lemma write_replacements_count:
  "write_replacements R ds (i, f) st = ((i', f'), st') \<Longrightarrow> i' + f' = i + f + int (length ds)"
  by (induction ds arbitrary: i f st) (auto simp: Let_def split: prod.splits sum.splits)

definition seq_inv :: "('s, 'w) ingest_run \<Rightarrow> seq_vars \<Rightarrow> bool" where
  "seq_inv R v \<longleftrightarrow>
     sq_offset v \<le> total_rows R \<and> sq_processed v = int (sq_offset v) \<and>
     sq_inserted v + sq_skipped v + sq_failed v = sq_processed v"

lemma seq_chunk_inv:
  assumes "honest_lib R" and "seq_inv R v" and "seq_chunk R v st = (Inr v', st')"
  shows "seq_inv R v' \<and> sq_offset v' = chunk_end R (sq_offset v)"
proof (cases "chunk_documents R (sq_offset v)")
  case (Inl e)
  then show ?thesis
    using assms(2,3) chunk_end_bounds [of "sq_offset v" R]
    by (auto simp: seq_chunk_def seq_inv_def Let_def)
next
  case (Inr docs)
  obtain results st1 where results: "check_batch (ir_lib R) (ir_dedup_key R) (ir_strategy R) docs st = (Inr results, st1)"
    using assms(3) Inr by (auto simp: seq_chunk_def sbind_eq_Inr Let_def)
  obtain ins reps skipped where sorted: "sort_results results ([], [], sq_skipped v) = (ins, reps, skipped)"
    by (metis prod_cases3)
  obtain i f st2 where inserts: "write_inserts R (sq_offset v) ins (sq_inserted v, sq_failed v) st1 = ((i, f), st2)"
    by (metis surj_pair)
  obtain i' f' st3 where reps: "write_replacements R reps (i, f) st2 = ((i', f'), st3)"
    by (metis surj_pair)
  have v': "v' = v\<lparr>sq_processed := sq_processed v + int (chunk_end R (sq_offset v) - sq_offset v), sq_inserted := i',
      sq_skipped := skipped, sq_failed := f', sq_chunk := sq_chunk v + 1, sq_offset := chunk_end R (sq_offset v)\<rparr>"
    using assms(3) Inr by (simp add: seq_chunk_def results sorted inserts reps Let_def)
  have "length docs = chunk_end R (sq_offset v) - sq_offset v"
    using assms(2) by (intro chunk_length [OF assms(1) _ Inr]) (simp add: seq_inv_def)
  then show ?thesis
    using assms(2) chunk_end_bounds [of "sq_offset v" R] check_batch_length [OF results]
      sort_results_count [OF sorted] write_inserts_count [OF assms(1) inserts] write_replacements_count [OF reps]
    by (simp add: v' seq_inv_def)
qed

lemma seq_loop_ends:
  assumes "honest_lib R" and "0 < ir_batch_size R"
  shows "seq_inv R v \<Longrightarrow>
    \<exists>r st'. seq_loop R v st = Some (r, st') \<and> (\<forall>v'. r = Inr v' \<longrightarrow> seq_inv R v' \<and> sq_offset v' = total_rows R)"
proof (induction "total_rows R - sq_offset v" arbitrary: v st rule: less_induct)
  case less
  show ?case
  proof (cases "total_rows R \<le> sq_offset v")
    case True
    then show ?thesis using less.prems by (simp add: seq_loop.simps [of R v] seq_inv_def)
  next
    case False
    obtain c st1 where poll: "poll_cancel R st = (c, st1)" by fastforce
    show ?thesis
    proof (cases "c \<or> (\<exists>e. fst (seq_chunk R v st1) = Inl e)")
      case True
      then show ?thesis
        using False poll by (cases "seq_chunk R v st1") (auto simp: seq_loop.simps [of R v])
    next
      case go: False
      then obtain v' st2 where chunk: "seq_chunk R v st1 = (Inr v', st2)"
        by (metis fst_conv old.sum.exhaust surj_pair)
      have v': "seq_inv R v'" "sq_offset v' = chunk_end R (sq_offset v)"
        using seq_chunk_inv [OF assms(1) less.prems chunk] by simp_all
      have "total_rows R - sq_offset v' < total_rows R - sq_offset v"
        using chunk_end_progress [of "sq_offset v" R] assms(2) False v'(2) by simp
      from less.hyps [OF this v'(1), of st2] show ?thesis
        using False poll go chunk by (simp add: seq_loop.simps [of R v])
    qed
  qed
qed

text \<open>
  C35. With a batch size above zero the sequential writer of a job always ends; when it is not
  cancelled and no query fails, it has gone through every row, and every row counts as
  inserted, as skipped or as failed, exactly once.
\<close>

theorem sequential_terminates:
  assumes "honest_lib R" and "0 < ir_batch_size R"
  shows "\<exists>r st'. seq_loop R seq_start st = Some (r, st') \<and>
    (\<forall>v. r = Inr v \<longrightarrow>
       sq_processed v = int (total_rows R) \<and>
       sq_inserted v + sq_skipped v + sq_failed v = int (total_rows R))"
proof -
  have "seq_inv R seq_start" by (simp add: seq_inv_def seq_start_def)
  from seq_loop_ends [OF assms this, of st] show ?thesis
    unfolding seq_inv_def by metis
qed

lemma empty_chunk:
  assumes "honest_lib R" and "ir_batch_size R = 0" and "sq_offset v \<le> total_rows R"
  shows "\<exists>v' st'. seq_chunk R v st = (Inr v', st') \<and> sq_offset v' = sq_offset v"
proof -
  have e: "chunk_end R (sq_offset v) = sq_offset v" using assms(2,3) by (simp add: chunk_end_def)
  show ?thesis
  proof (cases "chunk_documents R (sq_offset v)")
    case (Inr docs)
    then have "docs = []" using chunk_length [OF assms(1,3) Inr] e by simp
    then show ?thesis
      using Inr e
      by (simp add: seq_chunk_def check_batch_def write_inserts_def map_filter_simps Let_def)
  qed (simp add: seq_chunk_def e Let_def)
qed

text \<open>
  With a batch size of zero, which nothing rejects, the sequential writer of a file with
  rows never ends: unless it is cancelled it stays at the first row for ever.
\<close>

theorem zero_batch_never_ends:
  assumes "honest_lib R" and "ir_batch_size R = 0" and "0 < total_rows R"
    and "\<And>w. \<not> fst (il_cancelled (ir_lib R) w)"
  shows "run_sequential_writes R st = None"
proof -
  have never: "\<not> total_rows R \<le> sq_offset v \<Longrightarrow> R' = R \<Longrightarrow> False" if "seq_loop R' v st = Some y" for R' v st y
    using that
  proof (rule seq_loop.raw_induct [of "\<lambda>R' v st _. \<not> total_rows R \<le> sq_offset v \<longrightarrow> R' = R \<longrightarrow> False", rule_format, rotated])
    fix loop :: "('a, 'b) ingest_run \<Rightarrow> seq_vars \<Rightarrow> 'b ingest_state \<Rightarrow> ('b, seq_vars) ingest_result option"
    fix R' v st y
    assume ih: "\<And>R' v st y. loop R' v st = Some y \<Longrightarrow> \<not> total_rows R \<le> sq_offset v \<Longrightarrow> R' = R \<Longrightarrow> False"
      and step: "(if total_rows R' \<le> sq_offset v then Some (Inr v, st)
         else (case poll_cancel R' st of (cancelled, st1) \<Rightarrow>
           if cancelled then Some (Inl job_cancelled, st1)
           else (case seq_chunk R' v st1 of (Inl e, st2) \<Rightarrow> Some (Inl e, st2) | (Inr v', st2) \<Rightarrow> loop R' v' st2))) = Some y"
      and v: "\<not> total_rows R \<le> sq_offset v" and R': "R' = R"
    obtain st1 where poll: "poll_cancel R st = (False, st1)"
      using assms(4) [of "is_world st"] by (cases "il_cancelled (ir_lib R) (is_world st)") (simp add: poll_cancel_def)
    obtain v' st2 where "seq_chunk R v st1 = (Inr v', st2)" "sq_offset v' = sq_offset v"
      using empty_chunk [OF assms(1,2), of v st1] v by auto
    then show False using step poll v ih [of R v' st2 y] by (simp add: R')
  qed auto
  have "seq_loop R seq_start st = None"
  proof (cases "seq_loop R seq_start st")
    case (Some y)
    then show ?thesis using never [OF Some] assms(3) by (simp add: seq_start_def)
  qed
  then show ?thesis by (simp add: run_sequential_writes_def)
qed

lemma push_letter_jobs: "is_jobs (push_letter R f st) = is_jobs st"
  by (simp add: push_letter_def dlq_push_def on_world_def split: prod.splits)

lemma push_conversion_jobs: "is_jobs (push_conversion_letters R e a b st) = is_jobs st"
proof -
  have "is_jobs (fold (\<lambda>i. push_letter R (conversion_entry R e i)) is st) = is_jobs st" for "is" :: "nat list"
    by (induction "is" arbitrary: st) (simp_all add: push_letter_jobs)
  then show ?thesis by (simp add: push_conversion_letters_def)
qed

lemma seq_loop_unconverted:
  assumes "0 < ir_batch_size R" and "\<And>w. \<not> fst (il_cancelled (ir_lib R) w)"
    and "\<And>offset. offset < total_rows R \<Longrightarrow> isl (chunk_documents R offset)"
  shows "seq_inv R v \<Longrightarrow>
    \<exists>v' st'. seq_loop R v st = Some (Inr v', st') \<and> is_jobs st' = is_jobs st \<and>
      sq_failed v' = sq_failed v + int (total_rows R - sq_offset v)"
proof (induction "total_rows R - sq_offset v" arbitrary: v st rule: less_induct)
  case less
  show ?case
  proof (cases "total_rows R \<le> sq_offset v")
    case True
    then show ?thesis by (simp add: seq_loop.simps [of R v])
  next
    case False
    obtain st1 where poll: "poll_cancel R st = (False, st1)" and jobs1: "is_jobs st1 = is_jobs st"
      using assms(2) [of "is_world st"] by (cases "il_cancelled (ir_lib R) (is_world st)") (simp add: poll_cancel_def)
    obtain e where e: "chunk_documents R (sq_offset v) = Inl e"
      using assms(3) [of "sq_offset v"] False by (auto simp: isl_def)
    obtain v' st2 where chunk: "seq_chunk R v st1 = (Inr v', st2)" and jobs2: "is_jobs st2 = is_jobs st1"
      and f: "sq_failed v' = sq_failed v + int (chunk_end R (sq_offset v) - sq_offset v)"
      and v': "sq_offset v' = chunk_end R (sq_offset v)" "seq_inv R v'"
      using less.prems chunk_end_bounds [of "sq_offset v" R]
      by (auto simp: seq_chunk_def e Let_def push_conversion_jobs seq_inv_def)
    have le: "sq_offset v < chunk_end R (sq_offset v)" "chunk_end R (sq_offset v) \<le> total_rows R"
      using chunk_end_progress [of "sq_offset v" R] chunk_end_bounds [of "sq_offset v" R] assms(1) False by simp_all
    then have "total_rows R - sq_offset v' < total_rows R - sq_offset v" using v'(1) by simp
    from less.hyps [OF this v'(2), of st2] show ?thesis
      using False poll chunk jobs1 jobs2 f v' le by (auto simp: seq_loop.simps [of R v])
  qed
qed

text \<open>
  A file none of whose chunks can be converted is reported as if it were empty: the
  sequential writer counts every row as failed in its own variables, ends without an error,
  and the job's record still says that no row was processed and none failed.
\<close>

theorem unconverted_rows_unreported:
  assumes "0 < ir_batch_size R" and "\<And>w. \<not> fst (il_cancelled (ir_lib R) w)"
    and "\<And>offset. offset < total_rows R \<Longrightarrow> isl (chunk_documents R offset)"
  shows "\<exists>v st'. seq_loop R seq_start st = Some (Inr v, st') \<and> sq_failed v = int (total_rows R) \<and> is_jobs st' = is_jobs st"
  using seq_loop_unconverted [OF assms, of seq_start st] by (auto simp: seq_inv_def seq_start_def)

text \<open>A run over three rows of one integer column.\<close>

definition demo_run :: "data_type \<Rightarrow> u32 \<Rightarrow> (data_type \<times> int list, document list) ingest_run" where
  "demo_run ty batch =
     \<lparr>ir_lib = list_store,
      ir_frame = \<lparr>df_height = 3, df_column = (\<lambda>k. if k = ''k'' then Inr (ty, [7, 8, 9]) else Inl ''no column'')\<rparr>,
      ir_schema = [SchemaField ''k'' TInt32 False], ir_job_id = ''j'', ir_batch_size = batch,
      ir_concurrency = 2, ir_dedup_key = [''k''], ir_strategy = CSkip\<rparr>"

definition demo_state :: "document list ingest_state" where
  "demo_state = \<lparr>is_world = [], is_jobs = [], is_channels = []\<rparr>"

lemma demo_honest: "honest_lib (demo_run ty n)"
  by (simp add: honest_lib_def demo_run_def list_store_def)

lemma demo_never_cancelled: "\<not> fst (il_cancelled (ir_lib (demo_run ty n)) w)"
  by (simp add: demo_run_def list_store_def)

theorem sequential_terminates_witness: "\<exists>r st'. seq_loop (demo_run DInt32 2) seq_start demo_state = Some (r, st')"
  using sequential_terminates [OF demo_honest, of DInt32 2 demo_state] by (auto simp: demo_run_def)

theorem zero_batch_never_ends_witness: "run_sequential_writes (demo_run DInt32 0) demo_state = None"
  by (rule zero_batch_never_ends [OF demo_honest _ _ demo_never_cancelled]) (simp_all add: demo_run_def)

theorem unconverted_rows_unreported_witness:
  "\<exists>v st'. seq_loop (demo_run DInt16 2) seq_start demo_state = Some (Inr v, st') \<and> sq_failed v = 3 \<and> is_jobs st' = []"
proof -
  have "isl (chunk_documents (demo_run DInt16 2) offset)" if "offset < 3" for offset
  proof -
    have "[0..<chunk_end (demo_run DInt16 2) offset - offset] = 0 # [1..<chunk_end (demo_run DInt16 2) offset - offset]"
      using that by (simp add: chunk_end_def demo_run_def upt_conv_Cons)
    then show ?thesis
      by (simp add: chunk_documents_def dataframe_to_documents_def demo_run_def list_store_def row_document_def
          series_value_to_bson.simps typed_cell_def int_columns_def)
  qed
  then show ?thesis
    using unconverted_rows_unreported [OF _ demo_never_cancelled, of DInt16 2 demo_state]
    by (simp add: demo_run_def demo_state_def)
qed

end
