(* ===== verification/Ingest_Concurrent.thy ===== *)
theory Ingest_Concurrent
  imports Ingest_Engine "HOL-Library.Multiset"
begin

text \<open>
  Correctness of the concurrent writers of Ingest_Engine over every interleaving: the rows
  settled so far and those under way are the rows the producer has passed, each once; the
  counters agree with them; some task can always move until all have ended; and the number
  of steps is bounded.
\<close>

subsection \<open>Rows under way\<close>

definition batch_rows :: "'d list \<times> nat \<Rightarrow> nat list" where
  "batch_rows b = [snd b..<snd b + length (fst b)]"

fun writer_rows :: "writer \<Rightarrow> nat list" where
  "writer_rows (Holding docs offset) = batch_rows (docs, offset)"
| "writer_rows (WriteLetters e letters n) = map fst letters"
| "writer_rows _ = []"

text \<open>Rows that a writer has not counted yet.\<close>

fun writer_uncounted :: "writer \<Rightarrow> nat" where
  "writer_uncounted (Holding docs offset) = length docs"
| "writer_uncounted (WriteLetters e letters n) = n"
| "writer_uncounted _ = 0"

fun producer_rows :: "('s, 'w) ingest_run \<Rightarrow> nat \<Rightarrow> producer \<Rightarrow> nat list" where
  "producer_rows R offset (Sending docs) = [offset..<chunk_end R offset]"
| "producer_rows R offset (ConversionLetters e rows) = rows"
| "producer_rows R offset _ = []"

text \<open>The first row the producer has not taken up.\<close>

fun producer_front :: "('s, 'w) ingest_run \<Rightarrow> nat \<Rightarrow> producer \<Rightarrow> nat" where
  "producer_front R offset (Sending docs) = chunk_end R offset"
| "producer_front R offset (ConversionLetters e rows) = chunk_end R offset"
| "producer_front R offset _ = offset"

abbreviation front :: "('s, 'w) ingest_run \<Rightarrow> 'w conc \<Rightarrow> nat" where
  "front R c \<equiv> producer_front R (cn_offset c) (cn_producer c)"

definition rows_under_way :: "('s, 'w) ingest_run \<Rightarrow> 'w conc \<Rightarrow> nat multiset" where
  "rows_under_way R c =
     mset (producer_rows R (cn_offset c) (cn_producer c)) + sum_list (map (mset \<circ> batch_rows) (cn_queue c)) +
     sum_list (map (mset \<circ> writer_rows) (cn_writers c))"

definition rows_uncounted :: "('s, 'w) ingest_run \<Rightarrow> 'w conc \<Rightarrow> nat" where
  "rows_uncounted R c =
     (front R c - cn_offset c) + sum_list (map (length \<circ> batch_rows) (cn_queue c)) +
     sum_list (map writer_uncounted (cn_writers c))"

definition conc_shape :: "('s, 'w) ingest_run \<Rightarrow> 'w conc \<Rightarrow> bool" where
  "conc_shape R c \<longleftrightarrow>
     cn_offset c \<le> total_rows R \<and>
     (\<forall>docs. cn_producer c = Sending docs \<longrightarrow> length docs = chunk_end R (cn_offset c) - cn_offset c) \<and>
     (cn_producer c = Closed False \<longrightarrow> cn_offset c = total_rows R) \<and>
     length (cn_writers c) = ir_concurrency R \<and>
     (Done \<in> set (cn_writers c) \<longrightarrow> cn_queue c = [] \<and> (\<exists>b. cn_producer c = Closed b))"

definition conc_account :: "('s, 'w) ingest_run \<Rightarrow> nat list \<Rightarrow> 'w conc \<Rightarrow> bool" where
  "conc_account R settled c \<longleftrightarrow>
     mset settled + rows_under_way R c = mset [0..<front R c] \<and>
     cn_inserted c + cn_failed c + int (rows_uncounted R c) = int (front R c)"

lemma sum_list_replace:
  fixes f :: "'a \<Rightarrow> 'b :: comm_monoid_add"
  shows "i < length xs \<Longrightarrow> sum_list (map f (xs[i := x])) + f (xs ! i) = sum_list (map f xs) + f x"
proof (induction xs arbitrary: i)
  case (Cons y ys)
  then show ?case by (cases i) (simp_all add: ac_simps)
qed simp

lemma chunk_rows:
  assumes "offset \<le> total_rows R"
  shows "mset [0..<offset] + mset [offset..<chunk_end R offset] = mset [0..<chunk_end R offset]"
  using chunk_end_bounds [OF assms] by (metis le0 le_add_diff_inverse mset_append upt_add_eq_append)

lemma done_after_update: "Done \<in> set (ws[i := t]) \<Longrightarrow> t \<noteq> Done \<Longrightarrow> Done \<in> set ws"
  using set_update_subset_insert by fastforce

subsection \<open>The invariant\<close>

lemma conc_start_inv: "conc_shape R (conc_start R st) \<and> conc_account R [] (conc_start R st)"
proof -
  have "sum_list (map (mset \<circ> writer_rows) (replicate n Idle)) = {#}"
    "sum_list (map writer_uncounted (replicate n Idle)) = 0" for n
    by (induction n) simp_all
  then show ?thesis
    by (simp add: conc_shape_def conc_account_def conc_start_def rows_under_way_def rows_uncounted_def)
qed

lemma writer_update:
  assumes "i < length ws" and "ws ! i = t"
  shows "sum_list (map (mset \<circ> writer_rows) (ws[i := t'])) + mset (writer_rows t) =
      sum_list (map (mset \<circ> writer_rows) ws) + mset (writer_rows t')"
    and "sum_list (map writer_uncounted (ws[i := t'])) + writer_uncounted t =
      sum_list (map writer_uncounted ws) + writer_uncounted t'"
  using sum_list_replace [OF assms(1), of "mset \<circ> writer_rows" t'] sum_list_replace [OF assms(1), of writer_uncounted t'] assms(2)
  by simp_all

lemma exchange_rows:
  fixes W' :: "'a multiset"
  assumes "W' + T = W + T'" and "R + T' = T"
  shows "W = R + W'"
proof -
  have "W + T' = W' + (R + T')" using assms by simp
  also have "\<dots> = (R + W') + T'" by (simp only: add.assoc [symmetric] add.commute [of W' R])
  finally show ?thesis by (rule add_right_imp_eq)
qed

text \<open>The steps of a writer that leave the channel alone move its rows to the settled ones.\<close>

lemma writer_step_account:
  assumes "conc_account R settled c" and "i < length (cn_writers c)" and "cn_writers c ! i = t"
    and "mset rows + mset (writer_rows t') = mset (writer_rows t)"
    and "ins + fl + int (writer_uncounted t') = int (writer_uncounted t)"
  shows "conc_account R (settled @ rows)
    (c\<lparr>cn_state := st, cn_writers := (cn_writers c)[i := t'], cn_inserted := cn_inserted c + ins,
       cn_failed := cn_failed c + fl\<rparr>)"
proof -
  let ?W = "\<lambda>ws. sum_list (map (mset \<circ> writer_rows) ws)"
  let ?U = "\<lambda>ws. sum_list (map writer_uncounted ws)"
  have rows: "?W (cn_writers c) = mset rows + ?W ((cn_writers c)[i := t'])"
    by (rule exchange_rows [OF writer_update(1) [OF assms(2,3)] assms(4)])
  have counts: "int (?U (cn_writers c)) = int (?U ((cn_writers c)[i := t'])) + ins + fl"
    using writer_update(2) [OF assms(2,3), of t'] assms(5) by linarith
  obtain W' U' where upd: "?W ((cn_writers c)[i := t']) = W'" "?U ((cn_writers c)[i := t']) = U'" by blast
  show ?thesis
    using assms(1) rows counts unfolding conc_account_def rows_under_way_def rows_uncounted_def
    by (simp add: upd add.assoc add.commute add.left_commute del: map_update)
qed

lemma writer_step_shape:
  assumes "conc_shape R c" and "t' \<noteq> Done"
  shows "conc_shape R (c\<lparr>cn_state := st, cn_writers := (cn_writers c)[i := t'], cn_inserted := a, cn_failed := b\<rparr>)"
  using assms done_after_update [of "cn_writers c" i t'] by (auto simp: conc_shape_def)

lemma next_chunk_simps [simp]:
  "cn_producer (next_chunk R c) = AtTop" "cn_offset (next_chunk R c) = chunk_end R (cn_offset c)"
  "cn_queue (next_chunk R c) = cn_queue c" "cn_writers (next_chunk R c) = cn_writers c"
  "cn_inserted (next_chunk R c) = cn_inserted c" "cn_failed (next_chunk R c) = cn_failed c"
  by (simp_all add: next_chunk_def Let_def)

lemma step_shape:
  assumes "honest_lib R" and "conc_step R c rows c'" and "conc_shape R c"
  shows "conc_shape R c'"
  using assms(2,3)
proof (cases rule: conc_step.cases)
  case (convert st docs)
  then show ?thesis
    using assms(3) chunk_length [OF assms(1), of "cn_offset c" docs] by (auto simp: conc_shape_def)
next
  case (send docs)
  then show ?thesis
    using assms(3) chunk_end_bounds [of "cn_offset c" R] by (auto simp: conc_shape_def)
next
  case (conversion_counted e)
  then show ?thesis
    using assms(3) chunk_end_bounds [of "cn_offset c" R] by (auto simp: conc_shape_def)
next
  case (receive i docs offset queue)
  then show ?thesis
    using assms(3) done_after_update [of "cn_writers c" i "Holding docs offset"] by (auto simp: conc_shape_def)
next
  case (inserted i docs offset n w)
  then show ?thesis using writer_step_shape [OF assms(3), of Idle] by (simp add: conc_shape_def)
next
  case (insert_fails i docs offset e w)
  then show ?thesis
    using writer_step_shape [OF assms(3), of "WriteLetters e (List.enumerate offset docs) (length docs)"]
    by (simp add: conc_shape_def)
next
  case (write_letter i e row doc letters n)
  then show ?thesis using writer_step_shape [OF assms(3), of "WriteLetters e letters n"] by (simp add: conc_shape_def)
next
  case (write_counted i e n)
  then show ?thesis using writer_step_shape [OF assms(3), of Idle] by (simp add: conc_shape_def)
qed (use assms(3) in \<open>auto simp: conc_shape_def\<close>)

lemma add_new_rows: "S + (Q + W) = M \<Longrightarrow> S + (X + Q + W) = M + (X :: 'a multiset)"
  by (drule sym) (simp only: add.assoc add.commute add.left_commute)

lemma take_up_account:
  assumes "conc_account R settled c" and "cn_offset c \<le> total_rows R" and "cn_producer c = AtTop"
    and "producer_rows R (cn_offset c) p = [cn_offset c..<chunk_end R (cn_offset c)]"
    and "producer_front R (cn_offset c) p = chunk_end R (cn_offset c)"
  shows "conc_account R settled (c\<lparr>cn_state := st, cn_producer := p\<rparr>)"
proof -
  have "mset settled + (sum_list (map (mset \<circ> batch_rows) (cn_queue c)) + sum_list (map (mset \<circ> writer_rows) (cn_writers c)))
      = mset [0..<cn_offset c]"
    using assms(1,3) by (simp add: conc_account_def rows_under_way_def del: mset_upt)
  then have "mset settled + (mset [cn_offset c..<chunk_end R (cn_offset c)] +
      sum_list (map (mset \<circ> batch_rows) (cn_queue c)) + sum_list (map (mset \<circ> writer_rows) (cn_writers c)))
      = mset [0..<chunk_end R (cn_offset c)]"
    unfolding chunk_rows [OF assms(2), symmetric] by (rule add_new_rows)
  then show ?thesis
    using assms chunk_end_bounds [OF assms(2)]
    by (simp add: conc_account_def rows_under_way_def rows_uncounted_def del: mset_upt)
qed

lemma step_account:
  assumes "honest_lib R" and "conc_step R c rows c'" and "conc_shape R c" and "conc_account R settled c"
  shows "conc_account R (settled @ rows) c'"
  using assms(2)
proof (cases rule: conc_step.cases)
  case (convert st docs)
  then show ?thesis
    using take_up_account [OF assms(4), of "Sending docs"] assms(3) by (simp add: conc_shape_def)
next
  case (convert_fails st e)
  then show ?thesis
    using take_up_account [OF assms(4), of "ConversionLetters e [cn_offset c..<chunk_end R (cn_offset c)]"] assms(3)
    by (simp add: conc_shape_def)
next
  case (send docs)
  then show ?thesis
    using assms(3,4) chunk_end_bounds [of "cn_offset c" R]
    by (simp add: conc_account_def conc_shape_def rows_under_way_def rows_uncounted_def batch_rows_def add.commute
        del: mset_upt)
next
  case (conversion_letter e row rows')
  then show ?thesis
    using assms(4) by (simp add: conc_account_def rows_under_way_def rows_uncounted_def)
next
  case (conversion_counted e)
  then show ?thesis
    using assms(3,4) chunk_end_bounds [of "cn_offset c" R]
    by (simp add: conc_account_def conc_shape_def rows_under_way_def rows_uncounted_def)
next
  case (receive i docs offset queue)
  then show ?thesis
    using assms(4) writer_update [of i "cn_writers c" Idle "Holding docs offset"]
    by (simp add: conc_account_def rows_under_way_def rows_uncounted_def batch_rows_def add.assoc add.commute add.left_commute
        del: map_update mset_upt)
next
  case (inserted i docs offset n w)
  then have "n = length docs" using assms(1) unfolding honest_lib_def by blast
  then show ?thesis
    using inserted writer_step_account [OF assms(4) inserted(3,4), of "[offset..<offset + length docs]" Idle "int n" 0]
    by (simp add: batch_rows_def)
next
  case (insert_fails i docs offset e w)
  then show ?thesis
    using writer_step_account [OF assms(4) insert_fails(3,4), of "[]" "WriteLetters e (List.enumerate offset docs) (length docs)" 0 0]
    by (simp add: batch_rows_def)
next
  case (write_letter i e row doc letters n)
  then show ?thesis
    using writer_step_account [OF assms(4) write_letter(3,4), of "[row]" "WriteLetters e letters n" 0 0] by simp
next
  case (write_counted i e n)
  then show ?thesis
    using writer_step_account [OF assms(4) write_counted(3,4), where rows = "[]" and t' = Idle and ins = 0 and fl = "int n" and st = "cn_state c"]
    by simp
next
  case (writer_ends i b)
  then show ?thesis
    using writer_step_account [OF assms(4) writer_ends(3,4), where rows = "[]" and t' = Done and ins = 0 and fl = 0 and st = "cn_state c"]
    by simp
qed (use assms(3,4) in \<open>simp_all add: conc_account_def conc_shape_def rows_under_way_def rows_uncounted_def\<close>)

lemma run_invariant:
  assumes "conc_run R st n settled c" and "honest_lib R"
  shows "conc_shape R c \<and> conc_account R settled c"
  using assms(1)
proof (induction rule: conc_run.induct)
  case conc_run_start
  then show ?case by (rule conc_start_inv)
next
  case (conc_run_step n settled c rows c')
  then show ?case using step_shape [OF assms(2)] step_account [OF assms(2)] by blast
qed

subsection \<open>Progress\<close>

lemma writer_can_move:
  assumes "i < length (cn_writers c)" and "cn_writers c ! i \<noteq> Done"
    and "cn_writers c ! i = Idle \<Longrightarrow> cn_queue c \<noteq> [] \<or> (\<exists>b. cn_producer c = Closed b)"
  shows "\<exists>rows c'. conc_step R c rows c'"
proof (cases "cn_writers c ! i")
  case Idle
  show ?thesis
  proof (cases "cn_queue c")
    case Nil
    then obtain b where "cn_producer c = Closed b" using assms(3) Idle by blast
    then show ?thesis using writer_ends [OF assms(1) Idle _ Nil] by blast
  next
    case (Cons b queue)
    obtain docs offset where "b = (docs, offset)" by fastforce
    then show ?thesis using receive [OF assms(1) Idle] Cons by blast
  qed
next
  case (Holding docs offset)
  obtain r w where "il_insert_many (ir_lib R) docs (is_world (cn_state c)) = (r, w)" by fastforce
  then show ?thesis
    using inserted [OF assms(1) Holding] insert_fails [OF assms(1) Holding] by (cases r) blast+
next
  case (WriteLetters e letters n)
  show ?thesis
  proof (cases letters)
    case Nil
    then show ?thesis using write_counted [OF assms(1)] WriteLetters by blast
  next
    case (Cons l letters')
    obtain row doc where "l = (row, doc)" by fastforce
    then show ?thesis using write_letter [OF assms(1)] WriteLetters Cons by blast
  qed
qed (use assms(2) in simp)

lemma not_stuck:
  assumes "conc_shape R c" and "0 < ir_concurrency R" and "\<not> conc_finished c"
  shows "\<exists>rows c'. conc_step R c rows c'"
proof (cases "cn_producer c")
  case AtTop
  obtain b st where poll: "poll_cancel R (cn_state c) = (b, st)" by fastforce
  show ?thesis
  proof (cases "cn_offset c < total_rows R")
    case True
    show ?thesis
    proof (cases b)
      case b: True
      show ?thesis using cancelled [OF AtTop True poll [unfolded eqTrueI [OF b]]] by blast
    next
      case False
      then have poll': "poll_cancel R (cn_state c) = (False, st)" using poll by simp
      show ?thesis
        using convert [OF AtTop True poll'] convert_fails [OF AtTop True poll']
        by (cases "chunk_documents R (cn_offset c)") blast+
    qed
  next
    case False
    then show ?thesis using AtTop all_sent [of c R] by force
  qed
next
  case (Sending docs)
  show ?thesis
  proof (cases "length (cn_queue c) < channel_capacity R")
    case True
    then show ?thesis using send [OF Sending] by blast
  next
    case False
    then have "cn_queue c \<noteq> []" using assms(2) by (auto simp: channel_capacity_def)
    moreover have len: "0 < length (cn_writers c)" and "Done \<notin> set (cn_writers c)"
      using assms(1,2) Sending by (auto simp: conc_shape_def)
    moreover have "cn_writers c ! 0 \<noteq> Done"
      using nth_mem [OF len] \<open>Done \<notin> set (cn_writers c)\<close> by metis
    ultimately show ?thesis by (intro writer_can_move [of 0]) auto
  qed
next
  case (ConversionLetters e rows)
  then show ?thesis using conversion_letter [of c e] conversion_counted [of c e] by (cases rows) blast+
next
  case (Closed b)
  then obtain i where "i < length (cn_writers c)" "cn_writers c ! i \<noteq> Done"
    using assms(3) by (auto simp: conc_finished_def list_all_iff in_set_conv_nth)
  then show ?thesis using Closed by (intro writer_can_move [of i]) auto
qed

text \<open>A bound on the steps still to come.\<close>

fun writer_weight :: "writer \<Rightarrow> nat" where
  "writer_weight Idle = 1"
| "writer_weight (Holding docs offset) = length docs + 5"
| "writer_weight (WriteLetters e letters n) = length letters + 3"
| "writer_weight Done = 0"

fun producer_weight :: "('s, 'w) ingest_run \<Rightarrow> nat \<Rightarrow> producer \<Rightarrow> nat" where
  "producer_weight R offset AtTop = 8 * (total_rows R - offset) + 1"
| "producer_weight R offset (Sending docs) = 8 * (total_rows R - chunk_end R offset) + length docs + 7"
| "producer_weight R offset (ConversionLetters e rows) = 8 * (total_rows R - chunk_end R offset) + length rows + 2"
| "producer_weight R offset (Closed b) = 0"

definition conc_weight :: "('s, 'w) ingest_run \<Rightarrow> 'w conc \<Rightarrow> nat" where
  "conc_weight R c =
     producer_weight R (cn_offset c) (cn_producer c) + sum_list (map (\<lambda>b. length (fst b) + 5) (cn_queue c)) +
     sum_list (map writer_weight (cn_writers c))"

lemma writer_weight_update:
  "i < length ws \<Longrightarrow> ws ! i = t \<Longrightarrow>
   sum_list (map writer_weight (ws[i := t'])) + writer_weight t = sum_list (map writer_weight ws) + writer_weight t'"
  using sum_list_replace [of i ws writer_weight t'] by simp

lemma step_weight:
  assumes "honest_lib R" and "0 < ir_batch_size R" and "conc_shape R c" and "conc_step R c rows c'"
  shows "conc_weight R c' < conc_weight R c"
proof -
  have chunk: "8 * (total_rows R - chunk_end R (cn_offset c)) + (chunk_end R (cn_offset c) - cn_offset c) + 7
      \<le> 8 * (total_rows R - cn_offset c)" if "cn_offset c < total_rows R"
    using chunk_end_progress [OF that assms(2)] chunk_end_bounds [of "cn_offset c" R] that by simp
  show ?thesis
    using assms(4)
  proof (cases rule: conc_step.cases)
    case (convert st docs)
    then show ?thesis
      using chunk chunk_length [OF assms(1), of "cn_offset c" docs] by (simp add: conc_weight_def)
  next
    case (convert_fails st e)
    then show ?thesis using chunk by (simp add: conc_weight_def)
  next
    case (receive i docs offset queue)
    then show ?thesis
      using writer_weight_update [of i "cn_writers c" Idle "Holding docs offset"]
      by (simp add: conc_weight_def del: map_update)
  next
    case (inserted i docs offset n w)
    then show ?thesis
      using writer_weight_update [of i "cn_writers c" "Holding docs offset" Idle]
      by (simp add: conc_weight_def del: map_update)
  next
    case (insert_fails i docs offset e w)
    then show ?thesis
      using writer_weight_update [of i "cn_writers c" "Holding docs offset"
          "WriteLetters e (List.enumerate offset docs) (length docs)"]
      by (simp add: conc_weight_def del: map_update)
  next
    case (write_letter i e row doc letters n)
    then show ?thesis
      using writer_weight_update [of i "cn_writers c" "WriteLetters e ((row, doc) # letters) n" "WriteLetters e letters n"]
      by (simp add: conc_weight_def del: map_update)
  next
    case (write_counted i e n)
    then show ?thesis
      using writer_weight_update [of i "cn_writers c" "WriteLetters e [] n" Idle]
      by (simp add: conc_weight_def del: map_update)
  next
    case (writer_ends i b)
    then show ?thesis
      using writer_weight_update [of i "cn_writers c" Idle Done]
      by (simp add: conc_weight_def del: map_update)
  qed (simp_all add: conc_weight_def)
qed

lemma run_bounded:
  assumes "conc_run R st n settled c" and "honest_lib R" and "0 < ir_batch_size R"
  shows "n + conc_weight R c \<le> conc_weight R (conc_start R st)"
  using assms(1)
proof (induction rule: conc_run.induct)
  case (conc_run_step n settled c rows c')
  have "conc_shape R c" using run_invariant [OF conc_run_step.hyps(1) assms(2)] by simp
  from step_weight [OF assms(2,3) this conc_run_step.hyps(2)] conc_run_step.IH show ?case by simp
qed simp

lemma all_done:
  "\<forall>t \<in> set ts. t = Done \<Longrightarrow>
   sum_list (map (mset \<circ> writer_rows) ts) = {#} \<and> sum_list (map writer_uncounted ts) = 0"
  by (induction ts) auto

lemma finished_account:
  assumes "conc_shape R c" and "conc_account R settled c" and "0 < ir_concurrency R" and "conc_finished c"
  shows "mset settled = mset [0..<cn_offset c] \<and> cn_inserted c + cn_failed c = int (cn_offset c)"
proof -
  obtain b where closed: "cn_producer c = Closed b"
    using assms(4) by (auto simp: conc_finished_def split: producer.splits)
  have all: "\<forall>t \<in> set (cn_writers c). t = Done"
    using assms(4) by (simp add: conc_finished_def list_all_iff)
  have "cn_writers c \<noteq> []" using assms(1,3) by (auto simp: conc_shape_def)
  then have "Done \<in> set (cn_writers c)" using all by (metis last_in_set)
  then have "cn_queue c = []" using assms(1) by (simp add: conc_shape_def)
  then show ?thesis
    using assms(2) closed all_done [OF all] by (simp add: conc_account_def rows_under_way_def rows_uncounted_def del: mset_upt)
qed



lemma demo_documents:
  "chunk_documents (demo_run DInt32 3) 0 = Inr [[(''k'', BInt32 7)], [(''k'', BInt32 8)], [(''k'', BInt32 9)]]"
  by (simp add: chunk_documents_def dataframe_to_documents_def demo_run_def list_store_def row_document_def
      series_value_to_bson.simps typed_cell_def int_columns_def chunk_end_def upt_conv_Cons)

lemma demo_conc_run: "\<exists>c. conc_run (demo_run DInt32 3) demo_state 4 [0, 1, 2] c \<and> cn_inserted c = 3"
proof -
  let ?R = "demo_run DInt32 3"
  let ?docs = "[[(''k'', BInt32 7)], [(''k'', BInt32 8)], [(''k'', BInt32 9)]] :: document list"
  let ?c0 = "conc_start ?R demo_state"
  have poll: "poll_cancel ?R demo_state = (False, demo_state)"
    by (simp add: poll_cancel_def demo_run_def list_store_def demo_state_def)
  have c0: "cn_writers ?c0 = [Idle, Idle]" "cn_inserted ?c0 = 0"
    by (simp_all add: conc_start_def demo_run_def numeral_2_eq_2)
  let ?c1 = "?c0\<lparr>cn_state := demo_state, cn_producer := Sending ?docs\<rparr>"
  have "conc_step ?R ?c0 [] ?c1"
    by (rule convert) (use poll demo_documents in \<open>simp_all add: conc_start_def demo_run_def\<close>)
  then have r1: "conc_run ?R demo_state 1 [] ?c1"
    using conc_run_step [OF conc_run_start, of ?R demo_state "[]" ?c1] by simp
  let ?c2 = "next_chunk ?R (?c1\<lparr>cn_queue := cn_queue ?c1 @ [(?docs, cn_offset ?c1)]\<rparr>)"
  have "conc_step ?R ?c1 [] ?c2"
    by (rule send) (simp_all add: conc_start_def demo_run_def channel_capacity_def)
  with r1 have r2: "conc_run ?R demo_state 2 [] ?c2"
    using conc_run_step [OF r1, of "[]" ?c2] by (simp add: numeral_2_eq_2)
  have c2: "cn_queue ?c2 = [(?docs, 0)]" "cn_writers ?c2 = [Idle, Idle]" "cn_inserted ?c2 = 0"
    by (simp_all add: conc_start_def demo_run_def numeral_2_eq_2)
  let ?c3 = "?c2\<lparr>cn_queue := [], cn_writers := (cn_writers ?c2)[0 := Holding ?docs 0]\<rparr>"
  have "conc_step ?R ?c2 [] ?c3"
    by (rule receive) (simp_all only: c2, simp_all)
  with r2 have r3: "conc_run ?R demo_state 3 [] ?c3"
    using conc_run_step [OF r2, of "[]" ?c3] by (simp add: numeral_3_eq_3 numeral_2_eq_2)
  have w: "il_insert_many (ir_lib ?R) ?docs w = (Inr 3, w @ ?docs)" for w
    by (simp add: demo_run_def list_store_def)
  have i0: "0 < length (cn_writers ?c3)" "cn_writers ?c3 ! 0 = Holding ?docs 0"
    by (simp_all add: c0)
  let ?c4 = "?c3\<lparr>cn_state := (cn_state ?c3)\<lparr>is_world := is_world (cn_state ?c3) @ ?docs\<rparr>,
      cn_writers := (cn_writers ?c3)[0 := Idle], cn_inserted := cn_inserted ?c3 + int 3\<rparr>"
  have "conc_step ?R ?c3 [0..<0 + length ?docs] ?c4"
    by (rule inserted [OF i0 w])
  moreover have "[0..<0 + length ?docs] = [0, 1, 2]" by (simp add: upt_conv_Cons)
  moreover have "cn_inserted ?c4 = 3" by (simp add: c0)
  ultimately obtain c where "conc_step ?R ?c3 [0, 1, 2] c" "cn_inserted c = 3" by metis
  with conc_run_step [OF r3] show ?thesis by (auto simp: numeral_eq_Suc)
qed



end
