(* ===== verification/Ingest_Lifecycle.thy ===== *)
theory Ingest_Lifecycle
  imports Ingest_Concurrent
begin

text \<open>
  The life of an ingestion job (\<open>src/ingestion/engine.rs\<close>: starting, the background task,
  cancelling) and the directory watcher (\<open>watch.rs\<close>). Reading files, collecting lazy frames
  and sending on the cancel channel are parameters (\<open>source_lib\<close>); the background task is a
  value that is run on its own, since it runs after the call that starts it has returned.
\<close>

subsection \<open>Starting a job\<close>

record ('f, 's, 'w) source_lib =
  so_exists :: "string \<Rightarrow> bool"
  so_scan :: "string \<Rightarrow> scan \<Rightarrow> string + 'f"
  so_lazy :: "'f lazy_lib"
  so_sample :: "'f \<Rightarrow> u32 \<Rightarrow> string + (string \<times> data_type \<times> nat) list"
  so_collect :: "'f \<Rightarrow> string + 's data_frame"
  so_send_cancel :: "string \<Rightarrow> 'w \<Rightarrow> 'w"

definition is_remote :: "string \<Rightarrow> bool" where
  "is_remote source \<longleftrightarrow>
     prefix ''http://'' source \<or> prefix ''https://'' source \<or> prefix ''s3://'' source \<or>
     prefix ''gs://'' source \<or> prefix ''az://'' source"

record 'f ingest_task =
  tk_frame :: 'f
  tk_schema :: bson_schema
  tk_job_id :: string
  tk_options :: ingest_options

definition new_job :: "string \<Rightarrow> ingest_options \<Rightarrow> bson_schema \<Rightarrow> i64 \<Rightarrow> ingest_job" where
  "new_job job_id opts schema now =
     \<lparr>ij_job_id = job_id, ij_file_path = io_file_path opts, ij_database = io_database opts,
      ij_collection = io_collection opts, ij_status = IRunning, ij_total_rows = 0, ij_rows_processed = 0,
      ij_rows_inserted = 0, ij_rows_skipped = 0, ij_rows_failed = 0, ij_last_committed_chunk = 0,
      ij_started_at = now, ij_completed_at = None, ij_error = None, ij_inferred_schema = schema\<rparr>"

definition apply_options ::
  "('f, 's, 'w) source_lib \<Rightarrow> ingest_options \<Rightarrow> 'f \<Rightarrow> (mongo_error + 'f) option" where
  "apply_options S opts lf =
     (if io_expressions opts = [] then Some (Inr lf) else apply_expressions (so_lazy S) lf (io_expressions opts))"

definition schema_of_sample ::
  "('f, 's, 'w) source_lib \<Rightarrow> ingest_options \<Rightarrow> 'f \<Rightarrow> mongo_error + bson_schema" where
  "schema_of_sample S opts lf =
     rbind (map_err (\<lambda>e. IngestionError (''Sample failed: '' @ e)) (so_sample S lf (io_sample_size opts)))
       (\<lambda>columns. Inr (apply_overrides (io_schema_overrides opts) (infer_schema columns)))"

text \<open>The transformed frame and its schema; no value when an expression panics.\<close>

definition prepare_ingest ::
  "('f, 's, 'w) source_lib \<Rightarrow> ingest_options \<Rightarrow> (mongo_error + 'f \<times> bson_schema) option" where
  "prepare_ingest S opts =
     (let source = io_file_path opts in
      if \<not> is_remote source \<and> \<not> so_exists S source
      then Some (Inl (IngestionError (''File not found: '' @ source)))
      else
        (case rbind (if io_format opts = FAuto then detect_format source else Inr (io_format opts))
                (\<lambda>format. read_lazy (so_scan S) source format (io_csv_options opts)) of
           Inl e \<Rightarrow> Some (Inl e)
         | Inr lf \<Rightarrow>
             map_option (\<lambda>r. rbind r (\<lambda>lf. rbind (schema_of_sample S opts lf) (\<lambda>schema. Inr (lf, schema))))
               (apply_options S opts lf)))"

text \<open>The job and the task to spawn.\<close>

definition register_job ::
  "('s, 'w) ingest_lib \<Rightarrow> ingest_options \<Rightarrow> string \<Rightarrow> 'f \<Rightarrow> bson_schema \<Rightarrow> 'w ingest_state \<Rightarrow>
   ('w, ingest_job \<times> 'f ingest_task) ingest_result" where
  "register_job E opts job_id lf schema st =
     (let job = new_job job_id opts schema (il_now E (is_world st)) in
      sbind (create_job E job st) (\<lambda>_ st.
        (Inr (job, \<lparr>tk_frame = lf, tk_schema = schema, tk_job_id = job_id, tk_options = opts\<rparr>),
         st\<lparr>is_channels := job_id # removeAll job_id (is_channels st)\<rparr>)))"

definition ingest ::
  "('f, 's, 'w) source_lib \<Rightarrow> ('s, 'w) ingest_lib \<Rightarrow> ingest_options \<Rightarrow> string \<Rightarrow> 'w ingest_state \<Rightarrow>
   ('w, ingest_job \<times> 'f ingest_task) ingest_result option" where
  "ingest S E opts job_id st =
     map_option (\<lambda>r. case r of
         Inl e \<Rightarrow> (Inl e, st)
       | Inr (lf, schema) \<Rightarrow> register_job E opts job_id lf schema st) (prepare_ingest S opts)"

subsection \<open>The background task\<close>

definition run_of_task :: "('s, 'w) ingest_lib \<Rightarrow> 'f ingest_task \<Rightarrow> 's data_frame \<Rightarrow> ('s, 'w) ingest_run" where
  "run_of_task E t df =
     \<lparr>ir_lib = E, ir_frame = df, ir_schema = tk_schema t, ir_job_id = tk_job_id t,
      ir_batch_size = io_batch_size (tk_options t),
      ir_concurrency = unat (max (io_concurrency (tk_options t)) 1),
      ir_dedup_key = io_dedup_key (tk_options t), ir_strategy = io_conflict_strategy (tk_options t)\<rparr>"

definition start_run :: "('s, 'w) ingest_lib \<Rightarrow> 'f ingest_task \<Rightarrow> 's data_frame \<Rightarrow> 'w ingest_state \<Rightarrow> 'w ingest_state" where
  "start_run E t df st = snd (update_total_rows E (tk_job_id t) (int (df_height df)) st)"

text \<open>
  What \<open>run_ingestion\<close> returns, with the state it leaves: a relation, for the concurrent
  writers may interleave in many ways.
\<close>

inductive run_ingestion ::
  "('f, 's, 'w) source_lib \<Rightarrow> ('s, 'w) ingest_lib \<Rightarrow> 'f ingest_task \<Rightarrow> 'w ingest_state \<Rightarrow> mongo_error + unit \<Rightarrow>
   'w ingest_state \<Rightarrow> bool" for S E t st where
  collect_fails:
    "so_collect S (tk_frame t) = Inl e \<Longrightarrow>
     run_ingestion S E t st (Inl (IngestionError (''Collect failed: '' @ e))) st"
| sequential:
    "so_collect S (tk_frame t) = Inr df \<Longrightarrow> io_dedup_key (tk_options t) \<noteq> [] \<Longrightarrow>
     run_sequential_writes (run_of_task E t df) (start_run E t df st) = Some (r, st') \<Longrightarrow>
     run_ingestion S E t st r st'"
| concurrent:
    "so_collect S (tk_frame t) = Inr df \<Longrightarrow> io_dedup_key (tk_options t) = [] \<Longrightarrow>
     conc_run (run_of_task E t df) (start_run E t df st) n settled c \<Longrightarrow> conc_finished c \<Longrightarrow>
     conc_result (run_of_task E t df) c = (r, st') \<Longrightarrow>
     run_ingestion S E t st r st'"

text \<open>How the task ends: it returns, or it panics with a message, if the panic has one.\<close>

datatype task_end = Returned "mongo_error + unit" | Panicked "string option"

definition panic_text :: "string option \<Rightarrow> string" where
  "panic_text m = ''Internal error (panic): '' @ (case m of Some s \<Rightarrow> s | None \<Rightarrow> ''unknown'')"

definition finish_task ::
  "('s, 'w) ingest_lib \<Rightarrow> string \<Rightarrow> task_end \<Rightarrow> 'w ingest_state \<Rightarrow> 'w ingest_state" where
  "finish_task E job_id ended st =
     (let st' = snd (case ended of
          Returned (Inr _) \<Rightarrow> complete_job E job_id st
        | Returned (Inl e) \<Rightarrow> fail_job E job_id (err_text e) st
        | Panicked m \<Rightarrow> fail_job E job_id (panic_text m) st)
      in st'\<lparr>is_channels := removeAll job_id (is_channels st')\<rparr>)"

subsection \<open>Following and cancelling jobs\<close>

definition get_status :: "string \<Rightarrow> 'w ingest_state \<Rightarrow> ingest_job option" where
  "get_status job_id st = get_job job_id st"

definition list_ingestion_jobs :: "'w ingest_state \<Rightarrow> ingest_job list" where
  "list_ingestion_jobs st = list_jobs st"

text \<open>Sending may find no receiver yet, which is ignored.\<close>

definition cancel_ingestion ::
  "('f, 's, 'w) source_lib \<Rightarrow> string \<Rightarrow> 'w ingest_state \<Rightarrow> ('w, unit) ingest_result" where
  "cancel_ingestion S job_id st =
     (if job_id \<in> set (is_channels st)
      then (Inr (), st\<lparr>is_world := so_send_cancel S job_id (is_world st)\<rparr>)
      else (Inl (IngestionError (''Job '' @ [CHR 0x27] @ job_id @ [CHR 0x27] @ '' not found or already finished'')), st))"

subsection \<open>The engine as a whole\<close>

text \<open>
  What happens to the engine's memory: a job is started, a background task makes some of its
  writes, a task ends, a job is cancelled. The writes of a task are those of one update of
  its progress, of its total, or of the world alone.
\<close>

inductive engine_reachable ::
  "('f, 's, 'w) source_lib \<Rightarrow> ('s, 'w) ingest_lib \<Rightarrow> 'w ingest_state \<Rightarrow> bool" for S E where
  engine_new: "engine_reachable S E \<lparr>is_world = w, is_jobs = [], is_channels = []\<rparr>"
| engine_ingest: "engine_reachable S E st \<Longrightarrow> ingest S E opts job_id st = Some (r, st') \<Longrightarrow> engine_reachable S E st'"
| engine_world: "engine_reachable S E st \<Longrightarrow> engine_reachable S E (st\<lparr>is_world := w\<rparr>)"
| engine_total: "engine_reachable S E st \<Longrightarrow> engine_reachable S E (snd (update_total_rows E job_id n st))"
| engine_progress:
    "engine_reachable S E st \<Longrightarrow> engine_reachable S E (snd (update_progress E job_id p i s f k st))"
| engine_finish: "engine_reachable S E st \<Longrightarrow> engine_reachable S E (finish_task E job_id ended st)"
| engine_cancel: "engine_reachable S E st \<Longrightarrow> engine_reachable S E (snd (cancel_ingestion S job_id st))"

lemma change_job_all:
  "(\<And>j. P j \<Longrightarrow> P (f j)) \<Longrightarrow> list_all P js \<Longrightarrow> list_all P (change_job job_id f js)"
  by (induction job_id f js rule: change_job.induct) auto

lemma update_job_all:
  assumes "\<And>j. P j \<Longrightarrow> P (f j)" and "list_all P (is_jobs st)"
  shows "list_all P (is_jobs (snd (update_job E what job_id set_fields f st)))"
  using assms change_job_all [of P f "is_jobs st" job_id]
  by (cases "il_jobs_update E [(''job_id'', BString job_id)] [(''$set'', BDocument set_fields)] (is_world st)";
      cases "fst (il_jobs_update E [(''job_id'', BString job_id)] [(''$set'', BDocument set_fields)] (is_world st))")
    (auto simp: update_job_def on_world_def)

definition job_shape :: "ingest_job \<Rightarrow> bool" where
  "job_shape j \<longleftrightarrow>
     (case ij_status j of
        IRunning \<Rightarrow> ij_completed_at j = None \<and> ij_error j = None
      | ICompleted \<Rightarrow> ij_completed_at j \<noteq> None
      | IFailed \<Rightarrow> ij_completed_at j \<noteq> None \<and> ij_error j \<noteq> None
      | ICancelled \<Rightarrow> False)"

lemma new_job_shape: "job_shape (new_job job_id opts schema now)"
  by (simp add: job_shape_def new_job_def)

lemma register_job_all:
  assumes "list_all job_shape (is_jobs st)"
  shows "list_all job_shape (is_jobs (snd (register_job E opts job_id lf schema st)))"
proof -
  let ?job = "new_job job_id opts schema (il_now E (is_world st))"
  obtain r w where "il_jobs_insert E (job_to_document ?job) (is_world st) = (r, w)" by fastforce
  then show ?thesis
    using assms by (cases r) (simp_all add: register_job_def create_job_def on_world_def new_job_shape Let_def)
qed

lemma ingest_jobs:
  assumes "ingest S E opts job_id st = Some (r, st')" and "list_all job_shape (is_jobs st)"
  shows "list_all job_shape (is_jobs st')"
proof -
  obtain p where p: "prepare_ingest S opts = Some p" using assms(1) by (auto simp: ingest_def)
  show ?thesis
  proof (cases p)
    case (Inr q)
    then have "st' = snd (register_job E opts job_id (fst q) (snd q) st)"
      using assms(1) p by (simp add: ingest_def case_prod_beta)
    then show ?thesis using register_job_all [OF assms(2)] by simp
  qed (use assms p in \<open>simp add: ingest_def\<close>)
qed

lemma finish_jobs: "list_all job_shape (is_jobs st) \<Longrightarrow> list_all job_shape (is_jobs (finish_task E job_id ended st))"
  by (auto simp: finish_task_def complete_job_def fail_job_def Let_def job_shape_def
      intro!: update_job_all split: task_end.splits sum.splits ingest_status.splits)

text \<open>
  Whatever happens to the engine, a job in its tracker is running, without an end or an
  error, or completed, with an end, or failed, with both. The status Cancelled is never
  reached: cancelling a job does not set it.
\<close>

theorem jobs_are_never_cancelled:
  assumes "engine_reachable S E st"
  shows "list_all job_shape (is_jobs st) \<and> (\<forall>j \<in> set (list_ingestion_jobs st). ij_status j \<noteq> ICancelled)"
proof -
  have "list_all job_shape (is_jobs st)"
    using assms
  proof (induction rule: engine_reachable.induct)
    case (engine_ingest st opts job_id r st')
    then show ?case using ingest_jobs by blast
  next
    case (engine_finish st job_id ended)
    then show ?case by (simp add: finish_jobs)
  qed (auto simp: update_total_rows_def update_progress_def cancel_ingestion_def job_shape_def
      intro!: update_job_all split: ingest_status.splits)
  then show ?thesis
    by (auto simp: list_ingestion_jobs_def list_jobs_def list_all_iff job_shape_def)
qed

lemma find_change_job:
  "(\<And>j. ij_job_id (f j) = ij_job_id j) \<Longrightarrow>
   find (\<lambda>j. ij_job_id j = job_id) (change_job job_id f js) = map_option f (find (\<lambda>j. ij_job_id j = job_id) js)"
  by (induction js) auto

text \<open>
  A job that was cancelled while it ran ends as a failed job with the text of an
  ingestion error, as soon as the collection of jobs accepts the update; cancelling it again
  is then an error.
\<close>

theorem cancelled_job_is_failed:
  assumes "get_status job_id st = Some j"
    and "\<And>f u w. isl (fst (il_jobs_update E f u w)) = False"
  shows "get_status job_id (finish_task E job_id (Returned (Inl job_cancelled)) st) =
      Some (j\<lparr>ij_status := IFailed, ij_error := Some ''Ingestion error: Job cancelled'',
              ij_completed_at := Some (il_now E (is_world st))\<rparr>) \<and>
    isl (fst (cancel_ingestion S job_id (finish_task E job_id (Returned (Inl job_cancelled)) st)))"
proof -
  let ?u = "il_jobs_update E [(''job_id'', BString job_id)]
    [(''$set'', BDocument [(''status'', BString ''failed''), (''error'', BString (err_text job_cancelled)),
      (''completed_at'', BDateTime (il_now E (is_world st)))])] (is_world st)"
  obtain u w where "?u = (Inr u, w)"
    using assms(2) by (cases ?u; cases "fst ?u") (metis fst_conv sum.disc(1))+
  then show ?thesis
    using assms(1)
    by (simp add: finish_task_def fail_job_def update_job_def on_world_def get_status_def get_job_def
        find_change_job cancel_ingestion_def job_cancelled_def Let_def)
qed

text \<open>What a task does to the engine's memory are steps of that relation.\<close>

lemma push_letter_reachable:
  "engine_reachable S E st \<Longrightarrow> engine_reachable S E (push_letter R f st)"
  by (auto simp: push_letter_def dlq_push_def on_world_def intro: engine_world split: prod.splits)

lemma push_letters_reachable:
  "engine_reachable S E st \<Longrightarrow> engine_reachable S E (fold (\<lambda>x. push_letter R (g x)) xs st)"
  by (induction xs arbitrary: st) (simp_all add: push_letter_reachable)

lemma push_conversion_letters_reachable:
  "engine_reachable S E st \<Longrightarrow> engine_reachable S E (push_conversion_letters R e a b st)"
  by (simp add: push_conversion_letters_def push_letters_reachable)

lemma push_write_letters_reachable:
  "engine_reachable S E st \<Longrightarrow> engine_reachable S E (push_write_letters R e offset docs st)"
  unfolding push_write_letters_def case_prod_unfold by (rule push_letters_reachable)

lemma poll_cancel_reachable: "engine_reachable S E st \<Longrightarrow> engine_reachable S E (snd (poll_cancel R st))"
  by (auto simp: poll_cancel_def intro: engine_world split: prod.splits)

lemma check_batch_reachable:
  assumes "check_batch E' ks strategy docs st = (r, st')" and "engine_reachable S E st"
  shows "engine_reachable S E st'"
proof (cases "ks = [] \<or> List.map_filter (build_dedup_filter ks) docs = []")
  case True
  then show ?thesis using assms by (auto simp: check_batch_def Let_def split: if_splits)
next
  case False
  obtain found w where
    "il_find E' [(''$or'', BArray (map BDocument (List.map_filter (build_dedup_filter ks) docs)))] (is_world st) = (found, w)"
    by fastforce
  then show ?thesis
    using assms False engine_world [OF assms(2), of w]
    by (cases found) (auto simp: check_batch_def on_world_def Let_def)
qed

lemma write_inserts_reachable:
  assumes "write_inserts R offset ds counts st = (counts', st')" and "engine_reachable S E st"
  shows "engine_reachable S E st'"
  using assms
  by (auto simp: write_inserts_def intro: engine_world push_write_letters_reachable split: prod.splits if_splits sum.splits)

lemma write_replacements_reachable:
  "write_replacements R ds counts st = (counts', st') \<Longrightarrow> engine_reachable S E st \<Longrightarrow> engine_reachable S E st'"
  by (induction R ds counts st rule: write_replacements.induct)
    (auto simp: Let_def intro: engine_world split: prod.splits sum.splits)

lemma seq_chunk_reachable:
  assumes "seq_chunk R v st = (r, st')" and "ir_lib R = E" and "engine_reachable S E st"
  shows "engine_reachable S E st'"
proof (cases "chunk_documents R (sq_offset v)")
  case (Inl e)
  then show ?thesis
    using assms push_conversion_letters_reachable [OF assms(3)] by (auto simp: seq_chunk_def Let_def)
next
  case (Inr docs)
  obtain found st1 where found: "check_batch (ir_lib R) (ir_dedup_key R) (ir_strategy R) docs st = (found, st1)"
    by fastforce
  have r1: "engine_reachable S E st1" by (rule check_batch_reachable [OF found assms(3)])
  show ?thesis
  proof (cases found)
    case (Inl e)
    then show ?thesis using assms(1) r1 found \<open>chunk_documents R (sq_offset v) = Inr docs\<close> by (simp add: seq_chunk_def Let_def)
  next
    case (Inr results)
    obtain ins reps skipped where sorted: "sort_results results ([], [], sq_skipped v) = (ins, reps, skipped)"
      by (metis prod_cases3)
    obtain counts st2 where st2: "write_inserts R (sq_offset v) ins (sq_inserted v, sq_failed v) st1 = (counts, st2)"
      by fastforce
    obtain i f st3 where st3: "write_replacements R reps counts st2 = ((i, f), st3)" by (metis surj_pair)
    have "engine_reachable S E st3"
      by (rule write_replacements_reachable [OF st3 write_inserts_reachable [OF st2 r1]])
    then show ?thesis
      using assms(1,2) found \<open>chunk_documents R (sq_offset v) = Inr docs\<close> Inr sorted st2 st3
      by (auto simp: seq_chunk_def Let_def intro: engine_progress)
  qed
qed

lemma seq_loop_reachable:
  assumes "seq_loop R v st = Some y" and "ir_lib R = E" and "engine_reachable S E st"
  shows "engine_reachable S E (snd y)"
proof -
  have "ir_lib R = E \<longrightarrow> engine_reachable S E st \<longrightarrow> engine_reachable S E (snd y)"
  proof (rule seq_loop.raw_induct [OF _ assms(1), of "\<lambda>R v st y. ir_lib R = E \<longrightarrow> engine_reachable S E st \<longrightarrow> engine_reachable S E (snd y)"],
      intro impI)
    fix loop R v st y
    assume ih: "\<And>R v st y. loop R v st = Some y \<Longrightarrow> ir_lib R = E \<longrightarrow> engine_reachable S E st \<longrightarrow> engine_reachable S E (snd y)"
      and y: "(if total_rows R \<le> sq_offset v then Some (Inr v, st)
         else (case poll_cancel R st of (cancelled, st1) \<Rightarrow>
           if cancelled then Some (Inl job_cancelled, st1)
           else (case seq_chunk R v st1 of (Inl e, st2) \<Rightarrow> Some (Inl e, st2) | (Inr v', st2) \<Rightarrow> loop R v' st2))) = Some y"
      and lib: "ir_lib R = E" and st: "engine_reachable S E st"
    obtain c st1 where poll: "poll_cancel R st = (c, st1)" by fastforce
    have r1: "engine_reachable S E st1" using poll_cancel_reachable [OF st, of R] poll by simp
    obtain w st2 where chunk: "seq_chunk R v st1 = (w, st2)" by fastforce
    have r2: "engine_reachable S E st2" by (rule seq_chunk_reachable [OF chunk lib r1])
    show "engine_reachable S E (snd y)"
      using y st r1 r2 ih lib by (cases w) (auto simp: poll chunk split: if_splits)
  qed
  then show ?thesis using assms by blast
qed

lemma next_chunk_reachable:
  "ir_lib R = E \<Longrightarrow> engine_reachable S E (cn_state c) \<Longrightarrow> engine_reachable S E (cn_state (next_chunk R c))"
  by (auto simp: next_chunk_def Let_def intro: engine_progress)

lemma conc_step_reachable:
  assumes "conc_step R c rows c'" and "ir_lib R = E" and "engine_reachable S E (cn_state c)"
  shows "engine_reachable S E (cn_state c')"
  using assms(1)
proof (cases rule: conc_step.cases)
  case (send docs)
  then show ?thesis using assms(3) by (auto intro!: next_chunk_reachable [OF assms(2)])
next
  case (conversion_counted e)
  then show ?thesis using assms(3) by (auto intro!: next_chunk_reachable [OF assms(2)])
qed (use assms(3) poll_cancel_reachable [OF assms(3), of R] engine_world [OF assms(3)] push_letter_reachable [OF assms(3), of R] in simp_all)

text \<open>
  Whatever a background task does, writing sequentially or concurrently in any order,
  ended, cancelled or failed, it leaves the engine's memory in a reachable state: what is
  invariant there holds while jobs run.
\<close>

theorem tasks_stay_reachable:
  assumes "run_ingestion S E t st r st'" and "engine_reachable S E st"
  shows "engine_reachable S E st'"
  using assms(1)
proof (cases rule: run_ingestion.cases)
  case (sequential df)
  then obtain y where "seq_loop (run_of_task E t df) seq_start (start_run E t df st) = Some y" "st' = snd y"
    by (auto simp: run_sequential_writes_def)
  moreover have "engine_reachable S E (start_run E t df st)"
    unfolding start_run_def by (rule engine_total [OF assms(2)])
  ultimately show ?thesis
    using seq_loop_reachable [of "run_of_task E t df" seq_start _ y E S] by (simp add: run_of_task_def)
next
  case (concurrent df n settled c)
  have lib: "ir_lib (run_of_task E t df) = E" by (simp add: run_of_task_def)
  have "engine_reachable S E (start_run E t df st)"
    unfolding start_run_def by (rule engine_total [OF assms(2)])
  from concurrent(3) this have "engine_reachable S E (cn_state c)"
  proof (induction rule: conc_run.induct)
    case conc_run_start
    then show ?case by (simp add: conc_start_def)
  next
    case (conc_run_step n settled c rows c')
    then show ?case using conc_step_reachable [OF _ lib] by blast
  qed
  then show ?thesis
    using concurrent(5) lib by (auto simp: conc_result_def intro: engine_progress split: if_splits)
qed (use assms(2) in simp)

text \<open>A source with one readable file whose frame cannot be collected.\<close>

definition demo_source :: "(string list, data_type \<times> int list, document list) source_lib" where
  "demo_source =
     \<lparr>so_exists = (\<lambda>p. p = ''a.csv''), so_scan = (\<lambda>p _. Inr [p]), so_lazy = no_floats,
      so_sample = (\<lambda>_ _. Inr [(''k'', DInt32, 0)]), so_collect = (\<lambda>_. Inl ''gone''), so_send_cancel = (\<lambda>_ w. w)\<rparr>"

definition demo_options :: ingest_options where
  "demo_options = default_ingest_options\<lparr>io_file_path := ''a.csv'', io_format := FCsv\<rparr>"

lemma demo_ingest:
  "ingest demo_source list_store demo_options ''j'' demo_state =
     Some (Inr (new_job ''j'' demo_options [SchemaField ''k'' TInt32 False] 0,
       \<lparr>tk_frame = [''a.csv''], tk_schema = [SchemaField ''k'' TInt32 False], tk_job_id = ''j'', tk_options = demo_options\<rparr>),
       \<lparr>is_world = [], is_jobs = [new_job ''j'' demo_options [SchemaField ''k'' TInt32 False] 0], is_channels = [''j'']\<rparr>)"
  by (simp add: ingest_def prepare_ingest_def register_job_def create_job_def on_world_def demo_source_def demo_options_def
      demo_state_def default_ingest_options_def default_csv_options_def is_remote_def read_lazy_def apply_options_def
      schema_of_sample_def infer_schema_def apply_overrides_def list_store_def Let_def)

lemma demo_reachable:
  "engine_reachable demo_source list_store
     \<lparr>is_world = [], is_jobs = [new_job ''j'' demo_options [SchemaField ''k'' TInt32 False] 0], is_channels = [''j'']\<rparr>"
  by (rule engine_ingest [OF engine_new demo_ingest [unfolded demo_state_def]])

theorem jobs_are_never_cancelled_witness:
  "ij_status (new_job ''j'' demo_options [SchemaField ''k'' TInt32 False] 0) \<noteq> ICancelled"
  using jobs_are_never_cancelled [OF demo_reachable] by (simp add: list_ingestion_jobs_def list_jobs_def)

theorem cancelled_job_is_failed_witness:
  "\<exists>j. get_status ''j'' (finish_task list_store ''j'' (Returned (Inl job_cancelled))
      \<lparr>is_world = [], is_jobs = [new_job ''j'' demo_options [] 0], is_channels = [''j'']\<rparr>) = Some j \<and> ij_status j = IFailed"
proof -
  let ?st = "\<lparr>is_world = [], is_jobs = [new_job ''j'' demo_options [] 0], is_channels = [''j'']\<rparr> :: document list ingest_state"
  have "get_status ''j'' ?st = Some (new_job ''j'' demo_options [] 0)"
    by (simp add: get_status_def get_job_def new_job_def)
  moreover have "isl (fst (il_jobs_update list_store f u w)) = False" for f u w
    by (simp add: list_store_def)
  ultimately show ?thesis
    using cancelled_job_is_failed [of "''j''" ?st "new_job ''j'' demo_options [] 0" list_store demo_source] by simp
qed

theorem tasks_stay_reachable_witness:
  "engine_reachable demo_source list_store
     \<lparr>is_world = [], is_jobs = [new_job ''j'' demo_options [SchemaField ''k'' TInt32 False] 0], is_channels = [''j'']\<rparr>"
proof -
  let ?st = "\<lparr>is_world = [], is_jobs = [new_job ''j'' demo_options [SchemaField ''k'' TInt32 False] 0], is_channels = [''j'']\<rparr>
    :: document list ingest_state"
  have "run_ingestion demo_source list_store
      \<lparr>tk_frame = [''a.csv''], tk_schema = [], tk_job_id = ''j'', tk_options = demo_options\<rparr> ?st
      (Inl (IngestionError (''Collect failed: '' @ ''gone''))) ?st"
    by (rule collect_fails) (simp add: demo_source_def)
  from tasks_stay_reachable [OF this demo_reachable] show ?thesis .
qed

subsection \<open>Watching directories\<close>

record watch_config =
  wc_path :: string
  wc_file_pattern :: string
  wc_database :: string
  wc_collection :: string
  wc_conflict_strategy :: conflict_strategy
  wc_dedup_key :: "string list"
  wc_debounce_ms :: nat

record watch_handle =
  wh_id :: string
  wh_config :: watch_config

text \<open>Paths and glob patterns are the library's.\<close>

record watch_lib =
  wl_exists :: "string \<Rightarrow> bool"
  wl_is_dir :: "string \<Rightarrow> bool"
  wl_pattern :: "string \<Rightarrow> string + (string \<Rightarrow> bool)"

definition start_watch ::
  "watch_lib \<Rightarrow> watch_config \<Rightarrow> string \<Rightarrow> watch_handle list \<Rightarrow> (mongo_error + string) \<times> watch_handle list" where
  "start_watch W config watch_id watches =
     (if \<not> wl_exists W (wc_path config)
      then (Inl (ValidationError (''Watch path does not exist: '' @ wc_path config)), watches)
      else if \<not> wl_is_dir W (wc_path config)
      then (Inl (ValidationError (''Watch path is not a directory: '' @ wc_path config)), watches)
      else
        (case wl_pattern W (wc_file_pattern config) of
           Inl e \<Rightarrow> (Inl (ValidationError (''Invalid file pattern: '' @ e)), watches)
         | Inr _ \<Rightarrow> (Inr watch_id, watches @ [\<lparr>wh_id = watch_id, wh_config = config\<rparr>])))"

fun remove_watch :: "string \<Rightarrow> watch_handle list \<Rightarrow> watch_handle list option" where
  "remove_watch watch_id [] = None"
| "remove_watch watch_id (h # hs) =
     (if wh_id h = watch_id then Some hs else map_option ((#) h) (remove_watch watch_id hs))"

definition stop_watch :: "string \<Rightarrow> watch_handle list \<Rightarrow> (mongo_error + unit) \<times> watch_handle list" where
  "stop_watch watch_id watches =
     (case remove_watch watch_id watches of
        None \<Rightarrow> (Inl (ValidationError (''Watch not found: '' @ watch_id)), watches)
      | Some rest \<Rightarrow> (Inr (), rest))"

text \<open>
  What the watcher's task receives: a created or modified file, or the end of its sleep, each
  with the time in milliseconds. It remembers the last event of each file.
\<close>

datatype watch_event = FileEvent string nat | Tick nat

definition watch_options :: "watch_config \<Rightarrow> string \<Rightarrow> ingest_options" where
  "watch_options config path =
     default_ingest_options\<lparr>io_file_path := path, io_database := wc_database config,
       io_collection := wc_collection config, io_conflict_strategy := wc_conflict_strategy config,
       io_dedup_key := wc_dedup_key config\<rparr>"

fun watch_step ::
  "watch_config \<Rightarrow> (string \<Rightarrow> bool) \<Rightarrow> (string \<times> nat) list \<Rightarrow> watch_event \<Rightarrow> (string \<times> nat) list \<times> ingest_options list" where
  "watch_step config matches pending (FileEvent path now) =
     (case path_file_name path of
        Some name \<Rightarrow> (if matches name then doc_insert path now pending else pending, [])
      | None \<Rightarrow> (pending, []))"
| "watch_step config matches pending (Tick now) =
     (let ready = filter (\<lambda>(path, last_event). wc_debounce_ms config \<le> now - last_event) pending
      in (filter (\<lambda>(path, last_event). \<not> wc_debounce_ms config \<le> now - last_event) pending,
          map (\<lambda>(path, last_event). watch_options config path) ready))"

fun watch_run ::
  "watch_config \<Rightarrow> (string \<Rightarrow> bool) \<Rightarrow> (string \<times> nat) list \<Rightarrow> watch_event list \<Rightarrow> (string \<times> nat) list" where
  "watch_run config matches pending [] = pending"
| "watch_run config matches pending (e # es) =
     watch_run config matches (fst (watch_step config matches pending e)) es"

fun event_time :: "watch_event \<Rightarrow> nat" where
  "event_time (FileEvent path now) = now"
| "event_time (Tick now) = now"

definition file_events :: "(string \<Rightarrow> bool) \<Rightarrow> string \<Rightarrow> watch_event list \<Rightarrow> nat set" where
  "file_events matches path es =
     {now. FileEvent path now \<in> set es \<and> (\<exists>name. path_file_name path = Some name \<and> matches name)}"

lemma set_doc_insert: "doc_ok d \<Longrightarrow> (k', v') \<in> set (doc_insert k v d) \<longleftrightarrow> (if k' = k then v' = v else (k', v') \<in> set d)"
  by (induction k v d rule: doc_insert.induct) (auto simp: doc_ok_def rev_image_eqI)

lemma watch_run_append: "watch_run config matches pending (es @ es') = watch_run config matches (watch_run config matches pending es) es'"
  by (induction es arbitrary: pending) auto

lemma doc_ok_filter: "doc_ok d \<Longrightarrow> doc_ok (filter P d)"
  unfolding doc_ok_def by (rule distinct_map_filter)

lemma watch_pending:
  assumes "sorted (map event_time es)"
  shows "doc_ok (watch_run config matches [] es) \<and>
    (\<forall>(path, last) \<in> set (watch_run config matches [] es).
       last \<in> file_events matches path es \<and> (\<forall>t \<in> file_events matches path es. t \<le> last))"
  using assms
proof (induction es rule: rev_induct)
  case (snoc e es)
  let ?p = "watch_run config matches [] es"
  have ok: "doc_ok ?p"
    and ih: "\<And>path last. (path, last) \<in> set ?p \<Longrightarrow> last \<in> file_events matches path es \<and> (\<forall>t \<in> file_events matches path es. t \<le> last)"
    using snoc.IH snoc.prems by (auto simp: sorted_append)
  have late: "t \<le> event_time e" if "t \<in> file_events matches path es" for t path
    using that snoc.prems by (force simp: file_events_def sorted_append)
  show ?case
  proof (cases e)
    case (FileEvent path now)
    show ?thesis
      using ok ih late by (fastforce simp: FileEvent watch_run_append file_events_def set_doc_insert split: option.splits if_splits)
  next
    case (Tick now)
    then show ?thesis
      using ok ih by (auto simp: watch_run_append file_events_def doc_ok_filter Let_def)
  qed
qed simp

text \<open>
  A file the watcher hands to the engine at a tick has been quiet for the debounce time:
  it had a matching event, and every one of its matching events lies at least that long
  before the tick.
\<close>

theorem watched_files_are_quiet:
  assumes "sorted (map event_time (es @ [Tick now]))"
    and "watch_options config path \<in> set (snd (watch_step config matches (watch_run config matches [] es) (Tick now)))"
  shows "file_events matches path es \<noteq> {} \<and>
    (\<forall>t \<in> file_events matches path es. wc_debounce_ms config \<le> now - t)"
proof -
  have inj: "path' = path" if "watch_options config path' = watch_options config path" for path'
    using arg_cong [OF that, of io_file_path] by (simp add: watch_options_def)
  have "sorted (map event_time es)" using assms(1) by (simp add: sorted_append)
  note pending = watch_pending [OF this, of config matches]
  obtain last where known: "(path, last) \<in> set (watch_run config matches [] es)"
    and quiet: "wc_debounce_ms config \<le> now - last"
    using assms(2) inj by (auto simp: Let_def image_iff)
  have known_time: "last \<in> file_events matches path es \<and> (\<forall>t \<in> file_events matches path es. t \<le> last)"
    using bspec [OF conjunct2 [OF pending] known] by simp
  then have "wc_debounce_ms config \<le> now - t" if "t \<in> file_events matches path es" for t
    using that quiet diff_le_mono2 [of t last now] by fastforce
  with known_time show ?thesis by blast
qed

theorem watched_files_are_quiet_witness:
  "snd (watch_step \<lparr>wc_path = ''/d'', wc_file_pattern = ''*'', wc_database = [], wc_collection = [],
      wc_conflict_strategy = CSkip, wc_dedup_key = [], wc_debounce_ms = 500\<rparr> (\<lambda>_. True) [(''/d/a.csv'', 100)] (Tick 700)) \<noteq> [] \<and>
   file_events (\<lambda>_. True) ''/d/a.csv'' [FileEvent ''/d/a.csv'' 100] \<noteq> {}"
proof -
  let ?c = "\<lparr>wc_path = ''/d'', wc_file_pattern = ''*'', wc_database = [], wc_collection = [],
      wc_conflict_strategy = CSkip, wc_dedup_key = [], wc_debounce_ms = 500\<rparr>"
  have "watch_run ?c (\<lambda>_. True) [] [FileEvent ''/d/a.csv'' 100] = [(''/d/a.csv'', 100)]"
    by (simp add: path_file_name_def)
  then show ?thesis
    using watched_files_are_quiet [of "[FileEvent ''/d/a.csv'' 100]" 700 ?c "''/d/a.csv''" "\<lambda>_. True"] by simp
qed

end
