(* ===== verification/Ingest_Model_Functions.thy ===== *)
theory Ingest_Model_Functions
  imports Ingest_Transform
begin

text \<open>
  The functions of ingestion that are to use a language model
  (\<open>src/ingestion/llm_expressions.rs\<close>). None is called, and each is a placeholder: they give
  one result for each value, whatever the configuration, and the lemmas say which.
\<close>

record llm_expression_config =
  lx_provider :: string
  lx_api_key :: string
  lx_max_concurrency :: "32 word"

definition validate_llm_available :: "llm_expression_config option \<Rightarrow> mongo_error + unit" where
  "validate_llm_available config =
     (case config of
        Some _ \<Rightarrow> Inr ()
      | None \<Rightarrow> Inl (IngestionError ''LLM expressions require an API key. Set llm_provider and llm_api_key_env in config.''))"

definition llm_classify ::
  "string list \<Rightarrow> string list \<Rightarrow> llm_expression_config \<Rightarrow> mongo_error + string list" where
  "llm_classify values categories config =
     Inr (map (\<lambda>_. case categories of [] \<Rightarrow> [] | c # _ \<Rightarrow> c) values)"

definition llm_extract ::
  "string list \<Rightarrow> (string \<rightharpoonup> string) \<Rightarrow> llm_expression_config \<Rightarrow> mongo_error + string list" where
  "llm_extract values schema config = Inr (map (\<lambda>_. ''{}'') values)"

definition llm_normalize :: "string list \<Rightarrow> llm_expression_config \<Rightarrow> mongo_error + string list" where
  "llm_normalize values config = Inr values"

text \<open>A vector of zeroes, as bit patterns.\<close>

definition llm_embed :: "string list \<Rightarrow> llm_expression_config \<Rightarrow> mongo_error + f64 list list" where
  "llm_embed values config = (let dim = 1024 in Inr (map (\<lambda>_. replicate dim 0) values))"

lemma model_functions_keep_length:
  "llm_classify values categories config = Inr r \<Longrightarrow> length r = length values"
  "llm_extract values schema config = Inr r \<Longrightarrow> length r = length values"
  "llm_normalize values config = Inr r \<Longrightarrow> length r = length values"
  "llm_embed values config = Inr v \<Longrightarrow> length v = length values \<and> (\<forall>e \<in> set v. length e = 1024)"
  by (auto simp: llm_classify_def llm_extract_def llm_normalize_def llm_embed_def)

text \<open>A category is only given when there is one: without categories the class of every value is the empty text.\<close>

lemma classified_exactly:
  "llm_classify values categories config = Inr r \<Longrightarrow>
   set r \<subseteq> (if categories = [] then {[]} else {hd categories})"
  by (auto simp: llm_classify_def split: list.splits)

end
