(* ===== verification/Mcp_Context.thy ===== *)
theory Mcp_Context
  imports Mongo_Values
begin

text \<open>
  The context that the MCP server adds to the result of a tool (\<open>src/mcp/context.rs\<close>): what
  was done, where, and a shortened form of the arguments. The compact text of a JSON value is
  the parameter \<open>text_of\<close>.
\<close>

definition MAX_SERIALIZED_SIZE :: nat where "MAX_SERIALIZED_SIZE = 1024"
definition MAX_PIPELINE_STAGES :: nat where "MAX_PIPELINE_STAGES = 5"

definition arg_or_null :: "json \<Rightarrow> string \<Rightarrow> json" where
  "arg_or_null args k = (case json_get args k of None \<Rightarrow> JNull | Some v \<Rightarrow> v)"

text \<open>A field that the context has when the arguments have it.\<close>

definition copy_arg :: "json \<Rightarrow> (json \<Rightarrow> json) \<Rightarrow> string \<Rightarrow> (string \<times> json) list \<Rightarrow> (string \<times> json) list" where
  "copy_arg args f k ctx = (case json_get args k of None \<Rightarrow> ctx | Some v \<Rightarrow> doc_insert k (f v) ctx)"

definition truncate_value :: "(json \<Rightarrow> string) \<Rightarrow> json \<Rightarrow> json" where
  "truncate_value text_of v =
     (if length (text_of v) \<le> MAX_SERIALIZED_SIZE then v
      else
        (case v of
           JObject m \<Rightarrow> JObject [(''_truncated'', JBool True), (''_keys'', JArray (map (\<lambda>kv. JString (fst kv)) m))]
         | JArray xs \<Rightarrow> JObject [(''_truncated'', JBool True), (''_length'', json_of_nat (length xs))]
         | _ \<Rightarrow> v))"

definition truncate_pipeline :: "json \<Rightarrow> json" where
  "truncate_pipeline pipeline =
     (case as_array pipeline of
        Some stages \<Rightarrow>
          if MAX_PIPELINE_STAGES < length stages
          then JArray (take 3 stages @
                 [JString (''... ('' @ show_nat (length stages - 4) @ '' more stages)''), last stages])
          else pipeline
      | None \<Rightarrow> pipeline)"

definition json_type_name :: "json \<Rightarrow> string" where
  "json_type_name v =
     (case v of
        JNull \<Rightarrow> ''null''
      | JBool _ \<Rightarrow> ''bool''
      | JNumber n \<Rightarrow> (case n of Float _ \<Rightarrow> ''float'' | _ \<Rightarrow> ''int'')
      | JString _ \<Rightarrow> ''string''
      | JArray _ \<Rightarrow> ''array''
      | JObject _ \<Rightarrow> ''object'')"

definition target_context :: "string \<Rightarrow> json \<Rightarrow> (string \<times> json) list" where
  "target_context tool args =
     [(''operation'', JString tool), (''database'', arg_or_null args ''database''),
      (''collection'', arg_or_null args ''collection'')]"

definition build_find_context :: "(json \<Rightarrow> string) \<Rightarrow> string \<Rightarrow> json \<Rightarrow> (string \<times> json) list" where
  "build_find_context text_of tool args =
     (copy_arg args id ''skip'' \<circ> copy_arg args id ''limit'' \<circ> copy_arg args id ''sort'' \<circ>
      copy_arg args id ''projection'' \<circ> copy_arg args (truncate_value text_of) ''filter'')
       (target_context tool args)"

definition schema_of_object :: "(string \<times> json) list \<Rightarrow> json" where
  "schema_of_object m = JObject (map (\<lambda>(k, v). (k, JString (json_type_name v))) m)"

definition build_insert_context :: "string \<Rightarrow> json \<Rightarrow> (string \<times> json) list" where
  "build_insert_context tool args =
     (let ctx = target_context tool args in
      case Option.bind (json_get args ''documents'') as_array of
        Some docs \<Rightarrow>
          let ctx = doc_insert ''document_count'' (json_of_nat (length docs)) ctx in
          (case docs of
             JObject m # _ \<Rightarrow> doc_insert ''document_schema'' (schema_of_object m) ctx
           | _ \<Rightarrow> ctx)
      | None \<Rightarrow>
          (case json_get args ''document'' of
             None \<Rightarrow> ctx
           | Some d \<Rightarrow>
               let ctx = doc_insert ''document_count'' (json_of_nat 1) ctx in
               (case as_object d of
                  Some m \<Rightarrow> doc_insert ''document_schema'' (schema_of_object m) ctx
                | None \<Rightarrow> ctx)))"

definition build_update_context :: "(json \<Rightarrow> string) \<Rightarrow> string \<Rightarrow> json \<Rightarrow> (string \<times> json) list" where
  "build_update_context text_of tool args =
     (copy_arg args (truncate_value text_of) ''update'' \<circ> copy_arg args (truncate_value text_of) ''filter'')
       (target_context tool args)"

text \<open>Deletions and counts carry their filter.\<close>

definition build_filter_context :: "(json \<Rightarrow> string) \<Rightarrow> string \<Rightarrow> json \<Rightarrow> (string \<times> json) list" where
  "build_filter_context text_of tool args =
     copy_arg args (truncate_value text_of) ''filter'' (target_context tool args)"

definition build_aggregate_context :: "json \<Rightarrow> (string \<times> json) list" where
  "build_aggregate_context args = copy_arg args truncate_pipeline ''pipeline'' (target_context ''aggregate'' args)"

definition build_ask_context :: "json \<Rightarrow> (string \<times> json) list" where
  "build_ask_context args = target_context ''ask'' args @ [(''question'', arg_or_null args ''question'')]"

definition build_ingest_context :: "json \<Rightarrow> (string \<times> json) list" where
  "build_ingest_context args =
     (copy_arg args id ''conflict_strategy'' \<circ> copy_arg args id ''dedup_key'' \<circ>
      copy_arg args id ''transforms'' \<circ> copy_arg args id ''format'')
       (target_context ''ingest'' args @ [(''file_path'', arg_or_null args ''file_path'')])"

definition build_create_index_context :: "json \<Rightarrow> (string \<times> json) list" where
  "build_create_index_context args =
     copy_arg args id ''options'' (target_context ''create_index'' args @ [(''keys'', arg_or_null args ''keys'')])"

definition build_list_collections_context :: "json \<Rightarrow> (string \<times> json) list" where
  "build_list_collections_context args =
     [(''operation'', JString ''list_collections''), (''database'', arg_or_null args ''database'')]"

definition build_run_command_context :: "json \<Rightarrow> (string \<times> json) list" where
  "build_run_command_context args =
     (let ctx = [(''operation'', JString ''run_command''), (''database'', arg_or_null args ''database'')] in
      case Option.bind (json_get args ''command'') as_object of
        Some ((k, v) # _) \<Rightarrow> doc_insert ''command_name'' (JString k) ctx
      | _ \<Rightarrow> ctx)"

definition build_embed_context :: "json \<Rightarrow> (string \<times> json) list" where
  "build_embed_context args =
     (let ctx = target_context ''embed_and_store'' args @ [(''embed_field'', arg_or_null args ''embed_field'')] in
      case Option.bind (json_get args ''documents'') as_array of
        Some docs \<Rightarrow> doc_insert ''document_count'' (json_of_nat (length docs)) ctx
      | None \<Rightarrow> ctx)"

definition build_semantic_search_context :: "json \<Rightarrow> (string \<times> json) list" where
  "build_semantic_search_context args =
     (copy_arg args id ''limit'' \<circ> copy_arg args id ''index_name'')
       (target_context ''semantic_search'' args @ [(''query'', arg_or_null args ''query'')])"

definition build_watch_context :: "json \<Rightarrow> (string \<times> json) list" where
  "build_watch_context args =
     (copy_arg args id ''conflict_strategy'' \<circ> copy_arg args id ''pattern'')
       (target_context ''watch_directory'' args @ [(''path'', arg_or_null args ''path'')])"

text \<open>The steps of a pipeline or of a transaction: their names and tools.\<close>

definition step_summary :: "json \<Rightarrow> json" where
  "step_summary step =
     JObject [(''name'', arg_or_null step ''name''),
       (''tool_name'', (case json_get step ''tool'' of Some t \<Rightarrow> t | None \<Rightarrow> arg_or_null step ''operation''))]"

definition build_steps_context :: "string \<Rightarrow> json \<Rightarrow> (string \<times> json) list" where
  "build_steps_context tool args =
     (let ctx = [(''operation'', JString tool)] in
      case Option.bind (json_get args ''steps'') as_array of
        Some steps \<Rightarrow> doc_insert ''steps'' (JArray (map step_summary steps)) ctx
      | None \<Rightarrow> ctx)"

definition build_context :: "(json \<Rightarrow> string) \<Rightarrow> string \<Rightarrow> json \<Rightarrow> json" where
  "build_context text_of tool args =
     JObject
       (if tool \<in> {''find'', ''find_one''} then build_find_context text_of tool args
        else if tool \<in> {''insert'', ''insert_many''} then build_insert_context tool args
        else if tool \<in> {''update'', ''update_many''} then build_update_context text_of tool args
        else if tool \<in> {''delete'', ''delete_many'', ''count_documents''} then build_filter_context text_of tool args
        else if tool = ''aggregate'' then build_aggregate_context args
        else if tool = ''ask'' then build_ask_context args
        else if tool = ''ingest'' then build_ingest_context args
        else if tool = ''create_index'' then build_create_index_context args
        else if tool \<in> {''drop_collection'', ''create_collection''} then target_context tool args
        else if tool = ''list_collections'' then build_list_collections_context args
        else if tool = ''run_command'' then build_run_command_context args
        else if tool = ''embed_and_store'' then build_embed_context args
        else if tool = ''semantic_search'' then build_semantic_search_context args
        else if tool = ''watch_directory'' then build_watch_context args
        else if tool \<in> {''pipeline'', ''transaction_pipeline''} then build_steps_context tool args
        else [(''operation'', JString tool)])"

subsection \<open>What a context says\<close>

lemma copy_arg_get: "k \<noteq> k' \<Longrightarrow> doc_get (copy_arg args f k ctx) k' = doc_get ctx k'"
  by (auto simp: copy_arg_def map_of_doc_insert split: option.splits)

lemma copy_arg_ok [simp]: "doc_ok ctx \<Longrightarrow> doc_ok (copy_arg args f k ctx)"
  by (auto simp: copy_arg_def split: option.splits)

lemma target_context_ok [simp]: "doc_ok (target_context tool args)"
  by (simp add: target_context_def doc_ok_def)

definition names_tool :: "string \<Rightarrow> (string \<times> json) list \<Rightarrow> bool" where
  "names_tool tool ctx \<longleftrightarrow> map_of ctx ''operation'' = Some (JString tool)"

lemma names_insert: "names_tool tool ctx \<Longrightarrow> k \<noteq> ''operation'' \<Longrightarrow> names_tool tool (doc_insert k v ctx)"
  by (simp add: names_tool_def map_of_doc_insert)

lemma names_copy_arg: "names_tool tool ctx \<Longrightarrow> k \<noteq> ''operation'' \<Longrightarrow> names_tool tool (copy_arg args f k ctx)"
  by (auto simp: copy_arg_def intro: names_insert split: option.splits)

lemma names_target: "names_tool tool (target_context tool args)" "names_tool tool (target_context tool args @ more)"
  by (simp_all add: names_tool_def target_context_def)

lemma names_builders:
  "names_tool tool (build_find_context text_of tool args)"
  "names_tool tool (build_update_context text_of tool args)"
  "names_tool tool (build_filter_context text_of tool args)"
  "names_tool ''aggregate'' (build_aggregate_context args)"
  "names_tool ''ask'' (build_ask_context args)"
  "names_tool ''ingest'' (build_ingest_context args)"
  "names_tool ''create_index'' (build_create_index_context args)"
  "names_tool ''list_collections'' (build_list_collections_context args)"
  "names_tool ''semantic_search'' (build_semantic_search_context args)"
  "names_tool ''watch_directory'' (build_watch_context args)"
  by (simp_all add: build_find_context_def build_update_context_def build_filter_context_def build_aggregate_context_def
      build_ask_context_def build_ingest_context_def build_create_index_context_def build_semantic_search_context_def
      build_watch_context_def names_copy_arg names_target)
    (simp add: build_list_collections_context_def names_tool_def)

lemma names_builders_by_cases:
  "names_tool tool (build_insert_context tool args)"
  "names_tool ''run_command'' (build_run_command_context args)"
  "names_tool ''embed_and_store'' (build_embed_context args)"
  "names_tool tool (build_steps_context tool args)"
proof -
  show "names_tool tool (build_insert_context tool args)"
    by (auto simp: build_insert_context_def Let_def intro!: names_insert names_target
        split: option.splits list.splits json.splits)
  show "names_tool ''run_command'' (build_run_command_context args)"
    by (auto simp: build_run_command_context_def names_tool_def Let_def split: option.splits list.splits)
  show "names_tool ''embed_and_store'' (build_embed_context args)"
    by (auto simp: build_embed_context_def Let_def intro: names_insert names_target split: option.splits)
  show "names_tool tool (build_steps_context tool args)"
    by (auto simp: build_steps_context_def names_tool_def Let_def split: option.splits)
qed

lemma context_operation: "json_get (build_context text_of tool args) ''operation'' = Some (JString tool)"
proof -
  have base: "names_tool tool [(''operation'', JString tool)]" by (simp add: names_tool_def)
  have "\<exists>ctx. build_context text_of tool args = JObject ctx \<and> names_tool tool ctx"
    unfolding build_context_def
    by (intro exI conjI, rule refl) (simp add: base names_builders names_builders_by_cases names_target split: if_split)
  then show ?thesis by (auto simp: names_tool_def)
qed

lemma truncate_pipeline_length: "truncate_pipeline p = JArray xs \<Longrightarrow> length xs \<le> MAX_PIPELINE_STAGES"
  by (cases p) (auto simp: truncate_pipeline_def MAX_PIPELINE_STAGES_def split: if_splits)

lemma truncated_pipeline_counts:
  assumes "MAX_PIPELINE_STAGES < length stages"
  shows "\<exists>kept. truncate_pipeline (JArray stages) = JArray kept \<and> length kept = 5 \<and>
    kept ! 3 = JString (''... ('' @ show_nat (length stages - (length kept - 1)) @ '' more stages)'') \<and>
    take 3 kept = take 3 stages \<and> last kept = last stages"
  using assms by (simp add: truncate_pipeline_def MAX_PIPELINE_STAGES_def nth_append)

text \<open>The tool's pipelines have operations, but their context looks for steps: it never lists them.\<close>

lemma pipeline_context_has_no_operations:
  "json_get args ''steps'' = None \<Longrightarrow> build_context text_of ''pipeline'' args = JObject [(''operation'', JString ''pipeline'')]"
  by (simp add: build_context_def build_steps_context_def)

end
