(* ===== verification/Mcp_Safety.thy ===== *)
theory Mcp_Safety
  imports Mcp_Context
begin

text \<open>
  The safety rules of the MCP server (\<open>src/mcp/safety.rs\<close>) and the record of a session
  (\<open>src/mcp/session.rs\<close>).
\<close>

subsection \<open>Safety\<close>

record safety_config =
  read_only :: bool
  max_documents :: nat

definition default_safety :: safety_config where
  "default_safety = \<lparr>read_only = False, max_documents = 100\<rparr>"

definition WRITE_TOOLS :: "string list" where
  "WRITE_TOOLS =
     [''insert'', ''insert_many'', ''update'', ''update_many'', ''delete'', ''delete_many'',
      ''create_collection'', ''create_index'', ''run_command'', ''transaction_pipeline'']"

definition WRITE_OPS :: "string list" where
  "WRITE_OPS =
     [''insert'', ''insert_many'', ''update'', ''update_many'', ''delete'', ''delete_many'',
      ''create_collection'', ''create_index'', ''run_command'', ''find_and_modify'']"

definition quoted :: "string \<Rightarrow> string" where
  "quoted s = [CHR 0x27] @ s @ [CHR 0x27]"

definition check_tool_allowed :: "safety_config \<Rightarrow> string \<Rightarrow> string + unit" where
  "check_tool_allowed safety tool =
     (if read_only safety \<and> tool \<in> set WRITE_TOOLS
      then Inl (''Tool '' @ quoted tool @ '' is blocked: server is in read-only mode'')
      else Inr ())"

fun pipeline_violations :: "nat \<Rightarrow> json list \<Rightarrow> string list" where
  "pipeline_violations i [] = []"
| "pipeline_violations i (op # ops) =
     (case json_str_field op ''op'' of
        Some t \<Rightarrow>
          if t \<in> set WRITE_OPS
          then (''operation['' @ show_nat i @ '']: '' @ quoted t @ '' is a write operation'') # pipeline_violations (Suc i) ops
          else pipeline_violations (Suc i) ops
      | None \<Rightarrow> pipeline_violations (Suc i) ops)"

fun join_lines :: "string list \<Rightarrow> string" where
  "join_lines [] = []"
| "join_lines [l] = l"
| "join_lines (l # ls) = l @ [CHR 0x0A] @ join_lines ls"

definition check_pipeline_allowed :: "safety_config \<Rightarrow> json list \<Rightarrow> string + unit" where
  "check_pipeline_allowed safety ops =
     (if \<not> read_only safety then Inr ()
      else
        let violations = pipeline_violations 0 ops in
        if violations = [] then Inr ()
        else Inl (''Pipeline rejected: server is in read-only mode. Violations:'' @ [CHR 0x0A] @ join_lines violations))"

lemma no_violations:
  "pipeline_violations i ops = [] \<longleftrightarrow> (\<forall>op \<in> set ops. \<forall>t. json_str_field op ''op'' = Some t \<longrightarrow> t \<notin> set WRITE_OPS)"
  by (induction ops arbitrary: i) (auto split: option.splits)

lemma pipeline_allowed:
  "check_pipeline_allowed safety ops = Inr () \<longleftrightarrow>
     \<not> read_only safety \<or> (\<forall>op \<in> set ops. \<forall>t. json_str_field op ''op'' = Some t \<longrightarrow> t \<notin> set WRITE_OPS)"
  by (simp add: check_pipeline_allowed_def no_violations Let_def)

subsection \<open>The session\<close>

record operation_record =
  or_index :: nat
  or_tool_name :: string
  or_params :: json
  or_context :: json
  or_success :: bool
  or_error_message :: "string option"
  or_timestamp :: i64

type_synonym session_recorder = "operation_record list"

definition EXCLUDED_TOOLS :: "string list" where
  "EXCLUDED_TOOLS = [''explain_last'', ''explain_session'', ''get_analytics'', ''collection_schema'']"

definition should_record :: "string \<Rightarrow> bool" where
  "should_record tool \<longleftrightarrow> tool \<notin> set EXCLUDED_TOOLS"

definition session_record ::
  "string \<Rightarrow> json \<Rightarrow> json \<Rightarrow> bool \<Rightarrow> string option \<Rightarrow> i64 \<Rightarrow> session_recorder \<Rightarrow> session_recorder" where
  "session_record tool params context success message now session =
     session @ [\<lparr>or_index = length session, or_tool_name = tool, or_params = params, or_context = context,
                 or_success = success, or_error_message = message, or_timestamp = now\<rparr>]"

definition get_last :: "nat \<Rightarrow> session_recorder \<Rightarrow> operation_record option" where
  "get_last offset session =
     (if length session \<le> offset then None else Some (session ! (length session - 1 - offset)))"

definition session_ok :: "session_recorder \<Rightarrow> bool" where
  "session_ok session \<longleftrightarrow>
     (\<forall>i < length session. or_index (session ! i) = i \<and> should_record (or_tool_name (session ! i)) \<and>
        (or_success (session ! i) \<longrightarrow> or_error_message (session ! i) = None))"

lemma session_ok_record:
  assumes "session_ok session" and "should_record tool" and "success \<Longrightarrow> message = None"
  shows "session_ok (session_record tool params context success message now session)"
  using assms by (auto simp: session_ok_def session_record_def nth_append less_Suc_eq)

lemma get_last_index: "session_ok session \<Longrightarrow> get_last offset session = Some r \<Longrightarrow> or_index r = length session - 1 - offset"
  by (auto simp: session_ok_def get_last_def split: if_splits)

end
