(* ===== verification/Mcp_Skills.thy ===== *)
theory Mcp_Skills
  imports Mongo_Values "HOL-Library.List_Lexorder" "HOL-Library.Char_ord"
begin

text \<open>
  The skills of the MCP server (\<open>src/mcp/skills/mod.rs\<close>, \<open>registry.rs\<close>): series of described
  steps. The registry is the table of those that could be read from their definitions, in
  the order in which the hash map gives them.
\<close>

datatype skill_category = DatabaseWorkflows | CodeScaffolding | DataAnalysis | SkillOperations

fun category_display_name :: "skill_category \<Rightarrow> string" where
  "category_display_name DatabaseWorkflows = ''Database Workflows''"
| "category_display_name CodeScaffolding = ''Code Scaffolding''"
| "category_display_name DataAnalysis = ''Data Analysis''"
| "category_display_name SkillOperations = ''Operations''"

record skill_argument =
  sa_name :: string
  sa_description :: string
  sa_required :: bool

record skill_step =
  ss_description :: string
  ss_tool :: "string option"
  ss_dynamic :: bool
  ss_analysis :: bool
  ss_synthesis :: bool

record skill =
  sk_name :: string
  sk_description :: string
  sk_category :: skill_category
  sk_arguments :: "skill_argument list"
  sk_steps :: "skill_step list"

type_synonym skill_registry = "(string \<times> skill) list"

text \<open>Reading a definition is the TOML library's; one that cannot be read is left out.\<close>

definition registry_new :: "(string \<Rightarrow> skill option) \<Rightarrow> (string \<times> string) list \<Rightarrow> skill_registry" where
  "registry_new parse definitions =
     fold (\<lambda>(name, toml) skills. case parse toml of None \<Rightarrow> skills | Some sk \<Rightarrow> doc_insert name sk skills) definitions []"

definition skills_list :: "skill_category option \<Rightarrow> skill_registry \<Rightarrow> skill list" where
  "skills_list category skills =
     sort_key sk_name (filter (\<lambda>s. case category of None \<Rightarrow> True | Some c \<Rightarrow> sk_category s = c) (map snd skills))"

definition skills_get :: "string \<Rightarrow> skill_registry \<Rightarrow> skill option" where
  "skills_get name skills = map_of skills name"

lemma skills_list_sorted: "sorted (map sk_name (skills_list category skills))"
  by (simp add: skills_list_def)

lemma registry_new_ok: "doc_ok (registry_new parse definitions)"
proof -
  have "doc_ok s \<Longrightarrow>
      doc_ok (fold (\<lambda>(name, toml) skills. case parse toml of None \<Rightarrow> skills | Some sk \<Rightarrow> doc_insert name sk skills) ds s)"
    for s :: skill_registry and ds
    by (induction ds arbitrary: s) (auto split: option.splits)
  then show ?thesis by (simp add: registry_new_def doc_ok_def)
qed

end
