(* ===== verification/Mcp_Tools.thy ===== *)
theory Mcp_Tools
  imports Mcp_Safety Mcp_Skills Operations Txn_Pipeline Mql_Validator Analytics Ingest_Lifecycle
begin

text \<open>
  The tools of the MCP server (\<open>src/mcp/tools.rs\<close>): reading their arguments, their calls of
  the operations layer, of transactions and of the ingestion engine, their answers, and the
  pipeline tool that runs others. The state of the database is the world of the ingestion
  engine, so that every tool acts on the same one.

  Parameters (\<open>tool_lib\<close>) are the driver, the texts of JSON and BSON values, the embedding
  service, the query translator (its model is \<open>translate\<close> of Translator, applied to its own
  parameters), the clock in milliseconds, the order of a hash set, the generation of client
  code, and the tools whose answers are texts made of fixed data or of the analytics alone
  (\<open>tl_text_tool\<close>). Strings are the bytes of their encoding. A panic has no value.
\<close>

subsection \<open>Results and parameters\<close>

record tool_result =
  tr_content :: "(string \<times> string) list"
  tr_is_error :: bool

definition error_result :: "string \<Rightarrow> tool_result" where
  "error_result message = \<lparr>tr_content = [(''text'', message)], tr_is_error = True\<rparr>"

definition success_result :: "string \<Rightarrow> tool_result" where
  "success_result message = \<lparr>tr_content = [(''text'', message)], tr_is_error = False\<rparr>"

datatype language = Python | TypeScript | Go | Java

record ('db, 's, 'f, 't) tool_lib =
  tl_bson :: bson_lib
  tl_driver :: "'db driver"
  tl_json :: json_lib
  tl_pretty :: "json \<Rightarrow> string"
  tl_pretty_doc :: "document \<Rightarrow> string option"
  tl_parse :: "string \<Rightarrow> json option"
  tl_show_bson :: "bson \<Rightarrow> string"
  tl_display :: "bson \<Rightarrow> string"
  tl_floats :: float_lib
  tl_detect :: "string \<Rightarrow> language option"
  tl_model :: "language \<Rightarrow> string \<Rightarrow> (string \<times> string) list \<Rightarrow> string"
  tl_path_exists :: "string \<Rightarrow> bool"
  tl_skills :: skill_registry
  tl_capabilities :: "string \<times> bool \<times> bool"
  tl_transactions :: "'db session_driver"
  tl_list_databases :: "'db \<Rightarrow> (string + string list) \<times> 'db"
  tl_embedded_insert :: "string \<Rightarrow> string \<Rightarrow> document list \<Rightarrow> 'db \<Rightarrow> (string + nat) \<times> 'db"
  tl_vector_search :: "string \<Rightarrow> string \<Rightarrow> document list \<Rightarrow> 'db \<Rightarrow> (string + session_cursor) \<times> 'db"
  tl_to_document :: "json \<Rightarrow> string + document"
  tl_ingestion :: "(('f, 's, 'db) source_lib \<times> ('s, 'db) ingest_lib) option"
  tl_watcher :: "watch_lib option"
  tl_translate ::
    "(string \<Rightarrow> string \<Rightarrow> string \<Rightarrow> string list \<Rightarrow> 't \<Rightarrow> 'db \<Rightarrow> (string + compiled_query) \<times> 't \<times> 'db) option"
  tl_embed :: "(string list \<Rightarrow> string + f64 list list) option"
  tl_fresh_id :: "'db \<Rightarrow> string"
  tl_clock :: "'db \<Rightarrow> nat"
  tl_rfc3339 :: "i64 \<Rightarrow> string"
  tl_order :: "nat \<Rightarrow> nat list"
  tl_set_order :: "string list \<Rightarrow> string list"
  tl_single_code :: "language \<Rightarrow> string \<Rightarrow> json \<Rightarrow> string + string"
  tl_session_code :: "language \<Rightarrow> session_recorder \<Rightarrow> string + string"
  tl_text_tool :: "string \<Rightarrow> json \<Rightarrow> collector option \<Rightarrow> tool_result"

record ('db, 'f, 't) mcp_state =
  ms_engine :: "'db ingest_state"
  ms_tasks :: "'f ingest_task list"
  ms_watches :: "watch_handle list"
  ms_translator :: 't
  ms_analytics :: "collector option"
  ms_session :: session_recorder

abbreviation ms_db :: "('db, 'f, 't) mcp_state \<Rightarrow> 'db" where
  "ms_db st \<equiv> is_world (ms_engine st)"

definition set_db :: "'db \<Rightarrow> ('db, 'f, 't) mcp_state \<Rightarrow> ('db, 'f, 't) mcp_state" where
  "set_db s st = st\<lparr>ms_engine := (ms_engine st)\<lparr>is_world := s\<rparr>\<rparr>"

subsection \<open>Arguments\<close>

definition get_str :: "json \<Rightarrow> string \<Rightarrow> tool_result + string" where
  "get_str args field = ok_or (error_result (''Missing required field: '' @ field)) (json_str_field args field)"

definition json_to_document :: "json_lib \<Rightarrow> json \<Rightarrow> tool_result + document" where
  "json_to_document J v =
     rbind (map_err (\<lambda>e. error_result (''Failed to convert to BSON: '' @ e)) (to_bson J v)) (\<lambda>b.
       ok_or (error_result ''Expected a JSON object convertible to BSON document'') (as_document b))"

definition json_to_documents :: "json_lib \<Rightarrow> json \<Rightarrow> tool_result + document list" where
  "json_to_documents J v =
     rbind (ok_or (error_result ''Expected a JSON array'') (as_array v)) (collect (json_to_document J))"

definition required :: "json \<Rightarrow> string \<Rightarrow> (json \<Rightarrow> tool_result + 'a) \<Rightarrow> tool_result + 'a" where
  "required args field f =
     (case json_get args field of
        None \<Rightarrow> Inl (error_result (''Missing required field: '' @ field))
      | Some v \<Rightarrow> f v)"

definition optional_document :: "json_lib \<Rightarrow> json \<Rightarrow> string \<Rightarrow> tool_result + document" where
  "optional_document J args field =
     (case json_get args field of None \<Rightarrow> Inr [] | Some v \<Rightarrow> json_to_document J v)"

text \<open>Database and collection, which most tools read first.\<close>

definition target :: "json \<Rightarrow> tool_result + string \<times> string" where
  "target args =
     rbind (get_str args ''database'') (\<lambda>db. rbind (get_str args ''collection'') (\<lambda>coll. Inr (db, coll)))"

text \<open>An early return of the arguments' error, or the rest of the tool.\<close>

definition with_args :: "tool_result + 'a \<Rightarrow> ('a \<Rightarrow> 'db \<Rightarrow> tool_result \<times> 'db) \<Rightarrow> 'db \<Rightarrow> tool_result \<times> 'db" where
  "with_args r f s = (case r of Inl e \<Rightarrow> (e, s) | Inr a \<Rightarrow> f a s)"

definition answer :: "string \<Rightarrow> ('a \<Rightarrow> tool_result) \<Rightarrow> (mongo_error + 'a) \<times> 'db \<Rightarrow> tool_result \<times> 'db" where
  "answer tool ok r =
     (case r of
        (Inl e, s) \<Rightarrow> (error_result (tool @ '' failed: '' @ err_text e), s)
      | (Inr a, s) \<Rightarrow> (ok a, s))"

definition doc_to_json :: "json_lib \<Rightarrow> document \<Rightarrow> json" where
  "doc_to_json J d = (case to_json J (BDocument d) of Inr v \<Rightarrow> v | Inl _ \<Rightarrow> JNull)"

abbreviation json_u64 :: "u64 \<Rightarrow> json" where
  "json_u64 n \<equiv> JNumber (PosInt n)"

definition compact :: "('db, 's, 'f, 't) tool_lib \<Rightarrow> (string \<times> json) list \<Rightarrow> tool_result" where
  "compact T fs = success_result (to_text (tl_json T) (JObject fs))"

definition pretty :: "('db, 's, 'f, 't) tool_lib \<Rightarrow> (string \<times> json) list \<Rightarrow> tool_result" where
  "pretty T fs = success_result (tl_pretty T (JObject fs))"

definition documents_result :: "('db, 's, 'f, 't) tool_lib \<Rightarrow> document list \<Rightarrow> tool_result" where
  "documents_result T docs = success_result (tl_pretty T (JArray (map (doc_to_json (tl_json T)) docs)))"

subsection \<open>Reading and writing documents\<close>

definition MAX_FIND_LIMIT :: int where "MAX_FIND_LIMIT = 100"

definition find_limit_of :: "json \<Rightarrow> int" where
  "find_limit_of args =
     (let limit = (case Option.bind (json_get args ''limit'') as_i64 of Some l \<Rightarrow> l | None \<Rightarrow> MAX_FIND_LIMIT)
      in if limit > MAX_FIND_LIMIT \<or> limit \<le> 0 then MAX_FIND_LIMIT else limit)"

definition limited :: "int \<Rightarrow> u64 option \<Rightarrow> find_options" where
  "limited limit skip =
     \<lparr>fo_limit = Some (word_of_int limit), fo_skip = skip, fo_sort = None, fo_projection = None\<rparr>"

definition execute_find where
  "execute_find T args =
     with_args (rbind (target args) (\<lambda>(db, coll).
         rbind (optional_document (tl_json T) args ''filter'') (\<lambda>f. Inr (db, coll, f)))) (\<lambda>(db, coll, f) s.
       answer ''find'' (documents_result T)
         (op_find (tl_bson T) (tl_driver T) db coll f
            (Some (limited (find_limit_of args) (Option.bind (json_get args ''skip'') as_u64))) (s :: 'db)))"

definition execute_find_one where
  "execute_find_one T args =
     with_args (rbind (target args) (\<lambda>(db, coll).
         rbind (optional_document (tl_json T) args ''filter'') (\<lambda>f. Inr (db, coll, f)))) (\<lambda>(db, coll, f) s.
       answer ''find_one''
         (\<lambda>r. success_result (case r of
            None \<Rightarrow> ''null''
          | Some d \<Rightarrow> (case tl_pretty_doc T d of Some t \<Rightarrow> t | None \<Rightarrow> ''null'')))
         (op_find_one (tl_driver T) db coll f (s :: 'db)))"

definition execute_insert where
  "execute_insert T args =
     with_args (rbind (target args) (\<lambda>(db, coll).
         rbind (required args ''document'' (json_to_document (tl_json T))) (\<lambda>d. Inr (db, coll, d)))) (\<lambda>(db, coll, d) s.
       answer ''insert'' (\<lambda>oid. compact T [(''insertedId'', JString (tl_show_bson T oid))])
         (op_insert (tl_driver T) db coll d (s :: 'db)))"

definition execute_insert_many where
  "execute_insert_many T args =
     with_args (rbind (target args) (\<lambda>(db, coll).
         rbind (required args ''documents'' (json_to_documents (tl_json T))) (\<lambda>ds. Inr (db, coll, ds)))) (\<lambda>(db, coll, ds) s.
       answer ''insert_many''
         (\<lambda>ids. compact T
            [(''insertedIds'', JArray (map (\<lambda>i. JString (tl_show_bson T (snd i))) ids)),
             (''insertedCount'', json_of_nat (length ids))])
         (op_insert_many (tl_driver T) db coll ds (s :: 'db)))"

text \<open>The filter and the update of an update.\<close>

definition update_args :: "json_lib \<Rightarrow> json \<Rightarrow> tool_result + string \<times> string \<times> document \<times> document" where
  "update_args J args =
     rbind (target args) (\<lambda>(db, coll).
     rbind (required args ''filter'' (json_to_document J)) (\<lambda>f.
     rbind (required args ''update'' (json_to_document J)) (\<lambda>u. Inr (db, coll, f, u))))"

definition update_result where
  "update_result T c =
     compact T [(''matchedCount'', json_u64 (matched_count c)), (''modifiedCount'', json_u64 (modified_count c))]"

definition execute_update where
  "execute_update T args =
     with_args (update_args (tl_json T) args) (\<lambda>(db, coll, f, u) s.
       answer ''update'' (update_result T) (op_update (tl_driver T) db coll f u (s :: 'db)))"

definition execute_update_many where
  "execute_update_many T args =
     with_args (update_args (tl_json T) args) (\<lambda>(db, coll, f, u) s.
       answer ''update_many'' (update_result T) (op_update_many (tl_driver T) db coll f u (s :: 'db)))"

definition delete_args :: "json_lib \<Rightarrow> json \<Rightarrow> tool_result + string \<times> string \<times> document" where
  "delete_args J args =
     rbind (target args) (\<lambda>(db, coll).
     rbind (required args ''filter'' (json_to_document J)) (\<lambda>f. Inr (db, coll, f)))"

definition execute_delete where
  "execute_delete T args =
     with_args (delete_args (tl_json T) args) (\<lambda>(db, coll, f) s.
       answer ''delete'' (\<lambda>n. compact T [(''deletedCount'', json_u64 n)])
         (op_delete (tl_driver T) db coll f (s :: 'db)))"

definition execute_delete_many where
  "execute_delete_many T args =
     with_args (delete_args (tl_json T) args) (\<lambda>(db, coll, f) s.
       answer ''delete_many'' (\<lambda>n. compact T [(''deletedCount'', json_u64 n)])
         (op_delete_many (tl_driver T) db coll f (s :: 'db)))"

definition execute_aggregate where
  "execute_aggregate T args =
     with_args (rbind (target args) (\<lambda>(db, coll).
         rbind (required args ''pipeline'' (json_to_documents (tl_json T))) (\<lambda>p. Inr (db, coll, p)))) (\<lambda>(db, coll, p) s.
       answer ''aggregate'' (documents_result T)
         (op_aggregate (tl_bson T) (tl_driver T) db coll p (s :: 'db)))"

end
