(* ===== verification/Mcp_Execute.thy ===== *)
theory Mcp_Execute
  imports Mcp_Tools
begin

text \<open>
  The remaining tools of \<open>src/mcp/tools.rs\<close>: administration, raw commands and transactions,
  the explanation of the session, questions in natural language, embeddings, ingestion and
  watching, schemas and analytics.
\<close>

subsection \<open>Values\<close>

definition json_of_int :: "int \<Rightarrow> json" where
  "json_of_int n = JNumber (if n < 0 then NegInt (word_of_int n) else PosInt (word_of_int n))"

text \<open>A double that is not finite has no number in JSON.\<close>

definition json_of_f64 :: "f64 \<Rightarrow> json" where
  "json_of_f64 v = (if drop_bit 52 v mod 0x800 = 0x7FF then JNull else JNumber (Float v))"

definition str_or :: "string \<Rightarrow> json \<Rightarrow> string \<Rightarrow> string" where
  "str_or default_str args field = (case json_str_field args field of Some s \<Rightarrow> s | None \<Rightarrow> default_str)"

definition i64_or :: "int \<Rightarrow> json \<Rightarrow> string \<Rightarrow> int" where
  "i64_or n args field = (case Option.bind (json_get args field) as_i64 of Some l \<Rightarrow> l | None \<Rightarrow> n)"

definition str_list :: "json \<Rightarrow> string \<Rightarrow> string list" where
  "str_list args field =
     (case Option.bind (json_get args field) as_array of
        None \<Rightarrow> []
      | Some vs \<Rightarrow> List.map_filter as_str vs)"

definition on_db ::
  "('db \<Rightarrow> tool_result \<times> 'db) \<Rightarrow> ('db, 'f, 't) mcp_state \<Rightarrow> tool_result \<times> ('db, 'f, 't) mcp_state" where
  "on_db f st = (case f (ms_db st) of (r, s) \<Rightarrow> (r, set_db s st))"

subsection \<open>Administration\<close>

definition execute_create_collection where
  "execute_create_collection T args =
     with_args (target args) (\<lambda>(db, coll) s.
       answer ''create_collection'' (\<lambda>_. compact T [(''ok'', json_of_nat 1), (''collection'', JString coll)])
         (op_create_collection (tl_driver T) db coll (s :: 'db)))"

definition index_options_of :: "json \<Rightarrow> index_options option" where
  "index_options_of args =
     (case Option.bind (json_get args ''unique'') as_bool of
        None \<Rightarrow> None
      | Some u \<Rightarrow> Some \<lparr>ix_name = None, ix_unique = Some u, ix_sparse = None\<rparr>)"

definition execute_create_index where
  "execute_create_index T args =
     with_args (rbind (target args) (\<lambda>(db, coll).
         rbind (required args ''keys'' (json_to_document (tl_json T))) (\<lambda>keys. Inr (db, coll, keys)))) (\<lambda>(db, coll, keys) s.
       answer ''create_index'' (\<lambda>index_name. compact T [(''ok'', json_of_nat 1), (''indexName'', JString index_name)])
         (op_create_index (tl_driver T) db coll keys (index_options_of args) (s :: 'db)))"

definition execute_list_databases where
  "execute_list_databases T s =
     (case tl_list_databases T s of
        (Inl e, s') \<Rightarrow> (error_result (''list_databases failed: '' @ e), s' :: 'db)
      | (Inr names, s') \<Rightarrow> (pretty T [(''databases'', JArray (map JString names))], s'))"

definition execute_list_collections where
  "execute_list_collections T args =
     with_args (get_str args ''database'') (\<lambda>db s.
       case drv_list_collections (tl_driver T) db s of
         (Inl e, s') \<Rightarrow> (error_result (''list_collections failed: '' @ err_message e), s' :: 'db)
       | (Inr names, s') \<Rightarrow> (pretty T [(''collections'', JArray (map JString names))], s'))"

definition raw_mode_of :: "json \<Rightarrow> validation_mode" where
  "raw_mode_of args =
     (if Option.bind (json_get args ''allow_all'') as_bool = Some True then AllowAll else BlockDangerous)"

definition execute_run_command where
  "execute_run_command T args =
     with_args (rbind (get_str args ''database'') (\<lambda>db.
         rbind (required args ''command'' (json_to_document (tl_json T))) (\<lambda>command. Inr (db, command)))) (\<lambda>(db, command) s.
       answer ''run_command'' (\<lambda>r. success_result (tl_pretty T (doc_to_json (tl_json T) r)))
         (run_command (tl_driver T) db command (raw_mode_of args) (s :: 'db)))"

subsection \<open>Transactions\<close>

definition step_of_json :: "json \<Rightarrow> step_def" where
  "step_of_json v =
     (let params = (case json_get v ''params'' of Some p \<Rightarrow> p | None \<Rightarrow> JObject []) in
      \<lparr>step_name = str_or [] v ''name'', step_db = str_or [] v ''database'', step_coll = str_or [] v ''collection'',
       operation_type = str_or [] v ''operation'', operation_json = params,
       find_limit = map_option word_of_int (Option.bind (json_get params ''limit'') as_i64)\<rparr>)"

definition txn_options_of :: "json \<Rightarrow> txn_options" where
  "txn_options_of args =
     (case json_get args ''options'' of
        None \<Rightarrow> default_txn_options
      | Some opts \<Rightarrow>
          \<lparr>read_concern = json_str_field opts ''read_concern'', write_concern = json_str_field opts ''write_concern'',
           max_time_ms = (case Option.bind (json_get opts ''max_time_ms'') as_u64 of Some n \<Rightarrow> n | None \<Rightarrow> TIMEOUT_MS)\<rparr>)"

definition execution_json :: "execution_result \<Rightarrow> (string \<times> json) list" where
  "execution_json r =
     [(''steps'', JArray (map (\<lambda>s. JObject [(''name'', JString (res_name s)), (''success'', JBool (res_success s)),
        (''result'', res_json s)]) (exec_steps r))),
      (''summary'', JObject [(''total_steps'', json_of_nat (unat (total_steps r))),
        (''steps_completed'', json_of_nat (unat (steps_done r))), (''elapsed_ms'', json_u64 (elapsed_ms r))])]"

definition failure_json :: "pipeline_failure \<Rightarrow> json" where
  "failure_json f =
     JObject [(''failed_step'', JString (failed_step f)), (''step_index'', json_of_nat (unat (step_index f))),
       (''reason'', JString (reason f)), (''steps_completed'', JArray (map JString (steps_completed f))),
       (''rolled_back'', JBool (rolled_back f))]"

definition execute_transaction_pipeline_tool where
  "execute_transaction_pipeline_tool T safety args s =
     (case check_tool_allowed safety ''transaction_pipeline'' of
        Inl why \<Rightarrow> (error_result why, s :: 'db)
      | Inr _ \<Rightarrow>
          (case Option.bind (json_get args ''steps'') as_array of
             None \<Rightarrow> (error_result ''Missing required field: steps'', s)
           | Some steps \<Rightarrow>
               if steps = [] then (error_result ''Pipeline must contain at least one step'', s)
               else
                 (case execute_transaction_pipeline (tl_transactions T) (tl_json T) (map step_of_json steps) (txn_options_of args) s of
                    (Inr r, s') \<Rightarrow> (compact T (execution_json r), s')
                  | (Inl f, s') \<Rightarrow> (error_result (to_text (tl_json T) (failure_json f)), s'))))"

subsection \<open>Explaining the session\<close>

definition parse_language :: "json \<Rightarrow> tool_result + language" where
  "parse_language args =
     (case json_str_field args ''language'' of
        None \<Rightarrow> Inl (error_result ''Missing required field: language'')
      | Some l \<Rightarrow>
          if l = ''python'' then Inr Python
          else if l = ''typescript'' then Inr TypeScript
          else if l = ''go'' then Inr Go
          else if l = ''java'' then Inr Java
          else Inl (error_result (''Unsupported language: '' @ l @ ''. Use python, typescript, go, or java.'')))"

definition code_result where
  "code_result T args rest r =
     (case r of
        Inl e \<Rightarrow> error_result (''Code generation failed: '' @ e)
      | Inr code \<Rightarrow>
          pretty T ([(''code'', JString code), (''language'', arg_or_null args ''language'')] @ rest))"

definition execute_explain_last where
  "execute_explain_last T session args =
     (case parse_language args of
        Inl e \<Rightarrow> e
      | Inr language \<Rightarrow>
          let offset = (case Option.bind (json_get args ''offset'') as_u64 of Some n \<Rightarrow> unat n | None \<Rightarrow> 0) in
          if session = [] then error_result ''No operations recorded in this session yet.''
          else
            (case get_last offset session of
               None \<Rightarrow>
                 error_result (''Offset '' @ show_nat offset @ '' is out of bounds. Session has '' @
                   show_nat (length session) @ '' operations.'')
             | Some r \<Rightarrow>
                 code_result T args [(''operation'', JString (or_tool_name r))]
                   (tl_single_code T language (or_tool_name r) (or_params r))))"

definition execute_explain_session where
  "execute_explain_session T session args =
     (case parse_language args of
        Inl e \<Rightarrow> e
      | Inr language \<Rightarrow>
          if session = [] then error_result ''No operations recorded in this session yet.''
          else
            code_result T args
              [(''operation_count'', json_of_nat (length session)),
               (''operations'', JArray (map (\<lambda>r. JString (or_tool_name r)) session))]
              (tl_session_code T language session))"

subsection \<open>Questions in natural language\<close>

definition question_args :: "string \<Rightarrow> json \<Rightarrow> tool_result + string \<times> string \<times> string" where
  "question_args tool args =
     rbind (get_str args ''question'') (\<lambda>question.
     rbind (get_str args ''database'') (\<lambda>database.
     rbind (ok_or (error_result (''Collection is required for '' @ quoted tool @ '' (auto-detection not yet implemented)''))
              (json_str_field args ''collection'')) (\<lambda>collection. Inr (question, database, collection))))"

definition use_tools :: string where
  "use_tools = ''Use '' @ quoted ''find'' @ '' or '' @ quoted ''aggregate'' @ '' tools directly.''"

definition no_provider_ask :: string where
  "no_provider_ask =
     ''Natural language queries require an LLM provider. Configure ANTHROPIC_API_KEY or use MongoCore within Claude (MCP sampling). '' @ use_tools"

definition no_provider_explain :: string where
  "no_provider_explain =
     ''Query explanation requires an LLM provider. Configure ANTHROPIC_API_KEY or use MongoCore within Claude. '' @ use_tools"

definition sample_texts where
  "sample_texts T database collection s =
     (case op_find (tl_bson T) (tl_driver T) database collection [] (Some (limited 1 None)) s of
        (Inl e, s') \<Rightarrow> ([], s' :: 'db)
      | (Inr docs, s') \<Rightarrow>
          (map (\<lambda>d. case to_json (tl_json T) (BDocument d) of Inr v \<Rightarrow> to_text (tl_json T) v | Inl _ \<Rightarrow> []) docs, s'))"

definition run_compiled where
  "run_compiled T database collection mql s =
     (case mql of
        MqlFind f _ \<Rightarrow>
          op_find (tl_bson T) (tl_driver T) database collection f (Some (limited MAX_FIND_LIMIT None)) (s :: 'db)
      | MqlAggregate pipeline \<Rightarrow> op_aggregate (tl_bson T) (tl_driver T) database collection pipeline s
      | _ \<Rightarrow> (Inr [], s))"

definition compiled_query_json :: "json_lib \<Rightarrow> compiled_mql \<Rightarrow> json" where
  "compiled_query_json J mql =
     (case mql of
        MqlFind f _ \<Rightarrow> JObject [(''method'', JString ''find''), (''filter'', doc_to_json J f)]
      | MqlAggregate pipeline \<Rightarrow>
          JObject [(''method'', JString ''aggregate''), (''pipeline'', JArray (map (doc_to_json J) pipeline))]
      | _ \<Rightarrow> JObject [(''method'', JString (mql_method mql))])"

definition asked_json where
  "asked_json T question database collection c docs ms from_cache =
     [(''documents'', JArray (map (doc_to_json (tl_json T)) (take 20 docs))),
      (''count'', json_of_nat (length docs)),
      (''query'', JObject [(''method'', JString (mql_method (cq_mql c))), (''intent'', JString (cq_intent c))]),
      (''execution_time_ms'', json_of_nat ms),
      (''from_cache'', JBool from_cache),
      (''_context'', JObject [(''operation'', JString ''ask''), (''database'', JString database),
         (''collection'', JString collection), (''question'', JString question),
         (''compiled_query'', compiled_query_json (tl_json T) (cq_mql c))])]"

definition translation_failed :: "string \<Rightarrow> tool_result" where
  "translation_failed e = error_result (''Translation failed: '' @ e @ ''. '' @ use_tools)"

definition answer_question where
  "answer_question T question database collection c from_cache s =
     (case run_compiled T database collection (cq_mql c) s of
        (Inl e, s') \<Rightarrow> (error_result (''Query execution failed: '' @ err_text e), s')
      | (Inr docs, s') \<Rightarrow>
          (pretty T (asked_json T question database collection c docs (tl_clock T s' - tl_clock T s) from_cache), s'))"

text \<open>
  A translation that took less than 50 milliseconds is taken to come from the cache. The
  translator works on its own caches and, through them, on the database.
\<close>

definition execute_ask where
  "execute_ask T args st =
     (case question_args ''ask'' args of
        Inl e \<Rightarrow> (e, st)
      | Inr (question, database, collection) \<Rightarrow>
          (case tl_translate T of
             None \<Rightarrow> (error_result no_provider_ask, st)
           | Some translate \<Rightarrow>
               (case sample_texts T database collection (ms_db st) of
                  (samples, s1) \<Rightarrow>
                    (case translate question database collection samples (ms_translator st) s1 of
                       (Inl e, t, s2) \<Rightarrow> (translation_failed e, set_db s2 (st\<lparr>ms_translator := t\<rparr>))
                     | (Inr c, t, s2) \<Rightarrow>
                         on_db (answer_question T question database collection c (tl_clock T s2 - tl_clock T s1 < 50))
                           (set_db s2 (st\<lparr>ms_translator := t\<rparr>))))))"

definition explained_json :: "json_lib \<Rightarrow> compiled_mql \<Rightarrow> json" where
  "explained_json J mql =
     (case mql of
        MqlFind f options \<Rightarrow>
          JObject [(''method'', JString ''find''), (''filter'', doc_to_json J f),
            (''options'', case options of None \<Rightarrow> JNull | Some d \<Rightarrow> doc_to_json J d)]
      | MqlAggregate pipeline \<Rightarrow>
          JObject [(''method'', JString ''aggregate''), (''pipeline'', JArray (map (doc_to_json J) pipeline))]
      | _ \<Rightarrow> JObject [(''method'', JString (mql_method mql))])"

definition execute_explain_query where
  "execute_explain_query T args st =
     (case question_args ''explain_query'' args of
        Inl e \<Rightarrow> (e, st)
      | Inr (question, database, collection) \<Rightarrow>
          (case tl_translate T of
             None \<Rightarrow> (error_result no_provider_explain, st)
           | Some translate \<Rightarrow>
               (case translate question database collection [] (ms_translator st) (ms_db st) of
                  (Inl e, t, s) \<Rightarrow> (translation_failed e, set_db s (st\<lparr>ms_translator := t\<rparr>))
                | (Inr c, t, s) \<Rightarrow>
                    (pretty T
                       [(''query'', explained_json (tl_json T) (cq_mql c)), (''intent'', JString (cq_intent c)),
                        (''from_cache'', JBool (tl_clock T s - tl_clock T (ms_db st) < 50)),
                        (''note'', JString (''Query was NOT executed. Use '' @ quoted ''ask'' @ '' to execute it.''))],
                     set_db s (st\<lparr>ms_translator := t\<rparr>)))))"

end
