(* ===== verification/Mcp_Data.thy ===== *)
theory Mcp_Data
  imports Mcp_Execute
begin

text \<open>
  The tools of \<open>src/mcp/tools.rs\<close> around data: embeddings and semantic search, ingestion and
  watching of directories, the schema of a collection, models, and the analytics.
\<close>

subsection \<open>Embeddings\<close>

definition texts_of :: "string \<Rightarrow> json list \<Rightarrow> string list" where
  "texts_of embed_field documents = List.map_filter (\<lambda>doc. json_str_field doc embed_field) documents"

definition nth_option :: "'a list \<Rightarrow> nat \<Rightarrow> 'a option" where
  "nth_option xs i = (if i < length xs then Some (xs ! i) else None)"

definition with_embedding :: "f64 list option \<Rightarrow> document \<Rightarrow> document" where
  "with_embedding e d = (case e of None \<Rightarrow> d | Some v \<Rightarrow> doc_insert ''_embedding'' (BArray (map BDouble v)) d)"

definition embedded_documents where
  "embedded_documents T embeddings documents =
     collect (\<lambda>(i, v).
         rbind (map_err (\<lambda>e. error_result (''Invalid document at index '' @ show_nat i @ '': '' @ e)) (tl_to_document T v))
           (\<lambda>d. Inr (with_embedding (nth_option embeddings i) d)))
       (List.enumerate 0 documents)"

definition embed_args :: "json \<Rightarrow> tool_result + json list \<times> string \<times> string \<times> string" where
  "embed_args args =
     rbind (ok_or (error_result ''Missing required field: documents (must be an array)'')
             (Option.bind (json_get args ''documents'') as_array)) (\<lambda>documents.
     rbind (target args) (\<lambda>(database, collection).
     rbind (get_str args ''embed_field'') (\<lambda>embed_field. Inr (documents, database, collection, embed_field))))"

definition stored_json :: "string \<Rightarrow> string \<Rightarrow> f64 list list \<Rightarrow> nat \<Rightarrow> (string \<times> json) list" where
  "stored_json database collection embeddings n =
     [(''documents_stored'', json_of_nat n), (''embeddings_generated'', json_of_nat (length embeddings)),
      (''embedding_dimensions'', json_of_nat (case embeddings of [] \<Rightarrow> 0 | e # _ \<Rightarrow> length e)),
      (''database'', JString database), (''collection'', JString collection)]"

definition store_embedded where
  "store_embedded T database collection embeddings documents s =
     (case embedded_documents T embeddings documents of
        Inl e \<Rightarrow> (e, s :: 'db)
      | Inr docs \<Rightarrow>
          (case tl_embedded_insert T database collection docs s of
             (Inl e, s') \<Rightarrow> (error_result (''Insert failed: '' @ e), s')
           | (Inr n, s') \<Rightarrow> (pretty T (stored_json database collection embeddings n), s')))"

definition execute_embed_and_store where
  "execute_embed_and_store T args s =
     (case tl_embed T of
        None \<Rightarrow> (error_result ''Embedding requires VOYAGE_API_KEY configuration'', s :: 'db)
      | Some embed_texts \<Rightarrow>
          (case embed_args args of
             Inl e \<Rightarrow> (e, s)
           | Inr (documents, database, collection, embed_field) \<Rightarrow>
               let texts = texts_of embed_field documents in
               if texts = [] then (error_result (''No documents contain text in field '' @ quoted embed_field), s)
               else
                 (case embed_texts texts of
                    Inl e \<Rightarrow> (error_result (''Embedding failed: '' @ e), s)
                  | Inr embeddings \<Rightarrow> store_embedded T database collection embeddings documents s)))"

text \<open>
  The cursor is read until an error or its end; a document that cannot be read is left out.
\<close>

fun search_documents :: "json_lib \<Rightarrow> session_cursor \<Rightarrow> json list" where
  "search_documents J [] = []"
| "search_documents J (Inl _ # _) = []"
| "search_documents J (Inr (Inl _) # c) = search_documents J c"
| "search_documents J (Inr (Inr d) # c) = doc_to_json J d # search_documents J c"

text \<open>The number of candidates wraps around in a release build.\<close>

definition vector_pipeline :: "string \<Rightarrow> string \<Rightarrow> f64 list \<Rightarrow> i64 \<Rightarrow> document list" where
  "vector_pipeline index_name path v limit =
     [[(''$vectorSearch'', BDocument
         [(''index'', BString index_name), (''path'', BString path), (''queryVector'', BArray (map BDouble v)),
          (''numCandidates'', BInt64 (limit * 10)), (''limit'', BInt64 limit)])],
      [(''$addFields'', BDocument [(''score'', BDocument [(''$meta'', BString ''vectorSearchScore'')])])]]"

definition found_json :: "string \<Rightarrow> string \<Rightarrow> string \<Rightarrow> json list \<Rightarrow> (string \<times> json) list" where
  "found_json query database collection results =
     [(''results'', JArray results), (''count'', json_of_nat (length results)), (''query'', JString query),
      (''database'', JString database), (''collection'', JString collection)]"

definition vector_search where
  "vector_search T args query database collection v s =
     (let index_name = str_or ''vector_index'' args ''index_name'';
          path = str_or ''_embedding'' args ''path'';
          limit = word_of_int (i64_or 10 args ''limit'')
      in case tl_vector_search T database collection (vector_pipeline index_name path v limit) s of
           (Inl e, s') \<Rightarrow>
             (error_result (''Vector search failed: '' @ e @ ''. Ensure a vector search index named '' @
                quoted index_name @ '' exists on the collection.''), s' :: 'db)
         | (Inr cursor, s') \<Rightarrow>
             (pretty T (found_json query database collection (search_documents (tl_json T) cursor)), s'))"

definition search_args :: "json \<Rightarrow> tool_result + string \<times> string \<times> string" where
  "search_args args =
     rbind (get_str args ''query'') (\<lambda>query.
     rbind (target args) (\<lambda>(database, collection). Inr (query, database, collection)))"

definition execute_semantic_search where
  "execute_semantic_search T args s =
     (case tl_embed T of
        None \<Rightarrow> (error_result ''Semantic search requires VOYAGE_API_KEY configuration'', s :: 'db)
      | Some embed_texts \<Rightarrow>
          (case search_args args of
             Inl e \<Rightarrow> (e, s)
           | Inr (query, database, collection) \<Rightarrow>
               (case embed_texts [query] of
                  Inl e \<Rightarrow> (error_result (''Failed to embed query: '' @ e), s)
                | Inr [] \<Rightarrow> (error_result ''Embedding returned no vectors'', s)
                | Inr (v # _) \<Rightarrow> vector_search T args query database collection v s)))"

definition embed_steps :: "string \<Rightarrow> string \<Rightarrow> string \<Rightarrow> json list" where
  "embed_steps database collection embed_field =
     [JString (''1. Use the '' @ quoted ''ingest'' @ '' tool to load the file into a collection''),
      JString (''2. Use '' @ quoted ''find'' @ '' to read documents from '' @ quoted (database @ ''.'' @ collection)),
      JString (''3. Use '' @ quoted ''embed_and_store'' @ '' with the documents and embed_field='' @ quoted embed_field)]"

definition execute_ingest_and_embed where
  "execute_ingest_and_embed T args =
     (if tl_embed T = None then error_result ''Embedding requires VOYAGE_API_KEY configuration''
      else
        (case rbind (get_str args ''file_path'') (\<lambda>file_path.
              rbind (target args) (\<lambda>(database, collection).
              rbind (get_str args ''embed_field'') (\<lambda>embed_field. Inr (file_path, database, collection, embed_field)))) of
           Inl e \<Rightarrow> e
         | Inr (file_path, database, collection, embed_field) \<Rightarrow>
             if \<not> tl_path_exists T file_path then error_result (''File not found: '' @ file_path)
             else
               pretty T
                 [(''status'', JString ''not_yet_implemented''),
                  (''message'', JString ''The unified ingest+embed pipeline is planned. For now, use these steps:''),
                  (''workaround'', JArray (embed_steps database collection embed_field)),
                  (''file_path'', JString file_path), (''file_exists'', JBool True), (''database'', JString database),
                  (''collection'', JString collection), (''embed_field'', JString embed_field)]))"

subsection \<open>Ingestion\<close>

definition parse_file_format :: "string \<Rightarrow> file_format" where
  "parse_file_format s =
     (let l = to_lowercase s in
      if l = ''csv'' then FCsv
      else if l = ''json'' then FJson
      else if l = ''ndjson'' then FNdJson
      else if l = ''parquet'' then FParquet
      else FAuto)"

definition parse_conflict_strategy :: "string \<Rightarrow> conflict_strategy" where
  "parse_conflict_strategy s =
     (let l = to_lowercase s in
      if l = ''overwrite'' then COverwrite else if l = ''merge'' then CMerge else CSkip)"

definition strategy_arg :: "json \<Rightarrow> conflict_strategy" where
  "strategy_arg args =
     (case json_str_field args ''conflict_strategy'' of Some s \<Rightarrow> parse_conflict_strategy s | None \<Rightarrow> CSkip)"

text \<open>\<open>as u32\<close> keeps the low bits.\<close>

definition u32_or :: "u32 \<Rightarrow> json \<Rightarrow> string \<Rightarrow> u32" where
  "u32_or n args field = (case Option.bind (json_get args field) as_u64 of Some v \<Rightarrow> ucast v | None \<Rightarrow> n)"

definition overrides_arg :: "json \<Rightarrow> string \<Rightarrow> string option" where
  "overrides_arg args column =
     (case Option.bind (json_get args ''schema_overrides'') as_object of
        None \<Rightarrow> None
      | Some obj \<Rightarrow> Option.bind (map_of obj column) as_str)"

definition ingest_options_of :: "json \<Rightarrow> tool_result + ingest_options" where
  "ingest_options_of args =
     rbind (get_str args ''file_path'') (\<lambda>file_path.
     rbind (target args) (\<lambda>(database, collection).
       Inr (default_ingest_options\<lparr>
         io_file_path := file_path, io_database := database, io_collection := collection,
         io_format := (case json_str_field args ''format'' of Some f \<Rightarrow> parse_file_format f | None \<Rightarrow> FAuto),
         io_dedup_key := str_list args ''dedup_key'',
         io_conflict_strategy := strategy_arg args,
         io_batch_size := u32_or 1000 args ''batch_size'',
         io_expressions := str_list args ''expressions'',
         io_schema_overrides := overrides_arg args,
         io_sample_size := u32_or 1000 args ''sample_size''\<rparr>)))"

fun status_debug :: "ingest_status \<Rightarrow> string" where
  "status_debug IRunning = ''Running''"
| "status_debug ICompleted = ''Completed''"
| "status_debug IFailed = ''Failed''"
| "status_debug ICancelled = ''Cancelled''"

definition no_engine :: tool_result where
  "no_engine = error_result ''Ingestion engine not enabled''"

definition started_json :: "ingest_job \<Rightarrow> (string \<times> json) list" where
  "started_json job =
     [(''job_id'', JString (ij_job_id job)), (''status'', JString (status_debug (ij_status job))),
      (''total_rows'', json_of_int (ij_total_rows job)), (''file_path'', JString (ij_file_path job)),
      (''database'', JString (ij_database job)), (''collection'', JString (ij_collection job))]"

text \<open>The job that is started leaves its background task; an expression may panic.\<close>

definition execute_ingest where
  "execute_ingest T args st =
     (case tl_ingestion T of
        None \<Rightarrow> Some (no_engine, st)
      | Some (S, E) \<Rightarrow>
          (case ingest_options_of args of
             Inl e \<Rightarrow> Some (e, st)
           | Inr options \<Rightarrow>
               map_option (\<lambda>(r, e'). case r of
                   Inl e \<Rightarrow> (error_result (''ingest failed: '' @ err_text e), st\<lparr>ms_engine := e'\<rparr>)
                 | Inr (job, task) \<Rightarrow>
                     (pretty T (started_json job), st\<lparr>ms_engine := e', ms_tasks := ms_tasks st @ [task]\<rparr>))
                 (ingest S E options (tl_fresh_id T (ms_db st)) (ms_engine st))))"

definition status_json where
  "status_json T job =
     [(''job_id'', JString (ij_job_id job)), (''status'', JString (status_debug (ij_status job))),
      (''total_rows'', json_of_int (ij_total_rows job)), (''rows_processed'', json_of_int (ij_rows_processed job)),
      (''rows_inserted'', json_of_int (ij_rows_inserted job)), (''rows_skipped'', json_of_int (ij_rows_skipped job)),
      (''rows_failed'', json_of_int (ij_rows_failed job)), (''started_at'', JString (tl_rfc3339 T (ij_started_at job))),
      (''completed_at'', case ij_completed_at job of None \<Rightarrow> JNull | Some t \<Rightarrow> JString (tl_rfc3339 T t)),
      (''error'', case ij_error job of None \<Rightarrow> JNull | Some e \<Rightarrow> JString e)]"

definition execute_ingest_status where
  "execute_ingest_status T args st =
     (if tl_ingestion T = None then no_engine
      else
        (case get_str args ''job_id'' of
           Inl e \<Rightarrow> e
         | Inr job_id \<Rightarrow>
             (case get_status job_id (ms_engine st) of
                None \<Rightarrow> error_result (''Job not found: '' @ job_id)
              | Some job \<Rightarrow> pretty T (status_json T job))))"

definition listed_job where
  "listed_job T job =
     JObject
       [(''job_id'', JString (ij_job_id job)), (''file_path'', JString (ij_file_path job)),
        (''database'', JString (ij_database job)), (''collection'', JString (ij_collection job)),
        (''status'', JString (status_debug (ij_status job))), (''total_rows'', json_of_int (ij_total_rows job)),
        (''rows_processed'', json_of_int (ij_rows_processed job)),
        (''started_at'', JString (tl_rfc3339 T (ij_started_at job)))]"

definition execute_list_ingest_jobs where
  "execute_list_ingest_jobs T st =
     (if tl_ingestion T = None then no_engine
      else pretty T [(''jobs'', JArray (map (listed_job T) (list_ingestion_jobs (ms_engine st))))])"

definition execute_cancel_ingest where
  "execute_cancel_ingest T args st =
     (case tl_ingestion T of
        None \<Rightarrow> (no_engine, st)
      | Some (S, E) \<Rightarrow>
          (case get_str args ''job_id'' of
             Inl e \<Rightarrow> (e, st)
           | Inr job_id \<Rightarrow>
               (case cancel_ingestion S job_id (ms_engine st) of
                  (Inl e, e') \<Rightarrow> (error_result (''cancel_ingest failed: '' @ err_text e), st\<lparr>ms_engine := e'\<rparr>)
                | (Inr _, e') \<Rightarrow>
                    (compact T [(''ok'', json_of_nat 1), (''job_id'', JString job_id), (''status'', JString ''Cancelled'')],
                     st\<lparr>ms_engine := e'\<rparr>))))"

subsection \<open>Watching\<close>

definition no_watcher :: tool_result where
  "no_watcher = error_result ''Directory watcher not enabled''"

definition watch_config_of :: "json \<Rightarrow> tool_result + watch_config" where
  "watch_config_of args =
     rbind (get_str args ''path'') (\<lambda>path.
     rbind (target args) (\<lambda>(database, collection).
       Inr \<lparr>wc_path = path, wc_file_pattern = str_or ''*'' args ''file_pattern'', wc_database = database,
            wc_collection = collection, wc_conflict_strategy = strategy_arg args,
            wc_dedup_key = str_list args ''dedup_key'', wc_debounce_ms = 2000\<rparr>))"

definition execute_watch_directory where
  "execute_watch_directory T args st =
     (case tl_watcher T of
        None \<Rightarrow> (no_watcher, st)
      | Some W \<Rightarrow>
          (case watch_config_of args of
             Inl e \<Rightarrow> (e, st)
           | Inr config \<Rightarrow>
               (case start_watch W config (tl_fresh_id T (ms_db st)) (ms_watches st) of
                  (Inl e, ws) \<Rightarrow> (error_result (''watch_directory failed: '' @ err_text e), st\<lparr>ms_watches := ws\<rparr>)
                | (Inr watch_id, ws) \<Rightarrow>
                    (compact T [(''ok'', json_of_nat 1), (''watch_id'', JString watch_id)], st\<lparr>ms_watches := ws\<rparr>))))"

definition execute_stop_watch where
  "execute_stop_watch T args st =
     (if tl_watcher T = None then (no_watcher, st)
      else
        (case get_str args ''watch_id'' of
           Inl e \<Rightarrow> (e, st)
         | Inr watch_id \<Rightarrow>
             (case stop_watch watch_id (ms_watches st) of
                (Inl e, ws) \<Rightarrow> (error_result (''stop_watch failed: '' @ err_text e), st\<lparr>ms_watches := ws\<rparr>)
              | (Inr _, ws) \<Rightarrow>
                  (compact T [(''ok'', json_of_nat 1), (''watch_id'', JString watch_id), (''status'', JString ''stopped'')],
                   st\<lparr>ms_watches := ws\<rparr>))))"

end
