(* ===== verification/Mcp_Schema.thy ===== *)
theory Mcp_Schema
  imports Mcp_Execute
begin

text \<open>
  The tools of \<open>src/mcp/tools.rs\<close> that describe data: the schema of a collection from a sample
  of its documents, the model generated from one, and what the analytics show. Cutting a
  string inside an encoded character panics, which is having no value.
\<close>

subsection \<open>Fields of a sample\<close>

record field_info =
  fi_types :: "string list"
  fi_count :: nat
  fi_example :: "json option"

definition new_field :: field_info where
  "new_field = \<lparr>fi_types = [], fi_count = 0, fi_example = None\<rparr>"

fun bson_type_name :: "bson \<Rightarrow> string" where
  "bson_type_name (BDouble _) = ''double''"
| "bson_type_name (BString _) = ''string''"
| "bson_type_name (BArray _) = ''array''"
| "bson_type_name (BDocument _) = ''document''"
| "bson_type_name (BBoolean _) = ''bool''"
| "bson_type_name BNull = ''null''"
| "bson_type_name (BRegularExpression _ _) = ''regex''"
| "bson_type_name (BJavaScriptCode _) = ''javascript''"
| "bson_type_name (BJavaScriptCodeWithScope _ _) = ''javascriptWithScope''"
| "bson_type_name (BInt32 _) = ''int32''"
| "bson_type_name (BInt64 _) = ''int64''"
| "bson_type_name (BTimestamp _ _) = ''timestamp''"
| "bson_type_name (BBinary _ _) = ''binData''"
| "bson_type_name (BObjectId _) = ''objectId''"
| "bson_type_name (BDateTime _) = ''date''"
| "bson_type_name (BSymbol _) = ''symbol''"
| "bson_type_name (BDecimal128 _) = ''decimal''"
| "bson_type_name BUndefined = ''undefined''"
| "bson_type_name BMaxKey = ''maxKey''"
| "bson_type_name BMinKey = ''minKey''"
| "bson_type_name (BDbPointer _ _) = ''dbPointer''"

text \<open>A byte that continues an encoded character.\<close>

definition continues_char :: "char \<Rightarrow> bool" where
  "continues_char c \<longleftrightarrow> (of_char c :: nat) div 64 = 2"

definition example_text :: "string \<Rightarrow> string option" where
  "example_text s =
     (if 50 < length s
      then if continues_char (s ! 50) then None else Some (take 50 s @ ''...'')
      else Some s)"

fun bson_to_example_json :: "(bson \<Rightarrow> string) \<Rightarrow> bson \<Rightarrow> json option" where
  "bson_to_example_json display (BArray arr) =
     (case arr of [] \<Rightarrow> Some (JArray []) | v # _ \<Rightarrow> map_option (\<lambda>j. JArray [j]) (bson_to_example_json display v))"
| "bson_to_example_json display v =
     (case v of
        BDouble x \<Rightarrow> Some (json_of_f64 x)
      | BString s \<Rightarrow> map_option JString (example_text s)
      | BDocument _ \<Rightarrow> Some (JString ''{ ... }'')
      | BBoolean b \<Rightarrow> Some (JBool b)
      | BNull \<Rightarrow> Some JNull
      | BInt32 n \<Rightarrow> Some (json_of_int (sint n))
      | BInt64 n \<Rightarrow> Some (json_of_int (sint n))
      | BObjectId _ \<Rightarrow> Some (JString (display v))
      | BDateTime _ \<Rightarrow> Some (JString (display v))
      | BDecimal128 _ \<Rightarrow> Some (JString (display v))
      | _ \<Rightarrow> Some (JString ''...''))"

type_synonym field_map = "(string \<times> field_info) list"

definition info_of :: "field_map \<Rightarrow> string \<Rightarrow> field_info" where
  "info_of fs path = (case map_of fs path of Some i \<Rightarrow> i | None \<Rightarrow> new_field)"

text \<open>What one value adds to the entry of its path.\<close>

definition note_value :: "(bson \<Rightarrow> string) \<Rightarrow> bson \<Rightarrow> field_info \<Rightarrow> field_info option" where
  "note_value display v info =
     map_option (\<lambda>example.
         \<lparr>fi_types = (if bson_type_name v \<in> set (fi_types info) then fi_types info
                      else fi_types info @ [bson_type_name v]),
          fi_count = fi_count info + 1, fi_example = Some example\<rparr>)
       (case fi_example info of
          Some e \<Rightarrow> Some e
        | None \<Rightarrow> bson_to_example_json display v)"

definition field_path :: "string \<Rightarrow> string \<Rightarrow> string" where
  "field_path pre key = (if pre = [] then key else pre @ ''.'' @ key)"

function (sequential) collect_fields :: "(bson \<Rightarrow> string) \<Rightarrow> string \<Rightarrow> document \<Rightarrow> field_map \<Rightarrow> field_map option" where
  "collect_fields display pre [] fs = Some fs"
| "collect_fields display pre ((key, v) # rest) fs =
     Option.bind (note_value display v (info_of fs (field_path pre key))) (\<lambda>info.
     Option.bind
       (case v of
          BDocument nested \<Rightarrow> collect_fields display (field_path pre key) nested (doc_insert (field_path pre key) info fs)
        | _ \<Rightarrow> Some (doc_insert (field_path pre key) info fs))
       (collect_fields display pre rest))"
  by pat_completeness auto
termination
  by (relation "measure (\<lambda>(_, _, d, _). size (BDocument d))") (auto simp: size_prod_def)

fun collect_all :: "(bson \<Rightarrow> string) \<Rightarrow> document list \<Rightarrow> field_map \<Rightarrow> field_map option" where
  "collect_all display [] fs = Some fs"
| "collect_all display (d # ds) fs = Option.bind (collect_fields display [] d fs) (collect_all display ds)"

definition sample_pipeline :: "json \<Rightarrow> document list" where
  "sample_pipeline args =
     [[(''$sample'', BDocument [(''size'', BInt64 (word_of_int (i64_or 100 args ''sample_size'')))])]]"

definition field_json where
  "field_json T nf =
     JObject
       [(''name'', JString (fst nf)), (''types'', JArray (map JString (tl_set_order T (fi_types (snd nf))))),
        (''count'', json_of_nat (fi_count (snd nf))),
        (''example'', case fi_example (snd nf) of None \<Rightarrow> JNull | Some e \<Rightarrow> e)]"

definition schema_json where
  "schema_json T db coll docs fs =
     [(''database'', JString db), (''collection'', JString coll), (''documents_sampled'', json_of_nat (length docs)),
      (''fields'', JArray (map (field_json T) (sort_key fst fs)))]"

definition execute_collection_schema where
  "execute_collection_schema T args s =
     (case target args of
        Inl e \<Rightarrow> Some (e, s :: 'db)
      | Inr (db, coll) \<Rightarrow>
          (case op_aggregate (tl_bson T) (tl_driver T) db coll (sample_pipeline args) s of
             (Inl e, s') \<Rightarrow> Some (error_result (''collection_schema failed: '' @ err_text e), s')
           | (Inr docs, s') \<Rightarrow>
               map_option (\<lambda>fs. (pretty T (schema_json T db coll docs fs), s'))
                 (collect_all (tl_display T) docs [])))"

subsection \<open>Models\<close>

definition resolve_language where
  "resolve_language T args =
     (let detected = (case Option.bind (json_str_field args ''workspace_root'') (tl_detect T) of
                        Some l \<Rightarrow> l | None \<Rightarrow> Python)
      in case json_str_field args ''language'' of
           None \<Rightarrow> detected
         | Some l \<Rightarrow>
             if l = ''python'' then Python
             else if l = ''typescript'' then TypeScript
             else if l = ''go'' then Go
             else if l = ''java'' then Java
             else detected)"

fun display_name :: "language \<Rightarrow> string" where
  "display_name Python = ''python''"
| "display_name TypeScript = ''typescript''"
| "display_name Go = ''go''"
| "display_name Java = ''java''"

definition bson_type_to_model_type :: "bson \<Rightarrow> string" where
  "bson_type_to_model_type v =
     (case v of
        BDouble _ \<Rightarrow> ''Double''
      | BString _ \<Rightarrow> ''String''
      | BArray _ \<Rightarrow> ''Array''
      | BDocument _ \<Rightarrow> ''Document''
      | BBoolean _ \<Rightarrow> ''Boolean''
      | BInt32 _ \<Rightarrow> ''Int32''
      | BInt64 _ \<Rightarrow> ''Int64''
      | BObjectId _ \<Rightarrow> ''ObjectId''
      | BDateTime _ \<Rightarrow> ''DateTime''
      | _ \<Rightarrow> ''String'')"

text \<open>The first value of a key decides its type.\<close>

definition model_fields :: "document list \<Rightarrow> (string \<times> string) list" where
  "model_fields docs =
     sort_key fst (fold (\<lambda>(k, v) m. if map_of m k = None then m @ [(k, bson_type_to_model_type v)] else m) (concat docs) [])"

definition execute_generate_model where
  "execute_generate_model T args =
     with_args (target args) (\<lambda>(db, coll) s.
       answer ''generate_model''
         (\<lambda>docs. pretty T
            [(''model'', JString (tl_model T (resolve_language T args) coll (model_fields docs))),
             (''language'', JString (display_name (resolve_language T args))), (''collection'', JString coll),
             (''fields_count'', json_of_nat (length (model_fields docs)))])
         (op_aggregate (tl_bson T) (tl_driver T) db coll (sample_pipeline args) (s :: 'db)))"

subsection \<open>Skills\<close>

definition category_of :: "string \<Rightarrow> skill_category option" where
  "category_of c =
     (if c = ''database_workflows'' then Some DatabaseWorkflows
      else if c = ''code_scaffolding'' then Some CodeScaffolding
      else if c = ''data_analysis'' then Some DataAnalysis
      else if c = ''operations'' then Some SkillOperations
      else None)"

definition listed_skill :: "skill \<Rightarrow> json" where
  "listed_skill s =
     JObject
       [(''name'', JString (sk_name s)), (''description'', JString (sk_description s)),
        (''category'', JString (category_display_name (sk_category s))),
        (''arguments'', JArray (map (\<lambda>a. JObject [(''name'', JString (sa_name a)), (''required'', JBool (sa_required a))])
           (sk_arguments s))),
        (''step_count'', json_of_nat (length (sk_steps s)))]"

definition execute_list_skills where
  "execute_list_skills T args =
     pretty T
       [(''skills'', JArray (map listed_skill
          (skills_list (Option.bind (json_str_field args ''category'') category_of) (tl_skills T))))]"

definition skill_step_json :: "nat \<Rightarrow> skill_step \<Rightarrow> json" where
  "skill_step_json i step =
     (let kind = (if ss_synthesis step then [(''type'', JString ''synthesis'')]
                  else if ss_analysis step then [(''type'', JString ''analysis'')] else [])
      in JObject
        ([(''step'', json_of_nat (i + 1)), (''description'', JString (ss_description step))] @
         (case ss_tool step of None \<Rightarrow> [] | Some t \<Rightarrow> [(''tool'', JString t)]) @
         (if ss_dynamic step then [(''dynamic'', JBool True)] else []) @ kind))"

definition argument_json :: "skill_argument \<Rightarrow> json" where
  "argument_json a =
     JObject [(''name'', JString (sa_name a)), (''description'', JString (sa_description a)),
       (''required'', JBool (sa_required a))]"

definition execute_get_skill where
  "execute_get_skill T args =
     (case get_str args ''name'' of
        Inl e \<Rightarrow> e
      | Inr name \<Rightarrow>
          (case skills_get name (tl_skills T) of
             None \<Rightarrow> error_result (''Skill not found: '' @ quoted name @ ''. Use list_skills to see available skills.'')
           | Some s \<Rightarrow>
               pretty T
                 [(''name'', JString (sk_name s)), (''description'', JString (sk_description s)),
                  (''category'', JString (category_display_name (sk_category s))),
                  (''arguments'', JArray (map argument_json (sk_arguments s))),
                  (''steps'', JArray (map (\<lambda>(i, step). skill_step_json i step) (List.enumerate 0 (sk_steps s))))]))"

subsection \<open>Analytics\<close>

definition summary_of where
  "summary_of T c = aggregate_events (tl_floats T) (snapshot c)"

definition summary_json :: "analytics_summary \<Rightarrow> (string \<times> json) list" where
  "summary_json su =
     [(''total_operations'', json_of_nat (su_total_operations su)), (''total_errors'', json_of_nat (su_total_errors su)),
      (''error_rate'', json_of_f64 (su_error_rate su)), (''p50_latency_ms'', json_of_f64 (su_p50 su)),
      (''p95_latency_ms'', json_of_f64 (su_p95 su)), (''p99_latency_ms'', json_of_f64 (su_p99 su)),
      (''top_operations'', JArray (map (\<lambda>(op, n). JObject [(''operation'', JString (kind_name op)), (''count'', json_of_nat n)])
         (su_top_operations su))),
      (''top_collections'', JArray (map (\<lambda>(c, n). JObject [(''collection'', JString c), (''count'', json_of_nat n)])
         (su_top_collections su)))]"

definition execute_get_analytics where
  "execute_get_analytics T analytics =
     (case analytics of
        None \<Rightarrow> error_result ''Analytics not enabled''
      | Some c \<Rightarrow> pretty T (summary_json (summary_of T c)))"

definition in_filters :: "json \<Rightarrow> string \<Rightarrow> bool" where
  "in_filters args name \<longleftrightarrow>
     (case json_str_field args ''database'' of Some db \<Rightarrow> prefix (db @ ''.'') name | None \<Rightarrow> True) \<and>
     (case json_str_field args ''collection'' of Some coll \<Rightarrow> suffix (''.'' @ coll) name | None \<Rightarrow> True)"

definition suggestion_json :: "string \<times> nat \<Rightarrow> json" where
  "suggestion_json nc =
     JObject
       [(''collection'', JString (fst nc)), (''operation_count'', json_of_nat (snd nc)),
        (''suggestion'', JString (''Collection '' @ quoted (fst nc) @ '' has '' @ show_nat (snd nc) @
           '' operations. Consider adding indexes on frequently filtered fields.'')),
        (''recommendation'', JString (''Use '' @ quoted ''collection_schema'' @ '' to inspect fields, then '' @
           quoted ''generate_index'' @ '' to create indexes for your query patterns.''))]"

definition suggestions_of :: "json \<Rightarrow> analytics_summary \<Rightarrow> (string \<times> nat) list" where
  "suggestions_of args su = filter (\<lambda>nc. in_filters args (fst nc) \<and> 5 \<le> snd nc) (su_top_collections su)"

definition execute_suggest_indexes where
  "execute_suggest_indexes T analytics args =
     (case analytics of
        None \<Rightarrow> error_result ''Analytics not enabled. Enable analytics in config to use suggest_indexes.''
      | Some c \<Rightarrow>
          let su = summary_of T c; found = suggestions_of args su in
          if found = []
          then pretty T
            [(''message'', JString (''No index suggestions. Either queries are well-indexed or there isn'' @ [CHR 0x27] @
                ''t enough analytics data yet.'')),
             (''total_operations_analyzed'', json_of_nat (su_total_operations su)),
             (''tip'', JString (''Run more queries and try again, or use '' @ quoted ''generate_index'' @
                '' with a specific filter to get index recommendations.''))]
          else pretty T
            [(''suggestions'', JArray (map suggestion_json found)),
             (''total_operations_analyzed'', json_of_nat (su_total_operations su)),
             (''p95_latency_ms'', json_of_f64 (su_p95 su))])"

end
