(* ===== verification/Mcp_Server.thy ===== *)
theory Mcp_Server
  imports Mcp_Data Mcp_Schema
begin

text \<open>
  Executing a tool by its name (\<open>src/mcp/tools.rs\<close>: \<open>execute_tool\<close>, \<open>execute_tool_inner\<close>,
  \<open>execute_pipeline\<close>, \<open>enrich_result\<close>). A pipeline runs its operations together; here each of
  them is one step, in an order that the runtime chooses (\<open>tl_order\<close>), and the results are
  put back in the order of the operations. A pipeline may hold pipelines; the recursion ends
  since their arguments get smaller.
\<close>

subsection \<open>Tools that are no pipeline\<close>

text \<open>Those that act on the database alone.\<close>

definition data_tool where
  "data_tool T safety name args =
     (if name = ''find'' then Some (execute_find T args)
      else if name = ''find_one'' then Some (execute_find_one T args)
      else if name = ''insert'' then Some (execute_insert T args)
      else if name = ''insert_many'' then Some (execute_insert_many T args)
      else if name = ''update'' then Some (execute_update T args)
      else if name = ''update_many'' then Some (execute_update_many T args)
      else if name = ''delete'' then Some (execute_delete T args)
      else if name = ''delete_many'' then Some (execute_delete_many T args)
      else if name = ''aggregate'' then Some (execute_aggregate T args)
      else if name = ''create_collection'' then Some (execute_create_collection T args)
      else if name = ''create_index'' then Some (execute_create_index T args)
      else if name = ''list_databases'' then Some (execute_list_databases T)
      else if name = ''list_collections'' then Some (execute_list_collections T args)
      else if name = ''run_command'' then Some (execute_run_command T args)
      else if name = ''generate_model'' then Some (execute_generate_model T args)
      else if name = ''embed_and_store'' then Some (execute_embed_and_store T args)
      else if name = ''semantic_search'' then Some (execute_semantic_search T args)
      else if name = ''transaction_pipeline'' then Some (execute_transaction_pipeline_tool T safety args)
      else None)"

text \<open>Those that only read the state of the server, and those that are a text of the library.\<close>

definition reading_tool where
  "reading_tool T name args st =
     (if name = ''get_analytics'' then Some (execute_get_analytics T (ms_analytics st))
      else if name = ''ingest_status'' then Some (execute_ingest_status T args st)
      else if name = ''list_ingest_jobs'' then Some (execute_list_ingest_jobs T st)
      else if name = ''ingest_and_embed'' then Some (execute_ingest_and_embed T args)
      else if name = ''list_skills'' then Some (execute_list_skills T args)
      else if name = ''get_skill'' then Some (execute_get_skill T args)
      else if name = ''suggest_indexes'' then Some (execute_suggest_indexes T (ms_analytics st) args)
      else if name = ''explain_last'' then Some (execute_explain_last T (ms_session st) args)
      else if name = ''explain_session'' then Some (execute_explain_session T (ms_session st) args)
      else if name = ''slow_queries'' \<or> name = ''generate_code'' \<or> name = ''generate_index''
      then Some (tl_text_tool T name args (ms_analytics st))
      else None)"

definition server_tool where
  "server_tool T name args st =
     (if name = ''ingest'' then execute_ingest T args st
      else if name = ''cancel_ingest'' then Some (execute_cancel_ingest T args st)
      else if name = ''watch_directory'' then Some (execute_watch_directory T args st)
      else if name = ''stop_watch'' then Some (execute_stop_watch T args st)
      else if name = ''collection_schema''
      then map_option (\<lambda>(r, s). (r, set_db s st)) (execute_collection_schema T args (ms_db st))
      else if name = ''ask'' then Some (execute_ask T args st)
      else if name = ''explain_query'' then Some (execute_explain_query T args st)
      else Some (error_result (''Unknown tool: '' @ name), st))"

definition simple_tool where
  "simple_tool T safety name args st =
     (case data_tool T safety name args of
        Some f \<Rightarrow> Some (on_db f st)
      | None \<Rightarrow>
          (case reading_tool T name args st of
             Some r \<Rightarrow> Some (r, st)
           | None \<Rightarrow> server_tool T name args st))"

subsection \<open>Pipelines\<close>

definition DEFAULT_PIPELINE_MAX_OPS :: nat where "DEFAULT_PIPELINE_MAX_OPS = 10000"

definition operations_of :: "json \<Rightarrow> json list" where
  "operations_of args = (case Option.bind (json_get args ''operations'') as_array of None \<Rightarrow> [] | Some ops \<Rightarrow> ops)"

definition op_type :: "json \<Rightarrow> string" where
  "op_type op = str_or ''unknown'' op ''op''"

text \<open>The operations run in the order \<open>is\<close>; each leaves its result under its index.\<close>

fun run_ops ::
  "(json \<Rightarrow> 'st \<Rightarrow> (tool_result \<times> 'st) option) \<Rightarrow> json list \<Rightarrow> nat list \<Rightarrow> 'st \<Rightarrow> ((nat \<times> tool_result) list \<times> 'st) option"
where
  "run_ops run ops [] st = Some ([], st)"
| "run_ops run ops (i # is) st =
     (if i < length ops
      then Option.bind (run (ops ! i) st) (\<lambda>(r, st'). map_option (\<lambda>(rs, st''). ((i, r) # rs, st'')) (run_ops run ops is st'))
      else run_ops run ops is st)"

lemma run_ops_cong [fundef_cong]:
  assumes "ops = ops'" and "is = is'" and "st = st'" and "\<And>op st. op \<in> set ops' \<Longrightarrow> run op st = run' op st"
  shows "run_ops run ops is st = run_ops run' ops' is' st'"
  unfolding assms(1-3) using assms(4)
  by (induction is' arbitrary: st') (auto split: bind_splits)

definition first_text :: "tool_result \<Rightarrow> string" where
  "first_text r = (case tr_content r of [] \<Rightarrow> [] | (_, t) # _ \<Rightarrow> t)"

definition entry_json :: "(nat \<times> tool_result) list \<Rightarrow> nat \<times> json \<Rightarrow> json" where
  "entry_json results iop =
     (case map_of results (fst iop) of
        None \<Rightarrow> JNull
      | Some r \<Rightarrow>
          JObject [(''index'', json_of_nat (fst iop)), (''op'', JString (op_type (snd iop))),
            (''success'', JBool (\<not> tr_is_error r)), (''content'', JString (first_text r))])"

definition count_failed :: "(nat \<times> tool_result) list \<Rightarrow> nat" where
  "count_failed results = length (filter (\<lambda>ir. tr_is_error (snd ir)) results)"

definition pipeline_json :: "json list \<Rightarrow> (nat \<times> tool_result) list \<Rightarrow> (string \<times> json) list" where
  "pipeline_json ops results =
     [(''results'', JArray (map (entry_json results) (List.enumerate 0 ops))),
      (''succeeded'', json_of_nat (length results - count_failed results)),
      (''failed'', json_of_nat (count_failed results)), (''total'', json_of_nat (length results))]"

definition execute_pipeline where
  "execute_pipeline T safety run args st =
     (case Option.bind (json_get args ''operations'') as_array of
        None \<Rightarrow> Some (error_result ''Missing required field: operations'', st)
      | Some ops \<Rightarrow>
          if ops = [] then Some (error_result ''Pipeline must contain at least one operation'', st)
          else if DEFAULT_PIPELINE_MAX_OPS < length ops
          then Some (error_result (''Pipeline exceeds maximum of '' @ show_nat DEFAULT_PIPELINE_MAX_OPS @
            '' operations (got '' @ show_nat (length ops) @ '')''), st)
          else
            (case check_pipeline_allowed safety ops of
               Inl why \<Rightarrow> Some (error_result why, st)
             | Inr _ \<Rightarrow>
                 map_option (\<lambda>(results, st'). (pretty T (pipeline_json ops results), st'))
                   (run_ops run ops (tl_order T (length ops)) st)))"

lemma execute_pipeline_cong [fundef_cong]:
  assumes "T = T'" and "safety = safety'" and "args = args'" and "st = st'"
    and "\<And>op st. op \<in> set (operations_of args') \<Longrightarrow> run op st = run' op st"
  shows "execute_pipeline T safety run args st = execute_pipeline T' safety' run' args' st'"
proof (cases "Option.bind (json_get args' ''operations'') as_array")
  case (Some ops)
  then have "operations_of args' = ops" by (simp add: operations_of_def)
  then have "run_ops run ops is st' = run_ops run' ops is st'" for "is"
    using run_ops_cong [of ops ops "is" "is" st' st' run run'] assms(5) by auto
  then show ?thesis
    unfolding assms(1-4) using Some by (simp add: execute_pipeline_def split: sum.split)
qed (simp add: assms(1-4) execute_pipeline_def)

lemma map_of_size: "map_of m k = Some v \<Longrightarrow> size v < Suc (size_list (size_prod (\<lambda>x. 0) size) m)"
  by (induction m) (auto split: if_splits)

lemma member_size: "x \<in> set xs \<Longrightarrow> size x < Suc (size_list size xs)"
  by (induction xs) auto

lemma as_array_Some: "Some xs = as_array v \<longleftrightarrow> v = JArray xs"
  by (cases v) auto

lemma operations_smaller:
  assumes "op \<in> set (operations_of args)"
  shows "size op < size args"
proof -
  obtain m xs where args: "args = JObject m" and xs: "map_of m ''operations'' = Some (JArray xs)" "op \<in> set xs"
    using assms by (cases args) (auto simp: operations_of_def as_array_Some split: option.splits bind_splits)
  have "size op < Suc (size_list size xs)" by (rule member_size [OF xs(2)])
  also have "\<dots> = size (JArray xs)" by simp
  also have "\<dots> < Suc (size_list (size_prod (\<lambda>x. 0) size) m)" by (rule map_of_size [OF xs(1)])
  finally show ?thesis using args by simp
qed

subsection \<open>Executing a tool\<close>

definition tool_name_to_operation_kind :: "string \<Rightarrow> operation_kind option" where
  "tool_name_to_operation_kind name =
     map_of
       [(''find'', OkFind), (''find_one'', OkFindOne), (''insert'', OkInsert), (''insert_many'', OkInsertMany),
        (''update'', OkUpdate), (''update_many'', OkUpdateMany), (''delete'', OkDelete), (''delete_many'', OkDeleteMany),
        (''aggregate'', OkAggregate), (''run_command'', OkRunCommand), (''search'', OkSearch),
        (''semantic_search'', OkSearch), (''ask'', OkSearch), (''explain_query'', OkSearch),
        (''list_databases'', OkListDatabases), (''list_collections'', OkListCollections),
        (''create_collection'', OkCreateCollection), (''create_index'', OkCreateIndex), (''pipeline'', OkPipeline)] name"

text \<open>The latency is in nanoseconds, the clock in milliseconds.\<close>

definition record_analytics where
  "record_analytics T name args started r st =
     (case (ms_analytics st, tool_name_to_operation_kind name) of
        (Some c, Some kind) \<Rightarrow>
          st\<lparr>ms_analytics := Some (record_event
            (event_new kind (str_or [] args ''database'') (str_or [] args ''collection'')
              ((tl_clock T (ms_db st) - started) * 1000000) (\<not> tr_is_error r) (tl_clock T (ms_db st))) c)\<rparr>
      | _ \<Rightarrow> st)"

definition enrich_content where
  "enrich_content T context content =
     (case tl_parse T (snd content) of
        Some (JObject m) \<Rightarrow>
          (fst content, tl_pretty T (JObject (if map_of m ''_context'' = None then m @ [(''_context'', context)] else m)))
      | Some v \<Rightarrow> (fst content, tl_pretty T (JObject [(''result'', v), (''_context'', context)]))
      | None \<Rightarrow> (''text'', tl_pretty T (JObject [(''message'', JString (snd content)), (''_context'', context)])))"

definition enrich_result where
  "enrich_result T r name args =
     \<lparr>tr_content = map (enrich_content T (build_context (to_text (tl_json T)) name args)) (tr_content r),
      tr_is_error = tr_is_error r\<rparr>"

definition finish_tool where
  "finish_tool T name args started res =
     map_option (\<lambda>(r, st). (enrich_result T r name args, record_analytics T name args started r st)) res"

function execute_tool ::
  "('db, 's, 'f, 't) tool_lib \<Rightarrow> safety_config \<Rightarrow> string \<Rightarrow> json \<Rightarrow> ('db, 'f, 't) mcp_state \<Rightarrow>
   (tool_result \<times> ('db, 'f, 't) mcp_state) option" where
  "execute_tool T safety name args st =
     finish_tool T name args (tl_clock T (ms_db st))
       (if name = ''pipeline''
        then execute_pipeline T safety (\<lambda>op. execute_tool T safety (op_type op) op) args st
        else simple_tool T safety name args st)"
  by pat_completeness auto
termination
  by (relation "measure (\<lambda>(_, _, _, args, _). size args)") (simp_all add: operations_smaller)

declare execute_tool.simps [simp del]

end
