(* ===== verification/Connection_Pool.thy ===== *)
theory Connection_Pool
  imports Operations
begin

text \<open>
  The connection pool (\<open>src/connection/pool.rs\<close>) and the defaults it applies (\<open>defaults.rs\<close>):
  connecting, detecting what the server can do, and announcing an interface to the driver.
  A pool is its capabilities, its host and the interfaces it has announced; the client and
  its metadata are the driver's, shared by all clones, and part of the state of the database.
\<close>

subsection \<open>Options\<close>

datatype concern = Majority | OtherConcern string
datatype read_preference = PrimaryPreferred | OtherPreference string

definition DEFAULT_RETRYABLE_WRITES :: bool where "DEFAULT_RETRYABLE_WRITES = True"
definition DEFAULT_RETRYABLE_READS :: bool where "DEFAULT_RETRYABLE_READS = True"
definition default_write_concern :: concern where "default_write_concern = Majority"
definition default_read_concern :: concern where "default_read_concern = Majority"
definition default_read_preference :: read_preference where "default_read_preference = PrimaryPreferred"

record client_options =
  co_hosts :: "string list"
  co_write_concern :: "concern option"
  co_read_concern :: "concern option"
  co_read_preference :: "read_preference option"
  co_retry_writes :: "bool option"
  co_retry_reads :: "bool option"
  co_driver_info :: "(string \<times> string option) option"

text \<open>The driver's part: parsing an address, making a client, adding metadata to it.\<close>

record 'db client_lib =
  cl_parse :: "string \<Rightarrow> driver_error + client_options"
  cl_with_options :: "client_options \<Rightarrow> 'db \<Rightarrow> (driver_error + unit) \<times> 'db"
  cl_append_metadata :: "string \<Rightarrow> 'db \<Rightarrow> (driver_error + unit) \<times> 'db"
  cl_version :: string

definition build_client_options :: "'db client_lib \<Rightarrow> string \<Rightarrow> mongo_error + client_options" where
  "build_client_options C uri =
     rbind (map_err from_driver_error (cl_parse C uri)) (\<lambda>options.
       Inr (options\<lparr>co_write_concern := Some default_write_concern, co_read_concern := Some default_read_concern,
         co_read_preference := Some default_read_preference, co_retry_writes := Some DEFAULT_RETRYABLE_WRITES,
         co_retry_reads := Some DEFAULT_RETRYABLE_READS, co_driver_info := Some (''mongocore'', Some (cl_version C))\<rparr>))"

subsection \<open>Capabilities\<close>

record capabilities =
  ca_server_version :: string
  ca_atlas_vector_search :: bool
  ca_atlas_search :: bool

definition admin_command where
  "admin_command D command s = drv_run_command D ''admin'' command (s :: 'db)"

definition detect_atlas_search where
  "detect_atlas_search D s =
     (case admin_command D [(''listSearchIndexes'', BString ''__mongocore_probe__'')] s of
        (Inr _, s') \<Rightarrow> (True, s' :: 'db)
      | (Inl e, s') \<Rightarrow>
          (str_contains (err_message e) ''ns not found'' \<or> str_contains (err_message e) ''NamespaceNotFound'' \<or>
           str_contains (err_message e) ''IndexNotFound'', s'))"

definition detect_capabilities where
  "detect_capabilities D s =
     sbind (case admin_command D [(''buildInfo'', BInt32 1)] s of (r, s') \<Rightarrow> (map_err from_driver_error r, s' :: 'db)) (\<lambda>info s1.
       case detect_atlas_search D s1 of
         (atlas, s2) \<Rightarrow>
           (Inr \<lparr>ca_server_version = (case get_str info ''version'' of Some v \<Rightarrow> v | None \<Rightarrow> ''unknown''),
                 ca_atlas_vector_search = atlas, ca_atlas_search = atlas\<rparr>, s2))"

subsection \<open>The pool\<close>

record connection_pool =
  cp_capabilities :: capabilities
  cp_host :: string
  cp_interfaces :: "string set"

definition health_check where
  "health_check D s =
     (case admin_command D [(''ping'', BInt32 1)] s of
        (r, s') \<Rightarrow> (map_err from_driver_error (rbind r (\<lambda>_. Inr ())), s' :: 'db))"

definition connect where
  "connect C D uri s =
     (case build_client_options C uri of
        Inl e \<Rightarrow> (Inl e, s :: 'db)
      | Inr options \<Rightarrow>
          let host = (case co_hosts options of [] \<Rightarrow> uri | h # _ \<Rightarrow> h) in
          sbind (case cl_with_options C options s of (r, s') \<Rightarrow> (map_err from_driver_error r, s')) (\<lambda>_ s1.
          sbind (health_check D s1) (\<lambda>_ s2.
          sbind (detect_capabilities D s2) (\<lambda>caps s3.
            (Inr \<lparr>cp_capabilities = caps, cp_host = host, cp_interfaces = {}\<rparr>, s3)))))"

definition append_interface_metadata where
  "append_interface_metadata C interface pool s =
     (if interface \<in> cp_interfaces pool then (pool, s :: 'db)
      else
        (case cl_append_metadata C interface s of
           (Inl _, s') \<Rightarrow> (pool, s')
         | (Inr _, s') \<Rightarrow> (pool\<lparr>cp_interfaces := insert interface (cp_interfaces pool)\<rparr>, s')))"

definition pool_clone :: "connection_pool \<Rightarrow> connection_pool" where
  "pool_clone pool = pool\<lparr>cp_interfaces := {}\<rparr>"

subsection \<open>What connecting and announcing do\<close>

text \<open>Announcing again on the same pool does nothing, announcing on a clone does it again.\<close>

lemma append_again:
  assumes "append_interface_metadata C interface pool s = (pool', s')" and "interface \<in> cp_interfaces pool'"
  shows "append_interface_metadata C interface pool' s'' = (pool', s'')"
  using assms(2) by (simp add: append_interface_metadata_def)

lemma append_to_clone:
  "snd (append_interface_metadata C interface (pool_clone pool) s) = snd (cl_append_metadata C interface s)"
  by (simp add: append_interface_metadata_def pool_clone_def split: prod.split sum.split)

lemma append_others:
  "append_interface_metadata C interface pool s = (pool', s') \<Longrightarrow>
   cp_interfaces pool \<subseteq> cp_interfaces pool' \<and> cp_interfaces pool' \<subseteq> insert interface (cp_interfaces pool) \<and>
   cp_capabilities pool' = cp_capabilities pool"
  by (auto simp: append_interface_metadata_def split: if_splits prod.splits sum.splits)

text \<open>A pool that connected has the two search capabilities together.\<close>

lemma detect_together:
  "detect_capabilities D s = (Inr caps, s') \<Longrightarrow> ca_atlas_vector_search caps = ca_atlas_search caps"
proof -
  assume a: "detect_capabilities D s = (Inr caps, s')"
  obtain r s1 where r: "admin_command D [(''buildInfo'', BInt32 1)] s = (r, s1)" by fastforce
  obtain b s2 where b: "detect_atlas_search D s1 = (b, s2)" by fastforce
  show ?thesis using a r b by (cases r) (auto simp: detect_capabilities_def)
qed

end
