(* ===== verification/Config.thy ===== *)
theory Config
  imports Mongo_Values
begin

text \<open>
  The configuration (\<open>src/config.rs\<close>, \<open>src/defaults.rs\<close>): what the command line (with the
  variables of the environment that clap reads) and the TOML file may say, and \<open>Config::load\<close>,
  which puts them together. Reading a file, parsing TOML and the environment are parameters.
\<close>

record cli_args =
  cli_config :: "string option"
  cli_connection_uri :: "string option"
  cli_grpc_port :: "u16 option"
  cli_mcp_port :: "u16 option"
  cli_anthropic_api_key :: "string option"
  cli_openai_api_key :: "string option"
  cli_voyage_api_key :: "string option"
  cli_llm_base_url :: "string option"
  cli_llm_gateway_key :: "string option"
  cli_llm_auth_header :: "string option"
  cli_llm_model :: "string option"
  cli_llm_provider_type :: "string option"
  cli_compiled_cache_sync :: "bool option"
  cli_log_level :: "string option"
  cli_grpc_max_message_size :: "u64 option"
  cli_transport :: "string option"
  cli_socket_path :: "string option"
  cli_socket_permissions :: "u32 option"
  cli_otel_enabled :: "bool option"
  cli_otel_endpoint :: "string option"
  cli_otel_service_name :: "string option"
  cli_stream_batch_size :: "u32 option"
  cli_stream_idle_timeout_secs :: "u64 option"
  cli_grpc_compression :: "string option"
  cli_pipeline_timeout_secs :: "u64 option"
  cli_pipeline_max_concurrency :: "u64 option"
  cli_stdio :: bool
  cli_web_ui :: "bool option"
  cli_web_ui_port :: "u16 option"
  cli_binary_socket_path :: "string option"
  cli_binary_socket_permissions :: "u32 option"
  cli_enable_binary_transport :: "bool option"
  cli_binary_max_frame_size :: "u64 option"
  cli_binary_max_concurrent :: "u64 option"

record tenant_file_config =
  tf_tenant_id :: "string option"
  tf_max_connections :: "u64 option"
  tf_max_cache_entries :: "u64 option"
  tf_rate_limit_ops_per_sec :: "u64 option"
  tf_connection_uri :: "string option"

record web_ui_file_config =
  wf_enabled :: "bool option"
  wf_port :: "u16 option"

record watch_file_config =
  wtf_enabled :: "bool option"
  wtf_path :: "string option"
  wtf_file_pattern :: "string option"
  wtf_database :: "string option"
  wtf_collection :: "string option"
  wtf_conflict_strategy :: "string option"

record ingestion_file_config =
  if_enabled :: "bool option"
  if_sample_size :: "u32 option"
  if_default_batch_size :: "u32 option"
  if_default_concurrency :: "u32 option"
  if_max_file_size_mb :: "u64 option"
  if_llm_expressions :: "bool option"
  if_max_llm_concurrency :: "u32 option"
  if_watch_debounce_ms :: "u64 option"
  if_watch :: "watch_file_config option"

record ingestion_config =
  ic_enabled :: bool
  ic_sample_size :: u32
  ic_default_batch_size :: u32
  ic_default_concurrency :: u32
  ic_max_file_size_mb :: u64
  ic_llm_expressions :: bool
  ic_max_llm_concurrency :: u32
  ic_watch_debounce_ms :: u64
  ic_watch :: "watch_file_config option"

record llm_gateway_config =
  gw_base_url :: string
  gw_api_key :: string
  gw_auth_header :: string
  gw_model :: string
  gw_provider_type :: string

record file_config =
  fc_connection_uri :: "string option"
  fc_grpc_port :: "u16 option"
  fc_mcp_port :: "u16 option"
  fc_anthropic_api_key :: "string option"
  fc_openai_api_key :: "string option"
  fc_voyage_api_key :: "string option"
  fc_llm_base_url :: "string option"
  fc_llm_gateway_key :: "string option"
  fc_llm_auth_header :: "string option"
  fc_llm_model :: "string option"
  fc_llm_provider_type :: "string option"
  fc_compiled_cache_sync :: "bool option"
  fc_log_level :: "string option"
  fc_multi_tenant_enabled :: "bool option"
  fc_tenants :: "tenant_file_config list option"
  fc_analytics_enabled :: "bool option"
  fc_analytics_buffer_size :: "u64 option"
  fc_analytics_flush_interval_secs :: "u64 option"
  fc_ingestion :: "ingestion_file_config option"
  fc_grpc_max_message_size :: "u64 option"
  fc_transport :: "string option"
  fc_socket_path :: "string option"
  fc_socket_permissions :: "u32 option"
  fc_otel_enabled :: "bool option"
  fc_otel_endpoint :: "string option"
  fc_otel_service_name :: "string option"
  fc_stream_batch_size :: "u32 option"
  fc_stream_idle_timeout_secs :: "u64 option"
  fc_grpc_compression :: "string option"
  fc_pipeline_timeout_secs :: "u64 option"
  fc_pipeline_max_concurrency :: "u64 option"
  fc_web_ui :: "web_ui_file_config option"
  fc_binary_socket_path :: "string option"
  fc_binary_socket_permissions :: "u32 option"
  fc_binary_transport_enabled :: "bool option"
  fc_binary_max_frame_size :: "u64 option"
  fc_binary_max_concurrent :: "u64 option"

record mongocore_config =
  cfg_connection_uri :: string
  cfg_grpc_port :: u16
  cfg_mcp_port :: u16
  cfg_llm_api_key :: "string option"
  cfg_llm_provider_name :: "string option"
  cfg_voyage_api_key :: "string option"
  cfg_llm_gateway :: "llm_gateway_config option"
  cfg_compiled_cache_sync :: bool
  cfg_log_level :: string
  cfg_multi_tenant_enabled :: bool
  cfg_tenants :: "tenant_file_config list"
  cfg_analytics_enabled :: bool
  cfg_analytics_buffer_size :: u64
  cfg_analytics_flush_interval_secs :: u64
  cfg_ingestion :: ingestion_config
  cfg_grpc_max_message_size :: u64
  cfg_transport :: string
  cfg_socket_path :: string
  cfg_socket_permissions :: u32
  cfg_otel_enabled :: bool
  cfg_otel_endpoint :: string
  cfg_otel_service_name :: string
  cfg_stream_batch_size :: u32
  cfg_stream_idle_timeout_secs :: u64
  cfg_grpc_compression :: string
  cfg_pipeline_timeout_secs :: u64
  cfg_pipeline_max_concurrency :: u64
  cfg_web_ui_enabled :: bool
  cfg_web_ui_port :: u16
  cfg_binary_socket_path :: string
  cfg_binary_socket_permissions :: u32
  cfg_binary_transport_enabled :: bool
  cfg_binary_max_frame_size :: u64
  cfg_binary_max_concurrent :: u64

subsection \<open>Defaults\<close>

definition DEFAULT_GRPC_PORT :: u16 where "DEFAULT_GRPC_PORT = 50051"
definition DEFAULT_MCP_PORT :: u16 where "DEFAULT_MCP_PORT = 3000"
definition DEFAULT_LOG_LEVEL :: string where "DEFAULT_LOG_LEVEL = ''info''"
definition DEFAULT_COMPILED_CACHE_SYNC :: bool where "DEFAULT_COMPILED_CACHE_SYNC = True"
definition DEFAULT_CONNECTION_URI :: string where "DEFAULT_CONNECTION_URI = ''mongodb://localhost:27017''"
definition DEFAULT_OTEL_ENDPOINT :: string where "DEFAULT_OTEL_ENDPOINT = ''http://localhost:4317''"
definition DEFAULT_OTEL_SERVICE_NAME :: string where "DEFAULT_OTEL_SERVICE_NAME = ''mongocore''"
definition DEFAULT_GRPC_MAX_MESSAGE_SIZE :: u64 where "DEFAULT_GRPC_MAX_MESSAGE_SIZE = 64 * 1024 * 1024"
definition DEFAULT_GRPC_COMPRESSION :: string where "DEFAULT_GRPC_COMPRESSION = ''none''"
definition DEFAULT_TRANSPORT :: string where "DEFAULT_TRANSPORT = ''both''"
definition DEFAULT_SOCKET_PATH :: string where "DEFAULT_SOCKET_PATH = ''/tmp/mongocore.sock''"
definition DEFAULT_SOCKET_PERMISSIONS :: u32 where "DEFAULT_SOCKET_PERMISSIONS = 0x180"
definition DEFAULT_STREAM_BATCH_SIZE :: u32 where "DEFAULT_STREAM_BATCH_SIZE = 1000"
definition DEFAULT_STREAM_IDLE_TIMEOUT_SECS :: u64 where "DEFAULT_STREAM_IDLE_TIMEOUT_SECS = 60"
definition DEFAULT_PIPELINE_TIMEOUT_SECS :: u64 where "DEFAULT_PIPELINE_TIMEOUT_SECS = 30"
definition DEFAULT_PIPELINE_MAX_CONCURRENCY :: u64 where "DEFAULT_PIPELINE_MAX_CONCURRENCY = 20"
definition DEFAULT_WEB_UI_PORT :: u16 where "DEFAULT_WEB_UI_PORT = 27999"
definition DEFAULT_WEB_UI_ENABLED :: bool where "DEFAULT_WEB_UI_ENABLED = True"
definition DEFAULT_BINARY_SOCKET_PATH :: string where "DEFAULT_BINARY_SOCKET_PATH = ''/tmp/mongocore.bin.sock''"
definition DEFAULT_BINARY_SOCKET_PERMISSIONS :: u32 where "DEFAULT_BINARY_SOCKET_PERMISSIONS = 0x180"
definition DEFAULT_BINARY_TRANSPORT_ENABLED :: bool where "DEFAULT_BINARY_TRANSPORT_ENABLED = True"
definition DEFAULT_BINARY_MAX_FRAME_SIZE :: u64 where "DEFAULT_BINARY_MAX_FRAME_SIZE = 64 * 1024 * 1024"
definition DEFAULT_BINARY_MAX_CONCURRENT :: u64 where "DEFAULT_BINARY_MAX_CONCURRENT = 64"

subsection \<open>Loading\<close>

type_synonym environment = "string \<Rightarrow> string option"

fun opt_or :: "'a option \<Rightarrow> 'a option \<Rightarrow> 'a option" where
  "opt_or (Some x) y = Some x"
| "opt_or None y = y"

definition or_default :: "'a option \<Rightarrow> 'a \<Rightarrow> 'a" where
  "or_default x d = (case x of Some v \<Rightarrow> v | None \<Rightarrow> d)"

definition default_file_config :: file_config where
  "default_file_config =
     \<lparr>fc_connection_uri = None,
      fc_grpc_port = None,
      fc_mcp_port = None,
      fc_anthropic_api_key = None,
      fc_openai_api_key = None,
      fc_voyage_api_key = None,
      fc_llm_base_url = None,
      fc_llm_gateway_key = None,
      fc_llm_auth_header = None,
      fc_llm_model = None,
      fc_llm_provider_type = None,
      fc_compiled_cache_sync = None,
      fc_log_level = None,
      fc_multi_tenant_enabled = None,
      fc_tenants = None,
      fc_analytics_enabled = None,
      fc_analytics_buffer_size = None,
      fc_analytics_flush_interval_secs = None,
      fc_ingestion = None,
      fc_grpc_max_message_size = None,
      fc_transport = None,
      fc_socket_path = None,
      fc_socket_permissions = None,
      fc_otel_enabled = None,
      fc_otel_endpoint = None,
      fc_otel_service_name = None,
      fc_stream_batch_size = None,
      fc_stream_idle_timeout_secs = None,
      fc_grpc_compression = None,
      fc_pipeline_timeout_secs = None,
      fc_pipeline_max_concurrency = None,
      fc_web_ui = None,
      fc_binary_socket_path = None,
      fc_binary_socket_permissions = None,
      fc_binary_transport_enabled = None,
      fc_binary_max_frame_size = None,
      fc_binary_max_concurrent = None\<rparr>"

definition default_web_ui_file :: web_ui_file_config where
  "default_web_ui_file = \<lparr>wf_enabled = None, wf_port = None\<rparr>"

definition default_ingestion_file :: ingestion_file_config where
  "default_ingestion_file =
     \<lparr>if_enabled = None, if_sample_size = None, if_default_batch_size = None, if_default_concurrency = None,
      if_max_file_size_mb = None, if_llm_expressions = None, if_max_llm_concurrency = None,
      if_watch_debounce_ms = None, if_watch = None\<rparr>"

definition default_ingestion_config :: ingestion_config where
  "default_ingestion_config =
     \<lparr>ic_enabled = True, ic_sample_size = 1000, ic_default_batch_size = 1000, ic_default_concurrency = 4,
      ic_max_file_size_mb = 10240, ic_llm_expressions = False, ic_max_llm_concurrency = 4,
      ic_watch_debounce_ms = 2000, ic_watch = None\<rparr>"

text \<open>
  A custom gateway exists when it has an address; the direct keys are looked at anyway, and
  the key of Anthropic comes before that of OpenAI.
\<close>

definition load_gateway :: "environment \<Rightarrow> cli_args \<Rightarrow> file_config \<Rightarrow> llm_gateway_config option" where
  "load_gateway env cli f =
     (case opt_or (opt_or (cli_llm_base_url cli) (fc_llm_base_url f)) (env ''LLM_BASE_URL'') of
        None \<Rightarrow> None
      | Some base_url \<Rightarrow>
          Some \<lparr>gw_base_url = base_url,
                gw_api_key = or_default (opt_or (opt_or (cli_llm_gateway_key cli) (fc_llm_gateway_key f)) (env ''LLM_API_KEY'')) [],
                gw_auth_header = or_default (opt_or (cli_llm_auth_header cli) (fc_llm_auth_header f)) ''api-key'',
                gw_model = or_default (opt_or (opt_or (cli_llm_model cli) (fc_llm_model f)) (env ''LLM_MODEL'')) ''claude-sonnet-4-6'',
                gw_provider_type = or_default (opt_or (cli_llm_provider_type cli) (fc_llm_provider_type f)) ''anthropic''\<rparr>)"

definition load_llm_key :: "environment \<Rightarrow> cli_args \<Rightarrow> file_config \<Rightarrow> string option \<times> string option" where
  "load_llm_key env cli f =
     (case opt_or (opt_or (cli_anthropic_api_key cli) (fc_anthropic_api_key f)) (env ''ANTHROPIC_API_KEY'') of
        Some key \<Rightarrow> (Some key, Some ''anthropic'')
      | None \<Rightarrow>
          (case opt_or (opt_or (cli_openai_api_key cli) (fc_openai_api_key f)) (env ''OPENAI_API_KEY'') of
             Some key \<Rightarrow> (Some key, Some ''openai'')
           | None \<Rightarrow> (None, None)))"

definition load_ingestion :: "file_config \<Rightarrow> ingestion_config" where
  "load_ingestion f =
     (let i = or_default (fc_ingestion f) default_ingestion_file in
      \<lparr>ic_enabled = or_default (if_enabled i) True, ic_sample_size = or_default (if_sample_size i) 1000,
       ic_default_batch_size = or_default (if_default_batch_size i) 1000,
       ic_default_concurrency = or_default (if_default_concurrency i) 4,
       ic_max_file_size_mb = or_default (if_max_file_size_mb i) 10240,
       ic_llm_expressions = or_default (if_llm_expressions i) False,
       ic_max_llm_concurrency = or_default (if_max_llm_concurrency i) 4,
       ic_watch_debounce_ms = or_default (if_watch_debounce_ms i) 2000, ic_watch = if_watch i\<rparr>)"

definition resolve_config :: "environment \<Rightarrow> cli_args \<Rightarrow> file_config \<Rightarrow> mongocore_config" where
  "resolve_config env cli f =
     (let w = or_default (fc_web_ui f) default_web_ui_file in
      \<lparr>cfg_connection_uri = or_default (opt_or (cli_connection_uri cli) (fc_connection_uri f)) DEFAULT_CONNECTION_URI,
       cfg_grpc_port = or_default (opt_or (cli_grpc_port cli) (fc_grpc_port f)) DEFAULT_GRPC_PORT,
       cfg_mcp_port = or_default (opt_or (cli_mcp_port cli) (fc_mcp_port f)) DEFAULT_MCP_PORT,
       cfg_llm_api_key = fst (load_llm_key env cli f),
       cfg_llm_provider_name = snd (load_llm_key env cli f),
       cfg_voyage_api_key = opt_or (opt_or (cli_voyage_api_key cli) (fc_voyage_api_key f)) (env ''VOYAGE_API_KEY''),
       cfg_llm_gateway = load_gateway env cli f,
       cfg_compiled_cache_sync = or_default (opt_or (cli_compiled_cache_sync cli) (fc_compiled_cache_sync f)) DEFAULT_COMPILED_CACHE_SYNC,
       cfg_log_level = or_default (opt_or (cli_log_level cli) (fc_log_level f)) DEFAULT_LOG_LEVEL,
       cfg_multi_tenant_enabled = or_default (fc_multi_tenant_enabled f) False,
       cfg_tenants = or_default (fc_tenants f) [],
       cfg_analytics_enabled = or_default (fc_analytics_enabled f) True,
       cfg_analytics_buffer_size = or_default (fc_analytics_buffer_size f) 10000,
       cfg_analytics_flush_interval_secs = or_default (fc_analytics_flush_interval_secs f) 300,
       cfg_ingestion = load_ingestion f,
       cfg_grpc_max_message_size = or_default (opt_or (cli_grpc_max_message_size cli) (fc_grpc_max_message_size f)) DEFAULT_GRPC_MAX_MESSAGE_SIZE,
       cfg_transport = or_default (opt_or (cli_transport cli) (fc_transport f)) DEFAULT_TRANSPORT,
       cfg_socket_path = or_default (opt_or (cli_socket_path cli) (fc_socket_path f)) DEFAULT_SOCKET_PATH,
       cfg_socket_permissions = or_default (opt_or (cli_socket_permissions cli) (fc_socket_permissions f)) DEFAULT_SOCKET_PERMISSIONS,
       cfg_otel_enabled = or_default (opt_or (cli_otel_enabled cli) (fc_otel_enabled f)) False,
       cfg_otel_endpoint = or_default (opt_or (cli_otel_endpoint cli) (fc_otel_endpoint f)) DEFAULT_OTEL_ENDPOINT,
       cfg_otel_service_name = or_default (opt_or (cli_otel_service_name cli) (fc_otel_service_name f)) DEFAULT_OTEL_SERVICE_NAME,
       cfg_stream_batch_size = or_default (opt_or (cli_stream_batch_size cli) (fc_stream_batch_size f)) DEFAULT_STREAM_BATCH_SIZE,
       cfg_stream_idle_timeout_secs = or_default (opt_or (cli_stream_idle_timeout_secs cli) (fc_stream_idle_timeout_secs f)) DEFAULT_STREAM_IDLE_TIMEOUT_SECS,
       cfg_grpc_compression = or_default (opt_or (cli_grpc_compression cli) (fc_grpc_compression f)) DEFAULT_GRPC_COMPRESSION,
       cfg_pipeline_timeout_secs = or_default (opt_or (cli_pipeline_timeout_secs cli) (fc_pipeline_timeout_secs f)) DEFAULT_PIPELINE_TIMEOUT_SECS,
       cfg_pipeline_max_concurrency = or_default (opt_or (cli_pipeline_max_concurrency cli) (fc_pipeline_max_concurrency f)) DEFAULT_PIPELINE_MAX_CONCURRENCY,
       cfg_web_ui_enabled = or_default (opt_or (cli_web_ui cli) (wf_enabled w)) DEFAULT_WEB_UI_ENABLED,
       cfg_web_ui_port = or_default (opt_or (cli_web_ui_port cli) (wf_port w)) DEFAULT_WEB_UI_PORT,
       cfg_binary_socket_path = or_default (opt_or (cli_binary_socket_path cli) (fc_binary_socket_path f)) DEFAULT_BINARY_SOCKET_PATH,
       cfg_binary_socket_permissions = or_default (opt_or (cli_binary_socket_permissions cli) (fc_binary_socket_permissions f)) DEFAULT_BINARY_SOCKET_PERMISSIONS,
       cfg_binary_transport_enabled = or_default (opt_or (cli_enable_binary_transport cli) (fc_binary_transport_enabled f)) DEFAULT_BINARY_TRANSPORT_ENABLED,
       cfg_binary_max_frame_size = or_default (opt_or (cli_binary_max_frame_size cli) (fc_binary_max_frame_size f)) DEFAULT_BINARY_MAX_FRAME_SIZE,
       cfg_binary_max_concurrent = or_default (opt_or (cli_binary_max_concurrent cli) (fc_binary_max_concurrent f)) DEFAULT_BINARY_MAX_CONCURRENT\<rparr>)"

record config_lib =
  cn_read :: "string \<Rightarrow> string + string"
  cn_parse :: "string \<Rightarrow> string + file_config"

definition load_file :: "config_lib \<Rightarrow> string option \<Rightarrow> mongo_error + file_config" where
  "load_file L path =
     (case path of
        None \<Rightarrow> Inr default_file_config
      | Some p \<Rightarrow>
          rbind (map_err (\<lambda>e. ConfigError (''IO error: '' @ e)) (cn_read L p)) (\<lambda>text_of_file.
            map_err ConfigError (cn_parse L text_of_file)))"

definition config_load :: "config_lib \<Rightarrow> environment \<Rightarrow> cli_args \<Rightarrow> mongo_error + mongocore_config" where
  "config_load L env cli = rbind (load_file L (cli_config cli)) (\<lambda>f. Inr (resolve_config env cli f))"

subsection \<open>The command line is a layer over the file\<close>

definition no_arguments :: cli_args where
  "no_arguments =
     \<lparr>cli_config = None,
      cli_connection_uri = None,
      cli_grpc_port = None,
      cli_mcp_port = None,
      cli_anthropic_api_key = None,
      cli_openai_api_key = None,
      cli_voyage_api_key = None,
      cli_llm_base_url = None,
      cli_llm_gateway_key = None,
      cli_llm_auth_header = None,
      cli_llm_model = None,
      cli_llm_provider_type = None,
      cli_compiled_cache_sync = None,
      cli_log_level = None,
      cli_grpc_max_message_size = None,
      cli_transport = None,
      cli_socket_path = None,
      cli_socket_permissions = None,
      cli_otel_enabled = None,
      cli_otel_endpoint = None,
      cli_otel_service_name = None,
      cli_stream_batch_size = None,
      cli_stream_idle_timeout_secs = None,
      cli_grpc_compression = None,
      cli_pipeline_timeout_secs = None,
      cli_pipeline_max_concurrency = None,
      cli_stdio = False,
      cli_web_ui = None,
      cli_web_ui_port = None,
      cli_binary_socket_path = None,
      cli_binary_socket_permissions = None,
      cli_enable_binary_transport = None,
      cli_binary_max_frame_size = None,
      cli_binary_max_concurrent = None\<rparr>"

text \<open>The file as it would be with the settings of the command line written into it.\<close>

definition overlay :: "cli_args \<Rightarrow> file_config \<Rightarrow> file_config" where
  "overlay cli f =
     (let w = or_default (fc_web_ui f) default_web_ui_file in
      f\<lparr>fc_connection_uri := opt_or (cli_connection_uri cli) (fc_connection_uri f),
        fc_grpc_port := opt_or (cli_grpc_port cli) (fc_grpc_port f),
        fc_mcp_port := opt_or (cli_mcp_port cli) (fc_mcp_port f),
        fc_anthropic_api_key := opt_or (cli_anthropic_api_key cli) (fc_anthropic_api_key f),
        fc_openai_api_key := opt_or (cli_openai_api_key cli) (fc_openai_api_key f),
        fc_voyage_api_key := opt_or (cli_voyage_api_key cli) (fc_voyage_api_key f),
        fc_llm_base_url := opt_or (cli_llm_base_url cli) (fc_llm_base_url f),
        fc_llm_gateway_key := opt_or (cli_llm_gateway_key cli) (fc_llm_gateway_key f),
        fc_llm_auth_header := opt_or (cli_llm_auth_header cli) (fc_llm_auth_header f),
        fc_llm_model := opt_or (cli_llm_model cli) (fc_llm_model f),
        fc_llm_provider_type := opt_or (cli_llm_provider_type cli) (fc_llm_provider_type f),
        fc_compiled_cache_sync := opt_or (cli_compiled_cache_sync cli) (fc_compiled_cache_sync f),
        fc_log_level := opt_or (cli_log_level cli) (fc_log_level f),
        fc_grpc_max_message_size := opt_or (cli_grpc_max_message_size cli) (fc_grpc_max_message_size f),
        fc_transport := opt_or (cli_transport cli) (fc_transport f),
        fc_socket_path := opt_or (cli_socket_path cli) (fc_socket_path f),
        fc_socket_permissions := opt_or (cli_socket_permissions cli) (fc_socket_permissions f),
        fc_otel_enabled := opt_or (cli_otel_enabled cli) (fc_otel_enabled f),
        fc_otel_endpoint := opt_or (cli_otel_endpoint cli) (fc_otel_endpoint f),
        fc_otel_service_name := opt_or (cli_otel_service_name cli) (fc_otel_service_name f),
        fc_stream_batch_size := opt_or (cli_stream_batch_size cli) (fc_stream_batch_size f),
        fc_stream_idle_timeout_secs := opt_or (cli_stream_idle_timeout_secs cli) (fc_stream_idle_timeout_secs f),
        fc_grpc_compression := opt_or (cli_grpc_compression cli) (fc_grpc_compression f),
        fc_pipeline_timeout_secs := opt_or (cli_pipeline_timeout_secs cli) (fc_pipeline_timeout_secs f),
        fc_pipeline_max_concurrency := opt_or (cli_pipeline_max_concurrency cli) (fc_pipeline_max_concurrency f),
        fc_binary_socket_path := opt_or (cli_binary_socket_path cli) (fc_binary_socket_path f),
        fc_binary_socket_permissions := opt_or (cli_binary_socket_permissions cli) (fc_binary_socket_permissions f),
        fc_binary_transport_enabled := opt_or (cli_enable_binary_transport cli) (fc_binary_transport_enabled f),
        fc_binary_max_frame_size := opt_or (cli_binary_max_frame_size cli) (fc_binary_max_frame_size f),
        fc_binary_max_concurrent := opt_or (cli_binary_max_concurrent cli) (fc_binary_max_concurrent f),
        fc_web_ui := Some \<lparr>wf_enabled = opt_or (cli_web_ui cli) (wf_enabled w), wf_port = opt_or (cli_web_ui_port cli) (wf_port w)\<rparr>\<rparr>)"

lemma or_default_Some [simp]: "or_default (Some x) d = x"
  by (simp add: or_default_def)

text \<open>
  C31. Arguments and file: loading with arguments is loading a file into which the arguments have been
  written, with no arguments at all: each argument that is given wins over the file and changes
  nothing else.
\<close>

theorem arguments_are_a_layer:
  "resolve_config env cli f = resolve_config env no_arguments (overlay cli f)"
  unfolding resolve_config_def load_gateway_def load_llm_key_def load_ingestion_def overlay_def no_arguments_def
  by (simp add: Let_def cong: option.case_cong)

end
