(* ===== verification/Prefetch.thy ===== *)
theory Prefetch
  imports Txn_Pipeline
begin

text \<open>
  The cursor that is read ahead in batches (\<open>src/transport/prefetch.rs\<close>). What the cursor
  gives is a list: an error of the cursor, or a document that can be read or not. The consumer
  may go away: \<open>alive n\<close> says whether it still takes batch number n. How far the loop runs ahead
  of the consumer is the channel's business and changes nothing in what is sent.
\<close>

definition DEFAULT_PREFETCH_AHEAD :: nat where "DEFAULT_PREFETCH_AHEAD = 2"
definition DEFAULT_BATCH_SIZE :: nat where "DEFAULT_BATCH_SIZE = 100"

record prefetch_batch =
  pb_documents :: "bytes list"
  pb_total_bytes :: nat

type_synonym raw_cursor = "(driver_error + (driver_error + bytes)) list"

definition batch_of :: "bytes list \<Rightarrow> nat \<Rightarrow> prefetch_batch" where
  "batch_of docs nbytes = \<lparr>pb_documents = docs, pb_total_bytes = nbytes\<rparr>"

definition send_rest :: "(nat \<Rightarrow> bool) \<Rightarrow> nat \<Rightarrow> bytes list \<Rightarrow> nat \<Rightarrow> prefetch_batch list" where
  "send_rest alive n docs nbytes = (if docs \<noteq> [] \<and> alive n then [batch_of docs nbytes] else [])"

fun prefetch_loop ::
  "nat \<Rightarrow> (nat \<Rightarrow> bool) \<Rightarrow> nat \<Rightarrow> bytes list \<Rightarrow> nat \<Rightarrow> raw_cursor \<Rightarrow> prefetch_batch list" where
  "prefetch_loop batch_size alive n docs nbytes [] = send_rest alive n docs nbytes"
| "prefetch_loop batch_size alive n docs nbytes (Inl e # c) = send_rest alive n docs nbytes"
| "prefetch_loop batch_size alive n docs nbytes (Inr (Inl e) # c) = prefetch_loop batch_size alive n docs nbytes c"
| "prefetch_loop batch_size alive n docs nbytes (Inr (Inr b) # c) =
     (let docs' = docs @ [b]; nbytes' = nbytes + length b in
      if batch_size \<le> length docs' then
        (if alive n then batch_of docs' nbytes' # prefetch_loop batch_size alive (n + 1) [] 0 c else [])
      else prefetch_loop batch_size alive n docs' nbytes' c)"

definition prefetched :: "raw_cursor \<Rightarrow> nat \<Rightarrow> (nat \<Rightarrow> bool) \<Rightarrow> prefetch_batch list" where
  "prefetched cursor batch_size alive = prefetch_loop batch_size alive 0 [] 0 cursor"

definition prefetched_with_defaults :: "raw_cursor \<Rightarrow> (nat \<Rightarrow> bool) \<Rightarrow> prefetch_batch list" where
  "prefetched_with_defaults cursor alive = prefetched cursor DEFAULT_BATCH_SIZE alive"

subsection \<open>The batches are the documents\<close>

text \<open>The documents of a cursor: those it gives before an error, without the unreadable ones.\<close>

fun readable :: "raw_cursor \<Rightarrow> bytes list" where
  "readable [] = []"
| "readable (Inl e # c) = []"
| "readable (Inr (Inl e) # c) = readable c"
| "readable (Inr (Inr b) # c) = b # readable c"

text \<open>A list cut into pieces of n, the last one shorter perhaps; pieces of one when n is 0.\<close>

function (sequential) chunks :: "nat \<Rightarrow> 'a list \<Rightarrow> 'a list list" where
  "chunks n [] = []"
| "chunks n (x # xs) = take (max 1 n) (x # xs) # chunks n (drop (max 1 n) (x # xs))"
  by pat_completeness auto
termination by (relation "measure (\<lambda>(n, xs). length xs)") auto

lemma concat_chunks: "concat (chunks n xs) = xs"
  by (induction n xs rule: chunks.induct) (simp_all del: take_Suc_Cons drop_Suc_Cons)

lemma chunks_full: "length xs = max 1 n \<Longrightarrow> chunks n (xs @ ys) = xs # chunks n ys"
  by (cases xs) (auto dest: sym)

lemma chunks_rest: "xs \<noteq> [] \<Longrightarrow> length xs < max 1 n \<Longrightarrow> chunks n xs = [xs]"
  by (cases xs) auto

definition measured :: "bytes list \<Rightarrow> prefetch_batch" where
  "measured docs = batch_of docs (sum_list (map length docs))"

lemma prefetch_loop_chunks:
  assumes "length docs < max 1 n" and "nbytes = sum_list (map length docs)"
  shows "prefetch_loop n (\<lambda>_. True) k docs nbytes c = map measured (chunks n (docs @ readable c))"
  using assms
proof (induction n "\<lambda>_ :: nat. True" k docs nbytes c rule: prefetch_loop.induct)
  case (1 n k docs nbytes)
  then show ?case by (cases docs) (auto simp: send_rest_def measured_def chunks_rest simp del: chunks.simps(2))
next
  case (2 n k docs nbytes e c)
  then show ?case by (cases docs) (auto simp: send_rest_def measured_def chunks_rest simp del: chunks.simps(2))
next
  case (4 n k docs nbytes b c)
  show ?case
  proof (cases "n \<le> length (docs @ [b])")
    case True
    then have len: "length (docs @ [b]) = max 1 n" using 4(3) by (auto simp: max_def split: if_splits)
    have "prefetch_loop n (\<lambda>_. True) (k + 1) [] 0 c = map measured (chunks n (readable c))"
      using 4(1) [OF refl refl True] by simp
    then show ?thesis
      using True 4(4) chunks_full [OF len, of "readable c"] by (simp add: measured_def)
  next
    case False
    then show ?thesis using 4(2) [OF refl refl] 4(4) by (simp add: not_le)
  qed
qed simp

lemma prefetch_loop_prefix:
  "prefetch_loop n alive k docs nbytes c =
    take (length (prefetch_loop n alive k docs nbytes c)) (prefetch_loop n (\<lambda>_. True) k docs nbytes c)"
proof (induction n alive k docs nbytes c rule: prefetch_loop.induct)
  case (4 n alive k docs nbytes b c)
  then show ?case by (cases "n \<le> length (docs @ [b])") (auto simp: Let_def)
qed (auto simp: send_rest_def)

text \<open>
  C30. The consumer that stays gets exactly the documents of the cursor, in order, in batches of the
  given size with only the last one shorter, each with the sum of the sizes of its documents;
  the batch size 0 means one document each. A consumer that leaves has got the first batches.
\<close>

theorem prefetched_is_chunked:
  "prefetched cursor n (\<lambda>_. True) = map measured (chunks n (readable cursor)) \<and>
   concat (map pb_documents (prefetched cursor n (\<lambda>_. True))) = readable cursor \<and>
   prefetched cursor n alive = take (length (prefetched cursor n alive)) (prefetched cursor n (\<lambda>_. True))"
proof -
  have "prefetched cursor n (\<lambda>_. True) = map measured (chunks n (readable cursor))"
    using prefetch_loop_chunks [of "[]" n 0 0 cursor] by (simp add: prefetched_def)
  moreover have "pb_documents \<circ> measured = id" by (auto simp: measured_def batch_of_def)
  then have "concat (map pb_documents (map measured (chunks n (readable cursor)))) = readable cursor"
    by (simp add: concat_chunks)
  moreover have "prefetched cursor n alive = take (length (prefetched cursor n alive)) (prefetched cursor n (\<lambda>_. True))"
    unfolding prefetched_def by (rule prefetch_loop_prefix)
  ultimately show ?thesis by simp
qed

end
