(* ===== verification/Voyage.thy ===== *)
theory Voyage
  imports Operations
begin

text \<open>
  The embedding client (\<open>src/voyage/client.rs\<close>) and the embedder that gathers single texts
  into batches (\<open>src/voyage/batch.rs\<close>). Posting a request, the text of a status code and the
  conversion of an integer into a float are parameters; the network is part of the state the
  database is in. The concurrent callers of the embedder are a step relation.
\<close>

subsection \<open>The client\<close>

record voyage_client =
  vc_api_key :: string
  vc_embed_model :: string
  vc_rerank_model :: string

definition voyage_new :: "string \<Rightarrow> voyage_client" where
  "voyage_new key = \<lparr>vc_api_key = key, vc_embed_model = ''voyage-3'', vc_rerank_model = ''rerank-2''\<rparr>"

definition with_models :: "string \<Rightarrow> string \<Rightarrow> string \<Rightarrow> voyage_client" where
  "with_models key embed_model rerank_model =
     \<lparr>vc_api_key = key, vc_embed_model = embed_model, vc_rerank_model = rerank_model\<rparr>"

record embedding_result =
  er_embeddings :: "f64 list list"
  er_total_tokens :: u64

record rerank_entry =
  re_index :: u64
  re_relevance_score :: f64

datatype voyage_error = ApiError string | HttpError string | RateLimited u64 | VNotConfigured string

fun voyage_text :: "voyage_error \<Rightarrow> string" where
  "voyage_text (ApiError m) = ''Voyage AI API error: '' @ m"
| "voyage_text (HttpError m) = ''HTTP error: '' @ m"
| "voyage_text (RateLimited n) = ''Rate limited, retry after '' @ show_nat (unat n) @ ''s''"
| "voyage_text (VNotConfigured m) = ''Not configured: '' @ m"

text \<open>A response: its code, its body as text when it can be read, and its body as JSON.\<close>

record http_response =
  hr_status :: nat
  hr_text :: "string option"
  hr_json :: "string + json"

record 'db voyage_lib =
  vl_post :: "string \<Rightarrow> (string \<times> string) list \<Rightarrow> json \<Rightarrow> 'db \<Rightarrow> (string + http_response) \<times> 'db"
  vl_status_text :: "nat \<Rightarrow> string"
  vl_float :: "int \<Rightarrow> f64"

text \<open>Indexing a JSON value by a name gives null when there is nothing.\<close>

definition json_index :: "json \<Rightarrow> string \<Rightarrow> json" where
  "json_index v k = (case json_get v k of Some x \<Rightarrow> x | None \<Rightarrow> JNull)"

definition array_or_empty :: "json \<Rightarrow> json list" where
  "array_or_empty v = (case as_array v of Some xs \<Rightarrow> xs | None \<Rightarrow> [])"

fun as_f64 :: "(int \<Rightarrow> f64) \<Rightarrow> json \<Rightarrow> f64 option" where
  "as_f64 F (JNumber (PosInt n)) = Some (F (uint n))"
| "as_f64 F (JNumber (NegInt i)) = Some (F (sint i))"
| "as_f64 F (JNumber (Float x)) = Some x"
| "as_f64 F _ = None"

definition voyage_headers :: "voyage_client \<Rightarrow> (string \<times> string) list" where
  "voyage_headers c = [(''Authorization'', ''Bearer '' @ vc_api_key c), (''Content-Type'', ''application/json'')]"

definition voyage_answer :: "'db voyage_lib \<Rightarrow> string + http_response \<Rightarrow> voyage_error + json" where
  "voyage_answer V r =
     (case r of
        Inl e \<Rightarrow> Inl (HttpError e)
      | Inr response \<Rightarrow>
          if hr_status response = 429 then Inl (RateLimited 60)
          else if \<not> (200 \<le> hr_status response \<and> hr_status response < 300) then
            Inl (ApiError (''HTTP '' @ vl_status_text V (hr_status response) @ '': '' @
              (case hr_text response of Some t \<Rightarrow> t | None \<Rightarrow> [])))
          else map_err ApiError (hr_json response))"

definition embeddings_of :: "(int \<Rightarrow> f64) \<Rightarrow> json \<Rightarrow> embedding_result" where
  "embeddings_of F v =
     \<lparr>er_embeddings =
        map (\<lambda>item. List.map_filter (as_f64 F) (array_or_empty (json_index item ''embedding'')))
          (array_or_empty (json_index v ''data'')),
      er_total_tokens = (case as_u64 (json_index (json_index v ''usage'') ''total_tokens'') of Some n \<Rightarrow> n | None \<Rightarrow> 0)\<rparr>"

definition voyage_embed where
  "voyage_embed V client texts s =
     (case vl_post V ''https://api.voyageai.com/v1/embeddings'' (voyage_headers client)
             (JObject [(''input'', JArray (map JString texts)), (''model'', JString (vc_embed_model client))]) (s :: 'db) of
        (r, s') \<Rightarrow> (rbind (voyage_answer V r) (\<lambda>v. Inr (embeddings_of (vl_float V) v)), s'))"

definition rerank_entry_of :: "(int \<Rightarrow> f64) \<Rightarrow> json \<Rightarrow> rerank_entry option" where
  "rerank_entry_of F item =
     Option.bind (as_u64 (json_index item ''index'')) (\<lambda>i.
     Option.bind (as_f64 F (json_index item ''relevance_score'')) (\<lambda>x.
       Some \<lparr>re_index = i, re_relevance_score = x\<rparr>))"

definition voyage_rerank where
  "voyage_rerank V client query documents s =
     (case vl_post V ''https://api.voyageai.com/v1/reranking'' (voyage_headers client)
             (JObject [(''query'', JString query), (''documents'', JArray (map JString documents)),
                       (''model'', JString (vc_rerank_model client))]) (s :: 'db) of
        (r, s') \<Rightarrow>
          (rbind (voyage_answer V r) (\<lambda>v.
             Inr (List.map_filter (rerank_entry_of (vl_float V)) (array_or_empty (json_index v ''data'')))), s'))"

subsection \<open>Gathering texts into batches\<close>

definition MAX_BATCH_SIZE :: nat where "MAX_BATCH_SIZE = 100"

type_synonym pending_embed = "nat \<times> string"

text \<open>
  A call of \<open>embed_one\<close> has a number, which stands for its channel. A batch that has been
  taken out of the queue is in flight until the client has answered; a call that is in its
  window sleeps. What has been sent into the channel of a call is its answer.
\<close>

record 'db embedder =
  em_pending :: "pending_embed list"
  em_sleeping :: "nat set"
  em_flying :: "pending_embed list list"
  em_answers :: "nat \<Rightarrow> (voyage_error + f64 list) option"
  em_world :: 'db

definition embedder_new :: "'db \<Rightarrow> 'db embedder" where
  "embedder_new s = \<lparr>em_pending = [], em_sleeping = {}, em_flying = [], em_answers = Map.empty, em_world = s\<rparr>"

definition push_embed :: "nat \<Rightarrow> string \<Rightarrow> 'db embedder \<Rightarrow> 'db embedder" where
  "push_embed i text e =
     (let pending = em_pending e @ [(i, text)] in
      if MAX_BATCH_SIZE \<le> length pending
      then e\<lparr>em_pending := [], em_flying := em_flying e @ [pending]\<rparr>
      else e\<lparr>em_pending := pending, em_sleeping := insert i (em_sleeping e)\<rparr>)"

definition window_over :: "nat \<Rightarrow> 'db embedder \<Rightarrow> 'db embedder" where
  "window_over i e =
     (let e' = e\<lparr>em_sleeping := em_sleeping e - {i}\<rparr> in
      if em_pending e = [] then e'
      else e'\<lparr>em_pending := [], em_flying := em_flying e @ [em_pending e]\<rparr>)"

definition batch_answers :: "voyage_error + embedding_result \<Rightarrow> pending_embed list \<Rightarrow> (nat \<times> (voyage_error + f64 list)) list" where
  "batch_answers result batch =
     (case result of
        Inr r \<Rightarrow>
          map (\<lambda>(k, p). (fst p, Inr (if k < length (er_embeddings r) then er_embeddings r ! k else [])))
            (List.enumerate 0 batch)
      | Inl e \<Rightarrow> map (\<lambda>p. (fst p, Inl (ApiError (voyage_text e)))) batch)"

definition flush_batch where
  "flush_batch V client batch e =
     (case voyage_embed V client (map snd batch) (em_world e) of
        (result, s') \<Rightarrow>
          e\<lparr>em_flying := remove1 batch (em_flying e),
            em_answers := em_answers e ++ map_of (batch_answers result batch),
            em_world := s'\<rparr>)"

text \<open>
  The numbers of calls are new: a call is neither waiting nor answered when it is made.
\<close>

definition batch_ids :: "pending_embed list \<Rightarrow> nat set" where
  "batch_ids b = fst ` set b"

definition waiting :: "'db embedder \<Rightarrow> nat set" where
  "waiting e = batch_ids (em_pending e) \<union> \<Union> (batch_ids ` set (em_flying e))"

definition calls :: "'db embedder \<Rightarrow> nat set" where
  "calls e = waiting e \<union> dom (em_answers e)"

inductive embed_step ::
  "'db voyage_lib \<Rightarrow> voyage_client \<Rightarrow> 'db embedder \<Rightarrow> 'db embedder \<Rightarrow> bool" for V client where
  Push: "i \<notin> calls e \<Longrightarrow> embed_step V client e (push_embed i t e)"
| Window: "i \<in> em_sleeping e \<Longrightarrow> embed_step V client e (window_over i e)"
| Answer: "batch \<in> set (em_flying e) \<Longrightarrow> embed_step V client e (flush_batch V client batch e)"

subsection \<open>No call is lost\<close>

text \<open>
  Every call in the queue is still in its own window, so somebody will take it out; the
  calls in the queue, in flight and answered are different ones; no batch is empty or too long.
\<close>

definition embedder_ok :: "'db embedder \<Rightarrow> bool" where
  "embedder_ok e \<longleftrightarrow>
     batch_ids (em_pending e) \<subseteq> em_sleeping e \<and>
     distinct (map fst (concat (em_flying e @ [em_pending e]))) \<and>
     waiting e \<inter> dom (em_answers e) = {} \<and>
     length (em_pending e) < MAX_BATCH_SIZE \<and>
     (\<forall>b \<in> set (em_flying e). b \<noteq> [] \<and> length b \<le> MAX_BATCH_SIZE)"

lemma waiting_alt: "waiting e = fst ` set (concat (em_flying e @ [em_pending e]))"
  by (auto simp: waiting_def batch_ids_def)

lemma embedder_new_ok: "embedder_ok (embedder_new s)"
  by (simp add: embedder_ok_def embedder_new_def batch_ids_def waiting_def MAX_BATCH_SIZE_def)

lemma push_embed_waiting: "waiting (push_embed i t e) = insert i (waiting e)"
  by (auto simp: push_embed_def waiting_def batch_ids_def Let_def)

lemma push_embed_ok: "embedder_ok e \<Longrightarrow> i \<notin> calls e \<Longrightarrow> embedder_ok (push_embed i t e)"
  using push_embed_waiting [of i t e]
  by (auto simp: embedder_ok_def calls_def push_embed_def Let_def waiting_alt batch_ids_def MAX_BATCH_SIZE_def)

lemma window_over_waiting: "waiting (window_over i e) = waiting e"
  by (auto simp: window_over_def waiting_def batch_ids_def Let_def)

lemma window_over_ok: "embedder_ok e \<Longrightarrow> embedder_ok (window_over i e)"
  using window_over_waiting [of i e]
  by (auto simp: embedder_ok_def window_over_def Let_def batch_ids_def MAX_BATCH_SIZE_def)

lemma batch_answers_fst: "map fst (batch_answers result batch) = map fst batch"
proof (cases result)
  case (Inr r)
  have "map (fst \<circ> snd) (List.enumerate 0 batch) = map fst batch"
    by (simp flip: map_map)
  then show ?thesis using Inr by (simp add: batch_answers_def comp_def split_def)
qed (simp add: batch_answers_def comp_def)

lemma dom_batch_answers: "dom (map_of (batch_answers result batch)) = batch_ids batch"
  unfolding batch_ids_def dom_map_of_conv_image_fst using batch_answers_fst [of result batch] by (metis list.set_map)

lemma disjoint_minus: "A \<inter> (B \<union> R) = {} \<Longrightarrow> B \<inter> R = {} \<Longrightarrow> A \<union> R = A \<union> (B \<union> R) - B"
  by blast

lemma distinct_remove1_batch:
  assumes "distinct (map fst (concat (bs @ [p])))" and "b \<in> set bs" and "\<forall>c \<in> set bs. c \<noteq> []"
  shows "distinct (map fst (concat (remove1 b bs @ [p])))"
    and "fst ` set (concat (remove1 b bs @ [p])) = fst ` set (concat (bs @ [p])) - batch_ids b"
proof -
  from split_list_first [OF assms(2)] obtain xs ys where bs: "bs = xs @ b # ys" "b \<notin> set xs" by blast
  then have r: "remove1 b bs = xs @ ys" by (simp add: remove1_append)
  have d: "distinct (map fst (concat xs)) \<and> distinct (map fst b) \<and> distinct (map fst (concat ys)) \<and> distinct (map fst p)"
    using assms(1) bs by auto
  show "distinct (map fst (concat (remove1 b bs @ [p])))"
    unfolding r using assms(1) [unfolded bs(1)] by (simp add: image_Un) blast
  show "fst ` set (concat (remove1 b bs @ [p])) = fst ` set (concat (bs @ [p])) - batch_ids b"
    unfolding r batch_ids_def unfolding bs(1)
    using assms(1) [unfolded bs(1)] disjoint_minus [of "fst ` \<Union> (set ` set xs)" "fst ` set b"]
    by (simp add: image_Un)
qed

lemma flush_batch_waiting:
  assumes "embedder_ok e" and "batch \<in> set (em_flying e)"
  shows "waiting (flush_batch V client batch e) = waiting e - batch_ids batch"
    and "dom (em_answers (flush_batch V client batch e)) = dom (em_answers e) \<union> batch_ids batch"
  using assms distinct_remove1_batch(2) [of "em_flying e" "em_pending e" batch]
  by (auto simp: embedder_ok_def waiting_alt flush_batch_def dom_batch_answers split: prod.split)

lemma flush_batch_ok:
  assumes "embedder_ok e" and "batch \<in> set (em_flying e)"
  shows "embedder_ok (flush_batch V client batch e)"
proof -
  have "distinct (map fst (concat (remove1 batch (em_flying e) @ [em_pending e])))"
    using assms distinct_remove1_batch(1) [of "em_flying e" "em_pending e" batch] by (auto simp: embedder_ok_def)
  moreover have "em_flying (flush_batch V client batch e) = remove1 batch (em_flying e)"
    "em_pending (flush_batch V client batch e) = em_pending e"
    "em_sleeping (flush_batch V client batch e) = em_sleeping e"
    by (simp_all add: flush_batch_def split: prod.split)
  ultimately show ?thesis
    using assms flush_batch_waiting [OF assms, of V client] set_remove1_subset [of batch "em_flying e"]
    unfolding embedder_ok_def by auto
qed

lemma embed_step_ok: "embed_step V client e e' \<Longrightarrow> embedder_ok e \<Longrightarrow> embedder_ok e'"
  by (cases rule: embed_step.cases) (auto intro: push_embed_ok window_over_ok flush_batch_ok)

lemma embed_steps_ok: "(embed_step V client)\<^sup>*\<^sup>* e e' \<Longrightarrow> embedder_ok e \<Longrightarrow> embedder_ok e'"
  by (induction rule: rtranclp_induct) (auto intro: embed_step_ok)

lemma embed_step_calls:
  assumes "embed_step V client e e'" and ok: "embedder_ok e"
  shows "calls e \<subseteq> calls e'"
  using assms(1)
proof cases
  case (Push i t)
  then show ?thesis using push_embed_waiting [of i t e] by (auto simp: calls_def push_embed_def Let_def)
next
  case (Window i)
  then show ?thesis using window_over_waiting [of i e] by (auto simp: calls_def window_over_def Let_def)
next
  case (Answer batch)
  then show ?thesis using flush_batch_waiting [OF ok Answer(2), of V client] by (auto simp: calls_def)
qed

lemma embed_steps_calls: "(embed_step V client)\<^sup>*\<^sup>* e e' \<Longrightarrow> embedder_ok e \<Longrightarrow> calls e \<subseteq> calls e'"
proof (induction rule: rtranclp_induct)
  case (step e1 e2)
  then have "embedder_ok e1" using embed_steps_ok by blast
  with step show ?case using embed_step_calls by blast
qed simp


text \<open>One call: it waits, its window ends, and the client answers without a network.\<close>

definition silent_voyage :: "unit voyage_lib" where
  "silent_voyage = \<lparr>vl_post = (\<lambda>_ _ _ s. (Inl ''no network'', s)), vl_status_text = (\<lambda>_. []), vl_float = (\<lambda>_. 0)\<rparr>"


text \<open>An answer shorter than its batch leaves the last calls with empty vectors, not errors.\<close>

lemma short_answer_gives_empty_vectors:
  "length (er_embeddings r) \<le> k \<Longrightarrow> k < length batch \<Longrightarrow> batch_answers (Inr r) batch ! k = (fst (batch ! k), Inr [])"
  by (simp add: batch_answers_def nth_enumerate_eq split_def)

end
