(* ===== verification/Search.thy ===== *)
theory Search
  imports Voyage Connection_Pool
begin

text \<open>
  Search with its chain of fallbacks, vector search to full-text search to a filter
  (\<open>src/search/fallback.rs\<close>), and the two pipelines it builds (\<open>vector.rs\<close>, \<open>fulltext.rs\<close>).
\<close>

subsection \<open>The pipelines\<close>

definition search_score :: "string \<Rightarrow> document" where
  "search_score m = [(''$addFields'', BDocument [(''search_score'', BDocument [(''$meta'', BString m)])])]"

definition build_vector_pipeline :: "string \<Rightarrow> string \<Rightarrow> f64 list \<Rightarrow> i64 \<Rightarrow> i64 \<Rightarrow> document list" where
  "build_vector_pipeline index_name field_path query_vector num_candidates limit =
     [[(''$vectorSearch'', BDocument
         [(''index'', BString index_name), (''path'', BString field_path),
          (''queryVector'', BArray (map BDouble query_vector)),
          (''numCandidates'', BInt64 num_candidates), (''limit'', BInt64 limit)])],
      search_score ''vectorSearchScore'']"

definition build_fulltext_pipeline :: "string \<Rightarrow> string \<Rightarrow> string list \<Rightarrow> i64 \<Rightarrow> document list" where
  "build_fulltext_pipeline index_name query search_fields limit =
     [[(''$search'', BDocument
         [(''index'', BString index_name),
          (''text'', BDocument [(''query'', BString query), (''path'', BArray (map BString search_fields))])])],
      search_score ''searchScore'',
      [(''$limit'', BInt64 limit)]]"

subsection \<open>The engine\<close>

datatype search_method = MVector | MFulltext | MFilter

record search_result =
  sr_documents :: "document list"
  sr_method :: search_method
  sr_total :: nat

datatype search_error = SNotConfigured string | SEmbeddingError string | SOperationError string

fun search_text :: "search_error \<Rightarrow> string" where
  "search_text (SNotConfigured m) = ''Not configured: '' @ m"
| "search_text (SEmbeddingError m) = ''Embedding error: '' @ m"
| "search_text (SOperationError m) = ''Operation error: '' @ m"

record search_engine =
  se_capabilities :: capabilities
  se_voyage :: "voyage_client option"

text \<open>What the engine calls: the driver, the BSON library and the network.\<close>

record 'db search_lib =
  sl_bson :: bson_lib
  sl_driver :: "'db driver"
  sl_voyage :: "'db voyage_lib"

definition found :: "search_method \<Rightarrow> (mongo_error + document list) \<times> 'db \<Rightarrow> (search_error + search_result) \<times> 'db" where
  "found m r =
     (rbind (map_err (\<lambda>e. SOperationError (err_text e)) (fst r)) (\<lambda>docs.
        Inr \<lparr>sr_documents = docs, sr_method = m, sr_total = length docs\<rparr>), snd r)"

definition embed_query where
  "embed_query S client query s =
     (case voyage_embed (sl_voyage S) client [query] (s :: 'db) of
        (r, s') \<Rightarrow>
          (rbind (map_err (\<lambda>e. SEmbeddingError (voyage_text e)) r) (\<lambda>embedding.
             ok_or (SEmbeddingError ''No embedding returned'')
               (case er_embeddings embedding of [] \<Rightarrow> None | v # _ \<Rightarrow> Some v)), s'))"

text \<open>The number of candidates wraps around in a release build.\<close>

definition vector_query where
  "vector_query S client database collection query index_name field_path limit s =
     sbind (embed_query S client query s) (\<lambda>v s1.
       found MVector (op_aggregate (sl_bson S) (sl_driver S) database collection
         (build_vector_pipeline index_name field_path v (limit * 10) limit) (s1 :: 'db)))"

definition engine_vector_search where
  "engine_vector_search S E database collection query index_name field_path limit s =
     (case se_voyage E of
        None \<Rightarrow> (Inl (SNotConfigured ''Voyage AI client not configured''), s :: 'db)
      | Some client \<Rightarrow> vector_query S client database collection query index_name field_path limit s)"

definition vector_search_internal where
  "vector_search_internal S client database collection query limit s =
     vector_query S client database collection query ''default'' ''embedding'' limit (s :: 'db)"

definition fulltext_search_internal where
  "fulltext_search_internal S database collection query limit s =
     found MFulltext (op_aggregate (sl_bson S) (sl_driver S) database collection
       (build_fulltext_pipeline ''default'' query [''*''] limit) (s :: 'db))"

definition limit_only :: "i64 \<Rightarrow> find_options" where
  "limit_only limit = \<lparr>fo_limit = Some limit, fo_skip = None, fo_sort = None, fo_projection = None\<rparr>"

definition filter_fallback where
  "filter_fallback S database collection query limit s =
     (case op_find (sl_bson S) (sl_driver S) database collection
             [(''$text'', BDocument [(''$search'', BString query)])] (Some (limit_only limit)) (s :: 'db) of
        (Inr docs, s1) \<Rightarrow> found MFilter (Inr docs, s1)
      | (Inl _, s1) \<Rightarrow>
          found MFilter (op_find (sl_bson S) (sl_driver S) database collection [] (Some (limit_only limit)) s1))"

text \<open>An attempt counts when it found something; an error or nothing at all falls through.\<close>

definition or_else ::
  "(search_error + search_result) \<times> 'db \<Rightarrow> ('db \<Rightarrow> (search_error + search_result) \<times> 'db) \<Rightarrow> (search_error + search_result) \<times> 'db" where
  "or_else r next_attempt =
     (case r of
        (Inr result, s') \<Rightarrow> if sr_documents result \<noteq> [] then (Inr result, s') else next_attempt s'
      | (Inl _, s') \<Rightarrow> next_attempt s')"

definition fulltext_or_filter where
  "fulltext_or_filter S E database collection query limit s =
     (if ca_atlas_search (se_capabilities E) then
        or_else (fulltext_search_internal S database collection query limit (s :: 'db))
          (filter_fallback S database collection query limit)
      else filter_fallback S database collection query limit s)"

definition engine_search where
  "engine_search S E database collection query limit s =
     (case (if ca_atlas_vector_search (se_capabilities E) then se_voyage E else None) of
        Some client \<Rightarrow>
          or_else (vector_search_internal S client database collection query limit (s :: 'db))
            (fulltext_or_filter S E database collection query limit)
      | None \<Rightarrow> fulltext_or_filter S E database collection query limit s)"

subsection \<open>What a search answers\<close>

lemma found_Inr: "found m r = (Inr x, s) \<Longrightarrow> sr_method x = m \<and> sr_total x = length (sr_documents x) \<and> fst r = Inr (sr_documents x)"
  by (cases "fst r") (auto simp: found_def)

lemma vector_method:
  "vector_query S client db coll q i f n s = (Inr x, s') \<Longrightarrow> sr_method x = MVector \<and> sr_total x = length (sr_documents x)"
  by (auto simp: vector_query_def sbind_def split: prod.splits sum.splits dest!: found_Inr)

lemma found_method:
  "(\<exists>x. fst (found m r) = Inr x \<and> sr_method x = m \<and> sr_total x = length (sr_documents x)) \<or>
   (\<exists>t. fst (found m r) = Inl (SOperationError t))"
  by (cases "fst r") (auto simp: found_def)

lemma filter_is_found: "\<exists>r. filter_fallback S db coll q n s = found MFilter r"
  unfolding filter_fallback_def by (split prod.split, split sum.split) blast

lemma filter_method:
  "filter_fallback S db coll q n s = (r, s') \<Longrightarrow>
   (\<exists>x. r = Inr x \<and> sr_method x = MFilter \<and> sr_total x = length (sr_documents x)) \<or> (\<exists>m. r = Inl (SOperationError m))"
  using filter_is_found [of S db coll q n s] found_method [of MFilter] by (metis fst_conv)

lemma or_else_cases:
  assumes "or_else a b = (r, s')"
  obtains (First) x where "a = (Inr x, s')" "r = Inr x" "sr_documents x \<noteq> []"
    | (Next) "b (snd a) = (r, s')" "\<forall>x. fst a = Inr x \<longrightarrow> sr_documents x = []"
  using assms by (cases "a") (auto simp: or_else_def split: sum.splits if_splits)

text \<open>
  On a server without the search indexes and without a text index the query is not looked at:
  the answer is that of a find with an empty filter.
\<close>

lemma search_without_indexes_ignores_query:
  assumes "\<not> ca_atlas_vector_search (se_capabilities E)" and "\<not> ca_atlas_search (se_capabilities E)"
    and "op_find (sl_bson S) (sl_driver S) db coll [(''$text'', BDocument [(''$search'', BString q)])]
      (Some (limit_only n)) s = (Inl e, s1)"
  shows "engine_search S E db coll q n s =
    found MFilter (op_find (sl_bson S) (sl_driver S) db coll [] (Some (limit_only n)) s1)"
  using assms by (simp add: engine_search_def fulltext_or_filter_def filter_fallback_def)

text \<open>
  A search answers with the documents of one attempt only, and says which: documents found by
  vector or full text only when the server can do that (and an embedding client is there), and
  never an empty answer of these two; its total is the number of documents. A search that fails
  has failed in the last attempt, with the text of an operation error, whatever the attempts
  before it ended in.
\<close>

definition method_possible :: "search_engine \<Rightarrow> search_method \<Rightarrow> bool" where
  "method_possible E m =
     (case m of
        MVector \<Rightarrow> ca_atlas_vector_search (se_capabilities E) \<and> se_voyage E \<noteq> None
      | MFulltext \<Rightarrow> ca_atlas_search (se_capabilities E)
      | MFilter \<Rightarrow> True)"

definition honest_answer :: "search_engine \<Rightarrow> search_error + search_result \<Rightarrow> bool" where
  "honest_answer E r =
     (case r of
        Inl e \<Rightarrow> (\<exists>m. e = SOperationError m)
      | Inr x \<Rightarrow> method_possible E (sr_method x) \<and> sr_total x = length (sr_documents x) \<and>
          (sr_documents x = [] \<longrightarrow> sr_method x = MFilter))"

lemma filter_honest: "filter_fallback S db coll q n s = (r, s') \<Longrightarrow> honest_answer E r"
  using filter_method [of S db coll q n s r s'] by (auto simp: honest_answer_def method_possible_def)

lemma fulltext_honest: "fulltext_or_filter S E db coll q n s = (r, s') \<Longrightarrow> honest_answer E r"
  unfolding fulltext_or_filter_def
  by (auto split: if_splits elim!: or_else_cases dest: filter_honest
      simp: fulltext_search_internal_def honest_answer_def method_possible_def dest!: found_Inr)

theorem search_answers_honestly:
  "honest_answer E (fst (engine_search S E database collection query limit s))"
proof -
  obtain r s' where rs: "engine_search S E database collection query limit s = (r, s')" by fastforce
  show ?thesis
  proof (cases "ca_atlas_vector_search (se_capabilities E) \<and> se_voyage E \<noteq> None")
    case True
    then obtain client where "or_else (vector_search_internal S client database collection query limit s)
        (fulltext_or_filter S E database collection query limit) = (r, s')"
      using rs by (auto simp: engine_search_def)
    then show ?thesis
      using True rs
      by (auto elim!: or_else_cases dest: fulltext_honest dest!: vector_method
          simp: vector_search_internal_def honest_answer_def method_possible_def)
  next
    case False
    then have "fulltext_or_filter S E database collection query limit s = (r, s')"
      using rs by (auto simp: engine_search_def split: if_splits)
    then show ?thesis using fulltext_honest rs by fastforce
  qed
qed

end
