(* ===== verification/Grpc_Types.thy ===== *)
theory Grpc_Types
  imports Operations
begin

text \<open>
  The messages of the gRPC interface (\<open>proto/mongocore/v1\<close>) as the service uses them, and the
  conversions at the top of \<open>src/grpc/service.rs\<close>. A document, a filter and a stage travel as
  bytes; an absent message is \<open>None\<close>. Messages of the same shape share a record. The BSON
  reader and writer are parameters.
\<close>

subsection \<open>Status\<close>

datatype status_code =
    StInvalidArgument | StDeadlineExceeded | StNotFound | StResourceExhausted | StAborted
  | StUnimplemented | StInternal | StUnavailable

fun code_number :: "status_code \<Rightarrow> int" where
  "code_number StInvalidArgument = 3"
| "code_number StDeadlineExceeded = 4"
| "code_number StNotFound = 5"
| "code_number StResourceExhausted = 8"
| "code_number StAborted = 10"
| "code_number StUnimplemented = 12"
| "code_number StInternal = 13"
| "code_number StUnavailable = 14"

datatype status = Status (st_code: status_code) (st_message: string)

definition to_status :: "mongo_error \<Rightarrow> status" where
  "to_status err =
     (case err of
        ConfigError _ \<Rightarrow> Status StInternal (err_text err)
      | ConnectionError _ \<Rightarrow> Status StUnavailable (err_text err)
      | OperationError _ \<Rightarrow> Status StInternal (err_text err)
      | ValidationError _ \<Rightarrow> Status StInvalidArgument (err_text err)
      | TimeoutError _ \<Rightarrow> Status StDeadlineExceeded (err_text err)
      | IngestionError _ \<Rightarrow> Status StInternal (err_text err)
      | TransactionPipelineError _ \<Rightarrow> Status StAborted (err_text err))"

record pipeline_error =
  per_code :: int
  per_message :: string

definition to_pipeline_error :: "status \<Rightarrow> pipeline_error" where
  "to_pipeline_error s = \<lparr>per_code = code_number (st_code s), per_message = st_message s\<rparr>"

subsection \<open>Requests\<close>

record proto_find_options =
  po_limit :: "i64 option"
  po_skip :: "i64 option"
  po_sort :: "bytes option"
  po_projection :: "bytes option"

text \<open>\<open>FindRequest\<close> and \<open>FindOneRequest\<close>.\<close>

record find_request =
  fq_database :: string
  fq_collection :: string
  fq_filter :: "bytes option"
  fq_options :: "proto_find_options option"
  fq_transaction_id :: "string option"

record insert_request =
  iq_database :: string
  iq_collection :: string
  iq_document :: "bytes option"
  iq_transaction_id :: "string option"

record insert_many_request =
  mq_database :: string
  mq_collection :: string
  mq_documents :: "bytes list"
  mq_transaction_id :: "string option"

text \<open>\<open>UpdateRequest\<close> and \<open>UpdateManyRequest\<close>.\<close>

record update_request =
  uq_database :: string
  uq_collection :: string
  uq_filter :: "bytes option"
  uq_update :: "bytes option"
  uq_upsert :: bool
  uq_transaction_id :: "string option"

text \<open>\<open>DeleteRequest\<close> and \<open>DeleteManyRequest\<close>.\<close>

record delete_request =
  dq_database :: string
  dq_collection :: string
  dq_filter :: "bytes option"
  dq_transaction_id :: "string option"

record proto_fam_options =
  pf_return_document :: i32
  pf_upsert :: bool
  pf_sort :: "bytes option"

record find_and_modify_request =
  xq_database :: string
  xq_collection :: string
  xq_filter :: "bytes option"
  xq_update :: "bytes option"
  xq_options :: "proto_fam_options option"
  xq_transaction_id :: "string option"

record aggregate_request =
  aq_database :: string
  aq_collection :: string
  aq_pipeline :: "bytes list option"
  aq_transaction_id :: "string option"

record command_request =
  cq_database :: string
  cq_command :: "bytes option"
  cq_allow_all :: bool

record search_request =
  sq_database :: string
  sq_collection :: string
  sq_query :: string
  sq_limit :: i64

record create_index_request =
  kq_database :: string
  kq_collection :: string
  kq_keys :: "bytes option"
  kq_options :: "index_options option"

subsection \<open>Responses\<close>

record analytics_response =
  ar_total_operations :: i64
  ar_total_errors :: i64
  ar_error_rate :: f64
  ar_p50 :: f64
  ar_p95 :: f64
  ar_p99 :: f64
  ar_top_operations :: "(string \<times> i64) list"
  ar_top_collections :: "(string \<times> i64) list"

text \<open>
  The response messages; those with metadata carry the search method, which is empty here.
\<close>

datatype response =
    RFind "bytes list" string
  | RFindOne "bytes option" string
  | RInsert string
  | RInsertMany "string list" i64
  | RUpdate i64 i64 "string option"
  | RUpdateMany i64 i64 "string option"
  | RDelete i64
  | RDeleteMany i64
  | RFindAndModify "bytes option"
  | RAggregate "bytes list" string
  | RSearch "bytes list" string i64
  | RBeginTransaction string
  | RCommitTransaction
  | RAbortTransaction
  | RCreateCollection
  | RCreateIndex string
  | RCountDocuments i64
  | RDropCollection bool
  | RListDatabases "string list"
  | RListCollections "string list"
  | RRunCommand "bytes option"
  | RGetAnalytics analytics_response

subsection \<open>Conversions\<close>

record proto_lib =
  pl_from_reader :: "bytes \<Rightarrow> string + document"
  pl_to_writer :: "document \<Rightarrow> string + bytes"
  pl_show_bson :: "bson \<Rightarrow> string"
  pl_read_filter :: "string \<Rightarrow> string + document"

definition decode_bson :: "proto_lib \<Rightarrow> bytes \<Rightarrow> status + document" where
  "decode_bson P data = map_err (\<lambda>e. Status StInvalidArgument (''Invalid BSON: '' @ e)) (pl_from_reader P data)"

definition encode_bson :: "proto_lib \<Rightarrow> document \<Rightarrow> status + bytes" where
  "encode_bson P d = map_err (\<lambda>e. Status StInternal (''Failed to encode BSON: '' @ e)) (pl_to_writer P d)"

definition proto_doc_to_bson :: "proto_lib \<Rightarrow> bytes \<Rightarrow> status + document" where
  "proto_doc_to_bson P d = decode_bson P d"

definition bson_to_proto_doc :: "proto_lib \<Rightarrow> document \<Rightarrow> status + bytes" where
  "bson_to_proto_doc P d = encode_bson P d"

definition proto_filter_to_bson :: "proto_lib \<Rightarrow> bytes option \<Rightarrow> status + document" where
  "proto_filter_to_bson P f =
     (case f of None \<Rightarrow> Inr [] | Some data \<Rightarrow> if data \<noteq> [] then decode_bson P data else Inr [])"

definition optional_bson :: "proto_lib \<Rightarrow> bytes option \<Rightarrow> status + document option" where
  "optional_bson P x =
     (case x of
        None \<Rightarrow> Inr None
      | Some data \<Rightarrow> if data \<noteq> [] then rbind (decode_bson P data) (\<lambda>d. Inr (Some d)) else Inr None)"

text \<open>\<open>as u64\<close> keeps the bits of a signed number.\<close>

definition convert_find_options :: "proto_lib \<Rightarrow> proto_find_options option \<Rightarrow> status + find_options option" where
  "convert_find_options P opts =
     (case opts of
        None \<Rightarrow> Inr None
      | Some o' \<Rightarrow>
          rbind (optional_bson P (po_sort o')) (\<lambda>sort_doc.
          rbind (optional_bson P (po_projection o')) (\<lambda>projection.
            Inr (Some \<lparr>fo_limit = po_limit o', fo_skip = po_skip o', fo_sort = sort_doc, fo_projection = projection\<rparr>))))"

text \<open>A missing message that has to be there.\<close>

definition required_bson :: "proto_lib \<Rightarrow> string \<Rightarrow> bytes option \<Rightarrow> status + document" where
  "required_bson P missing x =
     rbind (ok_or (Status StInvalidArgument missing) x) (\<lambda>d. proto_doc_to_bson P d)"

text \<open>The sort document of find-and-modify is dropped when it cannot be read.\<close>

definition convert_fam_options :: "proto_lib \<Rightarrow> proto_fam_options option \<Rightarrow> fam_options option" where
  "convert_fam_options P opts =
     map_option (\<lambda>o'. \<lparr>fam_return = (if pf_return_document o' = 0 then Before else After), fam_upsert = pf_upsert o',
         fam_sort = (case pf_sort o' of
             None \<Rightarrow> None
           | Some data \<Rightarrow> if data = [] then None else (case decode_bson P data of Inl _ \<Rightarrow> None | Inr d \<Rightarrow> Some d))\<rparr>) opts"

definition decode_stages :: "proto_lib \<Rightarrow> bytes list option \<Rightarrow> status + document list" where
  "decode_stages P p = (case p of None \<Rightarrow> Inr [] | Some stages \<Rightarrow> collect (decode_bson P) stages)"

definition encode_documents :: "proto_lib \<Rightarrow> document list \<Rightarrow> status + bytes list" where
  "encode_documents P docs = collect (bson_to_proto_doc P) docs"

definition encode_optional :: "proto_lib \<Rightarrow> document option \<Rightarrow> status + bytes option" where
  "encode_optional P d = (case d of None \<Rightarrow> Inr None | Some x \<Rightarrow> rbind (bson_to_proto_doc P x) (\<lambda>b. Inr (Some b)))"

lemmas conversion_defs =
  decode_bson_def encode_bson_def proto_doc_to_bson_def bson_to_proto_doc_def proto_filter_to_bson_def
  optional_bson_def convert_find_options_def required_bson_def decode_stages_def

text \<open>What cannot be read in a request is an invalid argument, what cannot be written an internal error.\<close>

lemma decode_fails: "decode_bson P d = Inl s \<Longrightarrow> st_code s = StInvalidArgument"
  by (cases "pl_from_reader P d") (auto simp: decode_bson_def)

lemma encode_fails: "encode_bson P d = Inl s \<Longrightarrow> st_code s = StInternal"
  by (cases "pl_to_writer P d") (auto simp: encode_bson_def)

end
