(* ===== verification/Grpc_Service.thy ===== *)
theory Grpc_Service
  imports Grpc_Types Search Tenant Txn_Pipeline Analytics Ingest_Lifecycle
begin

text \<open>
  The gRPC service (\<open>src/grpc/service.rs\<close>): its state, what every call does first, and the calls
  on documents, transactions and collections. Each operation exists twice in the source, as a
  call of its own and as an operation of a pipeline (\<open>pipeline_find\<close> and so on); the two do the
  same between reading the request and writing the response, which is said once here (the
  record \<open>operation\<close>), and differ in what is around it (\<open>recorded\<close>, \<open>unrecorded\<close> and \<open>in_pipeline\<close>).
  The sessions of the driver are numbered; an open transaction is the number of its session.
\<close>

subsection \<open>State and parameters\<close>

record ('db, 'f) service =
  sv_engine :: "'db ingest_state"
  sv_tasks :: "'f ingest_task list"
  sv_watches :: "watch_handle list"
  sv_transactions :: "string \<Rightarrow> nat option"
  sv_analytics :: "collector option"
  sv_quota :: "quota_manager option"
  sv_pool :: connection_pool
  sv_languages :: "string set"

record ('db, 's, 'f) service_lib =
  gl_proto :: proto_lib
  gl_search :: "'db search_lib"
  gl_engine :: search_engine
  gl_json :: json_lib
  gl_client :: "'db client_lib"
  gl_session :: "nat \<Rightarrow> 'db session_driver"
  gl_new_session :: "'db \<Rightarrow> nat"
  gl_uuid :: "'db \<Rightarrow> string"
  gl_clock :: "'db \<Rightarrow> nat"
  gl_floats :: float_lib
  gl_list_databases :: "'db \<Rightarrow> (string + string list) \<times> 'db"
  gl_ingestion :: "(('f, 's, 'db) source_lib \<times> ('s, 'db) ingest_lib) option"
  gl_watcher :: "watch_lib option"

abbreviation gl_driver :: "('db, 's, 'f) service_lib \<Rightarrow> 'db driver" where
  "gl_driver G \<equiv> sl_driver (gl_search G)"

abbreviation gl_bson :: "('db, 's, 'f) service_lib \<Rightarrow> bson_lib" where
  "gl_bson G \<equiv> sl_bson (gl_search G)"

abbreviation sv_db :: "('db, 'f) service \<Rightarrow> 'db" where
  "sv_db sv \<equiv> is_world (sv_engine sv)"

definition set_sv_db :: "'db \<Rightarrow> ('db, 'f) service \<Rightarrow> ('db, 'f) service" where
  "set_sv_db s sv = sv\<lparr>sv_engine := (sv_engine sv)\<lparr>is_world := s\<rparr>\<rparr>"

definition on_db :: "('db \<Rightarrow> 'r \<times> 'db) \<Rightarrow> ('db, 'f) service \<Rightarrow> 'r \<times> ('db, 'f) service" where
  "on_db f sv = (case f (sv_db sv) of (r, s') \<Rightarrow> (r, set_sv_db s' sv))"

type_synonym metadata = "string \<Rightarrow> bytes option"

subsection \<open>What a call does first and last\<close>

definition append_client_language ::
  "('db, 's, 'f) service_lib \<Rightarrow> metadata \<Rightarrow> ('db, 'f) service \<Rightarrow> ('db, 'f) service" where
  "append_client_language G meta sv =
     (case Option.bind (meta ''x-client-language'') header_str of
        None \<Rightarrow> sv
      | Some lang \<Rightarrow>
          if lang \<in> sv_languages sv then sv
          else
            (case append_interface_metadata (gl_client G) lang (sv_pool sv) (sv_db sv) of
               (pool, s') \<Rightarrow> (set_sv_db s' sv)\<lparr>sv_pool := pool, sv_languages := insert lang (sv_languages sv)\<rparr>))"

definition check_tenant_quota ::
  "('db, 's, 'f) service_lib \<Rightarrow> metadata \<Rightarrow> ('db, 'f) service \<Rightarrow> (status + unit) \<times> ('db, 'f) service" where
  "check_tenant_quota G meta sv =
     (case sv_quota sv of
        None \<Rightarrow> (Inr (), sv)
      | Some q \<Rightarrow>
          (case tenant_id (from_headers meta) of
             None \<Rightarrow> (Inr (), sv)
           | Some tid \<Rightarrow>
               (case quota_try_acquire tid (gl_clock G (sv_db sv)) q of
                  (ok, q') \<Rightarrow>
                    (if ok then Inr ()
                     else Inl (Status StResourceExhausted
                       (''Rate limit exceeded for tenant '' @ [CHR 0x27] @ tid @ [CHR 0x27])),
                     sv\<lparr>sv_quota := Some q'\<rparr>))))"

definition record_analytics ::
  "('db, 's, 'f) service_lib \<Rightarrow> operation_kind \<Rightarrow> string \<Rightarrow> string \<Rightarrow> nat \<Rightarrow> bool \<Rightarrow> ('db, 'f) service \<Rightarrow> ('db, 'f) service" where
  "record_analytics G op db coll latency success sv =
     sv\<lparr>sv_analytics := map_option (record_event (event_new op db coll latency success (gl_clock G (sv_db sv)))) (sv_analytics sv)\<rparr>"

text \<open>
  An operation: how a request is read (which may end the call), what is done, the status of
  its failure, and the response.
\<close>

record ('sv, 'a, 'e, 'b) operation =
  opn_decode :: "'sv \<Rightarrow> status + 'a"
  opn_run :: "'a \<Rightarrow> 'sv \<Rightarrow> ('e + 'b) \<times> 'sv"
  opn_fail :: "'e \<Rightarrow> status"
  opn_reply :: "'b \<Rightarrow> status + response"

definition finish :: "('sv, 'a, 'e, 'b) operation \<Rightarrow> 'e + 'b \<Rightarrow> status + response" where
  "finish op r = rbind (map_err (opn_fail op) r) (opn_reply op)"

definition is_ok :: "'e + 'b \<Rightarrow> bool" where
  "is_ok r = (case r of Inl _ \<Rightarrow> False | Inr _ \<Rightarrow> True)"

text \<open>A call that is counted against the quota and recorded.\<close>

definition recorded where
  "recorded G meta kind db coll op sv =
     (case check_tenant_quota G meta (append_client_language G meta sv) of
        (Inl e, sv1) \<Rightarrow> (Inl e, sv1)
      | (Inr _, sv1) \<Rightarrow>
          (case opn_decode op sv1 of
             Inl e \<Rightarrow> (Inl e, sv1)
           | Inr a \<Rightarrow>
               (case opn_run op a sv1 of
                  (r, sv2) \<Rightarrow>
                    (finish op r,
                     record_analytics G kind db coll (gl_clock G (sv_db sv2) - gl_clock G (sv_db sv1)) (is_ok r) sv2))))"

text \<open>The operation alone, and a call that is neither counted nor recorded.\<close>

definition perform where
  "perform op sv =
     (case opn_decode op sv of
        Inl e \<Rightarrow> (Inl e, sv)
      | Inr a \<Rightarrow> (case opn_run op a sv of (r, sv') \<Rightarrow> (finish op r, sv')))"

definition unrecorded where
  "unrecorded G meta op sv = perform op (append_client_language G meta sv)"

definition counted_only where
  "counted_only G meta op sv =
     (case check_tenant_quota G meta (append_client_language G meta sv) of
        (Inl e, sv1) \<Rightarrow> (Inl e, sv1)
      | (Inr _, sv1) \<Rightarrow> perform op sv1)"

definition in_pipeline where
  "in_pipeline op sv = (case perform op sv of (r, sv') \<Rightarrow> (map_err to_pipeline_error r, sv'))"

subsection \<open>Documents\<close>

definition transaction_of :: "string option \<Rightarrow> ('db, 'f) service \<Rightarrow> status + nat option" where
  "transaction_of txn_id sv =
     (case txn_id of
        None \<Rightarrow> Inr None
      | Some t \<Rightarrow>
          (case sv_transactions sv t of
             None \<Rightarrow> Inl (Status StNotFound (''Transaction not found: '' @ t))
           | Some h \<Rightarrow> Inr (Some h)))"

text \<open>Inside a transaction the options of a find are not used.\<close>

definition find_operation where
  "find_operation G req =
     \<lparr>opn_decode = (\<lambda>sv.
        rbind (proto_filter_to_bson (gl_proto G) (fq_filter req)) (\<lambda>f.
        rbind (convert_find_options (gl_proto G) (fq_options req)) (\<lambda>options.
        rbind (transaction_of (fq_transaction_id req) (sv :: ('db, 'f) service)) (\<lambda>h. Inr (f, options, h))))),
      opn_run = (\<lambda>(f, options, h).
        case h of
          Some i \<Rightarrow> on_db (txn_find (gl_session G i) (fq_database req) (fq_collection req) f)
        | None \<Rightarrow> on_db (op_find (gl_bson G) (gl_driver G) (fq_database req) (fq_collection req) f options)),
      opn_fail = to_status,
      opn_reply = (\<lambda>docs. rbind (encode_documents (gl_proto G) docs) (\<lambda>ds. Inr (RFind ds [])))\<rparr>"

definition find_one_operation where
  "find_one_operation G req =
     \<lparr>opn_decode = (\<lambda>sv :: ('db, 'f) service. proto_filter_to_bson (gl_proto G) (fq_filter req)),
      opn_run = (\<lambda>f. on_db (op_find_one (gl_driver G) (fq_database req) (fq_collection req) f)),
      opn_fail = to_status,
      opn_reply = (\<lambda>d. rbind (encode_optional (gl_proto G) d) (\<lambda>x. Inr (RFindOne x [])))\<rparr>"

definition insert_operation where
  "insert_operation G req =
     \<lparr>opn_decode = (\<lambda>sv.
        rbind (required_bson (gl_proto G) ''Missing document'' (iq_document req)) (\<lambda>d.
        rbind (transaction_of (iq_transaction_id req) (sv :: ('db, 'f) service)) (\<lambda>h. Inr (d, h)))),
      opn_run = (\<lambda>(d, h).
        case h of
          Some i \<Rightarrow> on_db (txn_insert (gl_session G i) (iq_database req) (iq_collection req) d)
        | None \<Rightarrow> on_db (op_insert (gl_driver G) (iq_database req) (iq_collection req) d)),
      opn_fail = to_status,
      opn_reply = (\<lambda>oid. Inr (RInsert (pl_show_bson (gl_proto G) oid)))\<rparr>"

definition insert_many_operation where
  "insert_many_operation G req =
     \<lparr>opn_decode = (\<lambda>sv :: ('db, 'f) service. collect (proto_doc_to_bson (gl_proto G)) (mq_documents req)),
      opn_run = (\<lambda>docs. on_db (op_insert_many (gl_driver G) (mq_database req) (mq_collection req) docs)),
      opn_fail = to_status,
      opn_reply = (\<lambda>ids. Inr (RInsertMany (map (\<lambda>i. pl_show_bson (gl_proto G) (snd i)) ids) (word_of_nat (length ids))))\<rparr>"

definition update_arguments where
  "update_arguments G flt upd =
     rbind (proto_filter_to_bson (gl_proto G) flt) (\<lambda>f.
     rbind (required_bson (gl_proto G) ''Missing update document'' upd) (\<lambda>u. Inr (f, u)))"

definition upserted_text where
  "upserted_text G x = map_option (pl_show_bson (gl_proto G)) x"

definition update_operation where
  "update_operation G req =
     \<lparr>opn_decode = (\<lambda>sv.
        rbind (update_arguments G (uq_filter req) (uq_update req)) (\<lambda>(f, u).
        rbind (transaction_of (uq_transaction_id req) (sv :: ('db, 'f) service)) (\<lambda>h. Inr (f, u, h)))),
      opn_run = (\<lambda>(f, u, h).
        case h of
          Some i \<Rightarrow> on_db (txn_update (gl_session G i) (uq_database req) (uq_collection req) f u)
        | None \<Rightarrow> on_db (\<lambda>s. case op_update (gl_driver G) (uq_database req) (uq_collection req) f u s of
            (r, s') \<Rightarrow> (rbind r (\<lambda>c. Inr \<lparr>uo_matched = matched_count c, uo_modified = modified_count c,
               uo_upserted = upsert_id c\<rparr>), s'))),
      opn_fail = to_status,
      opn_reply = (\<lambda>c. Inr (RUpdate (uo_matched c) (uo_modified c) (upserted_text G (uo_upserted c))))\<rparr>"

definition update_many_operation where
  "update_many_operation G req =
     \<lparr>opn_decode = (\<lambda>sv :: ('db, 'f) service. update_arguments G (uq_filter req) (uq_update req)),
      opn_run = (\<lambda>(f, u). on_db (op_update_many (gl_driver G) (uq_database req) (uq_collection req) f u)),
      opn_fail = to_status,
      opn_reply = (\<lambda>c. Inr (RUpdateMany (matched_count c) (modified_count c) (upserted_text G (upsert_id c))))\<rparr>"

definition delete_operation where
  "delete_operation G req =
     \<lparr>opn_decode = (\<lambda>sv.
        rbind (proto_filter_to_bson (gl_proto G) (dq_filter req)) (\<lambda>f.
        rbind (transaction_of (dq_transaction_id req) (sv :: ('db, 'f) service)) (\<lambda>h. Inr (f, h)))),
      opn_run = (\<lambda>(f, h).
        case h of
          Some i \<Rightarrow> on_db (txn_delete (gl_session G i) (dq_database req) (dq_collection req) f)
        | None \<Rightarrow> on_db (op_delete (gl_driver G) (dq_database req) (dq_collection req) f)),
      opn_fail = to_status,
      opn_reply = (\<lambda>n. Inr (RDelete n))\<rparr>"

definition delete_many_operation where
  "delete_many_operation G req =
     \<lparr>opn_decode = (\<lambda>sv :: ('db, 'f) service. proto_filter_to_bson (gl_proto G) (dq_filter req)),
      opn_run = (\<lambda>f. on_db (op_delete_many (gl_driver G) (dq_database req) (dq_collection req) f)),
      opn_fail = to_status,
      opn_reply = (\<lambda>n. Inr (RDeleteMany n))\<rparr>"

definition find_and_modify_operation where
  "find_and_modify_operation G req =
     \<lparr>opn_decode = (\<lambda>sv :: ('db, 'f) service. update_arguments G (xq_filter req) (xq_update req)),
      opn_run = (\<lambda>(f, u). on_db (op_find_and_modify (gl_driver G) (xq_database req) (xq_collection req) f u
        (convert_fam_options (gl_proto G) (xq_options req)))),
      opn_fail = to_status,
      opn_reply = (\<lambda>d. rbind (encode_optional (gl_proto G) d) (\<lambda>x. Inr (RFindAndModify x)))\<rparr>"

definition aggregate_operation where
  "aggregate_operation G req =
     \<lparr>opn_decode = (\<lambda>sv :: ('db, 'f) service. decode_stages (gl_proto G) (aq_pipeline req)),
      opn_run = (\<lambda>p. on_db (op_aggregate (gl_bson G) (gl_driver G) (aq_database req) (aq_collection req) p)),
      opn_fail = to_status,
      opn_reply = (\<lambda>docs. rbind (encode_documents (gl_proto G) docs) (\<lambda>ds. Inr (RAggregate ds [])))\<rparr>"

fun method_name :: "search_method \<Rightarrow> string" where
  "method_name MVector = ''vector''"
| "method_name MFulltext = ''fulltext''"
| "method_name MFilter = ''filter''"

definition search_operation where
  "search_operation G req =
     \<lparr>opn_decode = (\<lambda>sv :: ('db, 'f) service. Inr (if sint (sq_limit req) > 0 then sq_limit req else 10)),
      opn_run = (\<lambda>n. on_db (engine_search (gl_search G) (gl_engine G) (sq_database req) (sq_collection req) (sq_query req) n)),
      opn_fail = (\<lambda>e. Status StInternal (''Search error: '' @ search_text e)),
      opn_reply = (\<lambda>r. rbind (encode_documents (gl_proto G) (sr_documents r)) (\<lambda>ds.
        Inr (RSearch ds (method_name (sr_method r)) (word_of_nat (sr_total r)))))\<rparr>"

definition command_operation where
  "command_operation G req =
     \<lparr>opn_decode = (\<lambda>sv :: ('db, 'f) service. required_bson (gl_proto G) ''Missing command document'' (cq_command req)),
      opn_run = (\<lambda>c. on_db (run_command (gl_driver G) (cq_database req) c (if cq_allow_all req then AllowAll else BlockDangerous))),
      opn_fail = to_status,
      opn_reply = (\<lambda>d. rbind (bson_to_proto_doc (gl_proto G) d) (\<lambda>x. Inr (RRunCommand (Some x))))\<rparr>"

subsection \<open>Transactions\<close>

text \<open>A transaction is taken out of the table before it is committed or aborted.\<close>

definition begin_operation where
  "begin_operation G =
     \<lparr>opn_decode = (\<lambda>sv :: ('db, 'f) service. Inr (gl_new_session G (sv_db sv))),
      opn_run = (\<lambda>i sv.
        case on_db (txn_begin (gl_session G i)) sv of
          (Inl e, sv') \<Rightarrow> (Inl e, sv')
        | (Inr _, sv') \<Rightarrow>
            (let t = gl_uuid G (sv_db sv') in
             (Inr t, sv'\<lparr>sv_transactions := (sv_transactions sv')(t \<mapsto> i)\<rparr>))),
      opn_fail = to_status,
      opn_reply = (\<lambda>t. Inr (RBeginTransaction t))\<rparr>"

definition find_transaction :: "string \<Rightarrow> ('db, 'f) service \<Rightarrow> status + nat" where
  "find_transaction t sv = ok_or (Status StNotFound (''Transaction not found: '' @ t)) (sv_transactions sv t)"

definition forget_transaction :: "string \<Rightarrow> ('db, 'f) service \<Rightarrow> ('db, 'f) service" where
  "forget_transaction t sv = sv\<lparr>sv_transactions := (sv_transactions sv)(t := None)\<rparr>"

definition commit_operation where
  "commit_operation G t =
     \<lparr>opn_decode = find_transaction t,
      opn_run = (\<lambda>i sv. on_db (txn_commit (gl_session G i)) (forget_transaction t (sv :: ('db, 'f) service))),
      opn_fail = to_status,
      opn_reply = (\<lambda>_. Inr RCommitTransaction)\<rparr>"

definition abort_operation where
  "abort_operation G t =
     \<lparr>opn_decode = find_transaction t,
      opn_run = (\<lambda>i sv. on_db (txn_abort (gl_session G i)) (forget_transaction t (sv :: ('db, 'f) service))),
      opn_fail = to_status,
      opn_reply = (\<lambda>_. Inr RAbortTransaction)\<rparr>"

subsection \<open>Collections and analytics\<close>

definition create_collection_operation where
  "create_collection_operation G db coll =
     \<lparr>opn_decode = (\<lambda>sv :: ('db, 'f) service. Inr ()),
      opn_run = (\<lambda>_. on_db (op_create_collection (gl_driver G) db coll)),
      opn_fail = to_status,
      opn_reply = (\<lambda>_. Inr RCreateCollection)\<rparr>"

definition create_index_operation where
  "create_index_operation G req =
     \<lparr>opn_decode = (\<lambda>sv :: ('db, 'f) service. required_bson (gl_proto G) ''Missing keys document'' (kq_keys req)),
      opn_run = (\<lambda>keys. on_db (op_create_index (gl_driver G) (kq_database req) (kq_collection req) keys (kq_options req))),
      opn_fail = to_status,
      opn_reply = (\<lambda>name. Inr (RCreateIndex name))\<rparr>"

definition count_operation where
  "count_operation G db coll flt =
     \<lparr>opn_decode = (\<lambda>sv :: ('db, 'f) service.
        if flt = [] then Inr []
        else map_err (\<lambda>e. Status StInvalidArgument (''Invalid filter JSON: '' @ e)) (pl_read_filter (gl_proto G) flt)),
      opn_run = (\<lambda>f. on_db (op_count_documents (gl_driver G) db coll f)),
      opn_fail = to_status,
      opn_reply = (\<lambda>n. Inr (RCountDocuments n))\<rparr>"

definition drop_collection_operation where
  "drop_collection_operation G db coll =
     \<lparr>opn_decode = (\<lambda>sv :: ('db, 'f) service. Inr ()),
      opn_run = (\<lambda>_. on_db (op_drop_collection (gl_driver G) db coll)),
      opn_fail = to_status,
      opn_reply = (\<lambda>_. Inr (RDropCollection True))\<rparr>"

definition not_available where
  "not_available message =
     \<lparr>opn_decode = (\<lambda>sv :: ('db, 'f) service. Inl (Status StUnimplemented message)),
      opn_run = (\<lambda>_ :: unit. \<lambda>sv. (Inr (), sv)),
      opn_fail = to_status,
      opn_reply = (\<lambda>_. Inl (Status StUnimplemented message))\<rparr>"

definition list_databases_operation where
  "list_databases_operation G =
     \<lparr>opn_decode = (\<lambda>sv :: ('db, 'f) service. Inr ()),
      opn_run = (\<lambda>_. on_db (gl_list_databases G)),
      opn_fail = (\<lambda>e. Status StInternal (''Failed to list databases: '' @ e)),
      opn_reply = (\<lambda>names. Inr (RListDatabases names))\<rparr>"

definition list_collections_operation where
  "list_collections_operation G db =
     \<lparr>opn_decode = (\<lambda>sv :: ('db, 'f) service. Inr ()),
      opn_run = (\<lambda>_. on_db (drv_list_collections (gl_driver G) db)),
      opn_fail = (\<lambda>e. Status StInternal (''Failed to list collections: '' @ err_message e)),
      opn_reply = (\<lambda>names. Inr (RListCollections names))\<rparr>"

definition analytics_answer :: "analytics_summary \<Rightarrow> analytics_response" where
  "analytics_answer su =
     \<lparr>ar_total_operations = word_of_nat (su_total_operations su), ar_total_errors = word_of_nat (su_total_errors su),
      ar_error_rate = su_error_rate su, ar_p50 = su_p50 su, ar_p95 = su_p95 su, ar_p99 = su_p99 su,
      ar_top_operations = map (\<lambda>(op, n). (kind_name op, word_of_nat n)) (su_top_operations su),
      ar_top_collections = map (\<lambda>(coll, n). (coll, word_of_nat n)) (su_top_collections su)\<rparr>"

definition get_analytics_operation where
  "get_analytics_operation G =
     \<lparr>opn_decode = (\<lambda>sv :: ('db, 'f) service.
        ok_or (Status StUnavailable ''Analytics not enabled'') (sv_analytics sv)),
      opn_run = (\<lambda>c sv. (Inr (aggregate_events (gl_floats G) (snapshot c)), sv)),
      opn_fail = to_status,
      opn_reply = (\<lambda>su. Inr (RGetAnalytics (analytics_answer su)))\<rparr>"

subsection \<open>The calls\<close>

definition rpc_find where
  "rpc_find G meta req sv = recorded G meta OkFind (fq_database req) (fq_collection req) (find_operation G req) sv"

definition rpc_find_one where
  "rpc_find_one G meta req sv = recorded G meta OkFindOne (fq_database req) (fq_collection req) (find_one_operation G req) sv"

definition rpc_insert where
  "rpc_insert G meta req sv = recorded G meta OkInsert (iq_database req) (iq_collection req) (insert_operation G req) sv"

definition rpc_insert_many where
  "rpc_insert_many G meta req sv =
     recorded G meta OkInsertMany (mq_database req) (mq_collection req) (insert_many_operation G req) sv"

definition rpc_update where
  "rpc_update G meta req sv = recorded G meta OkUpdate (uq_database req) (uq_collection req) (update_operation G req) sv"

definition rpc_update_many where
  "rpc_update_many G meta req sv =
     recorded G meta OkUpdateMany (uq_database req) (uq_collection req) (update_many_operation G req) sv"

definition rpc_delete where
  "rpc_delete G meta req sv = recorded G meta OkDelete (dq_database req) (dq_collection req) (delete_operation G req) sv"

definition rpc_delete_many where
  "rpc_delete_many G meta req sv =
     recorded G meta OkDeleteMany (dq_database req) (dq_collection req) (delete_many_operation G req) sv"

definition rpc_find_and_modify where
  "rpc_find_and_modify G meta req sv =
     recorded G meta OkFindAndModify (xq_database req) (xq_collection req) (find_and_modify_operation G req) sv"

definition rpc_aggregate where
  "rpc_aggregate G meta req sv =
     recorded G meta OkAggregate (aq_database req) (aq_collection req) (aggregate_operation G req) sv"

definition rpc_search where
  "rpc_search G meta req sv = recorded G meta OkSearch (sq_database req) (sq_collection req) (search_operation G req) sv"

definition rpc_run_command where
  "rpc_run_command G meta req sv = recorded G meta OkRunCommand (cq_database req) [] (command_operation G req) sv"

definition rpc_count_documents where
  "rpc_count_documents G meta db coll flt sv = recorded G meta OkFind db coll (count_operation G db coll flt) sv"

definition rpc_drop_collection where
  "rpc_drop_collection G meta db coll sv = counted_only G meta (drop_collection_operation G db coll) sv"

definition rpc_embed_and_store where
  "rpc_embed_and_store G meta sv =
     counted_only G meta
       (not_available ''EmbedAndStore is not yet available via gRPC. Use the MCP interface for embedding operations.'') sv"

definition rpc_semantic_search where
  "rpc_semantic_search G meta sv =
     counted_only G meta
       (not_available ''SemanticSearch is not yet available via gRPC. Use the MCP interface for semantic search operations.'') sv"

definition rpc_begin_transaction where
  "rpc_begin_transaction G meta sv = unrecorded G meta (begin_operation G) sv"

definition rpc_commit_transaction where
  "rpc_commit_transaction G meta t sv = unrecorded G meta (commit_operation G t) sv"

definition rpc_abort_transaction where
  "rpc_abort_transaction G meta t sv = unrecorded G meta (abort_operation G t) sv"

definition rpc_create_collection where
  "rpc_create_collection G meta db coll sv = unrecorded G meta (create_collection_operation G db coll) sv"

definition rpc_create_index where
  "rpc_create_index G meta req sv = unrecorded G meta (create_index_operation G req) sv"

definition rpc_list_databases where
  "rpc_list_databases G meta sv = unrecorded G meta (list_databases_operation G) sv"

definition rpc_list_collections where
  "rpc_list_collections G meta db sv = unrecorded G meta (list_collections_operation G db) sv"

definition rpc_get_analytics where
  "rpc_get_analytics G meta sv = unrecorded G meta (get_analytics_operation G) sv"

end
