(* ===== verification/Grpc_Pipeline.thy ===== *)
theory Grpc_Pipeline
  imports Grpc_Service
begin

text \<open>
  Pipelines over gRPC (\<open>src/grpc/service.rs\<close>): the dispatch of one operation, the pipeline of many,
  and the transactional pipeline with the conversion of its steps. The operations of a pipeline
  run concurrently as far as the semaphore allows; here each is one step, and the order of the
  steps, with whether all were done before the deadline, is a parameter of the call.
\<close>

subsection \<open>One operation\<close>

datatype pipeline_operation =
    OpFind find_request
  | OpFindOne find_request
  | OpInsert insert_request
  | OpInsertMany insert_many_request
  | OpUpdate update_request
  | OpUpdateMany update_request
  | OpDelete delete_request
  | OpDeleteMany delete_request
  | OpAggregate aggregate_request
  | OpFindAndModify find_and_modify_request
  | OpRunCommand command_request
  | OpSearch search_request
  | OpCreateCollection string string
  | OpCreateIndex create_index_request
  | OpListDatabases
  | OpListCollections string
  | OpBeginTransaction
  | OpCommitTransaction string
  | OpAbortTransaction string
  | OpGetAnalytics

definition execute_pipeline_op ::
  "('db, 's, 'f) service_lib \<Rightarrow> pipeline_operation option \<Rightarrow> ('db, 'f) service \<Rightarrow>
   (pipeline_error + response) \<times> ('db, 'f) service" where
  "execute_pipeline_op G op sv =
     (case op of
        None \<Rightarrow> (Inl \<lparr>per_code = 3, per_message = ''Operation not specified''\<rparr>, sv)
      | Some operation \<Rightarrow>
          (case operation of
             OpFind req \<Rightarrow> in_pipeline (find_operation G req) sv
           | OpFindOne req \<Rightarrow> in_pipeline (find_one_operation G req) sv
           | OpInsert req \<Rightarrow> in_pipeline (insert_operation G req) sv
           | OpInsertMany req \<Rightarrow> in_pipeline (insert_many_operation G req) sv
           | OpUpdate req \<Rightarrow> in_pipeline (update_operation G req) sv
           | OpUpdateMany req \<Rightarrow> in_pipeline (update_many_operation G req) sv
           | OpDelete req \<Rightarrow> in_pipeline (delete_operation G req) sv
           | OpDeleteMany req \<Rightarrow> in_pipeline (delete_many_operation G req) sv
           | OpAggregate req \<Rightarrow> in_pipeline (aggregate_operation G req) sv
           | OpFindAndModify req \<Rightarrow> in_pipeline (find_and_modify_operation G req) sv
           | OpRunCommand req \<Rightarrow> in_pipeline (command_operation G req) sv
           | OpSearch req \<Rightarrow> in_pipeline (search_operation G req) sv
           | OpCreateCollection db coll \<Rightarrow> in_pipeline (create_collection_operation G db coll) sv
           | OpCreateIndex req \<Rightarrow> in_pipeline (create_index_operation G req) sv
           | OpListDatabases \<Rightarrow> in_pipeline (list_databases_operation G) sv
           | OpListCollections db \<Rightarrow> in_pipeline (list_collections_operation G db) sv
           | OpBeginTransaction \<Rightarrow> in_pipeline (begin_operation G) sv
           | OpCommitTransaction t \<Rightarrow> in_pipeline (commit_operation G t) sv
           | OpAbortTransaction t \<Rightarrow> in_pipeline (abort_operation G t) sv
           | OpGetAnalytics \<Rightarrow> in_pipeline (get_analytics_operation G) sv))"

subsection \<open>Many operations\<close>

definition DEFAULT_PIPELINE_MAX_OPS :: nat where "DEFAULT_PIPELINE_MAX_OPS = 10000"

type_synonym op_result = "pipeline_error + response"

record schedule =
  sc_order :: "nat list"
  sc_in_time :: bool

definition schedule_ok :: "schedule \<Rightarrow> nat \<Rightarrow> bool" where
  "schedule_ok sc n \<longleftrightarrow>
     distinct (sc_order sc) \<and> set (sc_order sc) \<subseteq> {..<n} \<and> (sc_in_time sc \<longrightarrow> set (sc_order sc) = {..<n})"

fun run_scheduled ::
  "('db, 's, 'f) service_lib \<Rightarrow> pipeline_operation option list \<Rightarrow> nat list \<Rightarrow> ('db, 'f) service \<Rightarrow>
   (nat \<times> op_result) list \<times> ('db, 'f) service" where
  "run_scheduled G ops [] sv = ([], sv)"
| "run_scheduled G ops (i # order) sv =
     (case execute_pipeline_op G (ops ! i) sv of
        (r, sv1) \<Rightarrow> (case run_scheduled G ops order sv1 of (rs, sv2) \<Rightarrow> ((i, r) # rs, sv2)))"

text \<open>\<open>join_all\<close> gives the results in the order of the operations.\<close>

definition in_order :: "nat \<Rightarrow> (nat \<times> op_result) list \<Rightarrow> (u32 \<times> op_result) list" where
  "in_order n rs = map (\<lambda>i. (word_of_nat i, the (map_of rs i))) [0..<n]"

definition result_is_error :: "u32 \<times> op_result \<Rightarrow> bool" where
  "result_is_error r = (\<not> is_ok (snd r))"

record pipeline_response =
  pr_results :: "(u32 \<times> op_result) list"
  pr_succeeded :: u32
  pr_failed :: u32

definition pipeline_summary :: "(u32 \<times> op_result) list \<Rightarrow> pipeline_response" where
  "pipeline_summary results =
     \<lparr>pr_results = results,
      pr_succeeded = word_of_nat (length (filter (\<lambda>r. \<not> result_is_error r) results)),
      pr_failed = word_of_nat (length (filter result_is_error results))\<rparr>"

definition rpc_pipeline where
  "rpc_pipeline G meta sc ops sv =
     (case check_tenant_quota G meta (append_client_language G meta sv) of
        (Inl e, sv1) \<Rightarrow> (Inl e, sv1)
      | (Inr _, sv1) \<Rightarrow>
          if ops = [] then (Inl (Status StInvalidArgument ''Pipeline must contain at least one operation''), sv1)
          else if length ops > DEFAULT_PIPELINE_MAX_OPS then
            (Inl (Status StInvalidArgument
               (''Pipeline exceeds maximum of '' @ show_nat DEFAULT_PIPELINE_MAX_OPS @ '' operations'')), sv1)
          else
            (case run_scheduled G ops (sc_order sc) sv1 of
               (rs, sv2) \<Rightarrow>
                 if \<not> sc_in_time sc then (Inl (Status StDeadlineExceeded ''Pipeline timeout exceeded''), sv2)
                 else
                   (let response = pipeline_summary (in_order (length ops) rs) in
                    (Inr response,
                     record_analytics G OkPipeline [] [] (gl_clock G (sv_db sv2) - gl_clock G (sv_db sv1))
                       (pr_failed response = 0) sv2))))"

subsection \<open>The transactional pipeline\<close>

datatype transaction_operation =
    TxFindOne find_request
  | TxFind find_request
  | TxInsert insert_request
  | TxInsertMany insert_many_request
  | TxUpdate update_request
  | TxUpdateMany update_request
  | TxDelete delete_request
  | TxDeleteMany delete_request
  | TxFindAndModify find_and_modify_request
  | TxAggregate aggregate_request

record transaction_step =
  ts_name :: string
  ts_database :: string
  ts_collection :: string
  ts_operation :: "transaction_operation option"

definition document_or_empty :: "proto_lib \<Rightarrow> bytes option \<Rightarrow> status + document" where
  "document_or_empty P x = (case x of None \<Rightarrow> Inr [] | Some d \<Rightarrow> proto_doc_to_bson P d)"

definition filter_json :: "json_lib \<Rightarrow> document \<Rightarrow> json" where
  "filter_json J f = JObject [(''filter'', doc_to_json J f)]"

definition filter_update_json :: "proto_lib \<Rightarrow> json_lib \<Rightarrow> bytes option \<Rightarrow> bytes option \<Rightarrow> status + json" where
  "filter_update_json P J flt upd =
     rbind (proto_filter_to_bson P flt) (\<lambda>f.
     rbind (document_or_empty P upd) (\<lambda>u.
       Inr (JObject [(''filter'', doc_to_json J f), (''update'', doc_to_json J u)])))"

text \<open>A stage that cannot be read becomes an empty document.\<close>

definition stage_json :: "proto_lib \<Rightarrow> json_lib \<Rightarrow> bytes \<Rightarrow> json" where
  "stage_json P J s = doc_to_json J (case decode_bson P s of Inr d \<Rightarrow> d | Inl _ \<Rightarrow> [])"

definition convert_operation ::
  "proto_lib \<Rightarrow> json_lib \<Rightarrow> transaction_operation \<Rightarrow> status + string \<times> json \<times> i64 option" where
  "convert_operation P J op =
     (case op of
        TxFindOne req \<Rightarrow>
          rbind (proto_filter_to_bson P (fq_filter req)) (\<lambda>f. Inr (''find_one'', filter_json J f, None))
      | TxFind req \<Rightarrow>
          rbind (proto_filter_to_bson P (fq_filter req)) (\<lambda>f.
            Inr (''find'', filter_json J f, Option.bind (fq_options req) po_limit))
      | TxInsert req \<Rightarrow>
          rbind (document_or_empty P (iq_document req)) (\<lambda>d.
            Inr (''insert'', JObject [(''document'', doc_to_json J d)], None))
      | TxInsertMany req \<Rightarrow>
          rbind (collect (\<lambda>d. rbind (proto_doc_to_bson P d) (\<lambda>x. Inr (doc_to_json J x))) (mq_documents req)) (\<lambda>docs.
            Inr (''insert_many'', JObject [(''documents'', JArray docs)], None))
      | TxUpdate req \<Rightarrow>
          rbind (filter_update_json P J (uq_filter req) (uq_update req)) (\<lambda>v. Inr (''update'', v, None))
      | TxUpdateMany req \<Rightarrow>
          rbind (filter_update_json P J (uq_filter req) (uq_update req)) (\<lambda>v. Inr (''update_many'', v, None))
      | TxDelete req \<Rightarrow>
          rbind (proto_filter_to_bson P (dq_filter req)) (\<lambda>f. Inr (''delete'', filter_json J f, None))
      | TxDeleteMany req \<Rightarrow>
          rbind (proto_filter_to_bson P (dq_filter req)) (\<lambda>f. Inr (''delete_many'', filter_json J f, None))
      | TxFindAndModify req \<Rightarrow>
          rbind (filter_update_json P J (xq_filter req) (xq_update req)) (\<lambda>v. Inr (''find_and_modify'', v, None))
      | TxAggregate req \<Rightarrow>
          Inr (''aggregate'',
            JObject [(''pipeline'', JArray (case aq_pipeline req of None \<Rightarrow> [] | Some ss \<Rightarrow> map (stage_json P J) ss))], None))"

definition convert_transaction_step :: "proto_lib \<Rightarrow> json_lib \<Rightarrow> transaction_step \<Rightarrow> status + step_def" where
  "convert_transaction_step P J st =
     rbind (ok_or (Status StInvalidArgument
              (''Step '' @ [CHR 0x27] @ ts_name st @ [CHR 0x27] @ '': missing operation'')) (ts_operation st)) (\<lambda>op.
     rbind (convert_operation P J op) (\<lambda>(t, v, limit).
       Inr \<lparr>step_name = ts_name st, step_db = ts_database st, step_coll = ts_collection st,
            operation_type = t, operation_json = v, find_limit = limit\<rparr>))"

record proto_txn_options =
  pt_read_concern :: "string option"
  pt_write_concern :: "string option"
  pt_max_time_ms :: "u64 option"

definition convert_txn_options :: "proto_txn_options option \<Rightarrow> txn_options" where
  "convert_txn_options opts =
     (case opts of
        None \<Rightarrow> default_txn_options
      | Some x \<Rightarrow>
          \<lparr>read_concern = pt_read_concern x, write_concern = pt_write_concern x,
           max_time_ms = (case pt_max_time_ms x of Some n \<Rightarrow> n | None \<Rightarrow> max_time_ms default_txn_options)\<rparr>)"

record txn_pipeline_response =
  tp_steps :: "(string \<times> bool) list"
  tp_total_steps :: u32
  tp_steps_completed :: u32
  tp_elapsed_ms :: u64

definition txn_failure_json :: "pipeline_failure \<Rightarrow> json" where
  "txn_failure_json f =
     JObject
       [(''failed_step'', JString (failed_step f)), (''step_index'', JNumber (PosInt (ucast (step_index f)))),
        (''reason'', JString (reason f)), (''steps_completed'', JArray (map JString (steps_completed f))),
        (''rolled_back'', JBool (rolled_back f))]"

text \<open>The events of a transactional pipeline: one of the operations, and one of the pipelines.\<close>

definition record_txn_pipeline where
  "record_txn_pipeline G steps started began success sv =
     (let sv' = record_analytics G OkPipeline [] [] (gl_clock G (sv_db sv) - started) success sv in
      sv'\<lparr>sv_analytics := map_option (record_pipeline
        \<lparr>pe_is_transaction = True, pe_steps = steps, pe_latency = gl_clock G (sv_db sv) - began, pe_success = success,
         pe_retries = 0, pe_timestamp = gl_clock G (sv_db sv)\<rparr>) (sv_analytics sv')\<rparr>)"

definition rpc_transaction_pipeline where
  "rpc_transaction_pipeline G meta steps options sv =
     (case check_tenant_quota G meta (append_client_language G meta sv) of
        (Inl e, sv1) \<Rightarrow> (Inl e, sv1)
      | (Inr _, sv1) \<Rightarrow>
          let started = gl_clock G (sv_db sv1) in
          (case collect (convert_transaction_step (gl_proto G) (gl_json G)) steps of
             Inl e \<Rightarrow> (Inl e, sv1)
           | Inr defs \<Rightarrow>
               (case on_db (execute_transaction_pipeline (gl_session G (gl_new_session G (sv_db sv1))) (gl_json G)
                       defs (convert_txn_options options)) sv1 of
                  (Inr result, sv2) \<Rightarrow>
                    (Inr \<lparr>tp_steps = map (\<lambda>r. (res_name r, res_success r)) (exec_steps result),
                          tp_total_steps = total_steps result, tp_steps_completed = steps_done result,
                          tp_elapsed_ms = elapsed_ms result\<rparr>,
                     record_txn_pipeline G (length defs) started started True sv2)
                | (Inl f, sv2) \<Rightarrow>
                    (Inl (Status StAborted (to_text (gl_json G) (txn_failure_json f))),
                     record_txn_pipeline G (length defs) started started False sv2))))"

end
