(* ===== verification/Grpc_Streams.thy ===== *)
theory Grpc_Streams
  imports Grpc_Service
begin

text \<open>
  The streaming calls (\<open>src/grpc/service.rs\<close>): documents of a query in batches, insertion of
  batches that arrive on a stream, and change streams. A cursor is what its successive advances
  give, each under the idle timeout; an incoming stream is the list of its messages; an outgoing
  stream is the list of the items it yields.
\<close>

subsection \<open>Documents in batches\<close>

definition STREAM_BATCH_SIZE :: u32 where "STREAM_BATCH_SIZE = 1000"
definition MIN_STREAM_BATCH_SIZE :: u32 where "MIN_STREAM_BATCH_SIZE = 1"
definition MAX_STREAM_BATCH_SIZE :: u32 where "MAX_STREAM_BATCH_SIZE = 10000"

definition stream_batch_size :: "u32 \<Rightarrow> u32" where
  "stream_batch_size n =
     (if n = 0 then STREAM_BATCH_SIZE else max MIN_STREAM_BATCH_SIZE (min n MAX_STREAM_BATCH_SIZE))"

type_synonym stream_cursor = "(driver_error + document) outcome list"

record document_batch =
  db_documents :: "bytes list"
  db_batch_index :: u32
  db_has_more :: bool

definition raw_bytes :: "bson_lib \<Rightarrow> document \<Rightarrow> bytes" where
  "raw_bytes B d = (case to_vec B d of Inr bs \<Rightarrow> bs | Inl _ \<Rightarrow> [])"

definition cursor_error :: "driver_error \<Rightarrow> status" where
  "cursor_error e = Status StInternal (''Cursor error: '' @ err_message e)"

fun batch_stream ::
  "bson_lib \<Rightarrow> nat \<Rightarrow> u32 \<Rightarrow> bytes list \<Rightarrow> stream_cursor \<Rightarrow> (status + document_batch) list" where
  "batch_stream B per_batch batch_index batch [] =
     [Inr \<lparr>db_documents = batch, db_batch_index = batch_index, db_has_more = False\<rparr>]"
| "batch_stream B per_batch batch_index batch (outcome.TimedOut # c) = [Inl (Status StDeadlineExceeded ''Stream idle timeout'')]"
| "batch_stream B per_batch batch_index batch (outcome.Done (Inl e) # c) = [Inl (cursor_error e)]"
| "batch_stream B per_batch batch_index batch (outcome.Done (Inr (Inl e)) # c) = [Inl (cursor_error e)]"
| "batch_stream B per_batch batch_index batch (outcome.Done (Inr (Inr d)) # c) =
     (let batch' = batch @ [raw_bytes B d] in
      if per_batch \<le> length batch' then
        Inr \<lparr>db_documents = batch', db_batch_index = batch_index, db_has_more = True\<rparr> #
          batch_stream B per_batch (batch_index + 1) [] c
      else batch_stream B per_batch batch_index batch' c)"

text \<open>The driver's part: opening cursors and change streams.\<close>

datatype change_kind = CkInsert | CkUpdate | CkDelete | CkReplace | CkInvalidate | CkOther string

record change_event =
  ce_kind :: change_kind
  ce_ns :: "(string \<times> string option) option"
  ce_full_document :: "document option"
  ce_update :: "(document \<times> string list) option"
  ce_document_key :: "document option"

record 'db stream_lib =
  st_find_cursor :: "string \<Rightarrow> string \<Rightarrow> document \<Rightarrow> find_options option \<Rightarrow> ('db, stream_cursor) untimed"
  st_aggregate_cursor :: "bool \<Rightarrow> string \<Rightarrow> string \<Rightarrow> document list \<Rightarrow> ('db, stream_cursor) untimed"
  st_watch :: "string \<Rightarrow> string option \<Rightarrow> document list \<Rightarrow> ('db, (driver_error + change_event) list) untimed"

definition find_cursor where
  "find_cursor W db coll f options s =
     (case st_find_cursor W db coll f options (s :: 'db) of (r, s') \<Rightarrow> (map_err from_driver_error r, s'))"

definition aggregate_cursor where
  "aggregate_cursor W db coll pipeline s =
     (case st_aggregate_cursor W (requires_local_read_concern pipeline) db coll pipeline (s :: 'db) of
        (r, s') \<Rightarrow> (map_err from_driver_error r, s'))"

text \<open>A call that opens a stream: read the request, open the cursor, send batches.\<close>

definition open_stream where
  "open_stream G meta decode opener requested sv =
     (case check_tenant_quota G meta (append_client_language G meta sv) of
        (Inl e, sv1) \<Rightarrow> (Inl e, sv1)
      | (Inr _, sv1) \<Rightarrow>
          (case decode of
             Inl e \<Rightarrow> (Inl e, sv1)
           | Inr a \<Rightarrow>
               (case on_db (opener a) sv1 of
                  (r, sv2) \<Rightarrow>
                    (rbind (map_err to_status r) (\<lambda>cursor.
                       Inr (batch_stream (gl_bson G) (unat (stream_batch_size requested)) 0 [] cursor)), sv2))))"

definition rpc_find_stream where
  "rpc_find_stream G W meta req requested sv =
     open_stream G meta
       (rbind (proto_filter_to_bson (gl_proto G) (fq_filter req)) (\<lambda>f.
        rbind (convert_find_options (gl_proto G) (fq_options req)) (\<lambda>options. Inr (f, options))))
       (\<lambda>(f, options). find_cursor W (fq_database req) (fq_collection req) f options) requested sv"

definition rpc_aggregate_stream where
  "rpc_aggregate_stream G W meta req requested sv =
     open_stream G meta (decode_stages (gl_proto G) (aq_pipeline req))
       (\<lambda>pipeline. aggregate_cursor W (aq_database req) (aq_collection req) pipeline) requested sv"

subsection \<open>Insertion of a stream\<close>

record insert_batch =
  ib_database :: string
  ib_collection :: string
  ib_documents :: "bytes list"

record insert_error =
  ie_index :: u32
  ie_message :: string
  ie_code :: i32

record insert_stream_response =
  is_total_inserted :: u64
  is_errors :: "insert_error list"

text \<open>The target is that of the first batch that names a database.\<close>

definition stream_target :: "string \<times> string \<Rightarrow> insert_batch \<Rightarrow> string \<times> string" where
  "stream_target t b = (if fst t = [] then (ib_database b, ib_collection b) else t)"

definition insert_batch_documents where
  "insert_batch_documents G t docs sv = on_db (op_insert_many (gl_driver G) (fst t) (snd t) docs) (sv :: ('db, 'f) service)"

fun insert_stream ::
  "('db, 's, 'f) service_lib \<Rightarrow> string \<times> string \<Rightarrow> u64 \<Rightarrow> insert_error list \<Rightarrow> u32 \<Rightarrow> (string + insert_batch) list \<Rightarrow>
   ('db, 'f) service \<Rightarrow> (status + insert_stream_response) \<times> ('db, 'f) service" where
  "insert_stream G t inserted errors global_index [] sv =
     (Inr \<lparr>is_total_inserted = inserted, is_errors = errors\<rparr>, sv)"
| "insert_stream G t inserted errors global_index (Inl e # msgs) sv =
     (Inl (Status StInternal (''Stream error: '' @ e)), sv)"
| "insert_stream G t inserted errors global_index (Inr b # msgs) sv =
     (case collect (proto_doc_to_bson (gl_proto G)) (ib_documents b) of
        Inl e \<Rightarrow> (Inl e, sv)
      | Inr docs \<Rightarrow>
          let t' = stream_target t b; next_index = global_index + word_of_nat (length docs) in
          (case insert_batch_documents G t' docs sv of
             (Inr ids, sv') \<Rightarrow> insert_stream G t' (inserted + word_of_nat (length ids)) errors next_index msgs sv'
           | (Inl e, sv') \<Rightarrow>
               insert_stream G t' inserted
                 (errors @ [\<lparr>ie_index = global_index, ie_message = err_text e, ie_code = 0\<rparr>]) next_index msgs sv'))"

definition rpc_insert_many_stream where
  "rpc_insert_many_stream G meta msgs sv =
     insert_stream G ([], []) 0 [] 0 msgs (append_client_language G meta sv)"

record insert_batch_ack =
  ak_batch_index :: u32
  ak_inserted_count :: u32
  ak_errors :: "insert_error list"

fun insert_bidi ::
  "('db, 's, 'f) service_lib \<Rightarrow> string \<times> string \<Rightarrow> u32 \<Rightarrow> (string + insert_batch) list \<Rightarrow> ('db, 'f) service \<Rightarrow>
   (status + insert_batch_ack) list \<times> ('db, 'f) service" where
  "insert_bidi G t batch_index [] sv = ([], sv)"
| "insert_bidi G t batch_index (Inl e # msgs) sv = ([Inl (Status StInternal (''Stream error: '' @ e))], sv)"
| "insert_bidi G t batch_index (Inr b # msgs) sv =
     (case collect (proto_doc_to_bson (gl_proto G)) (ib_documents b) of
        Inl e \<Rightarrow> ([Inl e], sv)
      | Inr docs \<Rightarrow>
          let t' = stream_target t b in
          (case insert_batch_documents G t' docs sv of
             (r, sv') \<Rightarrow>
               (case insert_bidi G t' (batch_index + 1) msgs sv' of
                  (acks, sv'') \<Rightarrow>
                    (Inr (case r of
                        Inr ids \<Rightarrow> \<lparr>ak_batch_index = batch_index, ak_inserted_count = word_of_nat (length ids), ak_errors = []\<rparr>
                      | Inl e \<Rightarrow> \<lparr>ak_batch_index = batch_index, ak_inserted_count = 0,
                          ak_errors = [\<lparr>ie_index = 0, ie_message = err_text e, ie_code = 0\<rparr>]\<rparr>) # acks, sv''))))"

definition rpc_insert_many_bidi where
  "rpc_insert_many_bidi G meta msgs sv = insert_bidi G ([], []) 0 msgs (append_client_language G meta sv)"

subsection \<open>Change streams\<close>

datatype operation_type = OtInsert | OtUpdate | OtDelete | OtReplace | OtInvalidate

record watch_item =
  wi_operation_type :: operation_type
  wi_database :: string
  wi_collection :: string
  wi_document :: "bytes option"
  wi_update_description :: "bytes option"
  wi_document_key :: "bytes option"

text \<open>Every other kind of event, a dropped collection for one, is reported as an insertion.\<close>

fun watch_operation :: "change_kind \<Rightarrow> operation_type" where
  "watch_operation CkInsert = OtInsert"
| "watch_operation CkUpdate = OtUpdate"
| "watch_operation CkDelete = OtDelete"
| "watch_operation CkReplace = OtReplace"
| "watch_operation CkInvalidate = OtInvalidate"
| "watch_operation (CkOther _) = OtInsert"

definition update_document :: "document \<times> string list \<Rightarrow> document" where
  "update_document u = [(''updatedFields'', BDocument (fst u)), (''removedFields'', BArray (map BString (snd u)))]"

definition watch_item_of :: "bson_lib \<Rightarrow> change_event \<Rightarrow> watch_item" where
  "watch_item_of B e =
     \<lparr>wi_operation_type = watch_operation (ce_kind e),
      wi_database = (case ce_ns e of Some (d, _) \<Rightarrow> d | None \<Rightarrow> []),
      wi_collection = (case ce_ns e of Some (_, Some c) \<Rightarrow> c | _ \<Rightarrow> []),
      wi_document = map_option (raw_bytes B) (ce_full_document e),
      wi_update_description = map_option (\<lambda>u. raw_bytes B (update_document u)) (ce_update e),
      wi_document_key = map_option (raw_bytes B) (ce_document_key e)\<rparr>"

fun watch_stream :: "bson_lib \<Rightarrow> (driver_error + change_event) list \<Rightarrow> (status + watch_item) list" where
  "watch_stream B [] = []"
| "watch_stream B (Inr e # events) = Inr (watch_item_of B e) # watch_stream B events"
| "watch_stream B (Inl e # events) = [Inl (Status StInternal (''Change stream error: '' @ err_message e))]"

definition rpc_watch where
  "rpc_watch G W meta db coll pipeline sv =
     (let sv1 = append_client_language G meta sv in
      case collect (\<lambda>s. map_err (\<lambda>e. Status StInvalidArgument (''Invalid pipeline: '' @ e)) (from_slice (gl_bson G) s))
             (case pipeline of None \<Rightarrow> [] | Some stages \<Rightarrow> stages) of
        Inl e \<Rightarrow> (Inl e, sv1)
      | Inr stages \<Rightarrow>
          (case on_db (st_watch W db coll stages) sv1 of
             (r, sv2) \<Rightarrow>
               (rbind (map_err (\<lambda>e. Status StInternal (''Failed to open change stream: '' @ err_message e)) r)
                  (\<lambda>events. Inr (watch_stream (gl_bson G) events)), sv2)))"

subsection \<open>What the streams deliver\<close>

lemma stream_batch_size_range: "1 \<le> stream_batch_size n \<and> stream_batch_size n \<le> 10000"
  by (auto simp: stream_batch_size_def STREAM_BATCH_SIZE_def MIN_STREAM_BATCH_SIZE_def MAX_STREAM_BATCH_SIZE_def max_def)


text \<open>The documents that a cursor gives before it fails or ends, and how it fails.\<close>

fun given_documents :: "stream_cursor \<Rightarrow> document list" where
  "given_documents (outcome.Done (Inr (Inr d)) # c) = d # given_documents c"
| "given_documents _ = []"

fun cursor_failure :: "stream_cursor \<Rightarrow> status option" where
  "cursor_failure [] = None"
| "cursor_failure (outcome.Done (Inr (Inr d)) # c) = cursor_failure c"
| "cursor_failure (outcome.TimedOut # c) = Some (Status StDeadlineExceeded ''Stream idle timeout'')"
| "cursor_failure (outcome.Done (Inl e) # c) = Some (cursor_error e)"
| "cursor_failure (outcome.Done (Inr (Inl e)) # c) = Some (cursor_error e)"

definition full_batch :: "nat \<Rightarrow> u32 \<Rightarrow> bytes list \<Rightarrow> nat \<Rightarrow> status + document_batch" where
  "full_batch n i D k =
     Inr \<lparr>db_documents = take n (drop (k * n) D), db_batch_index = i + word_of_nat k, db_has_more = True\<rparr>"

definition last_item :: "nat \<Rightarrow> u32 \<Rightarrow> bytes list \<Rightarrow> status option \<Rightarrow> status + document_batch" where
  "last_item n i D failure =
     (case failure of
        Some e \<Rightarrow> Inl e
      | None \<Rightarrow> Inr \<lparr>db_documents = drop (length D div n * n) D,
          db_batch_index = i + word_of_nat (length D div n), db_has_more = False\<rparr>)"

definition stream_items :: "nat \<Rightarrow> u32 \<Rightarrow> bytes list \<Rightarrow> status option \<Rightarrow> (status + document_batch) list" where
  "stream_items n i D failure = map (full_batch n i D) [0..<length D div n] @ [last_item n i D failure]"

lemma stream_items_short: "length D < n \<Longrightarrow> stream_items n i D failure = [last_item n i D failure]"
  by (simp add: stream_items_def)

lemma stream_items_full:
  assumes "length b = n" and "0 < n"
  shows "stream_items n i (b @ D) failure =
    Inr \<lparr>db_documents = b, db_batch_index = i, db_has_more = True\<rparr> # stream_items n (i + 1) D failure"
proof -
  have len: "length (b @ D) div n = Suc (length D div n)" using assms by (simp add: div_add_self1)
  have "full_batch n i (b @ D) (Suc k) = full_batch n (i + 1) D k" for k
    using assms(1) by (simp add: full_batch_def add.commute add.left_commute)
  then have "map (full_batch n i (b @ D)) [0..<length (b @ D) div n] =
      full_batch n i (b @ D) 0 # map (full_batch n (i + 1) D) [0..<length D div n]"
    unfolding len by (simp add: upt_rec [of 0] map_Suc_upt [symmetric] comp_def del: upt_Suc)
  moreover have "last_item n i (b @ D) failure = last_item n (i + 1) D failure"
    unfolding last_item_def len using assms(1) by (cases failure) (simp_all add: ac_simps)
  ultimately show ?thesis using assms(1) by (simp add: stream_items_def full_batch_def)
qed

lemma batch_stream_items:
  "0 < n \<Longrightarrow> length batch < n \<Longrightarrow>
   batch_stream B n i batch c = stream_items n i (batch @ map (raw_bytes B) (given_documents c)) (cursor_failure c)"
proof (induction B n i batch c rule: batch_stream.induct)
  case (5 B n i batch d c)
  let ?batch = "batch @ [raw_bytes B d]"
  show ?case
  proof (cases "n \<le> length ?batch")
    case True
    then have "length ?batch = n" using "5.prems" by simp
    then show ?thesis
      using "5.IH"(1) [OF refl True] "5.prems" True
        stream_items_full [of ?batch n i "map (raw_bytes B) (given_documents c)" "cursor_failure c"] by simp
  next
    case False
    then show ?thesis using "5.IH"(2) [OF refl False] "5.prems" by simp
  qed
qed (simp_all add: stream_items_short last_item_def)

text \<open>
  C28. The items of a document stream: the documents that the cursor gives, in batches of exactly the
  requested size numbered from 0 and marked as having more, and then one last item, which is the
  rest of the documents, marked as the end, when the cursor is exhausted, and otherwise the
  status of its failure; documents of a batch that is not full are lost then.
\<close>

theorem document_stream_exact:
  assumes "rpc_find_stream G W meta req n sv = (Inr items, sv')"
  shows "\<exists>f options cursor s s'.
    proto_filter_to_bson (gl_proto G) (fq_filter req) = Inr f \<and>
    convert_find_options (gl_proto G) (fq_options req) = Inr options \<and>
    st_find_cursor W (fq_database req) (fq_collection req) f options s = (Inr cursor, s') \<and>
    items = stream_items (unat (stream_batch_size n)) 0
      (map (raw_bytes (gl_bson G)) (given_documents cursor)) (cursor_failure cursor) \<and>
    1 \<le> stream_batch_size n \<and> stream_batch_size n \<le> 10000"
proof -
  have "stream_batch_size n \<noteq> 0"
    using stream_batch_size_range [of n] by auto
  then have pos: "0 < unat (stream_batch_size n)" by (simp add: unat_gt_0)
  from assms obtain f options cursor s s' where
    "proto_filter_to_bson (gl_proto G) (fq_filter req) = Inr f" "convert_find_options (gl_proto G) (fq_options req) = Inr options"
    "st_find_cursor W (fq_database req) (fq_collection req) f options s = (Inr cursor, s')"
    and items: "items = batch_stream (gl_bson G) (unat (stream_batch_size n)) 0 [] cursor"
    by (auto simp: rpc_find_stream_def open_stream_def on_db_def find_cursor_def result_simps split: prod.splits sum.splits)
  moreover have "items = stream_items (unat (stream_batch_size n)) 0
      (map (raw_bytes (gl_bson G)) (given_documents cursor)) (cursor_failure cursor)"
    using batch_stream_items [OF pos, of "[]" "gl_bson G" 0 cursor] pos unfolding items by simp
  ultimately show ?thesis using stream_batch_size_range [of n] by blast
qed

end
