(* ===== verification/Grpc_Ingest.thy ===== *)
theory Grpc_Ingest
  imports Grpc_Service
begin

text \<open>
  The calls of the gRPC service for ingestion and the watching of directories
  (\<open>src/grpc/service.rs\<close>). The text of a column type and the estimate of the remaining time,
  a floating-point product, are parameters. A call that panics has no value.
\<close>

subsection \<open>Conversions\<close>

definition proto_format_to_internal :: "i32 \<Rightarrow> file_format" where
  "proto_format_to_internal n =
     (if n = 1 then FCsv else if n = 2 then FJson else if n = 3 then FNdJson else if n = 4 then FParquet else FAuto)"

definition proto_conflict_to_internal :: "i32 \<Rightarrow> conflict_strategy" where
  "proto_conflict_to_internal n = (if n = 1 then COverwrite else if n = 2 then CMerge else CSkip)"

fun status_to_proto :: "ingest_status \<Rightarrow> i32" where
  "status_to_proto IRunning = 0"
| "status_to_proto ICompleted = 1"
| "status_to_proto IFailed = 2"
| "status_to_proto ICancelled = 3"

record proto_csv_options =
  pc_delimiter :: string
  pc_quote_char :: string
  pc_has_header :: bool
  pc_comment_char :: string

definition first_byte :: "string \<Rightarrow> u8 option" where
  "first_byte s = (case s of [] \<Rightarrow> None | c # _ \<Rightarrow> Some (word_of_nat (of_char c)))"

definition csv_options_of :: "proto_csv_options option \<Rightarrow> csv_options" where
  "csv_options_of x =
     (case x of
        None \<Rightarrow> default_csv_options
      | Some c \<Rightarrow> \<lparr>cs_delimiter = first_byte (pc_delimiter c), cs_quote_char = first_byte (pc_quote_char c),
          cs_has_header = Some (pc_has_header c), cs_comment_char = first_byte (pc_comment_char c)\<rparr>)"

record ingest_request =
  nq_file_path :: string
  nq_database :: string
  nq_collection :: string
  nq_format :: i32
  nq_dedup_key :: "string list"
  nq_conflict_strategy :: i32
  nq_batch_size :: i32
  nq_concurrency :: i32
  nq_expressions :: "string list"
  nq_schema_overrides :: "string \<Rightarrow> string option"
  nq_sample_size :: i32
  nq_csv_options :: "proto_csv_options option"

definition positive_or :: "i32 \<Rightarrow> u32 \<Rightarrow> u32" where
  "positive_or n d = (if sint n > 0 then n else d)"

definition ingest_options_of_request :: "ingest_request \<Rightarrow> ingest_options" where
  "ingest_options_of_request req =
     \<lparr>io_file_path = nq_file_path req, io_database = nq_database req, io_collection = nq_collection req,
      io_format = proto_format_to_internal (nq_format req), io_dedup_key = nq_dedup_key req,
      io_conflict_strategy = proto_conflict_to_internal (nq_conflict_strategy req),
      io_batch_size = positive_or (nq_batch_size req) 1000, io_concurrency = positive_or (nq_concurrency req) 4,
      io_expressions = nq_expressions req, io_schema_overrides = nq_schema_overrides req,
      io_sample_size = positive_or (nq_sample_size req) 1000, io_csv_options = csv_options_of (nq_csv_options req)\<rparr>"

subsection \<open>Jobs\<close>

record ingest_response =
  nr_job_id :: string
  nr_status :: i32
  nr_schema :: "string \<Rightarrow> string option"
  nr_total_rows :: int

definition schema_map :: "(bson_type \<Rightarrow> string) \<Rightarrow> bson_schema \<Rightarrow> string \<Rightarrow> string option" where
  "schema_map show_type fs = foldl (\<lambda>m f. m(sf_name f \<mapsto> show_type (sf_type f))) Map.empty fs"

definition ingestion_disabled :: status where
  "ingestion_disabled = Status StUnavailable ''Ingestion not enabled''"

definition internal_error :: "mongo_error \<Rightarrow> status" where
  "internal_error e = Status StInternal (err_text e)"

definition rpc_ingest where
  "rpc_ingest G show_type meta req sv =
     (let sv1 = append_client_language G meta sv in
      case gl_ingestion G of
        None \<Rightarrow> Some (Inl ingestion_disabled, sv1)
      | Some (S, E) \<Rightarrow>
          map_option (\<lambda>(r, e'). case r of
              Inl e \<Rightarrow> (Inl (internal_error e), sv1\<lparr>sv_engine := e'\<rparr>)
            | Inr (job, task) \<Rightarrow>
                (Inr \<lparr>nr_job_id = ij_job_id job, nr_status = status_to_proto IRunning,
                      nr_schema = schema_map show_type (ij_inferred_schema job), nr_total_rows = ij_total_rows job\<rparr>,
                 sv1\<lparr>sv_engine := e', sv_tasks := sv_tasks sv1 @ [task]\<rparr>))
            (ingest S E (ingest_options_of_request req) (gl_uuid G (sv_db sv1)) (sv_engine sv1)))"

record ingest_status_response =
  ns_job_id :: string
  ns_status :: i32
  ns_total_rows :: int
  ns_rows_processed :: int
  ns_rows_inserted :: int
  ns_rows_skipped :: int
  ns_rows_failed :: int
  ns_elapsed_ms :: int
  ns_remaining_ms :: int

text \<open>The estimate is a product of the rows left and the time per row so far.\<close>

definition rpc_get_ingest_status where
  "rpc_get_ingest_status G millis_since remaining meta job_id sv =
     (let sv1 = append_client_language G meta sv in
      (if gl_ingestion G = None then Inl ingestion_disabled
       else
         (case get_status job_id (sv_engine sv1) of
            None \<Rightarrow> Inl (Status StNotFound (''Job '' @ [CHR 0x27] @ job_id @ [CHR 0x27] @ '' not found''))
          | Some job \<Rightarrow>
              let elapsed_time = millis_since (sv_db sv1) (ij_started_at job) in
              Inr \<lparr>ns_job_id = ij_job_id job, ns_status = status_to_proto (ij_status job),
                   ns_total_rows = ij_total_rows job, ns_rows_processed = ij_rows_processed job,
                   ns_rows_inserted = ij_rows_inserted job, ns_rows_skipped = ij_rows_skipped job,
                   ns_rows_failed = ij_rows_failed job, ns_elapsed_ms = elapsed_time,
                   ns_remaining_ms =
                     (if ij_rows_processed job > 0
                      then remaining (ij_total_rows job - ij_rows_processed job) (elapsed_time :: int) (ij_rows_processed job)
                      else 0)\<rparr>),
       sv1))"

record ingest_job_summary =
  nj_job_id :: string
  nj_file_path :: string
  nj_database :: string
  nj_collection :: string
  nj_status :: i32
  nj_total_rows :: int
  nj_rows_processed :: int

definition job_summary :: "ingest_job \<Rightarrow> ingest_job_summary" where
  "job_summary j =
     \<lparr>nj_job_id = ij_job_id j, nj_file_path = ij_file_path j, nj_database = ij_database j,
      nj_collection = ij_collection j, nj_status = status_to_proto (ij_status j),
      nj_total_rows = ij_total_rows j, nj_rows_processed = ij_rows_processed j\<rparr>"

definition rpc_list_ingest_jobs where
  "rpc_list_ingest_jobs G meta sv =
     (let sv1 = append_client_language G meta sv in
      (if gl_ingestion G = None then Inl ingestion_disabled
       else Inr (map job_summary (list_ingestion_jobs (sv_engine sv1))), sv1))"

definition rpc_cancel_ingest where
  "rpc_cancel_ingest G meta job_id sv =
     (let sv1 = append_client_language G meta sv in
      case gl_ingestion G of
        None \<Rightarrow> (Inl ingestion_disabled, sv1)
      | Some (S, E) \<Rightarrow>
          (case cancel_ingestion S job_id (sv_engine sv1) of
             (r, e') \<Rightarrow> (rbind (map_err internal_error r) (\<lambda>_. Inr True), sv1\<lparr>sv_engine := e'\<rparr>)))"

subsection \<open>Directories\<close>

record watch_directory_request =
  wq_path :: string
  wq_file_pattern :: string
  wq_database :: string
  wq_collection :: string
  wq_conflict_strategy :: i32
  wq_dedup_key :: "string list"

definition watch_config_of_request :: "watch_directory_request \<Rightarrow> watch_config" where
  "watch_config_of_request req =
     \<lparr>wc_path = wq_path req, wc_file_pattern = (if wq_file_pattern req = [] then ''*'' else wq_file_pattern req),
      wc_database = wq_database req, wc_collection = wq_collection req,
      wc_conflict_strategy = proto_conflict_to_internal (wq_conflict_strategy req),
      wc_dedup_key = wq_dedup_key req, wc_debounce_ms = 1000\<rparr>"

definition rpc_watch_directory where
  "rpc_watch_directory G meta req sv =
     (let sv1 = append_client_language G meta sv in
      case gl_watcher G of
        None \<Rightarrow> (Inl ingestion_disabled, sv1)
      | Some W \<Rightarrow>
          (case start_watch W (watch_config_of_request req) (gl_uuid G (sv_db sv1)) (sv_watches sv1) of
             (r, ws) \<Rightarrow> (map_err internal_error r, sv1\<lparr>sv_watches := ws\<rparr>)))"

definition rpc_stop_watch where
  "rpc_stop_watch G meta watch_id sv =
     (let sv1 = append_client_language G meta sv in
      if gl_watcher G = None then (Inl ingestion_disabled, sv1)
      else
        (case stop_watch watch_id (sv_watches sv1) of
           (r, ws) \<Rightarrow> (rbind (map_err internal_error r) (\<lambda>_. Inr True), sv1\<lparr>sv_watches := ws\<rparr>)))"

end
