(* ===== verification/Grpc_Calls.thy ===== *)
theory Grpc_Calls
  imports Grpc_Pipeline Grpc_Streams
begin

text \<open>
  What the calls of the gRPC service guarantee: operations in pipelines are the calls without
  what surrounds them, the table of transactions, what the quota counts, and the results of
  pipelines.
\<close>

named_theorems operation_defs \<open>the operations of the service\<close>

lemmas [operation_defs] =
  find_operation_def find_one_operation_def insert_operation_def insert_many_operation_def
  update_operation_def update_many_operation_def delete_operation_def delete_many_operation_def
  find_and_modify_operation_def aggregate_operation_def search_operation_def command_operation_def
  begin_operation_def commit_operation_def abort_operation_def create_collection_operation_def
  create_index_operation_def list_databases_operation_def list_collections_operation_def
  get_analytics_operation_def

lemmas call_defs =
  rpc_find_def rpc_find_one_def rpc_insert_def rpc_insert_many_def rpc_update_def rpc_update_many_def
  rpc_delete_def rpc_delete_many_def rpc_aggregate_def rpc_find_and_modify_def rpc_run_command_def
  rpc_search_def rpc_create_collection_def rpc_create_index_def rpc_list_databases_def
  rpc_list_collections_def rpc_begin_transaction_def rpc_commit_transaction_def
  rpc_abort_transaction_def rpc_get_analytics_def

subsection \<open>Parts of the state\<close>

lemma set_sv_db_fields [simp]:
  "sv_transactions (set_sv_db s sv) = sv_transactions sv" "sv_analytics (set_sv_db s sv) = sv_analytics sv"
  "sv_quota (set_sv_db s sv) = sv_quota sv" "sv_languages (set_sv_db s sv) = sv_languages sv"
  "sv_db (set_sv_db s sv) = s" "sv_pool (set_sv_db s sv) = sv_pool sv"
  by (simp_all add: set_sv_db_def)

lemma on_db_fields:
  assumes "on_db f sv = (r, sv')"
  shows "sv_transactions sv' = sv_transactions sv" "sv_analytics sv' = sv_analytics sv" "sv_quota sv' = sv_quota sv"
    "f (sv_db sv) = (r, sv_db sv')"
  using assms by (auto simp: on_db_def split: prod.splits)

lemma record_analytics_fields [simp]:
  "sv_transactions (record_analytics G k db coll n b sv) = sv_transactions sv"
  "sv_quota (record_analytics G k db coll n b sv) = sv_quota sv"
  "sv_engine (record_analytics G k db coll n b sv) = sv_engine sv"
  "(record_analytics G k db coll n b sv)\<lparr>sv_analytics := c\<rparr> = sv\<lparr>sv_analytics := c\<rparr>"
  by (simp_all add: record_analytics_def)

lemma append_client_language_fields [simp]:
  "sv_transactions (append_client_language G meta sv) = sv_transactions sv"
  "sv_quota (append_client_language G meta sv) = sv_quota sv"
  "sv_analytics (append_client_language G meta sv) = sv_analytics sv"
  by (simp_all add: append_client_language_def split: option.split prod.split)

subsection \<open>Operations in a pipeline and calls\<close>

definition no_metadata :: metadata where "no_metadata = Map.empty"

lemma append_no_metadata [simp]: "append_client_language G no_metadata sv = sv"
  by (simp add: append_client_language_def no_metadata_def)

lemma quota_no_metadata [simp]: "check_tenant_quota G no_metadata sv = (Inr (), sv)"
  by (simp add: check_tenant_quota_def no_metadata_def from_headers_def split: option.split)

text \<open>The call that does the same as an operation.\<close>

definition call_of ::
  "('db, 's, 'f) service_lib \<Rightarrow> metadata \<Rightarrow> pipeline_operation \<Rightarrow> ('db, 'f) service \<Rightarrow> (status + response) \<times> ('db, 'f) service" where
  "call_of G meta op =
     (case op of
        OpFind req \<Rightarrow> rpc_find G meta req
      | OpFindOne req \<Rightarrow> rpc_find_one G meta req
      | OpInsert req \<Rightarrow> rpc_insert G meta req
      | OpInsertMany req \<Rightarrow> rpc_insert_many G meta req
      | OpUpdate req \<Rightarrow> rpc_update G meta req
      | OpUpdateMany req \<Rightarrow> rpc_update_many G meta req
      | OpDelete req \<Rightarrow> rpc_delete G meta req
      | OpDeleteMany req \<Rightarrow> rpc_delete_many G meta req
      | OpAggregate req \<Rightarrow> rpc_aggregate G meta req
      | OpFindAndModify req \<Rightarrow> rpc_find_and_modify G meta req
      | OpRunCommand req \<Rightarrow> rpc_run_command G meta req
      | OpSearch req \<Rightarrow> rpc_search G meta req
      | OpCreateCollection db coll \<Rightarrow> rpc_create_collection G meta db coll
      | OpCreateIndex req \<Rightarrow> rpc_create_index G meta req
      | OpListDatabases \<Rightarrow> rpc_list_databases G meta
      | OpListCollections db \<Rightarrow> rpc_list_collections G meta db
      | OpBeginTransaction \<Rightarrow> rpc_begin_transaction G meta
      | OpCommitTransaction t \<Rightarrow> rpc_commit_transaction G meta t
      | OpAbortTransaction t \<Rightarrow> rpc_abort_transaction G meta t
      | OpGetAnalytics \<Rightarrow> rpc_get_analytics G meta)"

text \<open>An operation does not touch the analytics itself.\<close>

definition quiet :: "(('db, 'f) service, 'a, 'e, 'b) operation \<Rightarrow> bool" where
  "quiet op \<longleftrightarrow> (\<forall>a sv. sv_analytics (snd (opn_run op a sv)) = sv_analytics sv)"

lemma recorded_no_metadata:
  assumes "quiet op"
  shows "in_pipeline op sv =
    (map_err to_pipeline_error (fst (recorded G no_metadata kind db coll op sv)),
     (snd (recorded G no_metadata kind db coll op sv))\<lparr>sv_analytics := sv_analytics sv\<rparr>)"
proof (cases "opn_decode op sv")
  case (Inr a)
  obtain r sv' where run: "opn_run op a sv = (r, sv')" by fastforce
  with assms have "sv_analytics sv' = sv_analytics sv" unfolding quiet_def by (metis snd_conv)
  then show ?thesis
    using Inr run by (simp add: in_pipeline_def perform_def recorded_def)
qed (simp add: in_pipeline_def perform_def recorded_def)

lemma unrecorded_no_metadata:
  assumes "quiet op"
  shows "in_pipeline op sv =
    (map_err to_pipeline_error (fst (unrecorded G no_metadata op sv)),
     (snd (unrecorded G no_metadata op sv))\<lparr>sv_analytics := sv_analytics sv\<rparr>)"
proof (cases "opn_decode op sv")
  case (Inr a)
  obtain r sv' where run: "opn_run op a sv = (r, sv')" by fastforce
  with assms have "sv_analytics sv' = sv_analytics sv" unfolding quiet_def by (metis snd_conv)
  then show ?thesis
    using Inr run by (simp add: in_pipeline_def perform_def unrecorded_def)
qed (simp add: in_pipeline_def perform_def unrecorded_def)

lemma on_db_quiet [simp]: "sv_analytics (snd (on_db f sv)) = sv_analytics sv"
  by (cases "on_db f sv") (auto dest: on_db_fields)

lemma quiet_operations:
  "quiet (find_operation G fr)" "quiet (find_one_operation G fr)" "quiet (insert_operation G ir)"
  "quiet (insert_many_operation G mr)" "quiet (update_operation G ur)" "quiet (update_many_operation G ur)"
  "quiet (delete_operation G dr)" "quiet (delete_many_operation G dr)" "quiet (find_and_modify_operation G xr)"
  "quiet (aggregate_operation G ar)" "quiet (search_operation G sr)" "quiet (command_operation G cr)"
  "quiet (create_collection_operation G db coll)" "quiet (create_index_operation G kr)"
  "quiet (list_databases_operation G)" "quiet (list_collections_operation G db)" "quiet (get_analytics_operation G)"
  "quiet (commit_operation G t)" "quiet (abort_operation G t)"
  by (auto simp: quiet_def operation_defs forget_transaction_def split: option.split)

lemma quiet_begin: "quiet (begin_operation G)"
  by (auto simp: quiet_def begin_operation_def Let_def split: prod.split sum.split dest: on_db_fields)


subsection \<open>The table of transactions\<close>

text \<open>What an operation with its result makes of the set of open transactions.\<close>

definition opened :: "pipeline_operation option \<Rightarrow> op_result \<Rightarrow> string set \<Rightarrow> string set" where
  "opened op r ts =
     (case op of
        Some OpBeginTransaction \<Rightarrow> (case r of Inr (RBeginTransaction t) \<Rightarrow> insert t ts | _ \<Rightarrow> ts)
      | Some (OpCommitTransaction t) \<Rightarrow> ts - {t}
      | Some (OpAbortTransaction t) \<Rightarrow> ts - {t}
      | _ \<Rightarrow> ts)"

definition keeps_table :: "(('db, 'f) service, 'a, 'e, 'b) operation \<Rightarrow> bool" where
  "keeps_table op \<longleftrightarrow> (\<forall>a sv. sv_transactions (snd (opn_run op a sv)) = sv_transactions sv)"

lemma on_db_table [simp]: "sv_transactions (snd (on_db f sv)) = sv_transactions sv"
  by (cases "on_db f sv") (auto dest: on_db_fields)

lemma table_kept:
  "keeps_table (find_operation G fr)" "keeps_table (find_one_operation G fr)" "keeps_table (insert_operation G ir)"
  "keeps_table (insert_many_operation G mr)" "keeps_table (update_operation G ur)" "keeps_table (update_many_operation G ur)"
  "keeps_table (delete_operation G dr)" "keeps_table (delete_many_operation G dr)"
  "keeps_table (find_and_modify_operation G xr)" "keeps_table (aggregate_operation G ar)"
  "keeps_table (search_operation G sr)" "keeps_table (command_operation G cr)"
  "keeps_table (create_collection_operation G db coll)" "keeps_table (create_index_operation G kr)"
  "keeps_table (list_databases_operation G)" "keeps_table (list_collections_operation G db)"
  "keeps_table (get_analytics_operation G)"
  by (auto simp: keeps_table_def operation_defs split: option.split)

lemma in_pipeline_keeps_table:
  "keeps_table op \<Longrightarrow> sv_transactions (snd (in_pipeline op sv)) = sv_transactions sv"
  by (auto simp: keeps_table_def in_pipeline_def perform_def split: sum.split prod.split) (metis snd_conv)

lemma begin_in_table:
  assumes "in_pipeline (begin_operation G) sv = (r, sv')"
  shows "dom (sv_transactions sv') = opened (Some OpBeginTransaction) r (dom (sv_transactions sv))"
proof -
  obtain x s2 where x: "on_db (txn_begin (gl_session G (gl_new_session G (sv_db sv)))) sv = (x, s2)" by fastforce
  have "sv_transactions s2 = sv_transactions sv" using on_db_fields(1) [OF x] .
  with x assms show ?thesis
    by (cases x) (auto simp: in_pipeline_def perform_def begin_operation_def finish_def opened_def Let_def)
qed

lemma finished_in_table:
  assumes "opn_decode op = find_transaction t" and "opn_run op = (\<lambda>i sv. on_db (f i) (forget_transaction t sv))"
    and "in_pipeline op sv = (r, sv')"
  shows "dom (sv_transactions sv') = dom (sv_transactions sv) - {t}"
proof (cases "sv_transactions sv t")
  case None
  then have "sv' = sv" using assms by (auto simp: in_pipeline_def perform_def find_transaction_def)
  then show ?thesis using None by auto
next
  case (Some i)
  obtain x where "on_db (f i) (forget_transaction t sv) = (x, sv')"
    using assms Some by (auto simp: in_pipeline_def perform_def find_transaction_def split: prod.splits)
  from on_db_fields(1) [OF this] show ?thesis by (auto simp: forget_transaction_def split: if_splits)
qed

lemma commit_in_table:
  "in_pipeline (commit_operation G t) sv = (r, sv') \<Longrightarrow> dom (sv_transactions sv') = dom (sv_transactions sv) - {t}"
  by (rule finished_in_table [of _ t "\<lambda>i. txn_commit (gl_session G i)"]) (simp_all add: commit_operation_def)

lemma abort_in_table:
  "in_pipeline (abort_operation G t) sv = (r, sv') \<Longrightarrow> dom (sv_transactions sv') = dom (sv_transactions sv) - {t}"
  by (rule finished_in_table [of _ t "\<lambda>i. txn_abort (gl_session G i)"]) (simp_all add: abort_operation_def)

lemma kept_in_table: "keeps_table op \<Longrightarrow> in_pipeline op sv = (r, sv') \<Longrightarrow> sv_transactions sv' = sv_transactions sv"
  using in_pipeline_keeps_table [of op sv] by simp

lemma op_table:
  assumes "execute_pipeline_op G op sv = (r, sv')"
  shows "dom (sv_transactions sv') = opened op r (dom (sv_transactions sv))"
proof (cases op)
  case None
  then show ?thesis using assms by (simp add: execute_pipeline_op_def opened_def)
next
  case (Some x)
  then show ?thesis
  proof (cases x)
    case OpBeginTransaction
    then show ?thesis using assms Some begin_in_table by (simp add: execute_pipeline_op_def)
  next
    case (OpCommitTransaction t)
    then show ?thesis using assms Some commit_in_table by (simp add: execute_pipeline_op_def opened_def)
  next
    case (OpAbortTransaction t)
    then show ?thesis using assms Some abort_in_table by (simp add: execute_pipeline_op_def opened_def)
  qed (insert assms Some, simp only: execute_pipeline_op_def option.case pipeline_operation.case,
      drule kept_in_table [rotated], rule table_kept, simp add: opened_def)+
qed

lemma run_scheduled_order: "run_scheduled G ops order sv = (rs, sv') \<Longrightarrow> map fst rs = order"
  by (induction G ops order sv arbitrary: rs sv' rule: run_scheduled.induct) (auto split: prod.splits)

lemma run_scheduled_table:
  "run_scheduled G ops order sv = (rs, sv') \<Longrightarrow>
   dom (sv_transactions sv') = fold (\<lambda>(i, r). opened (ops ! i) r) rs (dom (sv_transactions sv))"
  by (induction G ops order sv arbitrary: rs sv' rule: run_scheduled.induct) (auto split: prod.splits simp: op_table)

text \<open>The transaction that an operation takes part in or ends.\<close>

fun op_transaction :: "pipeline_operation \<Rightarrow> string option" where
  "op_transaction (OpFind req) = fq_transaction_id req"
| "op_transaction (OpInsert req) = iq_transaction_id req"
| "op_transaction (OpUpdate req) = uq_transaction_id req"
| "op_transaction (OpDelete req) = dq_transaction_id req"
| "op_transaction (OpCommitTransaction t) = Some t"
| "op_transaction (OpAbortTransaction t) = Some t"
| "op_transaction _ = None"

definition refused :: "status + 'a \<Rightarrow> bool" where
  "refused r \<longleftrightarrow> (\<exists>s. r = Inl s \<and> st_code s \<in> {StNotFound, StInvalidArgument})"

lemma refused_rbind:
  "refused (rbind r f) \<longleftrightarrow> refused r \<or> (\<exists>a. r = Inr a \<and> refused (f a))"
  by (cases r) (auto simp: refused_def)

lemma decode_refused: "decode_bson P d = Inl s \<Longrightarrow> refused (Inl s)"
  by (auto simp: refused_def dest: decode_fails)

lemma filter_refused: "proto_filter_to_bson P f = Inl s \<Longrightarrow> refused (Inl s)"
  by (auto simp: proto_filter_to_bson_def split: option.splits if_splits dest: decode_refused)

lemma optional_refused: "optional_bson P f = Inl s \<Longrightarrow> refused (Inl s)"
  by (auto simp: optional_bson_def result_simps split: option.splits if_splits dest: decode_refused)

lemma find_options_refused: "convert_find_options P f = Inl s \<Longrightarrow> refused (Inl s)"
  by (auto simp: convert_find_options_def result_simps split: option.splits dest: optional_refused)

lemma required_refused: "required_bson P m f = Inl s \<Longrightarrow> refused (Inl s)"
  by (auto simp: required_bson_def proto_doc_to_bson_def result_simps dest: decode_refused) (simp add: refused_def)

lemma update_arguments_refused: "update_arguments G f u = Inl s \<Longrightarrow> refused (Inl s)"
  by (auto simp: update_arguments_def result_simps dest: filter_refused required_refused)

lemma unknown_transaction: "sv_transactions sv t = None \<Longrightarrow> refused (transaction_of (Some t) sv)"
  by (simp add: transaction_of_def refused_def)

lemma refused_pipeline:
  assumes "refused (opn_decode op sv)"
  shows "\<exists>e. in_pipeline op sv = (Inl e, sv) \<and> per_code e \<in> {3, 5}"
proof -
  from assms obtain c m where "opn_decode op sv = Inl (Status c m)" "c \<in> {StNotFound, StInvalidArgument}"
    unfolding refused_def by (metis status.exhaust_sel)
  then show ?thesis by (auto simp: in_pipeline_def perform_def to_pipeline_error_def)
qed

lemma refused_step: "\<forall>s. r = Inl s \<longrightarrow> refused (Inl s) \<Longrightarrow> \<forall>a. refused (f a) \<Longrightarrow> refused (rbind r f)"
  by (cases r) (auto simp: refused_def)

lemma transaction_refused: "sv_transactions sv t = None \<Longrightarrow> refused (rbind (transaction_of (Some t) sv) f)"
  by (simp add: refused_rbind unknown_transaction)

lemma operations_refused:
  assumes "sv_transactions sv t = None"
  shows "fq_transaction_id fr = Some t \<Longrightarrow> refused (opn_decode (find_operation G fr) sv)"
    and "iq_transaction_id ir = Some t \<Longrightarrow> refused (opn_decode (insert_operation G ir) sv)"
    and "uq_transaction_id ur = Some t \<Longrightarrow> refused (opn_decode (update_operation G ur) sv)"
    and "dq_transaction_id dr = Some t \<Longrightarrow> refused (opn_decode (delete_operation G dr) sv)"
    and "refused (opn_decode (commit_operation G t) sv)"
    and "refused (opn_decode (abort_operation G t) sv)"
proof -
  note t = transaction_refused [OF assms]
  note f = refused_step [OF allI [OF impI [OF filter_refused]]]
    and o' = refused_step [OF allI [OF impI [OF find_options_refused]]]
    and r = refused_step [OF allI [OF impI [OF required_refused]]]
    and u = refused_step [OF allI [OF impI [OF update_arguments_refused]]]
  show "refused (opn_decode (find_operation G fr) sv)" if "fq_transaction_id fr = Some t"
    unfolding find_operation_def operation.simps that by (rule f, assumption, rule allI, rule o', assumption, rule allI, rule t)
  show "refused (opn_decode (insert_operation G ir) sv)" if "iq_transaction_id ir = Some t"
    unfolding insert_operation_def operation.simps that by (rule r, assumption, rule allI, rule t)
  show "refused (opn_decode (update_operation G ur) sv)" if "uq_transaction_id ur = Some t"
    unfolding update_operation_def operation.simps that
    by (rule u, assumption, rule allI, split prod.split, intro allI impI, rule t)
  show "refused (opn_decode (delete_operation G dr) sv)" if "dq_transaction_id dr = Some t"
    unfolding delete_operation_def operation.simps that by (rule f, assumption, rule allI, rule t)
  show "refused (opn_decode (commit_operation G t) sv)" "refused (opn_decode (abort_operation G t) sv)"
    using assms by (simp_all add: commit_operation_def abort_operation_def find_transaction_def refused_def)
qed

lemma finished_refused:
  assumes "op_transaction op = Some t" and "t \<notin> dom (sv_transactions sv)"
  shows "\<exists>e. execute_pipeline_op G (Some op) sv = (Inl e, sv) \<and> per_code e \<in> {3, 5}"
proof -
  have none: "sv_transactions sv t = None" using assms(2) by blast
  show ?thesis
    using assms(1)
    by (cases op) (simp_all only: op_transaction.simps option.inject option.distinct execute_pipeline_op_def option.case
        pipeline_operation.case refused_pipeline operations_refused [OF none])
qed

text \<open>
  C9. The table of transactions: after any operations in any order it holds exactly the transactions
  that have begun and not been committed or aborted, successfully or not; an operation that
  names any other transaction is refused, as not found or as invalid, and changes nothing.
\<close>

theorem transactions_table:
  assumes "run_scheduled G ops order sv = (rs, sv')"
  shows "dom (sv_transactions sv') = fold (\<lambda>(i, r). opened (ops ! i) r) rs (dom (sv_transactions sv)) \<and>
    (\<forall>op t. op_transaction op = Some t \<and> t \<notin> dom (sv_transactions sv') \<longrightarrow>
      (\<exists>e. execute_pipeline_op G (Some op) sv' = (Inl e, sv') \<and> per_code e \<in> {3, 5}))"
  by (intro conjI allI impI run_scheduled_table [OF assms]) (elim conjE, rule finished_refused)

subsection \<open>The results of a pipeline\<close>

lemma run_scheduled_result:
  "run_scheduled G ops order sv = (rs, sv') \<Longrightarrow> (i, r) \<in> set rs \<Longrightarrow>
   \<exists>s1 s2. execute_pipeline_op G (ops ! i) s1 = (r, s2)"
proof (induction G ops order sv arbitrary: rs sv' rule: run_scheduled.induct)
  case (2 G ops j order sv)
  obtain x sv1 where x: "execute_pipeline_op G (ops ! j) sv = (x, sv1)" by fastforce
  obtain xs sv2 where xs: "run_scheduled G ops order sv1 = (xs, sv2)" by fastforce
  from 2(2) have "rs = (j, x) # xs" by (simp add: x xs)
  then show ?case using 2(1) [OF x [symmetric] xs] 2(3) x by auto
qed simp

lemma count_split: "length (filter P xs) + length (filter (\<lambda>x. \<not> P x) xs) = length xs"
  by (induction xs) auto


subsection \<open>What the quota counts\<close>

definition keeps_quota :: "(('db, 'f) service, 'a, 'e, 'b) operation \<Rightarrow> bool" where
  "keeps_quota op \<longleftrightarrow> (\<forall>a sv. sv_quota (snd (opn_run op a sv)) = sv_quota sv)"

lemma on_db_quota [simp]: "sv_quota (snd (on_db f sv)) = sv_quota sv"
  by (cases "on_db f sv") (auto dest: on_db_fields)

lemma quota_kept:
  "keeps_quota (find_operation G fr)" "keeps_quota (find_one_operation G fr)" "keeps_quota (insert_operation G ir)"
  "keeps_quota (insert_many_operation G mr)" "keeps_quota (update_operation G ur)" "keeps_quota (update_many_operation G ur)"
  "keeps_quota (delete_operation G dr)" "keeps_quota (delete_many_operation G dr)"
  "keeps_quota (find_and_modify_operation G xr)" "keeps_quota (aggregate_operation G ar)"
  "keeps_quota (search_operation G sr)" "keeps_quota (command_operation G cr)"
  "keeps_quota (create_collection_operation G db coll)" "keeps_quota (create_index_operation G kr)"
  "keeps_quota (list_databases_operation G)" "keeps_quota (list_collections_operation G db)"
  "keeps_quota (get_analytics_operation G)" "keeps_quota (commit_operation G t)" "keeps_quota (abort_operation G t)"
  by (auto simp: keeps_quota_def operation_defs forget_transaction_def split: option.split)

lemma begin_quota: "keeps_quota (begin_operation G)"
  by (auto simp: keeps_quota_def begin_operation_def Let_def split: prod.split sum.split dest: on_db_fields)

lemma in_pipeline_quota: "keeps_quota op \<Longrightarrow> sv_quota (snd (in_pipeline op sv)) = sv_quota sv"
  by (auto simp: keeps_quota_def in_pipeline_def perform_def split: sum.split prod.split) (metis snd_conv)

lemma execute_quota: "sv_quota (snd (execute_pipeline_op G op sv)) = sv_quota sv"
proof (cases op)
  case (Some x)
  then show ?thesis
    by (cases x; simp only: execute_pipeline_op_def option.case pipeline_operation.case;
        intro in_pipeline_quota quota_kept begin_quota)
qed (simp add: execute_pipeline_op_def)

lemma run_scheduled_quota: "sv_quota (snd (run_scheduled G ops order sv)) = sv_quota sv"
proof (induction G ops order sv rule: run_scheduled.induct)
  case (2 G ops i order sv)
  then show ?case using execute_quota [of G "ops ! i" sv] by (auto split: prod.split)
qed simp

lemma quota_only:
  assumes "check_tenant_quota G meta sv = (r, sv')"
  shows "sv' = sv\<lparr>sv_quota := sv_quota sv'\<rparr>" and "r = Inl e \<Longrightarrow> st_code e = StResourceExhausted"
  using assms by (auto simp: check_tenant_quota_def split: option.splits prod.splits if_splits)

text \<open>
  The quota: a pipeline of up to ten thousand operations takes the permit of one call, whatever
  the operations are and however they end; and a tenant without a permit is told so, with the
  state as it was but for the limiter and the announced language.
\<close>

theorem pipeline_takes_one_permit:
  assumes "check_tenant_quota G meta (append_client_language G meta sv) = (permit, sv1)"
  shows "sv_quota (snd (rpc_pipeline G meta sc ops sv)) = sv_quota sv1 \<and>
    (permit = Inl e \<longrightarrow> rpc_pipeline G meta sc ops sv = (Inl e, sv1) \<and> st_code e = StResourceExhausted \<and>
       sv1 = (append_client_language G meta sv)\<lparr>sv_quota := sv_quota sv1\<rparr>)"
proof (intro conjI impI)
  show "sv_quota (snd (rpc_pipeline G meta sc ops sv)) = sv_quota sv1"
    using assms run_scheduled_quota [of G ops "sc_order sc" sv1]
    by (auto simp: rpc_pipeline_def Let_def split: prod.split sum.split)
  assume "permit = Inl e"
  then show "rpc_pipeline G meta sc ops sv = (Inl e, sv1)" "st_code e = StResourceExhausted"
      "sv1 = (append_client_language G meta sv)\<lparr>sv_quota := sv_quota sv1\<rparr>"
    using assms quota_only [OF assms] by (auto simp: rpc_pipeline_def)
qed

text \<open>Without a permit the recorded calls end in the same way.\<close>

lemma refused_call:
  "check_tenant_quota G meta (append_client_language G meta sv) = (Inl e, sv1) \<Longrightarrow>
   recorded G meta kind db coll op sv = (Inl e, sv1) \<and> counted_only G meta op sv = (Inl e, sv1)"
  by (simp add: recorded_def counted_only_def)

subsection \<open>Operations that leave their transaction\<close>

text \<open>
  Of the operations that carry the name of a transaction only four take part in it. The others
  do the same whatever transaction they name, and none at all.
\<close>

lemma operations_outside_transactions:
  "execute_pipeline_op G (Some (OpInsertMany mr)) = execute_pipeline_op G (Some (OpInsertMany (mr\<lparr>mq_transaction_id := t\<rparr>)))"
  "execute_pipeline_op G (Some (OpUpdateMany ur)) = execute_pipeline_op G (Some (OpUpdateMany (ur\<lparr>uq_transaction_id := t\<rparr>)))"
  "execute_pipeline_op G (Some (OpDeleteMany dr)) = execute_pipeline_op G (Some (OpDeleteMany (dr\<lparr>dq_transaction_id := t\<rparr>)))"
  "execute_pipeline_op G (Some (OpFindOne fr)) = execute_pipeline_op G (Some (OpFindOne (fr\<lparr>fq_transaction_id := t\<rparr>)))"
  "execute_pipeline_op G (Some (OpFindAndModify xr)) = execute_pipeline_op G (Some (OpFindAndModify (xr\<lparr>xq_transaction_id := t\<rparr>)))"
  "execute_pipeline_op G (Some (OpAggregate ar)) = execute_pipeline_op G (Some (OpAggregate (ar\<lparr>aq_transaction_id := t\<rparr>)))"
  by (simp_all add: fun_eq_iff execute_pipeline_op_def insert_many_operation_def update_many_operation_def
      delete_many_operation_def find_one_operation_def find_and_modify_operation_def aggregate_operation_def)

end
