(* ===== verification/Grpc_Demo.thy ===== *)
theory Grpc_Demo
  imports Grpc_Calls
begin

text \<open>
  A concrete service for examples: the database is two lists of documents, those that are
  stored and those that the open transaction has inserted; any bytes are a document. And a
  history of the service in which a bulk insertion survives its aborted transaction.
\<close>

type_synonym demo_db = "document list \<times> document list"

definition idle_driver :: "demo_db driver" where
  "idle_driver =
     \<lparr>drv_find = (\<lambda>_ _ _ _ _ s. (outcome.Done (Inr []), s)), drv_find_one = (\<lambda>_ _ _ _ s. (outcome.Done (Inr None), s)),
      drv_insert_one = (\<lambda>_ _ d _ (c, p). (outcome.Done (Inr BNull), (c @ [d], p))),
      drv_insert_many = (\<lambda>_ _ ds _ (c, p). (outcome.Done (Inr (List.enumerate 0 (map (\<lambda>_. BNull) ds))), (c @ ds, p))),
      drv_update_one = (\<lambda>_ _ _ _ _ s. (outcome.TimedOut, s)), drv_update_many = (\<lambda>_ _ _ _ _ s. (outcome.TimedOut, s)),
      drv_delete_one = (\<lambda>_ _ _ _ s. (outcome.TimedOut, s)), drv_delete_many = (\<lambda>_ _ _ _ s. (outcome.TimedOut, s)),
      drv_count = (\<lambda>_ _ _ _ s. (outcome.TimedOut, s)), drv_aggregate = (\<lambda>_ _ _ _ _ s. (outcome.Done (Inr []), s)),
      drv_create_collection = (\<lambda>_ _ _ s. (outcome.TimedOut, s)), drv_drop_collection = (\<lambda>_ _ _ s. (outcome.TimedOut, s)),
      drv_run_command_timed = (\<lambda>_ _ _ s. (outcome.TimedOut, s)), drv_create_index = (\<lambda>_ _ _ _ _ s. (outcome.TimedOut, s)),
      drv_find_one_and_update = (\<lambda>_ _ _ _ _ _ s. (outcome.TimedOut, s)), drv_run_command = (\<lambda>_ _ s. (Inr [], s)),
      drv_list_collections = (\<lambda>_ s. (Inr [], s)), drv_distinct = (\<lambda>_ _ _ _ s. (Inr [], s)),
      drv_decode_error = (\<lambda>m. \<lparr>err_kind = EOther, err_message = m\<rparr>),
      drv_custom_error = (\<lambda>m. \<lparr>err_kind = EOther, err_message = m\<rparr>)\<rparr>"

definition pair_session :: "demo_db session_driver" where
  "pair_session =
     \<lparr>x_start_session = (\<lambda>s. (Inr (), s)), x_start_transaction = (\<lambda>_ (c, p). (Inr (), (c, []))),
      x_find = (\<lambda>_ _ _ _ (c, p). (Inr (map (\<lambda>d. Inr (Inr d)) (c @ p)), (c, p))),
      x_insert_one = (\<lambda>_ _ d (c, p). (Inr BNull, (c, p @ [d]))), x_insert_many = (\<lambda>_ _ ds (c, p). (Inr [], (c, p @ ds))),
      x_update_one = (\<lambda>_ _ _ _ s. (Inr \<lparr>uo_matched = 0, uo_modified = 0, uo_upserted = None\<rparr>, s)),
      x_update_many = (\<lambda>_ _ _ _ s. (Inr \<lparr>uo_matched = 0, uo_modified = 0, uo_upserted = None\<rparr>, s)),
      x_delete_one = (\<lambda>_ _ _ s. (Inr 0, s)), x_delete_many = (\<lambda>_ _ _ s. (Inr 0, s)),
      x_find_and_update = (\<lambda>_ _ _ _ _ s. (Inr None, s)), x_aggregate = (\<lambda>_ _ _ s. (Inr [], s)),
      x_commit = (\<lambda>(c, p). (Inr (), (c @ p, []))), x_abort = (\<lambda>(c, p). (Inr (), (c, []))), x_now = (\<lambda>_. 0)\<rparr>"

definition demo_proto :: proto_lib where
  "demo_proto =
     \<lparr>pl_from_reader = (\<lambda>bs. Inr [(''b'', BBinary 0 bs)]),
      pl_to_writer = (\<lambda>d. case d of (_, BBinary _ bs) # _ \<Rightarrow> Inr bs | _ \<Rightarrow> Inr []),
      pl_show_bson = (\<lambda>_. ''id''), pl_read_filter = (\<lambda>_. Inr [])\<rparr>"

definition demo_bson :: bson_lib where
  "demo_bson = \<lparr>to_vec = pl_to_writer demo_proto, from_slice = pl_from_reader demo_proto\<rparr>"

definition demo_capabilities :: capabilities where
  "demo_capabilities = \<lparr>ca_server_version = ''8.0'', ca_atlas_vector_search = False, ca_atlas_search = False\<rparr>"

definition demo_service_lib :: "(demo_db, unit, unit) service_lib" where
  "demo_service_lib =
     \<lparr>gl_proto = demo_proto,
      gl_search = \<lparr>sl_bson = demo_bson, sl_driver = idle_driver,
        sl_voyage = \<lparr>vl_post = (\<lambda>_ _ _ s. (Inl ''off'', s)), vl_status_text = show_nat, vl_float = word_of_int\<rparr>\<rparr>,
      gl_engine = \<lparr>se_capabilities = demo_capabilities, se_voyage = None\<rparr>,
      gl_json = \<lparr>to_bson = (\<lambda>_. Inr BNull), to_json = (\<lambda>_. Inr JNull), to_text = (\<lambda>_. [])\<rparr>,
      gl_client = \<lparr>cl_parse = (\<lambda>_. Inl \<lparr>err_kind = EOther, err_message = []\<rparr>), cl_with_options = (\<lambda>_ s. (Inr (), s)),
        cl_append_metadata = (\<lambda>_ s. (Inr (), s)), cl_version = ''1''\<rparr>,
      gl_session = (\<lambda>_. pair_session), gl_new_session = (\<lambda>_. 0), gl_uuid = (\<lambda>_. ''t''), gl_clock = (\<lambda>_. 0),
      gl_floats = \<lparr>fl_zero = 0, fl_ratio = (\<lambda>_ _. 0), fl_millis = word_of_nat, fl_rank = (\<lambda>_ _. 0), fl_order = id,
        fl_kind_order = id\<rparr>,
      gl_list_databases = (\<lambda>s. (Inr [], s)), gl_ingestion = None, gl_watcher = None\<rparr>"

definition demo_service :: "quota_manager option \<Rightarrow> demo_db \<Rightarrow> (demo_db, unit) service" where
  "demo_service q s =
     \<lparr>sv_engine = \<lparr>is_world = s, is_jobs = [], is_channels = []\<rparr>, sv_tasks = [], sv_watches = [],
      sv_transactions = Map.empty, sv_analytics = Some (collector_new 10), sv_quota = q,
      sv_pool = \<lparr>cp_capabilities = demo_capabilities, cp_host = ''h'', cp_interfaces = {}\<rparr>, sv_languages = {}\<rparr>"

definition demo_insert :: "u8 \<Rightarrow> string option \<Rightarrow> pipeline_operation" where
  "demo_insert b t = OpInsert \<lparr>iq_database = ''d'', iq_collection = ''c'', iq_document = Some [b], iq_transaction_id = t\<rparr>"

definition demo_insert_many :: "u8 list \<Rightarrow> string option \<Rightarrow> pipeline_operation" where
  "demo_insert_many bs t =
     OpInsertMany \<lparr>mq_database = ''d'', mq_collection = ''c'', mq_documents = map (\<lambda>b. [b]) bs, mq_transaction_id = t\<rparr>"

lemmas demo_defs =
  demo_service_lib_def demo_service_def demo_insert_def demo_insert_many_def demo_proto_def demo_bson_def
  idle_driver_def pair_session_def demo_capabilities_def

lemmas run_defs =
  execute_pipeline_op_def in_pipeline_def perform_def finish_def on_db_def set_sv_db_def Let_def
  transaction_of_def find_transaction_def forget_transaction_def required_bson_def proto_doc_to_bson_def decode_bson_def

lemma demo_begin:
  "execute_pipeline_op demo_service_lib (Some OpBeginTransaction) (demo_service q (c, p)) =
    (Inr (RBeginTransaction ''t''), (demo_service q (c, []))\<lparr>sv_transactions := [''t'' \<mapsto> 0]\<rparr>)"
  by (simp add: run_defs demo_defs begin_operation_def txn_begin_def asking_def)

lemma demo_insert_one:
  "execute_pipeline_op demo_service_lib (Some (demo_insert b (Some ''t'')))
     ((demo_service q (c, p))\<lparr>sv_transactions := [''t'' \<mapsto> 0]\<rparr>) =
    (Inr (RInsert ''id''), (demo_service q (c, p @ [[(''b'', BBinary 0 [b])]]))\<lparr>sv_transactions := [''t'' \<mapsto> 0]\<rparr>)"
  by (simp add: run_defs demo_defs insert_operation_def txn_insert_def asking_def)

lemma demo_insert_bulk:
  "execute_pipeline_op demo_service_lib (Some (demo_insert_many [b] x))
     ((demo_service q (c, p))\<lparr>sv_transactions := m\<rparr>) =
    (Inr (RInsertMany [''id''] 1), (demo_service q (c @ [[(''b'', BBinary 0 [b])]], p))\<lparr>sv_transactions := m\<rparr>)"
  by (simp add: run_defs demo_defs insert_many_operation_def op_insert_many_def)

lemma demo_abort:
  "execute_pipeline_op demo_service_lib (Some (OpAbortTransaction ''t''))
     ((demo_service q (c, p))\<lparr>sv_transactions := [''t'' \<mapsto> 0]\<rparr>) =
    (Inr RAbortTransaction, (demo_service q (c, []))\<lparr>sv_transactions := Map.empty\<rparr>)"
  by (simp add: run_defs demo_defs abort_operation_def txn_abort_def asking_def)

lemma demo_service_fields [simp]:
  "sv_db ((demo_service q s)\<lparr>sv_transactions := m\<rparr>) = s" "sv_db (demo_service q s) = s"
  "sv_transactions (demo_service q s) = Map.empty" "sv_quota (demo_service q s) = q"
  "sv_languages (demo_service q s) = {}"
  by (simp_all add: demo_service_def)

definition escape_ops :: "pipeline_operation option list" where
  "escape_ops =
     [Some OpBeginTransaction, Some (demo_insert 1 (Some ''t'')), Some (demo_insert_many [2] (Some ''t'')),
      Some (OpAbortTransaction ''t'')]"

lemma escape_run:
  "run_scheduled demo_service_lib escape_ops [0, 1, 2, 3] (demo_service None ([], [])) =
    ([(0, Inr (RBeginTransaction ''t'')), (1, Inr (RInsert ''id'')), (2, Inr (RInsertMany [''id''] 1)), (3, Inr RAbortTransaction)],
     (demo_service None ([[(''b'', BBinary 0 [2])]], []))\<lparr>sv_transactions := Map.empty\<rparr>)"
  by (simp add: escape_ops_def demo_begin demo_insert_one demo_insert_bulk demo_abort)

text \<open>
  A transaction inserts one document alone and one with a bulk insertion, and is aborted: every
  call succeeds, and the document of the bulk insertion is stored.
\<close>

theorem bulk_insertion_survives_abort:
  "\<exists>rs sv'. run_scheduled demo_service_lib escape_ops [0, 1, 2, 3] (demo_service None ([], [])) = (rs, sv') \<and>
     (\<forall>x \<in> set rs. is_ok (snd x)) \<and> sv_db sv' = ([[(''b'', BBinary 0 [2])]], [])"
  by (intro exI conjI, rule escape_run) (simp_all add: is_ok_def)

subsection \<open>Examples\<close>

theorem transactions_table_witness:
  "\<exists>rs sv' e. run_scheduled demo_service_lib escape_ops [0, 1, 2, 3] (demo_service None ([], [])) = (rs, sv') \<and>
     dom (sv_transactions sv') = {} \<and>
     execute_pipeline_op demo_service_lib (Some (demo_insert 1 (Some ''t''))) sv' = (Inl e, sv') \<and> per_code e \<in> {3, 5}"
proof -
  have "op_transaction (demo_insert 1 (Some ''t'')) = Some ''t''" by (simp add: demo_insert_def)
  moreover have empty: "sv_transactions ((demo_service q s)\<lparr>sv_transactions := Map.empty\<rparr>) = Map.empty" for q s by simp
  ultimately have "\<exists>e. execute_pipeline_op demo_service_lib (Some (demo_insert 1 (Some ''t'')))
      ((demo_service None ([[(''b'', BBinary 0 [2])]], []))\<lparr>sv_transactions := Map.empty\<rparr>) =
      (Inl e, (demo_service None ([[(''b'', BBinary 0 [2])]], []))\<lparr>sv_transactions := Map.empty\<rparr>) \<and> per_code e \<in> {3, 5}"
    using transactions_table [OF escape_run] unfolding empty by blast
  then obtain e where e: "execute_pipeline_op demo_service_lib (Some (demo_insert 1 (Some ''t'')))
      ((demo_service None ([[(''b'', BBinary 0 [2])]], []))\<lparr>sv_transactions := Map.empty\<rparr>) =
      (Inl e, (demo_service None ([[(''b'', BBinary 0 [2])]], []))\<lparr>sv_transactions := Map.empty\<rparr>)" "per_code e \<in> {3, 5}"
    by (elim exE conjE)
  show ?thesis by (intro exI conjI, rule escape_run, simp, rule e(1), rule e(2))
qed

definition demo_schedule :: schedule where "demo_schedule = \<lparr>sc_order = [1, 0], sc_in_time = True\<rparr>"


definition demo_tenant :: metadata where
  "demo_tenant = [TENANT_HEADER \<mapsto> [120]]"

theorem pipeline_takes_one_permit_witness:
  "\<exists>e sv1. check_tenant_quota demo_service_lib demo_tenant (demo_service (Some [''x'' \<mapsto> limiter_new 0 0]) ([], [])) = (Inl e, sv1) \<and>
     rpc_pipeline demo_service_lib demo_tenant demo_schedule [None] (demo_service (Some [''x'' \<mapsto> limiter_new 0 0]) ([], [])) = (Inl e, sv1)"
proof -
  let ?sv = "demo_service (Some [''x'' \<mapsto> limiter_new 0 0]) ([], [])"
  have lang: "append_client_language demo_service_lib demo_tenant ?sv = ?sv"
    by (simp add: append_client_language_def demo_tenant_def TENANT_HEADER_def)
  have char: "(char_of (120 :: nat) :: char) = CHR ''x''" by code_simp
  have clock: "gl_clock demo_service_lib s = 0" for s by (simp add: demo_service_lib_def)
  obtain e sv1 where c: "check_tenant_quota demo_service_lib demo_tenant ?sv = (Inl e, sv1)"
    by (simp add: check_tenant_quota_def from_headers_def demo_tenant_def header_str_def visible_def char
        quota_try_acquire_def try_acquire_def limiter_new_def Let_def clock split: prod.split)
  then show ?thesis
    using pipeline_takes_one_permit [of demo_service_lib demo_tenant ?sv "Inl e" sv1 demo_schedule "[None]" e] lang by auto
qed

definition demo_streams :: "demo_db stream_lib" where
  "demo_streams =
     \<lparr>st_find_cursor = (\<lambda>_ _ _ _ s. (Inr (map (\<lambda>d. outcome.Done (Inr (Inr d))) (fst s)), s)),
      st_aggregate_cursor = (\<lambda>_ _ _ _ s. (Inr [], s)), st_watch = (\<lambda>_ _ _ s. (Inr [], s))\<rparr>"

definition demo_find :: find_request where
  "demo_find = \<lparr>fq_database = ''d'', fq_collection = ''c'', fq_filter = None, fq_options = None, fq_transaction_id = None\<rparr>"

theorem document_stream_exact_witness:
  "\<exists>items sv' D. rpc_find_stream demo_service_lib demo_streams no_metadata demo_find 2
      (demo_service None ([[(''b'', BBinary 0 [1])], [(''b'', BBinary 0 [2])], [(''b'', BBinary 0 [3])]], [])) = (Inr items, sv') \<and>
     items = stream_items 2 0 D None"
proof -
  let ?sv = "demo_service None ([[(''b'', BBinary 0 [1])], [(''b'', BBinary 0 [2])], [(''b'', BBinary 0 [3])]], [])"
  obtain items sv' where r: "rpc_find_stream demo_service_lib demo_streams no_metadata demo_find 2 ?sv = (Inr items, sv')"
    by (simp add: rpc_find_stream_def open_stream_def demo_find_def proto_filter_to_bson_def convert_find_options_def
        on_db_def find_cursor_def demo_streams_def)
  from document_stream_exact [OF r] obtain s s' f options cursor where
    "st_find_cursor demo_streams (fq_database demo_find) (fq_collection demo_find) f options s = (Inr cursor, s')"
    "items = stream_items (unat (stream_batch_size 2)) 0
      (map (raw_bytes (gl_bson demo_service_lib)) (given_documents cursor)) (cursor_failure cursor)" by blast
  moreover have "cursor_failure (map (\<lambda>d. outcome.Done (Inr (Inr d))) ds) = None" for ds by (induction ds) auto
  moreover have "stream_batch_size 2 = 2"
    by (simp add: stream_batch_size_def MIN_STREAM_BATCH_SIZE_def MAX_STREAM_BATCH_SIZE_def max_def min_def)
  ultimately show ?thesis using r by (auto simp: demo_streams_def)
qed

end
