(* ===== verification/Grpc_Polling.thy ===== *)
theory Grpc_Polling
  imports Grpc_Demo
begin

text \<open>
  How the futures of a pipeline are polled (\<open>pipeline\<close> in \<open>src/grpc/service.rs\<close>): \<open>join_all\<close> polls
  them one after the other in one task. An operation of a transaction takes the entry of its
  transaction out of the concurrent map with \<open>get_mut\<close>, which locks the shard of the map, and
  keeps the lock while it waits for the database. Taking a lock that is held blocks the thread,
  and with it all futures of the task and its timer: a pass over the futures then has no value.
  The shards of the map are the library's, \<open>answered\<close> says which requests have their answer.
\<close>

datatype stage = Unstarted | InFlight "nat option" | Complete

record polling =
  pg_permits :: nat
  pg_locked :: "nat set"
  pg_stages :: "stage list"

text \<open>The transaction that a readable operation looks up when it starts.\<close>

definition looks_up :: "('db, 's, 'f) service_lib \<Rightarrow> pipeline_operation option \<Rightarrow> string option" where
  "looks_up G op =
     (case op of
        Some (OpFind req) \<Rightarrow>
          if is_ok (proto_filter_to_bson (gl_proto G) (fq_filter req)) \<and> is_ok (convert_find_options (gl_proto G) (fq_options req))
          then fq_transaction_id req else None
      | Some (OpInsert req) \<Rightarrow>
          if is_ok (required_bson (gl_proto G) ''Missing document'' (iq_document req)) then iq_transaction_id req else None
      | Some (OpUpdate req) \<Rightarrow>
          if is_ok (update_arguments G (uq_filter req) (uq_update req)) then uq_transaction_id req else None
      | Some (OpDelete req) \<Rightarrow>
          if is_ok (proto_filter_to_bson (gl_proto G) (dq_filter req)) then dq_transaction_id req else None
      | Some (OpCommitTransaction t) \<Rightarrow> Some t
      | Some (OpAbortTransaction t) \<Rightarrow> Some t
      | _ \<Rightarrow> None)"

fun ends_transaction :: "pipeline_operation option \<Rightarrow> bool" where
  "ends_transaction (Some (OpCommitTransaction t)) = True"
| "ends_transaction (Some (OpAbortTransaction t)) = True"
| "ends_transaction _ = False"

definition set_stage :: "nat \<Rightarrow> stage \<Rightarrow> polling \<Rightarrow> polling" where
  "set_stage i st p = p\<lparr>pg_stages := (pg_stages p)[i := st]\<rparr>"

text \<open>
  The first poll: without a permit nothing happens; an operation without a transaction is sent
  or has ended already; one with a transaction locks the shard, for good when it stays in it.
\<close>

definition poll_start where
  "poll_start G shard table answered i op p =
     (if pg_permits p = 0 then Some p
      else
        (case looks_up G op of
           None \<Rightarrow>
             if answered i then Some (set_stage i Complete p)
             else Some (set_stage i (InFlight None) (p\<lparr>pg_permits := pg_permits p - 1\<rparr>))
         | Some t \<Rightarrow>
             if (shard t :: nat) \<in> pg_locked p then None
             else if t \<notin> dom (table :: string \<Rightarrow> nat option) then Some (set_stage i Complete p)
             else if ends_transaction op then Some (set_stage i (InFlight None) (p\<lparr>pg_permits := pg_permits p - 1\<rparr>))
             else Some (set_stage i (InFlight (Some (shard t)))
               (p\<lparr>pg_permits := pg_permits p - 1, pg_locked := insert (shard t) (pg_locked p)\<rparr>))))"

text \<open>A later poll: the answer ends the operation; a transaction that has begun is put into the map.\<close>

definition poll_again where
  "poll_again shard new_id answered i op guard p =
     (if \<not> answered i then Some p
      else if op = Some OpBeginTransaction \<and> (shard (new_id i) :: nat) \<in> pg_locked p then None
      else
        Some (set_stage i Complete
          (p\<lparr>pg_permits := pg_permits p + 1,
             pg_locked := (case guard of None \<Rightarrow> pg_locked p | Some k \<Rightarrow> pg_locked p - {k})\<rparr>)))"

definition poll_one where
  "poll_one G shard table new_id answered ops i p =
     (case pg_stages p ! i of
        Unstarted \<Rightarrow> poll_start G shard table answered i (ops ! i) p
      | InFlight guard \<Rightarrow> poll_again shard new_id answered i (ops ! i) guard p
      | Complete \<Rightarrow> Some p)"

fun poll_pass where
  "poll_pass G shard table new_id answered ops [] p = Some p"
| "poll_pass G shard table new_id answered ops (i # is) p =
     (case poll_one G shard table new_id answered ops i p of
        None \<Rightarrow> None
      | Some p' \<Rightarrow> poll_pass G shard table new_id answered ops is p')"

definition polling_start :: "nat \<Rightarrow> nat \<Rightarrow> polling" where
  "polling_start permits n = \<lparr>pg_permits = permits, pg_locked = {}, pg_stages = replicate n Unstarted\<rparr>"

subsection \<open>Two operations of one transaction\<close>

text \<open>Polling an operation for the first time takes at most one permit and no lock away.\<close>

lemma poll_start_grows:
  assumes "poll_start G shard table answered i op p = Some p'"
  shows "pg_locked p \<subseteq> pg_locked p' \<and> pg_permits p \<le> pg_permits p' + 1 \<and>
    (\<forall>k. k \<noteq> i \<longrightarrow> pg_stages p' ! k = pg_stages p ! k)"
  using assms by (auto simp: poll_start_def set_stage_def split: if_splits option.splits)

lemma poll_start_locks:
  assumes "poll_start G shard table answered i op p = Some p'" and "pg_permits p \<noteq> 0"
    and "looks_up G op = Some t" and "\<not> ends_transaction op" and "t \<in> dom table"
  shows "shard t \<in> pg_locked p'"
  using assms by (auto simp: poll_start_def set_stage_def split: if_splits)

lemma poll_start_blocks:
  "pg_permits p \<noteq> 0 \<Longrightarrow> looks_up G op = Some t \<Longrightarrow> shard t \<in> pg_locked p \<Longrightarrow> poll_start G shard table answered i op p = None"
  by (simp add: poll_start_def)

lemma pass_blocks:
  assumes "looks_up G (ops ! i) = Some t" and "\<not> ends_transaction (ops ! i)" and "t \<in> dom table"
    and "looks_up G (ops ! j) = Some u" and "shard u = shard t"
  shows "distinct is \<Longrightarrow> \<forall>k \<in> set is. pg_stages p ! k = Unstarted \<Longrightarrow> length is \<le> pg_permits p \<Longrightarrow> j \<in> set is \<Longrightarrow>
    shard t \<in> pg_locked p \<or> (\<exists>xs ys. is = xs @ i # ys \<and> j \<in> set ys) \<Longrightarrow>
    poll_pass G shard table new_id answered ops is p = None"
proof (induction "is" arbitrary: p)
  case (Cons k "is")
  have first: "poll_one G shard table new_id answered ops k p = poll_start G shard table answered k (ops ! k) p"
    using Cons.prems(2) by (simp add: poll_one_def)
  have permits: "pg_permits p \<noteq> 0" using Cons.prems(3) by simp
  show ?case
  proof (cases "poll_start G shard table answered k (ops ! k) p")
    case (Some p')
    note grows = poll_start_grows [OF Some]
    have "k \<noteq> j"
    proof
      assume "k = j"
      then have "shard t \<in> pg_locked p"
        using Cons.prems(1,5) by (auto simp: append_eq_Cons_conv Cons_eq_append_conv)
      then show False
        using Some poll_start_blocks [OF permits assms(4), of shard table answered k] \<open>k = j\<close> assms(5) by simp
    qed
    moreover have "shard t \<in> pg_locked p' \<or> (\<exists>xs ys. is = xs @ i # ys \<and> j \<in> set ys)"
    proof (cases "k = i")
      case True
      then show ?thesis using poll_start_locks [OF Some permits, of t] assms(1-3) by simp
    next
      case False
      then show ?thesis using Cons.prems(5) grows by (auto simp: Cons_eq_append_conv)
    qed
    moreover have "\<forall>m \<in> set is. pg_stages p' ! m = Unstarted" using Cons.prems(1,2) grows by auto
    ultimately have "poll_pass G shard table new_id answered ops is p' = None"
      using Cons.prems(1,3,4) grows by (intro Cons.IH) auto
    then show ?thesis by (simp add: first Some)
  qed (simp add: first)
qed simp



end
