(* ===== verification/Text_Lines.thy ===== *)
theory Text_Lines
  imports Mongo_Prelude
begin

text \<open>
  Texts of several lines, as the literals of prompts, pages and generated programs are written.
\<close>

definition newline :: string where "newline = [CHR 0x0A]"

definition text_lines :: "string list \<Rightarrow> string" where
  "text_lines ls = concat (map (\<lambda>l. l @ newline) ls)"

lemma text_lines_simps:
  "text_lines [] = []" "text_lines (l # ls) = l @ newline @ text_lines ls"
  by (simp_all add: text_lines_def)

lemma text_lines_append: "text_lines (ls @ ms) = text_lines ls @ text_lines ms"
  by (simp add: text_lines_def)

end
