(* ===== verification/Codegen_Names.thy ===== *)
theory Codegen_Names
  imports Text_Lines Mcp_Data Mcp_Schema
begin

text \<open>
  The parts of code generation that do not depend on an operation (\<open>src/mcp/codegen/\<close>): texts,
  names in the conventions of the four languages (\<open>crud_gen.rs\<close>, \<open>model_gen.rs\<close>), the detection
  of a project's language and framework (\<open>detect.rs\<close>), models of documents (\<open>model_gen.rs\<close>) and the
  suggestion of indexes (\<open>index_gen.rs\<close>). Which files exist and what they hold is a parameter.
  Changing the case of a letter is that of ASCII.
\<close>

subsection \<open>Texts\<close>

definition tabs :: "nat \<Rightarrow> string" where "tabs n = replicate n (CHR 0x09)"
definition tab :: string where "tab = tabs 1"
definition apostrophe :: string where "apostrophe = [CHR 0x27]"
definition backslash :: string where "backslash = [CHR 0x5C]"

text \<open>The printing of JSON, over several lines or on one.\<close>

record json_text =
  jt_pretty :: "json \<Rightarrow> string"
  jt_compact :: "json \<Rightarrow> string"

definition str_param :: "json \<Rightarrow> string \<Rightarrow> string \<Rightarrow> string" where
  "str_param params k dflt = (case json_str_field params k of Some s \<Rightarrow> s | None \<Rightarrow> dflt)"

text \<open>Quotation marks are escaped and newlines become spaces.\<close>

definition java_escape :: "string \<Rightarrow> string" where
  "java_escape s =
     concat (map (\<lambda>c. if c = CHR 0x22 then [CHR 0x5C, CHR 0x22] else if c = CHR 0x0A then '' '' else [c]) s)"

subsection \<open>Names\<close>

definition to_upper_char :: "char \<Rightarrow> char" where
  "to_upper_char c = (let n = (of_char c :: nat) in if 97 \<le> n \<and> n \<le> 122 then char_of (n - 32) else c)"

definition is_upper_char :: "char \<Rightarrow> bool" where
  "is_upper_char c \<longleftrightarrow> (let n = (of_char c :: nat) in 65 \<le> n \<and> n \<le> 90)"

fun capitalize :: "string \<Rightarrow> string" where
  "capitalize [] = []"
| "capitalize (c # cs) = to_upper_char c # cs"

definition crud_camel_case :: "string \<Rightarrow> string" where
  "crud_camel_case s =
     (case split_char (CHR ''_'') s of
        [] \<Rightarrow> []
      | p # ps \<Rightarrow> to_lowercase p @ concat (map capitalize ps))"

fun split_words :: "string \<Rightarrow> string list" where
  "split_words [] = [[]]"
| "split_words (c # cs) =
     (if c \<in> {CHR ''_'', CHR ''-'', CHR '' ''} then [] # split_words cs
      else (case split_words cs of [] \<Rightarrow> [[c]] | w # ws \<Rightarrow> (c # w) # ws))"

definition to_pascal_case :: "string \<Rightarrow> string" where
  "to_pascal_case s = concat (map capitalize (filter (\<lambda>w. w \<noteq> []) (split_words s)))"

definition to_snake_case :: "string \<Rightarrow> string" where
  "to_snake_case s =
     concat (map (\<lambda>(i, c). (if is_upper_char c \<and> 0 < i then ''_'' else []) @ [to_lower_char c]) (List.enumerate 0 s))"

definition to_camel_case :: "string \<Rightarrow> string" where
  "to_camel_case s = (case to_pascal_case s of [] \<Rightarrow> [] | c # cs \<Rightarrow> to_lower_char c # cs)"

subsection \<open>The stack of a project\<close>

datatype framework = FastApi | Django | Flask | Express | NextJs | SpringBoot | Gin | Chi | NoFramework

fun framework_name :: "framework \<Rightarrow> string" where
  "framework_name FastApi = ''FastAPI''"
| "framework_name Django = ''Django''"
| "framework_name Flask = ''Flask''"
| "framework_name Express = ''Express''"
| "framework_name NextJs = ''Next.js''"
| "framework_name SpringBoot = ''Spring Boot''"
| "framework_name Gin = ''Gin''"
| "framework_name Chi = ''Chi''"
| "framework_name NoFramework = ''none''"

definition skill_recommendation :: "framework \<Rightarrow> string option" where
  "skill_recommendation f =
     (case f of
        FastApi \<Rightarrow> Some ''Combine with a FastAPI skill to generate complete route handlers with request validation and OpenAPI docs.''
      | Django \<Rightarrow> Some ''Combine with a Django skill to generate views, serializers, and URL routing.''
      | Express \<Rightarrow> Some ''Combine with an Express skill to generate route handlers with middleware and error handling.''
      | NextJs \<Rightarrow> Some ''Combine with a Next.js skill to generate server actions or API route handlers.''
      | SpringBoot \<Rightarrow> Some ''Combine with a Spring Boot skill to generate @RestController endpoints with dependency injection.''
      | Gin \<Rightarrow> Some ''Combine with a Gin skill to generate handler functions with proper context propagation.''
      | _ \<Rightarrow> None)"

text \<open>The files of a directory: which are there, and the text of those that can be read.\<close>

record project_files =
  pf_exists :: "string \<Rightarrow> string \<Rightarrow> bool"
  pf_read :: "string \<Rightarrow> string \<Rightarrow> string option"

definition detect_language :: "project_files \<Rightarrow> string \<Rightarrow> language option" where
  "detect_language F root =
     (if list_ex (pf_exists F root) [''pyproject.toml'', ''requirements.txt'', ''setup.py''] then Some Python
      else if list_ex (pf_exists F root) [''package.json'', ''tsconfig.json''] then Some TypeScript
      else if pf_exists F root ''go.mod'' then Some Go
      else if list_ex (pf_exists F root) [''pom.xml'', ''build.gradle'', ''build.gradle.kts''] then Some Java
      else None)"

fun first_framework :: "(string \<Rightarrow> framework option) \<Rightarrow> string option list \<Rightarrow> framework" where
  "first_framework f [] = NoFramework"
| "first_framework f (None # cs) = first_framework f cs"
| "first_framework f (Some content # cs) = (case f content of Some x \<Rightarrow> x | None \<Rightarrow> first_framework f cs)"

definition detect_python_framework :: "project_files \<Rightarrow> string \<Rightarrow> framework" where
  "detect_python_framework F root =
     first_framework
       (\<lambda>content. let lower = to_lowercase content in
          if str_contains lower ''fastapi'' then Some FastApi
          else if str_contains lower ''django'' then Some Django
          else if str_contains lower ''flask'' then Some Flask
          else None)
       (map (pf_read F root) [''pyproject.toml'', ''requirements.txt'', ''setup.py''])"

definition detect_typescript_framework :: "project_files \<Rightarrow> string \<Rightarrow> framework" where
  "detect_typescript_framework F root =
     first_framework
       (\<lambda>content. let lower = to_lowercase content in
          if str_contains lower ''\"next\"'' \<or> str_contains lower ''\"next\":'' then Some NextJs
          else if str_contains lower ''\"express\"'' \<or> str_contains lower ''\"express\":'' then Some Express
          else None)
       [pf_read F root ''package.json'']"

definition detect_go_framework :: "project_files \<Rightarrow> string \<Rightarrow> framework" where
  "detect_go_framework F root =
     first_framework
       (\<lambda>content.
          if str_contains content ''github.com/gin-gonic/gin'' then Some Gin
          else if str_contains content ''github.com/go-chi/chi'' then Some Chi
          else None)
       [pf_read F root ''go.mod'']"

definition detect_java_framework :: "project_files \<Rightarrow> string \<Rightarrow> framework" where
  "detect_java_framework F root =
     first_framework
       (\<lambda>content.
          if str_contains content ''spring-boot'' \<or> str_contains content ''org.springframework.boot'' then Some SpringBoot
          else None)
       (map (pf_read F root) [''pom.xml'', ''build.gradle'', ''build.gradle.kts''])"

definition detect_framework :: "project_files \<Rightarrow> string \<Rightarrow> language \<Rightarrow> framework" where
  "detect_framework F root language =
     (case language of
        Python \<Rightarrow> detect_python_framework F root
      | TypeScript \<Rightarrow> detect_typescript_framework F root
      | Go \<Rightarrow> detect_go_framework F root
      | Java \<Rightarrow> detect_java_framework F root)"

definition detect_stack :: "project_files \<Rightarrow> string \<Rightarrow> (language \<times> framework) option" where
  "detect_stack F root = map_option (\<lambda>l. (l, detect_framework F root l)) (detect_language F root)"

subsection \<open>Models of documents\<close>

definition bson_to_python_type :: "string \<Rightarrow> string" where
  "bson_to_python_type t =
     (if t \<in> {''String'', ''ObjectId''} then ''str''
      else if t \<in> {''Int32'', ''Int64''} then ''int''
      else if t = ''Double'' then ''float''
      else if t = ''Boolean'' then ''bool''
      else if t = ''DateTime'' then ''datetime''
      else if t = ''Array'' then ''list''
      else if t = ''Document'' then ''dict''
      else ''str'')"

definition bson_to_typescript_type :: "string \<Rightarrow> string" where
  "bson_to_typescript_type t =
     (if t \<in> {''String'', ''ObjectId''} then ''string''
      else if t \<in> {''Int32'', ''Int64'', ''Double''} then ''number''
      else if t = ''Boolean'' then ''boolean''
      else if t = ''DateTime'' then ''Date''
      else if t = ''Array'' then ''unknown[]''
      else if t = ''Document'' then ''Record<string, unknown>''
      else ''string'')"

definition bson_to_go_type :: "string \<Rightarrow> string" where
  "bson_to_go_type t =
     (if t \<in> {''String'', ''ObjectId''} then ''string''
      else if t = ''Int32'' then ''int32''
      else if t = ''Int64'' then ''int64''
      else if t = ''Double'' then ''float64''
      else if t = ''Boolean'' then ''bool''
      else if t = ''DateTime'' then ''time.Time''
      else if t = ''Array'' then ''[]interface{}''
      else if t = ''Document'' then ''bson.M''
      else ''string'')"

definition bson_to_java_type :: "string \<Rightarrow> string" where
  "bson_to_java_type t =
     (if t \<in> {''String'', ''ObjectId''} then ''String''
      else if t = ''Int32'' then ''Integer''
      else if t = ''Int64'' then ''Long''
      else if t = ''Double'' then ''Double''
      else if t = ''Boolean'' then ''Boolean''
      else if t = ''DateTime'' then ''Instant''
      else if t = ''Array'' then ''List<Object>''
      else if t = ''Document'' then ''Map<String, Object>''
      else ''String'')"

type_synonym model_field = "string \<times> string"

definition python_imports :: "model_field list \<Rightarrow> string list" where
  "python_imports fs =
     [''from pydantic import BaseModel''] @
     (if ''_id'' \<in> fst ` set fs then [''from typing import Optional'', ''from pydantic import Field''] else []) @
     (if ''DateTime'' \<in> snd ` set fs then [''from datetime import datetime''] else [])"

definition python_field :: "model_field \<Rightarrow> string" where
  "python_field f =
     (let py_type = bson_to_python_type (snd f) in
      ''    '' @ to_snake_case (fst f) @ '': '' @
      (if fst f = ''_id'' then ''Optional['' @ py_type @ ''] = Field(None, alias=\"_id\")'' else py_type) @ newline)"

definition generate_python_model :: "string \<Rightarrow> model_field list \<Rightarrow> string" where
  "generate_python_model struct_name fs =
     join newline (python_imports fs) @ newline @ newline @ newline @
     ''class '' @ struct_name @ ''(BaseModel):'' @ newline @
     (if fs = [] then ''    pass'' @ newline else concat (map python_field fs))"

definition generate_typescript_model :: "string \<Rightarrow> model_field list \<Rightarrow> string" where
  "generate_typescript_model struct_name fs =
     ''interface '' @ struct_name @ '' {'' @ newline @
     concat (map (\<lambda>f. ''  '' @ to_camel_case (fst f) @ '': '' @ bson_to_typescript_type (snd f) @ '';'' @ newline) fs) @
     ''}'' @ newline"

definition generate_go_model :: "string \<Rightarrow> model_field list \<Rightarrow> string" where
  "generate_go_model struct_name fs =
     ''type '' @ struct_name @ '' struct {'' @ newline @
     concat (map (\<lambda>f. tab @ to_pascal_case (fst f) @ '' '' @ bson_to_go_type (snd f) @ '' `bson:\"'' @ fst f @
       ''\" json:\"'' @ fst f @ ''\"`'' @ newline) fs) @
     ''}'' @ newline"

definition generate_java_model :: "string \<Rightarrow> model_field list \<Rightarrow> string" where
  "generate_java_model struct_name fs =
     ''public record '' @ struct_name @ ''('' @
     join '', '' (map (\<lambda>f. bson_to_java_type (snd f) @ '' '' @ to_camel_case (fst f)) fs) @ '') {}'' @ newline"

definition generate_model :: "language \<Rightarrow> string \<Rightarrow> model_field list \<Rightarrow> string" where
  "generate_model language coll_name fs =
     (let struct_name = to_pascal_case coll_name in
      case language of
        Python \<Rightarrow> generate_python_model struct_name fs
      | TypeScript \<Rightarrow> generate_typescript_model struct_name fs
      | Go \<Rightarrow> generate_go_model struct_name fs
      | Java \<Rightarrow> generate_java_model struct_name fs)"

subsection \<open>Suggested indexes\<close>

record index_suggestion =
  xs_index_spec :: string
  xs_fields :: "string list"
  xs_code :: string
  xs_explanation :: string

definition extract_index_fields :: "json \<Rightarrow> string list" where
  "extract_index_fields filter_value =
     (case as_object filter_value of
        None \<Rightarrow> []
      | Some m \<Rightarrow> sort (filter (\<lambda>k. \<not> prefix ''$'' k) (map fst m)))"

definition index_keys :: "string list \<Rightarrow> string" where
  "index_keys fs = join '', '' (map (\<lambda>f. ''\"'' @ f @ ''\": 1'') fs)"

definition generate_index_code :: "language \<Rightarrow> string \<Rightarrow> string \<Rightarrow> string list \<Rightarrow> string" where
  "generate_index_code language database collection fs =
     (if fs = [] then ''// No index needed for this query pattern.''
      else
        (let keys_json = index_keys fs in
         case language of
           Python \<Rightarrow>
             text_lines
              [''import asyncio'',
               ''from mongocore import MongoCore'',
               [],
               ''async def main():'',
               ''    async with MongoCore(\"localhost:50051\") as client:'',
               ''        await client.create_index('',
               ''            database=\"'' @ database @ ''\",'',
               ''            collection=\"'' @ collection @ ''\",'',
               ''            keys={'' @ keys_json @ ''},'',
               ''        )'',
               ''        print(\"Index created successfully\")'',
               [],
               ''if __name__ == \"__main__\":'',
               ''    asyncio.run(main())'']
         | TypeScript \<Rightarrow>
             text_lines
              [''import { MongoCore } from \"mongocore-client\";'',
               [],
               ''async function main() {'',
               ''  const client = new MongoCore(\"localhost:50051\");'',
               ''  try {'',
               ''    await client.createIndex({'',
               ''      database: \"'' @ database @ ''\",'',
               ''      collection: \"'' @ collection @ ''\",'',
               ''      keys: {'' @ keys_json @ ''},'',
               ''    });'',
               ''    console.log(\"Index created successfully\");'',
               ''  } finally {'',
               ''    await client.close();'',
               ''  }'',
               ''}'',
               [],
               ''main();'']
         | Go \<Rightarrow>
             text_lines
              [''package main'',
               [],
               ''import ('',
               ''    \"context\"'',
               ''    \"fmt\"'',
               ''    \"log\"'',
               [],
               ''    \"github.com/mongodb/mongocore/clients/go/mongocore\"'',
               '')'',
               [],
               ''func main() {'',
               ''    client, err := mongocore.NewClient(\"localhost:50051\")'',
               ''    if err != nil {'',
               ''        log.Fatal(err)'',
               ''    }'',
               ''    defer client.Close()'',
               [],
               ''    err = client.CreateIndex(context.Background(), \"'' @ database @ ''\", \"'' @ collection @ ''\", `{'' @ keys_json @ ''}`)'',
               ''    if err != nil {'',
               ''        log.Fatal(err)'',
               ''    }'',
               ''    fmt.Println(\"Index created successfully\")'',
               ''}'']
         | Java \<Rightarrow>
             text_lines
              [''import com.mongodb.mongocore.MongoCore;'',
               [],
               ''public class CreateIndex {'',
               ''    public static void main(String[] args) throws Exception {'',
               ''        try (var client = new MongoCore(\"localhost:50051\")) {'',
               ''            client.createIndex(\"'' @ database @ ''\", \"'' @ collection @ ''\", \"{'' @ keys_json @ ''}\");'',
               ''            System.out.println(\"Index created successfully\");'',
               ''        }'',
               ''    }'',
               ''}'']))"

definition suggest_index :: "language \<Rightarrow> string \<Rightarrow> string \<Rightarrow> json \<Rightarrow> index_suggestion" where
  "suggest_index language database collection filter_value =
     (let fs = extract_index_fields filter_value in
      \<lparr>xs_index_spec = ''{'' @ index_keys fs @ ''}'',
       xs_fields = fs,
       xs_code = generate_index_code language database collection fs,
       xs_explanation =
         (if fs = [] then ''No filterable fields detected in query.''
          else ''Create a compound index on ['' @ join '', '' fs @ ''] to support this query pattern.'')\<rparr>)"

end
