(* ===== verification/Codegen_Crud.thy ===== *)
theory Codegen_Crud
  imports Codegen_Names
begin

text \<open>
  Generated client code for the operations on documents (\<open>src/mcp/codegen/crud_gen.rs\<close>), for
  ingestion (\<open>ingest_gen.rs\<close>) and for searching (\<open>search_gen.rs\<close>): the text of a function in
  each of the four languages. The printing of JSON is a parameter. Texts that the source
  writes as one literal are lists of their lines here.
\<close>

subsection \<open>Documents\<close>

definition crud_field :: "json_text \<Rightarrow> json \<Rightarrow> string \<Rightarrow> json \<Rightarrow> string" where
  "crud_field J params k dflt = jt_pretty J (case json_get params k of Some v \<Rightarrow> v | None \<Rightarrow> dflt)"

definition limit_text :: "json \<Rightarrow> string \<Rightarrow> string \<Rightarrow> string" where
  "limit_text params before after =
     (case Option.bind (json_get params ''limit'') as_u64 of
        None \<Rightarrow> []
      | Some n \<Rightarrow> before @ show_nat (unat n) @ after @ newline)"

definition generate_find :: "json_text \<Rightarrow> language \<Rightarrow> string \<Rightarrow> string \<Rightarrow> json \<Rightarrow> string" where
  "generate_find J language db coll params =
     (let filter_str = crud_field J params ''filter'' (JObject []); coll_cap = capitalize coll in
      case language of
        Python \<Rightarrow>
          text_lines
            [''async def find_'' @ coll @ ''(client, db_name: str = \"'' @ db @ ''\", collection: str = \"'' @ coll @ ''\", filter: dict | None = None):'',
             ''    \"\"\"Find documents in '' @ coll @ ''.\"\"\"'',
             ''    result = await client.find('',
             ''        database=db_name,'',
             ''        collection=collection,'',
             ''        filter=filter or '' @ filter_str @ '',''] @ limit_text params ''        limit='' '','' @
          text_lines
            [''    )'',
             ''    return result.documents'']
      | TypeScript \<Rightarrow>
          text_lines
            [''async function find'' @ coll_cap @ ''(client: MongoCore, dbName = \"'' @ db @ ''\", collection = \"'' @ coll @ ''\", filter?: object) {'',
             ''  // Find documents in '' @ coll,
             ''  const result = await client.find({'',
             ''    database: dbName,'',
             ''    collection,'',
             ''    filter: filter ?? '' @ filter_str @ '',''] @ limit_text params ''    limit: '' '','' @
          text_lines
            [''  });'',
             ''  return result.documents;'',
             ''}'']
      | Go \<Rightarrow>
          text_lines
            [''func find'' @ coll_cap @ ''(client *mongocore.Client, dbName string, collection string, filter map[string]interface{}) ([]bson.M, error) {'',
             tab @ ''// Find documents in '' @ coll,
             tab @ ''if filter == nil {'',
             tabs 2 @ ''filter = map[string]interface{}{}'',
             tab @ ''}'',
             tab @ ''result, err := client.Find(context.Background(), &pb.FindRequest{'',
             tabs 2 @ ''Database:   dbName,'',
             tabs 2 @ ''Collection: collection,'',
             tabs 2 @ ''Filter:     toJSON(filter),''] @ limit_text params (tabs 2 @ ''Limit: '') '','' @
          text_lines
            [tab @ ''})'',
             tab @ ''if err != nil {'',
             tabs 2 @ ''return nil, err'',
             tab @ ''}'',
             tab @ ''return result.Documents, nil'',
             ''}'']
      | Java \<Rightarrow>
          (let method_name = ''find'' @ coll_cap; filter_escaped = java_escape filter_str in
           text_lines
             [''public List<Document> '' @ method_name @ ''(MongoClient client, String dbName, String collection, Document filter) {'',
              ''    // Find documents in '' @ coll,
              ''    if (filter == null) {'',
              ''        filter = Document.parse(\"'' @ filter_escaped @ ''\");'',
              ''    }'',
              ''    FindRequest.Builder request = FindRequest.newBuilder()'',
              ''        .setDatabase(dbName)'',
              ''        .setCollection(collection)'',
              ''        .setFilter(toJson(filter));''] @ limit_text params ''    request.setLimit('' '');'' @
           text_lines
             [''    FindResponse response = client.find(request.build());'',
              ''    return response.getDocumentsList();'',
              ''}'']))"

definition generate_find_one :: "json_text \<Rightarrow> language \<Rightarrow> string \<Rightarrow> string \<Rightarrow> json \<Rightarrow> string" where
  "generate_find_one J language db coll params =
     (let filter_str = crud_field J params ''filter'' (JObject []); coll_cap = capitalize coll;
          filter_escaped = java_escape filter_str in
      case language of
        Python \<Rightarrow>
          text_lines
            [''async def find_one_'' @ coll @ ''(client, db_name: str = \"'' @ db @ ''\", collection: str = \"'' @ coll @ ''\", filter: dict | None = None):'',
             ''    \"\"\"Find one document in '' @ coll @ ''.\"\"\"'',
             ''    result = await client.find_one('',
             ''        database=db_name,'',
             ''        collection=collection,'',
             ''        filter=filter or '' @ filter_str @ '','',
             ''    )'',
             ''    return result.document'']
      | TypeScript \<Rightarrow>
          text_lines
            [''async function findOne'' @ coll_cap @ ''(client: MongoCore, dbName = \"'' @ db @ ''\", collection = \"'' @ coll @ ''\", filter?: object) {'',
             ''  // Find one document in '' @ coll,
             ''  const result = await client.findOne({'',
             ''    database: dbName,'',
             ''    collection,'',
             ''    filter: filter ?? '' @ filter_str @ '','',
             ''  });'',
             ''  return result.document;'',
             ''}'']
      | Go \<Rightarrow>
          text_lines
            [''func findOne'' @ coll_cap @ ''(client *mongocore.Client, dbName string, collection string, filter map[string]interface{}) (bson.M, error) {'',
             tab @ ''// Find one document in '' @ coll,
             tab @ ''if filter == nil {'',
             tabs 2 @ ''filter = map[string]interface{}{}'',
             tab @ ''}'',
             tab @ ''result, err := client.FindOne(context.Background(), &pb.FindOneRequest{'',
             tabs 2 @ ''Database:   dbName,'',
             tabs 2 @ ''Collection: collection,'',
             tabs 2 @ ''Filter:     toJSON(filter),'',
             tab @ ''})'',
             tab @ ''if err != nil {'',
             tabs 2 @ ''return nil, err'',
             tab @ ''}'',
             tab @ ''return result.Document, nil'',
             ''}'']
      | Java \<Rightarrow>
          text_lines
            [''public Document findOne'' @ coll_cap @ ''(MongoClient client, String dbName, String collection, Document filter) {'',
             ''    // Find one document in '' @ coll,
             ''    if (filter == null) {'',
             ''        filter = Document.parse(\"'' @ filter_escaped @ ''\");'',
             ''    }'',
             ''    FindOneRequest request = FindOneRequest.newBuilder()'',
             ''        .setDatabase(dbName)'',
             ''        .setCollection(collection)'',
             ''        .setFilter(toJson(filter))'',
             ''        .build();'',
             ''    return client.findOne(request).getDocument();'',
             ''}''])"

definition generate_insert :: "json_text \<Rightarrow> language \<Rightarrow> string \<Rightarrow> string \<Rightarrow> json \<Rightarrow> string" where
  "generate_insert J language db coll params =
     (let doc_str = crud_field J params ''document'' (JObject []); coll_cap = capitalize coll in
      case language of
        Python \<Rightarrow>
          text_lines
            [''async def insert_'' @ coll @ ''(client, db_name: str = \"'' @ db @ ''\", collection: str = \"'' @ coll @ ''\", document: dict | None = None):'',
             ''    \"\"\"Insert a document into '' @ coll @ ''.\"\"\"'',
             ''    result = await client.insert_one('',
             ''        database=db_name,'',
             ''        collection=collection,'',
             ''        document=document or '' @ doc_str @ '','',
             ''    )'',
             ''    return result.inserted_id'']
      | TypeScript \<Rightarrow>
          text_lines
            [''async function insert'' @ coll_cap @ ''(client: MongoCore, dbName = \"'' @ db @ ''\", collection = \"'' @ coll @ ''\", document?: object) {'',
             ''  // Insert a document into '' @ coll,
             ''  const result = await client.insertOne({'',
             ''    database: dbName,'',
             ''    collection,'',
             ''    document: document ?? '' @ doc_str @ '','',
             ''  });'',
             ''  return result.insertedId;'',
             ''}'']
      | Go \<Rightarrow>
          text_lines
            [''func insert'' @ coll_cap @ ''(client *mongocore.Client, dbName string, collection string, document map[string]interface{}) (string, error) {'',
             tab @ ''// Insert a document into '' @ coll,
             tab @ ''result, err := client.InsertOne(context.Background(), &pb.InsertOneRequest{'',
             tabs 2 @ ''Database:   dbName,'',
             tabs 2 @ ''Collection: collection,'',
             tabs 2 @ ''Document:   toJSON(document),'',
             tab @ ''})'',
             tab @ ''if err != nil {'',
             tabs 2 @ ''return \"\", err'',
             tab @ ''}'',
             tab @ ''return result.InsertedId, nil'',
             ''}'']
      | Java \<Rightarrow>
          text_lines
            [''public String insert'' @ coll_cap @ ''(MongoClient client, String dbName, String collection, Document document) {'',
             ''    // Insert a document into '' @ coll,
             ''    InsertOneRequest request = InsertOneRequest.newBuilder()'',
             ''        .setDatabase(dbName)'',
             ''        .setCollection(collection)'',
             ''        .setDocument(toJson(document))'',
             ''        .build();'',
             ''    return client.insertOne(request).getInsertedId();'',
             ''}''])"

definition generate_insert_many :: "json_text \<Rightarrow> language \<Rightarrow> string \<Rightarrow> string \<Rightarrow> json \<Rightarrow> string" where
  "generate_insert_many J language db coll params =
     (let docs_str = crud_field J params ''documents'' (JArray []); coll_cap = capitalize coll in
      case language of
        Python \<Rightarrow>
          text_lines
            [''async def insert_many_'' @ coll @ ''(client, db_name: str = \"'' @ db @ ''\", collection: str = \"'' @ coll @ ''\", documents: list | None = None):'',
             ''    \"\"\"Insert multiple documents into '' @ coll @ ''.\"\"\"'',
             ''    result = await client.insert_many('',
             ''        database=db_name,'',
             ''        collection=collection,'',
             ''        documents=documents or '' @ docs_str @ '','',
             ''    )'',
             ''    return result.inserted_ids'']
      | TypeScript \<Rightarrow>
          text_lines
            [''async function insertMany'' @ coll_cap @ ''(client: MongoCore, dbName = \"'' @ db @ ''\", collection = \"'' @ coll @ ''\", documents?: object[]) {'',
             ''  // Insert multiple documents into '' @ coll,
             ''  const result = await client.insertMany({'',
             ''    database: dbName,'',
             ''    collection,'',
             ''    documents: documents ?? '' @ docs_str @ '','',
             ''  });'',
             ''  return result.insertedIds;'',
             ''}'']
      | Go \<Rightarrow>
          text_lines
            [''func insertMany'' @ coll_cap @ ''(client *mongocore.Client, dbName string, collection string, documents []map[string]interface{}) ([]string, error) {'',
             tab @ ''// Insert multiple documents into '' @ coll,
             tab @ ''result, err := client.InsertMany(context.Background(), &pb.InsertManyRequest{'',
             tabs 2 @ ''Database:   dbName,'',
             tabs 2 @ ''Collection: collection,'',
             tabs 2 @ ''Documents:  toJSONArray(documents),'',
             tab @ ''})'',
             tab @ ''if err != nil {'',
             tabs 2 @ ''return nil, err'',
             tab @ ''}'',
             tab @ ''return result.InsertedIds, nil'',
             ''}'']
      | Java \<Rightarrow>
          text_lines
            [''public List<String> insertMany'' @ coll_cap @ ''(MongoClient client, String dbName, String collection, List<Document> documents) {'',
             ''    // Insert multiple documents into '' @ coll,
             ''    InsertManyRequest request = InsertManyRequest.newBuilder()'',
             ''        .setDatabase(dbName)'',
             ''        .setCollection(collection)'',
             ''        .addAllDocuments(toJsonList(documents))'',
             ''        .build();'',
             ''    return client.insertMany(request).getInsertedIdsList();'',
             ''}''])"

definition generate_update :: "json_text \<Rightarrow> language \<Rightarrow> string \<Rightarrow> string \<Rightarrow> json \<Rightarrow> string" where
  "generate_update J language db coll params =
     (let filter_str = crud_field J params ''filter'' (JObject []); update_str = crud_field J params ''update'' (JObject []);
          coll_cap = capitalize coll in
      case language of
        Python \<Rightarrow>
          text_lines
            [''async def update_'' @ coll @ ''(client, db_name: str = \"'' @ db @ ''\", collection: str = \"'' @ coll @ ''\", filter: dict | None = None, update: dict | None = None):'',
             ''    \"\"\"Update a document in '' @ coll @ ''.\"\"\"'',
             ''    result = await client.update_one('',
             ''        database=db_name,'',
             ''        collection=collection,'',
             ''        filter=filter or '' @ filter_str @ '','',
             ''        update=update or '' @ update_str @ '','',
             ''    )'',
             ''    return result.modified_count'']
      | TypeScript \<Rightarrow>
          text_lines
            [''async function update'' @ coll_cap @ ''(client: MongoCore, dbName = \"'' @ db @ ''\", collection = \"'' @ coll @ ''\", filter?: object, update?: object) {'',
             ''  // Update a document in '' @ coll,
             ''  const result = await client.updateOne({'',
             ''    database: dbName,'',
             ''    collection,'',
             ''    filter: filter ?? '' @ filter_str @ '','',
             ''    update: update ?? '' @ update_str @ '','',
             ''  });'',
             ''  return result.modifiedCount;'',
             ''}'']
      | Go \<Rightarrow>
          text_lines
            [''func update'' @ coll_cap @ ''(client *mongocore.Client, dbName string, collection string, filter, update map[string]interface{}) (int64, error) {'',
             tab @ ''// Update a document in '' @ coll,
             tab @ ''result, err := client.UpdateOne(context.Background(), &pb.UpdateOneRequest{'',
             tabs 2 @ ''Database:   dbName,'',
             tabs 2 @ ''Collection: collection,'',
             tabs 2 @ ''Filter:     toJSON(filter),'',
             tabs 2 @ ''Update:     toJSON(update),'',
             tab @ ''})'',
             tab @ ''if err != nil {'',
             tabs 2 @ ''return 0, err'',
             tab @ ''}'',
             tab @ ''return result.ModifiedCount, nil'',
             ''}'']
      | Java \<Rightarrow>
          text_lines
            [''public long update'' @ coll_cap @ ''(MongoClient client, String dbName, String collection, Document filter, Document update) {'',
             ''    // Update a document in '' @ coll,
             ''    UpdateOneRequest request = UpdateOneRequest.newBuilder()'',
             ''        .setDatabase(dbName)'',
             ''        .setCollection(collection)'',
             ''        .setFilter(toJson(filter))'',
             ''        .setUpdate(toJson(update))'',
             ''        .build();'',
             ''    return client.updateOne(request).getModifiedCount();'',
             ''}''])"

definition generate_update_many :: "json_text \<Rightarrow> language \<Rightarrow> string \<Rightarrow> string \<Rightarrow> json \<Rightarrow> string" where
  "generate_update_many J language db coll params =
     (let filter_str = crud_field J params ''filter'' (JObject []); update_str = crud_field J params ''update'' (JObject []);
          coll_cap = capitalize coll in
      case language of
        Python \<Rightarrow>
          text_lines
            [''async def update_many_'' @ coll @ ''(client, db_name: str = \"'' @ db @ ''\", collection: str = \"'' @ coll @ ''\", filter: dict | None = None, update: dict | None = None):'',
             ''    \"\"\"Update multiple documents in '' @ coll @ ''.\"\"\"'',
             ''    result = await client.update_many('',
             ''        database=db_name,'',
             ''        collection=collection,'',
             ''        filter=filter or '' @ filter_str @ '','',
             ''        update=update or '' @ update_str @ '','',
             ''    )'',
             ''    return result.modified_count'']
      | TypeScript \<Rightarrow>
          text_lines
            [''async function updateMany'' @ coll_cap @ ''(client: MongoCore, dbName = \"'' @ db @ ''\", collection = \"'' @ coll @ ''\", filter?: object, update?: object) {'',
             ''  // Update multiple documents in '' @ coll,
             ''  const result = await client.updateMany({'',
             ''    database: dbName,'',
             ''    collection,'',
             ''    filter: filter ?? '' @ filter_str @ '','',
             ''    update: update ?? '' @ update_str @ '','',
             ''  });'',
             ''  return result.modifiedCount;'',
             ''}'']
      | Go \<Rightarrow>
          text_lines
            [''func updateMany'' @ coll_cap @ ''(client *mongocore.Client, dbName string, collection string, filter, update map[string]interface{}) (int64, error) {'',
             tab @ ''// Update multiple documents in '' @ coll,
             tab @ ''result, err := client.UpdateMany(context.Background(), &pb.UpdateManyRequest{'',
             tabs 2 @ ''Database:   dbName,'',
             tabs 2 @ ''Collection: collection,'',
             tabs 2 @ ''Filter:     toJSON(filter),'',
             tabs 2 @ ''Update:     toJSON(update),'',
             tab @ ''})'',
             tab @ ''if err != nil {'',
             tabs 2 @ ''return 0, err'',
             tab @ ''}'',
             tab @ ''return result.ModifiedCount, nil'',
             ''}'']
      | Java \<Rightarrow>
          text_lines
            [''public long updateMany'' @ coll_cap @ ''(MongoClient client, String dbName, String collection, Document filter, Document update) {'',
             ''    // Update multiple documents in '' @ coll,
             ''    UpdateManyRequest request = UpdateManyRequest.newBuilder()'',
             ''        .setDatabase(dbName)'',
             ''        .setCollection(collection)'',
             ''        .setFilter(toJson(filter))'',
             ''        .setUpdate(toJson(update))'',
             ''        .build();'',
             ''    return client.updateMany(request).getModifiedCount();'',
             ''}''])"

definition generate_delete :: "json_text \<Rightarrow> language \<Rightarrow> string \<Rightarrow> string \<Rightarrow> json \<Rightarrow> string" where
  "generate_delete J language db coll params =
     (let filter_str = crud_field J params ''filter'' (JObject []); coll_cap = capitalize coll in
      case language of
        Python \<Rightarrow>
          text_lines
            [''async def delete_'' @ coll @ ''(client, db_name: str = \"'' @ db @ ''\", collection: str = \"'' @ coll @ ''\", filter: dict | None = None):'',
             ''    \"\"\"Delete a document from '' @ coll @ ''.\"\"\"'',
             ''    result = await client.delete_one('',
             ''        database=db_name,'',
             ''        collection=collection,'',
             ''        filter=filter or '' @ filter_str @ '','',
             ''    )'',
             ''    return result.deleted_count'']
      | TypeScript \<Rightarrow>
          text_lines
            [''async function delete'' @ coll_cap @ ''(client: MongoCore, dbName = \"'' @ db @ ''\", collection = \"'' @ coll @ ''\", filter?: object) {'',
             ''  // Delete a document from '' @ coll,
             ''  const result = await client.deleteOne({'',
             ''    database: dbName,'',
             ''    collection,'',
             ''    filter: filter ?? '' @ filter_str @ '','',
             ''  });'',
             ''  return result.deletedCount;'',
             ''}'']
      | Go \<Rightarrow>
          text_lines
            [''func delete'' @ coll_cap @ ''(client *mongocore.Client, dbName string, collection string, filter map[string]interface{}) (int64, error) {'',
             tab @ ''// Delete a document from '' @ coll,
             tab @ ''result, err := client.DeleteOne(context.Background(), &pb.DeleteOneRequest{'',
             tabs 2 @ ''Database:   dbName,'',
             tabs 2 @ ''Collection: collection,'',
             tabs 2 @ ''Filter:     toJSON(filter),'',
             tab @ ''})'',
             tab @ ''if err != nil {'',
             tabs 2 @ ''return 0, err'',
             tab @ ''}'',
             tab @ ''return result.DeletedCount, nil'',
             ''}'']
      | Java \<Rightarrow>
          text_lines
            [''public long delete'' @ coll_cap @ ''(MongoClient client, String dbName, String collection, Document filter) {'',
             ''    // Delete a document from '' @ coll,
             ''    DeleteOneRequest request = DeleteOneRequest.newBuilder()'',
             ''        .setDatabase(dbName)'',
             ''        .setCollection(collection)'',
             ''        .setFilter(toJson(filter))'',
             ''        .build();'',
             ''    return client.deleteOne(request).getDeletedCount();'',
             ''}''])"

definition generate_delete_many :: "json_text \<Rightarrow> language \<Rightarrow> string \<Rightarrow> string \<Rightarrow> json \<Rightarrow> string" where
  "generate_delete_many J language db coll params =
     (let filter_str = crud_field J params ''filter'' (JObject []); coll_cap = capitalize coll in
      case language of
        Python \<Rightarrow>
          text_lines
            [''async def delete_many_'' @ coll @ ''(client, db_name: str = \"'' @ db @ ''\", collection: str = \"'' @ coll @ ''\", filter: dict | None = None):'',
             ''    \"\"\"Delete multiple documents from '' @ coll @ ''.\"\"\"'',
             ''    result = await client.delete_many('',
             ''        database=db_name,'',
             ''        collection=collection,'',
             ''        filter=filter or '' @ filter_str @ '','',
             ''    )'',
             ''    return result.deleted_count'']
      | TypeScript \<Rightarrow>
          text_lines
            [''async function deleteMany'' @ coll_cap @ ''(client: MongoCore, dbName = \"'' @ db @ ''\", collection = \"'' @ coll @ ''\", filter?: object) {'',
             ''  // Delete multiple documents from '' @ coll,
             ''  const result = await client.deleteMany({'',
             ''    database: dbName,'',
             ''    collection,'',
             ''    filter: filter ?? '' @ filter_str @ '','',
             ''  });'',
             ''  return result.deletedCount;'',
             ''}'']
      | Go \<Rightarrow>
          text_lines
            [''func deleteMany'' @ coll_cap @ ''(client *mongocore.Client, dbName string, collection string, filter map[string]interface{}) (int64, error) {'',
             tab @ ''// Delete multiple documents from '' @ coll,
             tab @ ''result, err := client.DeleteMany(context.Background(), &pb.DeleteManyRequest{'',
             tabs 2 @ ''Database:   dbName,'',
             tabs 2 @ ''Collection: collection,'',
             tabs 2 @ ''Filter:     toJSON(filter),'',
             tab @ ''})'',
             tab @ ''if err != nil {'',
             tabs 2 @ ''return 0, err'',
             tab @ ''}'',
             tab @ ''return result.DeletedCount, nil'',
             ''}'']
      | Java \<Rightarrow>
          text_lines
            [''public long deleteMany'' @ coll_cap @ ''(MongoClient client, String dbName, String collection, Document filter) {'',
             ''    // Delete multiple documents from '' @ coll,
             ''    DeleteManyRequest request = DeleteManyRequest.newBuilder()'',
             ''        .setDatabase(dbName)'',
             ''        .setCollection(collection)'',
             ''        .setFilter(toJson(filter))'',
             ''        .build();'',
             ''    return client.deleteMany(request).getDeletedCount();'',
             ''}''])"

definition generate_crud_code :: "json_text \<Rightarrow> language \<Rightarrow> string \<Rightarrow> json \<Rightarrow> string + string" where
  "generate_crud_code J language tool_name params =
     (let db = str_param params ''database'' ''mydb''; coll = str_param params ''collection'' ''docs'' in
      if tool_name = ''find'' then Inr (generate_find J language db coll params)
      else if tool_name = ''find_one'' then Inr (generate_find_one J language db coll params)
      else if tool_name \<in> {''insert'', ''insert_one''} then Inr (generate_insert J language db coll params)
      else if tool_name = ''insert_many'' then Inr (generate_insert_many J language db coll params)
      else if tool_name \<in> {''update'', ''update_one''} then Inr (generate_update J language db coll params)
      else if tool_name = ''update_many'' then Inr (generate_update_many J language db coll params)
      else if tool_name \<in> {''delete'', ''delete_one''} then Inr (generate_delete J language db coll params)
      else if tool_name = ''delete_many'' then Inr (generate_delete_many J language db coll params)
      else Inl (''Unknown CRUD operation: '' @ tool_name))"

subsection \<open>Ingestion\<close>

definition option_text :: "string \<Rightarrow> string option \<Rightarrow> string \<Rightarrow> string" where
  "option_text before v after = (case v of None \<Rightarrow> [] | Some s \<Rightarrow> before @ s @ after @ newline)"

definition generate_ingest :: "json_text \<Rightarrow> language \<Rightarrow> json \<Rightarrow> string" where
  "generate_ingest J language params =
     (let db = str_param params ''database'' ''mydb''; coll = str_param params ''collection'' ''docs'';
          source = str_param params ''source'' ''data.csv''; coll_cap = capitalize coll;
          format = json_str_field params ''format''; dedup_key = json_str_field params ''dedup_key'';
          conflict_strategy = json_str_field params ''conflict_strategy''; transforms = json_get params ''transforms'' in
      case language of
        Python \<Rightarrow>
          text_lines
            [''async def ingest_'' @ coll @ ''(client, db_name: str = \"'' @ db @ ''\", collection: str = \"'' @ coll @ ''\", source: str = \"'' @ source @ ''\"):'',
             ''    \"\"\"Ingest data into '' @ coll @ '' from '' @ source @ ''.\"\"\"'',
             ''    result = await client.ingest('',
             ''        database=db_name,'',
             ''        collection=collection,'',
             ''        source=source,''] @
          option_text ''        format=\"'' format ''\",'' @
          option_text ''        dedup_key=\"'' dedup_key ''\",'' @
          option_text ''        conflict_strategy=\"'' conflict_strategy ''\",'' @
          option_text ''        transforms='' (map_option (jt_compact J) transforms) '','' @
          text_lines
            [''    )'',
             ''    return result'']
      | TypeScript \<Rightarrow>
          text_lines
            [''async function ingest'' @ coll_cap @ ''(client: MongoCore, dbName = \"'' @ db @ ''\", collection = \"'' @ coll @ ''\", source = \"'' @ source @ ''\") {'',
             ''  // Ingest data into '' @ coll @ '' from '' @ source,
             ''  const result = await client.ingest({'',
             ''    database: dbName,'',
             ''    collection,'',
             ''    source,''] @
          option_text ''    format: \"'' format ''\",'' @
          option_text ''    dedupKey: \"'' dedup_key ''\",'' @
          option_text ''    conflictStrategy: \"'' conflict_strategy ''\",'' @
          option_text ''    transforms: '' (map_option (jt_pretty J) transforms) '','' @
          text_lines
            [''  });'',
             ''  return result;'',
             ''}'']
      | Go \<Rightarrow>
          text_lines
            [''func ingest'' @ coll_cap @ ''(client *mongocore.Client, dbName string, collection string, source string) ('' @ ''*pb.IngestResponse, error) {'',
             tab @ ''// Ingest data into '' @ coll @ '' from '' @ source,
             tab @ ''req := &pb.IngestRequest{'',
             tabs 2 @ ''Database:   dbName,'',
             tabs 2 @ ''Collection: collection,'',
             tabs 2 @ ''Source:     source,''] @
          option_text (tabs 2 @ ''Format: \"'') format ''\",'' @
          option_text (tabs 2 @ ''DedupKey: \"'') dedup_key ''\",'' @
          option_text (tabs 2 @ ''ConflictStrategy: \"'') conflict_strategy ''\",'' @
          text_lines
            [tab @ ''}'',
             tab @ ''return client.Ingest(context.Background(), req)'',
             ''}'']
      | Java \<Rightarrow>
          (let method_name = ''ingest'' @ coll_cap in
           text_lines
             [''public IngestResponse '' @ method_name @ ''(MongoClient client, String dbName, String collection, String source) {'',
              ''    // Ingest data into '' @ coll @ '' from '' @ source,
              ''    IngestRequest.Builder request = IngestRequest.newBuilder()'',
              ''        .setDatabase(dbName)'',
              ''        .setCollection(collection)'',
              ''        .setSource(source);''] @
           option_text ''    request.setFormat(\"'' format ''\");'' @
           option_text ''    request.setDedupKey(\"'' dedup_key ''\");'' @
           option_text ''    request.setConflictStrategy(\"'' conflict_strategy ''\");'' @
           text_lines
             [''    return client.ingest(request.build());'',
              ''}'']))"

definition generate_watch_directory :: "language \<Rightarrow> json \<Rightarrow> string" where
  "generate_watch_directory language params =
     (let db = str_param params ''database'' ''mydb''; coll = str_param params ''collection'' ''docs'';
          path = str_param params ''path'' ''./data''; coll_cap = capitalize coll in
      case language of
        Python \<Rightarrow>
          text_lines
            [''async def watch_directory_'' @ coll @ ''(client, db_name: str = \"'' @ db @ ''\", collection: str = \"'' @ coll @ ''\", path: str = \"'' @ path @ ''\"):'',
             ''    \"\"\"Watch directory and ingest new files into '' @ coll @ ''.\"\"\"'',
             ''    result = await client.watch_directory('',
             ''        database=db_name,'',
             ''        collection=collection,'',
             ''        path=path,'',
             ''    )'',
             ''    return result'']
      | TypeScript \<Rightarrow>
          text_lines
            [''async function watchDirectory'' @ coll_cap @ ''(client: MongoCore, dbName = \"'' @ db @ ''\", collection = \"'' @ coll @ ''\", path = \"'' @ path @ ''\") {'',
             ''  // Watch directory and ingest new files into '' @ coll,
             ''  const result = await client.watchDirectory({'',
             ''    database: dbName,'',
             ''    collection,'',
             ''    path,'',
             ''  });'',
             ''  return result;'',
             ''}'']
      | Go \<Rightarrow>
          text_lines
            [''func watchDirectory'' @ coll_cap @ ''(client *mongocore.Client, dbName string, collection string, path string) ('' @ ''*pb.WatchDirectoryResponse, error) {'',
             tab @ ''// Watch directory and ingest new files into '' @ coll,
             tab @ ''req := &pb.WatchDirectoryRequest{'',
             tabs 2 @ ''Database:   dbName,'',
             tabs 2 @ ''Collection: collection,'',
             tabs 2 @ ''Path:       path,'',
             tab @ ''}'',
             tab @ ''return client.WatchDirectory(context.Background(), req)'',
             ''}'']
      | Java \<Rightarrow>
          text_lines
            [''public WatchDirectoryResponse watchDirectory'' @ coll_cap @ ''(MongoClient client, String dbName, String collection, String path) {'',
             ''    // Watch directory and ingest new files into '' @ coll,
             ''    WatchDirectoryRequest request = WatchDirectoryRequest.newBuilder()'',
             ''        .setDatabase(dbName)'',
             ''        .setCollection(collection)'',
             ''        .setPath(path)'',
             ''        .build();'',
             ''    return client.watchDirectory(request);'',
             ''}''])"

definition generate_ingest_code :: "json_text \<Rightarrow> language \<Rightarrow> string \<Rightarrow> json \<Rightarrow> string + string" where
  "generate_ingest_code J language tool_name params =
     (if tool_name = ''ingest'' then Inr (generate_ingest J language params)
      else if tool_name = ''watch_directory'' then Inr (generate_watch_directory language params)
      else Inl (''Unknown ingestion operation: '' @ tool_name))"

subsection \<open>Searching\<close>

definition get_str_param :: "json \<Rightarrow> string \<Rightarrow> string" where
  "get_str_param params k = str_param params k ''unknown''"

definition generate_embed_and_store :: "language \<Rightarrow> json \<Rightarrow> string" where
  "generate_embed_and_store language params =
     (let db = get_str_param params ''database''; coll = get_str_param params ''collection'';
          embed_field = get_str_param params ''embed_field''; coll_cap = capitalize coll in
      case language of
        Python \<Rightarrow>
          text_lines
            [''async def embed_and_store_'' @ coll @ ''('',
             ''    client,'',
             ''    db_name: str = \"'' @ db @ ''\",'',
             ''    collection_name: str = \"'' @ coll @ ''\",'',
             ''    documents: list[dict] = None,'',
             ''    embed_field: str = \"'' @ embed_field @ ''\",'',
             '') -> dict:'',
             ''    return await client.embed_and_store('',
             ''        database=db_name,'',
             ''        collection=collection_name,'',
             ''        documents=documents or [],'',
             ''        embed_field=embed_field,'',
             ''    )'']
      | TypeScript \<Rightarrow>
          text_lines
            [''async function embedAndStore_'' @ coll @ ''('',
             ''  client: MongoCore,'',
             ''  dbName = \"'' @ db @ ''\",'',
             ''  collectionName = \"'' @ coll @ ''\",'',
             ''  documents: Record<string, unknown>[] = [],'',
             ''  embedField = \"'' @ embed_field @ ''\",'',
             '') {'',
             ''  return await client.embedAndStore({'',
             ''    database: dbName,'',
             ''    collection: collectionName,'',
             ''    documents,'',
             ''    embedField,'',
             ''  });'',
             ''}'']
      | Go \<Rightarrow>
          text_lines
            [''func embedAndStore_'' @ coll @ ''(client *mongocore.Client, dbName string, collectionName string, documents []interface{}, embedField string) ('' @ ''*EmbedResult, error) {'',
             ''    return client.EmbedAndStore(&EmbedOptions{'',
             ''        Database:   dbName,'',
             ''        Collection: collectionName,'',
             ''        Documents:  documents,'',
             ''        EmbedField: embedField,'',
             ''    })'',
             ''}'']
      | Java \<Rightarrow>
          text_lines
            [''public EmbedResult embedAndStore'' @ coll_cap @ ''(MongoClient client, String dbName, String collectionName, List<Document> documents, String embedField) {'',
             ''    return client.embedAndStore(dbName, collectionName, documents, embedField);'',
             ''}''])"

definition generate_semantic_search :: "language \<Rightarrow> json \<Rightarrow> string" where
  "generate_semantic_search language params =
     (let db = get_str_param params ''database''; coll = get_str_param params ''collection'';
          query = get_str_param params ''query''; coll_cap = capitalize coll;
          limit = show_nat (case Option.bind (json_get params ''limit'') as_u64 of Some n \<Rightarrow> unat n | None \<Rightarrow> 10) in
      case language of
        Python \<Rightarrow>
          text_lines
            [''async def semantic_search_'' @ coll @ ''('',
             ''    client,'',
             ''    db_name: str = \"'' @ db @ ''\",'',
             ''    collection_name: str = \"'' @ coll @ ''\",'',
             ''    query: str = \"'' @ query @ ''\",'',
             ''    limit: int = '' @ limit @ '','',
             '') -> list[dict]:'',
             ''    return await client.semantic_search('',
             ''        database=db_name,'',
             ''        collection=collection_name,'',
             ''        query=query,'',
             ''        limit=limit,'',
             ''    )'']
      | TypeScript \<Rightarrow>
          text_lines
            [''async function semanticSearch_'' @ coll @ ''('',
             ''  client: MongoCore,'',
             ''  dbName = \"'' @ db @ ''\",'',
             ''  collectionName = \"'' @ coll @ ''\",'',
             ''  query = \"'' @ query @ ''\",'',
             ''  limit = '' @ limit @ '','',
             '') {'',
             ''  return await client.semanticSearch({'',
             ''    database: dbName,'',
             ''    collection: collectionName,'',
             ''    query,'',
             ''    limit,'',
             ''  });'',
             ''}'']
      | Go \<Rightarrow>
          text_lines
            [''func semanticSearch_'' @ coll @ ''(client *mongocore.Client, dbName string, collectionName string, query string, limit int) ([]SearchResult, error) {'',
             ''    return client.SemanticSearch(&SearchOptions{'',
             ''        Database:   dbName,'',
             ''        Collection: collectionName,'',
             ''        Query:      query,'',
             ''        Limit:      limit,'',
             ''    })'',
             ''}'']
      | Java \<Rightarrow>
          text_lines
            [''public List<SearchResult> semanticSearch'' @ coll_cap @ ''(MongoClient client, String dbName, String collectionName, String query, int limit) {'',
             ''    return client.semanticSearch(dbName, collectionName, query, limit);'',
             ''}''])"

definition generate_search_code :: "language \<Rightarrow> string \<Rightarrow> json \<Rightarrow> string + string" where
  "generate_search_code language tool_name params =
     (if tool_name = ''embed_and_store'' then Inr (generate_embed_and_store language params)
      else if tool_name = ''semantic_search'' then Inr (generate_semantic_search language params)
      else Inl (''Unknown search operation: '' @ tool_name))"

end
