(* ===== verification/Codegen_Session.thy ===== *)
theory Codegen_Session
  imports Codegen_Crud
begin

text \<open>
  Code for the operations of a session (\<open>src/mcp/codegen/session_gen.rs\<close>): the function of one
  operation, and the script that declares the functions of all of them and calls them in order.
\<close>

subsection \<open>One operation\<close>

definition CRUD_TOOLS :: "string list" where
  "CRUD_TOOLS =
     [''find'', ''find_one'', ''insert'', ''insert_one'', ''insert_many'', ''update'', ''update_one'', ''update_many'',
      ''delete'', ''delete_one'', ''delete_many'']"

definition INGEST_TOOLS :: "string list" where "INGEST_TOOLS = [''ingest'', ''watch_directory'']"
definition SEARCH_TOOLS :: "string list" where "SEARCH_TOOLS = [''embed_and_store'', ''semantic_search'']"

definition generate_passthrough :: "json_text \<Rightarrow> language \<Rightarrow> string \<Rightarrow> json \<Rightarrow> string" where
  "generate_passthrough J language tool_name params =
     (let params_str = jt_pretty J params; db = str_param params ''database'' ''mydb'';
          coll = str_param params ''collection'' ''docs'';
          func_name = tool_name @ ''_'' @ coll; method_name = tool_name @ ''_'' @ coll;
          params_escaped = java_escape params_str in
      case language of
        Python \<Rightarrow>
          text_lines
            [''async def '' @ tool_name @ ''_'' @ coll @ ''(client, db_name: str = \"'' @ db @ ''\", collection: str = \"'' @ coll @ ''\"):'',
             ''    \"\"\"'' @ tool_name @ '' on '' @ coll @ '' in '' @ db @ ''.\"\"\"'',
             ''    result = await client.run_tool('',
             ''        \"'' @ tool_name @ ''\",'',
             ''        '' @ params_str @ '','',
             ''    )'',
             ''    return result'']
      | TypeScript \<Rightarrow>
          text_lines
            [''async function '' @ func_name @ ''(client: MongoCore, dbName = \"'' @ db @ ''\", collection = \"'' @ coll @ ''\") {'',
             ''  // '' @ tool_name @ '' on '' @ coll @ '' in '' @ db,
             ''  const result = await client.runTool('',
             ''    \"'' @ tool_name @ ''\",'',
             ''    '' @ params_str @ '','',
             ''  );'',
             ''  return result;'',
             ''}'']
      | Go \<Rightarrow>
          text_lines
            [''func '' @ func_name @ ''(client *mongocore.Client, dbName string, collection string) (interface{}, error) {'',
             tab @ ''// '' @ tool_name @ '' on '' @ coll @ '' in '' @ db,
             tab @ ''return client.RunTool(context.Background(), \"'' @ tool_name @ ''\", []byte(`'' @ params_str @ ''`))'',
             ''}'']
      | Java \<Rightarrow>
          text_lines
            [''public Object '' @ method_name @ ''(MongoClient client, String dbName, String collection) {'',
             ''    // '' @ tool_name @ '' on '' @ coll @ '' in '' @ db,
             ''    return client.runTool(\"'' @ tool_name @ ''\", \"'' @ params_escaped @ ''\");'',
             ''}''])"

definition generate_single_operation_code :: "json_text \<Rightarrow> language \<Rightarrow> string \<Rightarrow> json \<Rightarrow> string + string" where
  "generate_single_operation_code J language tool_name params =
     (if tool_name \<in> set CRUD_TOOLS then generate_crud_code J language tool_name params
      else if tool_name \<in> set INGEST_TOOLS then generate_ingest_code J language tool_name params
      else if tool_name \<in> set SEARCH_TOOLS then generate_search_code language tool_name params
      else Inr (generate_passthrough J language tool_name params))"

subsection \<open>The script of a session\<close>

definition make_function_name :: "string \<Rightarrow> json \<Rightarrow> string" where
  "make_function_name tool_name params = tool_name @ ''_'' @ str_param params ''collection'' ''docs''"

text \<open>The names of the operations: the second of a name gets the suffix 2, and so on.\<close>

fun function_names :: "(string \<Rightarrow> nat) \<Rightarrow> operation_record list \<Rightarrow> string list" where
  "function_names counts [] = []"
| "function_names counts (r # rs) =
     (let base = make_function_name (or_tool_name r) (or_params r); n = counts base + 1 in
      (if 1 < n then base @ ''_'' @ show_nat n else base) # function_names (counts(base := n)) rs)"

definition operation_docstring :: "operation_record \<Rightarrow> string" where
  "operation_docstring r =
     or_tool_name r @ '' on '' @ str_param (or_params r) ''collection'' ''docs'' @ '' in '' @
     str_param (or_params r) ''database'' ''mydb''"

definition operation_code :: "json_text \<Rightarrow> language \<Rightarrow> operation_record \<Rightarrow> string" where
  "operation_code J language r =
     (case generate_single_operation_code J language (or_tool_name r) (or_params r) of
        Inr code \<Rightarrow> code
      | Inl e \<Rightarrow>
          if or_success r then ''# Error generating code: '' @ e @ newline @ ''pass'' @ newline else ''pass'' @ newline)"

text \<open>The lines of a text, without the carriage returns before their ends; the last only when it is not empty.\<close>

definition strip_return :: "string \<Rightarrow> string" where
  "strip_return l = (if l \<noteq> [] \<and> last l = CHR 0x0D then butlast l else l)"

definition text_to_lines :: "string \<Rightarrow> string list" where
  "text_to_lines s =
     (let ls = split_char (CHR 0x0A) s in map strip_return (butlast ls) @ (if last ls = [] then [] else [last ls]))"

definition comment_mark :: "language \<Rightarrow> string" where
  "comment_mark language = (case language of Python \<Rightarrow> ''#'' | _ \<Rightarrow> ''//'')"

definition script_header :: "language \<Rightarrow> string" where
  "script_header language =
     (case language of
        Python \<Rightarrow>
          text_lines
            [''import asyncio'',
             ''from mongocore import MongoCore'',
             [],
             []]
      | TypeScript \<Rightarrow>
          text_lines
            [''import { MongoCore } from '' @ apostrophe @ ''@mongocore/client'' @ apostrophe @ '';'',
             []]
      | Go \<Rightarrow>
          text_lines
            [''package main'',
             [],
             ''import ('',
             tab @ ''\"context\"'',
             tab @ ''\"fmt\"'',
             [],
             tab @ ''pb \"github.com/mongodb/mongocore/proto\"'',
             tab @ ''\"github.com/mongodb/mongocore/client\"'',
             '')'',
             []]
      | Java \<Rightarrow>
          text_lines
            [''import com.mongodb.mongocore.*;'',
             ''import com.mongodb.mongocore.proto.*;'',
             ''import java.util.*;'',
             [],
             ''public class MongoSession {'',
             []])"

definition operation_block :: "json_text \<Rightarrow> language \<Rightarrow> operation_record \<Rightarrow> string" where
  "operation_block J language r =
     (let code = operation_code J language r; mark = comment_mark language in
      if or_success r then
        (case language of
           Python \<Rightarrow> ''# '' @ operation_docstring r @ newline @ code @ newline @ newline
         | TypeScript \<Rightarrow> ''// '' @ operation_docstring r @ newline @ code @ newline @ newline
         | Go \<Rightarrow> ''// '' @ operation_docstring r @ newline @ code @ newline @ newline
         | Java \<Rightarrow>
             ''    // '' @ operation_docstring r @ newline @ ''    '' @
             concat (map (\<lambda>c. if c = CHR 0x0A then newline @ ''    '' else [c]) code) @ newline @ newline)
      else
        mark @ '' FAILED: '' @ operation_docstring r @ '' (error: '' @
        (case or_error_message r of Some m \<Rightarrow> m | None \<Rightarrow> ''Unknown error'') @ '')'' @ newline @
        concat (map (\<lambda>l. mark @ '' '' @ l @ newline) (text_to_lines code)) @ newline)"

text \<open>One function of the source for each language, all the same.\<close>

definition to_ts_function_name :: "string \<Rightarrow> string" where
  "to_ts_function_name name =
     (case split_char (CHR ''_'') name of
        p # q # ps \<Rightarrow> p @ concat (map capitalize (q # ps))
      | _ \<Rightarrow> name)"

definition to_go_function_name :: "string \<Rightarrow> string" where
  "to_go_function_name name =
     (case split_char (CHR ''_'') name of
        p # q # ps \<Rightarrow> p @ concat (map capitalize (q # ps))
      | _ \<Rightarrow> name)"

definition to_java_method_name :: "string \<Rightarrow> string" where
  "to_java_method_name name =
     (case split_char (CHR ''_'') name of
        p # q # ps \<Rightarrow> p @ concat (map capitalize (q # ps))
      | _ \<Rightarrow> name)"

definition call_line :: "language \<Rightarrow> string \<times> bool \<Rightarrow> string" where
  "call_line language call =
     (case language of
        Python \<Rightarrow>
          (if snd call then ''    await '' @ fst call @ ''(client)''
           else ''    # await '' @ fst call @ ''(client)  # skipped: failed'') @ newline
      | TypeScript \<Rightarrow>
          (if snd call then ''  await '' @ to_ts_function_name (fst call) @ ''(client);''
           else ''  // await '' @ to_ts_function_name (fst call) @ ''(client);  // skipped: failed'') @ newline
      | Go \<Rightarrow>
          (if snd call then tab @ ''_, _ = '' @ to_go_function_name (fst call) @ ''(client, \"\", \"\", nil)''
           else tab @ ''// _, _ = '' @ to_go_function_name (fst call) @ ''(client, \"\", \"\", nil)  // skipped: failed'') @ newline
      | Java \<Rightarrow>
          (if snd call then ''        new MongoSession().'' @ to_java_method_name (fst call) @ ''(client, \"\", \"\", null);''
           else ''        // new MongoSession().'' @ to_java_method_name (fst call) @
             ''(client, \"\", \"\", null);  // skipped: failed'') @ newline)"

definition main_start_text :: "language \<Rightarrow> string" where
  "main_start_text language =
     (case language of
        Python \<Rightarrow>
          text_lines
            [''async def main():'',
             ''    client = MongoCore()'',
             ''    await client.connect()'',
             []]
      | TypeScript \<Rightarrow>
          text_lines
            [''async function main() {'',
             ''  const client = new MongoCore();'',
             ''  await client.connect();'',
             []]
      | Go \<Rightarrow>
          text_lines
            [''func main() {'',
             tab @ ''client, err := mongocore.NewClient(\"localhost:50051\")'',
             tab @ ''if err != nil {'',
             tabs 2 @ ''panic(err)'',
             tab @ ''}'',
             tab @ ''defer client.Close()'',
             []]
      | Java \<Rightarrow>
          text_lines
            [''    public static void main(String[] args) {'',
             ''        MongoClient client = MongoClient.create(\"localhost:50051\");'',
             []])"

definition main_end_text :: "language \<Rightarrow> string" where
  "main_end_text language =
     (case language of
        Python \<Rightarrow>
          text_lines
            [[],
             [],
             ''asyncio.run(main())'']
      | TypeScript \<Rightarrow>
          text_lines
            [''}'',
             [],
             ''main();'']
      | Go \<Rightarrow>
          text_lines [''}'']
      | Java \<Rightarrow>
          text_lines
            [''    }'',
             ''}''])"

definition generate_session_script :: "json_text \<Rightarrow> language \<Rightarrow> operation_record list \<Rightarrow> string + string" where
  "generate_session_script J language operations =
     (if operations = [] then Inl ''No operations to generate code for''
      else
        (let calls = zip (function_names (\<lambda>_. 0) operations) (map or_success operations) in
         Inr (script_header language @ concat (map (operation_block J language) operations) @
              main_start_text language @ concat (map (call_line language) calls) @ main_end_text language)))"

subsection \<open>Which calls of a script name a declared function\<close>

text \<open>The name of the function that the Python code of an operation declares.\<close>

definition python_name :: "string \<Rightarrow> json \<Rightarrow> string" where
  "python_name tool_name params =
     (if tool_name \<in> set SEARCH_TOOLS then tool_name @ ''_'' @ get_str_param params ''collection''
      else (if tool_name = ''insert_one'' then ''insert''
            else if tool_name = ''update_one'' then ''update''
            else if tool_name = ''delete_one'' then ''delete''
            else tool_name) @ ''_'' @ str_param params ''collection'' ''docs'')"

definition declares :: "string \<Rightarrow> string \<Rightarrow> bool" where
  "declares name code \<longleftrightarrow> (\<exists>rest. code = ''async def '' @ name @ ''('' @ rest)"

lemma declares_text: "\<exists>r. l = ''async def '' @ name @ ''('' @ r \<Longrightarrow> declares name (text_lines (l # ls))"
  by (auto simp: declares_def text_lines_def)

lemma declares_append: "declares name code \<Longrightarrow> declares name (code @ rest)"
  by (auto simp: declares_def)

lemma python_find_text: "declares (''find_'' @ coll) (generate_find J Python db coll params)"
  unfolding generate_find_def Let_def language.case by (intro declares_append declares_text) simp

lemma python_find_one_text: "declares (''find_one_'' @ coll) (generate_find_one J Python db coll params)"
  unfolding generate_find_one_def Let_def language.case by (intro declares_append declares_text) simp

lemma python_insert_text: "declares (''insert_'' @ coll) (generate_insert J Python db coll params)"
  unfolding generate_insert_def Let_def language.case by (intro declares_append declares_text) simp

lemma python_insert_many_text: "declares (''insert_many_'' @ coll) (generate_insert_many J Python db coll params)"
  unfolding generate_insert_many_def Let_def language.case by (intro declares_append declares_text) simp

lemma python_update_text: "declares (''update_'' @ coll) (generate_update J Python db coll params)"
  unfolding generate_update_def Let_def language.case by (intro declares_append declares_text) simp

lemma python_update_many_text: "declares (''update_many_'' @ coll) (generate_update_many J Python db coll params)"
  unfolding generate_update_many_def Let_def language.case by (intro declares_append declares_text) simp

lemma python_delete_text: "declares (''delete_'' @ coll) (generate_delete J Python db coll params)"
  unfolding generate_delete_def Let_def language.case by (intro declares_append declares_text) simp

lemma python_delete_many_text: "declares (''delete_many_'' @ coll) (generate_delete_many J Python db coll params)"
  unfolding generate_delete_many_def Let_def language.case by (intro declares_append declares_text) simp

lemma python_ingest_text: "declares (''ingest_'' @ str_param params ''collection'' ''docs'') (generate_ingest J Python params)"
  unfolding generate_ingest_def Let_def language.case by (intro declares_append declares_text) simp

lemma python_watch_text: "declares (''watch_directory_'' @ str_param params ''collection'' ''docs'') (generate_watch_directory Python params)"
  unfolding generate_watch_directory_def Let_def language.case by (intro declares_append declares_text) simp

lemma python_embed_text: "declares (''embed_and_store_'' @ get_str_param params ''collection'') (generate_embed_and_store Python params)"
  unfolding generate_embed_and_store_def Let_def language.case by (intro declares_append declares_text) simp

lemma python_search_text: "declares (''semantic_search_'' @ get_str_param params ''collection'') (generate_semantic_search Python params)"
  unfolding generate_semantic_search_def Let_def language.case by (intro declares_append declares_text) simp

lemma python_passthrough_text: "declares (tool_name @ ''_'' @ str_param params ''collection'' ''docs'') (generate_passthrough J Python tool_name params)"
  unfolding generate_passthrough_def Let_def language.case by (intro declares_append declares_text) simp

lemmas python_crud_text =
  python_find_text python_find_one_text python_insert_text python_insert_many_text python_update_text
  python_update_many_text python_delete_text python_delete_many_text

text \<open>The Python function of a tool by its name.\<close>

lemma python_name_simps:
  "tool_name \<notin> set SEARCH_TOOLS \<Longrightarrow> tool_name \<notin> {''insert_one'', ''update_one'', ''delete_one''} \<Longrightarrow>
   python_name tool_name params = tool_name @ ''_'' @ str_param params ''collection'' ''docs''"
  "python_name ''insert_one'' params = ''insert_'' @ str_param params ''collection'' ''docs''"
  "python_name ''update_one'' params = ''update_'' @ str_param params ''collection'' ''docs''"
  "python_name ''delete_one'' params = ''delete_'' @ str_param params ''collection'' ''docs''"
  "tool_name \<in> set SEARCH_TOOLS \<Longrightarrow> python_name tool_name params = tool_name @ ''_'' @ get_str_param params ''collection''"
  by (simp_all add: python_name_def SEARCH_TOOLS_def)

lemma crud_declares:
  assumes "tool_name \<in> set CRUD_TOOLS" and "generate_crud_code J Python tool_name params = Inr code"
  shows "declares (python_name tool_name params) code"
proof -
  let ?db = "str_param params ''database'' ''mydb''" and ?coll = "str_param params ''collection'' ''docs''"
  have "declares (python_name t params) code" if "t \<in> set CRUD_TOOLS" and "generate_crud_code J Python t params = Inr code" for t
    using that python_crud_text [of ?coll J ?db params]
    unfolding CRUD_TOOLS_def set_simps insert_iff empty_iff
    by (elim disjE) (simp_all add: generate_crud_code_def Let_def python_name_simps SEARCH_TOOLS_def)
  then show ?thesis using assms by blast
qed

lemma ingest_declares:
  assumes "generate_ingest_code J Python tool_name params = Inr code"
  shows "declares (python_name tool_name params) code"
  using assms python_ingest_text [of params] python_watch_text [of params]
  unfolding generate_ingest_code_def by (auto simp: python_name_simps SEARCH_TOOLS_def split: if_splits)

lemma search_declares:
  assumes "generate_search_code Python tool_name params = Inr code"
  shows "declares (python_name tool_name params) code"
  using assms python_embed_text [of params] python_search_text [of params]
  unfolding generate_search_code_def by (auto simp: python_name_simps SEARCH_TOOLS_def split: if_splits)

lemma crud_total: "tool_name \<in> set CRUD_TOOLS \<Longrightarrow> \<exists>code. generate_crud_code J language tool_name params = Inr code"
  by (auto simp: CRUD_TOOLS_def generate_crud_code_def Let_def)

lemma single_total: "\<exists>code. generate_single_operation_code J language tool_name params = Inr code"
proof -
  have "\<exists>code. generate_ingest_code J language tool_name params = Inr code" if "tool_name \<in> set INGEST_TOOLS"
    using that by (auto simp: INGEST_TOOLS_def generate_ingest_code_def)
  moreover have "\<exists>code. generate_search_code language tool_name params = Inr code" if "tool_name \<in> set SEARCH_TOOLS"
    using that by (auto simp: SEARCH_TOOLS_def generate_search_code_def)
  ultimately show ?thesis
    using crud_total [of tool_name J language params] unfolding generate_single_operation_code_def by (simp split: if_split)
qed

lemma single_declares:
  assumes "generate_single_operation_code J Python tool_name params = Inr code"
  shows "declares (python_name tool_name params) code"
proof -
  consider "tool_name \<in> set CRUD_TOOLS" "generate_crud_code J Python tool_name params = Inr code"
    | "generate_ingest_code J Python tool_name params = Inr code"
    | "generate_search_code Python tool_name params = Inr code"
    | "tool_name \<notin> set CRUD_TOOLS" "tool_name \<notin> set SEARCH_TOOLS" "code = generate_passthrough J Python tool_name params"
    using assms unfolding generate_single_operation_code_def by (metis sum.inject(2))
  then show ?thesis
  proof cases
    case 4
    then have "tool_name \<notin> {''insert_one'', ''update_one'', ''delete_one''}" by (auto simp: CRUD_TOOLS_def)
    then show ?thesis using 4 python_passthrough_text [of tool_name params J] by (simp add: python_name_simps)
  qed (use crud_declares ingest_declares search_declares in blast)+
qed

definition base_name :: "operation_record \<Rightarrow> string" where
  "base_name r = make_function_name (or_tool_name r) (or_params r)"

lemma length_function_names [simp]: "length (function_names counts rs) = length rs"
  by (induction rs arbitrary: counts) (simp_all add: Let_def)

lemma function_names_Cons:
  "function_names counts (r # rs) =
     (if 0 < counts (base_name r) then base_name r @ ''_'' @ show_nat (counts (base_name r) + 1) else base_name r) #
     function_names (counts(base_name r := counts (base_name r) + 1)) rs"
  by (simp add: Let_def base_name_def)

lemma function_names_nth:
  "i < length rs \<Longrightarrow> function_names counts rs ! i =
     (let n = counts (base_name (rs ! i)) + length (filter (\<lambda>r. base_name r = base_name (rs ! i)) (take i rs)) in
      if 0 < n then base_name (rs ! i) @ ''_'' @ show_nat (n + 1) else base_name (rs ! i))"
proof (induction rs arbitrary: counts i)
  case (Cons r rs)
  show ?case
  proof (cases i)
    case 0
    then show ?thesis by (simp add: function_names_Cons Let_def del: function_names.simps)
  next
    case (Suc k)
    let ?c = "counts(base_name r := counts (base_name r) + 1)"
    have "function_names counts (r # rs) ! i = function_names ?c rs ! k"
      by (simp add: Suc function_names_Cons del: function_names.simps)
    also have "\<dots> = (let n = ?c (base_name (rs ! k)) + length (filter (\<lambda>r. base_name r = base_name (rs ! k)) (take k rs)) in
        if 0 < n then base_name (rs ! k) @ ''_'' @ show_nat (n + 1) else base_name (rs ! k))"
      using Cons.prems Suc by (intro Cons.IH) simp
    finally show ?thesis by (auto simp: Suc Let_def)
  qed
qed simp

definition first_of_name :: "operation_record list \<Rightarrow> nat \<Rightarrow> bool" where
  "first_of_name ops i \<longleftrightarrow> (\<forall>j < i. base_name (ops ! j) \<noteq> base_name (ops ! i))"

lemma first_of_name_filter:
  "i < length ops \<Longrightarrow> first_of_name ops i \<longleftrightarrow> filter (\<lambda>r. base_name r = base_name (ops ! i)) (take i ops) = []"
  by (simp add: first_of_name_def filter_empty_conv all_set_conv_all_nth)

text \<open>The tools whose Python function has the name that the script calls.\<close>

definition name_kept :: "operation_record \<Rightarrow> bool" where
  "name_kept r \<longleftrightarrow>
     or_tool_name r \<notin> {''insert_one'', ''update_one'', ''delete_one''} \<and>
     (or_tool_name r \<in> set SEARCH_TOOLS \<longrightarrow> json_str_field (or_params r) ''collection'' \<noteq> None)"

lemma name_kept_iff: "base_name r = python_name (or_tool_name r) (or_params r) \<longleftrightarrow> name_kept r"
  by (auto simp: base_name_def make_function_name_def python_name_def name_kept_def SEARCH_TOOLS_def get_str_param_def
      str_param_def split: option.splits)

lemma suffixed_call: "base_name r @ ''_'' @ s \<noteq> python_name (or_tool_name r) (or_params r)"
proof (cases "or_tool_name r \<in> set SEARCH_TOOLS \<and> json_str_field (or_params r) ''collection'' = None")
  case True
  then show ?thesis
    by (auto simp: base_name_def make_function_name_def python_name_def SEARCH_TOOLS_def get_str_param_def str_param_def)
next
  case False
  then have "length (python_name (or_tool_name r) (or_params r)) \<le> length (base_name r)"
    by (auto simp: base_name_def make_function_name_def python_name_def SEARCH_TOOLS_def get_str_param_def
        str_param_def split: option.splits)
  then have "length (python_name (or_tool_name r) (or_params r)) < length (base_name r @ ''_'' @ s)" by simp
  then show ?thesis by (metis less_irrefl)
qed

lemma call_is_declared:
  assumes "i < length ops"
  shows "function_names (\<lambda>_. 0) ops ! i = python_name (or_tool_name (ops ! i)) (or_params (ops ! i)) \<longleftrightarrow>
    first_of_name ops i \<and> name_kept (ops ! i)"
proof (cases "first_of_name ops i")
  case True
  then show ?thesis
    using assms function_names_nth [OF assms, of "\<lambda>_. 0"] name_kept_iff [of "ops ! i"]
    by (simp add: first_of_name_filter Let_def)
next
  case False
  let ?n = "length (filter (\<lambda>r. base_name r = base_name (ops ! i)) (take i ops)) + 1"
  have name: "function_names (\<lambda>_. 0) ops ! i = base_name (ops ! i) @ ''_'' @ show_nat ?n"
    using assms False function_names_nth [OF assms, of "\<lambda>_. 0"] by (simp add: first_of_name_filter Let_def)
  show ?thesis using False suffixed_call [of "ops ! i"] by (simp add: name)
qed


text \<open>Two queries of one collection: the second call names a function that nothing declares.\<close>

definition plain_json_text :: json_text where
  "plain_json_text = \<lparr>jt_pretty = (\<lambda>_. ''{}''), jt_compact = (\<lambda>_. ''{}'')\<rparr>"

definition find_record :: operation_record where
  "find_record = \<lparr>or_index = 0, or_tool_name = ''find'', or_params = JObject [(''collection'', JString ''users'')],
     or_context = JNull, or_success = True, or_error_message = None, or_timestamp = 0\<rparr>"


end
