(* ===== verification/Codegen_Query.thy ===== *)
theory Codegen_Query
  imports Codegen_Session Mcp_Server Voyage
begin

text \<open>
  Generated programs for queries (\<open>src/mcp/codegen/templates.rs\<close>, \<open>query_gen.rs\<close>), and the tools
  of the server that give generated code and slow queries (\<open>src/mcp/tools.rs\<close>). Rendering a
  template with a context is the template library's: a parameter, like the printing of
  JSON and the comparison of floating-point numbers.
\<close>

subsection \<open>Templates\<close>

definition PYTHON_FIND :: string where
  "PYTHON_FIND =
     text_lines
       [''import asyncio'',
        ''from mongocore import MongoCore'',
        [],
        ''async def main():'',
        ''    # Connect to MongoCore sidecar'',
        ''    client = MongoCore(\"{{ host }}\")'',
        ''    await client.connect()'',
        [],
        ''    try:'',
        ''        # Execute find query'',
        ''        results = await client.find('',
        ''            database=\"{{ database }}\",'',
        ''            collection=\"{{ collection }}\",'',
        ''            filter={{ filter }},'',
        ''            {% if limit %}limit={{ limit }},{% endif %}'',
        ''            {% if sort %}sort={{ sort }},{% endif %}'',
        ''        )'',
        [],
        ''        # Print results'',
        ''        for doc in results:'',
        ''            print(doc)'',
        ''    finally:'',
        ''        await client.close()'',
        [],
        ''if __name__ == \"__main__\":'',
        ''    asyncio.run(main())'']"

definition PYTHON_AGGREGATE :: string where
  "PYTHON_AGGREGATE =
     text_lines
       [''import asyncio'',
        ''from mongocore import MongoCore'',
        [],
        ''async def main():'',
        ''    # Connect to MongoCore sidecar'',
        ''    client = MongoCore(\"{{ host }}\")'',
        ''    await client.connect()'',
        [],
        ''    try:'',
        ''        # Execute aggregation pipeline'',
        ''        results = await client.aggregate('',
        ''            database=\"{{ database }}\",'',
        ''            collection=\"{{ collection }}\",'',
        ''            pipeline={{ pipeline }},'',
        ''        )'',
        [],
        ''        # Print results'',
        ''        for doc in results:'',
        ''            print(doc)'',
        ''    finally:'',
        ''        await client.close()'',
        [],
        ''if __name__ == \"__main__\":'',
        ''    asyncio.run(main())'']"

definition PYTHON_INSERT :: string where
  "PYTHON_INSERT =
     text_lines
       [''import asyncio'',
        ''from mongocore import MongoCore'',
        [],
        ''async def main():'',
        ''    # Connect to MongoCore sidecar'',
        ''    client = MongoCore(\"{{ host }}\")'',
        ''    await client.connect()'',
        [],
        ''    try:'',
        ''        # Insert document'',
        ''        result = await client.insert_one('',
        ''            database=\"{{ database }}\",'',
        ''            collection=\"{{ collection }}\",'',
        ''            document={{ document }},'',
        ''        )'',
        [],
        ''        print(f\"Inserted document with ID: {result['' @ apostrophe @ ''insertedId'' @ apostrophe @ '']}\")'',
        ''    finally:'',
        ''        await client.close()'',
        [],
        ''if __name__ == \"__main__\":'',
        ''    asyncio.run(main())'']"

definition TYPESCRIPT_FIND :: string where
  "TYPESCRIPT_FIND =
     text_lines
       [''import { MongoCore } from '' @ apostrophe @ ''mongocore'' @ apostrophe @ '';'',
        [],
        ''async function main() {'',
        ''  // Connect to MongoCore sidecar'',
        ''  const client = new MongoCore('' @ apostrophe @ ''{{ host }}'' @ apostrophe @ '');'',
        ''  await client.connect();'',
        [],
        ''  try {'',
        ''    // Execute find query'',
        ''    const results = await client.find({'',
        ''      database: '' @ apostrophe @ ''{{ database }}'' @ apostrophe @ '','',
        ''      collection: '' @ apostrophe @ ''{{ collection }}'' @ apostrophe @ '','',
        ''      filter: {{ filter }},'',
        ''      {% if limit %}limit: {{ limit }},{% endif %}'',
        ''      {% if sort %}sort: {{ sort }},{% endif %}'',
        ''    });'',
        [],
        ''    // Print results'',
        ''    for (const doc of results) {'',
        ''      console.log(doc);'',
        ''    }'',
        ''  } finally {'',
        ''    await client.close();'',
        ''  }'',
        ''}'',
        [],
        ''main().catch(console.error);'']"

definition TYPESCRIPT_AGGREGATE :: string where
  "TYPESCRIPT_AGGREGATE =
     text_lines
       [''import { MongoCore } from '' @ apostrophe @ ''mongocore'' @ apostrophe @ '';'',
        [],
        ''async function main() {'',
        ''  // Connect to MongoCore sidecar'',
        ''  const client = new MongoCore('' @ apostrophe @ ''{{ host }}'' @ apostrophe @ '');'',
        ''  await client.connect();'',
        [],
        ''  try {'',
        ''    // Execute aggregation pipeline'',
        ''    const results = await client.aggregate({'',
        ''      database: '' @ apostrophe @ ''{{ database }}'' @ apostrophe @ '','',
        ''      collection: '' @ apostrophe @ ''{{ collection }}'' @ apostrophe @ '','',
        ''      pipeline: {{ pipeline }},'',
        ''    });'',
        [],
        ''    // Print results'',
        ''    for (const doc of results) {'',
        ''      console.log(doc);'',
        ''    }'',
        ''  } finally {'',
        ''    await client.close();'',
        ''  }'',
        ''}'',
        [],
        ''main().catch(console.error);'']"

definition TYPESCRIPT_INSERT :: string where
  "TYPESCRIPT_INSERT =
     text_lines
       [''import { MongoCore } from '' @ apostrophe @ ''mongocore'' @ apostrophe @ '';'',
        [],
        ''async function main() {'',
        ''  // Connect to MongoCore sidecar'',
        ''  const client = new MongoCore('' @ apostrophe @ ''{{ host }}'' @ apostrophe @ '');'',
        ''  await client.connect();'',
        [],
        ''  try {'',
        ''    // Insert document'',
        ''    const result = await client.insertOne({'',
        ''      database: '' @ apostrophe @ ''{{ database }}'' @ apostrophe @ '','',
        ''      collection: '' @ apostrophe @ ''{{ collection }}'' @ apostrophe @ '','',
        ''      document: {{ document }},'',
        ''    });'',
        [],
        ''    console.log(`Inserted document with ID: ${result.insertedId}`);'',
        ''  } finally {'',
        ''    await client.close();'',
        ''  }'',
        ''}'',
        [],
        ''main().catch(console.error);'']"

definition GO_FIND :: string where
  "GO_FIND =
     text_lines
       [''package main'',
        [],
        ''import ('',
        tab @ ''\"context\"'',
        tab @ ''\"fmt\"'',
        tab @ ''\"log\"'',
        [],
        tab @ ''\"github.com/mongocore/mongocore-go\"'',
        '')'',
        [],
        ''func main() {'',
        tab @ ''// Connect to MongoCore sidecar'',
        tab @ ''client, err := mongocore.NewClient(\"{{ host }}\")'',
        tab @ ''if err != nil {'',
        tabs 2 @ ''log.Fatal(err)'',
        tab @ ''}'',
        tab @ ''defer client.Close()'',
        [],
        tab @ ''ctx := context.Background()'',
        [],
        tab @ ''// Execute find query'',
        tab @ ''results, err := client.Find(ctx, &mongocore.FindRequest{'',
        tabs 2 @ ''Database:   \"{{ database }}\",'',
        tabs 2 @ ''Collection: \"{{ collection }}\",'',
        tabs 2 @ ''Filter:     `{{ filter }}`,'',
        tabs 2 @ ''{% if limit %}Limit:      {{ limit }},{% endif %}'',
        tabs 2 @ ''{% if sort %}Sort:       `{{ sort }}`,{% endif %}'',
        tab @ ''})'',
        tab @ ''if err != nil {'',
        tabs 2 @ ''log.Fatal(err)'',
        tab @ ''}'',
        [],
        tab @ ''// Print results'',
        tab @ ''for _, doc := range results {'',
        tabs 2 @ ''fmt.Println(doc)'',
        tab @ ''}'',
        ''}'']"

definition GO_AGGREGATE :: string where
  "GO_AGGREGATE =
     text_lines
       [''package main'',
        [],
        ''import ('',
        tab @ ''\"context\"'',
        tab @ ''\"fmt\"'',
        tab @ ''\"log\"'',
        [],
        tab @ ''\"github.com/mongocore/mongocore-go\"'',
        '')'',
        [],
        ''func main() {'',
        tab @ ''// Connect to MongoCore sidecar'',
        tab @ ''client, err := mongocore.NewClient(\"{{ host }}\")'',
        tab @ ''if err != nil {'',
        tabs 2 @ ''log.Fatal(err)'',
        tab @ ''}'',
        tab @ ''defer client.Close()'',
        [],
        tab @ ''ctx := context.Background()'',
        [],
        tab @ ''// Execute aggregation pipeline'',
        tab @ ''results, err := client.Aggregate(ctx, &mongocore.AggregateRequest{'',
        tabs 2 @ ''Database:   \"{{ database }}\",'',
        tabs 2 @ ''Collection: \"{{ collection }}\",'',
        tabs 2 @ ''Pipeline:   `{{ pipeline }}`,'',
        tab @ ''})'',
        tab @ ''if err != nil {'',
        tabs 2 @ ''log.Fatal(err)'',
        tab @ ''}'',
        [],
        tab @ ''// Print results'',
        tab @ ''for _, doc := range results {'',
        tabs 2 @ ''fmt.Println(doc)'',
        tab @ ''}'',
        ''}'']"

definition GO_INSERT :: string where
  "GO_INSERT =
     text_lines
       [''package main'',
        [],
        ''import ('',
        tab @ ''\"context\"'',
        tab @ ''\"fmt\"'',
        tab @ ''\"log\"'',
        [],
        tab @ ''\"github.com/mongocore/mongocore-go\"'',
        '')'',
        [],
        ''func main() {'',
        tab @ ''// Connect to MongoCore sidecar'',
        tab @ ''client, err := mongocore.NewClient(\"{{ host }}\")'',
        tab @ ''if err != nil {'',
        tabs 2 @ ''log.Fatal(err)'',
        tab @ ''}'',
        tab @ ''defer client.Close()'',
        [],
        tab @ ''ctx := context.Background()'',
        [],
        tab @ ''// Insert document'',
        tab @ ''result, err := client.InsertOne(ctx, &mongocore.InsertOneRequest{'',
        tabs 2 @ ''Database:   \"{{ database }}\",'',
        tabs 2 @ ''Collection: \"{{ collection }}\",'',
        tabs 2 @ ''Document:   `{{ document }}`,'',
        tab @ ''})'',
        tab @ ''if err != nil {'',
        tabs 2 @ ''log.Fatal(err)'',
        tab @ ''}'',
        [],
        tab @ ''fmt.Printf(\"Inserted document with ID: %s'' @ backslash @ ''n\", result.InsertedId)'',
        ''}'']"

definition JAVA_FIND :: string where
  "JAVA_FIND =
     text_lines
       [''import com.mongocore.MongoCore;'',
        ''import com.mongocore.FindRequest;'',
        ''import org.bson.Document;'',
        [],
        ''import java.util.List;'',
        [],
        ''public class Main {'',
        ''    public static void main(String[] args) {'',
        ''        // Connect to MongoCore sidecar'',
        ''        try (MongoCore client = new MongoCore(\"{{ host }}\")) {'',
        ''            // Execute find query'',
        ''            FindRequest request = FindRequest.newBuilder()'',
        ''                .setDatabase(\"{{ database }}\")'',
        ''                .setCollection(\"{{ collection }}\")'',
        ''                .setFilter(\"{{ filter }}\")'',
        ''                {% if limit %}.setLimit({{ limit }}){% endif %}'',
        ''                {% if sort %}.setSort(\"{{ sort }}\"){% endif %}'',
        ''                .build();'',
        [],
        ''            List<Document> results = client.find(request);'',
        [],
        ''            // Print results'',
        ''            for (Document doc : results) {'',
        ''                System.out.println(doc.toJson());'',
        ''            }'',
        ''        } catch (Exception e) {'',
        ''            e.printStackTrace();'',
        ''        }'',
        ''    }'',
        ''}'']"

definition JAVA_AGGREGATE :: string where
  "JAVA_AGGREGATE =
     text_lines
       [''import com.mongocore.MongoCore;'',
        ''import com.mongocore.AggregateRequest;'',
        ''import org.bson.Document;'',
        [],
        ''import java.util.List;'',
        [],
        ''public class Main {'',
        ''    public static void main(String[] args) {'',
        ''        // Connect to MongoCore sidecar'',
        ''        try (MongoCore client = new MongoCore(\"{{ host }}\")) {'',
        ''            // Execute aggregation pipeline'',
        ''            AggregateRequest request = AggregateRequest.newBuilder()'',
        ''                .setDatabase(\"{{ database }}\")'',
        ''                .setCollection(\"{{ collection }}\")'',
        ''                .setPipeline(\"{{ pipeline }}\")'',
        ''                .build();'',
        [],
        ''            List<Document> results = client.aggregate(request);'',
        [],
        ''            // Print results'',
        ''            for (Document doc : results) {'',
        ''                System.out.println(doc.toJson());'',
        ''            }'',
        ''        } catch (Exception e) {'',
        ''            e.printStackTrace();'',
        ''        }'',
        ''    }'',
        ''}'']"

definition JAVA_INSERT :: string where
  "JAVA_INSERT =
     text_lines
       [''import com.mongocore.MongoCore;'',
        ''import com.mongocore.InsertOneRequest;'',
        ''import com.mongocore.InsertOneResult;'',
        [],
        ''public class Main {'',
        ''    public static void main(String[] args) {'',
        ''        // Connect to MongoCore sidecar'',
        ''        try (MongoCore client = new MongoCore(\"{{ host }}\")) {'',
        ''            // Insert document'',
        ''            InsertOneRequest request = InsertOneRequest.newBuilder()'',
        ''                .setDatabase(\"{{ database }}\")'',
        ''                .setCollection(\"{{ collection }}\")'',
        ''                .setDocument(\"{{ document }}\")'',
        ''                .build();'',
        [],
        ''            InsertOneResult result = client.insertOne(request);'',
        [],
        ''            System.out.println(\"Inserted document with ID: \" + result.getInsertedId());'',
        ''        } catch (Exception e) {'',
        ''            e.printStackTrace();'',
        ''        }'',
        ''    }'',
        ''}'']"

definition TEMPLATES :: "(string \<times> string) list" where
  "TEMPLATES =
     [(''python/find.tera'', PYTHON_FIND), (''python/aggregate.tera'', PYTHON_AGGREGATE), (''python/insert.tera'', PYTHON_INSERT),
      (''typescript/find.tera'', TYPESCRIPT_FIND), (''typescript/aggregate.tera'', TYPESCRIPT_AGGREGATE),
      (''typescript/insert.tera'', TYPESCRIPT_INSERT),
      (''go/find.tera'', GO_FIND), (''go/aggregate.tera'', GO_AGGREGATE), (''go/insert.tera'', GO_INSERT),
      (''java/find.tera'', JAVA_FIND), (''java/aggregate.tera'', JAVA_AGGREGATE), (''java/insert.tera'', JAVA_INSERT)]"

text \<open>Rendering: the text of a template and the values of its variables give a text or an error.\<close>

type_synonym renderer = "string \<Rightarrow> (string \<times> string) list \<Rightarrow> string + string"

definition render_query :: "renderer \<Rightarrow> language \<Rightarrow> string \<Rightarrow> (string \<times> string) list \<Rightarrow> string + string" where
  "render_query R language operation context =
     map_err (\<lambda>e. ''Template rendering failed: '' @ e)
       (case map_of TEMPLATES (display_name language @ ''/'' @ operation @ ''.tera'') of
          None \<Rightarrow> Inl (''Template not found: '' @ display_name language @ ''/'' @ operation @ ''.tera'')
        | Some template \<Rightarrow> R template context)"

definition generate_query_code ::
  "json_text \<Rightarrow> renderer \<Rightarrow> language \<Rightarrow> string \<Rightarrow> string \<Rightarrow> string \<Rightarrow> json \<Rightarrow> string \<Rightarrow> string + string" where
  "generate_query_code J R language database collection operation mql host =
     (let context = [(''host'', host), (''database'', database), (''collection'', collection)] in
      if operation \<in> {''filter'', ''find'', ''geo''} then
        render_query R language ''find''
          (context @ [(''filter'', case json_get mql ''filter'' of Some f \<Rightarrow> jt_pretty J f | None \<Rightarrow> ''{}'')])
      else if operation = ''aggregate'' then
        render_query R language ''aggregate''
          (context @ [(''pipeline'', case json_get mql ''pipeline'' of Some p \<Rightarrow> jt_pretty J p | None \<Rightarrow> ''[]'')])
      else render_query R language ''find'' (context @ [(''filter'', jt_pretty J mql)]))"

subsection \<open>The tools\<close>

record codegen_lib =
  cg_json :: json_text
  cg_render :: renderer
  cg_files :: project_files
  cg_at_least :: "f64 \<Rightarrow> f64 \<Rightarrow> bool"
  cg_above :: "f64 \<Rightarrow> nat \<Rightarrow> bool"
  cg_float :: "int \<Rightarrow> f64"

definition detected_language :: "codegen_lib \<Rightarrow> string \<Rightarrow> language option" where
  "detected_language C root = map_option fst (detect_stack (cg_files C) root)"

definition query_of_args :: "string \<Rightarrow> json \<Rightarrow> json" where
  "query_of_args operation args =
     (if operation = ''aggregate''
      then JObject [(''pipeline'', case json_get args ''pipeline'' of Some p \<Rightarrow> p | None \<Rightarrow> JArray [])]
      else JObject [(''filter'', case json_get args ''filter'' of Some f \<Rightarrow> f | None \<Rightarrow> JObject [])])"

definition execute_generate_code where
  "execute_generate_code C T args =
     (case get_str args ''database'' of
        Inl e \<Rightarrow> e
      | Inr db \<Rightarrow>
      (case get_str args ''collection'' of
        Inl e \<Rightarrow> e
      | Inr coll \<Rightarrow>
          (let language = resolve_language T args; operation = str_param args ''operation'' ''find'' in
           case generate_query_code (cg_json C) (cg_render C) language db coll operation (query_of_args operation args) ''localhost:50051'' of
             Inl e \<Rightarrow> error_result (''generate_code failed: '' @ e)
           | Inr code \<Rightarrow>
               pretty T
                 ([(''code'', JString code), (''language'', JString (display_name language))] @
                  (case Option.bind (json_str_field args ''workspace_root'') (detect_stack (cg_files C)) of
                     None \<Rightarrow> []
                   | Some (_, f) \<Rightarrow>
                       [(''framework_detected'', JString (framework_name f))] @
                       (case skill_recommendation f of None \<Rightarrow> [] | Some r \<Rightarrow> [(''recommendation'', JString r)]))))))"

definition execute_generate_index where
  "execute_generate_index T args =
     (case json_get args ''filter'' of
        None \<Rightarrow> error_result ''Missing required field: filter''
      | Some filter_value \<Rightarrow>
      (case get_str args ''database'' of
        Inl e \<Rightarrow> e
      | Inr db \<Rightarrow>
      (case get_str args ''collection'' of
        Inl e \<Rightarrow> e
      | Inr coll \<Rightarrow>
          (let language = resolve_language T args; s = suggest_index language db coll filter_value in
           pretty T
             [(''index_spec'', JString (xs_index_spec s)), (''fields'', JArray (map JString (xs_fields s))),
              (''code'', JString (xs_code s)), (''explanation'', JString (xs_explanation s)),
              (''language'', JString (display_name language))]))))"

definition slow_suggestion :: "codegen_lib \<Rightarrow> f64 \<Rightarrow> string" where
  "slow_suggestion C latency_ms =
     (if cg_above C latency_ms 1000 then ''Very slow (>1s). Check for missing indexes or full collection scans.''
      else if cg_above C latency_ms 100 then ''Moderately slow. An index on filter fields would likely help.''
      else ''Above threshold. Monitor for regression.'')"

definition slow_events :: "codegen_lib \<Rightarrow> float_lib \<Rightarrow> f64 \<Rightarrow> string option \<Rightarrow> nat \<Rightarrow> analytics_event list \<Rightarrow> analytics_event list" where
  "slow_events C F threshold database_filter limit events =
     take limit (sort_key (\<lambda>e. - int (ev_latency e))
       (filter (\<lambda>e. cg_at_least C (fl_millis F (ev_latency e)) threshold \<and>
          (case database_filter of None \<Rightarrow> True | Some db \<Rightarrow> ev_database e = db)) events))"

definition slow_query_json :: "codegen_lib \<Rightarrow> float_lib \<Rightarrow> analytics_event \<Rightarrow> json" where
  "slow_query_json C F e =
     (let latency_ms = fl_millis F (ev_latency e) in
      JObject
        [(''operation'', JString (kind_name (ev_operation e))), (''database'', JString (ev_database e)),
         (''collection'', JString (ev_collection e)), (''latency_ms'', json_of_f64 latency_ms),
         (''success'', JBool (ev_success e)), (''suggestion'', JString (slow_suggestion C latency_ms))])"

definition execute_slow_queries where
  "execute_slow_queries C T analytics args =
     (case analytics of
        None \<Rightarrow> error_result ''Analytics not enabled. Enable analytics in config to use slow_queries.''
      | Some c \<Rightarrow>
          (let F = tl_floats T; events = snapshot c; summary = aggregate_events F events;
               limit = (case Option.bind (json_get args ''limit'') as_u64 of Some n \<Rightarrow> unat n | None \<Rightarrow> 10);
               threshold = (case Option.bind (json_get args ''threshold_ms'') (as_f64 (cg_float C)) of
                              Some t \<Rightarrow> t | None \<Rightarrow> su_p95 summary);
               slow = slow_events C F threshold (json_str_field args ''database'') limit events in
           pretty T
             [(''threshold_ms'', json_of_f64 threshold), (''slow_queries'', JArray (map (slow_query_json C F) slow)),
              (''count'', json_of_nat (length slow)), (''p50_latency_ms'', json_of_f64 (su_p50 summary)),
              (''p95_latency_ms'', json_of_f64 (su_p95 summary)), (''p99_latency_ms'', json_of_f64 (su_p99 summary)),
              (''total_operations'', json_of_nat (su_total_operations summary))]))"

text \<open>
  The library of the tools with these parts of it in their places, as the server has them: what
  the theories of the tools leave open as texts is given by the definitions above.
\<close>

definition code_tool where
  "code_tool C T name args analytics =
     (if name = ''slow_queries'' then execute_slow_queries C T analytics args
      else if name = ''generate_code'' then execute_generate_code C T args
      else execute_generate_index T args)"

definition with_code where
  "with_code C T =
     (let T' = T\<lparr>tl_detect := detected_language C, tl_model := generate_model,
          tl_single_code := generate_single_operation_code (cg_json C),
          tl_session_code := generate_session_script (cg_json C)\<rparr> in
      T'\<lparr>tl_text_tool := code_tool C T'\<rparr>)"

subsection \<open>What the templates need\<close>

text \<open>
  The variables that a template inserts: the names between double braces. A line with a
  condition is skipped from there on, for its text is left out when its variable is missing.
\<close>

datatype scan_state = InText | AfterBrace | InName string | InCondition

fun scan_variables :: "scan_state \<Rightarrow> string \<Rightarrow> string list" where
  "scan_variables st [] = []"
| "scan_variables InText (c # cs) = scan_variables (if c = CHR ''{'' then AfterBrace else InText) cs"
| "scan_variables AfterBrace (c # cs) =
     scan_variables (if c = CHR ''{'' then InName [] else if c = CHR ''%'' then InCondition else InText) cs"
| "scan_variables (InName n) (c # cs) =
     (if c = CHR ''}'' then trim (rev n) # scan_variables InText cs else scan_variables (InName (c # n)) cs)"
| "scan_variables InCondition (c # cs) = scan_variables (if c = CHR 0x0A then InText else InCondition) cs"

definition template_variables :: "string \<Rightarrow> string list" where
  "template_variables t = scan_variables InText t"

lemmas template_simps = template_variables_def text_lines_def newline_def tab_def tabs_def trim_def is_ws_def
  apostrophe_def backslash_def

lemma python_find_variables:
  "set (template_variables PYTHON_FIND) \<subseteq> {''host'', ''database'', ''collection'', ''filter''}"
  by (simp add: template_simps PYTHON_FIND_def)

lemma python_aggregate_variables:
  "set (template_variables PYTHON_AGGREGATE) \<subseteq> {''host'', ''database'', ''collection'', ''pipeline''}"
  by (simp add: template_simps PYTHON_AGGREGATE_def)

lemma typescript_find_variables:
  "set (template_variables TYPESCRIPT_FIND) \<subseteq> {''host'', ''database'', ''collection'', ''filter''}"
  by (simp add: template_simps TYPESCRIPT_FIND_def)

lemma typescript_aggregate_variables:
  "set (template_variables TYPESCRIPT_AGGREGATE) \<subseteq> {''host'', ''database'', ''collection'', ''pipeline''}"
  by (simp add: template_simps TYPESCRIPT_AGGREGATE_def)

lemma go_find_variables:
  "set (template_variables GO_FIND) \<subseteq> {''host'', ''database'', ''collection'', ''filter''}"
  by (simp add: template_simps eval_nat_numeral GO_FIND_def)

lemma go_aggregate_variables:
  "set (template_variables GO_AGGREGATE) \<subseteq> {''host'', ''database'', ''collection'', ''pipeline''}"
  by (simp add: template_simps eval_nat_numeral GO_AGGREGATE_def)

lemma java_find_variables:
  "set (template_variables JAVA_FIND) \<subseteq> {''host'', ''database'', ''collection'', ''filter''}"
  by (simp add: template_simps JAVA_FIND_def)

lemma java_aggregate_variables:
  "set (template_variables JAVA_AGGREGATE) \<subseteq> {''host'', ''database'', ''collection'', ''pipeline''}"
  by (simp add: template_simps JAVA_AGGREGATE_def)

lemma template_of:
  "map_of TEMPLATES (display_name language @ ''/find.tera'') =
     Some (case language of Python \<Rightarrow> PYTHON_FIND | TypeScript \<Rightarrow> TYPESCRIPT_FIND | Go \<Rightarrow> GO_FIND | Java \<Rightarrow> JAVA_FIND)"
  "map_of TEMPLATES (display_name language @ ''/aggregate.tera'') =
     Some (case language of Python \<Rightarrow> PYTHON_AGGREGATE | TypeScript \<Rightarrow> TYPESCRIPT_AGGREGATE | Go \<Rightarrow> GO_AGGREGATE
       | Java \<Rightarrow> JAVA_AGGREGATE)"
  by (cases language; simp add: TEMPLATES_def)+

lemma find_needs:
  "set (template_variables (case language of Python \<Rightarrow> PYTHON_FIND | TypeScript \<Rightarrow> TYPESCRIPT_FIND | Go \<Rightarrow> GO_FIND
     | Java \<Rightarrow> JAVA_FIND)) \<subseteq> {''host'', ''database'', ''collection'', ''filter''}"
  using python_find_variables typescript_find_variables go_find_variables java_find_variables by (cases language) simp_all

lemma aggregate_needs:
  "set (template_variables (case language of Python \<Rightarrow> PYTHON_AGGREGATE | TypeScript \<Rightarrow> TYPESCRIPT_AGGREGATE
     | Go \<Rightarrow> GO_AGGREGATE | Java \<Rightarrow> JAVA_AGGREGATE)) \<subseteq> {''host'', ''database'', ''collection'', ''pipeline''}"
  using python_aggregate_variables typescript_aggregate_variables go_aggregate_variables java_aggregate_variables
  by (cases language) simp_all

definition rendered_with :: "renderer \<Rightarrow> string \<Rightarrow> (string \<times> string) list \<Rightarrow> string + string" where
  "rendered_with R template context = map_err (\<lambda>e. ''Template rendering failed: '' @ e) (R template context)"

lemma render_template:
  "map_of TEMPLATES (display_name language @ ''/'' @ operation @ ''.tera'') = Some t \<Longrightarrow>
   render_query R language operation context = rendered_with R t context"
  by (simp add: render_query_def rendered_with_def)

text \<open>
  The programs for queries: whatever the language, the operation and its arguments are, a
  registered template is rendered with a value for each variable that it inserts.
\<close>

theorem query_templates_complete:
  "\<exists>template context. generate_query_code J R language database collection operation mql host = rendered_with R template context \<and>
     template \<in> snd ` set TEMPLATES \<and> set (template_variables template) \<subseteq> fst ` set context"
proof -
  let ?base = "[(''host'', host), (''database'', database), (''collection'', collection)]"
  have rendered: "\<exists>template context. render_query R language op (?base @ [(k, f)]) = rendered_with R template context \<and>
      template \<in> snd ` set TEMPLATES \<and> set (template_variables template) \<subseteq> fst ` set context"
    if t: "map_of TEMPLATES (display_name language @ ''/'' @ op @ ''.tera'') = Some t"
      and needs: "set (template_variables t) \<subseteq> {''host'', ''database'', ''collection'', k}" for op k f t
  proof (intro exI conjI)
    show "render_query R language op (?base @ [(k, f)]) = rendered_with R t (?base @ [(k, f)])"
      by (rule render_template [OF t])
    show "t \<in> snd ` set TEMPLATES" using map_of_SomeD [OF t] by force
    show "set (template_variables t) \<subseteq> fst ` set (?base @ [(k, f)])" using needs by simp
  qed
  have find: "\<exists>template context. render_query R language ''find'' (?base @ [(''filter'', f)]) = rendered_with R template context \<and>
      template \<in> snd ` set TEMPLATES \<and> set (template_variables template) \<subseteq> fst ` set context" for f
    by (rule rendered [OF _ find_needs]) (use template_of(1) [of language] in simp)
  have aggregate: "\<exists>template context. render_query R language ''aggregate'' (?base @ [(''pipeline'', f)]) = rendered_with R template context \<and>
      template \<in> snd ` set TEMPLATES \<and> set (template_variables template) \<subseteq> fst ` set context" for f
    by (rule rendered [OF _ aggregate_needs]) (use template_of(2) [of language] in simp)
  have unfold: "\<exists>op k f. generate_query_code J R language database collection operation mql host =
      render_query R language op (?base @ [(k, f)]) \<and> (op, k) \<in> {(''find'', ''filter''), (''aggregate'', ''pipeline'')}"
  proof (cases "operation \<in> {''filter'', ''find'', ''geo''}")
    case True
    show ?thesis unfolding generate_query_code_def Let_def if_P [OF True] by blast
  next
    case query: False
    show ?thesis
    proof (cases "operation = ''aggregate''")
      case True
      show ?thesis unfolding generate_query_code_def Let_def if_not_P [OF query] if_P [OF True] by blast
    next
      case False
      show ?thesis unfolding generate_query_code_def Let_def if_not_P [OF query] if_not_P [OF False] by blast
    qed
  qed
  then obtain op k f where code: "generate_query_code J R language database collection operation mql host =
      render_query R language op (?base @ [(k, f)])"
    and known: "(op, k) \<in> {(''find'', ''filter''), (''aggregate'', ''pipeline'')}" by blast
  show ?thesis unfolding code using known find [of f] aggregate [of f] by auto
qed

text \<open>An operation that is neither a query nor an aggregation has its filter inside another filter.\<close>

lemma other_operations_nest_the_filter:
  "operation \<notin> {''filter'', ''find'', ''geo'', ''aggregate''} \<Longrightarrow> json_get args ''filter'' = Some f \<Longrightarrow>
   generate_query_code J R language db coll operation (query_of_args operation args) host =
     render_query R language ''find''
       [(''host'', host), (''database'', db), (''collection'', coll), (''filter'', jt_pretty J (JObject [(''filter'', f)]))]"
  by (simp add: generate_query_code_def query_of_args_def)

subsection \<open>The tools of the assembled library\<close>

lemma text_tool_irrelevant:
  "resolve_language (T\<lparr>tl_text_tool := x\<rparr>) = resolve_language T" "pretty (T\<lparr>tl_text_tool := x\<rparr>) = pretty T"
  "tl_floats (T\<lparr>tl_text_tool := x\<rparr>) = tl_floats T"
  by (simp_all add: fun_eq_iff resolve_language_def pretty_def)

lemma code_tools_irrelevant:
  "execute_slow_queries C (T\<lparr>tl_text_tool := x\<rparr>) = execute_slow_queries C T"
  "execute_generate_index (T\<lparr>tl_text_tool := x\<rparr>) = execute_generate_index T"
  "execute_generate_code C (T\<lparr>tl_text_tool := x\<rparr>) = execute_generate_code C T"
  unfolding fun_eq_iff execute_slow_queries_def execute_generate_index_def execute_generate_code_def text_tool_irrelevant
  by (rule allI refl)+

lemma code_tools:
  "reading_tool (with_code C T) ''slow_queries'' args st =
     Some (execute_slow_queries C (with_code C T) (ms_analytics st) args)"
  "reading_tool (with_code C T) ''generate_index'' args st = Some (execute_generate_index (with_code C T) args)"
  "reading_tool (with_code C T) ''generate_code'' args st = Some (execute_generate_code C (with_code C T) args)"
  by (simp_all add: reading_tool_def with_code_def code_tool_def Let_def code_tools_irrelevant)

end
