(* ===== verification/Mcp_Calls.thy ===== *)
theory Mcp_Calls
  imports Mcp_Server
begin

text \<open>
  Rules for what calls of tools keep: whatever the simple tools and the analytics keep is kept
  by every call, pipelines of pipelines included. \<open>ok\<close> says which calls are looked at.
\<close>

lemma run_ops_same:
  assumes "\<And>op st r st'. op \<in> set ops \<Longrightarrow> run op st = Some (r, st') \<Longrightarrow> f st' = f st"
    and "run_ops run ops is st = Some (rs, st')"
  shows "f st' = f st"
  using assms(2)
proof (induction "is" arbitrary: st rs)
  case (Cons i "is")
  show ?case
  proof (cases "i < length ops")
    case True
    then obtain r st1 rs1 where run: "run (ops ! i) st = Some (r, st1)" and rest: "run_ops run ops is st1 = Some (rs1, st')"
      using Cons.prems by (auto split: bind_splits)
    show ?thesis using assms(1) [OF nth_mem [OF True] run] Cons.IH [OF rest] by simp
  qed (use Cons in simp)
qed simp

text \<open>A pipeline that is not turned down runs its operations, one that is does nothing.\<close>

definition pipeline_accepted :: "safety_config \<Rightarrow> json list \<Rightarrow> bool" where
  "pipeline_accepted safety ops \<longleftrightarrow>
     ops \<noteq> [] \<and> length ops \<le> DEFAULT_PIPELINE_MAX_OPS \<and> check_pipeline_allowed safety ops = Inr ()"

lemma operations_accepted:
  "pipeline_accepted safety (operations_of args) \<Longrightarrow>
   Option.bind (json_get args ''operations'') as_array = Some (operations_of args)"
  by (auto simp: pipeline_accepted_def operations_of_def split: option.splits)

lemma execute_pipeline_accepted:
  "pipeline_accepted safety (operations_of args) \<Longrightarrow>
   execute_pipeline T safety run args st =
     map_option (\<lambda>(results, st'). (pretty T (pipeline_json (operations_of args) results), st'))
       (run_ops run (operations_of args) (tl_order T (length (operations_of args))) st)"
  using operations_accepted [of safety args]
  by (simp add: execute_pipeline_def pipeline_accepted_def)

lemma execute_pipeline_rejected:
  assumes "\<not> pipeline_accepted safety (operations_of args)"
  shows "\<exists>why. execute_pipeline T safety run args st = Some (error_result why, st)"
proof (cases "Option.bind (json_get args ''operations'') as_array")
  case (Some ops)
  then have "operations_of args = ops" by (simp add: operations_of_def)
  then show ?thesis
    using assms Some by (cases "check_pipeline_allowed safety ops") (auto simp: execute_pipeline_def pipeline_accepted_def)
qed (auto simp: execute_pipeline_def)

lemma execute_pipeline_same:
  assumes "\<And>op st r st'. pipeline_accepted safety (operations_of args) \<Longrightarrow> op \<in> set (operations_of args) \<Longrightarrow>
      run op st = Some (r, st') \<Longrightarrow> f st' = f st"
    and "execute_pipeline T safety run args st = Some (r, st')"
  shows "f st' = f st"
proof (cases "pipeline_accepted safety (operations_of args)")
  case True
  obtain rs where "run_ops run (operations_of args) (tl_order T (length (operations_of args))) st = Some (rs, st')"
    using assms(2) True by (auto simp: execute_pipeline_accepted)
  then show ?thesis by (rule run_ops_same [rotated]) (use assms(1) [OF True] in blast)
next
  case False
  then show ?thesis using execute_pipeline_rejected [OF False, of T run st] assms(2) by auto
qed

lemma finish_tool_Some:
  "finish_tool T name args started res = Some (r, st') \<Longrightarrow>
   \<exists>r1 st1. res = Some (r1, st1) \<and> r = enrich_result T r1 name args \<and> st' = record_analytics T name args started r1 st1"
  by (cases res) (auto simp: finish_tool_def)

lemma execute_tool_same:
  assumes simple: "\<And>name args st r st'. ok name args \<Longrightarrow> name \<noteq> ''pipeline'' \<Longrightarrow>
      simple_tool T safety name args st = Some (r, st') \<Longrightarrow> f st' = f st"
    and analytics: "\<And>name args started (r :: tool_result) st. f (record_analytics T name args started r st) = f st"
    and pipeline: "\<And>args op. ok ''pipeline'' args \<Longrightarrow> pipeline_accepted safety (operations_of args) \<Longrightarrow>
      op \<in> set (operations_of args) \<Longrightarrow> ok (op_type op) op"
    and "ok name args" and "execute_tool T safety name args st = Some (r, st')"
  shows "f st' = f st"
  using assms(4,5)
proof (induction args arbitrary: name st r st' rule: measure_induct_rule [of size])
  case (less args)
  let ?run = "\<lambda>op. execute_tool T safety (op_type op) op"
  let ?res = "if name = ''pipeline'' then execute_pipeline T safety ?run args st else simple_tool T safety name args st"
  obtain r1 st1 where res: "?res = Some (r1, st1)" and st': "st' = record_analytics T name args (tl_clock T (ms_db st)) r1 st1"
    using finish_tool_Some less.prems(2) unfolding execute_tool.simps [of T safety name args st] by blast
  have "f st1 = f st"
  proof (cases "name = ''pipeline''")
    case True
    show ?thesis
    proof (rule execute_pipeline_same [where run = ?run and safety = safety and args = args and f = f and T = T])
      show "execute_pipeline T safety ?run args st = Some (r1, st1)" using res True by simp
    next
      fix op s r s'
      assume "pipeline_accepted safety (operations_of args)" "op \<in> set (operations_of args)"
        "execute_tool T safety (op_type op) op s = Some (r, s')"
      then show "f s' = f s"
        using less.IH [OF operations_smaller] pipeline less.prems(1) unfolding True by blast
    qed
  next
    case False
    have "simple_tool T safety name args st = Some (r1, st1)" using res False by simp
    then show ?thesis using simple less.prems(1) False by blast
  qed
  then show ?case using st' analytics by simp
qed

end
