(* ===== verification/Mcp_Demo.thy ===== *)
theory Mcp_Demo
  imports Mcp_Calls Dispatch
begin

text \<open>
  A concrete library for the examples about the MCP server: the database is one list of
  documents, ingestion and the other services are off, a JSON text is the list of its keys.
\<close>

definition list_session :: "document list session_driver" where
  "list_session =
     \<lparr>x_start_session = (\<lambda>s. (Inr (), s)), x_start_transaction = (\<lambda>_ s. (Inr (), s)),
      x_find = (\<lambda>_ _ _ _ s. (Inr (map (\<lambda>d. Inr (Inr d)) s), s)),
      x_insert_one = (\<lambda>_ _ d s. (Inr (BInt32 0), s @ [d])), x_insert_many = (\<lambda>_ _ ds s. (Inr (map (\<lambda>_. BNull) ds), s @ ds)),
      x_update_one = (\<lambda>_ _ _ _ s. (Inr \<lparr>uo_matched = 0, uo_modified = 0, uo_upserted = None\<rparr>, s)),
      x_update_many = (\<lambda>_ _ _ _ s. (Inr \<lparr>uo_matched = 0, uo_modified = 0, uo_upserted = None\<rparr>, s)),
      x_delete_one = (\<lambda>_ _ _ s. (Inr 0, s)), x_delete_many = (\<lambda>_ _ _ s. (Inr 0, s)),
      x_find_and_update = (\<lambda>_ _ _ _ _ s. (Inr None, s)), x_aggregate = (\<lambda>_ _ _ s. (Inr [], s)),
      x_commit = (\<lambda>s. (Inr (), s)), x_abort = (\<lambda>s. (Inr (), s)), x_now = (\<lambda>_. 0)\<rparr>"

definition demo_json :: json_lib where
  "demo_json =
     \<lparr>to_bson = (\<lambda>v. case v of JObject m \<Rightarrow> Inr (BDocument (map (\<lambda>(k, _). (k, BNull)) m)) | _ \<Rightarrow> Inr BNull),
      to_json = (\<lambda>_. Inr JNull), to_text = (\<lambda>_. [])\<rparr>"

definition demo_floats :: float_lib where
  "demo_floats =
     \<lparr>fl_zero = 0, fl_ratio = \<lambda>a b. word_of_nat (a div b), fl_millis = \<lambda>n. word_of_nat (n div 1000000),
      fl_rank = \<lambda>p n. (p * n + 99) div 100, fl_order = id, fl_kind_order = id\<rparr>"

definition demo_lib :: "(document list, unit, unit, unit) tool_lib" where
  "demo_lib =
     \<lparr>tl_bson = sample_bson, tl_driver = sample_driver, tl_json = demo_json,
      tl_pretty = (\<lambda>v. case v of JObject m \<Rightarrow> concat (map fst m) | _ \<Rightarrow> ''[]''), tl_pretty_doc = (\<lambda>d. Some (concat (map fst d))),
      tl_parse = (\<lambda>_. None), tl_show_bson = (\<lambda>_. ''id''), tl_display = (\<lambda>_. ''id''), tl_floats = demo_floats,
      tl_detect = (\<lambda>_. None), tl_model = (\<lambda>_ _ _. []), tl_path_exists = (\<lambda>_. False), tl_skills = [],
      tl_capabilities = (''8.0'', False, False), tl_transactions = list_session, tl_list_databases = (\<lambda>s. (Inr [''d''], s)),
      tl_embedded_insert = (\<lambda>_ _ ds s. (Inr (length ds), s @ ds)), tl_vector_search = (\<lambda>_ _ _ s. (Inr [], s)),
      tl_to_document = (\<lambda>v. case v of JObject m \<Rightarrow> Inr (map (\<lambda>(k, _). (k, BNull)) m) | _ \<Rightarrow> Inl ''no object''),
      tl_ingestion = None, tl_watcher = None, tl_translate = None,
      tl_embed = Some (\<lambda>texts. Inr (map (\<lambda>t. [word_of_nat (length t)]) texts)),
      tl_fresh_id = (\<lambda>s. ''id''), tl_clock = length, tl_rfc3339 = (\<lambda>_. ''now''), tl_order = (\<lambda>n. rev [0..<n]),
      tl_set_order = id, tl_single_code = (\<lambda>_ _ _. Inr ''code''), tl_session_code = (\<lambda>_ _. Inr ''code''),
      tl_text_tool = (\<lambda>_ _ _. success_result [])\<rparr>"

definition demo_server :: "document list \<Rightarrow> (document list, unit, unit) mcp_state" where
  "demo_server s =
     \<lparr>ms_engine = \<lparr>is_world = s, is_jobs = [], is_channels = []\<rparr>, ms_tasks = [], ms_watches = [], ms_translator = (),
      ms_analytics = None, ms_session = []\<rparr>"

definition demo_op :: "string \<Rightarrow> (string \<times> json) list \<Rightarrow> json" where
  "demo_op t args =
     JObject ([(''op'', JString t), (''database'', JString ''d''), (''collection'', JString ''c'')] @ args)"

lemma demo_driver_fields [simp]:
  "tl_driver demo_lib = sample_driver" "tl_bson demo_lib = sample_bson" "tl_json demo_lib = demo_json"
  "tl_translate demo_lib = None" "tl_order demo_lib n = rev [0..<n]"
  by (simp_all add: demo_lib_def)

end
