(* ===== verification/Mcp_Tool_Contract.thy ===== *)
theory Mcp_Tool_Contract
  imports Mcp_Tool_Definitions Codegen_Query Mcp_Demo
begin

text \<open>
  What the announced definitions of the tools promise, against what the executor does: the
  tools it knows are exactly those announced, and a call without a required argument is an
  error that changes nothing but the analytics. The enumerations of the two pipelines'
  schemas are compared with the operations that are run.
\<close>

subsection \<open>The schemas\<close>

lemmas tool_definition_defs =
  find_definition_def find_one_definition_def insert_definition_def insert_many_definition_def
  update_definition_def update_many_definition_def delete_definition_def delete_many_definition_def
  aggregate_definition_def create_collection_definition_def create_index_definition_def
  list_databases_definition_def list_collections_definition_def run_command_definition_def
  get_analytics_definition_def ingest_definition_def ingest_status_definition_def
  list_ingest_jobs_definition_def cancel_ingest_definition_def watch_directory_definition_def
  stop_watch_definition_def pipeline_definition_def collection_schema_definition_def
  ask_definition_def explain_query_definition_def generate_code_definition_def
  generate_model_definition_def generate_index_definition_def embed_and_store_definition_def
  semantic_search_definition_def ingest_and_embed_definition_def list_skills_definition_def
  get_skill_definition_def suggest_indexes_definition_def slow_queries_definition_def
  transaction_pipeline_definition_def explain_last_definition_def explain_session_definition_def

text \<open>The names of the tools with what each requires.\<close>

definition tool_requirements :: "(string \<times> string list) list" where
  "tool_requirements = map (\<lambda>d. (td_name d, required_fields (td_input_schema d))) tool_definitions"

lemmas requirement_list = tool_requirements_def tool_definitions_def list.map tool_definition_defs
  tool_definition.simps required_of_input_schema

lemma tool_definition_requirement:
  "d \<in> set tool_definitions \<Longrightarrow> (td_name d, required_fields (td_input_schema d)) \<in> set tool_requirements"
  by (auto simp: tool_requirements_def)

definition tool_names :: "string list" where "tool_names = map td_name tool_definitions"

lemma tool_names_distinct: "distinct tool_names" "length tool_names = 38"
  by (simp_all add: tool_names_def tool_definitions_def tool_definition_defs)

lemma described_type [simp]: "json_get (described t d) k = (if k = ''type'' then Some (JString t) else if k = ''description'' then Some (JString d) else None)"
  by (simp add: described_def)

lemma schemas_sound: "list_all (\<lambda>d. sound_schema (td_input_schema d)) tool_definitions"
  by (simp add: tool_definitions_def tool_definition_defs sound_schema_def)

subsection \<open>Missing arguments\<close>

text \<open>A check of arguments that fails, and one whose failures are all errors.\<close>

definition fails :: "tool_result + 'a \<Rightarrow> bool" where
  "fails r \<longleftrightarrow> (case r of Inl e \<Rightarrow> tr_is_error e | Inr _ \<Rightarrow> False)"

definition proper :: "tool_result + 'a \<Rightarrow> bool" where
  "proper r \<longleftrightarrow> (case r of Inl e \<Rightarrow> tr_is_error e | Inr _ \<Rightarrow> True)"

lemma fails_Inl [simp]: "fails (Inl e) = tr_is_error e"
  by (simp add: fails_def)

lemma error_is_error [simp]: "tr_is_error (error_result t)"
  by (simp add: error_result_def)

lemma fails_first: "fails r \<Longrightarrow> fails (rbind r f)"
  by (cases r) (simp_all add: fails_def result_simps)

lemma fails_later: "proper r \<Longrightarrow> (\<And>a. fails (f a)) \<Longrightarrow> fails (rbind r f)"
  by (cases r) (simp_all add: fails_def proper_def result_simps)

lemma fails_later_pair: "proper r \<Longrightarrow> (\<And>a b. fails (f a b)) \<Longrightarrow> fails (rbind r (\<lambda>(a, b). f a b))"
  by (rule fails_later) (auto split: prod.split)

lemma missing_str: "json_get args k = None \<Longrightarrow> fails (Mcp_Tools.get_str args k)"
  by (simp add: Mcp_Tools.get_str_def json_str_field_def)

lemma missing_required: "json_get args k = None \<Longrightarrow> fails (Mcp_Tools.required args k f)"
  by (simp add: Mcp_Tools.required_def)

lemma proper_checks:
  "proper (Mcp_Tools.get_str args k)" "proper (Inr a)" "proper (json_to_document J v)"
  "proper (ok_or (error_result t) x)" "proper (Mcp_Tools.optional_document J args k)"
  by (auto simp: proper_def Mcp_Tools.get_str_def ok_or_def json_to_document_def Mcp_Tools.optional_document_def result_simps
      split: option.splits sum.splits)

lemma proper_rbind: "proper r \<Longrightarrow> (\<And>a. proper (f a)) \<Longrightarrow> proper (rbind r f)"
  by (cases r) (simp_all add: proper_def result_simps)

lemma proper_collect: "(\<And>x. proper (f x)) \<Longrightarrow> proper (collect f xs)"
  by (induction xs) (auto intro!: proper_rbind simp: proper_checks)

lemma proper_documents: "proper (json_to_documents J v)"
  unfolding json_to_documents_def by (intro proper_rbind proper_collect proper_checks)

lemma proper_required: "(\<And>v. proper (f v)) \<Longrightarrow> proper (Mcp_Tools.required args k f)"
  by (auto simp: Mcp_Tools.required_def proper_def split: option.split)

lemma proper_target: "proper (Mcp_Tools.target args)"
  unfolding Mcp_Tools.target_def by (intro proper_rbind proper_checks)

lemmas proper_intros = proper_checks proper_documents proper_required proper_target

lemma missing_target:
  "json_get args ''database'' = None \<Longrightarrow> fails (Mcp_Tools.target args)"
  "json_get args ''collection'' = None \<Longrightarrow> fails (Mcp_Tools.target args)"
  unfolding Mcp_Tools.target_def by (auto intro: fails_first fails_later missing_str proper_intros)

lemma refused_args: "fails r \<Longrightarrow> \<exists>a. with_args r f s = (a, s) \<and> tr_is_error a"
  by (cases r) (simp_all add: with_args_def fails_def)

lemma refused_cases: "fails r \<Longrightarrow> \<exists>e. r = Inl e \<and> tr_is_error e"
  by (cases r) (simp_all add: fails_def)

lemmas missing_intros = fails_first fails_later fails_later_pair missing_str missing_required missing_target

text \<open>The tools that run an operation of the driver.\<close>

lemma missing_write_arguments:
  "k \<in> {''database'', ''collection'', ''document''} \<Longrightarrow> json_get args k = None \<Longrightarrow> \<exists>r. execute_insert T args s = (r, s) \<and> tr_is_error r"
  "k \<in> {''database'', ''collection'', ''documents''} \<Longrightarrow> json_get args k = None \<Longrightarrow> \<exists>r. execute_insert_many T args s = (r, s) \<and> tr_is_error r"
  "k \<in> {''database'', ''collection'', ''filter'', ''update''} \<Longrightarrow> json_get args k = None \<Longrightarrow> \<exists>r. execute_update T args s = (r, s) \<and> tr_is_error r"
  "k \<in> {''database'', ''collection'', ''filter'', ''update''} \<Longrightarrow> json_get args k = None \<Longrightarrow> \<exists>r. execute_update_many T args s = (r, s) \<and> tr_is_error r"
  "k \<in> {''database'', ''collection'', ''filter''} \<Longrightarrow> json_get args k = None \<Longrightarrow> \<exists>r. execute_delete T args s = (r, s) \<and> tr_is_error r"
  "k \<in> {''database'', ''collection'', ''filter''} \<Longrightarrow> json_get args k = None \<Longrightarrow> \<exists>r. execute_delete_many T args s = (r, s) \<and> tr_is_error r"
  "k \<in> {''database'', ''collection''} \<Longrightarrow> json_get args k = None \<Longrightarrow> \<exists>r. execute_create_collection T args s = (r, s) \<and> tr_is_error r"
  "k \<in> {''database'', ''collection'', ''keys''} \<Longrightarrow> json_get args k = None \<Longrightarrow> \<exists>r. execute_create_index T args s = (r, s) \<and> tr_is_error r"
  unfolding execute_insert_def execute_insert_many_def execute_update_def execute_update_many_def execute_delete_def
    execute_delete_many_def execute_create_collection_def execute_create_index_def update_args_def delete_args_def
  by (auto intro!: refused_args intro: missing_intros proper_intros)

lemma missing_read_arguments:
  "k \<in> {''database'', ''collection''} \<Longrightarrow> json_get args k = None \<Longrightarrow> \<exists>r. execute_find T args s = (r, s) \<and> tr_is_error r"
  "k \<in> {''database'', ''collection''} \<Longrightarrow> json_get args k = None \<Longrightarrow> \<exists>r. execute_find_one T args s = (r, s) \<and> tr_is_error r"
  "k \<in> {''database'', ''collection'', ''pipeline''} \<Longrightarrow> json_get args k = None \<Longrightarrow> \<exists>r. execute_aggregate T args s = (r, s) \<and> tr_is_error r"
  "json_get args ''database'' = None \<Longrightarrow> \<exists>r. execute_list_collections T args s = (r, s) \<and> tr_is_error r"
  "k \<in> {''database'', ''command''} \<Longrightarrow> json_get args k = None \<Longrightarrow> \<exists>r. execute_run_command T args s = (r, s) \<and> tr_is_error r"
  "k \<in> {''database'', ''collection''} \<Longrightarrow> json_get args k = None \<Longrightarrow> \<exists>r. execute_generate_model T args s = (r, s) \<and> tr_is_error r"
  unfolding execute_find_def execute_find_one_def execute_aggregate_def execute_list_collections_def execute_run_command_def
    execute_generate_model_def
  by (auto intro!: refused_args intro: missing_intros proper_intros)

lemma missing_embed_arguments:
  "k \<in> {''documents'', ''database'', ''collection'', ''embed_field''} \<Longrightarrow> json_get args k = None \<Longrightarrow> fails (embed_args args)"
  "k \<in> {''query'', ''database'', ''collection''} \<Longrightarrow> json_get args k = None \<Longrightarrow> fails (search_args args)"
  unfolding embed_args_def search_args_def
  by (auto intro: missing_intros proper_intros simp: fails_first)

lemma missing_text_arguments:
  "k \<in> {''documents'', ''database'', ''collection'', ''embed_field''} \<Longrightarrow> json_get args k = None \<Longrightarrow> \<exists>r. execute_embed_and_store T args s = (r, s) \<and> tr_is_error r"
  "k \<in> {''query'', ''database'', ''collection''} \<Longrightarrow> json_get args k = None \<Longrightarrow> \<exists>r. execute_semantic_search T args s = (r, s) \<and> tr_is_error r"
  subgoal by (drule (1) missing_embed_arguments(1), drule refused_cases, auto simp: execute_embed_and_store_def split: option.split)
  subgoal by (drule (1) missing_embed_arguments(2), drule refused_cases, auto simp: execute_semantic_search_def split: option.split)
  done

lemma missing_steps:
  "json_get args ''steps'' = None \<Longrightarrow> \<exists>r. execute_transaction_pipeline_tool T safety args s = (r, s) \<and> tr_is_error r"
  by (simp add: execute_transaction_pipeline_tool_def split: sum.split)

text \<open>The tools of the server's own state.\<close>

lemma missing_checks:
  "k \<in> {''file_path'', ''database'', ''collection''} \<Longrightarrow> json_get args k = None \<Longrightarrow> fails (ingest_options_of args)"
  "k \<in> {''path'', ''database'', ''collection''} \<Longrightarrow> json_get args k = None \<Longrightarrow> fails (watch_config_of args)"
  "k \<in> {''question'', ''database''} \<Longrightarrow> json_get args k = None \<Longrightarrow> fails (question_args tool args)"
  "json_get args ''language'' = None \<Longrightarrow> fails (parse_language args)"
  unfolding ingest_options_of_def watch_config_of_def question_args_def parse_language_def
  by (auto intro: missing_intros proper_intros simp: json_str_field_def)

lemma missing_ingest_arguments:
  "k \<in> {''file_path'', ''database'', ''collection''} \<Longrightarrow> json_get args k = None \<Longrightarrow> \<exists>r. execute_ingest T args st = Some (r, st) \<and> tr_is_error r"
  "json_get args ''job_id'' = None \<Longrightarrow> tr_is_error (execute_ingest_status T args st)"
  "json_get args ''job_id'' = None \<Longrightarrow> \<exists>r. execute_cancel_ingest T args st = (r, st) \<and> tr_is_error r"
  "k \<in> {''path'', ''database'', ''collection''} \<Longrightarrow> json_get args k = None \<Longrightarrow> \<exists>r. execute_watch_directory T args st = (r, st) \<and> tr_is_error r"
  "json_get args ''watch_id'' = None \<Longrightarrow> \<exists>r. execute_stop_watch T args st = (r, st) \<and> tr_is_error r"
  subgoal by (drule (1) missing_checks(1), drule refused_cases, auto simp: execute_ingest_def no_engine_def split: option.split)
  subgoal by (drule missing_str, drule refused_cases, auto simp: execute_ingest_status_def no_engine_def)
  subgoal by (drule missing_str, drule refused_cases, auto simp: execute_cancel_ingest_def no_engine_def split: option.split)
  subgoal by (drule (1) missing_checks(2), drule refused_cases, auto simp: execute_watch_directory_def no_watcher_def split: option.split)
  subgoal by (drule missing_str, drule refused_cases, auto simp: execute_stop_watch_def no_watcher_def)
  done

lemma missing_file_arguments:
  "k \<in> {''file_path'', ''database'', ''collection'', ''embed_field''} \<Longrightarrow> json_get args k = None \<Longrightarrow> tr_is_error (execute_ingest_and_embed T args)"
proof -
  assume "k \<in> {''file_path'', ''database'', ''collection'', ''embed_field''}" and missing: "json_get args k = None"
  then have "fails (rbind (Mcp_Tools.get_str args ''file_path'') (\<lambda>file_path.
      rbind (Mcp_Tools.target args) (\<lambda>(database, collection).
      rbind (Mcp_Tools.get_str args ''embed_field'') (\<lambda>embed_field. Inr (file_path, database, collection, embed_field)))))"
    by (auto intro: missing_intros proper_intros)
  then show ?thesis by (auto simp: execute_ingest_and_embed_def dest!: refused_cases)
qed

lemma missing_question_arguments:
  "k \<in> {''question'', ''database''} \<Longrightarrow> json_get args k = None \<Longrightarrow> \<exists>r. execute_ask T args st = (r, st) \<and> tr_is_error r"
  "k \<in> {''question'', ''database''} \<Longrightarrow> json_get args k = None \<Longrightarrow> \<exists>r. execute_explain_query T args st = (r, st) \<and> tr_is_error r"
  subgoal by (drule (1) missing_checks(3) [where tool = "''ask''"], drule refused_cases, auto simp: execute_ask_def)
  subgoal by (drule (1) missing_checks(3) [where tool = "''explain_query''"], drule refused_cases, auto simp: execute_explain_query_def)
  done

lemma missing_code_arguments:
  "k \<in> {''database'', ''collection''} \<Longrightarrow> json_get args k = None \<Longrightarrow> tr_is_error (execute_generate_code C T args)"
  "k \<in> {''filter'', ''database'', ''collection''} \<Longrightarrow> json_get args k = None \<Longrightarrow> tr_is_error (execute_generate_index T args)"
  "json_get args ''language'' = None \<Longrightarrow> tr_is_error (execute_explain_last T session args)"
  "json_get args ''language'' = None \<Longrightarrow> tr_is_error (execute_explain_session T session args)"
  "json_get args ''name'' = None \<Longrightarrow> tr_is_error (execute_get_skill T args)"
  by (auto simp: execute_generate_code_def execute_generate_index_def execute_explain_last_def execute_explain_session_def
      execute_get_skill_def Mcp_Tools.get_str_def parse_language_def json_str_field_def ok_or_def split: sum.split option.split)

lemma missing_schema_arguments:
  "k \<in> {''database'', ''collection''} \<Longrightarrow> json_get args k = None \<Longrightarrow> \<exists>r. execute_collection_schema T args s = Some (r, s) \<and> tr_is_error r"
  by (auto simp: execute_collection_schema_def dest!: missing_target refused_cases)

subsection \<open>Which tool a name runs\<close>

lemma data_tools_run:
  "simple_tool T safety ''find'' args st = Some (on_db (execute_find T args) st)"
  "simple_tool T safety ''find_one'' args st = Some (on_db (execute_find_one T args) st)"
  "simple_tool T safety ''insert'' args st = Some (on_db (execute_insert T args) st)"
  "simple_tool T safety ''insert_many'' args st = Some (on_db (execute_insert_many T args) st)"
  "simple_tool T safety ''update'' args st = Some (on_db (execute_update T args) st)"
  "simple_tool T safety ''update_many'' args st = Some (on_db (execute_update_many T args) st)"
  "simple_tool T safety ''delete'' args st = Some (on_db (execute_delete T args) st)"
  "simple_tool T safety ''delete_many'' args st = Some (on_db (execute_delete_many T args) st)"
  "simple_tool T safety ''aggregate'' args st = Some (on_db (execute_aggregate T args) st)"
  "simple_tool T safety ''create_collection'' args st = Some (on_db (execute_create_collection T args) st)"
  "simple_tool T safety ''create_index'' args st = Some (on_db (execute_create_index T args) st)"
  "simple_tool T safety ''list_collections'' args st = Some (on_db (execute_list_collections T args) st)"
  "simple_tool T safety ''run_command'' args st = Some (on_db (execute_run_command T args) st)"
  "simple_tool T safety ''generate_model'' args st = Some (on_db (execute_generate_model T args) st)"
  "simple_tool T safety ''embed_and_store'' args st = Some (on_db (execute_embed_and_store T args) st)"
  "simple_tool T safety ''semantic_search'' args st = Some (on_db (execute_semantic_search T args) st)"
  "simple_tool T safety ''list_databases'' args st = Some (on_db (execute_list_databases T) st)"
  "simple_tool T safety ''transaction_pipeline'' args st = Some (on_db (execute_transaction_pipeline_tool T safety args) st)"
  by (simp_all add: simple_tool_def data_tool_def)

lemma reading_tools_run:
  "simple_tool T safety ''get_analytics'' args st = Some (execute_get_analytics T (ms_analytics st), st)"
  "simple_tool T safety ''ingest_status'' args st = Some (execute_ingest_status T args st, st)"
  "simple_tool T safety ''list_ingest_jobs'' args st = Some (execute_list_ingest_jobs T st, st)"
  "simple_tool T safety ''ingest_and_embed'' args st = Some (execute_ingest_and_embed T args, st)"
  "simple_tool T safety ''list_skills'' args st = Some (execute_list_skills T args, st)"
  "simple_tool T safety ''get_skill'' args st = Some (execute_get_skill T args, st)"
  "simple_tool T safety ''suggest_indexes'' args st = Some (execute_suggest_indexes T (ms_analytics st) args, st)"
  "simple_tool T safety ''explain_last'' args st = Some (execute_explain_last T (ms_session st) args, st)"
  "simple_tool T safety ''explain_session'' args st = Some (execute_explain_session T (ms_session st) args, st)"
  by (simp_all add: simple_tool_def data_tool_def reading_tool_def)

lemma server_tools_run:
  "simple_tool T safety ''ingest'' args st = execute_ingest T args st"
  "simple_tool T safety ''cancel_ingest'' args st = Some (execute_cancel_ingest T args st)"
  "simple_tool T safety ''watch_directory'' args st = Some (execute_watch_directory T args st)"
  "simple_tool T safety ''stop_watch'' args st = Some (execute_stop_watch T args st)"
  "simple_tool T safety ''ask'' args st = Some (execute_ask T args st)"
  "simple_tool T safety ''explain_query'' args st = Some (execute_explain_query T args st)"
  "simple_tool T safety ''collection_schema'' args st = map_option (\<lambda>(r, s). (r, set_db s st)) (execute_collection_schema T args (ms_db st))"
  by (simp_all add: simple_tool_def data_tool_def reading_tool_def server_tool_def)

lemma code_tools_run:
  "simple_tool (with_code C T) safety ''slow_queries'' args st = Some (execute_slow_queries C (with_code C T) (ms_analytics st) args, st)"
  "simple_tool (with_code C T) safety ''generate_index'' args st = Some (execute_generate_index (with_code C T) args, st)"
  "simple_tool (with_code C T) safety ''generate_code'' args st = Some (execute_generate_code C (with_code C T) args, st)"
  by (simp_all add: simple_tool_def data_tool_def code_tools)

lemmas tools_run = data_tools_run reading_tools_run server_tools_run code_tools_run

text \<open>A name that is not announced is answered as unknown.\<close>

lemma unknown_name:
  "name \<notin> set tool_names \<Longrightarrow> simple_tool T safety name args st = Some (error_result (''Unknown tool: '' @ name), st)"
  by (simp add: tool_names_def tool_definitions_def tool_definition_defs simple_tool_def data_tool_def reading_tool_def
      server_tool_def)

subsection \<open>The contract\<close>

lemma on_db_refused: "\<exists>r. f (ms_db st) = (r, ms_db st) \<and> tr_is_error r \<Longrightarrow> \<exists>r. on_db f st = (r, st) \<and> tr_is_error r"
  by (auto simp: on_db_def set_db_def)

lemma tool_requirements:
  "tool_requirements =
     [(''find'', [''database'', ''collection'']), (''find_one'', [''database'', ''collection'']), (''insert'',
      [''database'', ''collection'', ''document'']), (''insert_many'', [''database'', ''collection'', ''documents'']),
      (''update'', [''database'', ''collection'', ''filter'', ''update'']), (''update_many'', [''database'',
      ''collection'', ''filter'', ''update'']), (''delete'', [''database'', ''collection'', ''filter'']),
      (''delete_many'', [''database'', ''collection'', ''filter'']), (''aggregate'', [''database'', ''collection'',
      ''pipeline'']), (''create_collection'', [''database'', ''collection'']), (''create_index'', [''database'',
      ''collection'', ''keys'']), (''list_databases'', []), (''list_collections'', [''database'']), (''run_command'',
      [''database'', ''command'']), (''get_analytics'', []), (''ingest'', [''file_path'', ''database'',
      ''collection'']), (''ingest_status'', [''job_id'']), (''list_ingest_jobs'', []), (''cancel_ingest'',
      [''job_id'']), (''watch_directory'', [''path'', ''database'', ''collection'']), (''stop_watch'',
      [''watch_id'']), (''pipeline'', [''operations'']), (''collection_schema'', [''database'', ''collection'']),
      (''ask'', [''question'', ''database'']), (''explain_query'', [''question'', ''database'']), (''generate_code'',
      [''database'', ''collection'']), (''generate_model'', [''database'', ''collection'']), (''generate_index'',
      [''filter'', ''database'', ''collection'']), (''embed_and_store'', [''documents'', ''database'', ''collection'',
      ''embed_field'']), (''semantic_search'', [''query'', ''database'', ''collection'']), (''ingest_and_embed'',
      [''file_path'', ''database'', ''collection'', ''embed_field'']), (''list_skills'', []), (''get_skill'',
      [''name'']), (''suggest_indexes'', []), (''slow_queries'', []), (''transaction_pipeline'', [''steps'']),
      (''explain_last'', [''language'']), (''explain_session'', [''language''])]"
  by (simp only: requirement_list)

text \<open>The tool \<open>name\<close> refuses a call without the argument \<open>k\<close>.\<close>

definition refuses_without where
  "refuses_without C T safety name k \<longleftrightarrow>
     (\<forall>args st. json_get args k = None \<longrightarrow>
       (\<exists>r. simple_tool (with_code C T) safety name args st = Some (r, st) \<and> tr_is_error r))"

lemma refuses_run:
  assumes "\<And>args st. json_get args k = None \<Longrightarrow>
    \<exists>r. simple_tool (with_code C T) safety name args st = Some (r, st) \<and> tr_is_error r"
  shows "refuses_without C T safety name k"
  using assms by (simp add: refuses_without_def)

lemma data_tools_refuse:
  "k \<in> {''database'', ''collection''} \<Longrightarrow> refuses_without C T safety ''find'' k"
  "k \<in> {''database'', ''collection''} \<Longrightarrow> refuses_without C T safety ''find_one'' k"
  "k \<in> {''database'', ''collection'', ''document''} \<Longrightarrow> refuses_without C T safety ''insert'' k"
  "k \<in> {''database'', ''collection'', ''documents''} \<Longrightarrow> refuses_without C T safety ''insert_many'' k"
  "k \<in> {''database'', ''collection'', ''filter'', ''update''} \<Longrightarrow> refuses_without C T safety ''update'' k"
  "k \<in> {''database'', ''collection'', ''filter'', ''update''} \<Longrightarrow> refuses_without C T safety ''update_many'' k"
  "k \<in> {''database'', ''collection'', ''filter''} \<Longrightarrow> refuses_without C T safety ''delete'' k"
  "k \<in> {''database'', ''collection'', ''filter''} \<Longrightarrow> refuses_without C T safety ''delete_many'' k"
  "k \<in> {''database'', ''collection'', ''pipeline''} \<Longrightarrow> refuses_without C T safety ''aggregate'' k"
  "k \<in> {''database'', ''collection''} \<Longrightarrow> refuses_without C T safety ''create_collection'' k"
  "k \<in> {''database'', ''collection'', ''keys''} \<Longrightarrow> refuses_without C T safety ''create_index'' k"
  "k \<in> {''database'', ''command''} \<Longrightarrow> refuses_without C T safety ''run_command'' k"
  "k \<in> {''database'', ''collection''} \<Longrightarrow> refuses_without C T safety ''generate_model'' k"
  "k \<in> {''documents'', ''database'', ''collection'', ''embed_field''} \<Longrightarrow> refuses_without C T safety ''embed_and_store'' k"
  "k \<in> {''query'', ''database'', ''collection''} \<Longrightarrow> refuses_without C T safety ''semantic_search'' k"
  by (rule refuses_run, simp only: tools_run option.inject, rule on_db_refused,
      erule (1) missing_write_arguments missing_read_arguments missing_text_arguments)+

lemma named_tools_refuse:
  "refuses_without C T safety ''list_collections'' ''database''"
  "refuses_without C T safety ''transaction_pipeline'' ''steps''"
  by (rule refuses_run, simp only: tools_run option.inject, rule on_db_refused,
      erule missing_read_arguments(4) missing_steps)+

lemma reading_tools_refuse:
  "refuses_without C T safety ''ingest_status'' ''job_id''"
  "refuses_without C T safety ''explain_last'' ''language''"
  "refuses_without C T safety ''explain_session'' ''language''"
  "refuses_without C T safety ''get_skill'' ''name''"
  by (rule refuses_run, simp only: tools_run option.inject prod.inject simp_thms ex_simps,
      auto intro: missing_ingest_arguments(2) missing_code_arguments)+

lemma code_tools_refuse:
  "k \<in> {''database'', ''collection''} \<Longrightarrow> refuses_without C T safety ''generate_code'' k"
  "k \<in> {''filter'', ''database'', ''collection''} \<Longrightarrow> refuses_without C T safety ''generate_index'' k"
  "k \<in> {''file_path'', ''database'', ''collection'', ''embed_field''} \<Longrightarrow> refuses_without C T safety ''ingest_and_embed'' k"
  by (rule refuses_run, simp only: tools_run,
      auto intro: missing_code_arguments(1,2) missing_file_arguments)+

lemma server_tools_refuse:
  "refuses_without C T safety ''cancel_ingest'' ''job_id''"
  "refuses_without C T safety ''stop_watch'' ''watch_id''"
  "k \<in> {''path'', ''database'', ''collection''} \<Longrightarrow> refuses_without C T safety ''watch_directory'' k"
  "k \<in> {''question'', ''database''} \<Longrightarrow> refuses_without C T safety ''ask'' k"
  "k \<in> {''question'', ''database''} \<Longrightarrow> refuses_without C T safety ''explain_query'' k"
  "k \<in> {''file_path'', ''database'', ''collection''} \<Longrightarrow> refuses_without C T safety ''ingest'' k"
  by (rule refuses_run, simp only: tools_run option.inject,
      auto intro: missing_ingest_arguments missing_question_arguments)+

lemma schema_tool_refuses:
  fixes T :: "('db, 's, 'f, 't) tool_lib"
  shows "k \<in> {''database'', ''collection''} \<Longrightarrow> refuses_without C T safety ''collection_schema'' k"
proof (rule refuses_run)
  fix args and st :: "('db, 'f, 't) mcp_state"
  assume "k \<in> {''database'', ''collection''}" and "json_get args k = None"
  from missing_schema_arguments [OF this, of "with_code C T" "ms_db st"]
  obtain r where "execute_collection_schema (with_code C T) args (ms_db st) = Some (r, ms_db st)" "tr_is_error r"
    by (elim exE conjE)
  then show "\<exists>r. simple_tool (with_code C T) safety ''collection_schema'' args st = Some (r, st) \<and> tr_is_error r"
    by (simp add: tools_run set_db_def)
qed

lemmas tools_refuse = data_tools_refuse named_tools_refuse reading_tools_refuse code_tools_refuse server_tools_refuse
  schema_tool_refuses

lemma requirements_refused:
  "list_all (\<lambda>(name, ks). name \<noteq> ''pipeline'' \<longrightarrow> (\<forall>k \<in> set ks. refuses_without C T safety name k)) tool_requirements"
  unfolding tool_requirements by (simp add: tools_refuse)

lemma pipeline_refuses:
  "json_get args ''operations'' = None \<Longrightarrow> \<exists>r. execute_pipeline T safety run args st = Some (r, st) \<and> tr_is_error r"
  by (simp add: execute_pipeline_def)

lemma record_analytics_only: "(record_analytics T name args started r st)\<lparr>ms_analytics := ms_analytics st\<rparr> = st"
  by (auto simp: record_analytics_def split: option.split)

lemma finish_refused:
  assumes "\<exists>r. res = Some (r, st) \<and> tr_is_error r"
  shows "\<exists>r st'. finish_tool T name args started res = Some (r, st') \<and> tr_is_error r \<and> st'\<lparr>ms_analytics := ms_analytics st\<rparr> = st"
  using assms by (auto simp: finish_tool_def enrich_result_def record_analytics_only)

text \<open>
  C8. The announced contract. A call of an announced tool that lacks an argument its schema
  requires is answered by an error and changes nothing but the analytics.
\<close>

theorem required_arguments_enforced:
  assumes "d \<in> set tool_definitions" and "k \<in> set (required_fields (td_input_schema d))" and "json_get args k = None"
  shows "\<exists>r st'. execute_tool (with_code C T) safety (td_name d) args st = Some (r, st') \<and> tr_is_error r \<and>
    st'\<lparr>ms_analytics := ms_analytics st\<rparr> = st"
proof -
  have req: "(td_name d, required_fields (td_input_schema d)) \<in> set tool_requirements"
    using assms(1) by (rule tool_definition_requirement)
  show ?thesis
  proof (cases "td_name d = ''pipeline''")
    case True
    then have "k = ''operations''" using req assms(2) unfolding tool_requirements by auto
    then show ?thesis
      unfolding execute_tool.simps [of "with_code C T" safety "td_name d" args st] if_P [OF True]
      using assms(3) by (intro finish_refused pipeline_refuses) simp
  next
    case False
    then have "refuses_without C T safety (td_name d) k"
      using requirements_refused [of C T safety] req assms(2) by (auto simp: list_all_iff)
    then show ?thesis
      unfolding execute_tool.simps [of "with_code C T" safety "td_name d" args st] if_not_P [OF False]
      using assms(3) by (intro finish_refused) (simp add: refuses_without_def)
  qed
qed

definition demo_code :: codegen_lib where
  "demo_code =
     \<lparr>cg_json = \<lparr>jt_pretty = (\<lambda>_. ''{}''), jt_compact = (\<lambda>_. ''{}'')\<rparr>, cg_render = (\<lambda>t _. Inr t),
      cg_files = \<lparr>pf_exists = (\<lambda>_ _. False), pf_read = (\<lambda>_ _. None)\<rparr>, cg_at_least = (\<lambda>a b. b \<le> a),
      cg_above = (\<lambda>a n. n \<le> unat a), cg_float = (\<lambda>i. word_of_int i)\<rparr>"

lemma required_arguments_enforced_witness:
  "\<exists>r st'. execute_tool (with_code demo_code demo_lib) \<lparr>read_only = False, max_documents = 100\<rparr> ''insert''
      (JObject [(''database'', JString ''d''), (''collection'', JString ''c'')]) (demo_server []) = Some (r, st') \<and>
    tr_is_error r \<and> st'\<lparr>ms_analytics := None\<rparr> = demo_server []"
  using required_arguments_enforced [of insert_definition "''document''"
    "JObject [(''database'', JString ''d''), (''collection'', JString ''c'')]" demo_code demo_lib
    "\<lparr>read_only = False, max_documents = 100\<rparr>" "demo_server []"]
  by (simp add: insert_definition_def tool_definitions_def demo_server_def)

text \<open>A call without arguments and analytics is answered by each tool's own text.\<close>

lemma own_error [simp]: "error_result t = error_result t' \<longleftrightarrow> t = t'" "success_result t \<noteq> error_result t'"
  by (simp_all add: error_result_def success_result_def)

lemma pretty_no_error [simp]: "pretty T m \<noteq> error_result t"
  by (simp add: pretty_def)

lemma known_data_tools:
  "name \<in> {''find'', ''find_one'', ''insert'', ''insert_many'', ''update'', ''update_many'', ''delete'', ''delete_many'',
     ''aggregate'', ''create_collection'', ''create_index'', ''list_databases'', ''list_collections'', ''run_command'',
     ''generate_model''} \<Longrightarrow>
   simple_tool T safety name JNull st \<noteq> Some (error_result (''Unknown tool: '' @ name), st)"
  by (auto simp: data_tools_run on_db_def execute_find_def execute_find_one_def execute_insert_def execute_insert_many_def
      execute_update_def execute_update_many_def execute_delete_def execute_delete_many_def execute_aggregate_def
      execute_create_collection_def execute_create_index_def execute_list_databases_def execute_list_collections_def
      execute_run_command_def execute_generate_model_def with_args_def Mcp_Tools.target_def Mcp_Tools.get_str_def
      json_str_field_def update_args_def delete_args_def result_simps split: prod.splits sum.splits)

lemma no_arguments [simp]:
  "Mcp_Tools.get_str JNull k = Inl (error_result (''Missing required field: '' @ k))"
  "Mcp_Tools.target JNull = Inl (error_result ''Missing required field: database'')"
  "embed_args JNull = Inl (error_result ''Missing required field: documents (must be an array)'')"
  "search_args JNull = Inl (error_result ''Missing required field: query'')"
  "ingest_options_of JNull = Inl (error_result ''Missing required field: file_path'')"
  "watch_config_of JNull = Inl (error_result ''Missing required field: path'')"
  "question_args tool JNull = Inl (error_result ''Missing required field: question'')"
  "parse_language JNull = Inl (error_result ''Missing required field: language'')"
  by (simp_all add: Mcp_Tools.get_str_def Mcp_Tools.target_def embed_args_def search_args_def ingest_options_of_def
      watch_config_of_def question_args_def parse_language_def json_str_field_def result_simps)

lemma known_text_tools:
  "name \<in> {''embed_and_store'', ''semantic_search'', ''transaction_pipeline'', ''ask'', ''explain_query'', ''ingest'',
     ''ingest_status'', ''list_ingest_jobs'', ''cancel_ingest'', ''watch_directory'', ''stop_watch'', ''ingest_and_embed'',
     ''list_skills'', ''get_skill''} \<Longrightarrow>
   simple_tool T \<lparr>read_only = False, max_documents = n\<rparr> name JNull st \<noteq> Some (error_result (''Unknown tool: '' @ name), st)"
  by (auto simp: tools_run on_db_def execute_embed_and_store_def execute_semantic_search_def
      execute_transaction_pipeline_tool_def check_tool_allowed_def execute_ask_def execute_explain_query_def
      execute_ingest_def no_engine_def execute_ingest_status_def execute_list_ingest_jobs_def execute_cancel_ingest_def
      execute_watch_directory_def no_watcher_def execute_stop_watch_def execute_ingest_and_embed_def
      execute_list_skills_def execute_get_skill_def result_simps
      split: option.splits prod.splits if_splits)

lemma known_code_tools:
  "name \<in> {''get_analytics'', ''suggest_indexes'', ''explain_last'', ''explain_session'', ''collection_schema'',
     ''slow_queries'', ''generate_index'', ''generate_code''} \<Longrightarrow> ms_analytics st = None \<Longrightarrow>
   simple_tool (with_code C T) safety name JNull st \<noteq> Some (error_result (''Unknown tool: '' @ name), st)"
  by (auto simp: tools_run execute_get_analytics_def execute_suggest_indexes_def execute_explain_last_def
      execute_explain_session_def parse_language_def execute_collection_schema_def Mcp_Tools.target_def
      Mcp_Tools.get_str_def json_str_field_def execute_slow_queries_def execute_generate_index_def execute_generate_code_def
      result_simps)

lemma known_names:
  "ms_analytics st = None \<Longrightarrow>
   list_all (\<lambda>name. name \<noteq> ''pipeline'' \<longrightarrow>
     simple_tool (with_code C T) \<lparr>read_only = False, max_documents = n\<rparr> name JNull st
       \<noteq> Some (error_result (''Unknown tool: '' @ name), st)) (map fst tool_requirements)"
  unfolding tool_requirements by (simp add: known_data_tools known_text_tools known_code_tools del: append.simps)

text \<open>
  The executor knows exactly the announced tools: a name is in the listing exactly if it is
  that of the pipeline or some call of it is not answered as that of an unknown tool.
\<close>

lemma announced_tools_known:
  fixes T :: "('db, 's, 'f, 't) tool_lib"
  shows "name \<in> set tool_names \<longleftrightarrow>
    name = ''pipeline'' \<or>
    (\<exists>safety args st. simple_tool (with_code C T) safety name args st \<noteq> Some (error_result (''Unknown tool: '' @ name), st))"
proof
  assume "name \<in> set tool_names"
  then have "name \<in> set (map fst tool_requirements)" by (simp add: tool_names_def tool_requirements_def image_image)
  then show "name = ''pipeline'' \<or>
    (\<exists>safety args st. simple_tool (with_code C T) safety name args st \<noteq> Some (error_result (''Unknown tool: '' @ name), st))"
    using known_names [of "undefined\<lparr>ms_analytics := None\<rparr>" C T 0] unfolding list_all_iff by (auto 4 0)
next
  assume "name = ''pipeline'' \<or>
    (\<exists>safety args st. simple_tool (with_code C T) safety name args st \<noteq> Some (error_result (''Unknown tool: '' @ name), st))"
  then show "name \<in> set tool_names"
    using unknown_name [of name] by (auto simp: tool_names_def tool_definitions_def pipeline_definition_def)
qed

subsection \<open>The enumerations of the pipelines\<close>

text \<open>The values that the property \<open>k\<close> of the items of the array \<open>field\<close> may have.\<close>

definition item_enum :: "json \<Rightarrow> string \<Rightarrow> string \<Rightarrow> string list" where
  "item_enum schema field k =
     (case Option.bind (map_of (declared_properties schema) field) (\<lambda>p. json_get p ''items'') of
        Some schema' \<Rightarrow> property_enum schema' k
      | None \<Rightarrow> [])"

text \<open>Five of the operations announced for the pipeline of tools are no tools: each fails as unknown.\<close>

lemma pipeline_announces_unknown_operations:
  "filter (\<lambda>n. n \<notin> set tool_names) (item_enum (td_input_schema pipeline_definition) ''operations'' ''op'') =
     [''find_and_modify'', ''search'', ''begin_transaction'', ''commit_transaction'', ''abort_transaction'']"
  by (simp add: pipeline_definition_def item_enum_def property_enum_def declared_properties_def input_schema_def
      string_values_def List.map_filter_simps tool_names_def tool_definitions_def tool_definition_defs)

text \<open>Those announced for the pipeline of a transaction are those that a step runs.\<close>

lemma transaction_operations_announced:
  "operation_type step \<notin> set (item_enum (td_input_schema transaction_pipeline_definition) ''steps'' ''operation'') \<Longrightarrow>
   execute_step X J step op s =
     (Inl (TransactionPipelineError (''Unsupported operation type: '' @ operation_type step)), s)"
  by (simp add: transaction_pipeline_definition_def item_enum_def property_enum_def declared_properties_def input_schema_def
      string_values_def List.map_filter_simps execute_step_def)

end
