(* ===== verification/Providers.thy ===== *)
theory Providers
  imports Voyage Mql_Validator Text_Lines
begin

text \<open>
  The language model providers (\<open>src/compiled/providers/\<close>): the prompt of a translation
  (\<open>prompt.rs\<close>), the clients of Anthropic (\<open>claude.rs\<close>) and OpenAI (\<open>openai.rs\<close>), the gateway
  that speaks either protocol (\<open>gateway.rs\<close>), and the request to the MCP host (\<open>sampling.rs\<close>).
  What the network answers to a posted request is a parameter, and so is the text of a status.
  A provider is what \<open>Translator.translate\<close> takes as its language model.
\<close>

subsection \<open>The prompt\<close>

record translation_context =
  tc_sample_documents :: "string list"
  tc_available_indexes :: "string list"
  tc_schema_hint :: "string option"

definition long_dash :: string where "long_dash = [CHR 0xE2, CHR 0x80, CHR 0x94]"

text \<open>
  The backslash at the end of a line of the literal skips the indentation of the next line, so
  the nested entries are not indented in the text.
\<close>

definition prompt_instructions :: string where
  "prompt_instructions =
     text_lines
       [''Respond with ONLY valid JSON containing:'',
        ''1. \"type\": \"find\" or \"aggregate\"'',
        ''2. \"method\": The best execution method:'',
        ''- \"filter\" '' @ long_dash @ '' structured queries with field-based conditions'',
        ''- \"aggregate\" '' @ long_dash @ '' group-by, counts, averages, joins, top-N'',
        ''- \"vector_search\" '' @ long_dash @ '' semantic/meaning-based queries'',
        ''- \"fulltext\" '' @ long_dash @ '' keyword text search'',
        ''- \"geo\" '' @ long_dash @ '' proximity/location queries'',
        ''3. The query (\"filter\" for find/geo, \"pipeline\" for aggregate, \"search_query\" for search methods)'',
        ''4. \"template\" (optional): parameterized version for cache reuse:'',
        ''- \"intent_pattern\": the query with variable parts as {{param_name}}'',
        ''- \"parameters\": [{\"name\": \"...\", \"value\": ..., \"param_type\": \"String\"|\"Number\"|\"Boolean\"}]'',
        ''- \"mql_pattern\": the MQL with {{param_name}} placeholders'',
        []] @
     ''No explanation, no markdown. Only valid JSON.''"

definition prompt_section :: "string \<Rightarrow> string list \<Rightarrow> string" where
  "prompt_section title entries =
     (if entries = [] then []
      else title @ newline @ concat (map (\<lambda>e. ''  '' @ e @ newline) entries) @ newline)"

definition build_translation_prompt :: "string \<Rightarrow> string \<Rightarrow> string \<Rightarrow> translation_context \<Rightarrow> string" where
  "build_translation_prompt intent database collection context =
     text_lines
       [''Translate this natural language query into a MongoDB query.'', [],
        ''Database: '' @ database, ''Collection: '' @ collection, ''Intent: \"'' @ intent @ ''\"'', []] @
     (case tc_schema_hint context of None \<Rightarrow> [] | Some schema \<Rightarrow> ''Schema: '' @ schema @ newline @ newline) @
     prompt_section ''Sample documents:'' (tc_sample_documents context) @
     prompt_section ''Available indexes:'' (tc_available_indexes context) @
     prompt_instructions"

subsection \<open>Requests and answers\<close>

type_synonym post = "string \<Rightarrow> (string \<times> string) list \<Rightarrow> json \<Rightarrow> string + http_response"

fun json_item :: "json \<Rightarrow> nat \<Rightarrow> json" where
  "json_item (JArray xs) i = (if i < length xs then xs ! i else JNull)"
| "json_item _ i = JNull"

definition user_message :: "string \<Rightarrow> json" where
  "user_message prompt = JObject [(''role'', JString ''user''), (''content'', JString prompt)]"

definition system_message :: json where
  "system_message = JObject [(''role'', JString ''system''),
     (''content'', JString ''You are a MongoDB query translator. Output only valid JSON.'')]"

definition anthropic_body :: "string \<Rightarrow> string \<Rightarrow> json" where
  "anthropic_body model prompt =
     JObject [(''model'', JString model), (''max_tokens'', JNumber (PosInt 1024)), (''messages'', JArray [user_message prompt])]"

definition openai_body :: "string \<Rightarrow> string \<Rightarrow> json" where
  "openai_body model prompt =
     JObject [(''model'', JString model), (''max_tokens'', JNumber (PosInt 1024)),
       (''messages'', JArray [system_message, user_message prompt])]"

definition anthropic_text :: "json \<Rightarrow> string option" where
  "anthropic_text body = as_str (json_index (json_item (json_index body ''content'') 0) ''text'')"

definition openai_text :: "json \<Rightarrow> string option" where
  "openai_text body = as_str (json_index (json_index (json_item (json_index body ''choices'') 0) ''message'') ''content'')"

definition response_json :: "(nat \<Rightarrow> string) \<Rightarrow> string + http_response \<Rightarrow> llm_error + json" where
  "response_json status_text r =
     (case r of
        Inl e \<Rightarrow> Inl (llm_error.ApiError e)
      | Inr response \<Rightarrow>
          if hr_status response = 429 then Inl (llm_error.RateLimited 60)
          else if \<not> (200 \<le> hr_status response \<and> hr_status response < 300) then
            Inl (llm_error.ApiError (''HTTP '' @ status_text (hr_status response) @ '': '' @
              (case hr_text response of Some t \<Rightarrow> t | None \<Rightarrow> [])))
          else map_err InvalidResponse (hr_json response))"

definition text_or_error :: "string \<Rightarrow> string option \<Rightarrow> llm_error + string" where
  "text_or_error message t = (case t of None \<Rightarrow> Inl (InvalidResponse message) | Some s \<Rightarrow> Inr s)"

subsection \<open>The two services\<close>

record llm_client =
  lm_api_key :: string
  lm_model :: string

definition claude_new :: "string \<Rightarrow> llm_client" where
  "claude_new key = \<lparr>lm_api_key = key, lm_model = ''claude-sonnet-4-20250514''\<rparr>"

definition openai_new :: "string \<Rightarrow> llm_client" where
  "openai_new key = \<lparr>lm_api_key = key, lm_model = ''gpt-4o''\<rparr>"

definition llm_with_model :: "string \<Rightarrow> string \<Rightarrow> llm_client" where
  "llm_with_model key model = \<lparr>lm_api_key = key, lm_model = model\<rparr>"

definition claude_translate where
  "claude_translate post status_text c intent database collection context =
     rbind (response_json status_text
       (post ''https://api.anthropic.com/v1/messages''
          [(''x-api-key'', lm_api_key c), (''anthropic-version'', ''2023-06-01''), (''content-type'', ''application/json'')]
          (anthropic_body (lm_model c) (build_translation_prompt intent database collection context))))
       (\<lambda>body. text_or_error ''No text in response'' (anthropic_text body))"

definition openai_translate where
  "openai_translate post status_text c intent database collection context =
     rbind (response_json status_text
       (post ''https://api.openai.com/v1/chat/completions''
          [(''authorization'', ''Bearer '' @ lm_api_key c), (''content-type'', ''application/json'')]
          (openai_body (lm_model c) (build_translation_prompt intent database collection context))))
       (\<lambda>body. text_or_error ''No content in response'' (openai_text body))"

subsection \<open>The gateway\<close>

record gateway =
  gp_base_url :: string
  gp_api_key :: string
  gp_auth_header :: string
  gp_model :: string
  gp_provider_type :: string

definition gateway_body :: "gateway \<Rightarrow> string \<Rightarrow> json" where
  "gateway_body g prompt =
     (if gp_provider_type g = ''openai'' then openai_body (gp_model g) prompt else anthropic_body (gp_model g) prompt)"

definition gateway_headers :: "gateway \<Rightarrow> (string \<times> string) list" where
  "gateway_headers g =
     [(''content-type'', ''application/json''), (gp_auth_header g, gp_api_key g)] @
     (if gp_provider_type g = ''openai'' then [] else [(''anthropic-version'', ''2023-06-01'')])"

definition gateway_text :: "gateway \<Rightarrow> json \<Rightarrow> llm_error + string" where
  "gateway_text g body =
     (if gp_provider_type g = ''openai'' then text_or_error ''No content in OpenAI response'' (openai_text body)
      else text_or_error ''No text in Anthropic response'' (anthropic_text body))"

definition gateway_translate where
  "gateway_translate post status_text g intent database collection context =
     rbind (response_json status_text
       (post (gp_base_url g) (gateway_headers g)
          (gateway_body g (build_translation_prompt intent database collection context))))
       (gateway_text g)"

subsection \<open>The gateway as either service\<close>

text \<open>
  A server does not distinguish requests whose headers differ in their order. Two answers are
  the same up to the wording of the complaint about an answer without a text.
\<close>

definition order_blind :: "post \<Rightarrow> bool" where
  "order_blind p \<longleftrightarrow> (\<forall>url hs hs' body. distinct (map fst hs) \<and> set hs = set hs' \<longrightarrow> p url hs body = p url hs' body)"

fun same_answer :: "llm_error + string \<Rightarrow> llm_error + string \<Rightarrow> bool" where
  "same_answer (Inl (InvalidResponse _)) (Inl (InvalidResponse _)) = True"
| "same_answer r r' = (r = r')"

lemma same_answer_refl [simp]: "same_answer r r"
  by (cases "(r, r)" rule: same_answer.cases) auto

lemma text_same [simp]: "same_answer (text_or_error m t) (text_or_error m' t)"
  by (cases t) (simp_all add: text_or_error_def)

lemma rbind_same: "(\<And>x. same_answer (f x) (g x)) \<Longrightarrow> same_answer (rbind r f) (rbind r g)"
  by (cases r) simp_all

text \<open>
  The gateway can stand for either service: with the address, the header and the key of one of
  them it sends the same request and gives the same answer, for every intent and context.
\<close>

theorem gateway_is_either_service:
  assumes "order_blind post"
  shows "same_answer
      (gateway_translate post status_text
        \<lparr>gp_base_url = ''https://api.anthropic.com/v1/messages'', gp_api_key = key, gp_auth_header = ''x-api-key'',
         gp_model = model, gp_provider_type = ''anthropic''\<rparr> intent database collection context)
      (claude_translate post status_text (llm_with_model key model) intent database collection context) \<and>
    same_answer
      (gateway_translate post status_text
        \<lparr>gp_base_url = ''https://api.openai.com/v1/chat/completions'', gp_api_key = ''Bearer '' @ key,
         gp_auth_header = ''authorization'', gp_model = model, gp_provider_type = ''openai''\<rparr> intent database collection context)
      (openai_translate post status_text (llm_with_model key model) intent database collection context)"
proof -
  have blind: "distinct (map fst hs) \<Longrightarrow> set hs = set hs' \<Longrightarrow> post url hs body = post url hs' body" for url hs hs' body
    using assms unfolding order_blind_def by blast
  have anthropic: "post url [(''content-type'', ''application/json''), (''x-api-key'', key), (''anthropic-version'', ''2023-06-01'')] body =
      post url [(''x-api-key'', key), (''anthropic-version'', ''2023-06-01''), (''content-type'', ''application/json'')] body" for url body
    by (rule blind) auto
  have openai: "post url [(''content-type'', ''application/json''), (''authorization'', ''Bearer '' @ key)] body =
      post url [(''authorization'', ''Bearer '' @ key), (''content-type'', ''application/json'')] body" for url body
    by (rule blind) auto
  show ?thesis
  proof
    show "same_answer
      (gateway_translate post status_text
        \<lparr>gp_base_url = ''https://api.anthropic.com/v1/messages'', gp_api_key = key, gp_auth_header = ''x-api-key'',
         gp_model = model, gp_provider_type = ''anthropic''\<rparr> intent database collection context)
      (claude_translate post status_text (llm_with_model key model) intent database collection context)"
      unfolding gateway_translate_def claude_translate_def gateway_headers_def gateway_body_def llm_with_model_def
      by (simp add: anthropic) (rule rbind_same, simp add: gateway_text_def)
    show "same_answer
      (gateway_translate post status_text
        \<lparr>gp_base_url = ''https://api.openai.com/v1/chat/completions'', gp_api_key = ''Bearer '' @ key,
         gp_auth_header = ''authorization'', gp_model = model, gp_provider_type = ''openai''\<rparr> intent database collection context)
      (openai_translate post status_text (llm_with_model key model) intent database collection context)"
      unfolding gateway_translate_def openai_translate_def gateway_headers_def gateway_body_def llm_with_model_def
      by (simp add: openai [simplified]) (rule rbind_same, simp add: gateway_text_def)
  qed
qed

end
