(* ===== verification/Web_Ui.thy ===== *)
theory Web_Ui
  imports Text_Lines Analytics Mcp_Data Mcp_Schema Compiled_Cache Connection_Pool Ingest_Lifecycle
begin

text \<open>
  The dashboard (\<open>src/web_ui/handlers.rs\<close>, \<open>src/web_ui/server.rs\<close>): the pages it renders from the
  collector, the jobs and the cache, and the points of its charts. The formatting of floating-point
  numbers and the arithmetic on them, the order in which a hash map is iterated, and the embedded
  files are parameters; times are nanoseconds. A page that is not rendered because a text is cut
  inside a character is \<open>None\<close>.
\<close>

subsection \<open>Parts of pages\<close>

record web_lib =
  wl_floats :: float_lib
  wl_fixed :: "nat \<Rightarrow> f64 \<Rightarrow> string"
  wl_percent :: "nat \<Rightarrow> nat \<Rightarrow> f64"
  wl_mean_millis :: "nat list \<Rightarrow> f64"
  wl_product :: "nat \<Rightarrow> nat \<Rightarrow> f64"
  wl_order :: "(string \<times> nat \<times> string \<times> string) list \<Rightarrow> (string \<times> nat \<times> string \<times> string) list"
  wl_asset :: "string \<Rightarrow> string option"
  wl_lossy :: "string \<Rightarrow> string"

definition empty_state :: "string \<Rightarrow> string" where
  "empty_state message = ''<p class=\"empty-state\">'' @ message @ ''</p>''"

definition no_analytics :: string where "no_analytics = empty_state ''No analytics data''"

definition row_of :: "string list \<Rightarrow> string" where
  "row_of cells = ''<tr>'' @ concat (map (\<lambda>c. ''<td>'' @ c @ ''</td>'') cells) @ ''</tr>''"

definition table_of :: "string list \<Rightarrow> string list list \<Rightarrow> string" where
  "table_of heads rows =
     ''<table><thead><tr>'' @ concat (map (\<lambda>h. ''<th>'' @ h @ ''</th>'') heads) @ ''</tr></thead><tbody>'' @
     concat (map row_of rows) @ ''</tbody></table>''"

text \<open>A table of names and values, one row in a line.\<close>

definition fact_table :: "(string \<times> string) list \<Rightarrow> string" where
  "fact_table facts =
     ''<table>'' @ newline @ ''<tbody>'' @ newline @
     concat (map (\<lambda>(k, v). row_of [k, v] @ newline) facts) @ ''</tbody>'' @ newline @ ''</table>''"

definition format_duration :: "nat \<Rightarrow> string" where
  "format_duration secs =
     (if secs < 60 then show_nat secs @ ''s''
      else if secs < 3600 then show_nat (secs div 60) @ ''m '' @ show_nat (secs mod 60) @ ''s''
      else show_nat (secs div 3600) @ ''h '' @ show_nat ((secs mod 3600) div 60) @ ''m'')"

definition truncate_str :: "string \<Rightarrow> nat \<Rightarrow> string option" where
  "truncate_str s n =
     (if length s \<le> n then Some s else if continues_char (s ! n) then None else Some (take n s))"

definition millis_text :: "web_lib \<Rightarrow> nat \<Rightarrow> string" where
  "millis_text W latency = wl_fixed W 1 (fl_millis (wl_floats W) latency) @ ''ms''"

subsection \<open>Status\<close>

definition status_item :: "string \<Rightarrow> string" where
  "status_item s = ''<span class=\"status-item\">'' @ s @ ''</span>''"

text \<open>\<open>stats\<close> is what the operating system says of the process: its CPU time and its memory.\<close>

definition status_page where
  "status_page W D analytics uptime stats s =
     (let (total_ops, error_rate) =
            (case analytics of
               None \<Rightarrow> (0, fl_zero (wl_floats W))
             | Some c \<Rightarrow>
                 (ac_total_ops c,
                  if 0 < ac_total_ops c then wl_percent W (unat (ac_total_errors c)) (unat (ac_total_ops c))
                  else fl_zero (wl_floats W))) in
      case health_check D (s :: 'db) of
        (r, s') \<Rightarrow>
          (status_item (''<span class=\"dot '' @ (case r of Inr _ \<Rightarrow> ''green\"></span> Connected'' | Inl _ \<Rightarrow> ''red\"></span> Disconnected'')) @
           concat (map (\<lambda>t. newline @ status_item t)
             [''Uptime: '' @ format_duration uptime, ''CPU: '' @ wl_fixed W 1 (fst stats) @ ''%'',
              ''Mem: '' @ wl_fixed W 1 (snd stats) @ '' MB'', ''Ops: '' @ show_nat (unat total_ops),
              ''Errors: '' @ wl_fixed W 2 error_rate @ ''%'']), s'))"

subsection \<open>The charts\<close>

definition parse_window :: "string \<Rightarrow> nat" where
  "parse_window s =
     (if s = ''1m'' then 60 else if s = ''5m'' then 300 else if s = ''15m'' then 900 else if s = ''1h'' then 3600 else 300)"

definition BUCKET_SIZE :: nat where "BUCKET_SIZE = 2"
definition nanos :: "nat \<Rightarrow> int" where "nanos secs = int secs * 10 ^ 9"

text \<open>\<open>percentile_of\<close> is the collector's percentile on milliseconds, zero when there is nothing.\<close>

definition in_bucket :: "int \<Rightarrow> nat \<Rightarrow> analytics_event \<Rightarrow> bool" where
  "in_bucket cutoff i e \<longleftrightarrow>
     cutoff + nanos (i * BUCKET_SIZE) \<le> int (ev_timestamp e) \<and>
     int (ev_timestamp e) < cutoff + nanos (i * BUCKET_SIZE) + nanos BUCKET_SIZE"

definition num_buckets :: "nat \<Rightarrow> nat" where
  "num_buckets window = max (window div BUCKET_SIZE) 1"

definition windowed :: "int \<Rightarrow> analytics_event list \<Rightarrow> analytics_event list" where
  "windowed cutoff events = filter (\<lambda>e. cutoff \<le> int (ev_timestamp e)) events"

definition bucket_events :: "int \<Rightarrow> analytics_event list \<Rightarrow> nat \<Rightarrow> analytics_event list" where
  "bucket_events cutoff events i = filter (in_bucket cutoff i) (windowed cutoff events)"

definition bucket_percentile :: "web_lib \<Rightarrow> nat \<Rightarrow> analytics_event list \<Rightarrow> f64" where
  "bucket_percentile W pct events =
     millis_or_zero (wl_floats W) (percentile (wl_floats W) (sort (map ev_latency events)) pct)"

definition metrics :: "web_lib \<Rightarrow> collector option \<Rightarrow> string option \<Rightarrow> nat \<Rightarrow> json" where
  "metrics W analytics window now =
     (let window_secs = parse_window (case window of None \<Rightarrow> ''5m'' | Some w \<Rightarrow> w);
          events = (case analytics of None \<Rightarrow> [] | Some c \<Rightarrow> snapshot c);
          buckets = map (bucket_events (int now - nanos window_secs) events) [0..<num_buckets window_secs];
          numbers = (\<lambda>f. JArray (map (\<lambda>b. json_of_f64 (f b)) buckets)) in
      JObject
        [(''timestamps'', JArray (map (\<lambda>i. json_of_f64 (wl_product W i BUCKET_SIZE)) [0..<num_buckets window_secs])),
         (''ops_per_sec'', numbers (\<lambda>b. fl_ratio (wl_floats W) (length b) BUCKET_SIZE)),
         (''p50'', numbers (bucket_percentile W 50)),
         (''p95'', numbers (bucket_percentile W 95)),
         (''p99'', numbers (bucket_percentile W 99))])"

subsection \<open>Operations and queries\<close>

definition operations_page :: "web_lib \<Rightarrow> collector option \<Rightarrow> string" where
  "operations_page W analytics =
     (case analytics of
        None \<Rightarrow> no_analytics
      | Some c \<Rightarrow>
          if snapshot c = [] then empty_state ''No operations recorded''
          else
            (let summary = aggregate_events (wl_floats W) (snapshot c) in
             table_of [''Operation'', ''Count''] (map (\<lambda>(op, n). [kind_name op, show_nat n]) (su_top_operations summary)) @
             (if su_top_collections summary = [] then []
              else table_of [''Namespace'', ''Count''] (map (\<lambda>(c, n). [c, show_nat n]) (su_top_collections summary)))))"

fun note_query ::
  "string \<Rightarrow> analytics_event \<Rightarrow> (string \<times> nat \<times> string \<times> string) list \<Rightarrow> (string \<times> nat \<times> string \<times> string) list" where
  "note_query fp e [] = [(fp, max 0 (ev_latency e), ev_database e, ev_collection e)]"
| "note_query fp e ((k, latency, db, coll) # m) =
     (if k = fp then (k, (if ev_latency e > latency then ev_latency e else latency), db, coll) # m
      else (k, latency, db, coll) # note_query fp e m)"

definition by_fingerprint :: "analytics_event list \<Rightarrow> (string \<times> nat \<times> string \<times> string) list" where
  "by_fingerprint events =
     foldl (\<lambda>m e. case ev_fingerprint e of None \<Rightarrow> m | Some fp \<Rightarrow> note_query fp e m) [] events"

definition slowest_queries :: "web_lib \<Rightarrow> analytics_event list \<Rightarrow> (string \<times> nat \<times> string \<times> string) list" where
  "slowest_queries W events =
     take 20 (sort_key (\<lambda>entry. - int (fst (snd entry))) (wl_order W (by_fingerprint events)))"

definition query_row :: "web_lib \<Rightarrow> string \<times> nat \<times> string \<times> string \<Rightarrow> string list option" where
  "query_row W entry =
     (case entry of (fp, latency, db, coll) \<Rightarrow>
        map_option (\<lambda>t. [''<code>'' @ t @ ''</code>'', db @ ''.'' @ coll, millis_text W latency]) (truncate_str fp 60))"

definition queries_page :: "web_lib \<Rightarrow> collector option \<Rightarrow> string option" where
  "queries_page W analytics =
     (case analytics of
        None \<Rightarrow> Some no_analytics
      | Some c \<Rightarrow>
          if by_fingerprint (snapshot c) = [] then Some (empty_state ''No query fingerprints recorded'')
          else map_option (table_of [''Fingerprint'', ''Namespace'', ''Max Latency''])
            (those (map (query_row W) (slowest_queries W (snapshot c)))))"

subsection \<open>Pipelines, errors, jobs, completions, cache\<close>

definition pipelines_page :: "web_lib \<Rightarrow> collector option \<Rightarrow> string" where
  "pipelines_page W analytics =
     (case analytics of
        None \<Rightarrow> no_analytics
      | Some c \<Rightarrow>
          (let events = ac_pipeline_events c; n = length events in
           if events = [] then empty_state ''No pipeline executions recorded''
           else fact_table
             [(''Total Executions'', show_nat n),
              (''Transactions'', show_nat (length (filter pe_is_transaction events))),
              (''Success Rate'', wl_fixed W 1 (wl_percent W (length (filter pe_success events)) n) @ ''%''),
              (''Avg Steps'', wl_fixed W 1 (fl_ratio (wl_floats W) (sum_list (map pe_steps events)) n)),
              (''Avg Latency'', wl_fixed W 1 (wl_mean_millis W (map pe_latency events)) @ ''ms''),
              (''Total Retries'', show_nat (unat (sum_list (map pe_retries events))))]))"

definition failed_events :: "analytics_event list \<Rightarrow> analytics_event list" where
  "failed_events events = take 50 (sort_key (\<lambda>e. - int (ev_timestamp e)) (filter (\<lambda>e. \<not> ev_success e) events))"

definition errors_page :: "web_lib \<Rightarrow> collector option \<Rightarrow> string" where
  "errors_page W analytics =
     (case analytics of
        None \<Rightarrow> no_analytics
      | Some c \<Rightarrow>
          if filter (\<lambda>e. \<not> ev_success e) (snapshot c) = [] then empty_state ''No errors recorded''
          else table_of [''Operation'', ''Namespace'', ''Latency'']
            (map (\<lambda>e. [kind_name (ev_operation e), ev_database e @ ''.'' @ ev_collection e, millis_text W (ev_latency e)])
              (failed_events (snapshot c))))"

definition job_progress :: "web_lib \<Rightarrow> ingest_job \<Rightarrow> string" where
  "job_progress W j =
     (if 0 < ij_total_rows j then
        show_nat (nat (ij_rows_processed j)) @ ''/'' @ show_nat (nat (ij_total_rows j)) @ '' ('' @
        wl_fixed W 0 (wl_percent W (nat (ij_rows_processed j)) (nat (ij_total_rows j))) @ ''%)''
      else show_nat (nat (ij_rows_processed j)) @ '' processed'')"

definition ingestion_page where
  "ingestion_page W engine =
     (case engine of
        None \<Rightarrow> empty_state ''Ingestion not enabled''
      | Some e \<Rightarrow>
          (let jobs = list_ingestion_jobs e in
           if jobs = [] then empty_state ''No active ingestion jobs''
           else ''<header>Ingestion Progress</header>'' @
             table_of [''Job'', ''Status'', ''Progress'', ''Errors'']
               (map (\<lambda>j. [ij_job_id j, status_debug (ij_status j), job_progress W j, show_nat (nat (ij_rows_failed j))]) jobs)))"

definition llm_page :: "web_lib \<Rightarrow> collector option \<Rightarrow> string" where
  "llm_page W analytics =
     (case analytics of
        None \<Rightarrow> no_analytics
      | Some c \<Rightarrow>
          (let calls = ac_llm_calls c; n = length calls in
           if calls = [] then empty_state ''No LLM calls recorded''
           else fact_table
             [(''Total Calls'', show_nat n),
              (''Success Rate'', wl_fixed W 1 (wl_percent W (length (filter lc_success calls)) n) @ ''%''),
              (''Total Tokens In'', show_nat (unat (sum_list (map lc_tokens_in calls)))),
              (''Total Tokens Out'', show_nat (unat (sum_list (map lc_tokens_out calls)))),
              (''Avg Latency'', wl_fixed W 1 (wl_mean_millis W (map lc_latency calls)) @ ''ms'')]))"

definition hit_rate :: "web_lib \<Rightarrow> u64 \<Rightarrow> u64 \<Rightarrow> string" where
  "hit_rate W hits misses =
     wl_fixed W 1 (if 0 < hits + misses then wl_percent W (unat hits) (unat (hits + misses)) else fl_zero (wl_floats W)) @ ''%''"

definition cache_page where
  "cache_page W cache =
     (case cache of
        None \<Rightarrow> empty_state ''Compiled query cache not active''
      | Some h \<Rightarrow> fact_table
          [(''L1 Size'', show_nat (mem_len (l1 h))),
           (''L1 Hits'', show_nat (unat (l1_hits h))), (''L1 Hit Rate'', hit_rate W (l1_hits h) (l1_misses h)),
           (''L2 Hits'', show_nat (unat (l2_hits h))), (''L2 Hit Rate'', hit_rate W (l2_hits h) (l2_misses h)),
           (''L3 Hits'', show_nat (unat (l3_hits h))), (''L3 Hit Rate'', hit_rate W (l3_hits h) (l3_misses h)),
           (''Evictions'', show_nat (unat (evictions h)))])"

subsection \<open>Files and routes\<close>

record web_response =
  wr_status :: nat
  wr_headers :: "(string \<times> string) list"
  wr_body :: string

definition not_found_response :: web_response where
  "not_found_response = \<lparr>wr_status = 404, wr_headers = [], wr_body = []\<rparr>"

definition ends_with :: "string \<Rightarrow> string \<Rightarrow> bool" where
  "ends_with s ending \<longleftrightarrow> drop (length s - length ending) s = ending"

definition mime_from_path :: "string \<Rightarrow> string" where
  "mime_from_path path =
     (if ends_with path ''.css'' then ''text/css''
      else if ends_with path ''.js'' then ''application/javascript''
      else if ends_with path ''.html'' then ''text/html''
      else ''application/octet-stream'')"

definition serve_index :: "web_lib \<Rightarrow> web_response" where
  "serve_index W =
     (case wl_asset W ''index.html'' of
        None \<Rightarrow> not_found_response
      | Some content \<Rightarrow>
          \<lparr>wr_status = 200, wr_headers = [(''content-type'', ''text/html; charset=utf-8'')], wr_body = wl_lossy W content\<rparr>)"

definition serve_asset :: "web_lib \<Rightarrow> string \<Rightarrow> web_response" where
  "serve_asset W path =
     (case wl_asset W path of
        None \<Rightarrow> not_found_response
      | Some content \<Rightarrow>
          \<lparr>wr_status = 200,
           wr_headers = [(''content-type'', mime_from_path path), (''cache-control'', ''public, max-age=31536000, immutable'')],
           wr_body = content\<rparr>)"

subsection \<open>The charts count every event of their window once\<close>

lemma quotient_int_iff: "0 < (d::int) \<Longrightarrow> q = x div d \<longleftrightarrow> q * d \<le> x \<and> x < q * d + d"
proof
  assume "0 < d" and "q = x div d"
  then have "q * d + x mod d = x" and "0 \<le> x mod d" and "x mod d < d" by simp_all
  then show "q * d \<le> x \<and> x < q * d + d" by linarith
next
  assume "0 < d" and "q * d \<le> x \<and> x < q * d + d"
  then show "q = x div d" using int_div_pos_eq [of x d q "x - q * d"] by (simp add: mult.commute)
qed

lemma quotient_less_int: "0 < (d::int) \<Longrightarrow> x div d < n \<longleftrightarrow> x < n * d"
proof -
  assume d: "0 < d"
  have q: "x div d * d \<le> x" "x < x div d * d + d" using quotient_int_iff [OF d, of "x div d" x] by simp_all
  have "x < n * d" if "x div d < n"
  proof -
    have "(x div d + 1) * d \<le> n * d" using that d by (intro mult_right_mono) auto
    then show ?thesis using q(2) by (simp add: distrib_right)
  qed
  moreover have "n * d \<le> x" if "n \<le> x div d"
    using mult_right_mono [OF that, of d] d q(1) by linarith
  ultimately show ?thesis by linarith
qed

text \<open>The bucket of an event in the window.\<close>

definition slot :: "int \<Rightarrow> analytics_event \<Rightarrow> nat" where
  "slot cutoff e = nat ((int (ev_timestamp e) - cutoff) div nanos BUCKET_SIZE)"

lemma nanos_bucket: "0 < nanos BUCKET_SIZE" "nanos (i * BUCKET_SIZE) = int i * nanos BUCKET_SIZE"
  by (simp_all add: nanos_def BUCKET_SIZE_def)

lemma in_bucket_slot:
  assumes "cutoff \<le> int (ev_timestamp e)"
  shows "in_bucket cutoff i e \<longleftrightarrow> slot cutoff e = i"
proof -
  let ?x = "int (ev_timestamp e) - cutoff"
  have "in_bucket cutoff i e \<longleftrightarrow> int i * nanos BUCKET_SIZE \<le> ?x \<and> ?x < int i * nanos BUCKET_SIZE + nanos BUCKET_SIZE"
    unfolding in_bucket_def nanos_bucket by auto
  also have "\<dots> \<longleftrightarrow> int i = ?x div nanos BUCKET_SIZE"
    by (rule quotient_int_iff [OF nanos_bucket(1), symmetric])
  also have "\<dots> \<longleftrightarrow> slot cutoff e = i"
    using assms nanos_bucket(1) pos_imp_zdiv_nonneg_iff [of "nanos BUCKET_SIZE" ?x] unfolding slot_def by auto
  finally show ?thesis .
qed

lemma slot_below:
  assumes "cutoff \<le> int (ev_timestamp e)"
  shows "slot cutoff e < n \<longleftrightarrow> int (ev_timestamp e) < cutoff + nanos (n * BUCKET_SIZE)"
proof -
  let ?x = "int (ev_timestamp e) - cutoff"
  have "0 \<le> ?x div nanos BUCKET_SIZE" using assms nanos_bucket(1) by (simp add: pos_imp_zdiv_nonneg_iff)
  then have "slot cutoff e < n \<longleftrightarrow> ?x div nanos BUCKET_SIZE < int n" unfolding slot_def by linarith
  also have "\<dots> \<longleftrightarrow> ?x < int n * nanos BUCKET_SIZE" using nanos_bucket(1) by (rule quotient_less_int)
  finally show ?thesis unfolding nanos_bucket by auto
qed

lemma count_by_slot: "(\<Sum>i\<leftarrow>[0..<n]. length (filter (\<lambda>x. f x = i) xs)) = length (filter (\<lambda>x. f x < n) xs)"
proof (induction xs)
  case (Cons x xs)
  have one: "(\<Sum>i\<leftarrow>[0..<n]. of_bool (k = i)) = (of_bool (k < n) :: nat)" for k by (induction n) auto
  have "(\<Sum>i\<leftarrow>[0..<n]. length (filter (\<lambda>x. f x = i) (x # xs))) =
      (\<Sum>i\<leftarrow>[0..<n]. of_bool (f x = i) + length (filter (\<lambda>x. f x = i) xs))"
    by (rule arg_cong [where f = sum_list]) simp
  then show ?case using Cons one [of "f x"] by (simp add: sum_list_addf)
qed (simp add: sum_list_0)

lemma bucket_events_slot: "bucket_events cutoff events i = filter (\<lambda>e. slot cutoff e = i) (windowed cutoff events)"
  unfolding bucket_events_def by (rule filter_cong) (auto simp: windowed_def in_bucket_slot)

lemma window_buckets: "num_buckets (parse_window w) * BUCKET_SIZE = parse_window w"
  by (simp add: parse_window_def num_buckets_def BUCKET_SIZE_def)

lemma bucket_percentile_cases:
  "bucket_percentile W pct events = fl_zero (wl_floats W) \<and> events = [] \<or>
   (\<exists>e \<in> set events. bucket_percentile W pct events = fl_millis (wl_floats W) (ev_latency e))"
proof (cases "events = []")
  case False
  then have "\<exists>n \<in> set (sort (map ev_latency events)). percentile (wl_floats W) (sort (map ev_latency events)) pct = Some n"
    unfolding percentile_def Let_def by (auto intro!: nth_mem simp: min_less_iff_disj simp del: set_sort)
  then show ?thesis by (auto simp: bucket_percentile_def millis_or_zero_def)
qed (simp add: bucket_percentile_def percentile_def millis_or_zero_def)

text \<open>
  The buckets of the charts: every event of the window that lies before now is in exactly one of
  them, so the counts add up to their number; and every percentile of a bucket is the latency
  of one of its events, or zero when the bucket is empty.
\<close>

theorem charts_count_each_event_once:
  "(\<Sum>i\<leftarrow>[0..<num_buckets (parse_window w)]. length (bucket_events (int now - nanos (parse_window w)) events i)) =
     length (filter (\<lambda>e. int now - nanos (parse_window w) \<le> int (ev_timestamp e) \<and> ev_timestamp e < now) events) \<and>
   (\<forall>i pct. bucket_percentile W pct (bucket_events cutoff events i) = fl_zero (wl_floats W) \<and> bucket_events cutoff events i = [] \<or>
     (\<exists>e \<in> set events. in_bucket cutoff i e \<and>
        bucket_percentile W pct (bucket_events cutoff events i) = fl_millis (wl_floats W) (ev_latency e)))"
proof
  let ?w = "parse_window w" and ?c = "int now - nanos (parse_window w)"
  have "(\<Sum>i\<leftarrow>[0..<num_buckets ?w]. length (bucket_events ?c events i)) =
      length (filter (\<lambda>e. slot ?c e < num_buckets ?w) (windowed ?c events))"
    unfolding bucket_events_slot by (rule count_by_slot)
  also have "filter (\<lambda>e. slot ?c e < num_buckets ?w) (windowed ?c events) =
      filter (\<lambda>e. ?c \<le> int (ev_timestamp e) \<and> ev_timestamp e < now) events"
    unfolding windowed_def filter_filter
    by (rule filter_cong) (auto simp: slot_below window_buckets)
  finally show "(\<Sum>i\<leftarrow>[0..<num_buckets ?w]. length (bucket_events ?c events i)) =
      length (filter (\<lambda>e. ?c \<le> int (ev_timestamp e) \<and> ev_timestamp e < now) events)" .
  show "\<forall>i pct. bucket_percentile W pct (bucket_events cutoff events i) = fl_zero (wl_floats W) \<and> bucket_events cutoff events i = [] \<or>
     (\<exists>e \<in> set events. in_bucket cutoff i e \<and>
        bucket_percentile W pct (bucket_events cutoff events i) = fl_millis (wl_floats W) (ev_latency e))"
  proof (intro allI)
    fix i pct
    show "bucket_percentile W pct (bucket_events cutoff events i) = fl_zero (wl_floats W) \<and> bucket_events cutoff events i = [] \<or>
     (\<exists>e \<in> set events. in_bucket cutoff i e \<and>
        bucket_percentile W pct (bucket_events cutoff events i) = fl_millis (wl_floats W) (ev_latency e))"
      using bucket_percentile_cases [of W pct "bucket_events cutoff events i"]
      by (auto simp: bucket_events_def windowed_def)
  qed
qed

subsection \<open>The page of queries shows the slowest\<close>

definition queries_of :: "string \<Rightarrow> analytics_event list \<Rightarrow> analytics_event list" where
  "queries_of fp events = filter (\<lambda>e. ev_fingerprint e = Some fp) events"

lemma map_of_note_query:
  "map_of (note_query fp e m) =
     (map_of m)(fp \<mapsto> (case map_of m fp of None \<Rightarrow> (ev_latency e, ev_database e, ev_collection e)
       | Some (latency, place) \<Rightarrow> (max latency (ev_latency e), place)))"
  by (induction fp e m rule: note_query.induct) (auto simp: fun_eq_iff)

lemma keys_note_query: "fst ` set (note_query fp e m) = insert fp (fst ` set m)"
  by (induction fp e m rule: note_query.induct) auto

lemma distinct_note_query: "distinct (map fst m) \<Longrightarrow> distinct (map fst (note_query fp e m))"
  by (induction fp e m rule: note_query.induct) (auto simp: keys_note_query)

lemma by_fingerprint_distinct: "distinct (map fst (by_fingerprint events))"
  by (induction events rule: rev_induct) (auto simp: by_fingerprint_def intro: distinct_note_query split: option.split)

lemma max_first: "finite A \<Longrightarrow> max x (Max (insert a A)) = max a (Max (insert (x::nat) A))"
  by (cases "A = {}") (simp_all add: max.commute max.left_commute)

lemma by_fingerprint_entry:
  "map_of (by_fingerprint events) fp =
     (case queries_of fp events of [] \<Rightarrow> None
      | e # es \<Rightarrow> Some (Max (ev_latency ` set (e # es)), ev_database e, ev_collection e))"
proof (induction events rule: rev_induct)
  case (snoc e events)
  show ?case
  proof (cases "ev_fingerprint e = Some fp")
    case True
    then show ?thesis
      using snoc by (cases "queries_of fp events")
        (simp_all add: by_fingerprint_def queries_of_def map_of_note_query max_first max.commute)
  next
    case False
    then have "map_of (by_fingerprint (events @ [e])) fp = map_of (by_fingerprint events) fp"
      by (auto simp: by_fingerprint_def map_of_note_query split: option.split)
    then show ?thesis using snoc False by (simp add: queries_of_def)
  qed
qed (simp add: by_fingerprint_def queries_of_def)

lemma sorted_take_drop:
  assumes "sorted (map f xs)" and "x \<in> set (take n xs)" and "y \<in> set (drop n xs)"
  shows "f x \<le> f y"
proof -
  have "sorted (map f (take n xs) @ map f (drop n xs))"
    using assms(1) by (simp flip: map_append)
  then show ?thesis using assms(2,3) by (auto simp: sorted_append)
qed

text \<open>
  The page of queries: each fingerprint once, with the largest latency recorded for it and the
  place of its first event; a fingerprint that is left out is not slower than any that is shown,
  and is left out only when twenty are shown.
\<close>

theorem slowest_queries_exact:
  assumes "mset (wl_order W (by_fingerprint events)) = mset (by_fingerprint events)"
  shows "distinct (map fst (slowest_queries W events)) \<and>
    (\<forall>(fp, latency, db, coll) \<in> set (slowest_queries W events). queries_of fp events \<noteq> [] \<and>
       latency = Max (ev_latency ` set (queries_of fp events)) \<and>
       db = ev_database (hd (queries_of fp events)) \<and> coll = ev_collection (hd (queries_of fp events))) \<and>
    (\<forall>e \<in> set events. \<forall>fp. ev_fingerprint e = Some fp \<longrightarrow>
       fp \<in> fst ` set (slowest_queries W events) \<or>
       length (slowest_queries W events) = 20 \<and>
         (\<forall>entry \<in> set (slowest_queries W events). ev_latency e \<le> fst (snd entry)))"
proof -
  let ?m = "by_fingerprint events" and ?all = "sort_key (\<lambda>entry. - int (fst (snd entry))) (wl_order W (by_fingerprint events))"
  have same: "mset ?all = mset ?m" by (simp add: assms)
  have dist: "distinct (map fst ?all)"
    using by_fingerprint_distinct [of events] same by (metis mset_eq_imp_distinct_iff mset_map)
  have set: "set ?all = set ?m" by (metis same set_mset_mset)
  have entry: "queries_of fp events \<noteq> [] \<and> x = (Max (ev_latency ` set (queries_of fp events)),
      ev_database (hd (queries_of fp events)), ev_collection (hd (queries_of fp events)))" if "(fp, x) \<in> set ?all" for fp x
  proof -
    have "map_of (by_fingerprint events) fp = Some x"
      using that set by (intro map_of_is_SomeI by_fingerprint_distinct) simp
    then show ?thesis using by_fingerprint_entry [of events fp] by (cases "queries_of fp events") simp_all
  qed
  have shown: "set (slowest_queries W events) \<subseteq> set ?all"
    unfolding slowest_queries_def by (rule set_take_subset)
  have sorted: "sorted (map (\<lambda>entry. - int (fst (snd entry))) ?all)" by simp
  have left_out: "fp \<in> fst ` set (slowest_queries W events) \<or>
      length (slowest_queries W events) = 20 \<and> (\<forall>entry \<in> set (slowest_queries W events). ev_latency e \<le> fst (snd entry))"
    if "e \<in> set events" and "ev_fingerprint e = Some fp" for e fp
  proof -
    have mem: "e \<in> set (queries_of fp events)" using that by (simp add: queries_of_def)
    then obtain x where x: "(fp, x) \<in> set ?all" "fst x = Max (ev_latency ` set (queries_of fp events))"
      using by_fingerprint_entry [of events fp] set by (cases "queries_of fp events") (auto dest: map_of_SomeD)
    then have e: "ev_latency e \<le> fst x" using mem by simp
    show ?thesis
    proof (cases "(fp, x) \<in> set (take 20 ?all)")
      case True
      then show ?thesis unfolding slowest_queries_def by force
    next
      case False
      then have out: "(fp, x) \<in> set (drop 20 ?all)"
        using x(1) by (metis Un_iff append_take_drop_id set_append)
      then have "length (take 20 ?all) = 20" by (cases "20 \<le> length ?all") auto
      moreover have "ev_latency e \<le> fst (snd entry)" if "entry \<in> set (take 20 ?all)" for entry
        using sorted_take_drop [OF sorted that out] e by simp
      ultimately show ?thesis unfolding slowest_queries_def by blast
    qed
  qed
  have "distinct (map fst (slowest_queries W events))"
    unfolding slowest_queries_def using dist by (metis distinct_take take_map)
  then show ?thesis using entry shown left_out by fastforce
qed

end
