(* ===== verification/Mcp_Handler.thy ===== *)
theory Mcp_Handler
  imports Mcp_Demo Mcp_Tool_Definitions Connection_Pool
begin

text \<open>
  The JSON-RPC handler of the MCP server (\<open>src/mcp/handler.rs\<close>, \<open>types.rs\<close>) and its resources
  (\<open>resources.rs\<close>): which method is answered how, the record of the session, and that the
  interface is announced to the pool once. The calls that read the resources' data are
  parameters.
\<close>

subsection \<open>Requests and responses\<close>

record json_rpc_request =
  rq_jsonrpc :: string
  rq_method :: string
  rq_params :: "json option"
  rq_id :: "json option"

record json_rpc_error =
  je_code :: int
  je_message :: string
  je_data :: "json option"

record json_rpc_response =
  rs_jsonrpc :: string
  rs_result :: "json option"
  rs_error :: "json_rpc_error option"
  rs_id :: "json option"

definition response_success :: "json option \<Rightarrow> json \<Rightarrow> json_rpc_response" where
  "response_success rid result = \<lparr>rs_jsonrpc = ''2.0'', rs_result = Some result, rs_error = None, rs_id = rid\<rparr>"

definition response_error :: "json option \<Rightarrow> int \<Rightarrow> string \<Rightarrow> json_rpc_response" where
  "response_error rid code message =
     \<lparr>rs_jsonrpc = ''2.0'', rs_result = None,
      rs_error = Some \<lparr>je_code = code, je_message = message, je_data = None\<rparr>, rs_id = rid\<rparr>"

definition result_json :: "tool_result \<Rightarrow> json" where
  "result_json r =
     JObject
       [(''content'', JArray (map (\<lambda>(t, text). JObject [(''type'', JString t), (''text'', JString text)]) (tr_content r))),
        (''isError'', JBool (tr_is_error r))]"

subsection \<open>Resources\<close>

record resource_definition =
  rd_uri :: string
  rd_name :: string
  rd_description :: string
  rd_mime_type :: string

definition json_resource :: "string \<Rightarrow> string \<Rightarrow> string \<Rightarrow> resource_definition" where
  "json_resource uri name description =
     \<lparr>rd_uri = uri, rd_name = name, rd_description = description, rd_mime_type = ''application/json''\<rparr>"

definition resource_definitions :: "resource_definition list" where
  "resource_definitions =
     [json_resource ''mongocore://capabilities'' ''Server Capabilities''
        ''MongoDB server capabilities including version and Atlas feature availability'',
      json_resource ''mongocore://databases'' ''Databases'' ''List of all databases on the connected MongoDB deployment'',
      json_resource ''mongocore://collections/{database}'' ''Collections'' ''List of collections in a specific database'',
      json_resource ''mongocore://schema/{database}/{collection}'' ''Collection Schema''
        ''Inferred schema for a collection including field names, types, and frequency'']"

text \<open>
  The driver's calls: listing databases is that of the tools; an aggregation gives the
  documents of its stream or its first error, with the text of the error.
\<close>

record 'db resource_lib =
  rl_version :: string
  rl_aggregate :: "string \<Rightarrow> string \<Rightarrow> document list \<Rightarrow> 'db \<Rightarrow> (string + (string + document) list) \<times> 'db"

fun stream_documents :: "(string + document) list \<Rightarrow> string + document list" where
  "stream_documents [] = Inr []"
| "stream_documents (Inl e # _) = Inl (''Error reading document: '' @ e)"
| "stream_documents (Inr d # ds) = rbind (stream_documents ds) (\<lambda>docs. Inr (d # docs))"

definition schema_path :: "string \<Rightarrow> string + string \<times> string" where
  "schema_path path =
     (case split_char (CHR ''/'') path of
        [db, coll] \<Rightarrow>
          if db = [] \<or> coll = [] then Inl ''Database and collection names must not be empty''
          else Inr (db, coll)
      | _ \<Rightarrow> Inl ''Invalid schema URI format. Expected: mongocore://schema/{database}/{collection}'')"

text \<open>The sample size is a literal, an \<open>i32\<close>.\<close>

definition schema_sample :: "document list" where
  "schema_sample = [[(''$sample'', BDocument [(''size'', BInt32 100)])]]"

definition schema_text where
  "schema_text T db coll docs =
     map_option (\<lambda>fs. Inr (tl_pretty T (JObject (schema_json T db coll docs fs)))) (collect_all (tl_display T) docs [])"

definition read_schema_resource where
  "read_schema_resource T R path s =
     (case schema_path path of
        Inl e \<Rightarrow> Some (Inl e, s :: 'db)
      | Inr (db, coll) \<Rightarrow>
          (case rl_aggregate R db coll schema_sample s of
             (Inl e, s') \<Rightarrow> Some (Inl (''Failed to sample collection: '' @ e), s')
           | (Inr ds, s') \<Rightarrow>
               (case stream_documents ds of
                  Inl e \<Rightarrow> Some (Inl e, s')
                | Inr docs \<Rightarrow> map_option (\<lambda>r. (r, s')) (schema_text T db coll docs))))"

definition capabilities_json where
  "capabilities_json T R =
     (case tl_capabilities T of
        (server_version, with_vectors, with_search) \<Rightarrow>
          JObject
            [(''server_version'', JString server_version), (''atlas_vector_search'', JBool with_vectors),
             (''atlas_search'', JBool with_search), (''mongocore_version'', JString (rl_version R))])"

definition names_text where
  "names_text T failed r =
     (case r of Inl e \<Rightarrow> Inl (failed @ e) | Inr names \<Rightarrow> Inr (tl_pretty T (JArray (map JString names))))"

definition list_collections_of where
  "list_collections_of T db s =
     (case drv_list_collections (tl_driver T) db s of (r, s') \<Rightarrow> (map_err err_message r, s' :: 'db))"

definition collections_prefix :: string where "collections_prefix = ''mongocore://collections/''"
definition schema_prefix :: string where "schema_prefix = ''mongocore://schema/''"

text \<open>A schema resource may panic where the tool does.\<close>

definition read_resource where
  "read_resource T R uri s =
     (if uri = ''mongocore://capabilities'' then Some (Inr (tl_pretty T (capabilities_json T R)), s :: 'db)
      else if uri = ''mongocore://databases''
      then (case tl_list_databases T s of (r, s') \<Rightarrow> Some (names_text T ''Failed to list databases: '' r, s'))
      else if prefix collections_prefix uri
      then
        (let db = drop (length collections_prefix) uri in
         if db = [] then Some (Inl ''Missing database name in collections URI'', s)
         else
           (case list_collections_of T db s of
              (r, s') \<Rightarrow> Some (names_text T ''Failed to list collections: '' r, s')))
      else if prefix schema_prefix uri then read_schema_resource T R (drop (length schema_prefix) uri) s
      else Some (Inl (''Resource not found: '' @ uri), s))"

subsection \<open>The handler\<close>

record ('db, 'f, 't) handler_state =
  hd_server :: "('db, 'f, 't) mcp_state"
  hd_announced :: bool
  hd_pool :: connection_pool

record handler_config =
  hc_safety :: safety_config
  hc_is_stdio :: bool

definition handle_initialize where
  "handle_initialize R H rid =
     (let capabilities =
        [(''tools'', JObject [(''listChanged'', JBool False)]),
         (''resources'', JObject [(''subscribe'', JBool False), (''listChanged'', JBool False)])] @
        (if hc_is_stdio H then [(''prompts'', JObject [(''listChanged'', JBool False)])] else [])
      in response_success rid
        (JObject
          [(''protocolVersion'', JString ''2024-11-05''), (''capabilities'', JObject capabilities),
           (''serverInfo'', JObject [(''name'', JString ''mongocore''), (''version'', JString (rl_version R))])]))"

definition handle_tools_list where
  "handle_tools_list rid =
     response_success rid (JObject [(''tools'', JArray (map definition_json tool_definitions))])"

definition param_str :: "json option \<Rightarrow> string \<Rightarrow> string option" where
  "param_str params k = Option.bind params (\<lambda>p. json_str_field p k)"

text \<open>The call is recorded after its execution, unless its tool is one that explains.\<close>

definition record_call where
  "record_call T tool args r st =
     (if should_record tool
      then st\<lparr>ms_session := session_record tool args (build_context (to_text (tl_json T)) tool args) (\<not> tr_is_error r)
        (if tr_is_error r then (case tr_content r of [] \<Rightarrow> None | (_, text) # _ \<Rightarrow> Some text) else None)
        (word_of_nat (tl_clock T (ms_db st))) (ms_session st)\<rparr>
      else st)"

definition call_arguments :: "json option \<Rightarrow> json" where
  "call_arguments params =
     (case Option.bind params (\<lambda>p. json_get p ''arguments'') of Some a \<Rightarrow> a | None \<Rightarrow> JObject [])"

definition handle_tools_call where
  "handle_tools_call T H rid params st =
     (case param_str params ''name'' of
        None \<Rightarrow> Some (response_error rid (- 32602) ''Missing tool name in params'', st)
      | Some tool \<Rightarrow>
          (case check_tool_allowed (hc_safety H) tool of
             Inl why \<Rightarrow> Some (response_success rid (result_json (error_result why)), st)
           | Inr _ \<Rightarrow>
               map_option (\<lambda>(r, st'). (response_success rid (result_json r), record_call T tool (call_arguments params) r st'))
                 (execute_tool T (hc_safety H) tool (call_arguments params) st)))"

definition resource_json :: "resource_definition \<Rightarrow> json" where
  "resource_json r =
     JObject [(''uri'', JString (rd_uri r)), (''name'', JString (rd_name r)), (''description'', JString (rd_description r)),
       (''mimeType'', JString (rd_mime_type r))]"

definition handle_resources_list :: "json option \<Rightarrow> json_rpc_response" where
  "handle_resources_list rid =
     response_success rid (JObject [(''resources'', JArray (map resource_json resource_definitions))])"

definition contents_json :: "string \<Rightarrow> string \<Rightarrow> json" where
  "contents_json uri body =
     JObject [(''contents'', JArray [JObject [(''uri'', JString uri), (''mimeType'', JString ''application/json''),
       (''text'', JString body)]])]"

definition handle_resources_read where
  "handle_resources_read T R rid params st =
     (let uri = (case param_str params ''uri'' of Some u \<Rightarrow> u | None \<Rightarrow> ''unknown'') in
      map_option (\<lambda>(r, s').
          (case r of
             Inr body \<Rightarrow> response_success rid (contents_json uri body)
           | Inl e \<Rightarrow> response_error rid (- 32602) e, set_db s' st))
        (read_resource T R uri (ms_db st)))"

definition prompt_json :: "skill \<Rightarrow> json" where
  "prompt_json s =
     JObject [(''name'', JString (sk_name s)), (''description'', JString (sk_description s)),
       (''arguments'', JArray (map argument_json (sk_arguments s)))]"

definition handle_prompts_list where
  "handle_prompts_list T rid =
     response_success rid (JObject [(''prompts'', JArray (map prompt_json (skills_list None (tl_skills T))))])"

definition step_text :: "nat \<times> skill_step \<Rightarrow> string" where
  "step_text istep =
     (let start = ''**Step '' @ show_nat (fst istep + 1) @ '':**''; step = snd istep;
          what = (case ss_tool step of
                    Some t \<Rightarrow> '' [Tool: '' @ t @ '']''
                  | None \<Rightarrow> if ss_analysis step then '' [Analysis]'' else if ss_synthesis step then '' [Synthesis]'' else [])
      in start @ what @ '' '' @ ss_description step)"

definition prompt_text :: "skill \<Rightarrow> string" where
  "prompt_text s =
     ''I'' @ [CHR 0x27] @ ''ll guide you through: '' @ sk_description s @ [CHR 0x0A, CHR 0x0A] @
     join_lines (map step_text (List.enumerate 0 (sk_steps s))) @ [CHR 0x0A, CHR 0x0A] @ ''Starting now...''"

definition prompt_messages :: "skill \<Rightarrow> json" where
  "prompt_messages s =
     JObject [(''description'', JString (sk_description s)),
       (''messages'', JArray [JObject [(''role'', JString ''assistant''),
         (''content'', JObject [(''type'', JString ''text''), (''text'', JString (prompt_text s))])]])]"

definition handle_prompts_get where
  "handle_prompts_get T rid params =
     (case param_str params ''name'' of
        None \<Rightarrow> response_error rid (- 32602) ''Missing prompt name''
      | Some name \<Rightarrow>
          (case skills_get name (tl_skills T) of
             None \<Rightarrow> response_error rid (- 32602) (''Skill not found: '' @ name)
           | Some s \<Rightarrow> response_success rid (prompt_messages s)))"

text \<open>The interface is announced before the first request.\<close>

definition announce where
  "announce C st =
     (if hd_announced st then st
      else
        (case append_interface_metadata C ''mcp'' (hd_pool st) (ms_db (hd_server st)) of
           (pool, s) \<Rightarrow> st\<lparr>hd_pool := pool, hd_server := set_db s (hd_server st), hd_announced := True\<rparr>))"

definition handle_method where
  "handle_method T R H req st =
     (let rid = rq_id req; m = rq_method req; params = rq_params req in
      if m = ''initialize'' then Some (handle_initialize R H rid, st)
      else if m = ''tools/list'' then Some (handle_tools_list rid, st)
      else if m = ''tools/call'' then handle_tools_call T H rid params st
      else if m = ''resources/list'' then Some (handle_resources_list rid, st)
      else if m = ''resources/read'' then handle_resources_read T R rid params st
      else if m = ''prompts/list'' then Some (handle_prompts_list T rid, st)
      else if m = ''prompts/get'' then Some (handle_prompts_get T rid params, st)
      else Some (response_error rid (- 32601) ''Method not found'', st))"

definition handle_request where
  "handle_request T R C H req st =
     (let st1 = announce C st in
      map_option (\<lambda>(resp, srv). (resp, st1\<lparr>hd_server := srv\<rparr>)) (handle_method T R H req (hd_server st1)))"

subsection \<open>The session is only written by the handler\<close>

lemma ms_session_set_db [simp]: "ms_session (set_db s st) = ms_session st"
  by (simp add: set_db_def)

lemma ms_session_on_db [simp]: "ms_session (snd (on_db f st)) = ms_session st"
  by (simp add: on_db_def split: prod.split)

lemma ms_session_record_analytics [simp]: "ms_session (record_analytics T name args started r st) = ms_session st"
  by (simp add: record_analytics_def split: option.split)

lemma ms_session_tools [simp]:
  "ms_session (snd (execute_cancel_ingest T args st)) = ms_session st"
  "ms_session (snd (execute_watch_directory T args st)) = ms_session st"
  "ms_session (snd (execute_stop_watch T args st)) = ms_session st"
  "ms_session (snd (execute_ask T args st)) = ms_session st"
  "ms_session (snd (execute_explain_query T args st)) = ms_session st"
  by (auto simp: execute_cancel_ingest_def execute_watch_directory_def execute_stop_watch_def execute_ask_def
      execute_explain_query_def split: option.split sum.split prod.split)

lemma ms_session_ingest:
  assumes "execute_ingest T args st = Some (r, st')"
  shows "ms_session st' = ms_session st"
proof (cases "tl_ingestion T")
  case (Some SE)
  obtain S E where SE: "SE = (S, E)" by fastforce
  show ?thesis
  proof (cases "ingest_options_of args")
    case (Inr options)
    then obtain res e' where "ingest S E options (tl_fresh_id T (ms_db st)) (ms_engine st) = Some (res, e')"
      using assms Some SE by (auto simp: execute_ingest_def)
    then show ?thesis
      using assms Some SE Inr by (cases res) (auto simp: execute_ingest_def)
  qed (use assms Some SE in \<open>simp add: execute_ingest_def\<close>)
qed (use assms in \<open>simp add: execute_ingest_def\<close>)

lemma ms_session_snd: "p = (r, st') \<Longrightarrow> ms_session (snd p) = ms_session st \<Longrightarrow> ms_session st' = ms_session st"
  by simp

lemmas ms_session_pairs = ms_session_tools [THEN ms_session_snd [rotated]]

lemma server_tool_session:
  assumes "server_tool T name args st = Some (r, st')"
  shows "ms_session st' = ms_session st"
  using assms unfolding server_tool_def
  by (auto split: if_split_asm dest: ms_session_ingest ms_session_pairs)

lemma simple_tool_session:
  assumes "simple_tool T safety name args st = Some (r, st')"
  shows "ms_session st' = ms_session st"
proof (cases "data_tool T safety name args")
  case (Some f)
  then have "on_db f st = (r, st')" using assms by (simp add: simple_tool_def)
  then show ?thesis using ms_session_on_db [of f st] by simp
next
  case None
  then show ?thesis
    using assms server_tool_session [of T name args st r st']
    by (cases "reading_tool T name args st") (simp_all add: simple_tool_def)
qed

lemma execute_tool_session:
  "execute_tool T safety name args st = Some (r, st') \<Longrightarrow> ms_session st' = ms_session st"
  by (rule execute_tool_same [where ok = "\<lambda>_ _. True" and f = ms_session]) (auto dest: simple_tool_session)

lemma session_ok_call:
  assumes "session_ok (ms_session st)"
  shows "session_ok (ms_session (record_call T tool args r st))"
  using assms by (auto simp: record_call_def intro!: session_ok_record)

lemma tools_call_session:
  assumes "handle_tools_call T H rid params st = Some (resp, st')" and "session_ok (ms_session st)"
  shows "session_ok (ms_session st')"
proof (cases "param_str params ''name''")
  case (Some tool)
  show ?thesis
  proof (cases "check_tool_allowed (hc_safety H) tool")
    case (Inr u)
    then obtain r st1 where "execute_tool T (hc_safety H) tool (call_arguments params) st = Some (r, st1)"
      and st': "st' = record_call T tool (call_arguments params) r st1"
      using assms(1) Some by (auto simp: handle_tools_call_def)
    then have "session_ok (ms_session st1)" using execute_tool_session assms(2) by metis
    then show ?thesis using session_ok_call st' by simp
  qed (use assms Some in \<open>simp add: handle_tools_call_def\<close>)
qed (use assms in \<open>simp add: handle_tools_call_def\<close>)

lemma handle_method_session:
  assumes "handle_method T R H req st = Some (resp, st')" and "session_ok (ms_session st)"
  shows "session_ok (ms_session st')"
  using assms tools_call_session [of T H "rq_id req" "rq_params req" st resp st']
  by (auto simp: handle_method_def handle_resources_read_def Let_def split: if_split_asm)

lemma announce_session [simp]: "ms_session (hd_server (announce C st)) = ms_session (hd_server st)"
  by (simp add: announce_def split: prod.split)

subsection \<open>What the handler guarantees\<close>

text \<open>The states a handler gets to from its first, by answering requests.\<close>

inductive handler_reachable ::
  "('db, 's, 'f, 't) tool_lib \<Rightarrow> 'db resource_lib \<Rightarrow> 'db client_lib \<Rightarrow> handler_config \<Rightarrow>
   ('db, 'f, 't) handler_state \<Rightarrow> bool" for T R C H where
  handler_new: "ms_session (hd_server st) = [] \<Longrightarrow> \<not> hd_announced st \<Longrightarrow> handler_reachable T R C H st"
| handler_step:
    "handler_reachable T R C H st \<Longrightarrow> handle_request T R C H (req :: json_rpc_request) st = Some (resp, st') \<Longrightarrow> handler_reachable T R C H st'"

text \<open>
  The record of the session. In every state of a handler the records of its session carry
  their positions as indices, none of them is of a tool that explains the session, and one of
  a success has no message; the record that is looked up at an offset from the end is the
  one with that index.
\<close>

theorem session_is_in_order:
  assumes "handler_reachable T R C H st"
  shows "session_ok (ms_session (hd_server st)) \<and>
    (\<forall>offset r. get_last offset (ms_session (hd_server st)) = Some r \<longrightarrow>
       or_index r = length (ms_session (hd_server st)) - 1 - offset)"
proof -
  have "session_ok (ms_session (hd_server st))"
    using assms
  proof induction
    case (handler_step st req resp st')
    then obtain srv where "handle_method T R H req (hd_server (announce C st)) = Some (resp, srv)"
      and "st' = (announce C st)\<lparr>hd_server := srv\<rparr>"
      by (auto simp: handle_request_def Let_def)
    then show ?case using handle_method_session handler_step.IH by fastforce
  qed (simp add: session_ok_def)
  then show ?thesis using get_last_index by blast
qed

text \<open>An answer to the id, of a known method.\<close>

definition answers_id :: "json option \<Rightarrow> json_rpc_response \<Rightarrow> bool" where
  "answers_id rid resp \<longleftrightarrow>
     rs_id resp = rid \<and> rs_jsonrpc resp = ''2.0'' \<and> (rs_result resp = None \<longleftrightarrow> rs_error resp \<noteq> None)"

definition method_known :: "json_rpc_response \<Rightarrow> bool" where
  "method_known resp \<longleftrightarrow> map_option je_code (rs_error resp) \<noteq> Some (- 32601)"

lemma answers_simps [simp]:
  "answers_id rid (response_success rid v)" "method_known (response_success rid v)"
  "answers_id rid (response_error rid code m)" "method_known (response_error rid code m) \<longleftrightarrow> code \<noteq> - 32601"
  by (simp_all add: answers_id_def method_known_def response_success_def response_error_def)

lemma tools_call_answers:
  "handle_tools_call T H rid params st = Some (resp, st') \<Longrightarrow> answers_id rid resp \<and> method_known resp"
  by (auto simp: handle_tools_call_def split: option.splits sum.splits)

lemma resources_read_answers:
  assumes "handle_resources_read T R rid params st = Some (resp, st')"
  shows "answers_id rid resp \<and> method_known resp"
proof -
  let ?uri = "case param_str params ''uri'' of Some u \<Rightarrow> u | None \<Rightarrow> ''unknown''"
  obtain r s where "read_resource T R ?uri (ms_db st) = Some (r, s)"
    using assms by (auto simp: handle_resources_read_def Let_def)
  then show ?thesis using assms by (cases r) (auto simp: handle_resources_read_def Let_def)
qed

lemma prompts_get_answers: "answers_id rid (handle_prompts_get T rid params) \<and> method_known (handle_prompts_get T rid params)"
  by (simp add: handle_prompts_get_def split: option.split)

lemma method_answers:
  assumes "handle_method T R H req st = Some (resp, st')"
  shows "answers_id (rq_id req) resp \<and>
    (rq_method req \<in> {''initialize'', ''tools/list'', ''tools/call'', ''resources/list'', ''resources/read'',
        ''prompts/list'', ''prompts/get''} \<longleftrightarrow> method_known resp)"
  using assms tools_call_answers [of T H "rq_id req" "rq_params req" st resp st']
    resources_read_answers [of T R "rq_id req" "rq_params req" st resp st'] prompts_get_answers [of "rq_id req" T "rq_params req"]
  by (auto simp: handle_method_def Let_def handle_initialize_def handle_tools_list_def handle_resources_list_def
      handle_prompts_list_def split: if_split_asm)

text \<open>
  Every response answers its request: it carries the request's id, the version of the
  protocol, and either a result or an error. It is an error, with the code of an unknown
  method, if and only if the method is unknown or the parameters of the call are wrong.
\<close>

theorem response_answers_request:
  assumes "handle_request T R C H req st = Some (resp, st')"
  shows "rs_id resp = rq_id req \<and> rs_jsonrpc resp = ''2.0'' \<and> (rs_result resp = None \<longleftrightarrow> rs_error resp \<noteq> None) \<and>
    (rq_method req \<notin> {''initialize'', ''tools/list'', ''tools/call'', ''resources/list'', ''resources/read'',
        ''prompts/list'', ''prompts/get''} \<longleftrightarrow>
      map_option je_code (rs_error resp) = Some (- 32601))"
proof -
  obtain srv where "handle_method T R H req (hd_server (announce C st)) = Some (resp, srv)"
    using assms by (auto simp: handle_request_def Let_def)
  from method_answers [OF this] show ?thesis
    unfolding answers_id_def method_known_def by blast
qed

text \<open>A call that the safety rules block is answered without doing anything.\<close>

lemma blocked_call:
  assumes "param_str params ''name'' = Some tool" and "check_tool_allowed (hc_safety H) tool = Inl why"
  shows "handle_tools_call T H rid params st = Some (response_success rid (result_json (error_result why)), st)"
  using assms by (simp add: handle_tools_call_def)

subsection \<open>A concrete handler\<close>

definition demo_resources :: "document list resource_lib" where
  "demo_resources = \<lparr>rl_version = ''0.1'', rl_aggregate = (\<lambda>_ _ _ s. (Inr (map Inr s), s))\<rparr>"

definition demo_client :: "document list client_lib" where
  "demo_client =
     \<lparr>cl_parse = (\<lambda>_. Inl (sample_error ''no address'')), cl_with_options = (\<lambda>_ s. (Inr (), s)),
      cl_append_metadata = (\<lambda>_ s. (Inr (), s)), cl_version = ''0.1''\<rparr>"

definition demo_config :: handler_config where
  "demo_config = \<lparr>hc_safety = default_safety, hc_is_stdio = True\<rparr>"

definition demo_handler :: "(document list, unit, unit) handler_state" where
  "demo_handler =
     \<lparr>hd_server = demo_server [], hd_announced = False,
      hd_pool = \<lparr>cp_capabilities = \<lparr>ca_server_version = ''8.0'', ca_atlas_vector_search = False, ca_atlas_search = False\<rparr>,
        cp_host = ''h'', cp_interfaces = {}\<rparr>\<rparr>"

definition demo_call :: json_rpc_request where
  "demo_call =
     \<lparr>rq_jsonrpc = ''2.0'', rq_method = ''tools/call'',
      rq_params = Some (JObject [(''name'', JString ''nothing'')]), rq_id = Some (JString ''1'')\<rparr>"

lemma demo_call_result:
  "\<exists>resp st'. handle_request demo_lib demo_resources demo_client demo_config demo_call demo_handler = Some (resp, st') \<and>
     map or_tool_name (ms_session (hd_server st')) = [''nothing'']"
  by (simp add: handle_request_def handle_method_def handle_tools_call_def demo_call_def param_str_def json_str_field_def
      demo_config_def default_safety_def check_tool_allowed_def execute_tool.simps finish_tool_def simple_tool_def
      data_tool_def reading_tool_def server_tool_def record_call_def should_record_def EXCLUDED_TOOLS_def
      session_record_def announce_def demo_handler_def demo_server_def append_interface_metadata_def demo_client_def
      set_db_def record_analytics_def tool_name_to_operation_kind_def Let_def)

theorem session_is_in_order_witness:
  "\<exists>resp st. handle_request demo_lib demo_resources demo_client demo_config demo_call demo_handler = Some (resp, st) \<and>
     map or_tool_name (ms_session (hd_server st)) = [''nothing''] \<and> session_ok (ms_session (hd_server st))"
proof -
  obtain resp st' where st': "handle_request demo_lib demo_resources demo_client demo_config demo_call demo_handler = Some (resp, st')"
    "map or_tool_name (ms_session (hd_server st')) = [''nothing'']"
    using demo_call_result by (elim exE conjE) (rule that)
  have "handler_reachable demo_lib demo_resources demo_client demo_config demo_handler"
    by (rule handler_new) (simp_all add: demo_handler_def demo_server_def)
  from session_is_in_order [OF handler_step [OF this st'(1)]] st' show ?thesis by simp
qed

theorem response_answers_request_witness:
  "\<exists>resp st'. handle_request demo_lib demo_resources demo_client demo_config demo_call demo_handler = Some (resp, st') \<and>
     rs_id resp = Some (JString ''1'')"
proof -
  obtain resp st' where st': "handle_request demo_lib demo_resources demo_client demo_config demo_call demo_handler = Some (resp, st')"
    using demo_call_result by (elim exE conjE) (rule that)
  from response_answers_request [OF this] st' show ?thesis by (auto simp: demo_call_def)
qed

end
