(* ===== verification/Startup.thy ===== *)
theory Startup
  imports Config Connection Grpc_Calls Mcp_Handler Providers
begin

text \<open>
  How the sidecar is put together and how it ends (\<open>src/main.rs\<close>, \<open>src/grpc/server.rs\<close>,
  \<open>src/transport/mod.rs\<close>, \<open>src/mcp/server.rs\<close>): the sockets it binds, the servers it starts with
  which parts of the configuration, the branches \<open>main\<close> waits for, and what it removes at the
  end. The file system and the binding of sockets are parameters; log messages and the banner are
  left out, and so is the tracing exporter of the optional feature.
\<close>

record 'w os_lib =
  os_exists :: "string \<Rightarrow> 'w \<Rightarrow> bool"
  os_remove :: "string \<Rightarrow> 'w \<Rightarrow> (string + unit) \<times> 'w"
  os_bind :: "string \<Rightarrow> 'w \<Rightarrow> (string + unit) \<times> 'w"
  os_set_mode :: "string \<Rightarrow> u32 \<Rightarrow> 'w \<Rightarrow> (string + unit) \<times> 'w"

subsection \<open>The gRPC server\<close>

datatype grpc_listener = GrpcTcp u16 | GrpcUds string

text \<open>Binding the socket: a stale file is removed, whether that works or not.\<close>

definition bind_grpc_socket :: "'w os_lib \<Rightarrow> string \<Rightarrow> u32 \<Rightarrow> 'w \<Rightarrow> bool \<times> 'w" where
  "bind_grpc_socket OS path mode w =
     (let w1 = (if os_exists OS path w then snd (os_remove OS path w) else w) in
      case os_bind OS path w1 of
        (Inl e, w2) \<Rightarrow> (False, w2)
      | (Inr _, w2) \<Rightarrow> (True, snd (os_set_mode OS path mode w2)))"

definition grpc_listeners :: "'w os_lib \<Rightarrow> mongocore_config \<Rightarrow> 'w \<Rightarrow> grpc_listener list \<times> 'w" where
  "grpc_listeners OS cfg w =
     (let enable_tcp = cfg_transport cfg \<noteq> ''uds'';
          enable_uds = cfg_transport cfg \<noteq> ''tcp'';
          tcp = GrpcTcp (cfg_grpc_port cfg);
          (bound, w') = (if enable_uds then bind_grpc_socket OS (cfg_socket_path cfg) (cfg_socket_permissions cfg) w else (False, w)) in
      (if bound then (if enable_tcp then [tcp, GrpcUds (cfg_socket_path cfg)] else [GrpcUds (cfg_socket_path cfg)])
       else [tcp], w'))"

datatype compression = Gzip | Zstd

definition grpc_compression :: "string \<Rightarrow> compression option \<times> compression set" where
  "grpc_compression s =
     (if s = ''gzip'' then (Some Gzip, {Gzip, Zstd})
      else if s = ''zstd'' then (Some Zstd, {Gzip, Zstd})
      else (None, {Gzip, Zstd}))"

text \<open>
  The service that is started: without a registry of tenants and without a quota, whatever the
  configuration says about tenants.
\<close>

definition started_service where
  "started_service pool analytics engine =
     \<lparr>sv_engine = engine, sv_tasks = [], sv_watches = [], sv_transactions = Map.empty, sv_analytics = analytics,
      sv_quota = None, sv_pool = pool, sv_languages = {}\<rparr>"

subsection \<open>The binary transport\<close>

record connection_limits =
  cl_max_frame_size :: u32
  cl_max_concurrent :: u32

definition connection_limits_of :: "mongocore_config \<Rightarrow> connection_limits" where
  "connection_limits_of cfg =
     \<lparr>cl_max_frame_size = ucast (cfg_binary_max_frame_size cfg), cl_max_concurrent = ucast (cfg_binary_max_concurrent cfg)\<rparr>"

definition server_of :: "mongocore_config \<Rightarrow> 'db server \<Rightarrow> 'db server" where
  "server_of cfg S =
     S\<lparr>s_max_frame_size := cl_max_frame_size (connection_limits_of cfg),
       s_max_concurrent := cl_max_concurrent (connection_limits_of cfg)\<rparr>"

definition bind_binary_socket :: "'w os_lib \<Rightarrow> mongocore_config \<Rightarrow> 'w \<Rightarrow> bool \<times> 'w" where
  "bind_binary_socket OS cfg w =
     (let path = cfg_binary_socket_path cfg;
          (removed, w1) = (if os_exists OS path w then os_remove OS path w else (Inr (), w)) in
      case removed of
        Inl e \<Rightarrow> (False, w1)
      | Inr _ \<Rightarrow>
          (case os_bind OS path w1 of
             (Inl e, w2) \<Rightarrow> (False, w2)
           | (Inr _, w2) \<Rightarrow> (True, snd (os_set_mode OS path (cfg_binary_socket_permissions cfg) w2))))"

text \<open>
  The accept loop sees clients, failures to accept, and changes of the shutdown signal (without
  a value when its sender is gone). It gives the clients it has spawned a handler for, and
  whether it has ended.
\<close>

datatype 'c accept_event = Client 'c | AcceptFailed | SignalChanged "bool option"

fun accept_loop :: "'c accept_event list \<Rightarrow> 'c list \<times> bool" where
  "accept_loop [] = ([], False)"
| "accept_loop (Client c # es) = (case accept_loop es of (cs, ended) \<Rightarrow> (c # cs, ended))"
| "accept_loop (AcceptFailed # es) = accept_loop es"
| "accept_loop (SignalChanged v # es) = (if v = Some True then ([], True) else accept_loop es)"

subsection \<open>The parts that main makes\<close>

definition main_analytics :: "mongocore_config \<Rightarrow> collector option" where
  "main_analytics cfg =
     (if cfg_analytics_enabled cfg then Some (collector_new (unat (cfg_analytics_buffer_size cfg))) else None)"

definition parse_conflict_strategy :: "string option \<Rightarrow> conflict_strategy" where
  "parse_conflict_strategy s =
     (if s = Some ''overwrite'' then COverwrite else if s = Some ''merge'' then CMerge else CSkip)"

text \<open>The watch that is started by itself, when its three places are given.\<close>

definition configured_watch :: "ingestion_config \<Rightarrow> watch_config option" where
  "configured_watch ic =
     (case ic_watch ic of
        None \<Rightarrow> None
      | Some w \<Rightarrow>
          if Config.or_default (wtf_enabled w) False then
            (case (wtf_path w, wtf_database w, wtf_collection w) of
               (Some p, Some db, Some coll) \<Rightarrow>
                 Some \<lparr>wc_path = p, wc_file_pattern = Config.or_default (wtf_file_pattern w) ''*.csv'', wc_database = db,
                   wc_collection = coll, wc_conflict_strategy = parse_conflict_strategy (wtf_conflict_strategy w),
                   wc_dedup_key = [], wc_debounce_ms = unat (ic_watch_debounce_ms ic)\<rparr>
             | _ \<Rightarrow> None)
          else None)"

text \<open>Ingestion: the engine and the watches, nothing when it is disabled.\<close>

definition main_ingestion ::
  "watch_lib \<Rightarrow> string \<Rightarrow> mongocore_config \<Rightarrow> 'db \<Rightarrow> ('db ingest_state \<times> watch_handle list) option" where
  "main_ingestion W watch_id cfg db =
     (if ic_enabled (cfg_ingestion cfg) then
        Some (\<lparr>is_world = db, is_jobs = [], is_channels = []\<rparr>,
          (case configured_watch (cfg_ingestion cfg) of
             None \<Rightarrow> []
           | Some wc \<Rightarrow> snd (start_watch W wc watch_id [])))
      else None)"

definition gateway_of :: "llm_gateway_config \<Rightarrow> gateway" where
  "gateway_of gw =
     \<lparr>gp_base_url = gw_base_url gw, gp_api_key = gw_api_key gw, gp_auth_header = gw_auth_header gw,
      gp_model = gw_model gw, gp_provider_type = gw_provider_type gw\<rparr>"

datatype main_provider = Gateway gateway | HostSampling

definition main_provider :: "bool \<Rightarrow> mongocore_config \<Rightarrow> main_provider option" where
  "main_provider stdio cfg =
     (case cfg_llm_gateway cfg of
        Some gw \<Rightarrow> Some (Gateway (gateway_of gw))
      | None \<Rightarrow> if stdio then Some HostSampling else None)"

text \<open>The handler of the tools is made with the default safety rules, over HTTP and over stdio.\<close>

definition main_handler :: "bool \<Rightarrow> handler_config" where
  "main_handler stdio = \<lparr>hc_safety = default_safety, hc_is_stdio = stdio\<rparr>"

datatype main_server = StdioServer | WebUiServer u16 | GrpcServer | McpServer u16 | BinaryServer

definition main_servers :: "bool \<Rightarrow> mongocore_config \<Rightarrow> main_server list" where
  "main_servers stdio cfg =
     (if stdio then [StdioServer]
      else
        (if cfg_web_ui_enabled cfg then [WebUiServer (cfg_web_ui_port cfg)] else []) @
        [GrpcServer, McpServer (cfg_mcp_port cfg)] @
        (if cfg_binary_transport_enabled cfg then [BinaryServer] else []))"

subsection \<open>Waiting and ending\<close>

text \<open>
  \<open>main\<close> waits until one of four branches is ready. The branch of the binary transport waits for its
  task when there is a handle, and is ready at once when there is none.
\<close>

record main_tasks =
  mt_grpc_ended :: bool
  mt_mcp_ended :: bool
  mt_binary_ended :: bool
  mt_ctrl_c :: bool

datatype main_branch = GrpcEnded | McpEnded | BinaryEnded | CtrlC

definition ready_branches :: "mongocore_config \<Rightarrow> main_tasks \<Rightarrow> main_branch set" where
  "ready_branches cfg t =
     (if mt_grpc_ended t then {GrpcEnded} else {}) \<union>
     (if mt_mcp_ended t then {McpEnded} else {}) \<union>
     (if cfg_binary_transport_enabled cfg then (if mt_binary_ended t then {BinaryEnded} else {}) else {BinaryEnded}) \<union>
     (if mt_ctrl_c t then {CtrlC} else {})"

text \<open>The tasks as they follow each other: main goes on at the first state in which a branch is ready.\<close>

fun main_waits :: "mongocore_config \<Rightarrow> main_tasks list \<Rightarrow> (nat \<times> main_branch set) option" where
  "main_waits cfg [] = None"
| "main_waits cfg (t # ts) =
     (if ready_branches cfg t \<noteq> {} then Some (0, ready_branches cfg t)
      else map_option (apfst Suc) (main_waits cfg ts))"

text \<open>Only the branch of the interrupt tells the connections of the binary transport to end.\<close>

definition signals_shutdown :: "mongocore_config \<Rightarrow> main_branch \<Rightarrow> bool" where
  "signals_shutdown cfg b \<longleftrightarrow> b = CtrlC \<and> cfg_binary_transport_enabled cfg"

definition remove_socket :: "'w os_lib \<Rightarrow> string \<Rightarrow> 'w \<Rightarrow> 'w" where
  "remove_socket OS path w = (if os_exists OS path w then snd (os_remove OS path w) else w)"

definition main_cleanup :: "'w os_lib \<Rightarrow> mongocore_config \<Rightarrow> 'w \<Rightarrow> 'w" where
  "main_cleanup OS cfg w =
     (let w1 = (if cfg_transport cfg \<noteq> ''tcp'' then remove_socket OS (cfg_socket_path cfg) w else w) in
      if cfg_binary_transport_enabled cfg then remove_socket OS (cfg_binary_socket_path cfg) w1 else w1)"

text \<open>\<open>main\<close> as a whole, up to its waiting: its exit with a failure, or the servers it runs.\<close>

definition main_start ::
  "config_lib \<Rightarrow> environment \<Rightarrow> 'db client_lib \<Rightarrow> 'db driver \<Rightarrow> cli_args \<Rightarrow> 'db \<Rightarrow>
   (string + mongocore_config \<times> connection_pool \<times> main_server list) \<times> 'db" where
  "main_start L env C D cli db =
     (case config_load L env cli of
        Inl e \<Rightarrow> (Inl ''Failed to load configuration'', db)
      | Inr cfg \<Rightarrow>
          (case connect C D (cfg_connection_uri cfg) db of
             (Inl e, db') \<Rightarrow> (Inl ''Failed to connect to MongoDB'', db')
           | (Inr pool, db') \<Rightarrow> (Inr (cfg, pool, main_servers (cli_stdio cli) cfg), db')))"

subsection \<open>What main waits for\<close>

lemma ready_none:
  "ready_branches cfg t = {} \<longleftrightarrow>
     cfg_binary_transport_enabled cfg \<and> \<not> mt_grpc_ended t \<and> \<not> mt_mcp_ended t \<and> \<not> mt_binary_ended t \<and> \<not> mt_ctrl_c t"
  by (auto simp: ready_branches_def)

lemma main_waits_None: "main_waits cfg ts = None \<longleftrightarrow> (\<forall>t \<in> set ts. ready_branches cfg t = {})"
  by (induction ts) auto


definition quiet_tasks :: main_tasks where
  "quiet_tasks = \<lparr>mt_grpc_ended = False, mt_mcp_ended = False, mt_binary_ended = False, mt_ctrl_c = False\<rparr>"


subsection \<open>Listeners, limits and tenants\<close>

text \<open>
  The gRPC server always listens somewhere: on TCP unless only the socket is asked for, but
  also then when the socket cannot be bound; on the socket when it is asked for and bound.
\<close>

theorem grpc_always_listens:
  "fst (grpc_listeners OS cfg w) \<noteq> [] \<and>
   (GrpcTcp port \<in> set (fst (grpc_listeners OS cfg w)) \<longleftrightarrow>
      port = cfg_grpc_port cfg \<and>
      (cfg_transport cfg \<noteq> ''uds'' \<or> \<not> fst (bind_grpc_socket OS (cfg_socket_path cfg) (cfg_socket_permissions cfg) w))) \<and>
   (GrpcUds path \<in> set (fst (grpc_listeners OS cfg w)) \<longleftrightarrow>
      path = cfg_socket_path cfg \<and> cfg_transport cfg \<noteq> ''tcp'' \<and>
      fst (bind_grpc_socket OS (cfg_socket_path cfg) (cfg_socket_permissions cfg) w))"
  by (auto simp: grpc_listeners_def Let_def split: prod.split)

lemma read_frame_limit:
  "read_frame m s = (Inr f, s') \<Longrightarrow>
   msg_len (header f) \<le> m \<and> (payload_length (header f) = 0 \<longrightarrow> envelope f = [] \<and> raw_docs f = [])"
  by (auto simp: read_frame_def split_payload_def Let_def not_less split: prod.splits sum.splits if_splits)

text \<open>
  The limit on the size of a frame is the configured one modulo \<open>2 ^ 32\<close>: with four
  gibibytes, no frame with a content is ever read.
\<close>

theorem frame_limit_wraps:
  assumes "read_frame (cl_max_frame_size (connection_limits_of cfg)) s = (Inr f, s')"
  shows "unat (msg_len (header f)) \<le> unat (cfg_binary_max_frame_size cfg) mod 2 ^ 32 \<and>
    (cfg_binary_max_frame_size cfg = 2 ^ 32 \<longrightarrow> envelope f = [] \<and> raw_docs f = [])"
proof -
  have "unat (cl_max_frame_size (connection_limits_of cfg)) = unat (cfg_binary_max_frame_size cfg) mod 2 ^ 32"
    by (simp add: connection_limits_of_def unsigned_ucast_eq take_bit_eq_mod)
  then have le: "unat (msg_len (header f)) \<le> unat (cfg_binary_max_frame_size cfg) mod 2 ^ 32"
    using read_frame_limit [OF assms] by (metis word_le_nat_alt)
  moreover have "payload_length (header f) = 0" if "cfg_binary_max_frame_size cfg = 2 ^ 32"
    using le that by (simp add: payload_length_def)
  ultimately show ?thesis using read_frame_limit [OF assms] by blast
qed

text \<open>
  Whatever pipelines a started service has run, a tenant is never refused: the limits of the
  configured tenants have no effect.
\<close>

theorem tenants_are_never_limited:
  "fst (check_tenant_quota G meta (snd (run_scheduled G ops order (started_service pool analytics engine)))) = Inr ()"
  using run_scheduled_quota [of G ops order "started_service pool analytics engine"]
  by (simp add: check_tenant_quota_def started_service_def)

end
