(* ===== verification/Mcp_Read_Only.thy ===== *)
theory Mcp_Read_Only
  imports Mcp_Demo
begin

text \<open>
  What the read-only mode of the MCP server promises, and what it does not: the calls that it
  lets through leave the data alone, if they are not one of those that write without being
  on its lists, namely ingestion, storing with embeddings, cancelling of a job and an
  aggregation with a stage that writes. Pipelines, which may be nested, are included.
\<close>

subsection \<open>What the driver promises\<close>

definition WRITING_STAGES :: "string list" where
  "WRITING_STAGES = [''$out'', ''$merge'']"

definition writes_nothing :: "document list \<Rightarrow> bool" where
  "writes_nothing pipeline \<longleftrightarrow> (\<forall>stage \<in> set pipeline. \<forall>kv \<in> set stage. fst kv \<notin> set WRITING_STAGES)"

definition mql_writes_nothing :: "compiled_mql \<Rightarrow> bool" where
  "mql_writes_nothing mql = (case mql of MqlAggregate pipeline \<Rightarrow> writes_nothing pipeline | _ \<Rightarrow> True)"

text \<open>
  Reading calls keep what is seen of the database, the translator only writes its caches
  and gives pipelines that write nothing, as its validation asks for.
\<close>

definition driver_reads :: "'db driver \<Rightarrow> ('db \<Rightarrow> 'v) \<Rightarrow> bool" where
  "driver_reads D view \<longleftrightarrow>
     (\<forall>db coll f opts n s. view (snd (drv_find D db coll f opts n s)) = view s) \<and>
     (\<forall>db coll f n s. view (snd (drv_find_one D db coll f n s)) = view s) \<and>
     (\<forall>raw db coll p n s. writes_nothing p \<longrightarrow> view (snd (drv_aggregate D raw db coll p n s)) = view s) \<and>
     (\<forall>db s. view (snd (drv_list_collections D db s)) = view s)"

definition translator_reads where
  "translator_reads T view \<longleftrightarrow>
     (\<forall>translate. tl_translate T = Some translate \<longrightarrow>
        (\<forall>question db coll samples t s r t' s'. translate question db coll samples t s = (r, t', s') \<longrightarrow>
           view s' = view s \<and> (\<forall>c. r = Inr c \<longrightarrow> mql_writes_nothing (cq_mql c))))"

definition library_reads where
  "library_reads T view \<longleftrightarrow>
     driver_reads (tl_driver T) view \<and> translator_reads T view \<and>
     (\<forall>s. view (snd (tl_list_databases T s)) = view s) \<and>
     (\<forall>db coll p s. view (snd (tl_vector_search T db coll p s)) = view s)"

subsection \<open>Calls that keep the data\<close>

definition keeps :: "('db \<Rightarrow> 'v) \<Rightarrow> ('db \<Rightarrow> 'a \<times> 'db) \<Rightarrow> bool" where
  "keeps view f \<longleftrightarrow> (\<forall>s. view (snd (f s)) = view s)"

lemma snd_timed_call: "snd (timed_call m r) = snd r"
  by (cases "(m, r)" rule: timed_call.cases) auto

lemma snd_inside: "snd (inside f r) = snd r"
  by (cases "(f, r)" rule: inside.cases) auto

lemma snd_answer: "snd (answer tool ok r) = snd r"
  by (simp add: answer_def split: prod.split sum.split)

named_theorems keep_rules \<open>what a call keeps\<close>

lemma keeps_with_args [keep_rules]: "(\<And>a. r = Inr a \<Longrightarrow> keeps view (f a)) \<Longrightarrow> keeps view (with_args r f)"
  by (simp add: keeps_def with_args_def split: sum.split)

lemma keeps_answer [keep_rules]: "keeps view f \<Longrightarrow> keeps view (\<lambda>s. answer tool ok (f s))"
  by (simp add: keeps_def snd_answer)

lemma keeps_find [keep_rules]: "driver_reads D view \<Longrightarrow> keeps view (op_find B D db coll f opts)"
  by (simp add: keeps_def op_find_def driver_reads_def snd_timed_call snd_inside)

lemma keeps_find_one [keep_rules]: "driver_reads D view \<Longrightarrow> keeps view (op_find_one D db coll f)"
  by (simp add: keeps_def op_find_one_def driver_reads_def snd_timed_call snd_inside)

lemma keeps_aggregate [keep_rules]:
  "driver_reads D view \<Longrightarrow> writes_nothing p \<Longrightarrow> keeps view (op_aggregate B D db coll p)"
  by (simp add: keeps_def op_aggregate_def driver_reads_def snd_timed_call snd_inside)

lemma sample_writes_nothing: "writes_nothing (sample_pipeline args)"
  by (simp add: sample_pipeline_def writes_nothing_def WRITING_STAGES_def)

text \<open>An aggregation whose argument has no stage that writes.\<close>

definition aggregate_args_write_nothing :: "json_lib \<Rightarrow> json \<Rightarrow> bool" where
  "aggregate_args_write_nothing J args \<longleftrightarrow>
     (case Mcp_Tools.required args ''pipeline'' (json_to_documents J) of Inl _ \<Rightarrow> True | Inr p \<Rightarrow> writes_nothing p)"

lemma keeps_execute_find: "driver_reads (tl_driver T) view \<Longrightarrow> keeps view (execute_find T args)"
  by (auto simp: execute_find_def intro!: keep_rules)

lemma keeps_execute_find_one: "driver_reads (tl_driver T) view \<Longrightarrow> keeps view (execute_find_one T args)"
  by (auto simp: execute_find_one_def intro!: keep_rules)

lemma keeps_execute_aggregate:
  assumes "driver_reads (tl_driver T) view" and "aggregate_args_write_nothing (tl_json T) args"
  shows "keeps view (execute_aggregate T args)"
proof -
  have "writes_nothing p"
    if "rbind (Mcp_Tools.target args) (\<lambda>(db, coll). rbind (Mcp_Tools.required args ''pipeline'' (json_to_documents (tl_json T))) (\<lambda>p. Inr (db, coll, p)))
          = Inr (db, coll, p)" for db coll p
  proof (cases "Mcp_Tools.required args ''pipeline'' (json_to_documents (tl_json T))")
    case (Inl e)
    then show ?thesis using that by (cases "Mcp_Tools.target args") auto
  next
    case (Inr q)
    then show ?thesis using that assms(2) by (cases "Mcp_Tools.target args") (auto simp: aggregate_args_write_nothing_def)
  qed
  then show ?thesis
    using assms(1) unfolding execute_aggregate_def
    by (intro keeps_with_args) (auto intro!: keep_rules)
qed

lemma keeps_case:
  assumes "\<And>s. view (snd (g s)) = view s"
  shows "keeps view (\<lambda>s. case g s of (Inl e, s') \<Rightarrow> (failed e, s') | (Inr v, s') \<Rightarrow> (done v, s'))"
proof -
  have "view (snd (case r of (Inl e, s') \<Rightarrow> (failed e, s') | (Inr v, s') \<Rightarrow> (done v, s'))) = view (snd r)" for r
    by (cases r; cases "fst r") auto
  then show ?thesis using assms by (simp add: keeps_def)
qed

lemma keeps_execute_list_databases:
  "(\<And>s. view (snd (tl_list_databases T s)) = view s) \<Longrightarrow> keeps view (execute_list_databases T)"
  unfolding execute_list_databases_def by (rule keeps_case)

lemma keeps_execute_list_collections:
  "driver_reads (tl_driver T) view \<Longrightarrow> keeps view (execute_list_collections T args)"
  unfolding execute_list_collections_def
  by (rule keeps_with_args, rule keeps_case) (simp add: driver_reads_def)

lemma keeps_execute_generate_model: "driver_reads (tl_driver T) view \<Longrightarrow> keeps view (execute_generate_model T args)"
  by (auto simp: execute_generate_model_def sample_writes_nothing intro!: keep_rules)

lemma keeps_execute_semantic_search:
  assumes "\<And>db coll p s. view (snd (tl_vector_search T db coll p s)) = view s"
  shows "keeps view (execute_semantic_search T args)"
proof -
  have v: "view (snd (vector_search T args query database collection v s)) = view s" for query database collection v s
  proof -
    let ?p = "vector_pipeline (str_or ''vector_index'' args ''index_name'') (str_or ''_embedding'' args ''path'') v
      (word_of_int (i64_or 10 args ''limit''))"
    obtain r s' where r: "tl_vector_search T database collection ?p s = (r, s')" by fastforce
    then have "view s' = view s" using assms [of database collection ?p s] by simp
    then show ?thesis using r by (cases r) (simp_all add: vector_search_def Let_def)
  qed
  show ?thesis
    by (auto simp: keeps_def execute_semantic_search_def v split: option.splits sum.splits list.splits prod.splits)
qed

lemma blocked_transaction: "read_only safety \<Longrightarrow> keeps view (execute_transaction_pipeline_tool T safety args)"
  by (simp add: keeps_def execute_transaction_pipeline_tool_def check_tool_allowed_def WRITE_TOOLS_def)

lemma data_tool_keeps:
  assumes lib: "library_reads T view" and ro: "read_only safety"
    and name: "name \<notin> set WRITE_OPS" "name \<noteq> ''embed_and_store''"
    and agg: "name = ''aggregate'' \<Longrightarrow> aggregate_args_write_nothing (tl_json T) args"
    and f: "data_tool T safety name args = Some f"
  shows "keeps view f"
proof -
  have D: "driver_reads (tl_driver T) view" using lib by (simp add: library_reads_def)
  have "name \<in> {''find'', ''find_one'', ''aggregate'', ''list_databases'', ''list_collections'', ''generate_model'',
      ''semantic_search'', ''transaction_pipeline''}"
    using name f by (auto simp: data_tool_def WRITE_OPS_def split: if_splits)
  then show ?thesis
    using f agg lib ro
    by (auto simp: data_tool_def library_reads_def keeps_execute_find [OF D] keeps_execute_find_one [OF D]
        keeps_execute_aggregate [OF D] keeps_execute_list_databases keeps_execute_list_collections [OF D]
        keeps_execute_generate_model [OF D] keeps_execute_semantic_search blocked_transaction)
qed

subsection \<open>Calls on the state of the server\<close>

lemma ms_db_set_db [simp]: "ms_db (set_db s st) = s"
  by (simp add: set_db_def)

lemma ms_db_on_db: "keeps view f \<Longrightarrow> view (ms_db (snd (on_db f st))) = view (ms_db st)"
  by (simp add: keeps_def on_db_def split: prod.split) (metis snd_conv)

lemma keeps_sample_texts: "driver_reads (tl_driver T) view \<Longrightarrow> keeps view (sample_texts T database collection)"
  unfolding sample_texts_def using keeps_find [of "tl_driver T" view]
  by (intro keeps_case) (simp add: keeps_def)

lemma keeps_answer_question:
  assumes D: "driver_reads (tl_driver T) view" and q: "mql_writes_nothing (cq_mql c)"
  shows "keeps view (answer_question T question database collection c from_cache)"
proof -
  have run: "view (snd (run_compiled T database collection (cq_mql c) s)) = view s" for s
    using keeps_find [OF D] keeps_aggregate [OF D] q
    by (cases "cq_mql c") (simp_all add: run_compiled_def keeps_def mql_writes_nothing_def)
  have "view (snd (answer_question T question database collection c from_cache s))
      = view (snd (run_compiled T database collection (cq_mql c) s))" for s
    by (simp add: answer_question_def split: prod.split sum.split)
  then show ?thesis using run by (simp add: keeps_def)
qed

lemma ask_keeps:
  assumes D: "driver_reads (tl_driver T) view" and tr: "translator_reads T view"
  shows "view (ms_db (snd (execute_ask T args st))) = view (ms_db st)"
proof (cases "question_args ''ask'' args")
  case (Inr a)
  obtain question database collection where a: "a = (question, database, collection)" by (cases a) auto
  show ?thesis
  proof (cases "tl_translate T")
    case (Some translate)
    obtain samples s1 where s1: "sample_texts T database collection (ms_db st) = (samples, s1)" by fastforce
    have v1: "view s1 = view (ms_db st)"
      using keeps_sample_texts [OF D, of database collection] s1 unfolding keeps_def by (metis snd_conv)
    obtain r t s2 where s2: "translate question database collection samples (ms_translator st) s1 = (r, t, s2)"
      by (metis surj_pair)
    have v2: "view s2 = view s1" and q: "\<And>c. r = Inr c \<Longrightarrow> mql_writes_nothing (cq_mql c)"
      using tr Some s2 unfolding translator_reads_def by blast+
    show ?thesis
    proof (cases r)
      case (Inl e)
      then show ?thesis using Inr a Some s1 s2 v1 v2 by (simp add: execute_ask_def)
    next
      case r: (Inr c)
      then show ?thesis
        using Inr a Some s1 s2 v1 v2 ms_db_on_db [OF keeps_answer_question [OF D q [OF r]], where st = "set_db s2 (st\<lparr>ms_translator := t\<rparr>)"]
        by (simp add: execute_ask_def)
    qed
  qed (use Inr a in \<open>simp add: execute_ask_def\<close>)
qed (simp add: execute_ask_def)

lemma explain_query_keeps:
  assumes tr: "translator_reads T view"
  shows "view (ms_db (snd (execute_explain_query T args st))) = view (ms_db st)"
proof (cases "question_args ''explain_query'' args")
  case (Inr a)
  obtain question database collection where a: "a = (question, database, collection)" by (cases a) auto
  show ?thesis
  proof (cases "tl_translate T")
    case (Some translate)
    obtain r t s where s: "translate question database collection [] (ms_translator st) (ms_db st) = (r, t, s)"
      by (metis surj_pair)
    then have "view s = view (ms_db st)"
      using tr Some unfolding translator_reads_def by blast
    then show ?thesis
      using Inr a Some s by (cases r) (simp_all add: execute_explain_query_def)
  qed (use Inr a in \<open>simp add: execute_explain_query_def\<close>)
qed (simp add: execute_explain_query_def)

lemma schema_keeps:
  assumes D: "driver_reads (tl_driver T) view" and r: "execute_collection_schema T args s = Some (r, s')"
  shows "view s' = view s"
proof (cases "Mcp_Tools.target args")
  case (Inr a)
  obtain db coll where a: "a = (db, coll)" by fastforce
  obtain res s1 where s1: "op_aggregate (tl_bson T) (tl_driver T) db coll (sample_pipeline args) s = (res, s1)" by fastforce
  then have "view s1 = view s"
    using keeps_aggregate [OF D sample_writes_nothing [of args]] unfolding keeps_def by (metis snd_conv)
  then show ?thesis
    using r Inr a s1 by (cases res) (auto simp: execute_collection_schema_def)
qed (use r in \<open>simp add: execute_collection_schema_def\<close>)

lemma watch_keeps [simp]: "ms_db (snd (execute_watch_directory T args st)) = ms_db st"
  by (auto simp: execute_watch_directory_def split: option.split sum.split prod.split)

lemma stop_watch_keeps [simp]: "ms_db (snd (execute_stop_watch T args st)) = ms_db st"
  by (auto simp: execute_stop_watch_def split: sum.split prod.split)

lemma server_tool_keeps:
  assumes lib: "library_reads T view" and name: "name \<noteq> ''ingest''" "name \<noteq> ''cancel_ingest''"
    and r: "server_tool T name args st = Some (r, st')"
  shows "view (ms_db st') = view (ms_db st)"
proof -
  have D: "driver_reads (tl_driver T) view" and tr: "translator_reads T view"
    using lib by (simp_all add: library_reads_def)
  consider "name = ''watch_directory''" | "name = ''stop_watch''" | "name = ''collection_schema''" | "name = ''ask''"
    | "name = ''explain_query''"
    | "name \<noteq> ''watch_directory'' \<and> name \<noteq> ''stop_watch'' \<and> name \<noteq> ''collection_schema'' \<and> name \<noteq> ''ask'' \<and>
       name \<noteq> ''explain_query''" by satx
  then show ?thesis
  proof cases
    case 1
    then have "execute_watch_directory T args st = (r, st')" using r by (simp add: server_tool_def)
    then show ?thesis using watch_keeps [of T args st] by simp
  next
    case 2
    then have "execute_stop_watch T args st = (r, st')" using r by (simp add: server_tool_def)
    then show ?thesis using stop_watch_keeps [of T args st] by simp
  next
    case 3
    then obtain s' where "execute_collection_schema T args (ms_db st) = Some (r, s')" "st' = set_db s' st"
      using r by (auto simp: server_tool_def)
    then show ?thesis using schema_keeps [OF D] by simp
  next
    case 4
    then have "execute_ask T args st = (r, st')" using r by (simp add: server_tool_def)
    then show ?thesis using ask_keeps [OF D tr, of args st] by simp
  next
    case 5
    then have "execute_explain_query T args st = (r, st')" using r by (simp add: server_tool_def)
    then show ?thesis using explain_query_keeps [OF tr, of args st] by simp
  next
    case 6
    then show ?thesis using r name by (simp add: server_tool_def)
  qed
qed

lemma simple_tool_keeps:
  assumes lib: "library_reads T view" and ro: "read_only safety"
    and name: "name \<notin> set WRITE_OPS" "name \<notin> {''embed_and_store'', ''ingest'', ''cancel_ingest''}"
    and agg: "name = ''aggregate'' \<Longrightarrow> aggregate_args_write_nothing (tl_json T) args"
    and r: "simple_tool T safety name args st = Some (r, st')"
  shows "view (ms_db st') = view (ms_db st)"
proof (cases "data_tool T safety name args")
  case (Some f)
  have "keeps view f" using data_tool_keeps [OF lib ro] name agg Some by blast
  then show ?thesis using ms_db_on_db r Some by (metis simple_tool_def option.inject option.simps(5) snd_conv)
next
  case None
  then show ?thesis
    using r name server_tool_keeps [OF lib, of name args st r st']
    by (cases "reading_tool T name args st") (simp_all add: simple_tool_def)
qed

subsection \<open>Pipelines of such calls\<close>

function quiet :: "json_lib \<Rightarrow> string \<Rightarrow> json \<Rightarrow> bool" where
  "quiet J name args =
     (if name = ''pipeline'' then list_all (\<lambda>op. quiet J (op_type op) op) (operations_of args)
      else name \<notin> {''embed_and_store'', ''ingest'', ''cancel_ingest''} \<and>
        (name = ''aggregate'' \<longrightarrow> aggregate_args_write_nothing J args))"
  by pat_completeness auto
termination
  by (relation "measure (\<lambda>(_, _, args). size args)") (simp_all add: operations_smaller)

declare quiet.simps [simp del]

lemma ms_db_record_analytics [simp]: "ms_db (record_analytics T name args started r st) = ms_db st"
  by (simp add: record_analytics_def split: option.split)

lemma execute_tool_keeps:
  assumes lib: "library_reads T view" and ro: "read_only safety"
    and "quiet (tl_json T) name args \<and> name \<notin> set WRITE_OPS"
    and "execute_tool T safety name args st = Some (r, st')"
  shows "view (ms_db st') = view (ms_db st)"
proof (rule execute_tool_same
    [where ok = "\<lambda>name args. quiet (tl_json T) name args \<and> name \<notin> set WRITE_OPS" and f = "\<lambda>st. view (ms_db st)",
     OF _ _ _ assms(3,4)])
  fix name args st st' r
  assume q: "quiet (tl_json T) name args \<and> name \<notin> set WRITE_OPS" and "name \<noteq> ''pipeline''"
    and run: "simple_tool T safety name args st = Some (r, st')"
  then have "name \<notin> {''embed_and_store'', ''ingest'', ''cancel_ingest''}"
    "name = ''aggregate'' \<Longrightarrow> aggregate_args_write_nothing (tl_json T) args"
    unfolding quiet.simps [of "tl_json T" name args] by simp_all
  from simple_tool_keeps [OF lib ro _ this run] q show "view (ms_db st') = view (ms_db st)" by blast
next
  fix args op
  assume q: "quiet (tl_json T) ''pipeline'' args \<and> ''pipeline'' \<notin> set WRITE_OPS"
    and acc: "pipeline_accepted safety (operations_of args)" and op: "op \<in> set (operations_of args)"
  have "quiet (tl_json T) (op_type op) op"
    using q op unfolding quiet.simps [of "tl_json T" "''pipeline''" args] by (simp add: list_all_iff)
  moreover have "op_type op \<notin> set WRITE_OPS"
    using acc ro op unfolding pipeline_accepted_def pipeline_allowed
    by (cases "json_str_field op ''op''") (auto simp: op_type_def str_or_def WRITE_OPS_def)
  ultimately show "quiet (tl_json T) (op_type op) op \<and> op_type op \<notin> set WRITE_OPS" ..
qed simp


text \<open>The calls that the mode lets through although they write.\<close>

lemma read_only_gaps:
  "name \<in> {''ingest'', ''embed_and_store'', ''watch_directory'', ''aggregate'', ''pipeline''} \<Longrightarrow>
   check_tool_allowed safety name = Inr ()"
  by (auto simp: check_tool_allowed_def WRITE_TOOLS_def)

lemma embed_and_store_writes:
  "\<exists>r. execute_tool demo_lib \<lparr>read_only = True, max_documents = 100\<rparr> ''embed_and_store''
     (demo_op ''embed_and_store'' [(''embed_field'', JString ''t''), (''documents'', JArray [JObject [(''t'', JString ''x'')]])])
     (demo_server []) = Some (r, demo_server [[(''t'', BNull), (''_embedding'', BArray [BDouble 1])]])"
  by (simp add: execute_tool.simps finish_tool_def simple_tool_def data_tool_def on_db_def execute_embed_and_store_def
      demo_lib_def demo_op_def demo_server_def embed_args_def Mcp_Tools.target_def Mcp_Tools.get_str_def json_str_field_def texts_of_def
      map_filter_simps store_embedded_def embedded_documents_def nth_option_def with_embedding_def set_db_def
      record_analytics_def ok_or_def Let_def)

lemma demo_reads: "library_reads demo_lib id"
  by (simp add: library_reads_def driver_reads_def translator_reads_def sample_driver_def demo_lib_def)


end
