(* ===== verification/Mcp_Bounds.thy ===== *)
theory Mcp_Bounds
  imports Mcp_Demo
begin

text \<open>
  The bound on the documents that the find tool asks for, and what the schema of a
  collection counts: every key of the sampled documents, however deep, exactly once.
\<close>

subsection \<open>The limit of a query\<close>

lemma find_limit_range: "1 \<le> find_limit_of args \<and> find_limit_of args \<le> MAX_FIND_LIMIT"
  by (auto simp: find_limit_of_def MAX_FIND_LIMIT_def Let_def)

lemma sint_small: "1 \<le> n \<Longrightarrow> n \<le> 100 \<Longrightarrow> sint (word_of_int n :: i64) = n"
  by (simp add: signed_of_int signed_take_bit_int_eq_self)

definition agree_on_limits :: "'db driver \<Rightarrow> 'db driver \<Rightarrow> bool" where
  "agree_on_limits D D' \<longleftrightarrow>
     drv_decode_error D = drv_decode_error D' \<and>
     (\<forall>db coll f limit skip n s. 1 \<le> sint limit \<and> sint limit \<le> 100 \<longrightarrow>
        (let opts = \<lparr>fo_limit = Some limit, fo_skip = skip, fo_sort = None, fo_projection = None\<rparr> in
         drv_find D db coll f (Some opts) n s = drv_find D' db coll f (Some opts) n s))"

lemma drain_docs_agree: "drv_decode_error D = drv_decode_error D' \<Longrightarrow> drain_docs B D acc c = drain_docs B D' acc c"
  by (induction B D acc c rule: drain_docs.induct) (auto split: sum.split)

lemma op_find_agree:
  assumes "agree_on_limits D D'" and "1 \<le> n" and "n \<le> 100"
  shows "op_find B D db coll f (Some (limited n skip)) s = op_find B D' db coll f (Some (limited n skip)) s"
proof -
  have "drv_find D db coll f (Some (limited n skip)) t s = drv_find D' db coll f (Some (limited n skip)) t s" for t
    using assms sint_small unfolding agree_on_limits_def limited_def Let_def by metis
  moreover have "drain_docs B D = drain_docs B D'"
    using drain_docs_agree [of D D'] assms(1) unfolding agree_on_limits_def by blast
  ultimately show ?thesis by (simp add: op_find_def)
qed

text \<open>
  The find tool never asks for more than a hundred documents, nor for all of them: its
  limit is from one to a hundred whatever the arguments are, and two drivers that agree on
  such queries give the same answers to it.
\<close>

theorem find_is_limited:
  "1 \<le> find_limit_of args \<and> find_limit_of args \<le> 100 \<and>
   (agree_on_limits D D' \<longrightarrow> execute_find (T\<lparr>tl_driver := D\<rparr>) args = execute_find (T\<lparr>tl_driver := D'\<rparr>) args)"
proof -
  have range: "1 \<le> find_limit_of args" "find_limit_of args \<le> 100"
    using find_limit_range [of args] by (simp_all add: MAX_FIND_LIMIT_def)
  moreover have "execute_find (T\<lparr>tl_driver := D\<rparr>) args = execute_find (T\<lparr>tl_driver := D'\<rparr>) args" if "agree_on_limits D D'"
  proof -
    have doc: "documents_result (T\<lparr>tl_driver := D\<rparr>) = documents_result (T\<lparr>tl_driver := D'\<rparr>)"
      by (auto simp: documents_result_def)
    show ?thesis using op_find_agree [OF that range] by (simp add: execute_find_def doc)
  qed
  ultimately show ?thesis by blast
qed

text \<open>A driver that has an answer to limited queries only.\<close>

definition limits_only :: "'db driver \<Rightarrow> 'db driver" where
  "limits_only D =
     D\<lparr>drv_find := \<lambda>db coll f opts n s.
        case Option.bind opts fo_limit of
          Some l \<Rightarrow> if 1 \<le> sint l \<and> sint l \<le> 100 then drv_find D db coll f opts n s else (TimedOut, s)
        | None \<Rightarrow> (TimedOut, s)\<rparr>"

lemma limits_only_agrees: "agree_on_limits D (limits_only D)"
  by (simp add: agree_on_limits_def limits_only_def)

theorem find_is_limited_witness:
  "execute_find (demo_lib\<lparr>tl_driver := sample_driver\<rparr>) (JObject []) =
   execute_find (demo_lib\<lparr>tl_driver := limits_only sample_driver\<rparr>) (JObject [])"
  using find_is_limited [of "JObject []" sample_driver "limits_only sample_driver" demo_lib]
    limits_only_agrees [of sample_driver] by blast

subsection \<open>Schemas\<close>

text \<open>All keys of a document, however deep in documents.\<close>

function (sequential) key_total :: "document \<Rightarrow> nat" where
  "key_total [] = 0"
| "key_total ((k, v) # rest) = 1 + (case v of BDocument d \<Rightarrow> key_total d | _ \<Rightarrow> 0) + key_total rest"
  by pat_completeness auto
termination
  by (relation "measure (\<lambda>d. size (BDocument d))") (auto simp: size_prod_def)

definition field_ok :: "field_info \<Rightarrow> bool" where
  "field_ok i \<longleftrightarrow>
     0 < fi_count i \<and> fi_types i \<noteq> [] \<and> distinct (fi_types i) \<and> length (fi_types i) \<le> fi_count i \<and> fi_example i \<noteq> None"

definition counted :: "field_map \<Rightarrow> nat" where
  "counted fs = sum_list (map (\<lambda>pi. fi_count (snd pi)) fs)"

definition fields_ok :: "field_map \<Rightarrow> bool" where
  "fields_ok fs \<longleftrightarrow> doc_ok fs \<and> (\<forall>pi \<in> set fs. field_ok (snd pi))"

lemma counted_insert:
  "counted (doc_insert p i fs) + fi_count (info_of fs p) = counted fs + fi_count i"
  by (induction p i fs rule: doc_insert.induct) (auto simp: counted_def info_of_def new_field_def split: option.splits)

lemma set_field_insert: "set (doc_insert k v d) \<subseteq> insert (k, v) (set d)"
  by (induction k v d rule: doc_insert.induct) auto

lemma note_value_ok:
  assumes "note_value display v i = Some i'" and "i = new_field \<or> field_ok i"
  shows "field_ok i' \<and> fi_count i' = fi_count i + 1"
  using assms by (auto simp: note_value_def field_ok_def new_field_def split: if_splits)

lemma info_of_ok: "fields_ok fs \<Longrightarrow> info_of fs p = new_field \<or> field_ok (info_of fs p)"
  by (auto simp: info_of_def fields_ok_def split: option.split) (metis map_of_SomeD snd_conv)

lemma note_field:
  assumes "note_value display v (info_of fs p) = Some i" and "fields_ok fs"
  shows "fields_ok (doc_insert p i fs) \<and> counted (doc_insert p i fs) = counted fs + 1"
proof -
  have i: "field_ok i" "fi_count i = fi_count (info_of fs p) + 1"
    using note_value_ok [OF assms(1) info_of_ok [OF assms(2)]] by simp_all
  have "fields_ok (doc_insert p i fs)"
    using i(1) assms(2) set_field_insert [of p i fs] by (auto simp: fields_ok_def)
  then show ?thesis using counted_insert [of p i fs] i(2) by simp
qed

lemma collect_fields_counts:
  "collect_fields display pre d fs = Some fs' \<Longrightarrow> fields_ok fs \<Longrightarrow> fields_ok fs' \<and> counted fs' = counted fs + key_total d"
proof (induction display pre d fs arbitrary: fs' rule: collect_fields.induct)
  case (2 display pre k v rest fs)
  let ?p = "field_path pre k"
  obtain i where i: "note_value display v (info_of fs ?p) = Some i"
    using "2.prems"(1) by (auto split: bind_splits)
  have ok: "fields_ok (doc_insert ?p i fs)" "counted (doc_insert ?p i fs) = counted fs + 1"
    using note_field [OF i "2.prems"(2)] by simp_all
  obtain fs1 where fs1: "(case v of BDocument nested \<Rightarrow> collect_fields display ?p nested (doc_insert ?p i fs)
        | _ \<Rightarrow> Some (doc_insert ?p i fs)) = Some fs1" and rest: "collect_fields display pre rest fs1 = Some fs'"
    using "2.prems"(1) i by (auto split: bind_splits)
  have "fields_ok fs1 \<and> counted fs1 = counted (doc_insert ?p i fs) + (case v of BDocument d \<Rightarrow> key_total d | _ \<Rightarrow> 0)"
    using fs1 ok "2.IH"(1) [OF i] by (cases v) auto
  then show ?case using "2.IH"(2) [OF i fs1 rest] ok by simp
qed simp

lemma collect_all_counts:
  "collect_all display docs fs = Some fs' \<Longrightarrow> fields_ok fs \<Longrightarrow>
   fields_ok fs' \<and> counted fs' = counted fs + sum_list (map key_total docs)"
proof (induction docs arbitrary: fs)
  case (Cons d docs)
  then obtain fs1 where "collect_fields display [] d fs = Some fs1" "collect_all display docs fs1 = Some fs'"
    by (auto split: bind_splits)
  then show ?case using Cons.IH collect_fields_counts Cons.prems(2) by fastforce
qed simp

text \<open>
  C40. The schema of a collection. Whatever documents are sampled, if no example panics the
  fields of the schema have different paths, and their counts add up to the number of keys
  in all the documents, those of nested documents included; each field has an example and
  at least one type, and no more types than occurrences.
\<close>

theorem schema_counts_every_key:
  assumes "collect_all display docs [] = Some fs"
  shows "distinct (map fst fs) \<and> counted fs = sum_list (map key_total docs) \<and> (\<forall>pi \<in> set fs. field_ok (snd pi))"
  using collect_all_counts [OF assms] by (simp add: fields_ok_def doc_ok_def counted_def)

theorem schema_counts_every_key_witness:
  "\<exists>fs. collect_all (\<lambda>_. []) [[(''a'', BDocument [(''b'', BInt32 1)]), (''c'', BNull)], [(''c'', BBoolean True)]] [] = Some fs \<and>
     counted fs = 4"
proof -
  let ?docs = "[[(''a'', BDocument [(''b'', BInt32 1)]), (''c'', BNull)], [(''c'', BBoolean True)]]"
  obtain fs where "collect_all (\<lambda>_. []) ?docs [] = Some fs"
    by (simp add: note_value_def info_of_def new_field_def field_path_def)
  then show ?thesis using schema_counts_every_key [of "\<lambda>_. []" ?docs fs] by simp
qed

text \<open>The values of a document, however deep, of which examples are taken.\<close>

fun example_strings :: "bson \<Rightarrow> string set" where
  "example_strings (BString s) = {s}"
| "example_strings (BArray vs) = (\<Union>v \<in> set vs. example_strings v)"
| "example_strings (BDocument d) = (\<Union>kv \<in> set d. example_strings (snd kv))"
| "example_strings _ = {}"

definition cut_ok :: "string \<Rightarrow> bool" where
  "cut_ok s \<longleftrightarrow> length s \<le> 50 \<or> \<not> continues_char (s ! 50)"

lemma example_ok: "\<forall>s \<in> example_strings v. cut_ok s \<Longrightarrow> bson_to_example_json display v \<noteq> None"
proof (induction display v rule: bson_to_example_json.induct)
  case (1 display arr)
  then show ?case by (cases arr) auto
qed (auto simp: example_text_def cut_ok_def)

lemma collect_fields_defined:
  "\<forall>kv \<in> set d. \<forall>s \<in> example_strings (snd kv). cut_ok s \<Longrightarrow> collect_fields display pre d fs \<noteq> None"
proof (induction display pre d fs rule: collect_fields.induct)
  case (2 display pre k v rest fs)
  let ?p = "field_path pre k"
  have "bson_to_example_json display v \<noteq> None" using example_ok "2.prems" by simp
  then have "note_value display v (info_of fs ?p) \<noteq> None" by (simp add: note_value_def split: option.split)
  then obtain i where i: "note_value display v (info_of fs ?p) = Some i" by blast
  obtain fs1 where fs1: "(case v of BDocument nested \<Rightarrow> collect_fields display ?p nested (doc_insert ?p i fs)
        | _ \<Rightarrow> Some (doc_insert ?p i fs)) = Some fs1"
    using "2.IH"(1) [OF i] "2.prems" by (cases v) auto
  have "collect_fields display pre rest fs1 \<noteq> None" using "2.IH"(2) [OF i fs1] "2.prems" by simp
  then show ?case using i fs1 by simp
qed simp

text \<open>
  The schema tool panics only if it has to cut a string inside a character: if no string
  in the documents is longer than fifty bytes with its fifty-first byte in the middle of a
  character, there is a schema.
\<close>

theorem schema_panics_only_inside_characters:
  assumes "\<forall>d \<in> set docs. \<forall>s \<in> example_strings (BDocument d). cut_ok s"
  shows "collect_all display docs fs \<noteq> None"
  using assms
proof (induction docs arbitrary: fs)
  case (Cons d docs)
  then have "collect_fields display [] d fs \<noteq> None" by (intro collect_fields_defined) simp
  then show ?case using Cons by auto
qed simp

theorem schema_panics_only_inside_characters_witness:
  "collect_all (\<lambda>_. []) [[(''a'', BString ''x'')]] [] \<noteq> None \<and>
   collect_all (\<lambda>_. []) [[(''a'', BString (replicate 49 CHR ''x'' @ [CHR 0xC3, CHR 0xA9]))]] [] = None"
proof
  show "collect_all (\<lambda>_. []) [[(''a'', BString ''x'')]] [] \<noteq> None"
    by (rule schema_panics_only_inside_characters) (simp add: cut_ok_def)
  show "collect_all (\<lambda>_. []) [[(''a'', BString (replicate 49 CHR ''x'' @ [CHR 0xC3, CHR 0xA9]))]] [] = None"
    by (simp add: note_value_def info_of_def new_field_def example_text_def continues_char_def nth_append)
qed

end
