(* ===== verification/Mcp_Stdio.thy ===== *)
theory Mcp_Stdio
  imports Mcp_Handler
begin

text \<open>
  The stdio transport of the MCP server (\<open>src/mcp/stdio.rs\<close>) with the provider that asks the
  host for completions (\<open>src/compiled/providers/sampling.rs\<close>). The loop waits for a line or
  for a sampling request, whichever comes first; a request of the host is handled inside
  the loop. \<open>line_lib\<close> is what the code takes from the JSON library.
\<close>

subsection \<open>Lines\<close>

record line_lib =
  ll_parse :: "string \<Rightarrow> string + json"
  ll_request :: "json \<Rightarrow> string + json_rpc_request"

definition parse_error :: "string \<Rightarrow> json_rpc_response" where
  "parse_error e = response_error None (- 32700) (''Parse error: '' @ e)"

text \<open>What the host's answer to a sampling request says.\<close>

definition completion_text :: "json \<Rightarrow> string" where
  "completion_text result =
     (case Option.bind (Option.bind (json_get result ''content'') (\<lambda>c. json_get c ''text'')) as_str of
        Some t \<Rightarrow> t
      | None \<Rightarrow> (case Option.bind (json_get result ''text'') as_str of Some t \<Rightarrow> t | None \<Rightarrow> []))"

definition sampling_result :: "json \<Rightarrow> llm_error + string" where
  "sampling_result v =
     (case json_get v ''result'' of
        Some result \<Rightarrow> Inr (completion_text result)
      | None \<Rightarrow>
          (case json_get v ''error'' of
             Some err \<Rightarrow>
               Inl (ApiError (''Sampling error: '' @ str_or ''Unknown error'' err ''message''))
           | None \<Rightarrow> Inl (ApiError ''Invalid sampling response'')))"

text \<open>What a line is: nothing, an answer to a pending request, a request, or neither.\<close>

datatype line = Blank | Malformed string | SamplingAnswer string "llm_error + string" | HostRequest json_rpc_request

definition is_answer :: "json \<Rightarrow> bool" where
  "is_answer v \<longleftrightarrow> json_get v ''result'' \<noteq> None \<or> json_get v ''error'' \<noteq> None"

definition read_request :: "line_lib \<Rightarrow> json \<Rightarrow> line" where
  "read_request L v = (case ll_request L v of Inl e \<Rightarrow> Malformed e | Inr r \<Rightarrow> HostRequest r)"

definition read_line :: "line_lib \<Rightarrow> string list \<Rightarrow> string \<Rightarrow> line" where
  "read_line L pending text =
     (let l = trim text in
      if l = [] then Blank
      else
        (case ll_parse L l of
           Inl e \<Rightarrow> Malformed e
         | Inr v \<Rightarrow>
             (case json_str_field v ''id'' of
                Some i \<Rightarrow>
                  if is_answer v \<and> i \<in> set pending then SamplingAnswer i (sampling_result v) else read_request L v
              | None \<Rightarrow> read_request L v)))"

subsection \<open>Sampling requests\<close>

record sampling_request =
  sr_token :: nat
  sr_prompt :: string
  sr_system :: "string option"

definition sampling_id :: "nat \<Rightarrow> string" where
  "sampling_id n = ''sampling-'' @ show_nat n"

definition sampling_json :: "nat \<Rightarrow> sampling_request \<Rightarrow> json" where
  "sampling_json n r =
     JObject
       [(''jsonrpc'', JString ''2.0''), (''method'', JString ''sampling/createMessage''),
        (''params'', JObject
          ([(''messages'', JArray [JObject [(''role'', JString ''user''),
              (''content'', JObject [(''type'', JString ''text''), (''text'', JString (sr_prompt r))])]]),
            (''maxTokens'', json_of_nat 2048)] @
           (case sr_system r of None \<Rightarrow> [] | Some s \<Rightarrow> [(''systemPrompt'', JString s)]))),
        (''id'', JString (sampling_id n))]"

text \<open>What the provider makes of the end of its wait.\<close>

datatype wait_end = Answered "llm_error + string" | ChannelDropped | WaitTimedOut

definition provider_result :: "wait_end \<Rightarrow> llm_error + string" where
  "provider_result w =
     (case w of
        Answered r \<Rightarrow> r
      | ChannelDropped \<Rightarrow> Inl (ApiError ''Sampling response channel dropped'')
      | WaitTimedOut \<Rightarrow> Inl (ApiError ''Sampling request timed out after 60s''))"

subsection \<open>The loop\<close>

text \<open>
  The loop is idle or inside the handling of a request; the handling runs, or waits for the
  answer under a token. Requests that were sent but not yet received wait in the channel,
  those that were written to the host are pending under their id; answers that came arrive
  at their token. What was written is a list of texts.
\<close>

datatype activity = Idle | Running json_rpc_request | Waiting json_rpc_request nat | Closed

record stdio =
  sd_activity :: activity
  sd_channel :: "sampling_request list"
  sd_pending :: "(string \<times> nat) list"
  sd_answers :: "(nat \<times> (llm_error + string)) list"
  sd_counter :: nat
  sd_tokens :: nat
  sd_results :: "(llm_error + string) list"
  sd_output :: "json list"

definition stdio_start :: stdio where
  "stdio_start =
     \<lparr>sd_activity = Idle, sd_channel = [], sd_pending = [], sd_answers = [], sd_counter = 0, sd_tokens = 0,
      sd_results = [], sd_output = []\<rparr>"

definition response_json :: "json_rpc_response \<Rightarrow> json" where
  "response_json r =
     JObject
       ([(''jsonrpc'', JString (rs_jsonrpc r))] @
        (case rs_result r of None \<Rightarrow> [] | Some v \<Rightarrow> [(''result'', v)]) @
        (case rs_error r of None \<Rightarrow> [] | Some e \<Rightarrow>
           [(''error'', JObject
             ([(''code'', json_of_int (je_code e)), (''message'', JString (je_message e))] @
              (case je_data e of None \<Rightarrow> [] | Some d \<Rightarrow> [(''data'', d)])))]) @
        [(''id'', case rs_id r of None \<Rightarrow> JNull | Some i \<Rightarrow> i)])"

definition write_out :: "json \<Rightarrow> stdio \<Rightarrow> stdio" where
  "write_out v s = s\<lparr>sd_output := sd_output s @ [v]\<rparr>"

text \<open>A line that the idle loop reads.\<close>

definition on_line :: "line_lib \<Rightarrow> string \<Rightarrow> stdio \<Rightarrow> stdio" where
  "on_line L text s =
     (case read_line L (map fst (sd_pending s)) text of
        Blank \<Rightarrow> s
      | Malformed e \<Rightarrow> write_out (response_json (parse_error e)) s
      | SamplingAnswer i r \<Rightarrow>
          (case map_of (sd_pending s) i of
             None \<Rightarrow> s
           | Some token \<Rightarrow>
               s\<lparr>sd_pending := filter (\<lambda>p. fst p \<noteq> i) (sd_pending s), sd_answers := sd_answers s @ [(token, r)]\<rparr>)
      | HostRequest req \<Rightarrow> s\<lparr>sd_activity := Running req\<rparr>)"

text \<open>A sampling request that the idle loop receives: it is pending before it is written.\<close>

definition on_sampling :: "sampling_request \<Rightarrow> stdio \<Rightarrow> stdio" where
  "on_sampling r s =
     write_out (sampling_json (sd_counter s + 1) r)
       (s\<lparr>sd_counter := sd_counter s + 1,
          sd_pending := doc_insert (sampling_id (sd_counter s + 1)) (sr_token r) (sd_pending s)\<rparr>)"

definition SAMPLING_CHANNEL :: nat where "SAMPLING_CHANNEL = 32"

text \<open>
  Steps. While a request is handled the loop does not look at lines or at the channel; the
  handling may ask for a completion as often as it likes, each time waiting for an answer,
  for a minute at most, and in the end gives its response.
\<close>

inductive stdio_step :: "line_lib \<Rightarrow> stdio \<Rightarrow> stdio \<Rightarrow> bool" for L where
  read: "sd_activity s = Idle \<Longrightarrow> stdio_step L s (on_line L text s)"
| receive: "sd_activity s = Idle \<Longrightarrow> sd_channel s = r # rs \<Longrightarrow> stdio_step L s (on_sampling r (s\<lparr>sd_channel := rs\<rparr>))"
| ask: "sd_activity s = Running req \<Longrightarrow> length (sd_channel s) < SAMPLING_CHANNEL \<Longrightarrow>
    stdio_step L s (s\<lparr>sd_activity := Waiting req (sd_tokens s), sd_tokens := sd_tokens s + 1,
      sd_channel := sd_channel s @ [\<lparr>sr_token = sd_tokens s, sr_prompt = prompt, sr_system = sys\<rparr>]\<rparr>)"
| answer: "sd_activity s = Waiting req token \<Longrightarrow> map_of (sd_answers s) token = Some r \<Longrightarrow>
    stdio_step L s (s\<lparr>sd_activity := Running req, sd_results := sd_results s @ [provider_result (Answered r)]\<rparr>)"
| timeout: "sd_activity s = Waiting req token \<Longrightarrow> map_of (sd_answers s) token = None \<Longrightarrow>
    stdio_step L s (s\<lparr>sd_activity := Running req, sd_results := sd_results s @ [provider_result WaitTimedOut]\<rparr>)"
| respond: "sd_activity s = Running req \<Longrightarrow> rs_id resp = rq_id req \<Longrightarrow>
    stdio_step L s (write_out (response_json resp) (s\<lparr>sd_activity := Idle\<rparr>))"
| close: "sd_activity s = Idle \<Longrightarrow> stdio_step L s (s\<lparr>sd_activity := Closed, sd_pending := []\<rparr>)"

inductive stdio_reachable :: "line_lib \<Rightarrow> stdio \<Rightarrow> bool" for L where
  stdio_starts: "stdio_reachable L stdio_start"
| stdio_steps: "stdio_reachable L s \<Longrightarrow> stdio_step L s s' \<Longrightarrow> stdio_reachable L s'"

subsection \<open>No completion ever arrives\<close>

definition waiting_for :: "stdio \<Rightarrow> nat set" where
  "waiting_for s = {t. \<exists>req. sd_activity s = Waiting req t}"

definition seen_tokens :: "stdio \<Rightarrow> nat set" where
  "seen_tokens s = snd ` set (sd_pending s) \<union> fst ` set (sd_answers s)"

definition stdio_inv :: "stdio \<Rightarrow> bool" where
  "stdio_inv s \<longleftrightarrow>
     sr_token ` set (sd_channel s) \<subseteq> {..<sd_tokens s} \<and> seen_tokens s \<subseteq> {..<sd_tokens s} \<and>
     waiting_for s \<subseteq> {..<sd_tokens s} \<and> waiting_for s \<inter> seen_tokens s = {} \<and>
     set (sd_results s) \<subseteq> {provider_result WaitTimedOut}"

lemma seen_insert: "snd ` set (doc_insert i t d) \<subseteq> insert t (snd ` set d)"
  by (induction i t d rule: doc_insert.induct) auto

lemma on_line_inv:
  assumes "stdio_inv s" and "sd_activity s = Idle"
  shows "stdio_inv (on_line L text s)"
proof (cases "read_line L (map fst (sd_pending s)) text")
  case (SamplingAnswer i r)
  then show ?thesis
    using assms
    by (cases "map_of (sd_pending s) i")
      (auto simp: on_line_def stdio_inv_def waiting_for_def seen_tokens_def dest!: map_of_SomeD)
qed (use assms in \<open>auto simp: on_line_def stdio_inv_def waiting_for_def seen_tokens_def write_out_def\<close>)

lemma on_sampling_inv:
  assumes "stdio_inv s" and "sd_activity s = Idle" and "sd_channel s = r # rs"
  shows "stdio_inv (on_sampling r (s\<lparr>sd_channel := rs\<rparr>))"
proof -
  let ?d = "doc_insert (sampling_id (sd_counter s + 1)) (sr_token r) (sd_pending s)"
  have "insert (sr_token r) (snd ` set (sd_pending s)) \<subseteq> {..<sd_tokens s}"
    using assms by (auto simp: stdio_inv_def seen_tokens_def)
  then have "snd ` set ?d \<subseteq> {..<sd_tokens s}" using seen_insert by (rule order_trans [rotated])
  then show ?thesis
    using assms by (auto simp: on_sampling_def stdio_inv_def waiting_for_def seen_tokens_def write_out_def)
qed

lemma stdio_step_inv:
  assumes "stdio_step L s s'" and "stdio_inv s"
  shows "stdio_inv s'"
  using assms
proof (cases rule: stdio_step.cases)
  case (ask req prompt sys)
  then show ?thesis using assms(2) by (auto simp: stdio_inv_def waiting_for_def seen_tokens_def)
next
  case (answer req token r)
  then have "token \<in> waiting_for s" by (simp add: waiting_for_def)
  moreover have "token \<in> seen_tokens s"
    using map_of_SomeD [OF answer(3)] by (force simp: seen_tokens_def)
  ultimately show ?thesis using assms(2) by (auto simp: stdio_inv_def)
qed (use assms(2) on_line_inv on_sampling_inv in
    \<open>auto simp: stdio_inv_def waiting_for_def seen_tokens_def write_out_def\<close>)

text \<open>
  C13. Completions over stdio. While a request is handled, the loop neither sends the sampling
  request on to the host nor reads the answer, so that in every state that the server gets
  to, whatever the host does, every completion that a handler asked for has ended with the
  time-out of a minute, and one that it waits for has not arrived.
\<close>

theorem completions_over_stdio_time_out:
  assumes "stdio_reachable L s"
  shows "(\<forall>r \<in> set (sd_results s). r = Inl (ApiError ''Sampling request timed out after 60s'')) \<and>
    (\<forall>req token. sd_activity s = Waiting req token \<longrightarrow> map_of (sd_answers s) token = None)"
proof -
  have "stdio_inv s"
    using assms
  proof induction
    case stdio_starts
    then show ?case by (simp add: stdio_inv_def stdio_start_def waiting_for_def seen_tokens_def)
  qed (rule stdio_step_inv)
  then show ?thesis
    by (auto simp: stdio_inv_def waiting_for_def seen_tokens_def provider_result_def map_of_eq_None_iff)
qed

definition plain_lines :: line_lib where
  "plain_lines =
     \<lparr>ll_parse = (\<lambda>t. Inr (JString t)),
      ll_request = (\<lambda>v. Inr \<lparr>rq_jsonrpc = ''2.0'', rq_method = ''tools/call'', rq_params = None, rq_id = None\<rparr>)\<rparr>"

theorem completions_over_stdio_time_out_witness:
  "\<exists>s. stdio_reachable plain_lines s \<and> sd_results s = [Inl (ApiError ''Sampling request timed out after 60s'')]"
proof -
  let ?req = "\<lparr>rq_jsonrpc = ''2.0'', rq_method = ''tools/call'', rq_params = None, rq_id = None\<rparr>"
  let ?s1 = "stdio_start\<lparr>sd_activity := Running ?req\<rparr>"
  have "on_line plain_lines ''x'' stdio_start = ?s1"
    by (simp add: on_line_def read_line_def plain_lines_def trim_def is_ws_def read_request_def json_str_field_def)
  then have "stdio_reachable plain_lines ?s1"
    using stdio_steps [OF stdio_starts read [of stdio_start plain_lines "''x''"]] by (simp add: stdio_start_def)
  moreover let ?s2 = "?s1\<lparr>sd_activity := Waiting ?req 0, sd_tokens := 1,
    sd_channel := [\<lparr>sr_token = 0, sr_prompt = [], sr_system = None\<rparr>]\<rparr>"
  have "stdio_step plain_lines ?s1 ?s2"
    using ask [of ?s1 ?req plain_lines "[]" None] by (simp add: stdio_start_def SAMPLING_CHANNEL_def)
  ultimately have "stdio_reachable plain_lines ?s2" by (rule stdio_steps)
  moreover have "stdio_step plain_lines ?s2 (?s2\<lparr>sd_activity := Running ?req, sd_results := [provider_result WaitTimedOut]\<rparr>)"
    using timeout [of ?s2 ?req 0 plain_lines] by (simp add: stdio_start_def)
  ultimately have r: "stdio_reachable plain_lines (?s2\<lparr>sd_activity := Running ?req, sd_results := [provider_result WaitTimedOut]\<rparr>)"
    by (rule stdio_steps)
  from completions_over_stdio_time_out [OF r] have "provider_result WaitTimedOut = Inl (ApiError ''Sampling request timed out after 60s'')"
    by simp
  with r show ?thesis
    by (intro exI [of _ "?s2\<lparr>sd_activity := Running ?req, sd_results := [provider_result WaitTimedOut]\<rparr>"] conjI) simp_all
qed

end
