(* ===== verification/Mcp_Http.thy ===== *)
theory Mcp_Http
  imports Mcp_Handler
begin

text \<open>
  The HTTP transport of the MCP server (\<open>src/mcp/server.rs\<close>): its routes and the handlers behind
  them. The server has one handler, and with it one record of the session, for all clients; a
  call is one step here, so the order of the calls is the order in which they end. Reading the
  body of a request is the web library's: a call is a request that has been read.
\<close>

datatype http_method = HttpGet | HttpPost

text \<open>The router: other paths and methods are refused by the library.\<close>

definition mcp_routes :: "(string \<times> http_method) list" where
  "mcp_routes = [(''/mcp'', HttpPost), (''/health'', HttpGet)]"

datatype http_answer = JsonAnswer json_rpc_response | StatusAnswer nat

definition handle_mcp_post where
  "handle_mcp_post T R C H request st =
     map_option (\<lambda>(response, st'). (JsonAnswer response, st')) (handle_request T R C H request st)"

definition handle_health :: http_answer where
  "handle_health = StatusAnswer 200"

datatype http_call = PostMcp json_rpc_request | GetHealth

definition http_step where
  "http_step T R C H call st =
     (case call of
        PostMcp request \<Rightarrow> handle_mcp_post T R C H request st
      | GetHealth \<Rightarrow> Some (handle_health, st))"

text \<open>The calls of several clients, each with the name of its client.\<close>

fun http_run ::
  "('db, 's, 'f, 't) tool_lib \<Rightarrow> 'db resource_lib \<Rightarrow> 'db client_lib \<Rightarrow> handler_config \<Rightarrow> ('c \<times> http_call) list \<Rightarrow>
   ('db, 'f, 't) handler_state \<Rightarrow> (('c \<times> http_answer) list \<times> ('db, 'f, 't) handler_state) option" where
  "http_run T R C H [] st = Some ([], st)"
| "http_run T R C H ((client, call) # calls) st =
     Option.bind (http_step T R C H call st) (\<lambda>(reply, st').
       map_option (\<lambda>(outs, st''). ((client, reply) # outs, st'')) (http_run T R C H calls st'))"

subsection \<open>The history of a session\<close>

text \<open>What a call leaves in the record: the tool and the arguments, if it may run and is not one that explains.\<close>

definition recorded_call :: "handler_config \<Rightarrow> http_call \<Rightarrow> (string \<times> json) option" where
  "recorded_call H call =
     (case call of
        PostMcp request \<Rightarrow>
          if rq_method request = ''tools/call'' then
            (case param_str (rq_params request) ''name'' of
               Some tool \<Rightarrow>
                 if check_tool_allowed (hc_safety H) tool = Inr () \<and> should_record tool
                 then Some (tool, call_arguments (rq_params request))
                 else None
             | None \<Rightarrow> None)
          else None
      | GetHealth \<Rightarrow> None)"

definition session_entries :: "session_recorder \<Rightarrow> (nat \<times> string \<times> json) list" where
  "session_entries session = map (\<lambda>r. (or_index r, or_tool_name r, or_params r)) session"

lemma session_entries_record:
  "session_entries (ms_session (record_call T tool args r st)) =
     session_entries (ms_session st) @ (if should_record tool then [(length (ms_session st), tool, args)] else [])"
  by (simp add: record_call_def session_record_def session_entries_def)

lemma tools_call_entries:
  assumes "handle_tools_call T H rid params st = Some (resp, st')"
  shows "session_entries (ms_session st') = session_entries (ms_session st) @
    (case param_str params ''name'' of
       Some tool \<Rightarrow>
         if check_tool_allowed (hc_safety H) tool = Inr () \<and> should_record tool
         then [(length (ms_session st), tool, call_arguments params)] else []
     | None \<Rightarrow> [])"
proof (cases "param_str params ''name''")
  case (Some tool)
  show ?thesis
  proof (cases "check_tool_allowed (hc_safety H) tool")
    case (Inr u)
    then obtain r st1 where run: "execute_tool T (hc_safety H) tool (call_arguments params) st = Some (r, st1)"
      and st': "st' = record_call T tool (call_arguments params) r st1"
      using assms Some by (auto simp: handle_tools_call_def)
    have "ms_session st1 = ms_session st" by (rule execute_tool_session [OF run])
    then show ?thesis using Some Inr by (simp add: st' session_entries_record)
  qed (use assms Some in \<open>simp add: handle_tools_call_def\<close>)
qed (use assms in \<open>simp add: handle_tools_call_def\<close>)

lemma other_methods_session:
  assumes "handle_method T R H req st = Some (resp, st')" and "rq_method req \<noteq> ''tools/call''"
  shows "ms_session st' = ms_session st"
  using assms by (auto simp: handle_method_def handle_resources_read_def Let_def split: if_split_asm)

lemma http_step_entries:
  assumes "http_step T R C H call st = Some (reply, st')"
  shows "session_entries (ms_session (hd_server st')) = session_entries (ms_session (hd_server st)) @
    (case recorded_call H call of None \<Rightarrow> [] | Some c \<Rightarrow> [(length (ms_session (hd_server st)), c)])"
proof (cases call)
  case (PostMcp request)
  then obtain resp srv where run: "handle_method T R H request (hd_server (announce C st)) = Some (resp, srv)"
    and st': "st' = (announce C st)\<lparr>hd_server := srv\<rparr>"
    using assms by (auto simp: http_step_def handle_mcp_post_def handle_request_def Let_def)
  show ?thesis
  proof (cases "rq_method request = ''tools/call''")
    case True
    then have "handle_tools_call T H (rq_id request) (rq_params request) (hd_server (announce C st)) = Some (resp, srv)"
      using run by (simp add: handle_method_def Let_def)
    from tools_call_entries [OF this] show ?thesis
      using True by (auto simp: PostMcp recorded_call_def st' split: option.split)
  next
    case False
    then show ?thesis using other_methods_session [OF run False] by (simp add: PostMcp recorded_call_def st')
  qed
next
  case GetHealth
  then show ?thesis using assms by (simp add: http_step_def recorded_call_def)
qed

lemma length_session_entries: "length (session_entries session) = length session"
  by (simp add: session_entries_def)

lemma http_run_entries:
  "http_run T R C H calls st = Some (outs, st') \<Longrightarrow>
   session_entries (ms_session (hd_server st')) = session_entries (ms_session (hd_server st)) @
     List.enumerate (length (ms_session (hd_server st))) (List.map_filter (\<lambda>c. recorded_call H (snd c)) calls) \<and>
   map fst outs = map fst calls"
proof (induction calls arbitrary: st outs)
  case Nil
  then show ?case by (simp add: List.map_filter_simps)
next
  case (Cons c calls)
  obtain client call where c: "c = (client, call)" by force
  obtain reply st1 outs' where step: "http_step T R C H call st = Some (reply, st1)"
    and rest: "http_run T R C H calls st1 = Some (outs', st')" and outs: "outs = (client, reply) # outs'"
    using Cons.prems unfolding c by (auto split: bind_splits)
  have first: "session_entries (ms_session (hd_server st1)) = session_entries (ms_session (hd_server st)) @
      (case recorded_call H call of None \<Rightarrow> [] | Some e \<Rightarrow> [(length (ms_session (hd_server st)), e)])"
    by (rule http_step_entries [OF step])
  then have "length (ms_session (hd_server st1)) =
      length (ms_session (hd_server st)) + (case recorded_call H call of None \<Rightarrow> 0 | Some e \<Rightarrow> 1)"
    unfolding length_session_entries [symmetric] by (simp split: option.split)
  then show ?case
    using Cons.IH [OF rest] first by (simp add: c outs List.map_filter_simps split: option.splits)
qed


text \<open>Two clients of one server: what the first has called is the session of the second.\<close>

definition find_call :: json_rpc_request where
  "find_call =
     \<lparr>rq_jsonrpc = ''2.0'', rq_method = ''tools/call'',
      rq_params = Some (JObject [(''name'', JString ''nothing''), (''arguments'', JNull)]), rq_id = Some (JString ''1'')\<rparr>"

definition two_clients :: "(nat \<times> http_call) list" where
  "two_clients = [(1, PostMcp find_call), (2, GetHealth)]"


end
