(* ===== verification/Spec2Isabelle.thy ===== *)
theory Spec2Isabelle
  imports Mongo_Prelude Mongo_Values Buffer_Pool Frame Operations Codec Dispatch Priority_Queue
    Connection Pipeline_Refs Txn_Pipeline Tenant Mql_Validator Compiled_Cache Translator
    Analytics Ingest_Schema Ingest_Transform Ingest_Jobs Ingest_Engine Ingest_Concurrent
    Ingest_Lifecycle Ingest_Model_Functions Mcp_Context Mcp_Safety Mcp_Skills Mcp_Tools
    Mcp_Execute Mcp_Data Mcp_Schema Mcp_Server Connection_Pool Config Prefetch Voyage Search
    Grpc_Types Grpc_Service Grpc_Pipeline Grpc_Streams Grpc_Ingest Grpc_Calls Grpc_Demo
    Grpc_Polling Text_Lines Codegen_Names Codegen_Crud Codegen_Session Codegen_Query
    Mcp_Tool_Definitions Mcp_Tool_Contract Providers Web_Ui Startup Mcp_Calls Mcp_Demo
    Mcp_Read_Only Mcp_Pipeline Mcp_Bounds Mcp_Handler Mcp_Stdio Mcp_Http
begin

text \<open>
  A verification library for MongoCore, a sidecar that stands between applications and a MongoDB deployment.
  Every definition is translated from the Rust sources under \<open>src/src\<close> (written
  \<open>src/\<close> below); the theorems say what those definitions do.

  \<^bold>\<open>The program and its model.\<close> Applications reach the sidecar in four ways, which all
  end in the same operations on the database: frames on a socket (the binary transport), gRPC calls,
  JSON-RPC requests of the Model Context Protocol (MCP) over HTTP or stdio, and a dashboard. Beside them run
  ingestion jobs, which turn files into documents, and the translation of questions into queries with a
  language model and caches of its answers.

  \<^item> Shared vocabulary: \<open>Mongo_Prelude\<close> (results as sums, \<open>rbind\<close> for the
    question mark, words for machine integers, association lists, text functions on bytes),
    \<open>Mongo_Values\<close> (JSON and BSON values), \<open>Text_Lines\<close> (texts of several lines).
  \<^item> Binary transport: Frame (\<open>transport/frame.rs\<close>), Codec
    (\<open>transport/codec.rs\<close>), Dispatch (\<open>transport/dispatch.rs\<close>),
    \<open>Buffer_Pool\<close> (\<open>transport/buffer_pool.rs\<close>), \<open>Priority_Queue\<close> and
    Connection (\<open>transport/connection.rs\<close>), Prefetch (\<open>transport/prefetch.rs\<close>). A
    connection is a record of what has arrived, the queue, the held responses, what was written and the
    database; one run of its loop is \<open>conn_iter\<close>, and \<open>conn_step\<close> adds what the
    peer and the shutdown do.
  \<^item> Operations: Operations (\<open>operations/crud.rs\<close>, \<open>aggregation.rs\<close>,
    \<open>admin.rs\<close>, \<open>find_and_modify.rs\<close>, \<open>raw.rs\<close>,
    \<open>raw_validator.rs\<close>), \<open>Pipeline_Refs\<close> and \<open>Txn_Pipeline\<close> (the
    transaction pipeline with its references and retries), \<open>Connection_Pool\<close>
    (\<open>connection/pool.rs\<close>), Search (\<open>search/\<close>), Voyage (\<open>voyage/\<close>),
    Tenant (\<open>tenant/\<close>), Analytics (\<open>analytics/\<close>).
  \<^item> Compiled queries: \<open>Mql_Validator\<close>, \<open>Compiled_Cache\<close>, Translator,
    Providers (\<open>compiled/\<close>).
  \<^item> Ingestion: \<open>Ingest_Schema\<close>, \<open>Ingest_Transform\<close>,
    \<open>Ingest_Jobs\<close>, \<open>Ingest_Model_Functions\<close> for the parts,
    \<open>Ingest_Engine\<close> for the writers, \<open>Ingest_Concurrent\<close> and
    \<open>Ingest_Lifecycle\<close> for what holds of them (\<open>ingestion/\<close>).
  \<^item> gRPC: \<open>Grpc_Types\<close> (messages and conversions), \<open>Grpc_Service\<close> (the
    unary calls), \<open>Grpc_Pipeline\<close>, \<open>Grpc_Streams\<close> and \<open>Grpc_Ingest\<close>
    (the rest of \<open>grpc/service.rs\<close>), \<open>Grpc_Polling\<close> (how the futures of a pipeline
    are polled), \<open>Grpc_Calls\<close> (the theorems) and \<open>Grpc_Demo\<close> (a concrete service).
  \<^item> MCP: \<open>Mcp_Context\<close>, \<open>Mcp_Safety\<close>, \<open>Mcp_Skills\<close>; the tools
    in \<open>Mcp_Tools\<close>, \<open>Mcp_Execute\<close>, \<open>Mcp_Data\<close> and
    \<open>Mcp_Schema\<close>; \<open>Mcp_Server\<close> (\<open>execute_tool\<close> and the pipeline of
    tools); \<open>Mcp_Tool_Definitions\<close> (what is announced); the generators of client code in
    \<open>Codegen_Names\<close>, \<open>Codegen_Crud\<close>, \<open>Codegen_Session\<close> and
    \<open>Codegen_Query\<close> (\<open>mcp/codegen/\<close>), which \<open>with_code\<close> puts into the
    library of the tools; \<open>Mcp_Handler\<close>,
    \<open>Mcp_Http\<close> and \<open>Mcp_Stdio\<close> (\<open>mcp/handler.rs\<close>, \<open>mcp/server.rs\<close>,
    \<open>mcp/stdio.rs\<close>). Theorems about them are in
    \<open>Mcp_Calls\<close>, \<open>Mcp_Read_Only\<close>, \<open>Mcp_Pipeline\<close>,
    \<open>Mcp_Bounds\<close> and \<open>Mcp_Tool_Contract\<close>; \<open>Mcp_Demo\<close> is a concrete
    library.
  \<^item> The program as a whole: Config (\<open>config.rs\<close>), \<open>Web_Ui\<close>
    (\<open>web_ui/\<close>), Startup (\<open>main.rs\<close>, \<open>grpc/server.rs\<close>,
    \<open>transport/mod.rs\<close>, \<open>mcp/server.rs\<close>).

  \<^bold>\<open>How code becomes definitions.\<close> A struct is a record, an enum a datatype, a method a
  function that returns the new state, a \<open>Result\<close> a sum whose left side is the error. Where the
  code can panic the value is an option and a panic is \<open>None\<close>; where it may not end, it is a
  partial function (\<open>seq_loop\<close> of \<open>Ingest_Engine\<close>) or has no successful step
  (\<open>Stuck\<close> in Connection, \<open>poll_pass\<close> in \<open>Grpc_Polling\<close>). Tasks that
  run at the same time are step relations: the writers of an ingestion (\<open>conc_step\<close>), the
  callers of the embedder (\<open>embed_step\<close>), the stdio loop (\<open>stdio_step\<close>), a
  connection (\<open>conn_step\<close>), the life of the jobs (\<open>engine_reachable\<close>). No
  definition uses fuel: all other recursions end structurally or with a measure (the size of the bytes left,
  or the size of the arguments for pipelines of tools, which may be nested).

  Code outside the repository is a parameter, gathered in a record for each component: the driver, BSON and
  JSON libraries, the data frames, TOML, the template engine, the network, the clock, the digest, the file
  system and operations on floating-point numbers, which are bit patterns. The state of the outside world
  (the database, the files) is a type variable that these parameters read and change. Hypotheses about a
  parameter are named in the theorem that uses them, and its witness gives a concrete library that satisfies
  them. The order in which a hash map is iterated is a parameter too.

  \<^bold>\<open>What is shown.\<close>
  \<^item> Transport: frames survive writing and reading; nothing is read beyond a frame; raw documents are
    cut exactly at their boundaries; every canonical request parses back; a rejected request changes
    nothing; a burst of frames is served completely, by priority, with one reply each.
  \<^item> Operations: transaction pipelines are validated exactly, resolve references exactly and leave the
    data alone when they fail; tenants are isolated from each other in every interleaving; the rate limit is
    exact within its window.
  \<^item> gRPC: which transactions exist after any history; pipelines give every result once, at its place;
    an operation in a pipeline is the separate call without its record; document streams are the cursor in
    batches; and two operations of one transaction block a pipeline for ever.
  \<^item> Compiled queries: no query is answered that was not validated; validation accepts exactly the
    allowed queries; the caches together are one map and the memory cache is a list by last use.
  \<^item> Ingestion: rows become documents of the schema's types; the deduplicating writer ends; under
    every interleaving of the concurrent writers each row is settled once and all tasks end; transformations
    are read back from their text.
  \<^item> MCP: read-only mode keeps the data for the calls that are named; every announced tool enforces
    the arguments it announces; the tools that are announced are those that are executed; pipelines run each
    operation once; the record of the session is the history of
    the calls of all clients; the scripts of a session call what they declare
    only for the first operation of a name; completions over stdio time out.
  \<^item> The whole: arguments are a layer over the file of the configuration; \<open>main\<close> waits
    for an ending only when the binary transport is enabled.

  The contracts between components are locales: \<open>buffer_source\<close> (the buffers a reader asks
  for), \<open>priority_queue\<close> (what the connection relies on), \<open>query_store\<close> (what a
  level of the cache promises) and \<open>tenant_isolation\<close> (operations of one tenant do not touch
  the view of another), each interpreted on the definitions of the component that provides it.

  \<^bold>\<open>Abstractions.\<close> Strings are lists of bytes; the changes of case that the code makes
  on Unicode text are those of the ASCII letters. Lengths and counters that the code holds in 64 bits and
  only counts with are natural numbers; integers that are cut, wrap or cross an interface keep their width,
  with the wrap-around of a release build. An operation of a pipeline of tools or of a gRPC pipeline is one
  step, and the order of the steps is a parameter (\<open>tl_order\<close>, the schedule); what polling them
  on one task does beyond that is in \<open>Grpc_Polling\<close>. The bounds are those of the code (a
  hundred documents of a find, ten thousand operations of a pipeline, fifty steps of a transaction, batches
  of a hundred texts) and occur under their names.

  \<^bold>\<open>Not modelled.\<close> Log messages, the banner and the tracing exporter, which nothing
  reads back; the generated types of the protocol buffers, of which \<open>Grpc_Types\<close> has the
  messages the service uses; the routing of HTTP requests and the framing of gRPC, which are the web
  libraries'; the spawning of tasks and the notification of file events, which are the runtime's; the
  resources of the MCP server repeat the schema of the tools and share its definitions. The functions
  without a caller for counting the rows of a file, and the tests and benchmarks, are left out.
\<close>

end
